(* ===== verification/Prelude.thy ===== *)
theory Prelude
  imports Complex_Main "HOL-Library.Char_ord" "HOL-Library.List_Lexorder" "HOL-Library.Product_Lexorder"
    "HOL-Library.AList" "HOL-Library.Multiset"
begin

text \<open>
  Shared vocabulary of the Portex development: the fragment of Python's string library that the
  services use, Python's \<open>dict\<close> and sorting idioms, and the generic lemmas on them.

  A Python \<open>str\<close> is modelled by HOL's \<open>string\<close>, a list of characters, where one character is one
  code point below 256 (Latin-1). On this range \<open>str.lower\<close>, \<open>str.isspace\<close>, \<open>str.strip\<close> and the
  UTF-8 length below agree with CPython code point by code point. A \<open>datetime\<close> is an \<open>int\<close>: the
  number of microseconds since the epoch, in UTC. A Python \<open>int\<close> is an \<open>int\<close>, or a \<open>nat\<close> for
  indices and lengths that are never negative.
\<close>

named_theorems py_str \<open>evaluation rules of the Python string operations\<close>

type_synonym instant = int

section \<open>Time\<close>

text \<open>A \<open>datetime\<close> object: naive, or aware with its offset from UTC; and \<open>_to_utc_datetime\<close>.\<close>

datatype py_datetime = Naive int | Aware int int

fun to_utc_datetime :: "py_datetime \<Rightarrow> instant" where
  "to_utc_datetime (Naive t) = t"
| "to_utc_datetime (Aware t utc_offset) = t - utc_offset"

section \<open>Strings\<close>

definition py_lower_char :: "char \<Rightarrow> char" where
  "py_lower_char c =
     (let n = (of_char c :: nat) in
      if (65 \<le> n \<and> n \<le> 90) \<or> (192 \<le> n \<and> n \<le> 222 \<and> n \<noteq> 215) then char_of (n + 32) else c)"

definition py_lower :: "string \<Rightarrow> string" where
  "py_lower s = map py_lower_char s"

definition py_isspace_char :: "char \<Rightarrow> bool" where
  "py_isspace_char c =
     (let n = (of_char c :: nat) in
      (9 \<le> n \<and> n \<le> 13) \<or> (28 \<le> n \<and> n \<le> 32) \<or> n = 133 \<or> n = 160)"

definition py_isspace :: "string \<Rightarrow> bool" where
  "py_isspace s \<longleftrightarrow> s \<noteq> [] \<and> list_all py_isspace_char s"

definition py_lstrip :: "string \<Rightarrow> string" where
  "py_lstrip s = dropWhile py_isspace_char s"

definition py_rstrip :: "string \<Rightarrow> string" where
  "py_rstrip s = rev (dropWhile py_isspace_char (rev s))"

definition py_strip :: "string \<Rightarrow> string" where
  "py_strip s = py_rstrip (py_lstrip s)"

text \<open>A slice \<open>s[a:b]\<close> with bounds that are not negative.\<close>

definition py_slice :: "'a list \<Rightarrow> nat \<Rightarrow> nat \<Rightarrow> 'a list" where
  "py_slice s a b = take (b - a) (drop a s)"

definition py_startswith :: "string \<Rightarrow> string \<Rightarrow> bool" where
  "py_startswith s p \<longleftrightarrow> take (length p) s = p"

text \<open>\<open>len(s.encode("utf-8"))\<close>: one byte below 128, two below 256.\<close>

definition utf8_len :: "string \<Rightarrow> nat" where
  "utf8_len s = sum_list (map (\<lambda>c. if (of_char c :: nat) < 128 then 1 else 2) s)"

abbreviation newline :: char where
  "newline \<equiv> CHR 0x0A"

abbreviation tab :: char where
  "tab \<equiv> CHR 0x09"

text \<open>\<open>s.find(sub, start)\<close>: the least index of an occurrence that is not before \<open>start\<close>.\<close>

function py_find :: "string \<Rightarrow> string \<Rightarrow> nat \<Rightarrow> nat option" where
  "py_find s sub start =
     (if start + length sub \<le> length s
      then (if py_startswith (drop start s) sub then Some start else py_find s sub (Suc start))
      else None)"
  by pat_completeness auto
termination
  by (relation "measure (\<lambda>(s, sub, start). Suc (length s) - start)") auto

declare py_find.simps [simp del]

text \<open>\<open>int(s)\<close>: spaces around, a sign, and at most 4300 digits that single underscores may separate.\<close>

definition py_int_space :: "char \<Rightarrow> bool" where
  "py_int_space c = (let n = of_char c :: nat in (9 \<le> n \<and> n \<le> 13) \<or> n = 32 \<or> n = 133 \<or> n = 160)"

definition digit_value :: "char \<Rightarrow> nat option" where
  "digit_value c = (let n = of_char c :: nat in if 48 \<le> n \<and> n \<le> 57 then Some (n - 48) else None)"

fun py_digits :: "string \<Rightarrow> nat \<Rightarrow> nat option" where
  "py_digits [] acc = None"
| "py_digits [c] acc = map_option (\<lambda>d. acc * 10 + d) (digit_value c)"
| "py_digits (c # c' # cs) acc =
     (case digit_value c of
        None \<Rightarrow> None
      | Some d \<Rightarrow>
          if c' = CHR ''_'' then py_digits cs (acc * 10 + d) else py_digits (c' # cs) (acc * 10 + d))"

definition py_int :: "string \<Rightarrow> int option" where
  "py_int s =
     (let t = rev (dropWhile py_int_space (rev (dropWhile py_int_space s))) in
      if length (filter (\<lambda>c. digit_value c \<noteq> None) t) > 4300 then None
      else case t of
        [] \<Rightarrow> None
      | c # cs \<Rightarrow>
          if c = CHR ''-'' then map_option (\<lambda>n. - int n) (py_digits cs 0)
          else if c = CHR ''+'' then map_option int (py_digits cs 0)
          else map_option int (py_digits t 0))"

text \<open>\<open>str\<close> of an int.\<close>

fun nat_string :: "nat \<Rightarrow> string" where
  "nat_string n = (if n < 10 then [char_of (48 + n)] else nat_string (n div 10) @ [char_of (48 + n mod 10)])"

declare nat_string.simps [simp del]

definition int_string :: "int \<Rightarrow> string" where
  "int_string i = (if i < 0 then CHR ''-'' # nat_string (nat (- i)) else nat_string (nat i))"

text \<open>\<open>str.split\<close> with a separator of one character.\<close>

fun py_split :: "char \<Rightarrow> string \<Rightarrow> string list" where
  "py_split sep [] = [[]]"
| "py_split sep (c # cs) =
     (if c = sep then [] # py_split sep cs
      else (case py_split sep cs of [] \<Rightarrow> [[c]] | part # parts \<Rightarrow> (c # part) # parts))"

text \<open>\<open>s.encode("utf-8")\<close>, on characters below 256.\<close>

definition utf8_bytes :: "string \<Rightarrow> string" where
  "utf8_bytes s =
     concat (map (\<lambda>c. let n = of_char c :: nat in
       if n < 128 then [c] else [char_of (192 + n div 64), char_of (128 + n mod 64)]) s)"

subsection \<open>Lemmas on strings\<close>

lemma py_lower_length [simp]: "length (py_lower s) = length s"
  by (simp add: py_lower_def)

lemma py_lower_eq_Nil [simp]: "py_lower s = [] \<longleftrightarrow> s = []"
  by (simp add: py_lower_def)

lemma py_slice_length: "length (py_slice s a b) = min (b - a) (length s - a)"
  by (simp add: py_slice_def)

lemma py_slice_one [py_str]:
  "py_slice s a (Suc a) = (if a < length s then [s ! a] else [])"
  by (auto simp: py_slice_def Cons_nth_drop_Suc [symmetric])

lemma py_slice_two [py_str]:
  "py_slice s a (Suc (Suc a)) =
     (if Suc a < length s then [s ! a, s ! Suc a] else if a < length s then [s ! a] else [])"
proof -
  have "Suc (Suc a) - a = Suc (Suc 0)" by simp
  then show ?thesis
    by (cases "a < length s"; cases "Suc a < length s")
      (auto simp: py_slice_def Cons_nth_drop_Suc [symmetric])
qed

lemma py_isspace_Nil [simp]: "\<not> py_isspace []"
  by (simp add: py_isspace_def)

lemma py_isspace_single [simp]: "py_isspace [c] \<longleftrightarrow> py_isspace_char c"
  by (simp add: py_isspace_def)

lemma py_isspace_char_simps [simp]:
  "py_isspace_char (CHR '' '')" "py_isspace_char newline" "py_isspace_char tab"
  "\<not> py_isspace_char (CHR '':'')" "\<not> py_isspace_char (CHR ''-'')"
  by (simp_all add: py_isspace_char_def)

lemma py_startswith_length: "py_startswith s p \<Longrightarrow> length p \<le> length s"
  unfolding py_startswith_def by (metis length_take min.absorb_iff2 min.commute)

lemma py_startswith_iff: "py_startswith s p \<longleftrightarrow> (\<exists>r. s = p @ r)"
  unfolding py_startswith_def by (metis append_eq_conv_conj append_take_drop_id)

lemma py_find_SomeD:
  "py_find s sub start = Some i \<Longrightarrow>
   start \<le> i \<and> i + length sub \<le> length s \<and> py_startswith (drop i s) sub \<and>
   (\<forall>j. start \<le> j \<longrightarrow> j < i \<longrightarrow> \<not> py_startswith (drop j s) sub)"
proof (induction s sub start rule: py_find.induct)
  case (1 s sub start)
  show ?case
  proof (cases "start + length sub \<le> length s")
    case False
    with "1.prems" show ?thesis by (simp add: py_find.simps [of s sub start])
  next
    case inside: True
    show ?thesis
    proof (cases "py_startswith (drop start s) sub")
      case True
      with inside "1.prems" show ?thesis by (simp add: py_find.simps [of s sub start])
    next
      case False
      with inside "1.prems" have "py_find s sub (Suc start) = Some i"
        by (simp add: py_find.simps [of s sub start])
      from "1.IH" [OF inside False this] have IH: "Suc start \<le> i" "i + length sub \<le> length s"
        "py_startswith (drop i s) sub"
        "\<And>j. Suc start \<le> j \<Longrightarrow> j < i \<Longrightarrow> \<not> py_startswith (drop j s) sub"
        by blast+
      have "\<not> py_startswith (drop j s) sub" if "start \<le> j" "j < i" for j
        using that IH(4) [of j] False by (cases "j = start") auto
      with IH show ?thesis by auto
    qed
  qed
qed

lemma py_find_NoneD:
  "py_find s sub start = None \<Longrightarrow> start \<le> j \<Longrightarrow> j + length sub \<le> length s \<Longrightarrow>
   \<not> py_startswith (drop j s) sub"
proof (induction s sub start rule: py_find.induct)
  case (1 s sub start)
  then have inside: "start + length sub \<le> length s" by simp
  with "1.prems"(1) have miss: "\<not> py_startswith (drop start s) sub"
    by (simp add: py_find.simps [of s sub start] split: if_splits)
  with inside "1.prems"(1) have rest: "py_find s sub (Suc start) = None"
    by (simp add: py_find.simps [of s sub start])
  show ?case
    using "1.IH" [OF inside miss rest] "1.prems"(2,3) miss by (cases "j = start") auto
qed

lemma utf8_len_Nil [simp]: "utf8_len [] = 0"
  by (simp add: utf8_len_def)

lemma utf8_len_append [simp]: "utf8_len (s @ t) = utf8_len s + utf8_len t"
  by (simp add: utf8_len_def)

lemma utf8_len_ge: "length s \<le> utf8_len s"
  by (induction s) (auto simp: utf8_len_def)

lemma utf8_len_pos [simp]: "0 < utf8_len s \<longleftrightarrow> s \<noteq> []"
  using utf8_len_ge [of s] by (cases s) (auto simp: utf8_len_def)

lemma utf8_len_eq_0 [simp]: "utf8_len s = 0 \<longleftrightarrow> s = []"
  using utf8_len_pos [of s] by linarith

lemma py_split_none: "sep \<notin> set s \<Longrightarrow> py_split sep s = [s]"
  by (induction s) auto

lemma py_split_next: "sep \<notin> set s \<Longrightarrow> py_split sep (s @ sep # t) = s # py_split sep t"
  by (induction s) auto

lemma py_split_nonempty: "py_split sep s \<noteq> []"
  by (induction s) (auto split: list.splits)

section \<open>Pages of a list\<close>

text \<open>\<open>items[offset : offset + limit]\<close> together with \<open>(offset + limit) < len(items)\<close>.\<close>

lemma page_append:
  "take n (drop k xs) @ take m (drop (k + n) xs) = take (n + m) (drop k xs)"
  by (metis add.commute drop_drop take_add)

lemma set_page_subset: "set (take n (drop k xs)) \<subseteq> set xs"
  by (meson set_drop_subset set_take_subset subset_trans)

section \<open>Dictionaries\<close>

text \<open>
  A Python \<open>dict\<close> keeps its entries in insertion order, and an assignment to a key that is
  present keeps the key's place: an association list with the library's \<open>AList.update\<close>.
\<close>

type_synonym ('k, 'v) dict = "('k \<times> 'v) list"

abbreviation dict_get :: "('k, 'v) dict \<Rightarrow> 'k \<Rightarrow> 'v option" where
  "dict_get \<equiv> map_of"

abbreviation dict_set :: "'k \<Rightarrow> 'v \<Rightarrow> ('k, 'v) dict \<Rightarrow> ('k, 'v) dict" where
  "dict_set \<equiv> AList.update"

abbreviation dict_pop :: "'k \<Rightarrow> ('k, 'v) dict \<Rightarrow> ('k, 'v) dict" where
  "dict_pop \<equiv> AList.delete"

abbreviation dict_ok :: "('k, 'v) dict \<Rightarrow> bool" where
  "dict_ok d \<equiv> distinct (map fst d)"

definition dict_setdefault :: "'k \<Rightarrow> 'v \<Rightarrow> ('k, 'v) dict \<Rightarrow> ('k, 'v) dict" where
  "dict_setdefault k v d = (case dict_get d k of None \<Rightarrow> dict_set k v d | Some _ \<Rightarrow> d)"

text \<open>Lookups stay lookups: the simplifier shall not turn them into memberships.\<close>

declare map_of_eq_Some_iff [simp del] Some_eq_map_of_iff [simp del]

lemma dict_get_set [simp]: "dict_get (dict_set k v d) = (dict_get d)(k \<mapsto> v)"
  by (rule update_conv')

lemma dict_get_pop [simp]: "dict_get (dict_pop k d) = (dict_get d)(k := None)"
  by (rule delete_conv')

lemma dict_get_setdefault [simp]:
  "dict_get (dict_setdefault k v d) = (dict_get d)(k \<mapsto> (case dict_get d k of None \<Rightarrow> v | Some w \<Rightarrow> w))"
  by (auto simp: dict_setdefault_def split: option.splits)

lemma dict_ok_set [simp]: "dict_ok d \<Longrightarrow> dict_ok (dict_set k v d)"
  by (rule distinct_update)

lemma dict_ok_pop [simp]: "dict_ok d \<Longrightarrow> dict_ok (dict_pop k d)"
  by (rule distinct_delete)

lemma dict_ok_setdefault [simp]: "dict_ok d \<Longrightarrow> dict_ok (dict_setdefault k v d)"
  by (simp add: dict_setdefault_def split: option.splits)

lemma dict_items: "dict_ok d \<Longrightarrow> (k, v) \<in> set d \<longleftrightarrow> dict_get d k = Some v"
  by (simp add: map_of_eq_Some_iff)

end
