(* ===== verification/TerminalTypes.thy ===== *)
theory TerminalTypes
  imports Prelude
begin

text \<open>
  The data of the terminal subsystem (\<open>services/terminal_sessions.py\<close>): session records, history
  snapshots and their summaries and pages, and the values that a history search returns. The
  frozen dataclasses of the source are records; a field whose name the same theory already uses,
  or that is an Isabelle keyword, carries a prefix.
\<close>

datatype terminal_backend_name = Docker_container

datatype terminal_session_status = Created | Attached | Detached | Closed | Exited

datatype terminal_requested_mode = Mode_openai | Mode_host | Mode_container

datatype terminal_history_search_sort = Relevance | Newest | Oldest

text \<open>The exceptions of the module, with the messages its guards raise as constructors.\<close>

datatype terminal_error =
    TerminalBackendUnsupportedError
  | TerminalBackendDisabledError
  | TerminalSessionConflictError
  | TerminalSessionNotFoundError
  | TerminalSessionOwnershipError
  | BridgeError
  | ValueError string

record terminal_session_record =
  session_id :: string
  group_id :: string
  group_folder :: string
  owner_user_id :: string
  backend :: terminal_backend_name
  container_name :: "string option"
  status :: terminal_session_status
  created_at :: instant
  last_attached_at :: "instant option"
  reconnect_deadline :: "instant option"

record history_snapshot =
  snap_record :: terminal_session_record
  snapshot_at :: instant
  snap_output :: string
  output_bytes :: int
  history_max_bytes :: int
  truncated :: bool

record history_summary =
  sum_record :: terminal_session_record
  sum_snapshot_at :: instant
  sum_output_bytes :: int
  sum_history_max_bytes :: int
  sum_truncated :: bool

record 'a history_page =
  page_limit :: int
  page_offset :: int
  page_total :: int
  page_has_more :: bool
  page_items :: "'a list"

record history_search_snippet =
  snippet_text :: string
  match_index :: nat
  match_offset :: nat

record history_search_match =
  match_record :: terminal_session_record
  match_snapshot_at :: instant
  match_count :: int
  snippets :: "string list"
  snippet_matches :: "history_search_snippet list"

definition active_recoverable_statuses :: "terminal_session_status set" where
  "active_recoverable_statuses = {Created, Attached, Detached}"

definition terminal_archive_statuses :: "terminal_session_status set" where
  "terminal_archive_statuses = {Closed, Exited}"

lemma recoverable_or_archived:
  "st \<in> active_recoverable_statuses \<longleftrightarrow> st \<notin> terminal_archive_statuses"
  by (cases st) (auto simp: active_recoverable_statuses_def terminal_archive_statuses_def)

definition to_history_summary :: "history_snapshot \<Rightarrow> history_summary" where
  "to_history_summary s =
     \<lparr>sum_record = snap_record s, sum_snapshot_at = snapshot_at s,
      sum_output_bytes = output_bytes s, sum_history_max_bytes = history_max_bytes s,
      sum_truncated = truncated s\<rparr>"

end
