(* ===== verification/TerminalMatch.thy ===== *)
theory TerminalMatch
  imports Prelude
begin

text \<open>
  The hit classifiers of the terminal history search (\<open>services/terminal_sessions.py\<close>, the
  static methods \<open>_is_...\<close> of \<open>TerminalSessionService\<close>). A hit is an offset of the query in
  the text; each classifier looks at the characters around it. Offsets are the results of
  \<open>str.find\<close>, hence natural numbers, so the code's guard \<open>start < 0\<close> never fires and is left
  out. The definitions keep the code's names (without the leading underscore), its order of
  guards and its early returns.

  The theory ends with the facts the ranking rests on: which classifiers imply which, that a
  tagged hit has exactly one kind of wrapper, and that a plain tagged hit has exactly one kind of
  separator after its tag.
\<close>

section \<open>Word and line boundaries\<close>

definition is_word_char :: "char \<Rightarrow> bool" where
  "is_word_char c \<longleftrightarrow>
     (CHR ''a'' \<le> c \<and> c \<le> CHR ''z'') \<or> (CHR ''A'' \<le> c \<and> c \<le> CHR ''Z'') \<or>
     (CHR ''0'' \<le> c \<and> c \<le> CHR ''9'') \<or> c = CHR ''_''"

definition is_whole_word_match :: "string \<Rightarrow> nat \<Rightarrow> nat \<Rightarrow> bool" where
  "is_whole_word_match text offset query_length =
     (let start = offset; end' = offset + query_length in
      if end' > length text then False
      else
        let prev_char = (if start > 0 then Some (text ! (start - 1)) else None);
            next_char = (if end' < length text then Some (text ! end') else None);
            prev_is_word_char = (case prev_char of None \<Rightarrow> False | Some c \<Rightarrow> is_word_char c);
            next_is_word_char = (case next_char of None \<Rightarrow> False | Some c \<Rightarrow> is_word_char c)
        in \<not> prev_is_word_char \<and> \<not> next_is_word_char)"

definition is_line_start_whole_word_match :: "string \<Rightarrow> nat \<Rightarrow> nat \<Rightarrow> bool" where
  "is_line_start_whole_word_match text offset query_length =
     (if \<not> is_whole_word_match text offset query_length then False
      else offset = 0 \<or> text ! (offset - 1) = newline)"

section \<open>Log markers\<close>

definition is_line_start_log_marker_match :: "string \<Rightarrow> nat \<Rightarrow> nat \<Rightarrow> bool" where
  "is_line_start_log_marker_match text offset query_length =
     (if \<not> is_line_start_whole_word_match text offset query_length then False
      else
        let end' = offset + query_length in
        py_slice text end' (end' + 1) = '':'' \<or> py_slice text end' (end' + 2) = '' -'')"

definition is_line_start_delimited_log_marker_match :: "string \<Rightarrow> nat \<Rightarrow> nat \<Rightarrow> bool" where
  "is_line_start_delimited_log_marker_match text offset query_length =
     (if \<not> is_line_start_log_marker_match text offset query_length then False
      else
        let end' = offset + query_length;
            after = (\<lambda>trailing_offset. trailing_offset \<ge> length text \<or>
                                       py_isspace [text ! trailing_offset])
        in
        if py_slice text end' (end' + 1) = '':'' then after (end' + 1)
        else if py_slice text end' (end' + 2) = '' -'' then after (end' + 2)
        else False)"

section \<open>Wrappers and tags\<close>

definition line_start_punctuation_wrap_pairs :: "char \<Rightarrow> char option" where
  "line_start_punctuation_wrap_pairs c =
     (if c = CHR ''['' then Some (CHR '']'')
      else if c = CHR ''('' then Some (CHR '')'')
      else if c = CHR ''{'' then Some (CHR ''}'')
      else if c = CHR ''<'' then Some (CHR ''>'')
      else None)"

definition is_line_start_punctuation_wrap_match :: "string \<Rightarrow> nat \<Rightarrow> nat \<Rightarrow> bool" where
  "is_line_start_punctuation_wrap_match text offset query_length =
     (if \<not> is_whole_word_match text offset query_length then False
      else if offset \<le> 0 then False
      else
        (case line_start_punctuation_wrap_pairs (text ! (offset - 1)) of
           None \<Rightarrow> False
         | Some closing \<Rightarrow>
             let opening_offset = offset - 1 in
             if opening_offset \<noteq> 0 \<and> text ! (opening_offset - 1) \<noteq> newline then False
             else let end' = offset + query_length in py_slice text end' (end' + 1) = [closing]))"

definition blank_or_end :: "string \<Rightarrow> bool" where
  "blank_or_end after \<longleftrightarrow> after = [] \<or> py_isspace after"

definition is_line_start_exact_tag_match :: "string \<Rightarrow> nat \<Rightarrow> nat \<Rightarrow> bool" where
  "is_line_start_exact_tag_match text offset query_length =
     (if \<not> is_line_start_punctuation_wrap_match text offset query_length then False
      else
        let trailing_offset = offset + query_length + 1 in
        if trailing_offset \<ge> length text then True
        else
          let trailing_char = text ! trailing_offset in
          if py_isspace [trailing_char] then True
          else if trailing_char = CHR '':''
            then blank_or_end (py_slice text (trailing_offset + 1) (trailing_offset + 2))
          else if py_slice text trailing_offset (trailing_offset + 2) = '' -''
            then blank_or_end (py_slice text (trailing_offset + 2) (trailing_offset + 3))
          else False)"

definition is_line_start_exact_tag_marker_match :: "string \<Rightarrow> nat \<Rightarrow> nat \<Rightarrow> bool" where
  "is_line_start_exact_tag_marker_match text offset query_length =
     (if \<not> is_line_start_exact_tag_match text offset query_length then False
      else
        let trailing_offset = offset + query_length + 1 in
        if py_slice text trailing_offset (trailing_offset + 1) = '':''
          then blank_or_end (py_slice text (trailing_offset + 1) (trailing_offset + 2))
        else if py_slice text trailing_offset (trailing_offset + 2) = '' -''
          then blank_or_end (py_slice text (trailing_offset + 2) (trailing_offset + 3))
        else False)"

definition is_line_start_exact_tag_colon_marker_match :: "string \<Rightarrow> nat \<Rightarrow> nat \<Rightarrow> bool" where
  "is_line_start_exact_tag_colon_marker_match text offset query_length =
     (if \<not> is_line_start_exact_tag_marker_match text offset query_length then False
      else
        let trailing_offset = offset + query_length + 1 in
        if py_slice text trailing_offset (trailing_offset + 1) \<noteq> '':'' then False
        else blank_or_end (py_slice text (trailing_offset + 1) (trailing_offset + 2)))"

text \<open>\<open>text[offset - 1 : offset] == opening and text[end : end + 1] == closing\<close>.\<close>

definition wrapped_in :: "string \<Rightarrow> string \<Rightarrow> string \<Rightarrow> nat \<Rightarrow> nat \<Rightarrow> bool" where
  "wrapped_in opening closing text offset query_length \<longleftrightarrow>
     py_slice text (offset - 1) offset = opening \<and>
     py_slice text (offset + query_length) (offset + query_length + 1) = closing"

definition is_line_start_square_bracket_exact_tag_match :: "string \<Rightarrow> nat \<Rightarrow> nat \<Rightarrow> bool" where
  "is_line_start_square_bracket_exact_tag_match text offset query_length =
     (if \<not> is_line_start_exact_tag_match text offset query_length then False
      else wrapped_in ''['' '']'' text offset query_length)"

definition is_line_start_square_bracket_plain_exact_tag_match ::
  "string \<Rightarrow> nat \<Rightarrow> nat \<Rightarrow> bool" where
  "is_line_start_square_bracket_plain_exact_tag_match text offset query_length =
     (if \<not> is_line_start_square_bracket_exact_tag_match text offset query_length then False
      else if is_line_start_exact_tag_marker_match text offset query_length then False
      else True)"

definition is_line_start_angle_wrapper_plain_exact_tag_match ::
  "string \<Rightarrow> nat \<Rightarrow> nat \<Rightarrow> bool" where
  "is_line_start_angle_wrapper_plain_exact_tag_match text offset query_length =
     (if \<not> is_line_start_exact_tag_match text offset query_length then False
      else if is_line_start_exact_tag_marker_match text offset query_length then False
      else wrapped_in ''<'' ''>'' text offset query_length)"

definition is_line_start_paren_wrapper_plain_exact_tag_match ::
  "string \<Rightarrow> nat \<Rightarrow> nat \<Rightarrow> bool" where
  "is_line_start_paren_wrapper_plain_exact_tag_match text offset query_length =
     (if \<not> is_line_start_exact_tag_match text offset query_length then False
      else if is_line_start_exact_tag_marker_match text offset query_length then False
      else wrapped_in ''('' '')'' text offset query_length)"

definition is_line_start_brace_wrapper_plain_exact_tag_match ::
  "string \<Rightarrow> nat \<Rightarrow> nat \<Rightarrow> bool" where
  "is_line_start_brace_wrapper_plain_exact_tag_match text offset query_length =
     (if \<not> is_line_start_exact_tag_match text offset query_length then False
      else if is_line_start_exact_tag_marker_match text offset query_length then False
      else wrapped_in ''{'' ''}'' text offset query_length)"

section \<open>Marker classifiers by wrapper\<close>

definition is_line_start_square_bracket_exact_tag_dash_marker_match ::
  "string \<Rightarrow> nat \<Rightarrow> nat \<Rightarrow> bool" where
  "is_line_start_square_bracket_exact_tag_dash_marker_match text offset query_length =
     (if \<not> is_line_start_exact_tag_marker_match text offset query_length then False
      else if \<not> is_line_start_square_bracket_exact_tag_match text offset query_length then False
      else
        let trailing_offset = offset + query_length + 1 in
        if py_slice text trailing_offset (trailing_offset + 2) \<noteq> '' -'' then False
        else blank_or_end (py_slice text (trailing_offset + 2) (trailing_offset + 3)))"

definition is_line_start_paren_wrapper_marker_match :: "string \<Rightarrow> nat \<Rightarrow> nat \<Rightarrow> bool" where
  "is_line_start_paren_wrapper_marker_match text offset query_length =
     (if \<not> is_line_start_exact_tag_marker_match text offset query_length then False
      else wrapped_in ''('' '')'' text offset query_length)"

definition is_line_start_brace_wrapper_marker_match :: "string \<Rightarrow> nat \<Rightarrow> nat \<Rightarrow> bool" where
  "is_line_start_brace_wrapper_marker_match text offset query_length =
     (if \<not> is_line_start_exact_tag_marker_match text offset query_length then False
      else wrapped_in ''{'' ''}'' text offset query_length)"

definition is_line_start_non_square_bracket_exact_tag_colon_marker_match ::
  "string \<Rightarrow> nat \<Rightarrow> nat \<Rightarrow> bool" where
  "is_line_start_non_square_bracket_exact_tag_colon_marker_match text offset query_length =
     (if \<not> is_line_start_exact_tag_colon_marker_match text offset query_length then False
      else if is_line_start_square_bracket_exact_tag_match text offset query_length then False
      else True)"

definition is_line_start_non_square_bracket_exact_tag_dash_marker_match ::
  "string \<Rightarrow> nat \<Rightarrow> nat \<Rightarrow> bool" where
  "is_line_start_non_square_bracket_exact_tag_dash_marker_match text offset query_length =
     (if \<not> is_line_start_exact_tag_marker_match text offset query_length then False
      else if is_line_start_square_bracket_exact_tag_match text offset query_length then False
      else
        let trailing_offset = offset + query_length + 1 in
        if py_slice text trailing_offset (trailing_offset + 2) \<noteq> '' -'' then False
        else blank_or_end (py_slice text (trailing_offset + 2) (trailing_offset + 3)))"

section \<open>The separator after a plain tag\<close>

text \<open>
  The two cursor loops over the rest of the line. The first returns \<open>False\<close> at a character that
  is not blank and \<open>True\<close> at the end of the line; the second returns the opposite.
\<close>

function rest_of_line_blank :: "string \<Rightarrow> nat \<Rightarrow> bool" where
  "rest_of_line_blank text cursor =
     (if cursor < length text \<and> text ! cursor \<noteq> newline
      then (if \<not> py_isspace [text ! cursor] then False
            else rest_of_line_blank text (cursor + 1))
      else True)"
  by pat_completeness auto
termination
  by (relation "measure (\<lambda>(text, cursor). length text - cursor)") auto

function rest_of_line_has_payload :: "string \<Rightarrow> nat \<Rightarrow> bool" where
  "rest_of_line_has_payload text cursor =
     (if cursor < length text \<and> text ! cursor \<noteq> newline
      then (if \<not> py_isspace [text ! cursor] then True
            else rest_of_line_has_payload text (cursor + 1))
      else False)"
  by pat_completeness auto
termination
  by (relation "measure (\<lambda>(text, cursor). length text - cursor)") auto

declare rest_of_line_blank.simps [simp del] rest_of_line_has_payload.simps [simp del]

definition is_line_start_plain_exact_tag_single_space_separator_match ::
  "string \<Rightarrow> nat \<Rightarrow> nat \<Rightarrow> bool" where
  "is_line_start_plain_exact_tag_single_space_separator_match text offset query_length =
     (if \<not> is_line_start_exact_tag_match text offset query_length then False
      else if is_line_start_exact_tag_marker_match text offset query_length then False
      else
        let separator_offset = offset + query_length + 1 in
        if py_slice text separator_offset (separator_offset + 1) \<noteq> '' '' then False
        else
          let next_char = py_slice text (separator_offset + 1) (separator_offset + 2) in
          next_char \<noteq> [] \<and> \<not> py_isspace next_char)"

definition is_line_start_plain_exact_tag_payloadless_separator_match ::
  "string \<Rightarrow> nat \<Rightarrow> nat \<Rightarrow> bool" where
  "is_line_start_plain_exact_tag_payloadless_separator_match text offset query_length =
     (if \<not> is_line_start_exact_tag_match text offset query_length then False
      else if is_line_start_exact_tag_marker_match text offset query_length then False
      else
        let separator_offset = offset + query_length + 1 in
        if separator_offset \<ge> length text then True
        else rest_of_line_blank text separator_offset)"

definition is_line_start_non_single_space_plain_exact_tag_separator_match ::
  "string \<Rightarrow> nat \<Rightarrow> nat \<Rightarrow> bool" where
  "is_line_start_non_single_space_plain_exact_tag_separator_match text offset query_length =
     (if \<not> is_line_start_exact_tag_match text offset query_length then False
      else if is_line_start_exact_tag_marker_match text offset query_length then False
      else if is_line_start_plain_exact_tag_single_space_separator_match text offset query_length
        then False
      else True)"

definition is_line_start_plain_exact_tag_tab_prefixed_payload_match ::
  "string \<Rightarrow> nat \<Rightarrow> nat \<Rightarrow> bool" where
  "is_line_start_plain_exact_tag_tab_prefixed_payload_match text offset query_length =
     (if \<not> is_line_start_exact_tag_match text offset query_length then False
      else if is_line_start_exact_tag_marker_match text offset query_length then False
      else if is_line_start_plain_exact_tag_payloadless_separator_match text offset query_length
        then False
      else
        let separator_offset = offset + query_length + 1 in
        if py_slice text separator_offset (separator_offset + 1) \<noteq> [tab] then False
        else rest_of_line_has_payload text separator_offset)"

definition is_line_start_plain_exact_tag_multi_space_payload_match ::
  "string \<Rightarrow> nat \<Rightarrow> nat \<Rightarrow> bool" where
  "is_line_start_plain_exact_tag_multi_space_payload_match text offset query_length =
     (if \<not> is_line_start_exact_tag_match text offset query_length then False
      else if is_line_start_exact_tag_marker_match text offset query_length then False
      else if is_line_start_plain_exact_tag_payloadless_separator_match text offset query_length
        then False
      else if is_line_start_plain_exact_tag_tab_prefixed_payload_match text offset query_length
        then False
      else
        let separator_offset = offset + query_length + 1 in
        if py_slice text separator_offset (separator_offset + 1) \<noteq> '' '' then False
        else if py_slice text (separator_offset + 1) (separator_offset + 2) \<noteq> '' '' then False
        else rest_of_line_has_payload text separator_offset)"

definition is_line_start_plain_exact_tag_space_prefixed_mixed_whitespace_payload_match ::
  "string \<Rightarrow> nat \<Rightarrow> nat \<Rightarrow> bool" where
  "is_line_start_plain_exact_tag_space_prefixed_mixed_whitespace_payload_match
     text offset query_length =
     (if \<not> is_line_start_exact_tag_match text offset query_length then False
      else if is_line_start_exact_tag_marker_match text offset query_length then False
      else if is_line_start_plain_exact_tag_payloadless_separator_match text offset query_length
        then False
      else if is_line_start_plain_exact_tag_tab_prefixed_payload_match text offset query_length
        then False
      else if is_line_start_plain_exact_tag_multi_space_payload_match text offset query_length
        then False
      else
        let separator_offset = offset + query_length + 1 in
        if py_slice text separator_offset (separator_offset + 1) \<noteq> '' '' then False
        else
          let second_separator = py_slice text (separator_offset + 1) (separator_offset + 2) in
          if second_separator = [] \<or> \<not> py_isspace second_separator \<or> second_separator = '' ''
          then False
          else rest_of_line_has_payload text separator_offset)"

definition is_line_start_plain_exact_tag_other_leading_whitespace_payload_match ::
  "string \<Rightarrow> nat \<Rightarrow> nat \<Rightarrow> bool" where
  "is_line_start_plain_exact_tag_other_leading_whitespace_payload_match text offset query_length =
     (if \<not> is_line_start_exact_tag_match text offset query_length then False
      else if is_line_start_exact_tag_marker_match text offset query_length then False
      else if is_line_start_plain_exact_tag_payloadless_separator_match text offset query_length
        then False
      else if is_line_start_plain_exact_tag_tab_prefixed_payload_match text offset query_length
        then False
      else if is_line_start_plain_exact_tag_multi_space_payload_match text offset query_length
        then False
      else if is_line_start_plain_exact_tag_space_prefixed_mixed_whitespace_payload_match
                text offset query_length
        then False
      else
        let separator_offset = offset + query_length + 1;
            leading = py_slice text separator_offset (separator_offset + 1)
        in
        if leading = [] \<or> \<not> py_isspace leading \<or> leading \<in> {'' '', [tab]} then False
        else rest_of_line_has_payload text separator_offset)"

definition is_line_start_plain_exact_tag_other_leading_mixed_whitespace_payload_match ::
  "string \<Rightarrow> nat \<Rightarrow> nat \<Rightarrow> bool" where
  "is_line_start_plain_exact_tag_other_leading_mixed_whitespace_payload_match
     text offset query_length =
     (if \<not> is_line_start_plain_exact_tag_other_leading_whitespace_payload_match
             text offset query_length
      then False
      else
        let separator_offset = offset + query_length + 1;
            second_separator = py_slice text (separator_offset + 1) (separator_offset + 2)
        in second_separator \<noteq> [] \<and> py_isspace second_separator)"

section \<open>The loops over the rest of the line\<close>

lemma rest_of_line_has_payload_not_blank:
  "rest_of_line_has_payload t i \<longleftrightarrow> \<not> rest_of_line_blank t i"
proof (induction t i rule: rest_of_line_blank.induct)
  case (1 t i)
  then show ?case
    by (subst rest_of_line_blank.simps, subst rest_of_line_has_payload.simps) auto
qed

text \<open>The loop decides that every character up to the end of the line is blank.\<close>

lemma rest_of_line_blank_iff:
  "rest_of_line_blank t i \<longleftrightarrow>
   list_all py_isspace_char (takeWhile (\<lambda>c. c \<noteq> newline) (drop i t))"
proof (induction t i rule: rest_of_line_blank.induct)
  case (1 t i)
  show ?case
  proof (cases "i < length t")
    case True
    then have "drop i t = t ! i # drop (Suc i) t"
      by (simp add: Cons_nth_drop_Suc)
    with 1 True show ?thesis by (simp add: rest_of_line_blank.simps [of t i])
  next
    case False
    then show ?thesis by (simp add: rest_of_line_blank.simps [of t i])
  qed
qed

lemma rest_of_line_blank_here:
  "i < length t \<Longrightarrow> t ! i \<noteq> newline \<Longrightarrow>
   rest_of_line_blank t i \<longleftrightarrow> py_isspace_char (t ! i) \<and> rest_of_line_blank t (Suc i)"
  by (simp add: rest_of_line_blank.simps [of t i])

lemma rest_of_line_blank_stop:
  "length t \<le> i \<or> t ! i = newline \<Longrightarrow> rest_of_line_blank t i"
  by (auto simp: rest_of_line_blank.simps [of t i])

lemma rest_of_line_payload_inside:
  assumes "\<not> rest_of_line_blank t i"
  shows "i < length t" "t ! i \<noteq> newline"
  using assms rest_of_line_blank_stop [of t i] by (meson not_le, blast)

section \<open>Implications between the classifiers\<close>

lemmas classifier_defs =
  is_line_start_whole_word_match_def is_line_start_log_marker_match_def
  is_line_start_delimited_log_marker_match_def is_line_start_exact_tag_marker_match_def
  is_line_start_exact_tag_colon_marker_match_def is_line_start_square_bracket_exact_tag_match_def
  is_line_start_square_bracket_plain_exact_tag_match_def
  is_line_start_angle_wrapper_plain_exact_tag_match_def
  is_line_start_paren_wrapper_plain_exact_tag_match_def
  is_line_start_brace_wrapper_plain_exact_tag_match_def
  is_line_start_square_bracket_exact_tag_dash_marker_match_def
  is_line_start_paren_wrapper_marker_match_def is_line_start_brace_wrapper_marker_match_def
  is_line_start_non_square_bracket_exact_tag_colon_marker_match_def
  is_line_start_non_square_bracket_exact_tag_dash_marker_match_def

lemmas separator_defs =
  is_line_start_plain_exact_tag_single_space_separator_match_def
  is_line_start_plain_exact_tag_payloadless_separator_match_def
  is_line_start_plain_exact_tag_tab_prefixed_payload_match_def
  is_line_start_plain_exact_tag_multi_space_payload_match_def
  is_line_start_plain_exact_tag_space_prefixed_mixed_whitespace_payload_match_def
  is_line_start_plain_exact_tag_other_leading_whitespace_payload_match_def

lemma line_start_is_whole_word:
  "is_line_start_whole_word_match t i q \<Longrightarrow> is_whole_word_match t i q"
  by (simp add: is_line_start_whole_word_match_def split: if_splits)

lemma log_marker_is_line_start:
  "is_line_start_log_marker_match t i q \<Longrightarrow> is_line_start_whole_word_match t i q"
  by (simp add: is_line_start_log_marker_match_def split: if_splits)

lemma delimited_is_log_marker:
  "is_line_start_delimited_log_marker_match t i q \<Longrightarrow> is_line_start_log_marker_match t i q"
  by (simp add: is_line_start_delimited_log_marker_match_def split: if_splits)

lemma wrap_is_whole_word:
  "is_line_start_punctuation_wrap_match t i q \<Longrightarrow> is_whole_word_match t i q"
  by (simp add: is_line_start_punctuation_wrap_match_def split: if_splits)

lemma exact_tag_is_wrap:
  "is_line_start_exact_tag_match t i q \<Longrightarrow> is_line_start_punctuation_wrap_match t i q"
  by (simp add: is_line_start_exact_tag_match_def split: if_splits)

lemma marker_is_exact_tag:
  "is_line_start_exact_tag_marker_match t i q \<Longrightarrow> is_line_start_exact_tag_match t i q"
  by (simp add: is_line_start_exact_tag_marker_match_def split: if_splits)

lemma colon_marker_is_marker:
  "is_line_start_exact_tag_colon_marker_match t i q \<Longrightarrow> is_line_start_exact_tag_marker_match t i q"
  by (simp add: is_line_start_exact_tag_colon_marker_match_def split: if_splits)

text \<open>A hit at the start of a line is not a hit inside a wrapper.\<close>

lemma line_start_not_wrap:
  "is_line_start_whole_word_match t i q \<Longrightarrow> \<not> is_line_start_punctuation_wrap_match t i q"
  by (auto simp: is_line_start_whole_word_match_def is_line_start_punctuation_wrap_match_def
      line_start_punctuation_wrap_pairs_def Let_def split: if_splits)

section \<open>The shape of a tagged hit\<close>

lemma wrap_shape:
  assumes "is_line_start_punctuation_wrap_match t i q"
  shows "0 < i \<and> i + q < length t \<and>
    (\<exists>closing. line_start_punctuation_wrap_pairs (t ! (i - 1)) = Some closing \<and> t ! (i + q) = closing) \<and>
    (i = 1 \<or> t ! (i - 2) = newline)"
  using assms
  by (auto simp: is_line_start_punctuation_wrap_match_def Let_def py_slice_one numeral_2_eq_2
      split: if_splits option.splits)

lemma wrapped_in_single:
  "0 < i \<Longrightarrow> i + q < length t \<Longrightarrow>
   wrapped_in [a] [b] t i q \<longleftrightarrow> t ! (i - 1) = a \<and> t ! (i + q) = b"
  by (cases i) (auto simp: wrapped_in_def py_slice_one)

text \<open>A plain tagged hit: the tag ends the text, or the next character is blank.\<close>

lemma plain_tag_separator:
  assumes "is_line_start_exact_tag_match t i q" "\<not> is_line_start_exact_tag_marker_match t i q"
  shows "i + q + 1 \<ge> length t \<or> py_isspace_char (t ! (i + q + 1))"
  using assms
  by (auto simp: is_line_start_exact_tag_match_def is_line_start_exact_tag_marker_match_def
      Let_def py_str split: if_splits)

section \<open>Exactly one wrapper, exactly one separator\<close>

lemma one_wrapper:
  assumes "is_line_start_exact_tag_match t i q"
  shows "length (filter (\<lambda>(a, b). wrapped_in a b t i q)
           [(''['', '']''), (''('', '')''), (''{'', ''}''), (''<'', ''>'')]) = 1"
  using wrap_shape [OF exact_tag_is_wrap [OF assms]]
  by (auto simp: wrapped_in_single line_start_punctuation_wrap_pairs_def split: if_splits)

text \<open>The six separator classifiers of a plain tagged hit, read off the characters after the tag.\<close>

lemma plain_tag_separators:
  assumes tag: "is_line_start_exact_tag_match t i q"
    and plain: "\<not> is_line_start_exact_tag_marker_match t i q"
  defines "s \<equiv> i + q + 1"
  shows
    "is_line_start_plain_exact_tag_single_space_separator_match t i q \<longleftrightarrow>
       Suc s < length t \<and> t ! s = CHR '' '' \<and> \<not> py_isspace_char (t ! Suc s)"
    "is_line_start_plain_exact_tag_payloadless_separator_match t i q \<longleftrightarrow> rest_of_line_blank t s"
    "is_line_start_plain_exact_tag_tab_prefixed_payload_match t i q \<longleftrightarrow>
       \<not> rest_of_line_blank t s \<and> s < length t \<and> t ! s = tab"
    "is_line_start_plain_exact_tag_multi_space_payload_match t i q \<longleftrightarrow>
       \<not> rest_of_line_blank t s \<and> Suc s < length t \<and> t ! s = CHR '' '' \<and> t ! Suc s = CHR '' ''"
    "is_line_start_plain_exact_tag_space_prefixed_mixed_whitespace_payload_match t i q \<longleftrightarrow>
       \<not> rest_of_line_blank t s \<and> Suc s < length t \<and> t ! s = CHR '' '' \<and>
       py_isspace_char (t ! Suc s) \<and> t ! Suc s \<noteq> CHR '' ''"
    "is_line_start_plain_exact_tag_other_leading_whitespace_payload_match t i q \<longleftrightarrow>
       \<not> rest_of_line_blank t s \<and> s < length t \<and> py_isspace_char (t ! s) \<and>
       t ! s \<noteq> CHR '' '' \<and> t ! s \<noteq> tab"
  using tag plain rest_of_line_blank_stop [of t s]
  by (auto simp: separator_defs s_def Let_def py_str rest_of_line_has_payload_not_blank
      split: if_splits)

text \<open>A hit inside a wrapped tag at the start of a line that carries no marker has exactly one
separator class: single space with payload, no payload, tab, several spaces, space and other
blanks, or other leading blanks. The classes are disjoint and leave nothing out.\<close>

lemma one_separator:
  assumes "is_line_start_exact_tag_match t i q" "\<not> is_line_start_exact_tag_marker_match t i q"
  shows "length (filter (\<lambda>P. P t i q)
           [is_line_start_plain_exact_tag_single_space_separator_match,
            is_line_start_plain_exact_tag_payloadless_separator_match,
            is_line_start_plain_exact_tag_tab_prefixed_payload_match,
            is_line_start_plain_exact_tag_multi_space_payload_match,
            is_line_start_plain_exact_tag_space_prefixed_mixed_whitespace_payload_match,
            is_line_start_plain_exact_tag_other_leading_whitespace_payload_match]) = 1"
proof -
  define s where "s = i + q + 1"
  note sep = plain_tag_separators [OF assms, folded s_def]
  have lead: "length t \<le> s \<or> py_isspace_char (t ! s)"
    using plain_tag_separator [OF assms] by (simp add: s_def)
  have payload: "py_isspace_char (t ! s)" "t ! s \<noteq> newline" "s < length t"
    "\<not> rest_of_line_blank t (Suc s)" if "\<not> rest_of_line_blank t s"
  proof -
    show inside: "t ! s \<noteq> newline" "s < length t"
      using that by (auto dest: rest_of_line_payload_inside)
    show "py_isspace_char (t ! s)" using lead inside by auto
    then show "\<not> rest_of_line_blank t (Suc s)"
      using that rest_of_line_blank_here [OF inside(2,1)] by simp
  qed
  have next_char: "\<not> rest_of_line_blank t s"
    if "Suc s < length t" "t ! s = CHR '' ''" "\<not> py_isspace_char (t ! Suc s)"
    using that rest_of_line_blank_here [of s t] rest_of_line_blank_here [of "Suc s" t]
    by (cases "t ! Suc s = newline") auto
  have more: "Suc s < length t" if "\<not> rest_of_line_blank t s"
    using payload(4) [OF that] rest_of_line_blank_stop [of t "Suc s"] by linarith
  show ?thesis
    using sep payload next_char more by (cases "rest_of_line_blank t s") auto
qed

lemma one_separator_witness:
  "is_line_start_exact_tag_match ''[err]  x'' 1 3 \<and>
   length (filter (\<lambda>P. P ''[err]  x'' 1 3)
     [is_line_start_plain_exact_tag_single_space_separator_match,
      is_line_start_plain_exact_tag_payloadless_separator_match,
      is_line_start_plain_exact_tag_tab_prefixed_payload_match,
      is_line_start_plain_exact_tag_multi_space_payload_match,
      is_line_start_plain_exact_tag_space_prefixed_mixed_whitespace_payload_match,
      is_line_start_plain_exact_tag_other_leading_whitespace_payload_match]) = 1"
proof -
  have tag: "is_line_start_exact_tag_match ''[err]  x'' 1 3" by code_simp
  have plain: "\<not> is_line_start_exact_tag_marker_match ''[err]  x'' 1 3" by code_simp
  show ?thesis using tag one_separator [OF tag plain] by blast
qed

end
