(* ===== verification/TerminalRank.thy ===== *)
theory TerminalRank
  imports TerminalTypes TerminalMatch
begin

text \<open>
  The offsets, counters, ranking and snippets of the terminal history search
  (\<open>services/terminal_sessions.py\<close>, from \<open>_search_history_snapshots\<close> to
  \<open>_build_search_snippets\<close>). The dataclass of search candidates is a record with the source's
  fields; the relevance key is the source's tuple, with the integers it starts with as a list, so
  that the tuple comparison is the lexicographic order. \<open>match_density\<close>, a float quotient of two
  integers, is the exact rational.
\<close>

section \<open>Offsets of the hits\<close>

lemma py_find_bounds:
  "py_find t q p = Some i \<Longrightarrow> p \<le> i \<and> i + length q \<le> length t"
  by (blast dest: py_find_SomeD)

function match_offsets_from :: "string \<Rightarrow> string \<Rightarrow> nat \<Rightarrow> nat list" where
  "match_offsets_from lowered_text lowered_query position =
     (case py_find lowered_text lowered_query position of
        None \<Rightarrow> []
      | Some found \<Rightarrow>
          found # match_offsets_from lowered_text lowered_query
                    (found + max 1 (length lowered_query)))"
  by pat_completeness auto
termination
  by (relation "measure (\<lambda>(t, q, p). Suc (length t) - p)") (auto dest!: py_find_bounds)

declare match_offsets_from.simps [simp del]

definition find_case_insensitive_match_offsets :: "string \<Rightarrow> string \<Rightarrow> nat list" where
  "find_case_insensitive_match_offsets text query =
     (if text = [] \<or> query = [] then []
      else match_offsets_from (py_lower text) (py_lower query) 0)"

section \<open>Counters\<close>

text \<open>Every \<open>_NO_..._MATCH_OFFSET\<close> constant of the module is \<open>1 << 60\<close>.\<close>

definition no_match_offset :: int where
  "no_match_offset = 2 ^ 60"

definition hits_summary :: "nat list \<Rightarrow> int \<times> int" where
  "hits_summary hits =
     (if hits = [] then (0, no_match_offset) else (int (length hits), int (hits ! 0)))"

fun first_offset :: "(nat \<Rightarrow> bool) \<Rightarrow> nat list \<Rightarrow> int" where
  "first_offset matches [] = no_match_offset"
| "first_offset matches (offset # offsets) =
     (if matches offset then int offset else first_offset matches offsets)"

definition count_whole_word_hits :: "string \<Rightarrow> nat list \<Rightarrow> nat \<Rightarrow> int \<times> int" where
  "count_whole_word_hits text offsets query_length =
     hits_summary (filter (\<lambda>offset. is_whole_word_match text offset query_length) offsets)"

definition count_line_start_whole_word_hits :: "string \<Rightarrow> nat list \<Rightarrow> nat \<Rightarrow> int \<times> int" where
  "count_line_start_whole_word_hits text offsets query_length =
     hits_summary (filter (\<lambda>offset. is_line_start_whole_word_match text offset query_length) offsets)"

definition count_line_start_log_marker_hits :: "string \<Rightarrow> nat list \<Rightarrow> nat \<Rightarrow> int \<times> int" where
  "count_line_start_log_marker_hits text offsets query_length =
     hits_summary (filter (\<lambda>offset. is_line_start_log_marker_match text offset query_length) offsets)"

definition count_line_start_delimited_log_marker_hits :: "string \<Rightarrow> nat list \<Rightarrow> nat \<Rightarrow> int \<times> int" where
  "count_line_start_delimited_log_marker_hits text offsets query_length =
     hits_summary (filter (\<lambda>offset. is_line_start_delimited_log_marker_match text offset query_length) offsets)"

definition count_line_start_punctuation_wrap_hits :: "string \<Rightarrow> nat list \<Rightarrow> nat \<Rightarrow> int \<times> int" where
  "count_line_start_punctuation_wrap_hits text offsets query_length =
     hits_summary (filter (\<lambda>offset. is_line_start_punctuation_wrap_match text offset query_length) offsets)"

definition count_line_start_exact_tag_hits :: "string \<Rightarrow> nat list \<Rightarrow> nat \<Rightarrow> int \<times> int" where
  "count_line_start_exact_tag_hits text offsets query_length =
     hits_summary (filter (\<lambda>offset. is_line_start_exact_tag_match text offset query_length) offsets)"

definition count_line_start_exact_tag_colon_marker_hits :: "string \<Rightarrow> nat list \<Rightarrow> nat \<Rightarrow> int \<times> int" where
  "count_line_start_exact_tag_colon_marker_hits text offsets query_length =
     hits_summary (filter (\<lambda>offset. is_line_start_exact_tag_colon_marker_match text offset query_length) offsets)"

definition count_line_start_square_bracket_exact_tag_hits :: "string \<Rightarrow> nat list \<Rightarrow> nat \<Rightarrow> int \<times> int" where
  "count_line_start_square_bracket_exact_tag_hits text offsets query_length =
     hits_summary (filter (\<lambda>offset. is_line_start_square_bracket_exact_tag_match text offset query_length) offsets)"

definition count_line_start_square_bracket_plain_exact_tag_hits :: "string \<Rightarrow> nat list \<Rightarrow> nat \<Rightarrow> int \<times> int" where
  "count_line_start_square_bracket_plain_exact_tag_hits text offsets query_length =
     hits_summary (filter (\<lambda>offset. is_line_start_square_bracket_plain_exact_tag_match text offset query_length) offsets)"

definition count_line_start_angle_wrapper_plain_exact_tag_hits :: "string \<Rightarrow> nat list \<Rightarrow> nat \<Rightarrow> int \<times> int" where
  "count_line_start_angle_wrapper_plain_exact_tag_hits text offsets query_length =
     hits_summary (filter (\<lambda>offset. is_line_start_angle_wrapper_plain_exact_tag_match text offset query_length) offsets)"

definition count_line_start_plain_exact_tag_single_space_separator_hits :: "string \<Rightarrow> nat list \<Rightarrow> nat \<Rightarrow> int \<times> int" where
  "count_line_start_plain_exact_tag_single_space_separator_hits text offsets query_length =
     hits_summary (filter (\<lambda>offset. is_line_start_plain_exact_tag_single_space_separator_match text offset query_length) offsets)"

definition count_line_start_paren_wrapper_plain_exact_tag_hits :: "string \<Rightarrow> nat list \<Rightarrow> nat \<Rightarrow> int \<times> int" where
  "count_line_start_paren_wrapper_plain_exact_tag_hits text offsets query_length =
     hits_summary (filter (\<lambda>offset. is_line_start_paren_wrapper_plain_exact_tag_match text offset query_length) offsets)"

definition count_line_start_brace_wrapper_plain_exact_tag_hits :: "string \<Rightarrow> nat list \<Rightarrow> nat \<Rightarrow> int \<times> int" where
  "count_line_start_brace_wrapper_plain_exact_tag_hits text offsets query_length =
     hits_summary (filter (\<lambda>offset. is_line_start_brace_wrapper_plain_exact_tag_match text offset query_length) offsets)"

definition count_line_start_square_bracket_exact_tag_dash_marker_hits :: "string \<Rightarrow> nat list \<Rightarrow> nat \<Rightarrow> int \<times> int" where
  "count_line_start_square_bracket_exact_tag_dash_marker_hits text offsets query_length =
     hits_summary (filter (\<lambda>offset. is_line_start_square_bracket_exact_tag_dash_marker_match text offset query_length) offsets)"

definition count_line_start_paren_wrapper_marker_hits :: "string \<Rightarrow> nat list \<Rightarrow> nat \<Rightarrow> int \<times> int" where
  "count_line_start_paren_wrapper_marker_hits text offsets query_length =
     hits_summary (filter (\<lambda>offset. is_line_start_paren_wrapper_marker_match text offset query_length) offsets)"

definition count_line_start_brace_wrapper_marker_hits :: "string \<Rightarrow> nat list \<Rightarrow> nat \<Rightarrow> int \<times> int" where
  "count_line_start_brace_wrapper_marker_hits text offsets query_length =
     hits_summary (filter (\<lambda>offset. is_line_start_brace_wrapper_marker_match text offset query_length) offsets)"

definition count_line_start_non_square_bracket_exact_tag_colon_marker_hits :: "string \<Rightarrow> nat list \<Rightarrow> nat \<Rightarrow> int \<times> int" where
  "count_line_start_non_square_bracket_exact_tag_colon_marker_hits text offsets query_length =
     hits_summary (filter (\<lambda>offset. is_line_start_non_square_bracket_exact_tag_colon_marker_match text offset query_length) offsets)"

definition count_line_start_non_square_bracket_exact_tag_dash_marker_hits :: "string \<Rightarrow> nat list \<Rightarrow> nat \<Rightarrow> int \<times> int" where
  "count_line_start_non_square_bracket_exact_tag_dash_marker_hits text offsets query_length =
     hits_summary (filter (\<lambda>offset. is_line_start_non_square_bracket_exact_tag_dash_marker_match text offset query_length) offsets)"

definition count_line_start_exact_tag_marker_hits :: "string \<Rightarrow> nat list \<Rightarrow> nat \<Rightarrow> int \<times> int" where
  "count_line_start_exact_tag_marker_hits text offsets query_length =
     hits_summary (filter (\<lambda>offset. is_line_start_exact_tag_marker_match text offset query_length) offsets)"

text \<open>Counts without an offset, \<open>sum(1 for offset in offsets if ...)\<close>.\<close>

definition count_line_start_plain_exact_tag_payloadless_separator_hits :: "string \<Rightarrow> nat list \<Rightarrow> nat \<Rightarrow> int" where
  "count_line_start_plain_exact_tag_payloadless_separator_hits text offsets query_length =
     int (length (filter (\<lambda>offset.
       is_line_start_plain_exact_tag_payloadless_separator_match text offset query_length) offsets))"

definition count_line_start_plain_exact_tag_tab_prefixed_payload_hits :: "string \<Rightarrow> nat list \<Rightarrow> nat \<Rightarrow> int" where
  "count_line_start_plain_exact_tag_tab_prefixed_payload_hits text offsets query_length =
     int (length (filter (\<lambda>offset.
       is_line_start_plain_exact_tag_tab_prefixed_payload_match text offset query_length) offsets))"

definition count_line_start_plain_exact_tag_multi_space_payload_hits :: "string \<Rightarrow> nat list \<Rightarrow> nat \<Rightarrow> int" where
  "count_line_start_plain_exact_tag_multi_space_payload_hits text offsets query_length =
     int (length (filter (\<lambda>offset.
       is_line_start_plain_exact_tag_multi_space_payload_match text offset query_length) offsets))"

definition count_line_start_plain_exact_tag_space_prefixed_mixed_whitespace_payload_hits :: "string \<Rightarrow> nat list \<Rightarrow> nat \<Rightarrow> int" where
  "count_line_start_plain_exact_tag_space_prefixed_mixed_whitespace_payload_hits text offsets query_length =
     int (length (filter (\<lambda>offset.
       is_line_start_plain_exact_tag_space_prefixed_mixed_whitespace_payload_match text offset query_length) offsets))"

definition count_line_start_plain_exact_tag_other_leading_mixed_whitespace_payload_hits :: "string \<Rightarrow> nat list \<Rightarrow> nat \<Rightarrow> int" where
  "count_line_start_plain_exact_tag_other_leading_mixed_whitespace_payload_hits text offsets query_length =
     int (length (filter (\<lambda>offset.
       is_line_start_plain_exact_tag_other_leading_mixed_whitespace_payload_match text offset query_length) offsets))"

text \<open>First hits, returned from inside the loop.\<close>

definition first_line_start_non_single_space_plain_exact_tag_separator_offset :: "string \<Rightarrow> nat list \<Rightarrow> nat \<Rightarrow> int" where
  "first_line_start_non_single_space_plain_exact_tag_separator_offset text offsets query_length =
     first_offset (\<lambda>offset. is_line_start_non_single_space_plain_exact_tag_separator_match
       text offset query_length) offsets"

definition first_line_start_plain_exact_tag_payloadless_separator_offset :: "string \<Rightarrow> nat list \<Rightarrow> nat \<Rightarrow> int" where
  "first_line_start_plain_exact_tag_payloadless_separator_offset text offsets query_length =
     first_offset (\<lambda>offset. is_line_start_plain_exact_tag_payloadless_separator_match
       text offset query_length) offsets"

definition first_line_start_plain_exact_tag_tab_prefixed_payload_offset :: "string \<Rightarrow> nat list \<Rightarrow> nat \<Rightarrow> int" where
  "first_line_start_plain_exact_tag_tab_prefixed_payload_offset text offsets query_length =
     first_offset (\<lambda>offset. is_line_start_plain_exact_tag_tab_prefixed_payload_match
       text offset query_length) offsets"

definition first_line_start_plain_exact_tag_multi_space_payload_offset :: "string \<Rightarrow> nat list \<Rightarrow> nat \<Rightarrow> int" where
  "first_line_start_plain_exact_tag_multi_space_payload_offset text offsets query_length =
     first_offset (\<lambda>offset. is_line_start_plain_exact_tag_multi_space_payload_match
       text offset query_length) offsets"

definition first_line_start_plain_exact_tag_space_prefixed_mixed_whitespace_payload_offset :: "string \<Rightarrow> nat list \<Rightarrow> nat \<Rightarrow> int" where
  "first_line_start_plain_exact_tag_space_prefixed_mixed_whitespace_payload_offset text offsets query_length =
     first_offset (\<lambda>offset. is_line_start_plain_exact_tag_space_prefixed_mixed_whitespace_payload_match
       text offset query_length) offsets"

definition first_line_start_plain_exact_tag_other_leading_whitespace_payload_offset :: "string \<Rightarrow> nat list \<Rightarrow> nat \<Rightarrow> int" where
  "first_line_start_plain_exact_tag_other_leading_whitespace_payload_offset text offsets query_length =
     first_offset (\<lambda>offset. is_line_start_plain_exact_tag_other_leading_whitespace_payload_match
       text offset query_length) offsets"

definition first_line_start_plain_exact_tag_other_leading_mixed_whitespace_payload_offset :: "string \<Rightarrow> nat list \<Rightarrow> nat \<Rightarrow> int" where
  "first_line_start_plain_exact_tag_other_leading_mixed_whitespace_payload_offset text offsets query_length =
     first_offset (\<lambda>offset. is_line_start_plain_exact_tag_other_leading_mixed_whitespace_payload_match
       text offset query_length) offsets"

section \<open>Search candidates\<close>

record history_search_candidate =
  cand_match :: history_search_match
  line_start_log_marker_match_count :: int
  first_line_start_log_marker_offset :: int
  line_start_delimited_log_marker_match_count :: int
  first_line_start_delimited_log_marker_offset :: int
  line_start_exact_tag_marker_match_count :: int
  first_line_start_exact_tag_marker_offset :: int
  line_start_exact_tag_colon_marker_match_count :: int
  first_line_start_exact_tag_colon_marker_offset :: int
  line_start_square_bracket_exact_tag_dash_marker_match_count :: int
  first_line_start_square_bracket_exact_tag_dash_marker_offset :: int
  line_start_paren_wrapper_marker_match_count :: int
  first_line_start_paren_wrapper_marker_offset :: int
  line_start_brace_wrapper_marker_match_count :: int
  first_line_start_brace_wrapper_marker_offset :: int
  line_start_non_square_bracket_exact_tag_colon_marker_match_count :: int
  first_line_start_non_square_bracket_exact_tag_colon_marker_offset :: int
  line_start_non_square_bracket_exact_tag_dash_marker_match_count :: int
  first_line_start_non_square_bracket_exact_tag_dash_marker_offset :: int
  line_start_exact_tag_match_count :: int
  first_line_start_exact_tag_offset :: int
  line_start_square_bracket_exact_tag_match_count :: int
  first_line_start_square_bracket_exact_tag_offset :: int
  first_line_start_square_bracket_plain_exact_tag_offset :: int
  line_start_paren_wrapper_plain_exact_tag_match_count :: int
  first_line_start_paren_wrapper_plain_exact_tag_offset :: int
  line_start_brace_wrapper_plain_exact_tag_match_count :: int
  first_line_start_brace_wrapper_plain_exact_tag_offset :: int
  line_start_angle_wrapper_plain_exact_tag_match_count :: int
  first_line_start_angle_wrapper_plain_exact_tag_offset :: int
  line_start_plain_exact_tag_single_space_separator_match_count :: int
  first_line_start_plain_exact_tag_single_space_separator_offset :: int
  conditional_first_line_start_non_single_space_plain_exact_tag_separator_offset :: int
  conditional_line_start_plain_exact_tag_payloadless_separator_match_count :: int
  conditional_first_line_start_plain_exact_tag_payloadless_separator_offset :: int
  conditional_line_start_plain_exact_tag_tab_prefixed_payload_match_count :: int
  conditional_first_line_start_plain_exact_tag_tab_prefixed_payload_offset :: int
  conditional_line_start_plain_exact_tag_multi_space_payload_match_count :: int
  conditional_first_line_start_plain_exact_tag_multi_space_payload_offset :: int
  conditional_line_start_plain_exact_tag_space_prefixed_mixed_whitespace_payload_match_count :: int
  conditional_first_line_start_plain_exact_tag_space_prefixed_mixed_whitespace_payload_offset :: int
  conditional_line_start_plain_exact_tag_other_leading_mixed_whitespace_payload_match_count :: int
  conditional_first_line_start_plain_exact_tag_other_leading_mixed_whitespace_payload_offset :: int
  conditional_first_line_start_plain_exact_tag_other_leading_whitespace_payload_offset :: int
  conditional_non_exact_tag_punctuation_wrap_match_count :: int
  line_start_punctuation_wrap_match_count :: int
  first_line_start_punctuation_wrap_offset :: int
  whole_word_match_count :: int
  line_start_whole_word_match_count :: int
  conditional_non_line_start_whole_word_match_count :: int
  first_line_start_whole_word_offset :: int
  first_whole_word_offset :: int
  cluster_span :: int
  first_match_offset :: int
  match_density :: rat

text \<open>
  A signal about the payload after a plain tag only counts when at least one hit has a single
  space there: otherwise a count is 0 and an offset is the sentinel.
\<close>

definition conditional_count :: "(string \<Rightarrow> nat list \<Rightarrow> nat \<Rightarrow> int) \<Rightarrow> string \<Rightarrow> nat list \<Rightarrow> nat \<Rightarrow> int" where
  "conditional_count counter text offsets query_length =
     (if fst (count_line_start_plain_exact_tag_single_space_separator_hits text offsets query_length) > 0
      then counter text offsets query_length else 0)"

definition conditional_offset :: "(string \<Rightarrow> nat list \<Rightarrow> nat \<Rightarrow> int) \<Rightarrow> string \<Rightarrow> nat list \<Rightarrow> nat \<Rightarrow> int" where
  "conditional_offset finder text offsets query_length =
     (if fst (count_line_start_plain_exact_tag_single_space_separator_hits text offsets query_length) > 0
      then finder text offsets query_length else no_match_offset)"

definition build_search_candidate ::
  "history_search_match \<Rightarrow> string \<Rightarrow> nat list \<Rightarrow> nat \<Rightarrow> int \<Rightarrow> history_search_candidate" where
  "build_search_candidate m text offsets query_length output_length =
     \<lparr>cand_match = m,
      line_start_log_marker_match_count =
         fst (count_line_start_log_marker_hits text offsets query_length),
      first_line_start_log_marker_offset =
         snd (count_line_start_log_marker_hits text offsets query_length),
      line_start_delimited_log_marker_match_count =
         fst (count_line_start_delimited_log_marker_hits text offsets query_length),
      first_line_start_delimited_log_marker_offset =
         snd (count_line_start_delimited_log_marker_hits text offsets query_length),
      line_start_exact_tag_marker_match_count =
         fst (count_line_start_exact_tag_marker_hits text offsets query_length),
      first_line_start_exact_tag_marker_offset =
         snd (count_line_start_exact_tag_marker_hits text offsets query_length),
      line_start_exact_tag_colon_marker_match_count =
         fst (count_line_start_exact_tag_colon_marker_hits text offsets query_length),
      first_line_start_exact_tag_colon_marker_offset =
         snd (count_line_start_exact_tag_colon_marker_hits text offsets query_length),
      line_start_square_bracket_exact_tag_dash_marker_match_count =
         fst (count_line_start_square_bracket_exact_tag_dash_marker_hits text offsets query_length),
      first_line_start_square_bracket_exact_tag_dash_marker_offset =
         snd (count_line_start_square_bracket_exact_tag_dash_marker_hits text offsets query_length),
      line_start_paren_wrapper_marker_match_count =
         fst (count_line_start_paren_wrapper_marker_hits text offsets query_length),
      first_line_start_paren_wrapper_marker_offset =
         snd (count_line_start_paren_wrapper_marker_hits text offsets query_length),
      line_start_brace_wrapper_marker_match_count =
         fst (count_line_start_brace_wrapper_marker_hits text offsets query_length),
      first_line_start_brace_wrapper_marker_offset =
         snd (count_line_start_brace_wrapper_marker_hits text offsets query_length),
      line_start_non_square_bracket_exact_tag_colon_marker_match_count =
         fst (count_line_start_non_square_bracket_exact_tag_colon_marker_hits text offsets query_length),
      first_line_start_non_square_bracket_exact_tag_colon_marker_offset =
         snd (count_line_start_non_square_bracket_exact_tag_colon_marker_hits text offsets query_length),
      line_start_non_square_bracket_exact_tag_dash_marker_match_count =
         fst (count_line_start_non_square_bracket_exact_tag_dash_marker_hits text offsets query_length),
      first_line_start_non_square_bracket_exact_tag_dash_marker_offset =
         snd (count_line_start_non_square_bracket_exact_tag_dash_marker_hits text offsets query_length),
      line_start_exact_tag_match_count =
         fst (count_line_start_exact_tag_hits text offsets query_length),
      first_line_start_exact_tag_offset =
         snd (count_line_start_exact_tag_hits text offsets query_length),
      line_start_square_bracket_exact_tag_match_count =
         fst (count_line_start_square_bracket_exact_tag_hits text offsets query_length),
      first_line_start_square_bracket_exact_tag_offset =
         snd (count_line_start_square_bracket_exact_tag_hits text offsets query_length),
      first_line_start_square_bracket_plain_exact_tag_offset =
         snd (count_line_start_square_bracket_plain_exact_tag_hits text offsets query_length),
      line_start_paren_wrapper_plain_exact_tag_match_count =
         fst (count_line_start_paren_wrapper_plain_exact_tag_hits text offsets query_length),
      first_line_start_paren_wrapper_plain_exact_tag_offset =
         snd (count_line_start_paren_wrapper_plain_exact_tag_hits text offsets query_length),
      line_start_brace_wrapper_plain_exact_tag_match_count =
         fst (count_line_start_brace_wrapper_plain_exact_tag_hits text offsets query_length),
      first_line_start_brace_wrapper_plain_exact_tag_offset =
         snd (count_line_start_brace_wrapper_plain_exact_tag_hits text offsets query_length),
      line_start_angle_wrapper_plain_exact_tag_match_count =
         fst (count_line_start_angle_wrapper_plain_exact_tag_hits text offsets query_length),
      first_line_start_angle_wrapper_plain_exact_tag_offset =
         snd (count_line_start_angle_wrapper_plain_exact_tag_hits text offsets query_length),
      line_start_plain_exact_tag_single_space_separator_match_count =
         fst (count_line_start_plain_exact_tag_single_space_separator_hits text offsets query_length),
      first_line_start_plain_exact_tag_single_space_separator_offset =
         snd (count_line_start_plain_exact_tag_single_space_separator_hits text offsets query_length),
      conditional_first_line_start_non_single_space_plain_exact_tag_separator_offset =
         conditional_offset
         first_line_start_non_single_space_plain_exact_tag_separator_offset text offsets query_length,
      conditional_line_start_plain_exact_tag_payloadless_separator_match_count =
         conditional_count
         count_line_start_plain_exact_tag_payloadless_separator_hits text offsets query_length,
      conditional_first_line_start_plain_exact_tag_payloadless_separator_offset =
         conditional_offset
         first_line_start_plain_exact_tag_payloadless_separator_offset text offsets query_length,
      conditional_line_start_plain_exact_tag_tab_prefixed_payload_match_count =
         conditional_count
         count_line_start_plain_exact_tag_tab_prefixed_payload_hits text offsets query_length,
      conditional_first_line_start_plain_exact_tag_tab_prefixed_payload_offset =
         conditional_offset
         first_line_start_plain_exact_tag_tab_prefixed_payload_offset text offsets query_length,
      conditional_line_start_plain_exact_tag_multi_space_payload_match_count =
         conditional_count
         count_line_start_plain_exact_tag_multi_space_payload_hits text offsets query_length,
      conditional_first_line_start_plain_exact_tag_multi_space_payload_offset =
         conditional_offset
         first_line_start_plain_exact_tag_multi_space_payload_offset text offsets query_length,
      conditional_line_start_plain_exact_tag_space_prefixed_mixed_whitespace_payload_match_count =
         conditional_count
         count_line_start_plain_exact_tag_space_prefixed_mixed_whitespace_payload_hits text offsets query_length,
      conditional_first_line_start_plain_exact_tag_space_prefixed_mixed_whitespace_payload_offset =
         conditional_offset
         first_line_start_plain_exact_tag_space_prefixed_mixed_whitespace_payload_offset text offsets query_length,
      conditional_line_start_plain_exact_tag_other_leading_mixed_whitespace_payload_match_count =
         conditional_count
         count_line_start_plain_exact_tag_other_leading_mixed_whitespace_payload_hits text offsets query_length,
      conditional_first_line_start_plain_exact_tag_other_leading_mixed_whitespace_payload_offset =
         conditional_offset
         first_line_start_plain_exact_tag_other_leading_mixed_whitespace_payload_offset text offsets query_length,
      conditional_first_line_start_plain_exact_tag_other_leading_whitespace_payload_offset =
         conditional_offset
         first_line_start_plain_exact_tag_other_leading_whitespace_payload_offset text offsets query_length,
      conditional_non_exact_tag_punctuation_wrap_match_count =
         (let exact = fst (count_line_start_exact_tag_hits text offsets query_length);
             non_exact = max 0 (fst (count_line_start_punctuation_wrap_hits text offsets query_length)
                                - exact)
         in if exact > 0 then non_exact else 0),
      line_start_punctuation_wrap_match_count =
         fst (count_line_start_punctuation_wrap_hits text offsets query_length),
      first_line_start_punctuation_wrap_offset =
         snd (count_line_start_punctuation_wrap_hits text offsets query_length),
      whole_word_match_count =
         fst (count_whole_word_hits text offsets query_length),
      line_start_whole_word_match_count =
         fst (count_line_start_whole_word_hits text offsets query_length),
      conditional_non_line_start_whole_word_match_count =
         (let at_start = fst (count_line_start_whole_word_hits text offsets query_length);
             non_start = fst (count_whole_word_hits text offsets query_length) - at_start
         in if at_start > 0 then non_start else 0),
      first_line_start_whole_word_offset =
         snd (count_line_start_whole_word_hits text offsets query_length),
      first_whole_word_offset =
         snd (count_whole_word_hits text offsets query_length),
      cluster_span =
         int (last offsets) - int (offsets ! 0),
      first_match_offset =
         int (offsets ! 0),
      match_density =
         of_int (match_count m) / of_int (max 1 output_length)\<rparr>"

section \<open>The order of the results\<close>

definition relevance_key :: "history_search_candidate \<Rightarrow> int list \<times> rat \<times> int \<times> string" where
  "relevance_key c =
     ([- match_count (cand_match c),
       - line_start_log_marker_match_count c,
       - line_start_delimited_log_marker_match_count c,
       - line_start_exact_tag_marker_match_count c,
       - line_start_exact_tag_colon_marker_match_count c,
       - line_start_square_bracket_exact_tag_dash_marker_match_count c,
       - line_start_paren_wrapper_marker_match_count c,
       - line_start_brace_wrapper_marker_match_count c,
       - line_start_non_square_bracket_exact_tag_colon_marker_match_count c,
       - line_start_non_square_bracket_exact_tag_dash_marker_match_count c,
       - line_start_exact_tag_match_count c,
       - line_start_square_bracket_exact_tag_match_count c,
       - line_start_paren_wrapper_plain_exact_tag_match_count c,
       - line_start_brace_wrapper_plain_exact_tag_match_count c,
       line_start_angle_wrapper_plain_exact_tag_match_count c,
       - line_start_plain_exact_tag_single_space_separator_match_count c,
       - conditional_first_line_start_non_single_space_plain_exact_tag_separator_offset c,
       conditional_line_start_plain_exact_tag_payloadless_separator_match_count c,
       - conditional_first_line_start_plain_exact_tag_payloadless_separator_offset c,
       conditional_line_start_plain_exact_tag_tab_prefixed_payload_match_count c,
       - conditional_first_line_start_plain_exact_tag_tab_prefixed_payload_offset c,
       conditional_line_start_plain_exact_tag_multi_space_payload_match_count c,
       - conditional_first_line_start_plain_exact_tag_multi_space_payload_offset c,
       conditional_line_start_plain_exact_tag_space_prefixed_mixed_whitespace_payload_match_count c,
       - conditional_first_line_start_plain_exact_tag_space_prefixed_mixed_whitespace_payload_offset c,
       conditional_line_start_plain_exact_tag_other_leading_mixed_whitespace_payload_match_count c,
       - conditional_first_line_start_plain_exact_tag_other_leading_mixed_whitespace_payload_offset c,
       - conditional_first_line_start_plain_exact_tag_other_leading_whitespace_payload_offset c,
       conditional_non_exact_tag_punctuation_wrap_match_count c,
       - line_start_punctuation_wrap_match_count c,
       - line_start_whole_word_match_count c,
       conditional_non_line_start_whole_word_match_count c,
       - whole_word_match_count c,
       first_line_start_log_marker_offset c,
       first_line_start_delimited_log_marker_offset c,
       first_line_start_exact_tag_colon_marker_offset c,
       first_line_start_square_bracket_exact_tag_dash_marker_offset c,
       first_line_start_paren_wrapper_marker_offset c,
       first_line_start_brace_wrapper_marker_offset c,
       first_line_start_non_square_bracket_exact_tag_colon_marker_offset c,
       first_line_start_non_square_bracket_exact_tag_dash_marker_offset c,
       first_line_start_square_bracket_plain_exact_tag_offset c,
       first_line_start_paren_wrapper_plain_exact_tag_offset c,
       first_line_start_brace_wrapper_plain_exact_tag_offset c,
       first_line_start_angle_wrapper_plain_exact_tag_offset c,
       first_line_start_plain_exact_tag_single_space_separator_offset c,
       first_line_start_exact_tag_marker_offset c,
       first_line_start_exact_tag_offset c,
       first_line_start_square_bracket_exact_tag_offset c,
       first_line_start_punctuation_wrap_offset c,
       first_line_start_whole_word_offset c,
       first_whole_word_offset c,
       cluster_span c,
       first_match_offset c],
      - match_density c,
      - match_snapshot_at (cand_match c),
      session_id (match_record (cand_match c)))"

definition newest_key :: "history_search_candidate \<Rightarrow> int \<times> int \<times> string" where
  "newest_key c =
     (- match_snapshot_at (cand_match c), - match_count (cand_match c),
      session_id (match_record (cand_match c)))"

definition oldest_key :: "history_search_candidate \<Rightarrow> int \<times> int \<times> string" where
  "oldest_key c =
     (match_snapshot_at (cand_match c), - match_count (cand_match c),
      session_id (match_record (cand_match c)))"

definition sort_history_search_matches ::
  "history_search_candidate list \<Rightarrow> terminal_history_search_sort \<Rightarrow> history_search_match list" where
  "sort_history_search_matches matches sort_by =
     (if sort_by = Relevance then map cand_match (sort_key relevance_key matches)
      else if sort_by = Newest then map cand_match (sort_key newest_key matches)
      else map cand_match (sort_key oldest_key matches))"

definition normalize_search_sort :: "string \<Rightarrow> terminal_error + terminal_history_search_sort" where
  "normalize_search_sort sort_by =
     (if sort_by = ''relevance'' then Inr Relevance
      else if sort_by = ''newest'' then Inr Newest
      else if sort_by = ''oldest'' then Inr Oldest
      else Inl (ValueError ''sort must be one of: relevance, newest, oldest''))"

section \<open>Snippets\<close>

definition build_search_snippet ::
  "string \<Rightarrow> nat \<Rightarrow> nat \<Rightarrow> nat \<times> nat \<Rightarrow> history_search_snippet" where
  "build_search_snippet text query_length snippet_context_chars entry =
     (case entry of (index, offset) \<Rightarrow>
        let start = offset - snippet_context_chars;
            stop = min (length text) (offset + query_length + snippet_context_chars);
            snippet = py_slice text start stop;
            snippet = (if start > 0 then ''...'' @ snippet else snippet);
            snippet = (if stop < length text then snippet @ ''...'' else snippet)
        in \<lparr>snippet_text = snippet, match_index = index, match_offset = offset\<rparr>)"

definition build_search_snippets ::
  "string \<Rightarrow> nat list \<Rightarrow> nat \<Rightarrow> nat \<Rightarrow> nat \<Rightarrow> history_search_snippet list" where
  "build_search_snippets text offsets query_length snippet_limit snippet_context_chars =
     map (build_search_snippet text query_length snippet_context_chars)
       (enumerate 0 (take snippet_limit offsets))"

section \<open>The search over the snapshots\<close>

definition search_snapshot ::
  "string \<Rightarrow> nat \<Rightarrow> nat \<Rightarrow> history_snapshot \<Rightarrow> history_search_candidate option" where
  "search_snapshot query snippet_limit snippet_context_chars snapshot =
     (let offsets = find_case_insensitive_match_offsets (snap_output snapshot) query in
      if offsets = [] then None
      else
        let matches = build_search_snippets (snap_output snapshot) offsets (length query)
                        snippet_limit snippet_context_chars;
            m = \<lparr>match_record = snap_record snapshot, match_snapshot_at = snapshot_at snapshot,
                 match_count = int (length offsets), snippets = map snippet_text matches,
                 snippet_matches = matches\<rparr>
        in Some (build_search_candidate m (snap_output snapshot) offsets (length query)
                   (int (length (snap_output snapshot)))))"

definition search_history_snapshots ::
  "history_snapshot list \<Rightarrow> string \<Rightarrow> terminal_history_search_sort \<Rightarrow> nat \<Rightarrow> nat \<Rightarrow>
   history_search_match list" where
  "search_history_snapshots snapshots query sort_by snippet_limit snippet_context_chars =
     (if length query \<le> 0 then []
      else sort_history_search_matches
             (List.map_filter (search_snapshot query snippet_limit snippet_context_chars) snapshots)
             sort_by)"

section \<open>The offsets are the hits, from left to right and without overlap\<close>

text \<open>An occurrence of the lowered query, whether the scan reports it or not.\<close>

definition occurs_at :: "string \<Rightarrow> string \<Rightarrow> nat \<Rightarrow> bool" where
  "occurs_at t q p \<longleftrightarrow> p + length q \<le> length t \<and> py_lower (py_slice t p (p + length q)) = py_lower q"

lemma startswith_lower_iff:
  "p + length q \<le> length t \<Longrightarrow>
   py_startswith (drop p (py_lower t)) (py_lower q) \<longleftrightarrow> occurs_at t q p"
  by (simp add: py_startswith_def occurs_at_def py_slice_def py_lower_def drop_map take_map)

lemma match_offsets_from_Nil:
  "py_find t q p = None \<Longrightarrow> match_offsets_from t q p = []"
  by (simp add: match_offsets_from.simps [of t q p])

lemma match_offsets_from_Cons:
  "q \<noteq> [] \<Longrightarrow> py_find t q p = Some i \<Longrightarrow>
   match_offsets_from t q p = i # match_offsets_from t q (i + length q)"
  by (subst match_offsets_from.simps) (cases q; simp)

lemma match_offsets_from_spec:
  assumes "q \<noteq> []"
  shows "sorted_wrt (\<lambda>a b. a + length q \<le> b) (match_offsets_from t q p) \<and>
    (\<forall>i \<in> set (match_offsets_from t q p).
       p \<le> i \<and> i + length q \<le> length t \<and> py_startswith (drop i t) q)"
  using assms
proof (induction t q p rule: match_offsets_from.induct)
  case (1 t q p)
  show ?case
  proof (cases "py_find t q p")
    case None
    then show ?thesis by (simp add: match_offsets_from_Nil)
  next
    case (Some i)
    from "1.prems" have "max 1 (length q) = length q" by (cases q) auto
    with "1.IH" [OF Some "1.prems"] py_find_SomeD [OF Some] show ?thesis
      by (fastforce simp: match_offsets_from_Cons [OF "1.prems" Some])
  qed
qed

lemma match_offsets_from_complete:
  assumes "q \<noteq> []" "p \<le> j" "j + length q \<le> length t" "py_startswith (drop j t) q"
  shows "\<exists>i \<in> set (match_offsets_from t q p). i \<le> j \<and> j < i + length q"
  using assms
proof (induction t q p rule: match_offsets_from.induct)
  case (1 t q p)
  show ?case
  proof (cases "py_find t q p")
    case None
    with "1.prems" show ?thesis by (blast dest: py_find_NoneD)
  next
    case (Some i)
    have len: "max 1 (length q) = length q" using "1.prems"(1) by (cases q) auto
    have "i \<le> j" using py_find_SomeD [OF Some] "1.prems" by (meson not_le)
    show ?thesis
    proof (cases "j < i + length q")
      case True
      with \<open>i \<le> j\<close> show ?thesis by (auto simp: match_offsets_from_Cons [OF "1.prems"(1) Some])
    next
      case False
      with "1.IH" [OF Some] "1.prems" len show ?thesis
        by (auto simp: match_offsets_from_Cons [OF "1.prems"(1) Some])
    qed
  qed
qed

lemma find_offsets_eq:
  "q \<noteq> [] \<Longrightarrow>
   find_case_insensitive_match_offsets t q = match_offsets_from (py_lower t) (py_lower q) 0"
  by (cases q)
    (auto simp: find_case_insensitive_match_offsets_def py_lower_def match_offsets_from.simps
      py_find.simps split: option.splits)

lemma find_offsets_no_query [simp]: "find_case_insensitive_match_offsets t [] = []"
  by (simp add: find_case_insensitive_match_offsets_def)

lemma find_offsets_sound:
  assumes "i \<in> set (find_case_insensitive_match_offsets t q)"
  shows "occurs_at t q i"
proof -
  have "q \<noteq> []" using assms by auto
  with assms match_offsets_from_spec [of "py_lower q" "py_lower t" 0] show ?thesis
    by (auto simp: find_offsets_eq simp flip: startswith_lower_iff)
qed

lemma find_offsets_apart:
  "sorted_wrt (\<lambda>a b. a + length q \<le> b) (find_case_insensitive_match_offsets t q)"
  using match_offsets_from_spec [of "py_lower q" "py_lower t" 0]
  by (cases "q = []") (simp_all add: find_offsets_eq)

lemma find_offsets_complete:
  assumes "q \<noteq> []" "occurs_at t q j"
  shows "\<exists>i \<in> set (find_case_insensitive_match_offsets t q). i \<le> j \<and> j < i + length q"
proof -
  from assms(2) have "j + length q \<le> length t" by (simp add: occurs_at_def)
  with match_offsets_from_complete [of "py_lower q" 0 j "py_lower t"] assms show ?thesis
    by (simp add: find_offsets_eq startswith_lower_iff)
qed

lemma find_offsets_empty_iff:
  "q \<noteq> [] \<Longrightarrow> find_case_insensitive_match_offsets t q = [] \<longleftrightarrow> (\<forall>j. \<not> occurs_at t q j)"
  using find_offsets_complete [of q t] find_offsets_sound [of _ t q]
  by (metis empty_iff list.set(1) list.set_intros(1) neq_Nil_conv)

section \<open>What every counter promises\<close>

text \<open>
  Nineteen counters share one contract: the number of hits that satisfy a classifier, and the
  offset of the first of them. It is stated once, and every counter of the code interprets it.
\<close>

lemma hits_summary_pos_iff: "0 < fst (hits_summary hits) \<longleftrightarrow> hits \<noteq> []"
  by (simp add: hits_summary_def)

lemma hits_summary_fst: "fst (hits_summary hits) = int (length hits)"
  by (simp add: hits_summary_def)

locale hit_counter =
  fixes matches :: "string \<Rightarrow> nat \<Rightarrow> nat \<Rightarrow> bool"
    and counter :: "string \<Rightarrow> nat list \<Rightarrow> nat \<Rightarrow> int \<times> int"
  assumes counter_eq: "counter t os q = hits_summary (filter (\<lambda>i. matches t i q) os)"
begin

lemma counter_range: "0 \<le> fst (counter t os q) \<and> fst (counter t os q) \<le> int (length os)"
  by (simp add: counter_eq hits_summary_fst)

lemma counter_pos_iff: "0 < fst (counter t os q) \<longleftrightarrow> (\<exists>i \<in> set os. matches t i q)"
  by (simp add: counter_eq hits_summary_pos_iff filter_empty_conv)

lemma counter_none: "fst (counter t os q) = 0 \<Longrightarrow> snd (counter t os q) = no_match_offset"
  by (simp add: counter_eq hits_summary_def split: if_splits)

lemma counter_first:
  assumes "sorted os" "0 < fst (counter t os q)"
  shows "\<exists>i \<in> set os. snd (counter t os q) = int i \<and> matches t i q \<and>
    (\<forall>j \<in> set os. matches t j q \<longrightarrow> i \<le> j)"
proof -
  let ?hits = "filter (\<lambda>i. matches t i q) os"
  from assms(2) have "?hits \<noteq> []" by (simp add: counter_eq hits_summary_pos_iff)
  then obtain i rest where hits: "?hits = i # rest" by (cases ?hits) auto
  have "sorted ?hits" using assms(1) by (rule sorted_wrt_filter)
  then have least: "\<forall>j \<in> set ?hits. i \<le> j" using hits by simp
  have "i \<in> set ?hits" using hits by simp
  then have "i \<in> set os" "matches t i q" by simp_all
  moreover have "snd (counter t os q) = int i" by (simp add: counter_eq hits hits_summary_def)
  moreover have "\<forall>j \<in> set os. matches t j q \<longrightarrow> i \<le> j" using least by auto
  ultimately show ?thesis by blast
qed

end

text \<open>A counter whose classifier implies another one's counts no more hits, none of them earlier.\<close>

locale hit_refinement =
  weak: hit_counter weak_matches weak_counter + strong: hit_counter strong_matches strong_counter
  for weak_matches weak_counter strong_matches strong_counter +
  assumes strong_weak: "strong_matches t i q \<Longrightarrow> weak_matches t i q"
begin

lemma strong_filter:
  "filter (\<lambda>i. strong_matches t i q) os =
   filter (\<lambda>i. strong_matches t i q) (filter (\<lambda>i. weak_matches t i q) os)"
  by (auto intro!: filter_cong dest: strong_weak)

lemma count_mono: "fst (strong_counter t os q) \<le> fst (weak_counter t os q)"
  by (simp add: weak.counter_eq strong.counter_eq hits_summary_fst)
    (subst strong_filter, rule length_filter_le)

lemma first_mono:
  assumes "sorted os" "\<forall>i \<in> set os. int i \<le> no_match_offset"
  shows "snd (weak_counter t os q) \<le> snd (strong_counter t os q)"
proof (cases "0 < fst (strong_counter t os q)")
  case True
  then have weak_pos: "0 < fst (weak_counter t os q)" using count_mono [of t os q] by linarith
  from strong.counter_first [OF assms(1) True] obtain i where
    i: "i \<in> set os" "snd (strong_counter t os q) = int i" "strong_matches t i q" by blast
  with weak.counter_first [OF assms(1) weak_pos] strong_weak show ?thesis by fastforce
next
  case False
  then have "snd (strong_counter t os q) = no_match_offset"
    using strong.counter_range [of t os q] strong.counter_none by fastforce
  moreover have "snd (weak_counter t os q) \<le> no_match_offset"
    using weak.counter_first [OF assms(1), of t q] weak.counter_none [of t os q] assms(2)
      weak.counter_range [of t os q]
    by (cases "0 < fst (weak_counter t os q)") auto
  ultimately show ?thesis by simp
qed

end

interpretation whole_word: hit_counter is_whole_word_match count_whole_word_hits
  by unfold_locales (simp add: count_whole_word_hits_def)

interpretation line_start_whole_word: hit_counter is_line_start_whole_word_match count_line_start_whole_word_hits
  by unfold_locales (simp add: count_line_start_whole_word_hits_def)

interpretation line_start_log_marker: hit_counter is_line_start_log_marker_match count_line_start_log_marker_hits
  by unfold_locales (simp add: count_line_start_log_marker_hits_def)

interpretation line_start_delimited_log_marker: hit_counter is_line_start_delimited_log_marker_match count_line_start_delimited_log_marker_hits
  by unfold_locales (simp add: count_line_start_delimited_log_marker_hits_def)

interpretation line_start_punctuation_wrap: hit_counter is_line_start_punctuation_wrap_match count_line_start_punctuation_wrap_hits
  by unfold_locales (simp add: count_line_start_punctuation_wrap_hits_def)

interpretation line_start_exact_tag: hit_counter is_line_start_exact_tag_match count_line_start_exact_tag_hits
  by unfold_locales (simp add: count_line_start_exact_tag_hits_def)

interpretation line_start_exact_tag_colon_marker: hit_counter is_line_start_exact_tag_colon_marker_match count_line_start_exact_tag_colon_marker_hits
  by unfold_locales (simp add: count_line_start_exact_tag_colon_marker_hits_def)

interpretation line_start_square_bracket_exact_tag: hit_counter is_line_start_square_bracket_exact_tag_match count_line_start_square_bracket_exact_tag_hits
  by unfold_locales (simp add: count_line_start_square_bracket_exact_tag_hits_def)

interpretation line_start_square_bracket_plain_exact_tag: hit_counter is_line_start_square_bracket_plain_exact_tag_match count_line_start_square_bracket_plain_exact_tag_hits
  by unfold_locales (simp add: count_line_start_square_bracket_plain_exact_tag_hits_def)

interpretation line_start_angle_wrapper_plain_exact_tag: hit_counter is_line_start_angle_wrapper_plain_exact_tag_match count_line_start_angle_wrapper_plain_exact_tag_hits
  by unfold_locales (simp add: count_line_start_angle_wrapper_plain_exact_tag_hits_def)

interpretation line_start_plain_exact_tag_single_space_separator: hit_counter is_line_start_plain_exact_tag_single_space_separator_match count_line_start_plain_exact_tag_single_space_separator_hits
  by unfold_locales (simp add: count_line_start_plain_exact_tag_single_space_separator_hits_def)

interpretation line_start_paren_wrapper_plain_exact_tag: hit_counter is_line_start_paren_wrapper_plain_exact_tag_match count_line_start_paren_wrapper_plain_exact_tag_hits
  by unfold_locales (simp add: count_line_start_paren_wrapper_plain_exact_tag_hits_def)

interpretation line_start_brace_wrapper_plain_exact_tag: hit_counter is_line_start_brace_wrapper_plain_exact_tag_match count_line_start_brace_wrapper_plain_exact_tag_hits
  by unfold_locales (simp add: count_line_start_brace_wrapper_plain_exact_tag_hits_def)

interpretation line_start_square_bracket_exact_tag_dash_marker: hit_counter is_line_start_square_bracket_exact_tag_dash_marker_match count_line_start_square_bracket_exact_tag_dash_marker_hits
  by unfold_locales (simp add: count_line_start_square_bracket_exact_tag_dash_marker_hits_def)

interpretation line_start_paren_wrapper_marker: hit_counter is_line_start_paren_wrapper_marker_match count_line_start_paren_wrapper_marker_hits
  by unfold_locales (simp add: count_line_start_paren_wrapper_marker_hits_def)

interpretation line_start_brace_wrapper_marker: hit_counter is_line_start_brace_wrapper_marker_match count_line_start_brace_wrapper_marker_hits
  by unfold_locales (simp add: count_line_start_brace_wrapper_marker_hits_def)

interpretation line_start_non_square_bracket_exact_tag_colon_marker: hit_counter is_line_start_non_square_bracket_exact_tag_colon_marker_match count_line_start_non_square_bracket_exact_tag_colon_marker_hits
  by unfold_locales (simp add: count_line_start_non_square_bracket_exact_tag_colon_marker_hits_def)

interpretation line_start_non_square_bracket_exact_tag_dash_marker: hit_counter is_line_start_non_square_bracket_exact_tag_dash_marker_match count_line_start_non_square_bracket_exact_tag_dash_marker_hits
  by unfold_locales (simp add: count_line_start_non_square_bracket_exact_tag_dash_marker_hits_def)

interpretation line_start_exact_tag_marker: hit_counter is_line_start_exact_tag_marker_match count_line_start_exact_tag_marker_hits
  by unfold_locales (simp add: count_line_start_exact_tag_marker_hits_def)

interpretation line_start_whole_word_refines: hit_refinement
  is_whole_word_match count_whole_word_hits
  is_line_start_whole_word_match count_line_start_whole_word_hits
  by unfold_locales (rule line_start_is_whole_word)

interpretation line_start_log_marker_refines: hit_refinement
  is_line_start_whole_word_match count_line_start_whole_word_hits
  is_line_start_log_marker_match count_line_start_log_marker_hits
  by unfold_locales (rule log_marker_is_line_start)

interpretation line_start_delimited_log_marker_refines: hit_refinement
  is_line_start_log_marker_match count_line_start_log_marker_hits
  is_line_start_delimited_log_marker_match count_line_start_delimited_log_marker_hits
  by unfold_locales (rule delimited_is_log_marker)

interpretation line_start_punctuation_wrap_refines: hit_refinement
  is_whole_word_match count_whole_word_hits
  is_line_start_punctuation_wrap_match count_line_start_punctuation_wrap_hits
  by unfold_locales (rule wrap_is_whole_word)

interpretation line_start_exact_tag_refines: hit_refinement
  is_line_start_punctuation_wrap_match count_line_start_punctuation_wrap_hits
  is_line_start_exact_tag_match count_line_start_exact_tag_hits
  by unfold_locales (rule exact_tag_is_wrap)

interpretation line_start_exact_tag_marker_refines: hit_refinement
  is_line_start_exact_tag_match count_line_start_exact_tag_hits
  is_line_start_exact_tag_marker_match count_line_start_exact_tag_marker_hits
  by unfold_locales (rule marker_is_exact_tag)

interpretation line_start_exact_tag_colon_marker_refines: hit_refinement
  is_line_start_exact_tag_marker_match count_line_start_exact_tag_marker_hits
  is_line_start_exact_tag_colon_marker_match count_line_start_exact_tag_colon_marker_hits
  by unfold_locales (rule colon_marker_is_marker)

section \<open>What a search returns\<close>

lemma cand_match_build [simp]: "cand_match (build_search_candidate m t os q n) = m"
  by (simp add: build_search_candidate_def)

text \<open>The match that a snapshot with at least one hit contributes to the results.\<close>

definition snapshot_match :: "string \<Rightarrow> nat \<Rightarrow> nat \<Rightarrow> history_snapshot \<Rightarrow> history_search_match" where
  "snapshot_match query limit context snapshot =
     (let offsets = find_case_insensitive_match_offsets (snap_output snapshot) query;
          matches = build_search_snippets (snap_output snapshot) offsets (length query) limit context
      in \<lparr>match_record = snap_record snapshot, match_snapshot_at = snapshot_at snapshot,
          match_count = int (length offsets), snippets = map snippet_text matches,
          snippet_matches = matches\<rparr>)"

lemma search_snapshot_None_iff:
  "search_snapshot q limit ctx s = None \<longleftrightarrow>
   find_case_insensitive_match_offsets (snap_output s) q = []"
  by (simp add: search_snapshot_def Let_def)

lemma search_snapshot_match:
  "search_snapshot q limit ctx s = Some c \<Longrightarrow> cand_match c = snapshot_match q limit ctx s"
  by (auto simp: search_snapshot_def snapshot_match_def Let_def split: if_splits)

lemma map_cand_match_search:
  "map cand_match (List.map_filter (search_snapshot q limit ctx) ss) =
   map (snapshot_match q limit ctx)
     (filter (\<lambda>s. find_case_insensitive_match_offsets (snap_output s) q \<noteq> []) ss)"
proof (induction ss)
  case (Cons s ss)
  then show ?case
    using search_snapshot_None_iff [of q limit ctx s]
    by (cases "search_snapshot q limit ctx s") (simp_all add: map_filter_simps search_snapshot_match)
qed (simp add: map_filter_simps)

lemma mset_sort_history_search_matches:
  "mset (sort_history_search_matches cs sort_by) = mset (map cand_match cs)"
  by (simp add: sort_history_search_matches_def)

lemma search_results_mset:
  assumes "q \<noteq> []"
  shows "mset (search_history_snapshots ss q sort_by limit ctx) =
    mset (map (snapshot_match q limit ctx)
            (filter (\<lambda>s. \<exists>j. occurs_at (snap_output s) q j) ss))"
proof -
  have "filter (\<lambda>s. find_case_insensitive_match_offsets (snap_output s) q \<noteq> []) ss =
        filter (\<lambda>s. \<exists>j. occurs_at (snap_output s) q j) ss"
    using assms by (intro filter_cong refl) (simp add: find_offsets_empty_iff)
  then show ?thesis
    using assms map_cand_match_search [of q limit ctx ss]
    by (simp add: search_history_snapshots_def mset_sort_history_search_matches del: mset_map)
qed

lemma list_lex_hd_le: "(x # xs :: 'a::linorder list) \<le> y # ys \<Longrightarrow> x \<le> y"
  by (auto simp: Cons_le_Cons)

lemma relevance_key_head:
  "- match_count (cand_match c) # tl (fst (relevance_key c)) = fst (relevance_key c)"
  by (simp add: relevance_key_def)

lemma relevance_key_count:
  "relevance_key a \<le> relevance_key b \<Longrightarrow>
   match_count (cand_match b) \<le> match_count (cand_match a)"
  using list_lex_hd_le [of "- match_count (cand_match a)" "tl (fst (relevance_key a))"
      "- match_count (cand_match b)" "tl (fst (relevance_key b))"]
  by (auto simp: relevance_key_head less_eq_prod_def)

lemma sorted_wrt_map_sort_key:
  fixes key :: "'a \<Rightarrow> 'k::linorder"
  assumes "\<And>a b. key a \<le> key b \<Longrightarrow> R (f a) (f b)"
  shows "sorted_wrt R (map f (sort_key key xs))"
proof -
  have "sorted_wrt (\<lambda>a b. key a \<le> key b) (sort_key key xs)"
    using sorted_sort_key [of key xs] by (simp add: sorted_wrt_map)
  then show ?thesis
    by (auto simp: sorted_wrt_map intro: sorted_wrt_mono_rel [rotated] assms)
qed

lemma relevance_results_by_count:
  "sorted_wrt (\<lambda>a b. match_count b \<le> match_count a)
     (search_history_snapshots ss q Relevance limit ctx)"
  by (simp add: search_history_snapshots_def sort_history_search_matches_def
      sorted_wrt_map_sort_key relevance_key_count)

lemma newest_results_by_time:
  "sorted_wrt (\<lambda>a b. match_snapshot_at b \<le> match_snapshot_at a)
     (search_history_snapshots ss q Newest limit ctx)"
  by (auto simp: search_history_snapshots_def sort_history_search_matches_def newest_key_def
      less_eq_prod_def intro!: sorted_wrt_map_sort_key)

lemma oldest_results_by_time:
  "sorted_wrt (\<lambda>a b. match_snapshot_at a \<le> match_snapshot_at b)
     (search_history_snapshots ss q Oldest limit ctx)"
  by (auto simp: search_history_snapshots_def sort_history_search_matches_def oldest_key_def
      less_eq_prod_def intro!: sorted_wrt_map_sort_key)

section \<open>Snippets show their hit\<close>

lemma py_slice_mid:
  assumes "a \<le> b" "b \<le> c" "c \<le> d" "d \<le> length t"
  shows "\<exists>pre post. py_slice t a d = pre @ py_slice t b c @ post"
proof -
  have "py_slice t a d = take (b - a) (drop a t) @ take (c - b) (drop b t) @ take (d - c) (drop c t)"
  proof -
    have split: "d - a = (b - a) + ((c - b) + (d - c))" using assms by simp
    show ?thesis unfolding py_slice_def split take_add drop_drop using assms by simp
  qed
  then show ?thesis unfolding py_slice_def by blast
qed

lemma snippet_contains_hit:
  assumes "offset + q \<le> length t"
  shows "\<exists>pre post. snippet_text (build_search_snippet t q ctx (k, offset)) =
           pre @ py_slice t offset (offset + q) @ post"
proof -
  let ?start = "offset - ctx" and ?stop = "min (length t) (offset + q + ctx)"
  have "offset + q \<le> ?stop" using assms by simp
  then obtain pre post where
    mid: "py_slice t ?start ?stop = pre @ py_slice t offset (offset + q) @ post"
    using py_slice_mid [of ?start offset "offset + q" ?stop t] by auto
  define lead where "lead = (if ?start > 0 then ''...'' else [])"
  define trail where "trail = (if ?stop < length t then ''...'' else [])"
  have "snippet_text (build_search_snippet t q ctx (k, offset)) =
      (lead @ pre) @ py_slice t offset (offset + q) @ (post @ trail)"
    using mid by (auto simp: build_search_snippet_def Let_def lead_def trail_def min_def not_less
        split: if_splits)
  then show ?thesis by blast
qed

lemma snippet_length:
  "length (snippet_text (build_search_snippet t q ctx (k, offset))) \<le> q + 2 * ctx + 6"
proof -
  let ?start = "offset - ctx" and ?stop = "min (length t) (offset + q + ctx)"
  have "?stop - ?start \<le> q + 2 * ctx" by linarith
  then have "length (py_slice t ?start ?stop) \<le> q + 2 * ctx"
    by (simp add: py_slice_length)
  then show ?thesis by (auto simp: build_search_snippet_def Let_def)
qed

text \<open>The scan reports real occurrences of the query (case ignored), from left to right, none
overlapping another, and misses none: every occurrence overlaps a reported one.\<close>

theorem hits_are_disjoint_occurrences:
  "(\<forall>i \<in> set (find_case_insensitive_match_offsets t q). occurs_at t q i) \<and>
   sorted_wrt (\<lambda>a b. a + length q \<le> b) (find_case_insensitive_match_offsets t q) \<and>
   (\<forall>j. q \<noteq> [] \<longrightarrow> occurs_at t q j \<longrightarrow>
      (\<exists>i \<in> set (find_case_insensitive_match_offsets t q). i \<le> j \<and> j < i + length q))"
  using find_offsets_sound find_offsets_apart find_offsets_complete by blast

lemma hits_are_disjoint_occurrences_witness:
  "\<exists>i \<in> set (find_case_insensitive_match_offsets ''a FAIL'' ''fail''). i \<le> 2 \<and> 2 < i + length ''fail''"
proof -
  have "occurs_at ''a FAIL'' ''fail'' 2" "''fail'' \<noteq> ([] :: string)" by code_simp+
  then show ?thesis using hits_are_disjoint_occurrences [of "''a FAIL''" "''fail''"] by blast
qed

text \<open>The hit classes of the ranking are graded: for any hits, the counts fall from whole words
to wrapped words, exact tags, markers and colon markers, and from whole words to line starts, log
markers and delimited ones; the two chains split the whole-word hits between them.\<close>

theorem hit_classes_graded:
  "fst (count_line_start_exact_tag_colon_marker_hits t os q) \<le> fst (count_line_start_exact_tag_marker_hits t os q) \<and>
   fst (count_line_start_exact_tag_marker_hits t os q) \<le> fst (count_line_start_exact_tag_hits t os q) \<and>
   fst (count_line_start_exact_tag_hits t os q) \<le> fst (count_line_start_punctuation_wrap_hits t os q) \<and>
   fst (count_line_start_delimited_log_marker_hits t os q) \<le> fst (count_line_start_log_marker_hits t os q) \<and>
   fst (count_line_start_log_marker_hits t os q) \<le> fst (count_line_start_whole_word_hits t os q) \<and>
   fst (count_line_start_whole_word_hits t os q) + fst (count_line_start_punctuation_wrap_hits t os q) \<le>
     fst (count_whole_word_hits t os q) \<and>
   fst (count_whole_word_hits t os q) \<le> int (length os)"
proof -
  have "length (filter (\<lambda>i. is_line_start_whole_word_match t i q) os) +
      length (filter (\<lambda>i. is_line_start_punctuation_wrap_match t i q) os) \<le>
      length (filter (\<lambda>i. is_whole_word_match t i q) os)"
    by (induction os) (auto dest: line_start_is_whole_word wrap_is_whole_word line_start_not_wrap)
  then show ?thesis
    using line_start_exact_tag_colon_marker_refines.count_mono line_start_exact_tag_marker_refines.count_mono
      line_start_exact_tag_refines.count_mono line_start_delimited_log_marker_refines.count_mono
      line_start_log_marker_refines.count_mono whole_word.counter_range
    by (simp add: whole_word.counter_eq line_start_whole_word.counter_eq
        line_start_punctuation_wrap.counter_eq hits_summary_fst)
qed

text \<open>Every snippet shows its hit: it contains the text of the hit, and its length is bounded by
the query, twice the context and two ellipses.\<close>

lemma snippets_show_hits:
  assumes "sn \<in> set (build_search_snippets t (find_case_insensitive_match_offsets t q) (length q) limit ctx)"
  shows "(\<exists>pre hit post. snippet_text sn = pre @ hit @ post \<and> py_lower hit = py_lower q) \<and>
    length (snippet_text sn) \<le> length q + 2 * ctx + 6"
proof -
  from assms obtain k i where sn: "sn = build_search_snippet t (length q) ctx (k, i)"
    and i: "i \<in> set (find_case_insensitive_match_offsets t q)"
    by (auto simp: build_search_snippets_def in_set_enumerate_eq dest!: in_set_takeD nth_mem)
  from find_offsets_sound [OF i] have occ: "i + length q \<le> length t"
    "py_lower (py_slice t i (i + length q)) = py_lower q" by (auto simp: occurs_at_def)
  obtain pre post where "snippet_text sn = pre @ py_slice t i (i + length q) @ post"
    using snippet_contains_hit [OF occ(1), of ctx k] sn by blast
  with occ(2) snippet_length [of t "length q" ctx k i] sn show ?thesis by blast
qed

lemma snippets_show_hits_witness:
  "\<exists>sn \<in> set (build_search_snippets ''a FAIL'' (find_case_insensitive_match_offsets ''a FAIL'' ''fail'')
     (length ''fail'') 3 1). length (snippet_text sn) \<le> length ''fail'' + 2 * 1 + 6"
proof -
  have "occurs_at ''a FAIL'' ''fail'' 2" by code_simp
  then have "find_case_insensitive_match_offsets ''a FAIL'' ''fail'' \<noteq> []"
    using find_offsets_empty_iff [of "''fail''" "''a FAIL''"] by blast
  then obtain i rest where "find_case_insensitive_match_offsets ''a FAIL'' ''fail'' = i # rest"
    by (cases "find_case_insensitive_match_offsets ''a FAIL'' ''fail''") auto
  then have "build_search_snippet ''a FAIL'' (length ''fail'') 1 (0, i) \<in>
      set (build_search_snippets ''a FAIL'' (find_case_insensitive_match_offsets ''a FAIL'' ''fail'')
        (length ''fail'') 3 1)"
    by (simp add: build_search_snippets_def)
  from snippets_show_hits [OF this] this show ?thesis by blast
qed

end
