(* ===== verification/Json.thy ===== *)
theory Json
  imports Prelude
begin

text \<open>
  The fragment of Python's module \<open>json\<close> under the services that keep JSON: \<open>loads\<close>, and \<open>dumps\<close> with
  \<open>indent=2\<close>, \<open>sort_keys=True\<close> and \<open>ensure_ascii=False\<close>. A number is kept as its text. An escape of a character
  beyond 255 is outside of this model. The theory shows that a value that was printed is read back.
\<close>

datatype json =
    JNull
  | JBool bool
  | JNumber string
  | JString string
  | JArray "json list"
  | JObject "(string \<times> json) list"

section \<open>Printing\<close>

text \<open>\<open>ensure_ascii=False\<close>: quotes, backslashes and control characters are escaped.\<close>

definition json_hex :: "nat \<Rightarrow> char" where
  "json_hex n = (if n < 10 then char_of (48 + n) else char_of (87 + n))"

definition dump_char :: "char \<Rightarrow> string" where
  "dump_char c =
     (let n = of_char c :: nat in
      if n = 34 then [CHR 0x5C, CHR 0x22] else if n = 92 then [CHR 0x5C, CHR 0x5C]
      else if n = 10 then [CHR 0x5C, CHR ''n''] else if n = 13 then [CHR 0x5C, CHR ''r'']
      else if n = 9 then [CHR 0x5C, CHR ''t''] else if n = 12 then [CHR 0x5C, CHR ''f'']
      else if n = 8 then [CHR 0x5C, CHR ''b'']
      else if n < 32 then CHR 0x5C # ''u00'' @ [json_hex (n div 16), json_hex (n mod 16)]
      else [c])"

definition dump_string :: "string \<Rightarrow> string" where
  "dump_string s = CHR 0x22 # concat (map dump_char s) @ [CHR 0x22]"

definition new_line :: "nat \<Rightarrow> string" where
  "new_line i = newline # replicate i (CHR '' '')"

fun dump_value :: "nat \<Rightarrow> json \<Rightarrow> string"
  and dump_items :: "nat \<Rightarrow> json list \<Rightarrow> string"
  and dump_members :: "nat \<Rightarrow> (string \<times> json) list \<Rightarrow> string" where
  "dump_value i JNull = ''null''"
| "dump_value i (JBool b) = (if b then ''true'' else ''false'')"
| "dump_value i (JNumber t) = t"
| "dump_value i (JString s) = dump_string s"
| "dump_value i (JArray xs) =
     (if xs = [] then ''[]'' else CHR ''['' # new_line (i + 2) @ dump_items (i + 2) xs @ new_line i @ '']'')"
| "dump_value i (JObject kvs) =
     (if kvs = [] then ''{}'' else CHR ''{'' # new_line (i + 2) @ dump_members (i + 2) kvs @ new_line i @ ''}'')"
| "dump_items i [] = []"
| "dump_items i (x # xs) = dump_value i x @ (if xs = [] then [] else CHR '','' # new_line i @ dump_items i xs)"
| "dump_members i [] = []"
| "dump_members i ((k, v) # kvs) =
     dump_string k @ '': '' @ dump_value i v @ (if kvs = [] then [] else CHR '','' # new_line i @ dump_members i kvs)"

text \<open>\<open>sort_keys=True\<close>, in every object.\<close>

fun sort_keys :: "json \<Rightarrow> json" where
  "sort_keys (JArray xs) = JArray (map sort_keys xs)"
| "sort_keys (JObject kvs) = JObject (sort_key fst (map (\<lambda>(k, v). (k, sort_keys v)) kvs))"
| "sort_keys v = v"

definition json_dumps :: "json \<Rightarrow> string" where
  "json_dumps v = dump_value 0 (sort_keys v)"

section \<open>Reading\<close>

definition json_space :: "char \<Rightarrow> bool" where
  "json_space c \<longleftrightarrow> c = CHR '' '' \<or> c = tab \<or> c = newline \<or> c = CHR 0x0D"

definition skip_spaces :: "string \<Rightarrow> string" where
  "skip_spaces s = dropWhile json_space s"

definition hex_value :: "char \<Rightarrow> nat option" where
  "hex_value c =
     (let n = of_char c :: nat in
      if 48 \<le> n \<and> n \<le> 57 then Some (n - 48)
      else if 97 \<le> n \<and> n \<le> 102 then Some (n - 87)
      else if 65 \<le> n \<and> n \<le> 70 then Some (n - 55) else None)"

fun hex_number :: "nat \<Rightarrow> string \<Rightarrow> nat option" where
  "hex_number acc [] = Some acc"
| "hex_number acc (c # cs) = (case hex_value c of None \<Rightarrow> None | Some d \<Rightarrow> hex_number (acc * 16 + d) cs)"

definition simple_escape :: "char \<Rightarrow> char option" where
  "simple_escape c =
     map_of [(CHR 0x22, CHR 0x22), (CHR 0x5C, CHR 0x5C), (CHR ''/'', CHR ''/''), (CHR ''b'', CHR 0x08),
             (CHR ''f'', CHR 0x0C), (CHR ''n'', newline), (CHR ''r'', CHR 0x0D), (CHR ''t'', tab)] c"

text \<open>The rest of a string after its opening quote, and what follows.\<close>

definition put_char :: "char \<Rightarrow> (string \<times> string) option \<Rightarrow> (string \<times> string) option" where
  "put_char c r = map_option (\<lambda>(t, rest). (c # t, rest)) r"

fun parse_string :: "string \<Rightarrow> (string \<times> string) option" where
  "parse_string [] = None"
| "parse_string (c # cs) =
     (if c = CHR 0x22 then Some ([], cs)
      else if c = CHR 0x5C then
        (case cs of
           [] \<Rightarrow> None
         | e # r \<Rightarrow>
             if e = CHR ''u'' then
               (case r of
                  h1 # h2 # h3 # h4 # r' \<Rightarrow>
                    (case hex_number 0 [h1, h2, h3, h4] of
                       None \<Rightarrow> None
                     | Some n \<Rightarrow> if n < 256 then put_char (char_of n) (parse_string r') else None)
                | _ \<Rightarrow> None)
             else (case simple_escape e of None \<Rightarrow> None | Some d \<Rightarrow> put_char d (parse_string r)))
      else if (of_char c :: nat) < 32 then None
      else put_char c (parse_string cs))"

text \<open>A number: a sign, digits without a leading zero, a fraction and an exponent.\<close>

definition is_digit :: "char \<Rightarrow> bool" where
  "is_digit c \<longleftrightarrow> digit_value c \<noteq> None"

definition parse_integer_part :: "string \<Rightarrow> (string \<times> string) option" where
  "parse_integer_part s =
     (case s of
        [] \<Rightarrow> None
      | c # cs \<Rightarrow>
          if c = CHR ''0'' then Some ([c], cs)
          else if is_digit c then Some (takeWhile is_digit s, dropWhile is_digit s) else None)"

definition parse_fraction :: "string \<Rightarrow> string \<times> string" where
  "parse_fraction s =
     (case s of
        c # d # cs \<Rightarrow>
          if c = CHR ''.'' \<and> is_digit d then (c # takeWhile is_digit (d # cs), dropWhile is_digit (d # cs)) else ([], s)
      | _ \<Rightarrow> ([], s))"

definition parse_exponent :: "string \<Rightarrow> string \<times> string" where
  "parse_exponent s =
     (case s of
        c # cs \<Rightarrow>
          let (sign, ds) = (case cs of
                d # ds \<Rightarrow> if d = CHR ''+'' \<or> d = CHR ''-'' then ([d], ds) else ([], cs)
              | [] \<Rightarrow> ([], cs)) in
          if (c = CHR ''e'' \<or> c = CHR ''E'') \<and> takeWhile is_digit ds \<noteq> []
          then (c # sign @ takeWhile is_digit ds, dropWhile is_digit ds) else ([], s)
      | [] \<Rightarrow> ([], s))"

definition parse_number :: "string \<Rightarrow> (json \<times> string) option" where
  "parse_number s =
     (let (sign, s1) = (case s of c # cs \<Rightarrow> if c = CHR ''-'' then ([c], cs) else ([], s) | [] \<Rightarrow> ([], s)) in
      case parse_integer_part s1 of
        None \<Rightarrow> None
      | Some (ds, s2) \<Rightarrow>
          let (fraction, s3) = parse_fraction s2; (exponent, s4) = parse_exponent s3 in
          Some (JNumber (sign @ ds @ fraction @ exponent), s4))"

text \<open>The words of JSON, and those of Python for what is no finite number.\<close>

fun parse_word :: "(string \<times> json) list \<Rightarrow> string \<Rightarrow> (json \<times> string) option" where
  "parse_word [] s = parse_number s"
| "parse_word ((w, v) # ws) s = (if py_startswith s w then Some (v, drop (length w) s) else parse_word ws s)"

definition json_words :: "(string \<times> json) list" where
  "json_words =
     [(''null'', JNull), (''true'', JBool True), (''false'', JBool False), (''NaN'', JNumber ''NaN''),
      (''Infinity'', JNumber ''Infinity''), (''-Infinity'', JNumber ''-Infinity'')]"

text \<open>\<open>dict(pairs)\<close>.\<close>

definition dict_of :: "(string \<times> 'a) list \<Rightarrow> (string, 'a) dict" where
  "dict_of kvs = fold (\<lambda>(k, v) d. dict_set k v d) kvs []"

lemma parse_string_shorter: "parse_string s = Some (t, r) \<Longrightarrow> length r < length s"
  by (induction s arbitrary: t rule: parse_string.induct)
    (fastforce simp: put_char_def split: if_splits list.splits option.splits)+

lemma skip_spaces_le: "length (skip_spaces s) \<le> length s"
  by (simp add: skip_spaces_def length_dropWhile_le)

lemma skip_spaces_Cons: "skip_spaces s = d # r \<Longrightarrow> Suc (length r) \<le> length s"
  using skip_spaces_le [of s] by simp

text \<open>
  A value, the rest of an array after its first bracket and the rest of an object. The comparisons of lengths
  only serve the termination: what is left is always shorter (\<open>parse_shorter\<close>).
\<close>

function parse_value :: "string \<Rightarrow> (json \<times> string) option"
  and parse_items :: "string \<Rightarrow> (json list \<times> string) option"
  and parse_members :: "string \<Rightarrow> ((string \<times> json) list \<times> string) option" where
  "parse_value s =
     (case s of
        [] \<Rightarrow> None
      | c # cs \<Rightarrow>
          if c = CHR 0x22 then map_option (\<lambda>(t, r). (JString t, r)) (parse_string cs)
          else if c = CHR ''['' then
            (case skip_spaces cs of
               [] \<Rightarrow> None
             | d # r \<Rightarrow>
                 if d = CHR '']'' then Some (JArray [], r)
                 else map_option (\<lambda>(xs, r'). (JArray xs, r')) (parse_items (d # r)))
          else if c = CHR ''{'' then
            (case skip_spaces cs of
               [] \<Rightarrow> None
             | d # r \<Rightarrow>
                 if d = CHR ''}'' then Some (JObject [], r)
                 else map_option (\<lambda>(kvs, r'). (JObject (dict_of kvs), r')) (parse_members (d # r)))
          else parse_word json_words s)"
| "parse_items s =
     (case parse_value s of
        None \<Rightarrow> None
      | Some (v, r) \<Rightarrow>
          (case skip_spaces r of
             [] \<Rightarrow> None
           | d # r1 \<Rightarrow>
               if d = CHR '']'' then Some ([v], r1)
               else if d = CHR '','' \<and> length r1 < length s
                 then map_option (\<lambda>(xs, r2). (v # xs, r2)) (parse_items (skip_spaces r1))
               else None))"
| "parse_members s =
     (case s of
        [] \<Rightarrow> None
      | c # cs \<Rightarrow>
          if c \<noteq> CHR 0x22 then None
          else
            (case parse_string cs of
               None \<Rightarrow> None
             | Some (k, r) \<Rightarrow>
                 (case skip_spaces r of
                    [] \<Rightarrow> None
                  | d # r1 \<Rightarrow>
                      if d \<noteq> CHR '':'' then None
                      else
                        (case parse_value (skip_spaces r1) of
                           None \<Rightarrow> None
                         | Some (v, r2) \<Rightarrow>
                             (case skip_spaces r2 of
                                [] \<Rightarrow> None
                              | e # r3 \<Rightarrow>
                                  if e = CHR ''}'' then Some ([(k, v)], r3)
                                  else if e = CHR '','' \<and> length r3 < length s
                                    then map_option (\<lambda>(kvs, r4). ((k, v) # kvs, r4)) (parse_members (skip_spaces r3))
                                  else None)))))"
  by pat_completeness auto
termination
  by (relation "measure (\<lambda>x. case x of Inl s \<Rightarrow> 2 * length s | Inr (Inl s) \<Rightarrow> 2 * length s + 1 | Inr (Inr s) \<Rightarrow> 2 * length s + 1)")
    (auto dest!: skip_spaces_Cons parse_string_shorter intro: le_less_trans [OF skip_spaces_le] le_less_trans [OF mult_le_mono2 [OF skip_spaces_le]])


declare parse_value.simps [simp del] parse_items.simps [simp del] parse_members.simps [simp del]

definition json_loads :: "string \<Rightarrow> json option" where
  "json_loads s =
     (case parse_value (skip_spaces s) of
        None \<Rightarrow> None
      | Some (v, r) \<Rightarrow> if skip_spaces r = [] then Some v else None)"

section \<open>What was printed is read back\<close>

text \<open>Values without numbers, with the keys of an object apart.\<close>

fun plain_json :: "json \<Rightarrow> bool" where
  "plain_json (JNumber t) = False"
| "plain_json (JArray xs) = list_all plain_json xs"
| "plain_json (JObject kvs) = (distinct (map fst kvs) \<and> list_all (\<lambda>(k, v). plain_json v) kvs)"
| "plain_json v = True"

lemma hex_value_hex: "d < 16 \<Longrightarrow> hex_value (json_hex d) = Some d"
  by (auto simp: hex_value_def json_hex_def Let_def)

lemma parse_dump_char: "parse_string (dump_char c @ r) = put_char c (parse_string r)"
proof -
  let ?n = "of_char c :: nat"
  have c: "char_of ?n = c" by simp
  have "?n < 256" by (rule nat_of_char_less_256)
  then have small: "?n div 16 < 16" "?n mod 16 < 16" by linarith+
  consider "?n \<in> {34, 92, 10, 13, 9, 12, 8}" | "?n < 32" "?n \<notin> {34, 92, 10, 13, 9, 12, 8}"
    | "32 \<le> ?n" "?n \<notin> {34, 92, 10, 13, 9, 12, 8}" by fastforce
  then show ?thesis
  proof cases
    case 1
    then have "c \<in> char_of ` {34 :: nat, 92, 10, 13, 9, 12, 8}" using c by (metis image_eqI)
    moreover have "char_of (34 :: nat) = CHR 0x22" "char_of (92 :: nat) = CHR 0x5C" "char_of (10 :: nat) = newline"
      "char_of (13 :: nat) = CHR 0x0D" "char_of (9 :: nat) = tab" "char_of (12 :: nat) = CHR 0x0C"
      "char_of (8 :: nat) = CHR 0x08"
      by code_simp+
    ultimately show ?thesis by (auto simp: dump_char_def simple_escape_def)
  next
    case 2
    then have "dump_char c = [CHR 0x5C, CHR ''u'', CHR ''0'', CHR ''0'', json_hex (?n div 16), json_hex (?n mod 16)]"
      by (simp add: dump_char_def Let_def)
    moreover have "hex_value (CHR ''0'') = Some 0" by (simp add: hex_value_def)
    moreover have "?n < 256" by (rule nat_of_char_less_256)
    ultimately show ?thesis by (simp add: hex_value_hex small)
  next
    case 3
    then have "dump_char c = [c]" "c \<noteq> CHR 0x22" "c \<noteq> CHR 0x5C" by (auto simp: dump_char_def)
    with 3 show ?thesis by simp
  qed
qed

lemma parse_dump_string: "parse_string (concat (map dump_char s) @ CHR 0x22 # r) = Some (s, r)"
  by (induction s) (simp_all add: parse_dump_char put_char_def)

lemma skip_spaces_simps [simp]:
  "skip_spaces [] = []" "json_space c \<Longrightarrow> skip_spaces (c # cs) = skip_spaces cs" "\<not> json_space c \<Longrightarrow> skip_spaces (c # cs) = c # cs"
  by (simp_all add: skip_spaces_def)

lemma skip_new_line [simp]: "skip_spaces (new_line i @ s) = skip_spaces s"
  by (simp add: new_line_def json_space_def) (induction i; simp add: json_space_def)

lemma dump_first:
  assumes "plain_json v"
  shows "\<exists>c cs. dump_value i v @ r = c # cs \<and> \<not> json_space c \<and> c \<noteq> CHR '']'' \<and> c \<noteq> CHR ''}''"
  using assms by (cases v) (auto simp: dump_string_def json_space_def)

lemma skip_dump: "plain_json v \<Longrightarrow> skip_spaces (dump_value i v @ r) = dump_value i v @ r"
  using dump_first [of v i r] by auto

lemma dict_of_distinct: "distinct (map fst kvs) \<Longrightarrow> dict_of kvs = kvs"
proof -
  have "fold (\<lambda>(k, v) d. dict_set k v d) kvs d = d @ kvs"
    if "distinct (map fst kvs)" "fst ` set d \<inter> fst ` set kvs = {}" for d :: "(string, 'a) dict"
    using that
  proof (induction kvs arbitrary: d)
    case (Cons kv kvs)
    obtain k v where kv: "kv = (k, v)" by (cases kv)
    with Cons.prems have "k \<notin> fst ` set d" by auto
    then have "dict_set k v d = d @ [(k, v)]"
      by (induction d) auto
    with Cons kv show ?case by auto
  qed simp
  from this [of "[]"] show "distinct (map fst kvs) \<Longrightarrow> dict_of kvs = kvs" by (simp add: dict_of_def)
qed

lemma parse_dump:
  "plain_json v \<Longrightarrow> parse_value (dump_value i v @ r) = Some (v, r)"
  "list_all plain_json xs \<Longrightarrow> xs \<noteq> [] \<Longrightarrow>
   parse_items (dump_items i xs @ new_line j @ CHR '']'' # r) = Some (xs, r)"
  "list_all (\<lambda>(k, v). plain_json v) kvs \<Longrightarrow> kvs \<noteq> [] \<Longrightarrow>
   parse_members (dump_members i kvs @ new_line j @ CHR ''}'' # r) = Some (kvs, r)"
proof (induction i v and i xs and i kvs arbitrary: r and j r and j r
    rule: dump_value_dump_items_dump_members.induct)
  case (1 i)
  then show ?case by (simp add: parse_value.simps json_words_def py_startswith_def)
next
  case (2 i b)
  then show ?case by (simp add: parse_value.simps json_words_def py_startswith_def)
next
  case (4 i s)
  then show ?case by (simp add: parse_value.simps dump_string_def parse_dump_string)
next
  case (5 i xs)
  show ?case
  proof (cases xs)
    case Nil
    then show ?thesis by (simp add: parse_value.simps json_space_def)
  next
    case (Cons x ys)
    with 5 have "plain_json x" by simp
    from dump_first [OF this] obtain c cs where c: "dump_items (i + 2) xs @ new_line i @ CHR '']'' # r = c # cs"
      "\<not> json_space c" "c \<noteq> CHR '']''"
      unfolding Cons by (metis append.assoc dump_items.simps(2))
    have "list_all plain_json xs" using "5.prems" by simp
    with "5.IH" Cons have "parse_items (dump_items (i + 2) xs @ new_line i @ CHR '']'' # r) = Some (xs, r)" by blast
    with c Cons show ?thesis by (simp add: parse_value.simps json_space_def del: dump_items.simps add_2_eq_Suc')
  qed
next
  case (6 i kvs)
  show ?case
  proof (cases kvs)
    case Nil
    then show ?thesis by (simp add: parse_value.simps json_space_def)
  next
    case (Cons kv rest)
    obtain k v where kv: "kv = (k, v)" by (cases kv)
    have "\<exists>cs. dump_members (i + 2) kvs @ new_line i @ CHR ''}'' # r = CHR 0x22 # cs"
      using Cons kv by (simp add: dump_string_def)
    then obtain cs where c: "dump_members (i + 2) kvs @ new_line i @ CHR ''}'' # r = CHR 0x22 # cs" by blast
    have plain: "list_all (\<lambda>(k, v). plain_json v) kvs" "distinct (map fst kvs)" using "6.prems" by simp_all
    with "6.IH" Cons have "parse_members (dump_members (i + 2) kvs @ new_line i @ CHR ''}'' # r) = Some (kvs, r)" by blast
    with c Cons dict_of_distinct [OF plain(2)] show ?thesis
      by (simp add: parse_value.simps json_space_def del: dump_members.simps add_2_eq_Suc')
  qed
next
  case (8 i x xs)
  show ?case
  proof (cases "xs = []")
    case True
    with 8 show ?thesis by (simp add: parse_items.simps json_space_def)
  next
    case False
    with 8 obtain y ys where "xs = y # ys" "plain_json y" by (cases xs) auto
    then have "skip_spaces (dump_items i xs @ new_line j @ CHR '']'' # r) = dump_items i xs @ new_line j @ CHR '']'' # r"
      using skip_dump by simp
    with 8 False show ?thesis by (subst parse_items.simps) (simp add: json_space_def)
  qed
next
  case (10 i k v kvs)
  have str: "dump_string k @ s = CHR 0x22 # concat (map dump_char k) @ CHR 0x22 # s" for s by (simp add: dump_string_def)
  show ?case
  proof (cases "kvs = []")
    case True
    with 10 show ?thesis
      by (subst parse_members.simps) (simp add: str parse_dump_string json_space_def skip_dump)
  next
    case False
    then obtain k' v' rest where "kvs = (k', v') # rest" by (cases kvs) auto
    then have "skip_spaces (dump_members i kvs @ new_line j @ CHR ''}'' # r) = dump_members i kvs @ new_line j @ CHR ''}'' # r"
      by (simp add: dump_string_def json_space_def)
    with 10 False show ?thesis
      by (subst parse_members.simps) (simp add: str parse_dump_string json_space_def skip_dump)
  qed
qed simp_all

lemma plain_sorted: "plain_json v \<Longrightarrow> plain_json (sort_keys v)"
proof (induction v rule: sort_keys.induct)
  case (2 kvs)
  have "map fst (map (\<lambda>(k, v). (k, sort_keys v)) kvs) = map fst kvs" by (induction kvs) auto
  then have "distinct (map fst (map (\<lambda>(k, v). (k, sort_keys v)) kvs))" using 2(2) by (simp only: plain_json.simps)
  then have "distinct (map fst (sort_key fst (map (\<lambda>(k, v). (k, sort_keys v)) kvs)))"
    by (metis mset_eq_imp_distinct_iff mset_map mset_sort)
  then show ?case using 2 by (auto simp: list_all_iff split: prod.splits)
qed (auto simp: list_all_iff)

lemma json_roundtrip:
  assumes "plain_json v"
  shows "json_loads (json_dumps v @ [newline]) = Some (sort_keys v)"
  using parse_dump(1) [OF plain_sorted [OF assms], of 0 "[newline]"] skip_dump [OF plain_sorted [OF assms], of 0 "[newline]"]
  by (simp add: json_loads_def json_dumps_def json_space_def)

section \<open>Parsing consumes\<close>

lemma parse_fraction_le: "parse_fraction s = (f, r) \<Longrightarrow> length r \<le> length s"
  by (auto simp: parse_fraction_def length_dropWhile_le split: list.splits if_splits
      dest!: sym [of _ r] intro: order_trans [OF length_dropWhile_le])

lemma parse_exponent_le: "parse_exponent s = (f, r) \<Longrightarrow> length r \<le> length s"
  by (auto simp: parse_exponent_def Let_def split: list.splits if_splits prod.splits
      intro: le_SucI order_trans [OF length_dropWhile_le])

lemma parse_integer_part_shorter: "parse_integer_part s = Some (d, r) \<Longrightarrow> length r < length s"
  by (auto simp: parse_integer_part_def le_imp_less_Suc length_dropWhile_le split: list.splits if_splits)

lemma parse_number_shorter: "parse_number s = Some (v, r) \<Longrightarrow> length r < length s"
  by (fastforce simp: parse_number_def Let_def split: list.splits if_splits prod.splits option.splits
      dest!: parse_integer_part_shorter parse_fraction_le parse_exponent_le)

lemma parse_word_shorter: "parse_word ws s = Some (v, r) \<Longrightarrow> \<forall>w \<in> fst ` set ws. w \<noteq> [] \<Longrightarrow> length r < length s"
proof (induction ws s rule: parse_word.induct)
  case (2 w v' ws s)
  then show ?case by (cases s; cases w) (auto split: if_splits dest!: py_startswith_length)
qed (simp add: parse_number_shorter)

lemma parse_shorter:
  "parse_value s = Some (v, r) \<Longrightarrow> length r < length s"
  "parse_items s = Some (xs, r) \<Longrightarrow> length r < length s"
  "parse_members s = Some (kvs, r) \<Longrightarrow> length r < length s"
proof (induction s and s and s arbitrary: v r and xs r and kvs r rule: parse_value_parse_items_parse_members.induct)
  case (1 s)
  show ?case
  proof (cases s)
    case (Cons c cs)
    have words: "\<forall>w \<in> fst ` set json_words. w \<noteq> []" by (simp add: json_words_def)
    from 1 Cons show ?thesis
      by (subst (asm) parse_value.simps)
        (fastforce split: if_splits list.splits dest: parse_string_shorter skip_spaces_Cons parse_word_shorter [OF _ words])
  qed (use 1 in \<open>simp add: parse_value.simps\<close>)
next
  case (2 s)
  from "2.prems" obtain x r0 d r1 where x: "parse_value s = Some (x, r0)" "skip_spaces r0 = d # r1"
    and rest: "d = CHR '']'' \<and> r = r1 \<or> d = CHR '','' \<and> length r1 < length s \<and> d \<noteq> CHR '']'' \<and>
      (\<exists>ys. parse_items (skip_spaces r1) = Some (ys, r))"
    by (subst (asm) parse_items.simps) (auto split: option.splits list.splits if_splits)
  have "length r0 < length s" using x(1) by (rule "2.IH"(1))
  moreover have "length r < length s" if "length r1 < length s" "parse_items (skip_spaces r1) = Some (ys, r)"
    "d = CHR '',''" for ys
    using "2.IH"(2) [OF x(1) refl x(2) _ _ that(2)] that skip_spaces_le [of r1] by simp
  ultimately show ?case using rest skip_spaces_Cons [OF x(2)] by auto
next
  case (3 s)
  from "3.prems" obtain c cs where s: "s = c # cs" and c: "c = CHR 0x22"
    by (subst (asm) parse_members.simps) (auto split: list.splits if_splits)
  from "3.prems" s obtain k r0 d r1 where k: "parse_string cs = Some (k, r0)" "skip_spaces r0 = d # r1" "d = CHR '':''"
    by (subst (asm) parse_members.simps) (auto split: option.splits list.splits if_splits)
  from "3.prems" s k obtain x r2 e r3 where x: "parse_value (skip_spaces r1) = Some (x, r2)" "skip_spaces r2 = e # r3"
    and rest: "e = CHR ''}'' \<and> r = r3 \<or> e = CHR '','' \<and> length r3 < length s \<and> e \<noteq> CHR ''}'' \<and>
      (\<exists>ys. parse_members (skip_spaces r3) = Some (ys, r))"
    by (subst (asm) parse_members.simps) (auto split: option.splits list.splits if_splits)
  have "length r3 < length s"
    using "3.IH"(1) [OF s _ k(1) refl k(2) _ x(1)] c k(3) parse_string_shorter [OF k(1)] skip_spaces_Cons [OF k(2)]
      skip_spaces_le [of r1] skip_spaces_Cons [OF x(2)] s by simp
  moreover have "length r < length s" if "parse_members (skip_spaces r3) = Some (ys, r)" "e = CHR '',''"
    "length r3 < length s" for ys
    using "3.IH"(2) [OF s _ k(1) refl k(2) _ x(1) refl x(2) _ _ that(1)] c k(3) that skip_spaces_le [of r3] by simp
  ultimately show ?case using rest by auto
qed

end
