(* ===== verification/JsonLine.thy ===== *)
theory JsonLine
  imports Json
begin

text \<open>
  \<open>json.dumps\<close> with its default separators, on one line: with \<open>ensure_ascii=False\<close> for terminal
  snapshots and the answers of an agent, and (theory \<open>JsonAscii\<close>) with \<open>ensure_ascii=True\<close>. The two differ in how
  they escape a character; what they share is stated by the locale \<open>char_escape\<close>: a string that was escaped is read back. So is every value, and an
  object that is cut is not read.
\<close>

fun line_value :: "(char \<Rightarrow> string) \<Rightarrow> json \<Rightarrow> string"
  and line_items :: "(char \<Rightarrow> string) \<Rightarrow> json list \<Rightarrow> string"
  and line_members :: "(char \<Rightarrow> string) \<Rightarrow> (string \<times> json) list \<Rightarrow> string" where
  "line_value esc JNull = ''null''"
| "line_value esc (JBool b) = (if b then ''true'' else ''false'')"
| "line_value esc (JNumber t) = t"
| "line_value esc (JString s) = CHR 0x22 # concat (map esc s) @ [CHR 0x22]"
| "line_value esc (JArray xs) = CHR ''['' # line_items esc xs @ '']''"
| "line_value esc (JObject kvs) = CHR ''{'' # line_members esc kvs @ ''}''"
| "line_items esc [] = []"
| "line_items esc (x # xs) = line_value esc x @ (if xs = [] then [] else '', '' @ line_items esc xs)"
| "line_members esc [] = []"
| "line_members esc ((k, v) # kvs) =
     CHR 0x22 # concat (map esc k) @ CHR 0x22 # '': '' @ line_value esc v @ (if kvs = [] then [] else '', '' @ line_members esc kvs)"

definition dumps_unicode :: "json \<Rightarrow> string" where
  "dumps_unicode v = line_value dump_char v"

section \<open>Reading one line\<close>

text \<open>The text of an integer, as \<open>str\<close> gives it.\<close>

definition integer_text :: "string \<Rightarrow> bool" where
  "integer_text t \<longleftrightarrow>
     (let ds = (if py_startswith t ''-'' then drop 1 t else t) in
      ds \<noteq> [] \<and> list_all is_digit ds \<and> (hd ds = CHR ''0'' \<longrightarrow> ds = ''0''))"

fun wire_json :: "json \<Rightarrow> bool" where
  "wire_json (JNumber t) = integer_text t"
| "wire_json (JArray xs) = list_all wire_json xs"
| "wire_json (JObject kvs) = (distinct (map fst kvs) \<and> list_all (\<lambda>(k, v). wire_json v) kvs)"
| "wire_json v = True"

text \<open>What follows a value on its line.\<close>

definition ends_value :: "string \<Rightarrow> bool" where
  "ends_value r \<longleftrightarrow> r = [] \<or> hd r \<in> {CHR '','', CHR '']'', CHR ''}''}"

lemma digit_code: "is_digit c \<longleftrightarrow> 48 \<le> (of_char c :: nat) \<and> (of_char c :: nat) \<le> 57"
  by (simp add: is_digit_def digit_value_def Let_def)

lemma ends_no_digit: "ends_value r \<Longrightarrow> takeWhile is_digit r = [] \<and> dropWhile is_digit r = r"
  by (cases r) (auto simp: ends_value_def digit_code)

lemma parse_ends:
  assumes "ends_value r"
  shows "parse_fraction r = ([], r)" and "parse_exponent r = ([], r)"
proof -
  consider "r = []" | cs where "r = CHR '','' # cs" | cs where "r = CHR '']'' # cs" | cs where "r = CHR ''}'' # cs"
    using assms by (cases r) (auto simp: ends_value_def)
  then have "parse_fraction r = ([], r) \<and> parse_exponent r = ([], r)"
    by cases (simp_all add: parse_fraction_def parse_exponent_def split: list.split prod.split)
  then show "parse_fraction r = ([], r)" "parse_exponent r = ([], r)" by simp_all
qed

lemma parse_number_text:
  assumes "integer_text t" and "ends_value r"
  shows "parse_number (t @ r) = Some (JNumber t, r)"
proof -
  obtain s ds where t: "t = s @ ds" and s: "s = [] \<or> s = ''-''"
    and ds: "ds \<noteq> []" "list_all is_digit ds" "hd ds = CHR ''0'' \<longrightarrow> ds = ''0''"
  proof (cases "py_startswith t ''-''")
    case True
    with assms(1) that [of "''-''" "drop 1 t"] show ?thesis by (cases t) (auto simp: integer_text_def py_startswith_def Let_def)
  next
    case False
    with assms(1) that [of "[]" t] show ?thesis by (simp add: integer_text_def)
  qed
  from ds(1,2) obtain d ds' where d: "ds = d # ds'" "is_digit d" by (cases ds) auto
  then have minus: "d \<noteq> CHR ''-''" by (auto simp: digit_code)
  have int: "parse_integer_part (ds @ r) = Some (ds, r)"
  proof (cases "d = CHR ''0''")
    case True
    with ds(3) d have "ds = ''0''" by simp
    then show ?thesis by (simp add: parse_integer_part_def)
  next
    case False
    have "takeWhile is_digit (ds @ r) = ds" "dropWhile is_digit (ds @ r) = r"
      using ds(2) ends_no_digit [OF assms(2)] by (simp_all add: takeWhile_append2 dropWhile_append2 list_all_iff)
    with False d show ?thesis by (simp add: parse_integer_part_def)
  qed
  have "parse_fraction r = ([], r)" "parse_exponent r = ([], r)"
    using parse_ends [OF assms(2)] by simp_all
  moreover have "(case s @ ds @ r of [] \<Rightarrow> ([], s @ ds @ r) | c # cs \<Rightarrow> if c = CHR ''-'' then ([c], cs) else ([], s @ ds @ r)) = (s, ds @ r)"
    using d minus s by (auto simp: t)
  ultimately show ?thesis using int by (simp add: parse_number_def t)
qed

lemma integer_text_first:
  assumes "integer_text t"
  shows "\<exists>c cs. t = c # cs \<and> (is_digit c \<or> c = CHR ''-'' \<and> (\<exists>d ds. cs = d # ds \<and> is_digit d))"
proof (cases "py_startswith t ''-''")
  case True
  with assms obtain cs where "t = CHR ''-'' # cs" "cs \<noteq> []" "list_all is_digit cs"
    by (cases t) (auto simp: integer_text_def py_startswith_def Let_def)
  then show ?thesis by (cases cs) auto
next
  case False
  with assms show ?thesis by (cases t) (auto simp: integer_text_def Let_def)
qed

lemma line_first:
  assumes "wire_json v"
  shows "\<exists>c cs. line_value esc v @ r = c # cs \<and> \<not> json_space c \<and> c \<noteq> CHR '']'' \<and> c \<noteq> CHR ''}''"
proof (cases v)
  case (JNumber t)
  with assms integer_text_first [of t] show ?thesis by (auto simp: digit_code json_space_def)
qed (simp_all add: json_space_def)

lemma skip_line: "wire_json v \<Longrightarrow> skip_spaces (line_value esc v @ r) = line_value esc v @ r"
  using line_first [of v esc r] by auto

lemma parse_value_digit:
  "is_digit c \<Longrightarrow> parse_value (c # cs) = parse_number (c # cs)"
  "is_digit d \<Longrightarrow> parse_value (CHR ''-'' # d # ds) = parse_number (CHR ''-'' # d # ds)"
proof -
  assume "is_digit c"
  then have "c \<notin> {CHR 0x22, CHR ''['', CHR ''{'', CHR ''n'', CHR ''t'', CHR ''f'', CHR ''N'', CHR ''I'', CHR ''-''}"
    by (auto simp: digit_code)
  then show "parse_value (c # cs) = parse_number (c # cs)"
    by (subst parse_value.simps) (simp add: json_words_def py_startswith_def)
next
  assume "is_digit d"
  then have "d \<noteq> CHR ''I''" by (auto simp: digit_code)
  then show "parse_value (CHR ''-'' # d # ds) = parse_number (CHR ''-'' # d # ds)"
    by (subst parse_value.simps) (simp add: json_words_def py_startswith_def)
qed

lemma parse_value_number:
  assumes "integer_text t" and "ends_value r"
  shows "parse_value (t @ r) = Some (JNumber t, r)"
proof -
  from integer_text_first [OF assms(1)] have "parse_value (t @ r) = parse_number (t @ r)"
    by (auto simp: parse_value_digit)
  then show ?thesis using parse_number_text [OF assms] by simp
qed

locale char_escape =
  fixes esc :: "char \<Rightarrow> string"
  assumes escaped: "parse_string (esc c @ r) = put_char c (parse_string r)"
begin

lemma string_read: "parse_string (concat (map esc s) @ CHR 0x22 # r) = Some (s, r)"
  by (induction s) (simp_all add: escaped put_char_def)

lemma value_read:
  "e = esc \<Longrightarrow> wire_json v \<Longrightarrow> ends_value r \<Longrightarrow> parse_value (line_value e v @ r) = Some (v, r)"
  "e = esc \<Longrightarrow> list_all wire_json xs \<Longrightarrow> xs \<noteq> [] \<Longrightarrow> parse_items (line_items e xs @ CHR '']'' # r) = Some (xs, r)"
  "e = esc \<Longrightarrow> list_all (\<lambda>(k, v). wire_json v) kvs \<Longrightarrow> kvs \<noteq> [] \<Longrightarrow>
   parse_members (line_members e kvs @ CHR ''}'' # r) = Some (kvs, r)"
proof (induction e v and e xs and e kvs arbitrary: r and r and r
    rule: line_value_line_items_line_members.induct)
  case (1 e)
  then show ?case by (simp add: parse_value.simps json_words_def py_startswith_def)
next
  case (2 e b)
  then show ?case by (simp add: parse_value.simps json_words_def py_startswith_def)
next
  case (3 e t)
  then show ?case by (simp add: parse_value_number)
next
  case (4 e s)
  then show ?case by (simp add: parse_value.simps string_read)
next
  case (5 e xs)
  show ?case
  proof (cases xs)
    case Nil
    then show ?thesis by (simp add: parse_value.simps json_space_def)
  next
    case (Cons x ys)
    with 5 have "wire_json x" by simp
    from line_first [OF this] obtain c cs where c: "line_items e xs @ CHR '']'' # r = c # cs" "\<not> json_space c" "c \<noteq> CHR '']''"
      unfolding Cons by (metis append.assoc line_items.simps(2))
    have "parse_items (line_items e xs @ CHR '']'' # r) = Some (xs, r)" using 5 Cons by simp
    with c Cons show ?thesis by (simp add: parse_value.simps json_space_def del: line_items.simps)
  qed
next
  case (6 e kvs)
  show ?case
  proof (cases kvs)
    case Nil
    then show ?thesis by (simp add: parse_value.simps json_space_def)
  next
    case (Cons kv rest)
    obtain k v where kv: "kv = (k, v)" by (cases kv)
    obtain cs where c: "line_members e kvs @ CHR ''}'' # r = CHR 0x22 # cs" using Cons kv by simp
    have plain: "list_all (\<lambda>(k, v). wire_json v) kvs" "distinct (map fst kvs)" using "6.prems" by simp_all
    with "6.IH" Cons "6.prems"(1) have "parse_members (line_members e kvs @ CHR ''}'' # r) = Some (kvs, r)" by blast
    with c Cons dict_of_distinct [OF plain(2)] show ?thesis
      by (simp add: parse_value.simps json_space_def del: line_members.simps)
  qed
next
  case (8 e x xs)
  show ?case
  proof (cases "xs = []")
    case True
    with 8 show ?thesis by (simp add: parse_items.simps json_space_def ends_value_def)
  next
    case False
    with 8 obtain y ys where "xs = y # ys" "wire_json y" by (cases xs) auto
    then have "skip_spaces (line_items e xs @ CHR '']'' # r) = line_items e xs @ CHR '']'' # r"
      using skip_line by simp
    with 8 False show ?thesis by (subst parse_items.simps) (simp add: json_space_def ends_value_def)
  qed
next
  case (10 e k v kvs)
  show ?case
  proof (cases "kvs = []")
    case True
    with 10 show ?thesis
      by (subst parse_members.simps) (simp add: string_read json_space_def skip_line ends_value_def)
  next
    case False
    then obtain k' v' rest where "kvs = (k', v') # rest" by (cases kvs) auto
    then have "skip_spaces (line_members e kvs @ CHR ''}'' # r) = line_members e kvs @ CHR ''}'' # r"
      by (simp add: json_space_def)
    with 10 False show ?thesis
      by (subst parse_members.simps) (simp add: string_read json_space_def skip_line ends_value_def)
  qed
qed simp_all

lemma line_read: "wire_json v \<Longrightarrow> json_loads (line_value esc v) = Some v"
  using value_read(1) [OF refl, of v "[]"] skip_line [of v esc "[]"] by (simp add: json_loads_def ends_value_def)

end

interpretation unicode: char_escape dump_char
  by unfold_locales (rule parse_dump_char)

lemma dumps_read: "wire_json v \<Longrightarrow> json_loads (dumps_unicode v) = Some v"
  by (simp add: dumps_unicode_def unicode.line_read)

section \<open>An object that is cut is no value\<close>

text \<open>More text after a value changes nothing, when the value is not a number that goes on.\<close>

definition closes :: "string \<Rightarrow> bool" where
  "closes r \<longleftrightarrow> r \<noteq> [] \<and> (json_space (hd r) \<or> hd r \<in> {CHR '','', CHR '']'', CHR ''}''})"

lemma closes_no_digit: "closes (c # cs) \<Longrightarrow> \<not> is_digit c \<and> c \<notin> {CHR ''.'', CHR ''e'', CHR ''E'', CHR ''-'', CHR ''+''}"
proof -
  assume "closes (c # cs)"
  then have "c \<in> {CHR '' '', tab, newline, CHR 0x0D, CHR '','', CHR '']'', CHR ''}''}" by (auto simp: closes_def json_space_def)
  moreover have "list_all (\<lambda>c. \<not> is_digit c \<and> c \<notin> {CHR ''.'', CHR ''e'', CHR ''E'', CHR ''-'', CHR ''+''})
    [CHR '' '', tab, newline, CHR 0x0D, CHR '','', CHR '']'', CHR ''}'']" by code_simp
  ultimately show ?thesis by (simp only: list_all_iff list.set) blast
qed

lemma put_char_some: "put_char c m = Some (t, r) \<longleftrightarrow> (\<exists>t'. m = Some (t', r) \<and> t = c # t')"
  by (cases m) (auto simp: put_char_def)

lemma string_more: "parse_string s = Some (t, r) \<Longrightarrow> parse_string (s @ x) = Some (t, r @ x)"
proof (induction s arbitrary: t rule: parse_string.induct)
  case (2 c cs)
  consider "c = CHR 0x22" | "c \<noteq> CHR 0x22" "c \<noteq> CHR 0x5C" | "c = CHR 0x5C" by blast
  then show ?case
  proof cases
    case 1
    with "2.prems" show ?thesis by simp
  next
    case 2
    with "2.prems" have "\<not> (of_char c :: nat) < 32" by (auto split: if_splits)
    with 2 "2.prems" "2.IH"(3) show ?thesis by (auto simp: put_char_some)
  next
    case 3
    with "2.prems" obtain e r' where cs: "cs = e # r'" by (cases cs) auto
    show ?thesis
    proof (cases "e = CHR ''u''")
      case True
      with 3 cs "2.prems" obtain h1 h2 h3 h4 r'' n where h: "r' = h1 # h2 # h3 # h4 # r''" "hex_number 0 [h1, h2, h3, h4] = Some n" "n < 256"
        "put_char (char_of n) (parse_string r'') = Some (t, r)"
        by (auto simp del: hex_number.simps split: list.splits option.splits if_splits)
      with "2.IH"(1) [OF _ 3 cs True h(1)] 3 cs True show ?thesis by (auto simp: put_char_some)
    next
      case False
      with 3 cs "2.prems" obtain d where d: "simple_escape e = Some d" "put_char d (parse_string r') = Some (t, r)"
        by (auto split: option.splits)
      with "2.IH"(2) [OF _ 3 cs False d(1)] 3 cs False show ?thesis by (auto simp: put_char_some)
    qed
  qed
qed simp

lemma digits_more: "dropWhile is_digit s \<noteq> [] \<Longrightarrow>
  takeWhile is_digit (s @ x) = takeWhile is_digit s \<and> dropWhile is_digit (s @ x) = dropWhile is_digit s @ x"
  by (induction s) auto

lemma integer_part_more:
  "parse_integer_part s = Some (ds, r) \<Longrightarrow> r \<noteq> [] \<Longrightarrow> parse_integer_part (s @ x) = Some (ds, r @ x)"
  using digits_more [of s x] by (cases s) (auto simp: parse_integer_part_def split: if_splits)

lemma exponent_more:
  assumes "parse_exponent s = (e, r)" and "closes r"
  shows "parse_exponent (s @ x) = (e, r @ x)"
proof (cases s)
  case Nil
  with assms show ?thesis by (simp add: parse_exponent_def closes_def)
next
  case (Cons c cs)
  show ?thesis
  proof (cases "(c = CHR ''e'' \<or> c = CHR ''E'') \<and> r \<noteq> s")
    case False
    then have "c \<noteq> CHR ''e''" "c \<noteq> CHR ''E''" using assms Cons closes_no_digit [of c cs] by auto
    with assms(1) Cons show ?thesis by (auto simp: parse_exponent_def Let_def split: list.splits prod.splits)
  next
    case True
    define ds where "ds = (case cs of d # ds \<Rightarrow> if d = CHR ''+'' \<or> d = CHR ''-'' then ds else cs | [] \<Rightarrow> cs)"
    have r: "r = dropWhile is_digit ds" "takeWhile is_digit ds \<noteq> []"
      using assms(1) True Cons by (auto simp: parse_exponent_def ds_def Let_def split: list.splits prod.splits if_splits)
    have "r \<noteq> []" using assms(2) by (simp add: closes_def)
    with r digits_more [of ds x] have more: "takeWhile is_digit (ds @ x) = takeWhile is_digit ds" "dropWhile is_digit (ds @ x) = r @ x"
      by simp_all
    obtain d ds' where "cs = d # ds'" using r(2) by (cases cs) (auto simp: ds_def)
    with more r assms(1) True Cons show ?thesis by (auto simp: parse_exponent_def ds_def Let_def split: if_splits)
  qed
qed

lemma fraction_more:
  assumes "parse_fraction s = (f, r)" and "parse_exponent r = (e, r')" and "closes r'"
  shows "parse_fraction (s @ x) = (f, r @ x)"
proof (cases "\<exists>d cs. s = CHR ''.'' # d # cs \<and> is_digit d")
  case True
  then obtain d cs where s: "s = CHR ''.'' # d # cs" "is_digit d" by blast
  with assms(1) have r: "r = dropWhile is_digit (d # cs)" by (simp add: parse_fraction_def)
  have "r \<noteq> []" using assms(2,3) by (auto simp: parse_exponent_def closes_def split: list.splits)
  with r s assms(1) digits_more [of "d # cs" x] show ?thesis by (simp add: parse_fraction_def)
next
  case False
  with assms(1) have s: "f = []" "r = s" by (auto simp: parse_fraction_def split: list.splits if_splits)
  have "s \<noteq> []" using assms(2,3) s by (auto simp: parse_exponent_def closes_def)
  moreover have "hd s \<noteq> CHR ''.''"
  proof
    assume "hd s = CHR ''.''"
    then obtain cs where "s = CHR ''.'' # cs" using \<open>s \<noteq> []\<close> by (cases s) auto
    with assms(2,3) s have "closes (CHR ''.'' # cs)" by (auto simp: parse_exponent_def Let_def split: list.splits prod.splits)
    from closes_no_digit [OF this] show False by simp
  qed
  ultimately show ?thesis using s by (cases s) (auto simp: parse_fraction_def split: list.splits)
qed

lemma number_more:
  assumes "parse_number s = Some (v, r)" and "closes r"
  shows "parse_number (s @ x) = Some (v, r @ x)"
proof -
  obtain sign s1 where s1: "(case s of c # cs \<Rightarrow> if c = CHR ''-'' then ([c], cs) else ([], s) | [] \<Rightarrow> ([], s)) = (sign, s1)"
    by fastforce
  obtain ds s2 where s2: "parse_integer_part s1 = Some (ds, s2)"
    using assms(1) s1 by (auto simp: parse_number_def split: option.splits)
  obtain f s3 where s3: "parse_fraction s2 = (f, s3)" by fastforce
  obtain e s4 where s4: "parse_exponent s3 = (e, s4)" by fastforce
  have v: "v = JNumber (sign @ ds @ f @ e)" "r = s4"
    using assms(1) s1 s2 s3 s4 by (simp_all add: parse_number_def)
  have "s2 \<noteq> []" using s3 s4 v(2) assms(2) by (auto simp: parse_fraction_def parse_exponent_def closes_def)
  moreover have "s \<noteq> []" using s1 s2 by (auto simp: parse_integer_part_def)
  then have "(case s @ x of c # cs \<Rightarrow> if c = CHR ''-'' then ([c], cs) else ([], s @ x) | [] \<Rightarrow> ([], s @ x)) = (sign, s1 @ x)"
    using s1 by (cases s) auto
  ultimately show ?thesis
    using integer_part_more [OF s2] fraction_more [OF s3 s4] exponent_more [OF s4] assms(2) v
    by (simp add: parse_number_def)
qed

lemma skip_more: "skip_spaces s = d # r \<Longrightarrow> skip_spaces (s @ x) = d # r @ x"
  by (induction s) (auto simp: skip_spaces_def split: if_splits)

lemma skip_closes: "skip_spaces r = d # r1 \<Longrightarrow> d \<in> {CHR '','', CHR '']'', CHR ''}''} \<Longrightarrow> closes r"
  by (cases r) (auto simp: closes_def skip_spaces_def split: if_splits)

definition is_number :: "json \<Rightarrow> bool" where
  "is_number v \<longleftrightarrow> (\<exists>t. v = JNumber t)"

lemma word_more:
  assumes "parse_word ws s = Some (v, r)" and "is_number v \<longrightarrow> closes r" and "\<forall>(w, u) \<in> set ws. py_startswith (s @ x) w \<longrightarrow> py_startswith s w"
  shows "parse_word ws (s @ x) = Some (v, r @ x)"
  using assms
proof (induction ws s rule: parse_word.induct)
  case (1 s)
  then have "is_number v" by (auto simp: parse_number_def is_number_def split: option.splits prod.splits)
  with 1 show ?case by (simp add: number_more)
next
  case (2 w u ws s)
  show ?case
  proof (cases "py_startswith s w")
    case True
    with 2 show ?thesis by (auto simp: py_startswith_iff)
  next
    case False
    with 2 show ?thesis by auto
  qed
qed

lemma startswith_more: "length w \<le> length s \<Longrightarrow> py_startswith (s @ x) w = py_startswith s w"
  by (simp add: py_startswith_def)

lemma json_words_more:
  assumes "parse_word json_words s = Some (v, r)" and "is_number v \<longrightarrow> closes r"
  shows "parse_word json_words (s @ x) = Some (v, r @ x)"
proof (rule word_more [OF assms])
  show "\<forall>(w, u) \<in> set json_words. py_startswith (s @ x) w \<longrightarrow> py_startswith s w"
  proof (rule ccontr)
    assume "\<not> ?thesis"
    then obtain w u where w: "(w, u) \<in> set json_words" "py_startswith (s @ x) w" "\<not> py_startswith s w" by auto
    then obtain w2 where w2: "w = s @ w2" "w2 \<noteq> []"
      by (metis append_eq_append_conv2 append_Nil2 py_startswith_iff)
    from w(1) obtain ws1 ws2 where "json_words = ws1 @ (w, u) # ws2" by (meson split_list)
    have "parse_word json_words s = None"
    proof -
      have "list_all (\<lambda>(w, u). list_all (\<lambda>n. parse_word json_words (take n w) = None) [0 ..< length w]) json_words"
        by code_simp
      then have "\<forall>n < length w. parse_word json_words (take n w) = None" using w(1) by (auto simp: list_all_iff)
      moreover have "length s < length w" "take (length s) w = s" using w2 by simp_all
      ultimately show ?thesis by metis
    qed
    with assms(1) show False by simp
  qed
qed

lemma value_more:
  "parse_value s = Some (v, r) \<Longrightarrow> is_number v \<longrightarrow> closes r \<Longrightarrow> parse_value (s @ x) = Some (v, r @ x)"
  "parse_items s = Some (vs, r) \<Longrightarrow> parse_items (s @ x) = Some (vs, r @ x)"
  "parse_members s = Some (kvs, r) \<Longrightarrow> parse_members (s @ x) = Some (kvs, r @ x)"
proof (induction s and s and s arbitrary: v r and vs r and kvs r rule: parse_value_parse_items_parse_members.induct)
  case (1 s)
  then obtain c cs where s: "s = c # cs" by (cases s) (auto simp: parse_value.simps)
  consider "c = CHR 0x22" | "c = CHR ''[''" | "c = CHR ''{''" | "c \<noteq> CHR 0x22" "c \<noteq> CHR ''[''" "c \<noteq> CHR ''{''" by blast
  then show ?case
  proof cases
    case 1
    with s "1.prems"(1) string_more [of cs _ r x] show ?thesis by (auto simp: parse_value.simps)
  next
    case 2
    then have c: "c \<noteq> CHR 0x22" by simp
    with 2 s "1.prems"(1) obtain d r1 where d: "skip_spaces cs = d # r1" by (auto simp: parse_value.simps split: list.splits)
    show ?thesis
    proof (cases "d = CHR '']''")
      case True
      with 2 s d "1.prems"(1) show ?thesis by (auto simp: parse_value.simps skip_more)
    next
      case False
      with 2 s d "1.prems"(1) obtain xs where "parse_items (d # r1) = Some (xs, r)" "v = JArray xs" by (auto simp: parse_value.simps)
      with "1.IH"(1) [OF s c 2 d False] 2 s d False show ?thesis by (auto simp: parse_value.simps skip_more)
    qed
  next
    case 3
    then have c: "c \<noteq> CHR 0x22" "c \<noteq> CHR ''[''" by simp_all
    with 3 s "1.prems"(1) obtain d r1 where d: "skip_spaces cs = d # r1" by (auto simp: parse_value.simps split: list.splits)
    show ?thesis
    proof (cases "d = CHR ''}''")
      case True
      with 3 s d "1.prems"(1) show ?thesis by (auto simp: parse_value.simps skip_more)
    next
      case False
      with 3 s d "1.prems"(1) obtain kvs where "parse_members (d # r1) = Some (kvs, r)" "v = JObject (dict_of kvs)"
        by (auto simp: parse_value.simps)
      with "1.IH"(2) [OF s c 3 d False] 3 s d False show ?thesis by (auto simp: parse_value.simps skip_more)
    qed
  next
    case 4
    with s have "parse_value s = parse_word json_words s" "parse_value (s @ x) = parse_word json_words (s @ x)"
      by (simp_all add: parse_value.simps)
    with json_words_more [of s v r x] "1.prems" show ?thesis by simp
  qed
next
  case (2 s)
  from "2.prems" obtain v r0 where v: "parse_value s = Some (v, r0)" by (auto simp: parse_items.simps split: option.splits)
  with "2.prems" obtain d r1 where d: "skip_spaces r0 = d # r1" by (auto simp: parse_items.simps split: list.splits)
  with v "2.prems" have end_char: "d \<in> {CHR '','', CHR '']'', CHR ''}''}" by (auto simp: parse_items.simps split: if_splits)
  from "2.IH"(1) [OF v] skip_closes [OF d end_char] have more: "parse_value (s @ x) = Some (v, r0 @ x)" by blast
  show ?case
  proof (cases "d = CHR '']''")
    case True
    with v d more "2.prems" show ?thesis by (simp add: parse_items.simps skip_more)
  next
    case False
    with v d "2.prems" obtain xs where xs: "d = CHR '',''" "length r1 < length s" "vs = v # xs"
      "parse_items (skip_spaces r1) = Some (xs, r)"
      by (auto simp: parse_items.simps split: if_splits)
    have "skip_spaces r1 \<noteq> []" using xs(4) by (auto simp: parse_items.simps parse_value.simps)
    then have "skip_spaces (r1 @ x) = skip_spaces r1 @ x" using skip_more [of r1] by (cases "skip_spaces r1") auto
    with False xs v d more "2.IH"(2) [OF v _ d False] show ?thesis by (subst parse_items.simps) (auto simp: skip_more)
  qed
next
  case (3 s)
  then obtain cs where s: "s = CHR 0x22 # cs" by (cases s) (auto simp: parse_members.simps split: if_splits)
  with "3.prems" obtain k r0 where k: "parse_string cs = Some (k, r0)" by (auto simp: parse_members.simps split: option.splits)
  with s "3.prems" obtain r1 where r1: "skip_spaces r0 = CHR '':'' # r1" by (auto simp: parse_members.simps split: list.splits if_splits)
  with s k "3.prems" obtain v r2 where v: "parse_value (skip_spaces r1) = Some (v, r2)" by (auto simp: parse_members.simps split: option.splits)
  with s k r1 "3.prems" obtain e r3 where e: "skip_spaces r2 = e # r3" by (auto simp: parse_members.simps split: list.splits)
  with s k r1 v "3.prems" have end_char: "e \<in> {CHR '','', CHR '']'', CHR ''}''}" by (auto simp: parse_members.simps split: if_splits)
  have "skip_spaces r1 \<noteq> []" using v by (auto simp: parse_value.simps)
  then have skip1: "skip_spaces (r1 @ x) = skip_spaces r1 @ x" using skip_more [of r1] by (cases "skip_spaces r1") auto
  from "3.IH"(1) [OF s _ k _ r1 _ v] skip_closes [OF e end_char] have more: "parse_value (skip_spaces r1 @ x) = Some (v, r2 @ x)"
    by simp
  note front = s string_more [OF k, of x] skip_more [OF r1, of x] skip1 more skip_more [OF e, of x]
  show ?case
  proof (cases "e = CHR ''}''")
    case True
    with s k r1 v e "3.prems" have "kvs = [(k, v)]" "r = r3" by (simp_all add: parse_members.simps)
    with True front show ?thesis by (subst parse_members.simps) simp
  next
    case False
    with s k r1 v e "3.prems" obtain rest where rest: "e = CHR '',''" "length r3 < length s" "kvs = (k, v) # rest"
      "parse_members (skip_spaces r3) = Some (rest, r)"
      by (auto simp: parse_members.simps split: if_splits)
    have "skip_spaces r3 \<noteq> []" using rest(4) by (auto simp: parse_members.simps)
    then have "skip_spaces (r3 @ x) = skip_spaces r3 @ x" using skip_more [of r3] by (cases "skip_spaces r3") auto
    with False front rest "3.IH"(2) [OF s _ k _ r1 _ v _ e False] show ?thesis
      by (subst parse_members.simps) simp
  qed
qed

text \<open>So no text that stops within an object is one.\<close>

lemma cut_object:
  assumes "json_loads (CHR ''{'' # t @ x) = Some v" and "x \<noteq> []" and "\<not> json_space (last x)"
  shows "json_loads (CHR ''{'' # t) = None"
proof (rule ccontr)
  assume "\<not> ?thesis"
  then obtain u r where u: "parse_value (CHR ''{'' # t) = Some (u, r)" "skip_spaces r = []"
    by (auto simp: json_loads_def json_space_def split: option.splits if_splits)
  have "\<not> is_number u" using u(1) by (auto simp: parse_value.simps is_number_def split: list.splits if_splits)
  with value_more(1) [OF u(1), of x] have "parse_value (CHR ''{'' # t @ x) = Some (u, r @ x)" by simp
  with assms(1) have "skip_spaces (r @ x) = []"
    by (auto simp: json_loads_def json_space_def split: if_splits)
  then have "list_all json_space (r @ x)" by (simp add: skip_spaces_def list_all_iff)
  with assms(2,3) show False by (simp add: list_all_iff)
qed

end
