(* ===== verification/IsoTime.thy ===== *)
theory IsoTime
  imports Prelude
begin

text \<open>
  The fragment of Python's \<open>datetime\<close> (3.11) that the services use to store instants as text: the calendar,
  \<open>isoformat\<close> of an instant in UTC, of its date, and \<open>fromisoformat\<close>. The ISO forms that count weeks are
  refused here and not by Python. The theory shows that an instant that was printed is read back.
\<close>

section \<open>The calendar\<close>

text \<open>Days are counted from the first day of year one, which is 0; month 0 is January.\<close>

definition leap_year :: "int \<Rightarrow> bool" where
  "leap_year y \<longleftrightarrow> y mod 4 = 0 \<and> (y mod 100 \<noteq> 0 \<or> y mod 400 = 0)"

definition month_lengths :: "bool \<Rightarrow> int list" where
  "month_lengths leap = [31, if leap then 29 else 28, 31, 30, 31, 30, 31, 31, 30, 31, 30, 31]"

definition days_before_year :: "int \<Rightarrow> int" where
  "days_before_year y = (let p = y - 1 in p * 365 + p div 4 - p div 100 + p div 400)"

definition days_before_month :: "bool \<Rightarrow> nat \<Rightarrow> int" where
  "days_before_month leap m = sum_list (take m (month_lengths leap))"

fun find_month :: "int list \<Rightarrow> nat \<Rightarrow> int \<Rightarrow> nat \<times> int" where
  "find_month [] m n = (m, n)"
| "find_month (l # ls) m n = (if n < l then (m, n) else find_month ls (Suc m) (n - l))"

text \<open>Year, month from 1 and day from 1 of a day.\<close>

definition date_of_day :: "int \<Rightarrow> int \<times> nat \<times> int" where
  "date_of_day n =
     (let n400 = n div 146097; r400 = n mod 146097;
          n100 = r400 div 36524; r100 = r400 mod 36524;
          n4 = r100 div 1461; r4 = r100 mod 1461;
          n1 = r4 div 365; r1 = r4 mod 365;
          year = n400 * 400 + n100 * 100 + n4 * 4 + n1 + 1
      in if n1 = 4 \<or> n100 = 4 then (year - 1, 12, 31)
         else (let (m, d) = find_month (month_lengths (leap_year year)) 0 r1 in (year, Suc m, d + 1)))"

definition day_of_date :: "int \<Rightarrow> nat \<Rightarrow> int \<Rightarrow> int" where
  "day_of_date y m d = days_before_year y + days_before_month (leap_year y) (m - 1) + d - 1"

lemma days_before_year_split:
  assumes "0 \<le> b" "b \<le> 3" "0 \<le> c" "c \<le> 24" "0 \<le> e" "e \<le> 3"
  shows "days_before_year (a * 400 + b * 100 + c * 4 + e + 1) = a * 146097 + b * 36524 + c * 1461 + e * 365"
proof -
  let ?p = "a * 400 + b * 100 + c * 4 + e"
  have "?p div 4 = a * 100 + b * 25 + c" "?p div 100 = a * 4 + b" "?p div 400 = a" using assms by linarith+
  then show ?thesis by (simp add: days_before_year_def)
qed

lemma find_month_days:
  "find_month ls m n = (k, d) \<Longrightarrow> m \<le> k \<and> k \<le> m + length ls \<and> d = n - sum_list (take (k - m) ls) \<and>
     (0 \<le> n \<and> n < sum_list ls \<longrightarrow> k < m + length ls \<and> d < ls ! (k - m)) \<and> (0 \<le> n \<longrightarrow> 0 \<le> d)"
proof (induction ls m n rule: find_month.induct)
  case (2 l ls m n)
  show ?case
  proof (cases "n < l")
    case False
    with "2.prems" have "find_month ls (Suc m) (n - l) = (k, d)" by simp
    with "2.IH" [OF False] have IH: "Suc m \<le> k \<and> k \<le> Suc m + length ls \<and> d = n - l - sum_list (take (k - Suc m) ls) \<and>
       (0 \<le> n - l \<and> n - l < sum_list ls \<longrightarrow> k < Suc m + length ls \<and> d < ls ! (k - Suc m)) \<and>
       (0 \<le> n - l \<longrightarrow> 0 \<le> d)" by blast
    then obtain j where "k = Suc (m + j)" by (metis add_Suc le_Suc_ex)
    with IH False show ?thesis by auto
  qed (use 2 in simp)
qed simp

lemma month_lengths_sum: "sum_list (month_lengths leap) = (if leap then 366 else 365)"
  by (simp add: month_lengths_def)

lemma days_before_december: "days_before_month leap 11 = (if leap then 335 else 334)"
  by (simp add: days_before_month_def month_lengths_def eval_nat_numeral)

lemma date_of_day_roundtrip:
  assumes "date_of_day n = (y, m, d)"
  shows "day_of_date y m d = n \<and> 1 \<le> m \<and> m \<le> 12 \<and> 1 \<le> d \<and> d \<le> month_lengths (leap_year y) ! (m - 1)"
proof -
  define a r400 where "a = n div 146097" and "r400 = n mod 146097"
  define b r100 where "b = r400 div 36524" and "r100 = r400 mod 36524"
  define c r4 where "c = r100 div 1461" and "r4 = r100 mod 1461"
  define e r1 where "e = r4 div 365" and "r1 = r4 mod 365"
  note parts = a_def r400_def b_def r100_def c_def r4_def e_def r1_def
  have s1: "n = a * 146097 + r400" "0 \<le> r400" "r400 < 146097" by (simp_all add: a_def r400_def)
  have s2: "r400 = b * 36524 + r100" "0 \<le> r100" "r100 < 36524" by (simp_all add: b_def r100_def)
  have s3: "r100 = c * 1461 + r4" "0 \<le> r4" "r4 < 1461" by (simp_all add: c_def r4_def)
  have s4: "r4 = e * 365 + r1" "0 \<le> r1" "r1 < 365" by (simp_all add: e_def r1_def)
  note r1 = s4(2,3)
  have n: "n = a * 146097 + b * 36524 + c * 1461 + e * 365 + r1" using s1(1) s2(1) s3(1) s4(1) by simp
  have bounds: "0 \<le> b" "b \<le> 4" "0 \<le> c" "c \<le> 24" "0 \<le> e" "e \<le> 4"
    using s1 s2 s3 s4 by linarith+
  have b4: "c = 0 \<and> e = 0 \<and> r1 = 0" if "b = 4"
  proof -
    have "r100 = 0" using that s1 s2 by linarith
    then show ?thesis by (simp add: parts(5-8))
  qed
  have e4: "r1 = 0 \<and> c \<le> 23" if "e = 4"
  proof -
    have "r1 = 0" using that s3(3) s4 by linarith
    with that s4(1) have "r4 = 1460" by simp
    with s2(3) s3(1) have "c \<le> 23" by linarith
    with \<open>r1 = 0\<close> show ?thesis by blast
  qed
  let ?y = "a * 400 + b * 100 + c * 4 + e + 1"
  have date_def: "date_of_day n = (if e = 4 \<or> b = 4 then (?y - 1, 12, 31)
      else (let (m, d) = find_month (month_lengths (leap_year ?y)) 0 r1 in (?y, Suc m, d + 1)))"
    by (simp only: date_of_day_def Let_def parts)
  show ?thesis
  proof (cases "e = 4 \<or> b = 4")
    case True
    then have date: "y = ?y - 1" "m = 12" "d = 31" using assms by (simp_all add: date_def)
    have "day_of_date (?y - 1) 12 31 = n \<and> leap_year (?y - 1)"
    proof (cases "b = 4")
      case True
      then have z: "c = 0" "e = 0" "r1 = 0" using b4 by blast+
      from z True n have "n = a * 146097 + 146096" by simp
      moreover have "leap_year (400 + a * 400)" by (simp add: leap_year_def)
      ultimately show ?thesis
        using True z days_before_year_split [of 3 24 3 a]
        by (simp add: day_of_date_def days_before_december)
    next
      case False
      with True have e: "e = 4" by blast
      with e4 have r1: "r1 = 0" and c: "c \<le> 23" by blast+
      have "b \<le> 3" using False bounds by linarith
      have y: "?y - 1 = a * 400 + b * 100 + c * 4 + 3 + 1" using e by simp
      have "(a * 4 + b) * 100 + (c * 4 + 4) = a * 400 + b * 100 + c * 4 + 3 + 1" by simp
      moreover have "((a * 4 + b) * 100 + (c * 4 + 4)) mod 100 = c * 4 + 4"
        using c bounds by (simp only: mod_mult_self3 mod_pos_pos_trivial)
      ultimately have "(a * 400 + b * 100 + c * 4 + 3 + 1) mod 100 = c * 4 + 4" by metis
      moreover have "(a * 400 + b * 100 + c * 4 + 3 + 1) mod 4 = 0" by presburger
      ultimately have "leap_year (?y - 1)" unfolding y leap_year_def using bounds by linarith
      moreover have "days_before_year (?y - 1) = a * 146097 + b * 36524 + c * 1461 + 3 * 365"
        unfolding y using days_before_year_split [of b c 3 a] bounds \<open>b \<le> 3\<close> by simp
      ultimately show ?thesis
        using n e r1 by (simp add: day_of_date_def days_before_december)
    qed
    with date show ?thesis by (simp add: month_lengths_def)
  next
    case False
    from False bounds have small: "b \<le> 3" "e \<le> 3" by linarith+
    obtain k j where kj: "find_month (month_lengths (leap_year ?y)) 0 r1 = (k, j)" by (metis surj_pair)
    with assms False have date: "y = ?y" "m = Suc k" "d = j + 1" by (simp_all add: date_def)
    have "r1 < sum_list (month_lengths (leap_year ?y))" using r1 by (simp add: month_lengths_sum)
    with find_month_days [OF kj] r1 have k: "k < 12" "j = r1 - sum_list (take k (month_lengths (leap_year ?y)))"
      "j < month_lengths (leap_year ?y) ! k" "0 \<le> j" by (auto simp: month_lengths_def)
    have "days_before_year ?y = a * 146097 + b * 36524 + c * 1461 + e * 365"
      by (rule days_before_year_split) (use bounds small in blast)+
    then have "day_of_date ?y (Suc k) (j + 1) = n"
      using k(2) n by (simp add: day_of_date_def days_before_month_def)
    with k date show ?thesis by simp
  qed
qed

section \<open>Printing\<close>

text \<open>The last digits of a number, with leading zeros.\<close>

fun digits :: "nat \<Rightarrow> int \<Rightarrow> string" where
  "digits 0 n = []"
| "digits (Suc k) n = digits k (n div 10) @ [char_of (48 + n mod 10)]"

text \<open>\<open>t.date().isoformat()\<close> and \<open>t.isoformat()\<close> of an instant in UTC.\<close>

definition day_of :: "instant \<Rightarrow> int" where
  "day_of t = t div 86400000000 + 719162"

definition iso_day :: "int \<Rightarrow> string" where
  "iso_day n =
     (let (y, m, d) = date_of_day n in digits 4 y @ ''-'' @ digits 2 (int m) @ ''-'' @ digits 2 d)"

definition iso_date :: "instant \<Rightarrow> string" where
  "iso_date t = iso_day (day_of t)"

definition iso_clock :: "int \<Rightarrow> string" where
  "iso_clock us =
     (let s = us div 1000000 in
      digits 2 (s div 3600) @ '':'' @ digits 2 (s div 60 mod 60) @ '':'' @ digits 2 (s mod 60) @
      (if us mod 1000000 = 0 then [] else ''.'' @ digits 6 (us mod 1000000)))"

definition iso_datetime :: "instant \<Rightarrow> string" where
  "iso_datetime t = iso_date t @ ''T'' @ iso_clock (t mod 86400000000) @ ''+00:00''"

text \<open>The instants of Python's \<open>datetime\<close>: years 1 to 9999.\<close>

definition in_calendar :: "instant \<Rightarrow> bool" where
  "in_calendar t \<longleftrightarrow> 0 \<le> day_of t \<and> day_of t < 3652059"

section \<open>Reading\<close>

text \<open>A number in decimal digits, at least one.\<close>

fun number_of :: "int \<Rightarrow> string \<Rightarrow> int option" where
  "number_of acc [] = Some acc"
| "number_of acc (c # cs) = (case digit_value c of None \<Rightarrow> None | Some d \<Rightarrow> number_of (acc * 10 + int d) cs)"

definition decimal :: "string \<Rightarrow> int option" where
  "decimal s = (if s = [] then None else number_of 0 s)"

text \<open>\<open>YYYY-MM-DD\<close> or \<open>YYYYMMDD\<close>: the day, and what follows.\<close>

definition check_date :: "string \<Rightarrow> string \<Rightarrow> string \<Rightarrow> int option" where
  "check_date y m d =
     (case (decimal y, decimal m, decimal d) of
        (Some y, Some m, Some d) \<Rightarrow>
          if 1 \<le> y \<and> 1 \<le> m \<and> m \<le> 12 \<and> 1 \<le> d \<and> d \<le> month_lengths (leap_year y) ! (nat m - 1)
          then Some (day_of_date y (nat m) d) else None
      | _ \<Rightarrow> None)"

definition parse_iso_date :: "string \<Rightarrow> (int \<times> string) option" where
  "parse_iso_date s =
     (let y = take 4 s; s1 = drop 4 s in
      if py_startswith s1 ''-'' then
        (if py_startswith (drop 3 s1) ''-'' \<and> length s1 \<ge> 6
         then map_option (\<lambda>n. (n, drop 6 s1)) (check_date y (take 2 (drop 1 s1)) (take 2 (drop 4 s1))) else None)
      else if length s1 \<ge> 4 then map_option (\<lambda>n. (n, drop 4 s1)) (check_date y (take 2 s1) (take 2 (drop 2 s1)))
      else None)"

text \<open>\<open>HH[:MM[:SS[.f+]]]\<close> or the same without colons: hours, minutes, seconds and microseconds.\<close>

definition parse_fraction_part :: "string \<Rightarrow> int option" where
  "parse_fraction_part s =
     (case s of
        [] \<Rightarrow> Some 0
      | c # cs \<Rightarrow>
          if (c = CHR ''.'' \<or> c = CHR '','') \<and> decimal cs \<noteq> None
          then decimal (take 6 (cs @ ''000000'')) else None)"

fun parse_clock_parts :: "nat \<Rightarrow> bool \<Rightarrow> string \<Rightarrow> (int list \<times> string) option" where
  "parse_clock_parts 0 sep s = Some ([], s)"
| "parse_clock_parts (Suc k) sep s =
     (case decimal (take 2 s) of
        None \<Rightarrow> None
      | Some n \<Rightarrow>
          if length s < 2 then None
          else
            (let r = drop 2 s in
             if r = [] \<or> k = 0 then Some ([n], r)
             else if sep \<and> hd r \<noteq> CHR '':'' then None
             else map_option (\<lambda>(ns, r'). (n # ns, r')) (parse_clock_parts k sep (if sep then tl r else r))))"

definition parse_clock :: "string \<Rightarrow> (int \<times> int \<times> int \<times> int) option" where
  "parse_clock s =
     (case parse_clock_parts 3 (take 1 (drop 2 s) = '':'') s of
        None \<Rightarrow> None
      | Some (ns, r) \<Rightarrow>
          (case parse_fraction_part r of
             None \<Rightarrow> None
           | Some us \<Rightarrow>
               let part = (\<lambda>i. if i < length ns then ns ! i else 0) in Some (part 0, part 1, part 2, us)))"

definition clock_micros :: "int \<times> int \<times> int \<times> int \<Rightarrow> int" where
  "clock_micros hmsu = (case hmsu of (h, m, s, us) \<Rightarrow> ((h * 60 + m) * 60 + s) * 1000000 + us)"

text \<open>The time with its offset from UTC: \<open>None\<close> for a naive time.\<close>

definition parse_iso_time :: "string \<Rightarrow> (int \<times> int option) option" where
  "parse_iso_time s =
     (let is_zone = (\<lambda>c. c = CHR ''+'' \<or> c = CHR ''-'' \<or> c = CHR ''Z'');
          clock = takeWhile (\<lambda>c. \<not> is_zone c) s; zone = dropWhile (\<lambda>c. \<not> is_zone c) s in
      case parse_clock clock of
        None \<Rightarrow> None
      | Some (h, m, sec, us) \<Rightarrow>
          if h \<ge> 24 \<or> m \<ge> 60 \<or> sec \<ge> 60 then None
          else
            let t = clock_micros (h, m, sec, us) in
            (case zone of
               [] \<Rightarrow> Some (t, None)
             | c # cs \<Rightarrow>
                 if c = CHR ''Z'' then (if cs = [] then Some (t, Some 0) else None)
                 else if length cs \<in> {0, 1, 3} then None
                 else
                   (case parse_clock cs of
                      None \<Rightarrow> None
                    | Some z \<Rightarrow>
                        if clock_micros z \<ge> 86400000000 then None
                        else Some (t, Some (if c = CHR ''-'' then - clock_micros z else clock_micros z)))))"

definition fromisoformat :: "string \<Rightarrow> py_datetime option" where
  "fromisoformat s =
     (case parse_iso_date s of
        None \<Rightarrow> None
      | Some (n, r) \<Rightarrow>
          let midnight = (n - 719162) * 86400000000 in
          if tl r = [] then Some (Naive midnight)
          else
            (case parse_iso_time (tl r) of
               None \<Rightarrow> None
             | Some (t, None) \<Rightarrow> Some (Naive (midnight + t))
             | Some (t, Some z) \<Rightarrow> Some (Aware (midnight + t) z)))"

section \<open>What was printed is read back\<close>

lemma digits_length [simp]: "length (digits k n) = k"
  by (induction k arbitrary: n) auto

lemma digit_value_digit: "0 \<le> d \<Longrightarrow> d < 10 \<Longrightarrow> digit_value (char_of (48 + d :: int)) = Some (nat d)"
proof -
  have "list_all (\<lambda>d. digit_value (char_of (48 + d :: int)) = Some (nat d)) [0..9]" by code_simp
  then show "0 \<le> d \<Longrightarrow> d < 10 \<Longrightarrow> ?thesis" by (auto simp: list_all_iff)
qed

lemma digits_are_digits: "c \<in> set (digits k n) \<Longrightarrow> digit_value c \<noteq> None"
proof (induction k arbitrary: n)
  case (Suc k)
  then show ?case using digit_value_digit [of "n mod 10"] by auto
qed simp

lemma number_of_append: "number_of acc (xs @ ys) = (case number_of acc xs of None \<Rightarrow> None | Some n \<Rightarrow> number_of n ys)"
  by (induction xs arbitrary: acc) (auto split: option.splits)

lemma number_of_digits: "0 \<le> n \<Longrightarrow> number_of acc (digits k n) = Some (acc * 10 ^ k + n mod 10 ^ k)"
proof (induction k arbitrary: n)
  case (Suc k)
  have "(n div 10) mod 10 ^ k * 10 + n mod 10 = n mod (10 * 10 ^ k)"
    by (simp add: zmod_zmult2_eq)
  with Suc digit_value_digit [of "n mod 10"] show ?case by (simp add: number_of_append algebra_simps)
qed simp

lemma decimal_digits [simp]: "0 \<le> n \<Longrightarrow> n < 10 ^ k \<Longrightarrow> 0 < k \<Longrightarrow> decimal (digits k n) = Some n"
  using number_of_digits [of n 0 k] digits_length [of k n] by (auto simp: decimal_def simp del: digits_length)

lemma month_days:
  assumes "k < 12"
  shows "0 \<le> days_before_month leap k \<and> days_before_month leap k + month_lengths leap ! k \<le> 366 \<and>
    month_lengths leap ! k < 100"
proof -
  let ?P = "\<lambda>leap k. 0 \<le> days_before_month leap k \<and> days_before_month leap k + month_lengths leap ! k \<le> 366 \<and>
    month_lengths leap ! k < 100"
  have k: "k \<in> set [0..<12]" using assms unfolding set_upt by simp
  have "list_all (?P True) [0..<12]" "list_all (?P False) [0..<12]" by code_simp+
  from this [unfolded list_all_iff, THEN bspec, OF k] show ?thesis by (cases leap) auto
qed

lemma year_days:
  shows "10000 \<le> y \<Longrightarrow> 3652059 \<le> days_before_year y" and "y \<le> 0 \<Longrightarrow> days_before_year y \<le> - 366"
proof -
  define p u w v where "p = y - 1" and "u = p div 4" and "w = p div 100" and "v = p div 400"
  have "w = u div 25" by (simp add: w_def u_def zdiv_zmult2_eq [symmetric])
  then have w: "25 * w \<le> u" "u < 25 * w + 25" by linarith+
  have days: "days_before_year y = p * 365 + u - w + v" by (simp add: days_before_year_def Let_def p_def u_def w_def v_def)
  {
    assume "10000 \<le> y"
    then have "9999 \<le> p" "2499 \<le> u" "24 \<le> v" by (simp_all add: p_def u_def v_def)
    with w show "3652059 \<le> days_before_year y" unfolding days by linarith
  next
    assume "y \<le> 0"
    then have "p \<le> - 1" by (simp add: p_def)
    moreover from this have "u \<le> - 1" "v \<le> - 1" unfolding u_def v_def by linarith+
    ultimately show "days_before_year y \<le> - 366" using w unfolding days by linarith
  }
qed

lemma year_bounds:
  assumes "date_of_day n = (y, m, d)" and "0 \<le> n" and "n < 3652059"
  shows "1 \<le> y \<and> y \<le> 9999"
proof -
  from date_of_day_roundtrip [OF assms(1)] have *: "day_of_date y m d = n" "m \<le> 12" "1 \<le> m" "1 \<le> d"
    "d \<le> month_lengths (leap_year y) ! (m - 1)" by auto
  have "m - 1 < 12" using *(2) by linarith
  note month_days [OF this, of "leap_year y"]
  with * have "days_before_year y \<le> n" "n \<le> days_before_year y + 365" unfolding day_of_date_def by linarith+
  moreover have "days_before_year y \<ge> 3652059" if "y \<ge> 10000" using year_days(1) [OF that] .
  moreover have "days_before_year y \<le> - 366" if "y \<le> 0" using year_days(2) [OF that] .
  ultimately show ?thesis using assms(2,3) by linarith
qed

lemma parse_iso_day:
  assumes "0 \<le> n" and "n < 3652059"
  shows "parse_iso_date (iso_day n @ r) = Some (n, r)"
proof -
  obtain y m d where date: "date_of_day n = (y, m, d)" by (metis surj_pair)
  note round = date_of_day_roundtrip [OF date]
  note year = year_bounds [OF date assms]
  have "month_lengths (leap_year y) ! (m - 1) < 100" using month_days [of "m - 1" "leap_year y"] round by linarith
  then have "d < 100" using round by linarith
  then have "decimal (digits 4 y) = Some y" "decimal (digits 2 (int m)) = Some (int m)" "decimal (digits 2 d) = Some d"
    using round year by simp_all
  then have "check_date (digits 4 y) (digits 2 (int m)) (digits 2 d) = Some n"
    using round year by (simp add: check_date_def nat_diff_distrib)
  then show ?thesis
    by (simp add: parse_iso_date_def iso_day_def date py_startswith_def Let_def)
qed

lemma parse_three_parts:
  assumes "0 \<le> h" "h < 100" "0 \<le> m" "m < 100" "0 \<le> s" "s < 100"
  shows "parse_clock_parts 3 True (digits 2 h @ CHR '':'' # digits 2 m @ CHR '':'' # digits 2 s @ f) = Some ([h, m, s], f)"
  using assms by (simp add: numeral_3_eq_3 del: digits.simps)

lemma clock_parts:
  assumes "0 \<le> us" and "us < 86400000000"
  shows "parse_clock (iso_clock us) =
    Some (us div 1000000 div 3600, us div 1000000 div 60 mod 60, us div 1000000 mod 60, us mod 1000000)"
proof -
  let ?s = "us div 1000000"
  let ?f = "if us mod 1000000 = 0 then [] else CHR ''.'' # digits 6 (us mod 1000000)"
  have s: "0 \<le> ?s div 3600" "?s div 3600 < 100" "0 \<le> ?s div 60 mod 60" "?s div 60 mod 60 < 100" "0 \<le> ?s mod 60"
    "?s mod 60 < 100" using assms by auto
  have clock: "iso_clock us = digits 2 (?s div 3600) @ CHR '':'' # digits 2 (?s div 60 mod 60) @ CHR '':'' #
      digits 2 (?s mod 60) @ ?f"
    by (simp add: iso_clock_def Let_def)
  have f: "parse_fraction_part ?f = Some (us mod 1000000)"
    by (simp add: parse_fraction_part_def)
  have "parse_clock_parts 3 True (iso_clock us) = Some ([?s div 3600, ?s div 60 mod 60, ?s mod 60], ?f)"
    unfolding clock by (rule parse_three_parts [OF s])
  moreover have "take 1 (drop 2 (iso_clock us)) = '':''" by (simp add: clock)
  ultimately show ?thesis using f by (simp add: parse_clock_def)
qed

lemma clock_chars: "c \<in> set (iso_clock us) \<Longrightarrow> c \<noteq> CHR ''+'' \<and> c \<noteq> CHR ''-'' \<and> c \<noteq> CHR ''Z''"
proof -
  have signs: "digit_value (CHR ''+'') = None" "digit_value (CHR ''-'') = None" "digit_value (CHR ''Z'') = None"
    by code_simp+
  assume "c \<in> set (iso_clock us)"
  then consider "digit_value c \<noteq> None" | "c = CHR '':''" | "c = CHR ''.''"
    by (auto simp: iso_clock_def Let_def dest: digits_are_digits split: if_splits)
  then show ?thesis using signs by cases auto
qed

lemma parse_iso_clock:
  assumes "0 \<le> us" and "us < 86400000000"
  shows "parse_iso_time (iso_clock us @ ''+00:00'') = Some (us, Some 0)"
proof -
  let ?zone = "\<lambda>c. c = CHR ''+'' \<or> c = CHR ''-'' \<or> c = CHR ''Z''"
  have "\<exists>h m s u. parse_clock (iso_clock us) = Some (h, m, s, u) \<and> h < 24 \<and> m < 60 \<and> s < 60 \<and>
      clock_micros (h, m, s, u) = us"
  proof (intro exI conjI)
    show "parse_clock (iso_clock us) =
        Some (us div 1000000 div 3600, us div 1000000 div 60 mod 60, us div 1000000 mod 60, us mod 1000000)"
      using assms by (rule clock_parts)
    show "us div 1000000 div 3600 < 24" "us div 1000000 div 60 mod 60 < 60" "us div 1000000 mod 60 < 60"
      using assms by simp_all
    have s: "(s div 3600 * 60 + s div 60 mod 60) * 60 + s mod 60 = s" for s :: int
    proof -
      have "s div 3600 = s div 60 div 60" by (simp add: zdiv_zmult2_eq [symmetric])
      then have "s div 3600 * 60 + s div 60 mod 60 = s div 60" by simp
      then show ?thesis by simp
    qed
    show "clock_micros (us div 1000000 div 3600, us div 1000000 div 60 mod 60, us div 1000000 mod 60, us mod 1000000) = us"
      unfolding clock_micros_def prod.case s by simp
  qed
  then obtain h m s u where "parse_clock (iso_clock us) = Some (h, m, s, u)" "h < 24" "m < 60" "s < 60"
    "clock_micros (h, m, s, u) = us" by blast
  moreover have "takeWhile (\<lambda>c. \<not> ?zone c) (iso_clock us @ ''+00:00'') = iso_clock us"
    "dropWhile (\<lambda>c. \<not> ?zone c) (iso_clock us @ ''+00:00'') = ''+00:00''"
    using clock_chars by (auto simp: takeWhile_append dropWhile_append)
  moreover have "parse_clock ''00:00'' = Some (0, 0, 0, 0)" "clock_micros (0, 0, 0, 0) = 0" by code_simp+
  ultimately show ?thesis by (simp add: parse_iso_time_def Let_def)
qed

lemma fromisoformat_iso:
  assumes "in_calendar t"
  shows "fromisoformat (iso_datetime t) = Some (Aware t 0)"
proof -
  let ?us = "t mod 86400000000"
  have us: "0 \<le> ?us" "?us < 86400000000" by simp_all
  have "parse_iso_date (iso_datetime t) = Some (day_of t, CHR ''T'' # iso_clock ?us @ ''+00:00'')"
    using parse_iso_day [of "day_of t" "CHR ''T'' # iso_clock ?us @ ''+00:00''"] assms
    by (simp add: iso_datetime_def iso_date_def in_calendar_def)
  moreover have "(day_of t - 719162) * 86400000000 + ?us = t" by (simp add: day_of_def)
  ultimately show ?thesis
    using parse_iso_clock [OF us] by (simp add: fromisoformat_def Let_def)
qed

end
