(* ===== verification/Paths.thy ===== *)
theory Paths
  imports Prelude
begin

text \<open>
  The part of \<open>pathlib\<close> that looks at names only (Python 3.11 on Linux): splitting, joining, the name and the
  suffix. An absolute path is the list of its names from the root; empty names and \<open>.\<close> are gone, \<open>..\<close> is kept.
\<close>

type_synonym path = "string list"

text \<open>\<open>Path(s)\<close>: whether it is absolute, and its names.\<close>

definition path_absolute :: "string \<Rightarrow> bool" where
  "path_absolute s = py_startswith s ''/''"

definition path_parts :: "string \<Rightarrow> path" where
  "path_parts s = filter (\<lambda>p. p \<noteq> [] \<and> p \<noteq> ''.'') (py_split (CHR ''/'') s)"

text \<open>\<open>base / s\<close> and, for a relative path, \<open>as_posix\<close>.\<close>

definition path_join :: "path \<Rightarrow> string \<Rightarrow> path" where
  "path_join base s = (if path_absolute s then path_parts s else base @ path_parts s)"

fun join_names :: "path \<Rightarrow> string" where
  "join_names [] = []"
| "join_names [n] = n"
| "join_names (n # m # ns) = n @ ''/'' @ join_names (m # ns)"

definition as_posix :: "path \<Rightarrow> string" where
  "as_posix p = (if p = [] then ''.'' else join_names p)"

definition path_name :: "path \<Rightarrow> string" where
  "path_name p = (if p = [] then [] else last p)"

text \<open>\<open>name[i:]\<close> for the last dot of the name, unless that is its first or its last character.\<close>

definition path_suffix :: "path \<Rightarrow> string" where
  "path_suffix p =
     (let name = path_name p; ext = rev (takeWhile (\<lambda>c. c \<noteq> CHR ''.'') (rev name)) in
      if ext = [] \<or> length name \<le> Suc (length ext) then [] else CHR ''.'' # ext)"

text \<open>\<open>s.strip("/")\<close>.\<close>

definition strip_slashes :: "string \<Rightarrow> string" where
  "strip_slashes s = rev (dropWhile (\<lambda>c. c = CHR ''/'') (rev (dropWhile (\<lambda>c. c = CHR ''/'') s)))"

text \<open>\<open>resolve(strict=False)\<close> where no link is met.\<close>

definition plain_resolve :: "path \<Rightarrow> path" where
  "plain_resolve p = fold (\<lambda>n cur. if n = ''..'' then butlast cur else cur @ [n]) p []"

lemma plain_resolve_clean: "''..'' \<notin> set p \<Longrightarrow> plain_resolve (p @ q) = fold (\<lambda>n cur. if n = ''..'' then butlast cur else cur @ [n]) q p"
proof -
  have "fold (\<lambda>n cur. if n = ''..'' then butlast cur else cur @ [n]) p cur = cur @ p" if "''..'' \<notin> set p" for cur
    using that by (induction p arbitrary: cur) auto
  then show "''..'' \<notin> set p \<Longrightarrow> ?thesis" by (simp add: plain_resolve_def)
qed

end
