(* ===== verification/SnapshotCodec.thy ===== *)
theory SnapshotCodec
  imports TerminalTypes JsonLine IsoTime Paths
begin

text \<open>
  How a history snapshot is kept in a file (\<open>services/terminal_sessions.py\<close>): the payload that is written, what
  is read back from a text and what is rejected, and the places of the files. Characters are those up to U+00FF.
  What \<open>str\<close> gives for a decoded value that is not a string is the parameter \<open>strs\<close>. Two texts that no service
  writes make the code raise and are read as no snapshot here: a status that is an array or an object, and a
  time that its offset moves out of the calendar.
\<close>

section \<open>The payload\<close>

definition status_name :: "terminal_session_status \<Rightarrow> string" where
  "status_name s =
     (case s of
        Created \<Rightarrow> ''created'' | Attached \<Rightarrow> ''attached'' | Detached \<Rightarrow> ''detached''
      | Closed \<Rightarrow> ''closed'' | Exited \<Rightarrow> ''exited'')"

definition backend_name_text :: "terminal_backend_name \<Rightarrow> string" where
  "backend_name_text b = (case b of Docker_container \<Rightarrow> ''docker_container'')"

definition time_json :: "instant option \<Rightarrow> json" where
  "time_json t = (case t of None \<Rightarrow> JNull | Some t \<Rightarrow> JString (iso_datetime t))"

definition int_json :: "int \<Rightarrow> json" where
  "int_json i = JNumber (int_string i)"

definition history_snapshot_payload :: "history_snapshot \<Rightarrow> json" where
  "history_snapshot_payload s =
     (let r = snap_record s in
      JObject
        [(''record'', JObject
           [(''session_id'', JString (session_id r)),
            (''group_id'', JString (group_id r)),
            (''group_folder'', JString (group_folder r)),
            (''owner_user_id'', JString (owner_user_id r)),
            (''backend'', JString (backend_name_text (backend r))),
            (''container_name'', (case container_name r of None \<Rightarrow> JNull | Some c \<Rightarrow> JString c)),
            (''status'', JString (status_name (status r))),
            (''created_at'', JString (iso_datetime (created_at r))),
            (''last_attached_at'', time_json (last_attached_at r)),
            (''reconnect_deadline'', time_json (reconnect_deadline r))]),
         (''snapshot_at'', JString (iso_datetime (snapshot_at s))),
         (''output'', JString (snap_output s)),
         (''output_bytes'', int_json (output_bytes s)),
         (''history_max_bytes'', int_json (history_max_bytes s)),
         (''truncated'', JBool (truncated s))])"

text \<open>What \<open>_write_snapshot_payload\<close> writes.\<close>

definition snapshot_text :: "history_snapshot \<Rightarrow> string" where
  "snapshot_text s = dumps_unicode (history_snapshot_payload s)"

section \<open>Reading\<close>

definition parse_persisted_datetime :: "json option \<Rightarrow> instant option" where
  "parse_persisted_datetime v =
     (case v of
        Some (JString s) \<Rightarrow> map_option to_utc_datetime (fromisoformat s)
      | _ \<Rightarrow> None)"

definition status_of_json :: "json option \<Rightarrow> terminal_session_status option" where
  "status_of_json v =
     (case v of
        Some (JString s) \<Rightarrow>
          map_of [(''created'', Created), (''attached'', Attached), (''detached'', Detached), (''closed'', Closed),
                  (''exited'', Exited)] s
      | _ \<Rightarrow> None)"

text \<open>\<open>str(payload.get(key, ""))\<close>.\<close>

definition member_text :: "(json \<Rightarrow> string) \<Rightarrow> (string, json) dict \<Rightarrow> string \<Rightarrow> string" where
  "member_text strs kvs key =
     (case dict_get kvs key of None \<Rightarrow> [] | Some (JString s) \<Rightarrow> s | Some v \<Rightarrow> strs v)"

text \<open>A member that is an \<open>int\<close>; a \<open>bool\<close> is one.\<close>

definition text_int :: "string \<Rightarrow> int option" where
  "text_int t =
     (if integer_text t
      then (if py_startswith t ''-'' then map_option uminus (decimal (drop 1 t)) else decimal t)
      else None)"

definition member_int :: "(string, json) dict \<Rightarrow> string \<Rightarrow> int option" where
  "member_int kvs key =
     (case dict_get kvs key of
        Some (JNumber t) \<Rightarrow> text_int t
      | Some (JBool b) \<Rightarrow> Some (if b then 1 else 0)
      | _ \<Rightarrow> None)"

definition count_or :: "int \<Rightarrow> int option \<Rightarrow> int" where
  "count_or otherwise i = (case i of None \<Rightarrow> otherwise | Some n \<Rightarrow> if n < 0 then otherwise else n)"

text \<open>\<open>_load_persisted_history_snapshot_from_path\<close> for the text of an existing file.\<close>

definition load_record :: "(json \<Rightarrow> string) \<Rightarrow> (string, json) dict \<Rightarrow> terminal_session_record option" where
  "load_record strs r =
     (if dict_get r ''backend'' \<noteq> Some (JString ''docker_container'') then None
      else
        (case parse_persisted_datetime (dict_get r ''created_at'') of
           None \<Rightarrow> None
         | Some created \<Rightarrow>
             (case status_of_json (dict_get r ''status'') of
                None \<Rightarrow> None
              | Some st \<Rightarrow>
                  let loaded =
                        \<lparr>session_id = member_text strs r ''session_id'', group_id = member_text strs r ''group_id'',
                         group_folder = member_text strs r ''group_folder'',
                         owner_user_id = member_text strs r ''owner_user_id'', backend = Docker_container,
                         container_name = (case dict_get r ''container_name'' of Some (JString c) \<Rightarrow> Some c | _ \<Rightarrow> None),
                         status = st, created_at = created,
                         last_attached_at = parse_persisted_datetime (dict_get r ''last_attached_at''),
                         reconnect_deadline = parse_persisted_datetime (dict_get r ''reconnect_deadline'')\<rparr>
                  in if session_id loaded = [] \<or> group_id loaded = [] \<or> group_folder loaded = [] \<or>
                        owner_user_id loaded = [] then None
                     else Some loaded)))"

definition load_snapshot :: "(json \<Rightarrow> string) \<Rightarrow> int \<Rightarrow> string \<Rightarrow> history_snapshot option" where
  "load_snapshot strs max_bytes s =
     (case json_loads s of
        Some (JObject payload) \<Rightarrow>
          (case (dict_get payload ''record'', dict_get payload ''output'') of
             (Some (JObject r), Some (JString out)) \<Rightarrow>
               (case load_record strs r of
                  None \<Rightarrow> None
                | Some loaded \<Rightarrow>
                    Some \<lparr>snap_record = loaded,
                      snapshot_at = (case parse_persisted_datetime (dict_get payload ''snapshot_at'') of
                                       None \<Rightarrow> created_at loaded | Some t \<Rightarrow> t),
                      snap_output = out,
                      output_bytes = count_or (int (utf8_len out)) (member_int payload ''output_bytes''),
                      history_max_bytes = count_or max_bytes (member_int payload ''history_max_bytes''),
                      truncated = (case dict_get payload ''truncated'' of Some (JBool b) \<Rightarrow> b | _ \<Rightarrow> False)\<rparr>)
           | _ \<Rightarrow> None)
      | _ \<Rightarrow> None)"

section \<open>The places of the files\<close>

definition history_filename :: string where
  "history_filename = ''latest.json''"

definition history_snapshots_dirname :: string where
  "history_snapshots_dirname = ''snapshots''"

text \<open>
  The paths of a workspace's files below the resolved root \<open>base\<close>, which holds no symbolic links; \<open>None\<close> where the
  code raises, because the place is outside the root or a name holds a null character.
\<close>

definition checked_place :: "path \<Rightarrow> path \<Rightarrow> path option" where
  "checked_place base p =
     (let candidate = plain_resolve p in
      if list_all (\<lambda>n. CHR 0x00 \<notin> set n) p \<and> take (length base) candidate = base then Some candidate else None)"

definition history_snapshot_path :: "path \<Rightarrow> string \<Rightarrow> path option" where
  "history_snapshot_path base folder = checked_place base (path_join base folder @ [history_filename])"

definition history_archive_snapshots_root :: "path \<Rightarrow> string \<Rightarrow> path option" where
  "history_archive_snapshots_root base folder = checked_place base (path_join base folder @ [history_snapshots_dirname])"

definition history_archive_snapshot_path :: "path \<Rightarrow> string \<Rightarrow> string \<Rightarrow> path option" where
  "history_archive_snapshot_path base folder sid =
     (let normalized = py_strip sid in
      if normalized = [] \<or> CHR ''/'' \<in> set normalized \<or> CHR 0x5C \<in> set normalized then None
      else
        (case history_archive_snapshots_root base folder of
           None \<Rightarrow> None
         | Some dir \<Rightarrow> checked_place base (dir @ [normalized @ ''.json''])))"

section \<open>What was written is read back\<close>

text \<open>Snapshots whose times are in the calendar and whose identifiers and counts the loader accepts.\<close>

definition storable :: "history_snapshot \<Rightarrow> bool" where
  "storable s \<longleftrightarrow>
     (let r = snap_record s in
      session_id r \<noteq> [] \<and> group_id r \<noteq> [] \<and> group_folder r \<noteq> [] \<and> owner_user_id r \<noteq> [] \<and>
      in_calendar (created_at r) \<and> pred_option in_calendar (last_attached_at r) \<and>
      pred_option in_calendar (reconnect_deadline r) \<and> in_calendar (snapshot_at s) \<and>
      0 \<le> output_bytes s \<and> 0 \<le> history_max_bytes s)"

lemma digit_char: "n < 10 \<Longrightarrow> digit_value (char_of (48 + n)) = Some n"
  by (simp add: digit_value_def Let_def)

lemma number_of_nat: "number_of 0 (nat_string n) = Some (int n)"
proof -
  have "number_of 0 (nat_string n) = Some (int n) \<and> nat_string n \<noteq> []"
  proof (induction n rule: nat_string.induct)
    case (1 n)
    show ?case
    proof (cases "n < 10")
      case True
      then show ?thesis by (subst (1 2) nat_string.simps) (simp add: digit_char)
    next
      case False
      with 1 show ?thesis
        by (subst (1 2) nat_string.simps) (simp add: number_of_append digit_char zdiv_int zmod_int)
    qed
  qed
  then show ?thesis by simp
qed

lemma nat_string_digits: "list_all is_digit (nat_string n) \<and> nat_string n \<noteq> [] \<and> (hd (nat_string n) = CHR ''0'' \<longrightarrow> nat_string n = ''0'')"
proof (induction n rule: nat_string.induct)
  case (1 n)
  show ?case
  proof (cases "n < 10")
    case True
    then show ?thesis by (subst (1 2 3 4) nat_string.simps) (auto simp: is_digit_def digit_char)
  next
    case False
    with 1 have IH: "list_all is_digit (nat_string (n div 10))" "nat_string (n div 10) \<noteq> []"
      "hd (nat_string (n div 10)) = CHR ''0'' \<longrightarrow> nat_string (n div 10) = ''0''" by simp_all
    have "nat_string (n div 10) \<noteq> ''0''"
    proof
      assume "nat_string (n div 10) = ''0''"
      with number_of_nat [of "n div 10"] have "int (n div 10) = 0" by (simp add: digit_value_def)
      with False show False by simp
    qed
    with IH False show ?thesis
      by (subst (1 2 3 4) nat_string.simps) (simp add: is_digit_def digit_char)
  qed
qed

lemma text_int_string:
  assumes "0 \<le> i"
  shows "integer_text (int_string i) \<and> text_int (int_string i) = Some i"
proof -
  let ?t = "nat_string (nat i)"
  have t: "int_string i = ?t" using assms by (simp add: int_string_def)
  have "hd ?t \<noteq> CHR ''-''"
    using nat_string_digits [of "nat i"] by (cases ?t) (auto simp: is_digit_def digit_value_def)
  then have minus: "\<not> py_startswith ?t ''-''"
    using nat_string_digits [of "nat i"] by (cases ?t) (auto simp: py_startswith_def)
  have "integer_text ?t" using nat_string_digits [of "nat i"] minus by (simp add: integer_text_def)
  moreover have "decimal ?t = Some i"
    using number_of_nat [of "nat i"] nat_string_digits [of "nat i"] assms by (simp add: decimal_def)
  ultimately show ?thesis using minus by (simp add: t text_int_def)
qed

lemma parse_time: "in_calendar t \<Longrightarrow> parse_persisted_datetime (Some (JString (iso_datetime t))) = Some t"
  by (simp add: parse_persisted_datetime_def fromisoformat_iso)

lemma parse_time_json: "pred_option in_calendar t \<Longrightarrow> parse_persisted_datetime (Some (time_json t)) = t"
  by (cases t) (simp_all add: time_json_def parse_time, simp add: parse_persisted_datetime_def)

lemma status_read: "status_of_json (Some (JString (status_name st))) = Some st"
  by (cases st) (simp_all add: status_of_json_def status_name_def)

lemma payload_wire:
  assumes "storable s"
  shows "wire_json (history_snapshot_payload s)"
proof -
  have "integer_text (int_string (output_bytes s))" "integer_text (int_string (history_max_bytes s))"
    using assms text_int_string by (simp_all add: storable_def Let_def)
  moreover have "wire_json (time_json t)" for t by (simp add: time_json_def split: option.split)
  ultimately show ?thesis
    by (simp add: history_snapshot_payload_def Let_def int_json_def split: option.split)
qed

theorem snapshot_read_back:
  assumes "storable s"
  shows "load_snapshot strs max_bytes (snapshot_text s) = Some s"
proof -
  let ?r = "snap_record s"
  obtain fields where fields: "history_snapshot_payload s = JObject fields" by (simp add: history_snapshot_payload_def Let_def)
  have "json_loads (snapshot_text s) = Some (history_snapshot_payload s)"
    using dumps_read [OF payload_wire [OF assms]] by (simp add: snapshot_text_def)
  moreover have "backend ?r = Docker_container" by (cases "backend ?r")
  moreover have "(case (case container_name ?r of None \<Rightarrow> JNull | Some c \<Rightarrow> JString c) of JString c \<Rightarrow> Some c | _ \<Rightarrow> None) = container_name ?r"
    by (simp split: option.split)
  ultimately show ?thesis
    using assms text_int_string [of "output_bytes s"] text_int_string [of "history_max_bytes s"]
    by (simp add: load_snapshot_def history_snapshot_payload_def storable_def Let_def load_record_def
        backend_name_text_def parse_time parse_time_json status_read member_text_def int_json_def member_int_def count_or_def)
qed

end
