(* ===== verification/TerminalSessions.thy ===== *)
theory TerminalSessions
  imports SnapshotCodec
begin

text \<open>
  The lifecycle of terminal sessions (\<open>TerminalSessionService\<close> in \<open>services/terminal_sessions.py\<close>).

  The service keeps mutable session objects that its two dictionaries share, so the model has an
  explicit heap: \<open>sessions_by_group\<close> and \<open>sessions_by_id\<close> map to references, \<open>heap\<close> maps a
  reference to the object. Output queues and reconnect tasks are objects too. The code runs on one
  event loop under a lock: what it does between two awaits is one definition here, from state to
  state, and the steps interleave at the awaits. A bridge, which starts and stops a container, is
  an opaque object: the model keeps the log of the calls the service makes on it, and its answers
  are arguments of the steps. Clock and \<open>uuid4\<close> values are arguments as well.

  Writes of snapshots to disk run in worker threads after the lock is released; the snapshots
  handed to such a write are in \<open>pending_writes\<close> until it happens or is lost. The files below the
  history root are a dictionary from their paths to their texts (theory \<open>SnapshotCodec\<close>).
\<close>

section \<open>State\<close>

record terminal_session_event =
  event_type :: string
  event_data :: "string option"
  event_exit_code :: "int option"
  event_error :: "string option"

record terminal_bridge_event =
  bridge_event_type :: string
  bridge_event_data :: "string option"
  bridge_event_exit_code :: "int option"
  bridge_event_error :: "string option"

datatype bridge_call =
    Bridge_start nat
  | Bridge_send_input nat string
  | Bridge_resize nat int int
  | Bridge_close nat

record managed_session =
  managed_record :: terminal_session_record
  bridge :: "nat option"
  output_queue :: "nat option"
  reconnect_task :: "nat option"
  output_history_chunks :: "string list"
  output_history_bytes :: int
  output_history_truncated :: bool

text \<open>
  A reconnect task that is not done: it sleeps until its deadline, and once it has closed its
  session it waits for the bridge to close, with the snapshot it will write afterwards.
\<close>

datatype reconnect_phase = Sleeping | Closing_bridge history_snapshot

record reconnect_timer =
  timer_session :: string
  timer_deadline :: instant
  timer_phase :: reconnect_phase

record terminal_service =
  reconnect_timeout :: int
  service_max_bytes :: int
  sessions_by_group :: "(string, nat) dict"
  sessions_by_id :: "(string, nat) dict"
  heap :: "nat \<rightharpoonup> managed_session"
  next_ref :: nat
  queues :: "nat \<Rightarrow> terminal_session_event list"
  next_queue :: nat
  timers :: "nat \<rightharpoonup> reconnect_timer"
  next_timer :: nat
  next_bridge :: nat
  bridge_log :: "bridge_call list"
  pending_writes :: "history_snapshot list"
  history_root :: path
  text_of_value :: "json \<Rightarrow> string"
  history_files :: "(path, string) dict"

definition initial_service :: "int \<Rightarrow> int \<Rightarrow> path \<Rightarrow> (json \<Rightarrow> string) \<Rightarrow> terminal_service" where
  "initial_service timeout max_bytes base strs =
     \<lparr>reconnect_timeout = timeout, service_max_bytes = max 0 max_bytes,
      sessions_by_group = [], sessions_by_id = [], heap = Map.empty, next_ref = 0,
      queues = (\<lambda>_. []), next_queue = 0, timers = Map.empty, next_timer = 0, next_bridge = 0,
      bridge_log = [], pending_writes = [], history_root = base, text_of_value = strs, history_files = []\<rparr>"

definition lookup_group :: "terminal_service \<Rightarrow> string \<Rightarrow> (nat \<times> managed_session) option" where
  "lookup_group st folder =
     (case dict_get (sessions_by_group st) folder of
        None \<Rightarrow> None
      | Some r \<Rightarrow> map_option (Pair r) (heap st r))"

definition lookup_id :: "terminal_service \<Rightarrow> string \<Rightarrow> (nat \<times> managed_session) option" where
  "lookup_id st sid =
     (case dict_get (sessions_by_id st) sid of
        None \<Rightarrow> None
      | Some r \<Rightarrow> map_option (Pair r) (heap st r))"

definition store_managed :: "nat \<Rightarrow> managed_session \<Rightarrow> terminal_service \<Rightarrow> terminal_service" where
  "store_managed r m st = st\<lparr>heap := (heap st)(r \<mapsto> m)\<rparr>"

section \<open>Snapshots and the output history\<close>

definition build_history_snapshot :: "terminal_service \<Rightarrow> instant \<Rightarrow> managed_session \<Rightarrow> history_snapshot" where
  "build_history_snapshot st now m =
     \<lparr>snap_record = managed_record m, snapshot_at = now,
      snap_output = concat (output_history_chunks m), output_bytes = output_history_bytes m,
      history_max_bytes = service_max_bytes st, truncated = output_history_truncated m\<rparr>"

text \<open>The loop of \<open>_append_output_history\<close> that drops the oldest chunks.\<close>

fun drop_oldest :: "int \<Rightarrow> string list \<Rightarrow> int \<Rightarrow> bool \<Rightarrow> string list \<times> int \<times> bool" where
  "drop_oldest max_bytes [] bytes trunc = ([], bytes, trunc)"
| "drop_oldest max_bytes (removed # chunks) bytes trunc =
     (if bytes > max_bytes
      then drop_oldest max_bytes chunks (bytes - int (utf8_len removed)) True
      else (removed # chunks, bytes, trunc))"

definition append_output_history :: "int \<Rightarrow> managed_session \<Rightarrow> string \<Rightarrow> managed_session" where
  "append_output_history max_bytes m chunk =
     (if max_bytes \<le> 0 \<or> chunk = [] then
        (if max_bytes \<le> 0 then m\<lparr>output_history_chunks := [], output_history_bytes := 0\<rparr> else m)
      else
        let chunk_bytes = int (utf8_len chunk) in
        if chunk_bytes \<le> 0 then m
        else
          (case drop_oldest max_bytes (output_history_chunks m @ [chunk])
                  (output_history_bytes m + chunk_bytes) (output_history_truncated m) of
             (chunks, bytes, trunc) \<Rightarrow>
               m\<lparr>output_history_chunks := chunks,
                 output_history_bytes := (if bytes < 0 then 0 else bytes),
                 output_history_truncated := trunc\<rparr>))"

section \<open>Guards and helpers\<close>

definition resolve_backend :: "terminal_requested_mode \<Rightarrow> terminal_error + terminal_backend_name" where
  "resolve_backend requested_mode =
     (if requested_mode = Mode_container then Inr Docker_container
      else if requested_mode = Mode_host then Inl TerminalBackendDisabledError
      else Inl TerminalBackendUnsupportedError)"

definition require_session ::
  "terminal_service \<Rightarrow> string \<Rightarrow> terminal_error + (nat \<times> managed_session)" where
  "require_session st sid =
     (case lookup_id st sid of
        None \<Rightarrow> Inl TerminalSessionNotFoundError
      | Some rm \<Rightarrow> Inr rm)"

definition require_owner :: "managed_session \<Rightarrow> string \<Rightarrow> terminal_error + unit" where
  "require_owner m owner =
     (if owner_user_id (managed_record m) \<noteq> owner then Inl TerminalSessionOwnershipError
      else Inr ())"

definition require_live_bridge :: "managed_session \<Rightarrow> terminal_error + nat" where
  "require_live_bridge m =
     (case bridge m of None \<Rightarrow> Inl TerminalSessionNotFoundError | Some b \<Rightarrow> Inr b)"

text \<open>\<open>_require_session\<close> followed by \<open>_require_owner\<close>, as every owner operation starts.\<close>

definition require_owned ::
  "terminal_service \<Rightarrow> string \<Rightarrow> string \<Rightarrow> terminal_error + (nat \<times> managed_session)" where
  "require_owned st sid owner =
     (case require_session st sid of
        Inl e \<Rightarrow> Inl e
      | Inr (r, m) \<Rightarrow> (case require_owner m owner of Inl e \<Rightarrow> Inl e | Inr _ \<Rightarrow> Inr (r, m)))"

definition cancel_reconnect_task :: "nat \<Rightarrow> terminal_service \<Rightarrow> terminal_service" where
  "cancel_reconnect_task r st =
     (case heap st r of
        None \<Rightarrow> st
      | Some m \<Rightarrow>
          (case reconnect_task m of
             None \<Rightarrow> st
           | Some t \<Rightarrow>
               store_managed r (m\<lparr>reconnect_task := None\<rparr>)
                 (st\<lparr>timers := (timers st)(t := None)\<rparr>)))"

definition drop_session :: "nat \<Rightarrow> terminal_service \<Rightarrow> terminal_service" where
  "drop_session r st =
     (case heap st r of
        None \<Rightarrow> st
      | Some m \<Rightarrow>
          cancel_reconnect_task r
            (st\<lparr>sessions_by_group := dict_pop (group_folder (managed_record m)) (sessions_by_group st),
               sessions_by_id := dict_pop (session_id (managed_record m)) (sessions_by_id st)\<rparr>))"

definition update_managed :: "nat \<Rightarrow> (managed_session \<Rightarrow> managed_session) \<Rightarrow> terminal_service \<Rightarrow> terminal_service" where
  "update_managed r f st =
     (case heap st r of None \<Rightarrow> st | Some m \<Rightarrow> store_managed r (f m) st)"

definition set_status :: "terminal_session_status \<Rightarrow> managed_session \<Rightarrow> managed_session" where
  "set_status s m =
     m\<lparr>managed_record := (managed_record m)\<lparr>status := s, reconnect_deadline := None\<rparr>\<rparr>"

text \<open>The snapshot of a session as it is now is handed to a best-effort write.\<close>

definition schedule_write :: "nat \<Rightarrow> instant \<Rightarrow> terminal_service \<Rightarrow> terminal_service" where
  "schedule_write r now st =
     (case heap st r of
        None \<Rightarrow> st
      | Some m \<Rightarrow> st\<lparr>pending_writes := pending_writes st @ [build_history_snapshot st now m]\<rparr>)"

section \<open>Creating a session\<close>

text \<open>
  The bridge factory either raises (\<open>None\<close>) or returns a bridge object with the value of its
  \<open>container_name\<close> attribute (\<open>Some None\<close> when that is not a string).
\<close>

datatype create_result =
    Existing_session terminal_session_record
  | New_session terminal_session_record nat

definition create_new ::
  "terminal_service \<Rightarrow> string \<Rightarrow> string \<Rightarrow> string \<Rightarrow> terminal_backend_name \<Rightarrow> string \<Rightarrow> instant \<Rightarrow>
   string option option \<Rightarrow> (terminal_error + create_result) \<times> terminal_service" where
  "create_new st gid folder owner backend_name uuid now factory =
     (case factory of
        None \<Rightarrow> (Inl BridgeError, st)
      | Some container \<Rightarrow>
          let record_value =
                \<lparr>session_id = uuid, group_id = gid, group_folder = folder, owner_user_id = owner,
                 backend = backend_name, container_name = container, status = Created,
                 created_at = now, last_attached_at = None, reconnect_deadline = None\<rparr>;
              m = \<lparr>managed_record = record_value, bridge = Some (next_bridge st),
                   output_queue = None, reconnect_task = None, output_history_chunks = [],
                   output_history_bytes = 0, output_history_truncated = False\<rparr>;
              r = next_ref st
          in (Inr (New_session record_value (next_bridge st)),
              st\<lparr>heap := (heap st)(r \<mapsto> m), next_ref := Suc r,
                 sessions_by_group := dict_set folder r (sessions_by_group st),
                 sessions_by_id := dict_set uuid r (sessions_by_id st),
                 bridge_log := bridge_log st @ [Bridge_start (next_bridge st)],
                 next_bridge := Suc (next_bridge st)\<rparr>))"

definition create_begin ::
  "terminal_service \<Rightarrow> string \<Rightarrow> string \<Rightarrow> string \<Rightarrow> terminal_requested_mode \<Rightarrow> string \<Rightarrow> instant \<Rightarrow>
   string option option \<Rightarrow> (terminal_error + create_result) \<times> terminal_service" where
  "create_begin st gid folder owner requested_mode uuid now factory =
     (case resolve_backend requested_mode of
        Inl e \<Rightarrow> (Inl e, st)
      | Inr backend_name \<Rightarrow>
          (case lookup_group st folder of
             Some (r, existing) \<Rightarrow>
               if status (managed_record existing) \<notin> {Closed, Exited} then
                 (if owner_user_id (managed_record existing) \<noteq> owner
                  then (Inl TerminalSessionConflictError, st)
                  else (Inr (Existing_session (managed_record existing)), st))
               else create_new (drop_session r st) gid folder owner backend_name uuid now factory
           | None \<Rightarrow> create_new st gid folder owner backend_name uuid now factory))"

text \<open>
  After \<open>bridge.start\<close> has returned: the snapshot of the session, if it is still there, is written.
  When \<open>bridge.start\<close> raises, the exception leaves \<open>create_session\<close> with the state as it is.
\<close>

definition create_finish :: "terminal_service \<Rightarrow> string \<Rightarrow> instant \<Rightarrow> terminal_service" where
  "create_finish st sid now =
     (case lookup_id st sid of None \<Rightarrow> st | Some (r, m) \<Rightarrow> schedule_write r now st)"

definition get_current_session :: "terminal_service \<Rightarrow> string \<Rightarrow> terminal_session_record option" where
  "get_current_session st folder = map_option (managed_record \<circ> snd) (lookup_group st folder)"

section \<open>Attaching\<close>

definition replay_events :: "managed_session \<Rightarrow> terminal_session_event list" where
  "replay_events m =
     map (\<lambda>chunk. \<lparr>event_type = ''terminal.output'', event_data = Some chunk,
                   event_exit_code = None, event_error = None\<rparr>) (output_history_chunks m)"

text \<open>
  The block under the lock. The result is the record, the queue, and, when a bridge has to be
  started, that bridge with the snapshot to write after its start. Without a bridge (a recovered session, or one whose last attach failed)
  a new one is made; if the factory raises, the record has already been changed.
\<close>

definition attach_begin ::
  "terminal_service \<Rightarrow> string \<Rightarrow> string \<Rightarrow> instant \<Rightarrow> string option option \<Rightarrow>
   (terminal_error + (terminal_session_record \<times> nat \<times> (nat \<times> history_snapshot) option)) \<times>
   terminal_service" where
  "attach_begin st sid owner now factory =
     (case require_owned st sid owner of
        Inl e \<Rightarrow> (Inl e, st)
      | Inr (r, _) \<Rightarrow>
          let st1 = cancel_reconnect_task r st;
              q = next_queue st1;
              st2 = update_managed r
                      (\<lambda>m. m\<lparr>output_queue := Some q,
                             managed_record := (managed_record m)\<lparr>status := Attached,
                               last_attached_at := Some now, reconnect_deadline := None\<rparr>\<rparr>)
                      (st1\<lparr>next_queue := Suc q,
                          queues := (queues st1)(q := (case heap st1 r of None \<Rightarrow> []
                                                       | Some m \<Rightarrow> replay_events m))\<rparr>)
          in (case heap st2 r of
                None \<Rightarrow> (Inl TerminalSessionNotFoundError, st2)
              | Some m \<Rightarrow>
                  (case bridge m of
                     Some _ \<Rightarrow> (Inr (managed_record m, q, None), schedule_write r now st2)
                   | None \<Rightarrow>
                       (case factory of
                          None \<Rightarrow> (Inl BridgeError, st2)
                        | Some container \<Rightarrow>
                            let b = next_bridge st2;
                                m' = m\<lparr>bridge := Some b,
                                       managed_record := (managed_record m)\<lparr>container_name :=
                                         (case container of None \<Rightarrow> container_name (managed_record m)
                                          | Some c \<Rightarrow> Some c)\<rparr>\<rparr>
                            in (Inr (managed_record m', q, Some (b, build_history_snapshot st2 now m')),
                                store_managed r m'
                                  (st2\<lparr>next_bridge := Suc b,
                                      bridge_log := bridge_log st2 @ [Bridge_start b]\<rparr>))))))"

text \<open>
  A bridge that \<open>attach_session\<close> made is started after the lock is released. On success the
  snapshot taken under the lock is written; on failure the session is closed, with no bridge and
  no queue, and that snapshot is written instead.
\<close>

definition attach_started :: "terminal_service \<Rightarrow> history_snapshot \<Rightarrow> terminal_service" where
  "attach_started st snapshot = st\<lparr>pending_writes := pending_writes st @ [snapshot]\<rparr>"

definition attach_failed :: "terminal_service \<Rightarrow> string \<Rightarrow> instant \<Rightarrow> terminal_service" where
  "attach_failed st sid now =
     (case lookup_id st sid of
        None \<Rightarrow> st
      | Some (r, _) \<Rightarrow>
          schedule_write r now
            (update_managed r
               (\<lambda>m. set_status Closed (m\<lparr>bridge := None, output_queue := None\<rparr>)) st))"

section \<open>Detaching and expiry\<close>

definition detach_session ::
  "terminal_service \<Rightarrow> string \<Rightarrow> string \<Rightarrow> instant \<Rightarrow>
   (terminal_error + terminal_session_record) \<times> terminal_service" where
  "detach_session st sid owner now =
     (case require_owned st sid owner of
        Inl e \<Rightarrow> (Inl e, st)
      | Inr (r, m0) \<Rightarrow>
          let deadline = now + reconnect_timeout st;
              record_value = (managed_record m0)\<lparr>status := Detached, reconnect_deadline := Some deadline\<rparr>;
              st1 = update_managed r
                      (\<lambda>m. m\<lparr>output_queue := None, managed_record := record_value\<rparr>) st;
              st2 = cancel_reconnect_task r st1;
              t = next_timer st2;
              st3 = update_managed r (\<lambda>m. m\<lparr>reconnect_task := Some t\<rparr>)
                      (st2\<lparr>next_timer := Suc t,
                          timers := (timers st2)(t \<mapsto>
                            \<lparr>timer_session = sid, timer_deadline = deadline, timer_phase = Sleeping\<rparr>)\<rparr>)
          in (Inr record_value, schedule_write r now st3))"

text \<open>
  \<open>_expire_detached_session\<close>: when the sleep is over, the task closes the session if it is still
  detached with the deadline the task was made for; then it waits for the bridge to close.
\<close>

definition expire_fire :: "terminal_service \<Rightarrow> nat \<Rightarrow> instant \<Rightarrow> terminal_service" where
  "expire_fire st t now =
     (case timers st t of
        None \<Rightarrow> st
      | Some timer \<Rightarrow>
          (case timer_phase timer of
             Closing_bridge _ \<Rightarrow> st
           | Sleeping \<Rightarrow>
               let finished = st\<lparr>timers := (timers st)(t := None)\<rparr> in
               (case lookup_id st (timer_session timer) of
                  None \<Rightarrow> finished
                | Some (r, m) \<Rightarrow>
                    if status (managed_record m) \<noteq> Detached then finished
                    else if reconnect_deadline (managed_record m) \<noteq> Some (timer_deadline timer)
                      then finished
                    else
                      let m' = set_status Closed m;
                          st1 = store_managed r m' st;
                          snapshot = build_history_snapshot st1 now m'
                      in (case bridge m of
                            None \<Rightarrow> st1\<lparr>timers := (timers st1)(t := None),
                                        pending_writes := pending_writes st1 @ [snapshot]\<rparr>
                          | Some b \<Rightarrow>
                              st1\<lparr>timers := (timers st1)(t \<mapsto> timer\<lparr>timer_phase := Closing_bridge snapshot\<rparr>),
                                  bridge_log := bridge_log st1 @ [Bridge_close b]\<rparr>))))"

definition expire_finish :: "terminal_service \<Rightarrow> nat \<Rightarrow> terminal_service" where
  "expire_finish st t =
     (case timers st t of
        None \<Rightarrow> st
      | Some timer \<Rightarrow>
          (case timer_phase timer of
             Sleeping \<Rightarrow> st
           | Closing_bridge snapshot \<Rightarrow>
               st\<lparr>timers := (timers st)(t := None),
                 pending_writes := pending_writes st @ [snapshot]\<rparr>))"

section \<open>Closing\<close>

text \<open>
  The block under the lock, the call to the bridge and the write. The record returned is the
  session's at the end of the block; an exit event that arrives while the bridge closes can still
  turn it into \<open>Exited\<close>.
\<close>

definition close_managed :: "nat \<Rightarrow> instant \<Rightarrow> terminal_service \<Rightarrow> terminal_service" where
  "close_managed r now st =
     (let st1 = cancel_reconnect_task r st;
          st2 = update_managed r (\<lambda>m. set_status Closed (m\<lparr>output_queue := None\<rparr>)) st1;
          st3 = (case Option.bind (heap st2 r) bridge of
                   None \<Rightarrow> st2
                 | Some b \<Rightarrow> st2\<lparr>bridge_log := bridge_log st2 @ [Bridge_close b]\<rparr>)
      in schedule_write r now st3)"

definition close_session ::
  "terminal_service \<Rightarrow> string \<Rightarrow> string \<Rightarrow> instant \<Rightarrow>
   (terminal_error + terminal_session_record option) \<times> terminal_service" where
  "close_session st sid owner now =
     (case require_owned st sid owner of
        Inl e \<Rightarrow> (Inl e, st)
      | Inr (r, _) \<Rightarrow>
          let st' = close_managed r now st
          in (Inr (map_option managed_record (heap st' r)), st'))"

definition close_session_by_group ::
  "terminal_service \<Rightarrow> string \<Rightarrow> string \<Rightarrow> instant \<Rightarrow>
   (terminal_error + terminal_session_record option) \<times> terminal_service" where
  "close_session_by_group st folder owner now =
     (case lookup_group st folder of
        None \<Rightarrow> (Inl TerminalSessionNotFoundError, st)
      | Some (_, m) \<Rightarrow>
          (case require_owner m owner of
             Inl e \<Rightarrow> (Inl e, st)
           | Inr _ \<Rightarrow> close_session st (session_id (managed_record m)) owner now))"

definition force_close_session_by_group ::
  "terminal_service \<Rightarrow> string \<Rightarrow> instant \<Rightarrow>
   (terminal_error + terminal_session_record option) \<times> terminal_service" where
  "force_close_session_by_group st folder now =
     (case lookup_group st folder of
        None \<Rightarrow> (Inl TerminalSessionNotFoundError, st)
      | Some (r, _) \<Rightarrow>
          let st' = close_managed r now st
          in (Inr (map_option managed_record (heap st' r)), st'))"

section \<open>Input and bridge events\<close>

definition send_input ::
  "terminal_service \<Rightarrow> string \<Rightarrow> string \<Rightarrow> string \<Rightarrow> (terminal_error + unit) \<times> terminal_service" where
  "send_input st sid owner data =
     (case require_owned st sid owner of
        Inl e \<Rightarrow> (Inl e, st)
      | Inr (_, m) \<Rightarrow>
          (case require_live_bridge m of
             Inl e \<Rightarrow> (Inl e, st)
           | Inr b \<Rightarrow> (Inr (), st\<lparr>bridge_log := bridge_log st @ [Bridge_send_input b data]\<rparr>)))"

definition resize ::
  "terminal_service \<Rightarrow> string \<Rightarrow> string \<Rightarrow> int \<Rightarrow> int \<Rightarrow> (terminal_error + unit) \<times> terminal_service" where
  "resize st sid owner cols rows =
     (case require_owned st sid owner of
        Inl e \<Rightarrow> (Inl e, st)
      | Inr (_, m) \<Rightarrow>
          (case require_live_bridge m of
             Inl e \<Rightarrow> (Inl e, st)
           | Inr b \<Rightarrow> (Inr (), st\<lparr>bridge_log := bridge_log st @ [Bridge_resize b cols rows]\<rparr>)))"

text \<open>
  \<open>_handle_bridge_event\<close> up to its first await: the new state and the queue that the event will
  be put into. A snapshot to write, if any, is scheduled.
\<close>

definition bridge_event_locked ::
  "terminal_service \<Rightarrow> string \<Rightarrow> terminal_bridge_event \<Rightarrow> instant \<Rightarrow> terminal_service \<times> nat option" where
  "bridge_event_locked st sid event now =
     (case lookup_id st sid of
        None \<Rightarrow> (st, None)
      | Some (r, m) \<Rightarrow>
          if bridge_event_type event = ''output'' then
            (case bridge_event_data event of
               None \<Rightarrow> (st, output_queue m)
             | Some chunk \<Rightarrow>
                 (schedule_write r now
                    (update_managed r (\<lambda>m. append_output_history (service_max_bytes st) m chunk) st),
                  output_queue m))
          else if bridge_event_type event = ''exit'' then
            (schedule_write r now
               (update_managed r (set_status Exited) (cancel_reconnect_task r st)),
             output_queue m)
          else if bridge_event_type event = ''error'' then (st, output_queue m)
          else (st, None))"

definition session_event_of :: "terminal_bridge_event \<Rightarrow> terminal_session_event option" where
  "session_event_of event =
     (if bridge_event_type event = ''output'' then
        Some \<lparr>event_type = ''terminal.output'', event_data = bridge_event_data event,
              event_exit_code = None, event_error = None\<rparr>
      else if bridge_event_type event = ''exit'' then
        Some \<lparr>event_type = ''terminal.exit'', event_data = None,
              event_exit_code = bridge_event_exit_code event, event_error = None\<rparr>
      else if bridge_event_type event = ''error'' then
        Some \<lparr>event_type = ''terminal.error'', event_data = None,
              event_exit_code = None, event_error = bridge_event_error event\<rparr>
      else None)"

definition bridge_event_deliver ::
  "terminal_service \<Rightarrow> nat option \<Rightarrow> terminal_bridge_event \<Rightarrow> terminal_service" where
  "bridge_event_deliver st queue event =
     (case (queue, session_event_of event) of
        (Some q, Some e) \<Rightarrow> st\<lparr>queues := (queues st)(q := queues st q @ [e])\<rparr>
      | _ \<Rightarrow> st)"

section \<open>Writing snapshots, and recovery\<close>

text \<open>
  The temporary file and its rename are one step. Where the code raises, because the place is outside
  the root or the session id names no file, the best-effort write ends there.
\<close>

definition write_snapshot_payload :: "path \<Rightarrow> history_snapshot \<Rightarrow> terminal_service \<Rightarrow> terminal_service" where
  "write_snapshot_payload p snapshot st =
     st\<lparr>history_files := dict_set p (snapshot_text snapshot) (history_files st)\<rparr>"

definition persist_history_snapshot :: "history_snapshot \<Rightarrow> terminal_service \<Rightarrow> terminal_service" where
  "persist_history_snapshot snapshot st =
     (let rec = snap_record snapshot in
      case history_snapshot_path (history_root st) (group_folder rec) of
        None \<Rightarrow> st
      | Some latest \<Rightarrow>
          let st1 = write_snapshot_payload latest snapshot st in
          if status rec \<in> terminal_archive_statuses then
            (case history_archive_snapshot_path (history_root st) (group_folder rec) (session_id rec) of
               None \<Rightarrow> st1
             | Some archive \<Rightarrow> write_snapshot_payload archive snapshot st1)
          else st1)"

text \<open>A pending write happens, or it is lost to an I/O error or a cancelled request.\<close>

definition finish_write :: "nat \<Rightarrow> bool \<Rightarrow> terminal_service \<Rightarrow> terminal_service" where
  "finish_write i succeeds st =
     (if i < length (pending_writes st) then
        let snapshot = pending_writes st ! i;
            st1 = st\<lparr>pending_writes := take i (pending_writes st) @ drop (Suc i) (pending_writes st)\<rparr>
        in if succeeds then persist_history_snapshot snapshot st1 else st1
      else st)"

definition load_persisted_history_snapshot_from_path :: "terminal_service \<Rightarrow> path \<Rightarrow> history_snapshot option" where
  "load_persisted_history_snapshot_from_path st p =
     Option.bind (dict_get (history_files st) p) (load_snapshot (text_of_value st) (service_max_bytes st))"

text \<open>A folder whose place is outside the root, for which the code raises, has no snapshot here.\<close>

definition load_persisted_history_snapshot :: "terminal_service \<Rightarrow> string \<Rightarrow> history_snapshot option" where
  "load_persisted_history_snapshot st folder =
     Option.bind (history_snapshot_path (history_root st) folder) (load_persisted_history_snapshot_from_path st)"

text \<open>The directories in the root that hold files, by name.\<close>

definition workspace_dirs :: "terminal_service \<Rightarrow> string list" where
  "workspace_dirs st =
     (let base = history_root st in
      sort (remdups (List.map_filter
        (\<lambda>(p, _). if take (length base) p = base \<and> length base + 1 < length p then Some (p ! length base) else None)
        (history_files st))))"

definition list_persisted_history_snapshots :: "terminal_service \<Rightarrow> history_snapshot list" where
  "list_persisted_history_snapshots st = List.map_filter (load_persisted_history_snapshot st) (workspace_dirs st)"

definition list_persisted_history_archived_snapshots :: "terminal_service \<Rightarrow> string \<Rightarrow> history_snapshot list" where
  "list_persisted_history_archived_snapshots st folder =
     (case history_archive_snapshots_root (history_root st) folder of
        None \<Rightarrow> []
      | Some dir \<Rightarrow>
          filter (\<lambda>s. group_folder (snap_record s) = folder)
            (List.map_filter (load_persisted_history_snapshot_from_path st)
              (sort_key path_name
                (filter (\<lambda>p. p \<noteq> [] \<and> butlast p = dir \<and> path_suffix p = ''.json'') (map fst (history_files st))))))"

definition recover_snapshot :: "history_snapshot \<Rightarrow> terminal_service \<Rightarrow> terminal_service" where
  "recover_snapshot snapshot st =
     (if status (snap_record snapshot) \<notin> active_recoverable_statuses then st
      else
        let recovered_record = (snap_record snapshot)\<lparr>status := Detached, reconnect_deadline := None\<rparr> in
        if dict_get (sessions_by_group st) (group_folder recovered_record) \<noteq> None then st
        else if dict_get (sessions_by_id st) (session_id recovered_record) \<noteq> None then st
        else
          let m = \<lparr>managed_record = recovered_record, bridge = None, output_queue = None,
                   reconnect_task = None, output_history_chunks = [], output_history_bytes = 0,
                   output_history_truncated = truncated snapshot\<rparr>;
              m' = append_output_history (service_max_bytes st) m (snap_output snapshot);
              r = next_ref st
          in st\<lparr>heap := (heap st)(r \<mapsto> m'), next_ref := Suc r,
                sessions_by_group := dict_set (group_folder recovered_record) r (sessions_by_group st),
                sessions_by_id := dict_set (session_id recovered_record) r (sessions_by_id st)\<rparr>)"

definition recover_active_sessions_from_persisted_snapshots :: "terminal_service \<Rightarrow> terminal_service" where
  "recover_active_sessions_from_persisted_snapshots st =
     fold recover_snapshot (list_persisted_history_snapshots st) st"

section \<open>The output history is the longest suffix that fits\<close>

definition chunk_bytes :: "string list \<Rightarrow> int" where
  "chunk_bytes chunks = int (sum_list (map utf8_len chunks))"

lemma chunk_bytes_simps [simp]:
  "chunk_bytes [] = 0" "chunk_bytes (c # cs) = int (utf8_len c) + chunk_bytes cs"
  "chunk_bytes (cs @ ds) = chunk_bytes cs + chunk_bytes ds"
  by (simp_all add: chunk_bytes_def)

lemma chunk_bytes_nonneg [simp]: "0 \<le> chunk_bytes cs"
  by (simp add: chunk_bytes_def)

text \<open>The reference: drop chunks from the front while the rest is too big.\<close>

fun fitting_suffix :: "int \<Rightarrow> string list \<Rightarrow> string list" where
  "fitting_suffix max_bytes [] = []"
| "fitting_suffix max_bytes (c # cs) =
     (if chunk_bytes (c # cs) \<le> max_bytes then c # cs else fitting_suffix max_bytes cs)"

lemma fitting_suffix_fits: "0 \<le> mb \<Longrightarrow> chunk_bytes (fitting_suffix mb cs) \<le> mb"
  by (induction cs) auto

lemma fitting_suffix_suffix: "\<exists>dropped. cs = dropped @ fitting_suffix mb cs"
  by (induction cs) (auto intro: exI [of _ "[]"], metis append_Cons)

lemma fitting_suffix_id: "chunk_bytes cs \<le> mb \<Longrightarrow> fitting_suffix mb cs = cs"
  by (cases cs) auto

lemma fitting_suffix_longest:
  "cs = dropped @ kept \<Longrightarrow> chunk_bytes kept \<le> mb \<Longrightarrow> length kept \<le> length (fitting_suffix mb cs)"
proof (induction cs arbitrary: dropped)
  case (Cons c cs)
  show ?case
  proof (cases dropped)
    case Nil
    with Cons.prems show ?thesis by (simp add: fitting_suffix_id)
  next
    case (Cons d ds)
    with Cons.prems Cons.IH [of ds] show ?thesis by auto
  qed
qed simp

lemma fitting_suffix_append:
  "fitting_suffix mb (fitting_suffix mb cs @ ds) = fitting_suffix mb (cs @ ds)"
proof (induction cs)
  case (Cons c cs)
  show ?case
  proof (cases "chunk_bytes (c # cs) \<le> mb")
    case False
    moreover have "chunk_bytes (c # cs) \<le> chunk_bytes (c # cs @ ds)" by simp
    ultimately have "\<not> chunk_bytes (c # cs @ ds) \<le> mb" by linarith
    with False Cons show ?thesis by simp
  qed simp
qed simp

lemma drop_oldest_fitting:
  "0 \<le> mb \<Longrightarrow> bytes = chunk_bytes cs \<Longrightarrow>
   drop_oldest mb cs bytes trunc =
     (fitting_suffix mb cs, chunk_bytes (fitting_suffix mb cs), trunc \<or> mb < chunk_bytes cs)"
  by (induction mb cs bytes trunc rule: drop_oldest.induct) auto

text \<open>The history part of a session object, and what every operation keeps of it.\<close>

definition history_ok :: "int \<Rightarrow> managed_session \<Rightarrow> bool" where
  "history_ok mb m \<longleftrightarrow>
     output_history_bytes m = chunk_bytes (output_history_chunks m) \<and>
     output_history_bytes m \<le> mb \<and> (\<forall>c \<in> set (output_history_chunks m). c \<noteq> [])"

lemma append_output_history_chunks:
  assumes "0 < mb" "history_ok mb m"
  shows "output_history_chunks (append_output_history mb m chunk) =
      (if chunk = [] then output_history_chunks m
       else fitting_suffix mb (output_history_chunks m @ [chunk]))"
    and "output_history_bytes (append_output_history mb m chunk) =
      chunk_bytes (output_history_chunks (append_output_history mb m chunk))"
    and "output_history_truncated (append_output_history mb m chunk) \<longleftrightarrow>
      output_history_truncated m \<or>
      (chunk \<noteq> [] \<and> mb < chunk_bytes (output_history_chunks m @ [chunk]))"
  using assms
  by (auto simp: append_output_history_def history_ok_def Let_def drop_oldest_fitting
      leD [OF chunk_bytes_nonneg] split: prod.splits)

lemma append_output_history_ok:
  assumes "0 \<le> mb" "history_ok mb m"
  shows "history_ok mb (append_output_history mb m chunk)"
proof (cases "mb = 0 \<or> chunk = []")
  case True
  with assms show ?thesis by (auto simp: append_output_history_def history_ok_def)
next
  case False
  with assms have mb: "0 < mb" by simp
  obtain dropped where
    "output_history_chunks m @ [chunk] = dropped @ fitting_suffix mb (output_history_chunks m @ [chunk])"
    using fitting_suffix_suffix by blast
  then have "set (fitting_suffix mb (output_history_chunks m @ [chunk])) \<subseteq>
      set (output_history_chunks m @ [chunk])"
    by (metis Un_upper2 set_append)
  with append_output_history_chunks [OF mb assms(2), of chunk] False assms
    fitting_suffix_fits [of mb "output_history_chunks m @ [chunk]"]
  show ?thesis by (auto simp: history_ok_def)
qed

lemma append_output_history_frame [simp]:
  "managed_record (append_output_history mb m c) = managed_record m"
  "bridge (append_output_history mb m c) = bridge m"
  "output_queue (append_output_history mb m c) = output_queue m"
  "reconnect_task (append_output_history mb m c) = reconnect_task m"
  by (simp_all add: append_output_history_def Let_def split: prod.splits)

text \<open>A whole stream of chunks leaves the longest suffix of the stream that fits.\<close>

lemma append_stream:
  assumes "0 < mb" "history_ok mb m"
  shows "output_history_chunks (fold (\<lambda>c m. append_output_history mb m c) cs m) =
    fitting_suffix mb (output_history_chunks m @ filter (\<lambda>c. c \<noteq> []) cs)"
  using assms(2)
proof (induction cs arbitrary: m)
  case Nil
  then show ?case by (simp add: history_ok_def fitting_suffix_id)
next
  case (Cons c cs)
  have "history_ok mb (append_output_history mb m c)"
    using assms(1) Cons.prems by (intro append_output_history_ok) auto
  from Cons.IH [OF this] Cons.prems assms(1) show ?case
    by (auto simp: append_output_history_chunks fitting_suffix_append)
qed

end
