(* ===== verification/TerminalInvariant.thy ===== *)
theory TerminalInvariant
  imports TerminalSessions
begin

text \<open>
  The invariant of the terminal session service, that every step keeps it, and the reachable
  states of the service as an inductive predicate over the steps of \<open>TerminalSessions\<close>.

  The invariant says that the two dictionaries index the same session objects under the right
  keys, that every session's history is within the byte limit and correctly counted, and that a
  session with a reconnect deadline is detached, indexed, and has a sleeping reconnect task of its
  own for exactly that deadline.
\<close>

section \<open>Effects of the helpers\<close>

lemma managed_eta [simp]: "reconnect_task m = None \<Longrightarrow> m\<lparr>reconnect_task := None\<rparr> = m"
  by (cases m) simp

lemma store_managed_sel [simp]:
  "heap (store_managed r m st) = (heap st)(r \<mapsto> m)"
  "sessions_by_group (store_managed r m st) = sessions_by_group st"
  "sessions_by_id (store_managed r m st) = sessions_by_id st"
  "next_ref (store_managed r m st) = next_ref st"
  "service_max_bytes (store_managed r m st) = service_max_bytes st"
  "reconnect_timeout (store_managed r m st) = reconnect_timeout st"
  "timers (store_managed r m st) = timers st"
  "next_timer (store_managed r m st) = next_timer st"
  "queues (store_managed r m st) = queues st"
  "next_queue (store_managed r m st) = next_queue st"
  "pending_writes (store_managed r m st) = pending_writes st"
  "bridge_log (store_managed r m st) = bridge_log st"
  "next_bridge (store_managed r m st) = next_bridge st"
  by (simp_all add: store_managed_def)

lemma update_managed_sel [simp]:
  "heap (update_managed r f st) x = (if x = r then map_option f (heap st r) else heap st x)"
  "sessions_by_group (update_managed r f st) = sessions_by_group st"
  "sessions_by_id (update_managed r f st) = sessions_by_id st"
  "next_ref (update_managed r f st) = next_ref st"
  "service_max_bytes (update_managed r f st) = service_max_bytes st"
  "reconnect_timeout (update_managed r f st) = reconnect_timeout st"
  "timers (update_managed r f st) = timers st"
  "next_timer (update_managed r f st) = next_timer st"
  "queues (update_managed r f st) = queues st"
  "next_queue (update_managed r f st) = next_queue st"
  "pending_writes (update_managed r f st) = pending_writes st"
  "bridge_log (update_managed r f st) = bridge_log st"
  "next_bridge (update_managed r f st) = next_bridge st"
  by (simp_all add: update_managed_def split: option.splits)

lemma cancel_reconnect_task_sel [simp]:
  "heap (cancel_reconnect_task r st) x =
     (if x = r then map_option (\<lambda>m. m\<lparr>reconnect_task := None\<rparr>) (heap st r) else heap st x)"
  "sessions_by_group (cancel_reconnect_task r st) = sessions_by_group st"
  "sessions_by_id (cancel_reconnect_task r st) = sessions_by_id st"
  "next_ref (cancel_reconnect_task r st) = next_ref st"
  "service_max_bytes (cancel_reconnect_task r st) = service_max_bytes st"
  "reconnect_timeout (cancel_reconnect_task r st) = reconnect_timeout st"
  "next_timer (cancel_reconnect_task r st) = next_timer st"
  "queues (cancel_reconnect_task r st) = queues st"
  "next_queue (cancel_reconnect_task r st) = next_queue st"
  "pending_writes (cancel_reconnect_task r st) = pending_writes st"
  "bridge_log (cancel_reconnect_task r st) = bridge_log st"
  "next_bridge (cancel_reconnect_task r st) = next_bridge st"
  by (simp_all add: cancel_reconnect_task_def split: option.splits)

lemma cancel_reconnect_task_timers:
  "timers (cancel_reconnect_task r st) =
     (case Option.bind (heap st r) reconnect_task of
        None \<Rightarrow> timers st | Some t \<Rightarrow> (timers st)(t := None))"
  by (simp add: cancel_reconnect_task_def split: option.splits)

lemma schedule_write_sel [simp]:
  "heap (schedule_write r now st) = heap st"
  "sessions_by_group (schedule_write r now st) = sessions_by_group st"
  "sessions_by_id (schedule_write r now st) = sessions_by_id st"
  "next_ref (schedule_write r now st) = next_ref st"
  "service_max_bytes (schedule_write r now st) = service_max_bytes st"
  "reconnect_timeout (schedule_write r now st) = reconnect_timeout st"
  "timers (schedule_write r now st) = timers st"
  "next_timer (schedule_write r now st) = next_timer st"
  "queues (schedule_write r now st) = queues st"
  "next_queue (schedule_write r now st) = next_queue st"
  "bridge_log (schedule_write r now st) = bridge_log st"
  "next_bridge (schedule_write r now st) = next_bridge st"
  by (simp_all add: schedule_write_def split: option.splits)

lemma set_status_sel [simp]:
  "bridge (set_status s m) = bridge m"
  "output_queue (set_status s m) = output_queue m"
  "reconnect_task (set_status s m) = reconnect_task m"
  "managed_record (set_status s m) = (managed_record m)\<lparr>status := s, reconnect_deadline := None\<rparr>"
  "output_history_chunks (set_status s m) = output_history_chunks m"
  "output_history_bytes (set_status s m) = output_history_bytes m"
  "output_history_truncated (set_status s m) = output_history_truncated m"
  by (simp_all add: set_status_def)

lemma close_managed_sel [simp]:
  "heap (close_managed r now st) x =
     (if x = r then map_option (\<lambda>m. set_status Closed (m\<lparr>reconnect_task := None, output_queue := None\<rparr>))
                     (heap st r)
      else heap st x)"
  "sessions_by_group (close_managed r now st) = sessions_by_group st"
  "sessions_by_id (close_managed r now st) = sessions_by_id st"
  "next_ref (close_managed r now st) = next_ref st"
  "service_max_bytes (close_managed r now st) = service_max_bytes st"
  "next_timer (close_managed r now st) = next_timer st"
  "queues (close_managed r now st) = queues st"
  "timers (close_managed r now st) = timers (cancel_reconnect_task r st)"
  by (auto simp: close_managed_def Let_def map_option.compositionality comp_def split: option.splits)

lemma history_ok_frame [simp]:
  "history_ok mb (m\<lparr>managed_record := rec'\<rparr>) = history_ok mb m"
  "history_ok mb (m\<lparr>bridge := b\<rparr>) = history_ok mb m"
  "history_ok mb (m\<lparr>output_queue := q\<rparr>) = history_ok mb m"
  "history_ok mb (m\<lparr>reconnect_task := t\<rparr>) = history_ok mb m"
  "history_ok mb (set_status s m) = history_ok mb m"
  by (simp_all add: history_ok_def)

section \<open>The invariant\<close>

text \<open>What no operation changes of a session.\<close>

definition ident :: "managed_session \<Rightarrow> string \<times> string \<times> string \<times> string \<times> terminal_backend_name \<times> instant" where
  "ident m =
     (let r = managed_record m in
      (session_id r, group_id r, group_folder r, owner_user_id r, backend r, created_at r))"

definition index_ok :: "terminal_service \<Rightarrow> bool" where
  "index_ok st \<longleftrightarrow>
     dict_ok (sessions_by_group st) \<and> dict_ok (sessions_by_id st) \<and>
     (\<forall>g r. dict_get (sessions_by_group st) g = Some r \<longrightarrow>
        (\<exists>m. heap st r = Some m \<and> group_folder (managed_record m) = g \<and>
             dict_get (sessions_by_id st) (session_id (managed_record m)) = Some r)) \<and>
     (\<forall>s r. dict_get (sessions_by_id st) s = Some r \<longrightarrow>
        (\<exists>m. heap st r = Some m \<and> session_id (managed_record m) = s \<and>
             dict_get (sessions_by_group st) (group_folder (managed_record m)) = Some r))"

lemma index_okD:
  assumes "index_ok st"
  shows "dict_get (sessions_by_group st) g = Some r \<Longrightarrow>
      \<exists>m. heap st r = Some m \<and> group_folder (managed_record m) = g \<and>
          dict_get (sessions_by_id st) (session_id (managed_record m)) = Some r"
    and "dict_get (sessions_by_id st) s = Some r \<Longrightarrow>
      \<exists>m. heap st r = Some m \<and> session_id (managed_record m) = s \<and>
          dict_get (sessions_by_group st) (group_folder (managed_record m)) = Some r"
  using assms unfolding index_ok_def by blast+

definition heap_ok :: "terminal_service \<Rightarrow> bool" where
  "heap_ok st \<longleftrightarrow> 0 \<le> service_max_bytes st \<and>
     (\<forall>r m. heap st r = Some m \<longrightarrow> r < next_ref st \<and> history_ok (service_max_bytes st) m)"

definition timers_ok :: "terminal_service \<Rightarrow> bool" where
  "timers_ok st \<longleftrightarrow>
     (\<forall>t. timers st t \<noteq> None \<longrightarrow> t < next_timer st) \<and>
     (\<forall>r m t. heap st r = Some m \<longrightarrow> reconnect_task m = Some t \<longrightarrow> t < next_timer st) \<and>
     (\<forall>r r' m m' t. heap st r = Some m \<longrightarrow> heap st r' = Some m' \<longrightarrow>
        reconnect_task m = Some t \<longrightarrow> reconnect_task m' = Some t \<longrightarrow> r = r') \<and>
     (\<forall>r m d. heap st r = Some m \<longrightarrow> reconnect_deadline (managed_record m) = Some d \<longrightarrow>
        status (managed_record m) = Detached \<and>
        dict_get (sessions_by_id st) (session_id (managed_record m)) = Some r \<and>
        (\<exists>t. reconnect_task m = Some t \<and>
             timers st t = Some \<lparr>timer_session = session_id (managed_record m),
                                 timer_deadline = d, timer_phase = Sleeping\<rparr>))"

definition service_ok :: "terminal_service \<Rightarrow> bool" where
  "service_ok st \<longleftrightarrow> index_ok st \<and> heap_ok st \<and> timers_ok st"

subsection \<open>Steps that keep every session's identity keep the index\<close>

definition same_sessions :: "terminal_service \<Rightarrow> terminal_service \<Rightarrow> bool" where
  "same_sessions st st' \<longleftrightarrow>
     sessions_by_group st' = sessions_by_group st \<and> sessions_by_id st' = sessions_by_id st \<and>
     (\<forall>r. map_option ident (heap st' r) = map_option ident (heap st r))"

lemma same_sessions_refl [simp]: "same_sessions st st"
  by (simp add: same_sessions_def)

lemma same_sessions_heap:
  assumes "same_sessions st st'" "heap st r = Some m"
  shows "\<exists>m'. heap st' r = Some m' \<and> ident m' = ident m"
  using assms by (auto simp: same_sessions_def dest: spec [of _ r])

lemma index_ok_same_sessions:
  assumes "same_sessions st st'" "index_ok st"
  shows "index_ok st'"
proof -
  have keys: "\<exists>m'. heap st' r = Some m' \<and>
      group_folder (managed_record m') = group_folder (managed_record m) \<and>
      session_id (managed_record m') = session_id (managed_record m)" if "heap st r = Some m" for r m
    using same_sessions_heap [OF assms(1) that] by (auto simp: ident_def Let_def)
  have dicts: "sessions_by_group st' = sessions_by_group st" "sessions_by_id st' = sessions_by_id st"
    using assms(1) by (simp_all add: same_sessions_def)
  show ?thesis
    using assms(2) unfolding index_ok_def dicts by (metis keys)
qed

subsection \<open>Reconnect tasks\<close>

lemma timers_okI:
  assumes "\<And>t. timers st t \<noteq> None \<Longrightarrow> t < next_timer st"
    and "\<And>r m t. heap st r = Some m \<Longrightarrow> reconnect_task m = Some t \<Longrightarrow> t < next_timer st"
    and "\<And>r r' m m' t. heap st r = Some m \<Longrightarrow> heap st r' = Some m' \<Longrightarrow>
      reconnect_task m = Some t \<Longrightarrow> reconnect_task m' = Some t \<Longrightarrow> r = r'"
    and "\<And>r m d. heap st r = Some m \<Longrightarrow> reconnect_deadline (managed_record m) = Some d \<Longrightarrow>
      status (managed_record m) = Detached \<and>
      dict_get (sessions_by_id st) (session_id (managed_record m)) = Some r \<and>
      (\<exists>t. reconnect_task m = Some t \<and>
           timers st t = Some \<lparr>timer_session = session_id (managed_record m),
                               timer_deadline = d, timer_phase = Sleeping\<rparr>)"
  shows "timers_ok st"
  using assms unfolding timers_ok_def by blast

lemma timers_okD:
  assumes "timers_ok st"
  shows "timers st t \<noteq> None \<Longrightarrow> t < next_timer st"
    and "heap st r = Some m \<Longrightarrow> reconnect_task m = Some t \<Longrightarrow> t < next_timer st"
    and "heap st r = Some m \<Longrightarrow> heap st r' = Some m' \<Longrightarrow>
      reconnect_task m = Some t \<Longrightarrow> reconnect_task m' = Some t \<Longrightarrow> r = r'"
    and "heap st r = Some m \<Longrightarrow> reconnect_deadline (managed_record m) = Some d \<Longrightarrow>
      status (managed_record m) = Detached \<and>
      dict_get (sessions_by_id st) (session_id (managed_record m)) = Some r \<and>
      (\<exists>t. reconnect_task m = Some t \<and>
           timers st t = Some \<lparr>timer_session = session_id (managed_record m),
                               timer_deadline = d, timer_phase = Sleeping\<rparr>)"
  using assms unfolding timers_ok_def by blast+

text \<open>
  A step that touches one session \<open>r\<close>, leaves it without a deadline and without a task of another
  session, and leaves the tasks of the other sessions alone.
\<close>

lemma timers_ok_one:
  assumes ok: "timers_ok st"
    and heap': "\<And>x. x \<noteq> r \<Longrightarrow> heap st' x = heap st x"
    and at_r: "\<And>m'. heap st' r = Some m' \<Longrightarrow>
      reconnect_deadline (managed_record m') = None \<and>
      (reconnect_task m' = None \<or> (\<exists>m. heap st r = Some m \<and> reconnect_task m' = reconnect_task m))"
    and timers': "\<And>t. timers st' t \<noteq> None \<Longrightarrow> timers st t \<noteq> None"
    and others: "\<And>x m t. x \<noteq> r \<Longrightarrow> heap st x = Some m \<Longrightarrow> reconnect_task m = Some t \<Longrightarrow>
      reconnect_deadline (managed_record m) \<noteq> None \<Longrightarrow> timers st' t = timers st t"
    and same: "sessions_by_id st' = sessions_by_id st" "next_timer st' = next_timer st"
  shows "timers_ok st'"
proof (rule timers_okI)
  note D = timers_okD [OF ok]
  have pre: "\<exists>m. heap st x = Some m \<and> reconnect_task m = Some t"
    if "heap st' x = Some m'" "reconnect_task m' = Some t" for x m' t
    using that at_r heap' by (cases "x = r") auto
  show "t < next_timer st'" if "timers st' t \<noteq> None" for t
    using that timers' D(1) same by auto
  show "t < next_timer st'" if "heap st' x = Some m" "reconnect_task m = Some t" for x m t
    using pre [OF that] D(2) same by auto
  show "x = y" if "heap st' x = Some m" "heap st' y = Some m'"
    "reconnect_task m = Some t" "reconnect_task m' = Some t" for x y m m' t
    using pre [OF that(1,3)] pre [OF that(2,4)] D(3) by blast
  fix x m d
  assume m: "heap st' x = Some m" "reconnect_deadline (managed_record m) = Some d"
  then have "x \<noteq> r" using at_r by auto
  with m heap' have "heap st x = Some m" by simp
  from D(4) [OF this m(2)] others [OF \<open>x \<noteq> r\<close> this] m(2) same
  show "status (managed_record m) = Detached \<and>
      dict_get (sessions_by_id st') (session_id (managed_record m)) = Some x \<and>
      (\<exists>t. reconnect_task m = Some t \<and>
           timers st' t = Some \<lparr>timer_session = session_id (managed_record m),
                                timer_deadline = d, timer_phase = Sleeping\<rparr>)"
    by auto
qed

lemma timers_cancel_other:
  assumes "timers_ok st" "heap st x = Some m" "x \<noteq> r" "reconnect_task m = Some t"
  shows "timers (cancel_reconnect_task r st) t = timers st t"
proof (cases "Option.bind (heap st r) reconnect_task")
  case (Some t')
  then obtain m' where "heap st r = Some m'" "reconnect_task m' = Some t'"
    by (auto simp: bind_eq_Some_conv)
  with timers_okD(3) [OF assms(1,2) _ assms(4)] assms(3) have "t \<noteq> t'" by blast
  with Some show ?thesis by (simp add: cancel_reconnect_task_timers)
qed (simp add: cancel_reconnect_task_timers)

lemma timers_cancel_subset:
  "timers (cancel_reconnect_task r st) t \<noteq> None \<Longrightarrow> timers st t \<noteq> None"
  by (auto simp: cancel_reconnect_task_timers split: option.splits if_splits)

text \<open>Cancelling a session's task and leaving it without a deadline.\<close>

lemma timers_ok_cancel:
  assumes "timers_ok st"
    and "\<And>x. x \<noteq> r \<Longrightarrow> heap st' x = heap st x"
    and "\<And>m'. heap st' r = Some m' \<Longrightarrow>
      reconnect_deadline (managed_record m') = None \<and> reconnect_task m' = None"
    and "timers st' = timers (cancel_reconnect_task r st)"
    and "sessions_by_id st' = sessions_by_id st" "next_timer st' = next_timer st"
  shows "timers_ok st'"
  using assms(1,2)
proof (rule timers_ok_one)
  show "timers st t \<noteq> None" if "timers st' t \<noteq> None" for t
    using that assms(4) timers_cancel_subset by metis
  show "timers st' t = timers st t"
    if "x \<noteq> r" "heap st x = Some m" "reconnect_task m = Some t" for x m t
    using that assms(1,4) timers_cancel_other by metis
qed (use assms in auto)

section \<open>Every step keeps the invariant\<close>

lemma service_ok_one:
  assumes ok: "service_ok st" and present: "heap st r = Some m"
    and heap': "heap st' = (heap st)(r \<mapsto> m')"
    and m': "ident m' = ident m" "history_ok (service_max_bytes st) m'"
    and same: "sessions_by_group st' = sessions_by_group st" "sessions_by_id st' = sessions_by_id st"
      "next_ref st' = next_ref st" "service_max_bytes st' = service_max_bytes st"
    and timers: "timers_ok st'"
  shows "service_ok st'"
proof -
  have "same_sessions st st'" using present heap' m' same by (auto simp: same_sessions_def)
  with ok have "index_ok st'" by (auto simp: service_ok_def intro: index_ok_same_sessions)
  moreover have "heap_ok st'" using ok present heap' m' same by (auto simp: service_ok_def heap_ok_def)
  ultimately show ?thesis using timers by (simp add: service_ok_def)
qed

text \<open>Steps that only touch queues, writes, the log or the persisted files.\<close>

lemma service_ok_cong:
  assumes "service_ok st" "heap st' = heap st" "sessions_by_group st' = sessions_by_group st"
    "sessions_by_id st' = sessions_by_id st" "next_ref st' = next_ref st"
    "service_max_bytes st' = service_max_bytes st" "timers st' = timers st"
    "next_timer st' = next_timer st"
  shows "service_ok st'"
  using assms(1) unfolding service_ok_def index_ok_def heap_ok_def timers_ok_def assms(2-8) .

lemma require_ownedD:
  "require_owned st sid owner = Inr (r, m) \<Longrightarrow>
   dict_get (sessions_by_id st) sid = Some r \<and> heap st r = Some m \<and>
   owner_user_id (managed_record m) = owner"
  by (auto simp: require_owned_def require_session_def require_owner_def lookup_id_def
      split: option.splits sum.splits if_splits)

lemma lookup_idD:
  "lookup_id st sid = Some (r, m) \<Longrightarrow> dict_get (sessions_by_id st) sid = Some r \<and> heap st r = Some m"
  by (auto simp: lookup_id_def split: option.splits)

lemma lookup_groupD:
  "lookup_group st g = Some (r, m) \<Longrightarrow> dict_get (sessions_by_group st) g = Some r \<and> heap st r = Some m"
  by (auto simp: lookup_group_def split: option.splits)

lemma ident_simps [simp]:
  "ident (m\<lparr>managed_record := (managed_record m)\<lparr>status := s, reconnect_deadline := d\<rparr>\<rparr>) = ident m"
  "ident (m\<lparr>bridge := b\<rparr>) = ident m" "ident (m\<lparr>output_queue := q\<rparr>) = ident m"
  "ident (m\<lparr>reconnect_task := t\<rparr>) = ident m" "ident (set_status s m) = ident m"
  "ident (append_output_history mb m c) = ident m"
  by (simp_all add: ident_def Let_def)

lemma close_managed_ok:
  assumes "service_ok st" "heap st r = Some m"
  shows "service_ok (close_managed r now st)"
proof (rule service_ok_one [OF assms])
  show "heap (close_managed r now st) =
      (heap st)(r \<mapsto> set_status Closed (m\<lparr>reconnect_task := None, output_queue := None\<rparr>))"
    by (rule ext) (simp add: assms(2))
  show "timers_ok (close_managed r now st)"
  proof (rule timers_ok_cancel)
    show "timers_ok st" using assms by (simp add: service_ok_def)
  qed (use assms in auto)
qed (use assms in \<open>auto simp: service_ok_def heap_ok_def\<close>)

lemma close_session_ok: "service_ok st \<Longrightarrow> service_ok (snd (close_session st sid owner now))"
  by (auto simp: close_session_def Let_def close_managed_ok dest: require_ownedD
      split: sum.splits)

lemma close_session_by_group_ok:
  "service_ok st \<Longrightarrow> service_ok (snd (close_session_by_group st folder owner now))"
  by (auto simp: close_session_by_group_def close_session_ok split: option.splits sum.splits)

lemma force_close_ok:
  "service_ok st \<Longrightarrow> service_ok (snd (force_close_session_by_group st folder now))"
  by (auto simp: force_close_session_by_group_def Let_def close_managed_ok dest: lookup_groupD
      split: option.splits)

lemma detach_session_ok:
  assumes "service_ok st"
  shows "service_ok (snd (detach_session st sid owner now))"
proof (cases "require_owned st sid owner")
  case (Inl e)
  with assms show ?thesis by (simp add: detach_session_def)
next
  case (Inr rm)
  obtain r m where rm: "rm = (r, m)" by (cases rm)
  note own = require_ownedD [OF Inr [unfolded rm]]
  let ?st' = "snd (detach_session st sid owner now)"
  let ?d = "now + reconnect_timeout st" and ?t = "next_timer st"
  let ?rec = "(managed_record m)\<lparr>status := Detached, reconnect_deadline := Some ?d\<rparr>"
  let ?m' = "m\<lparr>output_queue := None, managed_record := ?rec, reconnect_task := Some ?t\<rparr>"
  have heap': "heap ?st' = (heap st)(r \<mapsto> ?m')"
    by (rule ext) (simp add: detach_session_def Inr rm Let_def own)
  have timers': "timers ?st' = (timers (cancel_reconnect_task r st))
      (?t \<mapsto> \<lparr>timer_session = sid, timer_deadline = ?d, timer_phase = Sleeping\<rparr>)"
    by (simp add: detach_session_def Inr rm Let_def cancel_reconnect_task_timers own
        split: option.split)
  have same: "sessions_by_group ?st' = sessions_by_group st" "sessions_by_id ?st' = sessions_by_id st"
    "next_ref ?st' = next_ref st" "service_max_bytes ?st' = service_max_bytes st"
    "next_timer ?st' = Suc ?t"
    by (simp_all add: detach_session_def Inr rm Let_def)
  have ok: "timers_ok st" "heap_ok st" and "index_ok st" using assms by (simp_all add: service_ok_def)
  then have sid: "session_id (managed_record m) = sid" using own index_okD(2) [of st sid r] by auto
  note D = timers_okD [OF ok(1)]
  have "timers_ok ?st'"
  proof (rule timers_okI, unfold heap' same)
    show "t < Suc ?t" if "timers ?st' t \<noteq> None" for t
      using that D(1) timers_cancel_subset by (auto simp: timers' less_Suc_eq split: if_splits)
    show "t < Suc ?t" if "((heap st)(r \<mapsto> ?m')) x = Some n" "reconnect_task n = Some t" for x n t
      using that D(2) by (auto simp: less_Suc_eq split: if_splits)
    show "x = y" if "((heap st)(r \<mapsto> ?m')) x = Some n" "((heap st)(r \<mapsto> ?m')) y = Some n'"
      "reconnect_task n = Some t" "reconnect_task n' = Some t" for x y n n' t
      using that D(2,3) by (fastforce split: if_splits)
    fix x n d
    assume n: "((heap st)(r \<mapsto> ?m')) x = Some n" "reconnect_deadline (managed_record n) = Some d"
    show "status (managed_record n) = Detached \<and>
        dict_get (sessions_by_id st) (session_id (managed_record n)) = Some x \<and>
        (\<exists>t. reconnect_task n = Some t \<and>
             timers ?st' t = Some \<lparr>timer_session = session_id (managed_record n),
                                   timer_deadline = d, timer_phase = Sleeping\<rparr>)"
    proof (cases "x = r")
      case True
      with n own sid show ?thesis by (auto simp: timers')
    next
      case False
      with n have nx: "heap st x = Some n" by simp
      obtain t where t: "reconnect_task n = Some t" using D(4) [OF nx n(2)] by blast
      have "timers ?st' t = timers st t"
        using timers_cancel_other [OF ok(1) nx False t] D(2) [OF nx t] by (simp add: timers')
      with D(4) [OF nx n(2)] t show ?thesis by auto
    qed
  qed
  then show ?thesis
    using own ok heap' same
    by (intro service_ok_one [OF assms, of r m "?st'" ?m']) (auto simp: heap_ok_def ident_def Let_def)
qed

lemma attach_begin_ok:
  assumes "service_ok st"
  shows "service_ok (snd (attach_begin st sid owner now factory))"
proof (cases "require_owned st sid owner")
  case (Inl e)
  with assms show ?thesis by (simp add: attach_begin_def)
next
  case (Inr rm)
  obtain r m where rm: "rm = (r, m)" by (cases rm)
  note own = require_ownedD [OF Inr [unfolded rm]]
  let ?st' = "snd (attach_begin st sid owner now factory)"
  let ?m = "m\<lparr>reconnect_task := None, output_queue := Some (next_queue st),
      managed_record := (managed_record m)\<lparr>status := Attached, last_attached_at := Some now,
        reconnect_deadline := None\<rparr>\<rparr>"
  have "\<exists>m'. heap ?st' = (heap st)(r \<mapsto> m') \<and> ident m' = ident m \<and>
      history_ok (service_max_bytes st) m' = history_ok (service_max_bytes st) m \<and>
      reconnect_task m' = None \<and> reconnect_deadline (managed_record m') = None"
  proof (cases "bridge m = None \<and> factory \<noteq> None")
    case True
    then obtain container where f: "bridge m = None" "factory = Some container" by auto
    have "heap ?st' = (heap st)(r \<mapsto> ?m\<lparr>bridge := Some (next_bridge st),
        managed_record := (managed_record ?m)\<lparr>container_name :=
          (case container of None \<Rightarrow> container_name (managed_record m) | Some c \<Rightarrow> Some c)\<rparr>\<rparr>)"
      by (rule ext) (simp add: attach_begin_def Inr rm Let_def own f split: option.split)
    then show ?thesis by (auto simp: ident_def Let_def)
  next
    case False
    then have "heap ?st' = (heap st)(r \<mapsto> ?m)"
      by (intro ext) (auto simp: attach_begin_def Inr rm Let_def own split: option.split)
    then show ?thesis by (auto simp: ident_def Let_def)
  qed
  then obtain m' where m': "heap ?st' = (heap st)(r \<mapsto> m')" "ident m' = ident m"
    "history_ok (service_max_bytes st) m' = history_ok (service_max_bytes st) m"
    "reconnect_task m' = None" "reconnect_deadline (managed_record m') = None" by blast
  have same: "sessions_by_group ?st' = sessions_by_group st" "sessions_by_id ?st' = sessions_by_id st"
    "next_ref ?st' = next_ref st" "service_max_bytes ?st' = service_max_bytes st"
    "next_timer ?st' = next_timer st" "timers ?st' = timers (cancel_reconnect_task r st)"
    by (simp_all add: attach_begin_def Inr rm Let_def cancel_reconnect_task_timers
        split: option.split)
  have "timers_ok ?st'"
  proof (rule timers_ok_cancel)
    show "timers_ok st" using assms by (simp add: service_ok_def)
  qed (use m' same in auto)
  then show ?thesis
    using own m' same assms
    by (intro service_ok_one [OF assms, of r m "?st'" m']) (auto simp: service_ok_def heap_ok_def)
qed

lemma attach_failed_ok:
  assumes "service_ok st"
  shows "service_ok (attach_failed st sid now)"
proof (cases "lookup_id st sid")
  case None
  with assms show ?thesis by (simp add: attach_failed_def)
next
  case (Some rm)
  obtain r m where rm: "rm = (r, m)" by (cases rm)
  note at = lookup_idD [OF Some [unfolded rm]]
  let ?st' = "attach_failed st sid now"
  let ?m' = "set_status Closed (m\<lparr>bridge := None, output_queue := None\<rparr>)"
  have heap': "heap ?st' = (heap st)(r \<mapsto> ?m')"
    by (rule ext) (simp add: attach_failed_def Some rm at)
  have same: "sessions_by_group ?st' = sessions_by_group st" "sessions_by_id ?st' = sessions_by_id st"
    "next_ref ?st' = next_ref st" "service_max_bytes ?st' = service_max_bytes st"
    "next_timer ?st' = next_timer st" "timers ?st' = timers st"
    by (simp_all add: attach_failed_def Some rm)
  have "timers_ok ?st'"
  proof (rule timers_ok_one)
    show "timers_ok st" using assms by (simp add: service_ok_def)
  qed (use heap' same at in auto)
  then show ?thesis
    using at heap' same assms
    by (intro service_ok_one [OF assms, of r m "?st'" ?m']) (auto simp: service_ok_def heap_ok_def)
qed

lemma bridge_event_locked_ok:
  assumes "service_ok st"
  shows "service_ok (fst (bridge_event_locked st sid event now))"
proof (cases "lookup_id st sid")
  case None
  with assms show ?thesis by (simp add: bridge_event_locked_def)
next
  case (Some rm)
  obtain r m where rm: "rm = (r, m)" by (cases rm)
  note at = lookup_idD [OF Some [unfolded rm]]
  have ok: "timers_ok st" "heap_ok st" using assms by (simp_all add: service_ok_def)
  show ?thesis
  proof (cases "bridge_event_type event = ''output'' \<and> bridge_event_data event \<noteq> None")
    case True
    then obtain chunk where c: "bridge_event_type event = ''output''"
      "bridge_event_data event = Some chunk" by auto
    let ?st' = "fst (bridge_event_locked st sid event now)"
    let ?m' = "append_output_history (service_max_bytes st) m chunk"
    have heap': "heap ?st' = (heap st)(r \<mapsto> ?m')"
      by (rule ext) (simp add: bridge_event_locked_def Some rm at c)
    have same: "sessions_by_group ?st' = sessions_by_group st"
      "sessions_by_id ?st' = sessions_by_id st" "next_ref ?st' = next_ref st"
      "service_max_bytes ?st' = service_max_bytes st" "next_timer ?st' = next_timer st"
      "timers ?st' = timers st"
      by (simp_all add: bridge_event_locked_def Some rm c)
    note D = timers_okD [OF ok(1)]
    have pre: "\<exists>n0. heap st x = Some n0 \<and> reconnect_task n0 = reconnect_task n \<and>
        managed_record n0 = managed_record n" if "heap ?st' x = Some n" for x n
      using that at by (auto simp: heap' split: if_splits)
    have "timers_ok ?st'"
    proof (rule timers_okI, unfold same)
      show "x = y" if "heap ?st' x = Some n" "heap ?st' y = Some n'"
        "reconnect_task n = Some t" "reconnect_task n' = Some t" for x y n n' t
        using pre [OF that(1)] pre [OF that(2)] that(3,4) D(3) by metis
    qed (use D pre in \<open>(metis)+\<close>)
    then show ?thesis
      using at heap' same ok append_output_history_ok
      by (intro service_ok_one [OF assms, of r m "?st'" ?m']) (auto simp: heap_ok_def)
  next
    case not_output: False
    show ?thesis
    proof (cases "bridge_event_type event = ''exit''")
      case True
      let ?st' = "fst (bridge_event_locked st sid event now)"
      let ?m' = "set_status Exited (m\<lparr>reconnect_task := None\<rparr>)"
      have heap': "heap ?st' = (heap st)(r \<mapsto> ?m')"
        by (rule ext) (simp add: bridge_event_locked_def Some rm at True)
      have same: "sessions_by_group ?st' = sessions_by_group st"
        "sessions_by_id ?st' = sessions_by_id st" "next_ref ?st' = next_ref st"
        "service_max_bytes ?st' = service_max_bytes st" "next_timer ?st' = next_timer st"
        "timers ?st' = timers (cancel_reconnect_task r st)"
        by (simp_all add: bridge_event_locked_def Some rm True)
      have "timers_ok ?st'" by (rule timers_ok_cancel [OF ok(1)]) (use heap' same in auto)
      then show ?thesis
        using at heap' same ok
        by (intro service_ok_one [OF assms, of r m "?st'" ?m']) (auto simp: heap_ok_def)
    next
      case False
      then have "fst (bridge_event_locked st sid event now) = st"
        using not_output by (auto simp: bridge_event_locked_def Some rm split: option.splits)
      with assms show ?thesis by simp
    qed
  qed
qed

subsection \<open>Expiry\<close>

lemma timers_ok_drop:
  assumes "timers_ok st"
    and "\<And>r m. heap st r = Some m \<Longrightarrow> reconnect_deadline (managed_record m) \<noteq> None \<Longrightarrow>
      reconnect_task m \<noteq> Some t"
    and "heap st' = heap st" "timers st' = (timers st)(t := None)"
    and "sessions_by_id st' = sessions_by_id st" "next_timer st' = next_timer st"
  shows "timers_ok st'"
proof (rule timers_okI, unfold assms(3,5,6))
  note D = timers_okD [OF assms(1)]
  show "u < next_timer st" if "timers st' u \<noteq> None" for u
    using that D(1) assms(4) by (auto split: if_splits)
  show "status (managed_record m) = Detached \<and>
      dict_get (sessions_by_id st) (session_id (managed_record m)) = Some x \<and>
      (\<exists>u. reconnect_task m = Some u \<and>
           timers st' u = Some \<lparr>timer_session = session_id (managed_record m),
                                timer_deadline = d, timer_phase = Sleeping\<rparr>)"
    if "heap st x = Some m" "reconnect_deadline (managed_record m) = Some d" for x m d
    using D(4) [OF that] assms(2) [OF that(1)] that(2) assms(4) by auto
qed (use timers_okD [OF assms(1)] in metis)+

text \<open>The session that waits for a task is the one the task finds.\<close>

lemma timer_session_found:
  assumes "timers_ok st" "timers st t = Some timer"
    and "heap st x = Some m" "reconnect_deadline (managed_record m) = Some d"
    and "reconnect_task m = Some t"
  shows "lookup_id st (timer_session timer) = Some (x, m) \<and> timer_phase timer = Sleeping \<and>
    status (managed_record m) = Detached \<and> timer_deadline timer = d"
proof -
  from timers_okD(4) [OF assms(1,3,4)] assms(2,5)
  have "timer = \<lparr>timer_session = session_id (managed_record m), timer_deadline = d, timer_phase = Sleeping\<rparr>"
    "status (managed_record m) = Detached"
    "dict_get (sessions_by_id st) (session_id (managed_record m)) = Some x" by auto
  with assms(3) show ?thesis by (simp add: lookup_id_def)
qed

lemma service_ok_drop_timer:
  assumes ok: "service_ok st"
    and "\<And>r m. heap st r = Some m \<Longrightarrow> reconnect_deadline (managed_record m) \<noteq> None \<Longrightarrow>
      reconnect_task m \<noteq> Some t"
    and "heap st' = heap st" "timers st' = (timers st)(t := None)"
    and "sessions_by_group st' = sessions_by_group st" "sessions_by_id st' = sessions_by_id st"
    and "next_ref st' = next_ref st" "service_max_bytes st' = service_max_bytes st"
    and "next_timer st' = next_timer st"
  shows "service_ok st'"
proof -
  have "timers_ok st'"
    by (rule timers_ok_drop [of st t]) (use assms in \<open>auto simp: service_ok_def\<close>)
  with ok show ?thesis
    unfolding service_ok_def index_ok_def heap_ok_def assms(3,5-8) by blast
qed

lemma expire_fire_ok:
  assumes "service_ok st"
  shows "service_ok (expire_fire st t now)"
proof (cases "timers st t")
  case None
  with assms show ?thesis by (simp add: expire_fire_def)
next
  case (Some timer)
  have ok: "timers_ok st" "heap_ok st" using assms by (simp_all add: service_ok_def)
  note found = timer_session_found [OF ok(1) Some]
  show ?thesis
  proof (cases "timer_phase timer = Sleeping \<and> (\<exists>r m. lookup_id st (timer_session timer) = Some (r, m) \<and>
      status (managed_record m) = Detached \<and>
      reconnect_deadline (managed_record m) = Some (timer_deadline timer))")
    case False
    show ?thesis
    proof (cases "timer_phase timer")
      case Sleeping
      with False Some have eq: "expire_fire st t now = st\<lparr>timers := (timers st)(t := None)\<rparr>"
        by (auto simp: expire_fire_def Let_def split: option.split)
      have "reconnect_task m \<noteq> Some t"
        if "heap st r = Some m" "reconnect_deadline (managed_record m) \<noteq> None" for r m
        using found that False by fastforce
      then show ?thesis unfolding eq by (rule service_ok_drop_timer [OF assms]) auto
    qed (use Some assms in \<open>simp add: expire_fire_def\<close>)
  next
    case True
    then obtain r m where phase: "timer_phase timer = Sleeping"
      and look: "lookup_id st (timer_session timer) = Some (r, m)"
      and m: "status (managed_record m) = Detached"
        "reconnect_deadline (managed_record m) = Some (timer_deadline timer)" by blast
    let ?st' = "expire_fire st t now"
    have facts: "heap ?st' = (heap st)(r \<mapsto> set_status Closed m)"
      "sessions_by_group ?st' = sessions_by_group st" "sessions_by_id ?st' = sessions_by_id st"
      "next_ref ?st' = next_ref st" "service_max_bytes ?st' = service_max_bytes st"
      "next_timer ?st' = next_timer st"
      "\<And>u. timers ?st' u \<noteq> None \<Longrightarrow> timers st u \<noteq> None" "\<And>u. u \<noteq> t \<Longrightarrow> timers ?st' u = timers st u"
      by (auto simp: expire_fire_def Some phase look m Let_def split: option.splits if_splits)
    have at: "heap st r = Some m" using lookup_idD [OF look] by simp
    have "timers_ok ?st'"
    proof (rule timers_ok_one [OF ok(1), of r])
      show "timers ?st' u = timers st u" if "x \<noteq> r" "heap st x = Some n" "reconnect_task n = Some u"
        "reconnect_deadline (managed_record n) \<noteq> None" for x n u
        using that found [of x n] look facts(8) by fastforce
    qed (use facts at in auto)
    then show ?thesis
      using at facts ok
      by (intro service_ok_one [OF assms, of r m "?st'" "set_status Closed m"]) (auto simp: heap_ok_def)
  qed
qed

lemma expire_finish_ok:
  assumes "service_ok st"
  shows "service_ok (expire_finish st t)"
proof (cases "\<exists>timer snapshot. timers st t = Some timer \<and> timer_phase timer = Closing_bridge snapshot")
  case True
  then obtain timer snapshot where t: "timers st t = Some timer" "timer_phase timer = Closing_bridge snapshot"
    by blast
  have "reconnect_task m \<noteq> Some t"
    if "heap st r = Some m" "reconnect_deadline (managed_record m) \<noteq> None" for r m
    using timer_session_found [OF _ t(1), of r m] assms that t(2) by (auto simp: service_ok_def)
  then show ?thesis
    by (rule service_ok_drop_timer [OF assms]) (auto simp: expire_finish_def t)
next
  case False
  then have "expire_finish st t = st"
    by (auto simp: expire_finish_def split: option.split reconnect_phase.split)
  with assms show ?thesis by simp
qed

subsection \<open>New sessions\<close>

lemma service_ok_insert:
  assumes ok: "service_ok st"
    and fresh: "dict_get (sessions_by_group st) (group_folder (managed_record m)) = None"
      "dict_get (sessions_by_id st) (session_id (managed_record m)) = None"
    and m: "history_ok (service_max_bytes st) m" "reconnect_task m = None"
      "reconnect_deadline (managed_record m) = None"
    and heap': "heap st' = (heap st)(next_ref st \<mapsto> m)" "next_ref st' = Suc (next_ref st)"
    and dicts: "sessions_by_group st' = dict_set (group_folder (managed_record m)) (next_ref st) (sessions_by_group st)"
      "sessions_by_id st' = dict_set (session_id (managed_record m)) (next_ref st) (sessions_by_id st)"
    and same: "service_max_bytes st' = service_max_bytes st" "timers st' = timers st"
      "next_timer st' = next_timer st"
  shows "service_ok st'"
proof -
  let ?r = "next_ref st"
  have parts: "index_ok st" "heap_ok st" "timers_ok st" using ok by (simp_all add: service_ok_def)
  have new: "heap st ?r = None" using parts(2) by (metis heap_ok_def less_irrefl option.exhaust)
  have old: "x \<noteq> ?r" if "heap st x = Some n" for x n using that new by auto
  note I = index_okD [OF parts(1)]
  have "index_ok st'"
    unfolding index_ok_def heap' dicts dict_get_set fun_upd_apply
  proof (intro conjI allI impI)
    show "dict_ok (dict_set (group_folder (managed_record m)) ?r (sessions_by_group st))"
      "dict_ok (dict_set (session_id (managed_record m)) ?r (sessions_by_id st))"
      using parts(1) by (simp_all add: index_ok_def)
  next
    fix g x
    assume "(if g = group_folder (managed_record m) then Some ?r else dict_get (sessions_by_group st) g) = Some x"
    then show "\<exists>n. (if x = ?r then Some m else heap st x) = Some n \<and> group_folder (managed_record n) = g \<and>
        (if session_id (managed_record n) = session_id (managed_record m) then Some ?r
         else dict_get (sessions_by_id st) (session_id (managed_record n))) = Some x"
      using I(1) [of g x] old fresh by (fastforce split: if_splits)
  next
    fix g x
    assume "(if g = session_id (managed_record m) then Some ?r else dict_get (sessions_by_id st) g) = Some x"
    then show "\<exists>n. (if x = ?r then Some m else heap st x) = Some n \<and> session_id (managed_record n) = g \<and>
        (if group_folder (managed_record n) = group_folder (managed_record m) then Some ?r
         else dict_get (sessions_by_group st) (group_folder (managed_record n))) = Some x"
      using I(2) [of g x] old fresh by (fastforce split: if_splits)
  qed
  moreover have "heap_ok st'"
    using parts(2) m by (auto simp: heap_ok_def heap' same less_Suc_eq)
  moreover have "timers_ok st'"
  proof (rule timers_okI, unfold heap' same dicts dict_get_set fun_upd_apply)
    note D = timers_okD [OF parts(3)]
    show "t < next_timer st" if "timers st t \<noteq> None" for t using that D(1) by simp
    show "t < next_timer st" if "(if x = ?r then Some m else heap st x) = Some n" "reconnect_task n = Some t" for x n t
      using that D(2) m by (auto split: if_splits)
    show "x = y" if "(if x = ?r then Some m else heap st x) = Some n" "(if y = ?r then Some m else heap st y) = Some n'"
      "reconnect_task n = Some t" "reconnect_task n' = Some t" for x y n n' t
      using that D(3) m by (fastforce split: if_splits)
    show "status (managed_record n) = Detached \<and>
        (if session_id (managed_record n) = session_id (managed_record m) then Some ?r
         else dict_get (sessions_by_id st) (session_id (managed_record n))) = Some x \<and>
        (\<exists>t. reconnect_task n = Some t \<and>
             timers st t = Some \<lparr>timer_session = session_id (managed_record n),
                                 timer_deadline = d, timer_phase = Sleeping\<rparr>)"
      if "(if x = ?r then Some m else heap st x) = Some n" "reconnect_deadline (managed_record n) = Some d" for x n d
      using that D(4) [of x n d] m fresh by (auto split: if_splits)
  qed
  ultimately show ?thesis by (simp add: service_ok_def)
qed

lemma drop_session_ok:
  assumes ok: "service_ok st" and at: "lookup_group st folder = Some (r, m)"
    and dead: "status (managed_record m) \<in> {Closed, Exited}"
  shows "service_ok (drop_session r st) \<and>
    dict_get (sessions_by_group (drop_session r st)) folder = None \<and>
    (dict_get (sessions_by_id st) s = None \<longrightarrow> dict_get (sessions_by_id (drop_session r st)) s = None)"
proof -
  have parts: "index_ok st" "heap_ok st" "timers_ok st" using ok by (simp_all add: service_ok_def)
  note I = index_okD [OF parts(1)] and D = timers_okD [OF parts(3)]
  have dicts: "dict_ok (sessions_by_group st)" "dict_ok (sessions_by_id st)"
    using parts(1) by (simp_all add: index_ok_def)
  have g: "dict_get (sessions_by_group st) folder = Some r" "heap st r = Some m"
    using lookup_groupD [OF at] by auto
  then have keys: "group_folder (managed_record m) = folder"
    "dict_get (sessions_by_id st) (session_id (managed_record m)) = Some r" using I(1) by fastforce+
  have deadline: "reconnect_deadline (managed_record m) = None"
    using D(4) [OF g(2)] dead by (cases "reconnect_deadline (managed_record m)") auto
  let ?st' = "drop_session r st"
  have heap': "heap ?st' = (heap st)(r \<mapsto> m\<lparr>reconnect_task := None\<rparr>)"
    by (rule ext) (simp add: drop_session_def g)
  have same: "sessions_by_group ?st' = dict_pop folder (sessions_by_group st)"
    "sessions_by_id ?st' = dict_pop (session_id (managed_record m)) (sessions_by_id st)"
    "next_ref ?st' = next_ref st" "service_max_bytes ?st' = service_max_bytes st"
    "next_timer ?st' = next_timer st" "timers ?st' = timers (cancel_reconnect_task r st)"
    by (simp_all add: drop_session_def g keys cancel_reconnect_task_timers split: option.split)
  have "index_ok ?st'"
    unfolding index_ok_def heap' same
  proof (intro conjI allI impI)
    show "dict_ok (dict_pop folder (sessions_by_group st))"
      "dict_ok (dict_pop (session_id (managed_record m)) (sessions_by_id st))"
      using dicts by simp_all
  next
    fix h x
    assume "dict_get (dict_pop folder (sessions_by_group st)) h = Some x"
    then have h: "h \<noteq> folder" "dict_get (sessions_by_group st) h = Some x"
      using dicts by (auto split: if_splits)
    from I(1) [OF h(2)] obtain n where n: "heap st x = Some n"
      "dict_get (sessions_by_group st) (group_folder (managed_record n)) = Some x"
      "dict_get (sessions_by_id st) (session_id (managed_record n)) = Some x"
      "group_folder (managed_record n) = h" using h(2) by auto
    have "x \<noteq> r" using n h(1) keys g by auto
    moreover have "session_id (managed_record n) \<noteq> session_id (managed_record m)"
      "group_folder (managed_record n) \<noteq> folder"
      using n keys g \<open>x \<noteq> r\<close> by auto
    ultimately show "\<exists>n. ((heap st)(r \<mapsto> m\<lparr>reconnect_task := None\<rparr>)) x = Some n \<and>
        group_folder (managed_record n) = h \<and>
        dict_get (dict_pop (session_id (managed_record m)) (sessions_by_id st))
          (session_id (managed_record n)) = Some x"
      using n by auto
  next
    fix h x
    assume "dict_get (dict_pop (session_id (managed_record m)) (sessions_by_id st)) h = Some x"
    then have h: "h \<noteq> session_id (managed_record m)" "dict_get (sessions_by_id st) h = Some x"
      using dicts by (auto split: if_splits)
    from I(2) [OF h(2)] obtain n where n: "heap st x = Some n"
      "dict_get (sessions_by_group st) (group_folder (managed_record n)) = Some x"
      "dict_get (sessions_by_id st) (session_id (managed_record n)) = Some x"
      "session_id (managed_record n) = h" using h(2) by auto
    have "x \<noteq> r" using n h(1) keys g by auto
    moreover have "session_id (managed_record n) \<noteq> session_id (managed_record m)"
      "group_folder (managed_record n) \<noteq> folder"
      using n keys g \<open>x \<noteq> r\<close> by auto
    ultimately show "\<exists>n. ((heap st)(r \<mapsto> m\<lparr>reconnect_task := None\<rparr>)) x = Some n \<and>
        session_id (managed_record n) = h \<and>
        dict_get (dict_pop folder (sessions_by_group st)) (group_folder (managed_record n)) = Some x"
      using n by auto
  qed
  moreover have "heap_ok ?st'"
    using parts(2) g by (auto simp: heap_ok_def heap' same)
  moreover have "timers_ok (cancel_reconnect_task r st)"
    by (rule timers_ok_cancel [OF parts(3)]) (use g deadline in auto)
  note C = timers_okD [OF this]
  have cheap: "heap (cancel_reconnect_task r st) = heap ?st'"
    by (rule ext) (simp add: heap' g)
  have "timers_ok ?st'"
  proof (rule timers_okI, unfold same cancel_reconnect_task_sel)
    show "status (managed_record n) = Detached \<and>
        dict_get (dict_pop (session_id (managed_record m)) (sessions_by_id st))
          (session_id (managed_record n)) = Some x \<and>
        (\<exists>t. reconnect_task n = Some t \<and>
             timers (cancel_reconnect_task r st) t =
               Some \<lparr>timer_session = session_id (managed_record n),
                     timer_deadline = d, timer_phase = Sleeping\<rparr>)"
      if n: "heap ?st' x = Some n" "reconnect_deadline (managed_record n) = Some d" for x n d
    proof -
      have "x \<noteq> r" using n deadline heap' by auto
      with C(4) [unfolded cheap, OF n] keys(2) show ?thesis by auto
    qed
  qed (use C [unfolded cheap] in \<open>(simp; metis)+\<close>)
  moreover have "dict_get (sessions_by_group ?st') folder = None" by (simp add: same)
  moreover have "dict_get (sessions_by_id st) s = None \<longrightarrow> dict_get (sessions_by_id ?st') s = None"
    by (simp add: same)
  ultimately show ?thesis unfolding service_ok_def by blast
qed

lemma create_begin_ok:
  assumes ok: "service_ok st" and fresh: "dict_get (sessions_by_id st) uuid = None"
  shows "service_ok (snd (create_begin st gid folder owner mode uuid now factory))"
proof -
  have new: "service_ok (snd (create_new st' gid folder owner b uuid now factory))"
    if "service_ok st'" "dict_get (sessions_by_group st') folder = None"
      "dict_get (sessions_by_id st') uuid = None" for st' b
  proof (cases factory)
    case None
    with that show ?thesis by (simp add: create_new_def)
  next
    case (Some container)
    let ?m = "\<lparr>managed_record =
                \<lparr>session_id = uuid, group_id = gid, group_folder = folder, owner_user_id = owner,
                 backend = b, container_name = container, status = Created,
                 created_at = now, last_attached_at = None, reconnect_deadline = None\<rparr>,
               bridge = Some (next_bridge st'),
               output_queue = None, reconnect_task = None, output_history_chunks = [],
               output_history_bytes = 0, output_history_truncated = False\<rparr>"
    show ?thesis
      by (rule service_ok_insert [OF that(1), of ?m])
        (use that in \<open>auto simp: create_new_def Some Let_def history_ok_def service_ok_def heap_ok_def\<close>)
  qed
  show ?thesis
  proof (cases "lookup_group st folder")
    case None
    with ok have "dict_get (sessions_by_group st) folder = None"
      by (auto simp: lookup_group_def service_ok_def split: option.splits
          dest!: index_okD(1))
    with None ok fresh new show ?thesis
      by (auto simp: create_begin_def split: sum.split)
  next
    case (Some rm)
    obtain r m where rm: "rm = (r, m)" by (cases rm)
    show ?thesis
    proof (cases "status (managed_record m) \<in> {Closed, Exited}")
      case True
      from drop_session_ok [OF ok Some [unfolded rm] True] fresh
      have "service_ok (drop_session r st)" "dict_get (sessions_by_group (drop_session r st)) folder = None"
        "dict_get (sessions_by_id (drop_session r st)) uuid = None" by blast+
      from new [OF this] ok True show ?thesis
        by (auto simp: create_begin_def Some rm split: sum.split)
    next
      case False
      with ok show ?thesis by (auto simp: create_begin_def Some rm split: sum.split)
    qed
  qed
qed

lemma recover_snapshot_ok:
  assumes "service_ok st"
  shows "service_ok (recover_snapshot snapshot st)"
proof -
  let ?rec = "(snap_record snapshot)\<lparr>status := Detached, reconnect_deadline := None\<rparr>"
  let ?m = "\<lparr>managed_record = ?rec, bridge = None, output_queue = None,
             reconnect_task = None, output_history_chunks = [], output_history_bytes = 0,
             output_history_truncated = truncated snapshot\<rparr>"
  let ?m' = "append_output_history (service_max_bytes st) ?m (snap_output snapshot)"
  show ?thesis
  proof (cases "status (snap_record snapshot) \<in> active_recoverable_statuses \<and>
      dict_get (sessions_by_group st) (group_folder ?rec) = None \<and>
      dict_get (sessions_by_id st) (session_id ?rec) = None")
    case True
    have mb: "0 \<le> service_max_bytes st" using assms by (simp add: service_ok_def heap_ok_def)
    then have "history_ok (service_max_bytes st) ?m" by (simp add: history_ok_def)
    then have "history_ok (service_max_bytes st) ?m'" by (rule append_output_history_ok [OF mb])
    with True show ?thesis
      by (intro service_ok_insert [OF assms, of ?m']) (auto simp: recover_snapshot_def Let_def)
  next
    case False
    then have "recover_snapshot snapshot st = st" by (auto simp: recover_snapshot_def Let_def)
    with assms show ?thesis by simp
  qed
qed

lemma recover_ok:
  assumes "service_ok st"
  shows "service_ok (recover_active_sessions_from_persisted_snapshots st)"
proof -
  have "service_ok (fold recover_snapshot snaps st)" for snaps
    using assms by (induction snaps arbitrary: st) (auto simp: recover_snapshot_ok)
  then show ?thesis by (simp add: recover_active_sessions_from_persisted_snapshots_def)
qed

subsection \<open>Steps on queues, bridges and files\<close>

lemma schedule_write_ok [simp]: "service_ok (schedule_write r now st) = service_ok st"
  by (auto intro: service_ok_cong)

lemma effects_only_ok:
  "service_ok st \<Longrightarrow> service_ok (create_finish st sid now)"
  "service_ok st \<Longrightarrow> service_ok (attach_started st snapshot)"
  "service_ok st \<Longrightarrow> service_ok (snd (send_input st sid owner data))"
  "service_ok st \<Longrightarrow> service_ok (snd (resize st sid owner cols rows))"
  "service_ok st \<Longrightarrow> service_ok (bridge_event_deliver st q event)"
  "service_ok st \<Longrightarrow> service_ok (finish_write i succeeds st)"
  by (auto simp: create_finish_def attach_started_def send_input_def resize_def
      bridge_event_deliver_def finish_write_def persist_history_snapshot_def write_snapshot_payload_def Let_def
      split: option.split sum.split intro: service_ok_cong)

end
