(* ===== verification/TerminalProtocol.thy ===== *)
theory TerminalProtocol
  imports TerminalInvariant
begin

text \<open>
  The terminal session service as a protocol: the steps of \<open>TerminalSessions\<close> as one step
  relation, its reachable states, and the properties of the service as its clients see them.
\<close>

section \<open>Steps and reachable states\<close>

text \<open>
  Each step is what one coroutine does between two awaits. The environment picks the arguments:
  the clock, a fresh \<open>uuid4\<close>, the bridge factory's answer, bridge events, the order of the
  writes. Two steps are freer than the code (\<open>started\<close> takes any snapshot, \<open>fire\<close> any time), so
  that what holds of the steps holds of every schedule of the code.
\<close>

inductive terminal_step :: "terminal_service \<Rightarrow> terminal_service \<Rightarrow> bool" where
  create: "dict_get (sessions_by_id st) uuid = None \<Longrightarrow>
    terminal_step st (snd (create_begin st gid folder owner mode uuid now factory))"
| created: "terminal_step st (create_finish st sid now)"
| attached: "terminal_step st (snd (attach_begin st sid owner now factory))"
| started: "terminal_step st (attach_started st snapshot)"
| start_failed: "terminal_step st (attach_failed st sid now)"
| detached: "terminal_step st (snd (detach_session st sid owner now))"
| fire: "terminal_step st (expire_fire st t now)"
| expired: "terminal_step st (expire_finish st t)"
| closed: "terminal_step st (snd (close_session st sid owner now))"
| close_group: "terminal_step st (snd (close_session_by_group st folder owner now))"
| force_close: "terminal_step st (snd (force_close_session_by_group st folder now))"
| typed: "terminal_step st (snd (send_input st sid owner data))"
| resized: "terminal_step st (snd (resize st sid owner cols rows))"
| bridge_event: "terminal_step st (fst (bridge_event_locked st sid ev now))"
| delivered: "terminal_step st (bridge_event_deliver st q ev)"
| written: "terminal_step st (finish_write i succeeds st)"

definition started_service ::
  "int \<Rightarrow> int \<Rightarrow> path \<Rightarrow> (json \<Rightarrow> string) \<Rightarrow> (path, string) dict \<Rightarrow> terminal_service" where
  "started_service timeout max_bytes base strs files =
     recover_active_sessions_from_persisted_snapshots
       ((initial_service timeout max_bytes base strs)\<lparr>history_files := files\<rparr>)"

inductive reachable_service :: "terminal_service \<Rightarrow> bool" where
  start: "reachable_service (started_service timeout max_bytes base strs files)"
| step: "reachable_service st \<Longrightarrow> terminal_step st st' \<Longrightarrow> reachable_service st'"

lemma initial_service_ok: "service_ok ((initial_service timeout mb base strs)\<lparr>history_files := files\<rparr>)"
  by (auto simp: service_ok_def index_ok_def heap_ok_def timers_ok_def initial_service_def)

lemma terminal_step_ok: "terminal_step st st' \<Longrightarrow> service_ok st \<Longrightarrow> service_ok st'"
  by (induction rule: terminal_step.induct)
    (simp_all add: create_begin_ok attach_begin_ok attach_failed_ok detach_session_ok expire_fire_ok
      expire_finish_ok close_session_ok close_session_by_group_ok force_close_ok
      bridge_event_locked_ok effects_only_ok)

lemma reachable_invariant: "reachable_service st \<Longrightarrow> service_ok st"
  by (induction rule: reachable_service.induct)
    (auto simp: started_service_def intro: recover_ok initial_service_ok terminal_step_ok)

text \<open>A service with one session, for the concrete instances below.\<close>

definition example_service :: terminal_service where
  "example_service =
     snd (create_begin (started_service 60 100 [''data''] (\<lambda>_. []) []) ''g'' ''f'' ''u'' Mode_container ''s'' 5 (Some None))"

lemma example_reachable: "reachable_service example_service"
  unfolding example_service_def
  by (rule reachable_service.step [OF reachable_service.start terminal_step.create])
    (simp add: started_service_def recover_active_sessions_from_persisted_snapshots_def
      list_persisted_history_snapshots_def workspace_dirs_def initial_service_def List.map_filter_def)

text \<open>C4: In every state the service reaches, from any persisted snapshots and by any interleaving
of its requests, bridge events, expiries and writes, the invariant holds: both dictionaries index
the same sessions, histories are counted and bounded, every deadline has its sleeping task.\<close>

theorem reachable_service_ok:
  "reachable_service st \<Longrightarrow> index_ok st \<and> heap_ok st \<and> timers_ok st"
  using reachable_invariant by (simp add: service_ok_def)

lemma reachable_service_ok_witness: "index_ok example_service"
  using reachable_service_ok [OF example_reachable] by blast

section \<open>Sessions keep their identity\<close>

lemma same_sessionsI:
  assumes "sessions_by_group st' = sessions_by_group st" "sessions_by_id st' = sessions_by_id st"
    and "\<And>r. map_option ident (heap st' r) = map_option ident (heap st r)"
  shows "same_sessions st st'"
  using assms by (simp add: same_sessions_def)

lemma ident_record_simps [simp]:
  "ident (m\<lparr>managed_record := (managed_record m)\<lparr>status := s\<rparr>\<rparr>) = ident m"
  "ident (m\<lparr>managed_record := (managed_record m)\<lparr>status := s, last_attached_at := a, reconnect_deadline := d\<rparr>\<rparr>) = ident m"
  "ident (m\<lparr>managed_record := (managed_record m)\<lparr>container_name := c\<rparr>\<rparr>) = ident m"
  by (simp_all add: ident_def Let_def)

lemma same_sessions_close_managed: "same_sessions st (close_managed r now st)"
  by (rule same_sessionsI) (auto simp: map_option.compositionality comp_def)

lemma same_sessions_close:
  "same_sessions st (snd (close_session st sid owner now))"
  "same_sessions st (snd (force_close_session_by_group st folder now))"
  by (auto simp: close_session_def force_close_session_by_group_def Let_def same_sessions_close_managed
      split: sum.split option.split)

lemma same_sessions_close_group: "same_sessions st (snd (close_session_by_group st folder owner now))"
  by (auto simp: close_session_by_group_def same_sessions_close split: sum.split option.split)

lemma same_sessions_effects:
  "same_sessions st (create_finish st sid now)" "same_sessions st (attach_started st snapshot)"
  "same_sessions st (snd (send_input st sid owner data))"
  "same_sessions st (snd (resize st sid owner cols rows))"
  "same_sessions st (bridge_event_deliver st q ev)" "same_sessions st (finish_write i succeeds st)"
  by (auto simp: same_sessions_def create_finish_def attach_started_def send_input_def resize_def
      bridge_event_deliver_def finish_write_def persist_history_snapshot_def write_snapshot_payload_def Let_def
      split: option.split sum.split)

lemma same_sessions_detach: "same_sessions st (snd (detach_session st sid owner now))"
  by (rule same_sessionsI)
    (auto simp: detach_session_def Let_def map_option.compositionality comp_def ident_def
      split: sum.split option.split dest: require_ownedD)

lemma same_sessions_attach_failed: "same_sessions st (attach_failed st sid now)"
  by (rule same_sessionsI)
    (auto simp: attach_failed_def Let_def map_option.compositionality comp_def split: option.split)

lemma same_sessions_event: "same_sessions st (fst (bridge_event_locked st sid ev now))"
  by (rule same_sessionsI)
    (auto simp: bridge_event_locked_def Let_def map_option.compositionality comp_def split: option.split)

lemma same_sessions_expire: "same_sessions st (expire_fire st t now)" "same_sessions st (expire_finish st t)"
  by (auto simp: same_sessions_def expire_fire_def expire_finish_def Let_def
      split: option.split reconnect_phase.split dest: lookup_idD)

lemma same_sessions_attach: "same_sessions st (snd (attach_begin st sid owner now factory))"
  by (rule same_sessionsI)
    (auto simp: attach_begin_def Let_def map_option.compositionality comp_def ident_def
      split: sum.split option.split dest: require_ownedD)

text \<open>Every step except the creation of a session keeps the set of sessions.\<close>

lemma terminal_step_cases:
  assumes "terminal_step st st'"
  obtains "same_sessions st st'"
  | uuid gid folder owner mode now factory where
      "dict_get (sessions_by_id st) uuid = None"
      "st' = snd (create_begin st gid folder owner mode uuid now factory)"
  using assms
  by cases (auto intro: same_sessions_close same_sessions_close_group same_sessions_effects
      same_sessions_detach same_sessions_attach_failed same_sessions_event same_sessions_expire
      same_sessions_attach)

lemma lookup_group_same:
  assumes "same_sessions st st'" "lookup_group st folder = Some (r, m)"
  shows "\<exists>m'. lookup_group st' folder = Some (r, m') \<and> ident m' = ident m"
proof -
  from lookup_groupD [OF assms(2)] have "heap st r = Some m"
    "dict_get (sessions_by_group st) folder = Some r" by auto
  with same_sessions_heap [OF assms(1) this(1)] assms(1) show ?thesis
    by (auto simp: lookup_group_def same_sessions_def)
qed

lemma create_new_other:
  "folder' \<noteq> folder \<Longrightarrow>
   dict_get (sessions_by_group (snd (create_new st gid folder owner b uuid now factory))) folder' =
   dict_get (sessions_by_group st) folder'"
  by (simp add: create_new_def Let_def split: option.split)

lemma create_new_heap:
  "r \<noteq> next_ref st \<Longrightarrow> heap (snd (create_new st gid folder owner b uuid now factory)) r = heap st r"
  by (simp add: create_new_def Let_def split: option.split)

lemma drop_session_sel:
  assumes "heap st r = Some m"
  shows "sessions_by_group (drop_session r st) = dict_pop (group_folder (managed_record m)) (sessions_by_group st)"
    and "sessions_by_id (drop_session r st) = dict_pop (session_id (managed_record m)) (sessions_by_id st)"
    and "next_ref (drop_session r st) = next_ref st"
    and "map_option ident (heap (drop_session r st) x) = map_option ident (heap st x)"
  using assms by (auto simp: drop_session_def)

lemma create_begin_other:
  assumes ok: "service_ok st" and at: "lookup_group st folder' = Some (r, m)"
    and "folder' \<noteq> folder \<or> status (managed_record m) \<notin> {Closed, Exited}"
  shows "\<exists>m'. lookup_group (snd (create_begin st gid folder owner mode uuid now factory)) folder' =
      Some (r, m') \<and> ident m' = ident m"
proof -
  from lookup_groupD [OF at] have g: "dict_get (sessions_by_group st) folder' = Some r"
    and h: "heap st r = Some m" by auto
  have r: "r \<noteq> next_ref st" using ok h by (auto simp: service_ok_def heap_ok_def)
  show ?thesis
  proof (cases "resolve_backend mode")
    case (Inl e)
    with at show ?thesis by (simp add: create_begin_def)
  next
    case (Inr b)
    show ?thesis
    proof (cases "lookup_group st folder")
      case None
      with at have "folder' \<noteq> folder" by auto
      with Inr None g h r show ?thesis
        by (simp add: create_begin_def lookup_group_def [of "snd _"] create_new_other create_new_heap)
    next
      case (Some rm)
      obtain r0 m0 where rm: "rm = (r0, m0)" by (cases rm)
      from lookup_groupD [OF Some [unfolded rm]] have g0: "dict_get (sessions_by_group st) folder = Some r0"
        and h0: "heap st r0 = Some m0" by auto
      show ?thesis
      proof (cases "status (managed_record m0) \<in> {Closed, Exited}")
        case False
        with at show ?thesis by (simp add: create_begin_def Inr Some rm)
      next
        case True
        with assms(3) at Some rm have ne: "folder' \<noteq> folder" by auto
        have "group_folder (managed_record m0) = folder"
          using ok g0 h0 by (auto simp: service_ok_def dest: index_okD(1))
        with drop_session_sel [OF h0] g h ne
        obtain m' where "heap (drop_session r0 st) r = Some m'" "ident m' = ident m"
          "dict_get (sessions_by_group (drop_session r0 st)) folder' = Some r"
          by (metis (no_types, lifting) dict_get_pop fun_upd_apply map_option_eq_Some)
        with True Inr Some rm ne r drop_session_sel(3) [OF h0] show ?thesis
          by (auto simp: create_begin_def lookup_group_def [of "snd _"] create_new_other create_new_heap)
      qed
    qed
  qed
qed

text \<open>C3: While the current session of a workspace is neither closed nor exited, no step replaces
or removes it: it stays the workspace's session, with its id, group, owner, backend and creation
time unchanged.\<close>

theorem active_session_not_replaced:
  assumes "reachable_service st" "terminal_step st st'"
    and "lookup_group st folder = Some (r, m)" "status (managed_record m) \<notin> {Closed, Exited}"
  shows "\<exists>m'. lookup_group st' folder = Some (r, m') \<and> ident m' = ident m"
  using assms(2)
proof (cases rule: terminal_step_cases)
  case 1
  then show ?thesis using assms(3) by (rule lookup_group_same)
next
  case (2 uuid gid folder' owner mode now factory)
  from create_begin_other [OF reachable_invariant [OF assms(1)] assms(3)] assms(4) 2
  show ?thesis by blast
qed

lemmas example_simps = example_service_def started_service_def
  recover_active_sessions_from_persisted_snapshots_def list_persisted_history_snapshots_def
  workspace_dirs_def List.map_filter_def initial_service_def create_begin_def create_new_def resolve_backend_def lookup_group_def
  lookup_id_def Let_def

lemma active_session_not_replaced_witness:
  "\<exists>m. lookup_group (snd (create_begin example_service ''g'' ''f'' ''v'' Mode_container ''t'' 9 None)) ''f'' =
     Some (0, m)"
proof -
  have at: "\<exists>m. lookup_group example_service ''f'' = Some (0, m) \<and> status (managed_record m) = Created"
    "dict_get (sessions_by_id example_service) ''t'' = None" by (simp_all add: example_simps)
  then obtain m where "lookup_group example_service ''f'' = Some (0, m)"
    "status (managed_record m) \<notin> {Closed, Exited}" by auto
  from active_session_not_replaced [OF example_reachable terminal_step.create [OF at(2)] this]
  show ?thesis by blast
qed

section \<open>Owner operations\<close>

text \<open>
  The operations a client calls with a session id and its own user id. Their contract: they start
  with \<open>_require_session\<close> and \<open>_require_owner\<close>, whose error they return with nothing changed.
\<close>

locale owned_operation =
  fixes op :: "terminal_service \<Rightarrow> string \<Rightarrow> string \<Rightarrow> (terminal_error + 'a) \<times> terminal_service"
  assumes guarded: "require_owned st sid owner = Inl e \<Longrightarrow> op st sid owner = (Inl e, st)"
begin

lemma unknown_session:
  "lookup_id st sid = None \<Longrightarrow> op st sid owner = (Inl TerminalSessionNotFoundError, st)"
  by (rule guarded) (simp add: require_owned_def require_session_def)

lemma foreign_session:
  "lookup_id st sid = Some (r, m) \<Longrightarrow> owner_user_id (managed_record m) \<noteq> owner \<Longrightarrow>
   op st sid owner = (Inl TerminalSessionOwnershipError, st)"
  by (rule guarded) (simp add: require_owned_def require_session_def require_owner_def)

lemma only_owner:
  "op st sid owner = (Inr x, st') \<or> snd (op st sid owner) \<noteq> st \<Longrightarrow>
   \<exists>r m. lookup_id st sid = Some (r, m) \<and> owner_user_id (managed_record m) = owner"
  using unknown_session [of st sid owner] foreign_session [of st sid _ _ owner]
  by (cases "lookup_id st sid") fastforce+

end

interpretation attaching: owned_operation "\<lambda>st sid owner. attach_begin st sid owner now factory"
  for now factory
  by unfold_locales (simp add: attach_begin_def)

interpretation detaching: owned_operation "\<lambda>st sid owner. detach_session st sid owner now" for now
  by unfold_locales (simp add: detach_session_def)

interpretation closing: owned_operation "\<lambda>st sid owner. close_session st sid owner now" for now
  by unfold_locales (simp add: close_session_def)

interpretation typing: owned_operation "\<lambda>st sid owner. send_input st sid owner data" for data
  by unfold_locales (simp add: send_input_def)

interpretation resizing: owned_operation "\<lambda>st sid owner. resize st sid owner cols rows" for cols rows
  by unfold_locales (simp add: resize_def)

text \<open>C8: Attaching, detaching, closing, typing into and resizing a session by anyone but its owner
fails with the ownership error and changes nothing, no bridge call included.\<close>

theorem foreign_user_changes_nothing:
  assumes "lookup_id st sid = Some (r, m)" "owner_user_id (managed_record m) \<noteq> user"
  shows "attach_begin st sid user now factory = (Inl TerminalSessionOwnershipError, st) \<and>
    detach_session st sid user now = (Inl TerminalSessionOwnershipError, st) \<and>
    close_session st sid user now = (Inl TerminalSessionOwnershipError, st) \<and>
    send_input st sid user data = (Inl TerminalSessionOwnershipError, st) \<and>
    resize st sid user cols rows = (Inl TerminalSessionOwnershipError, st)"
  using attaching.foreign_session [OF assms] detaching.foreign_session [OF assms]
    closing.foreign_session [OF assms] typing.foreign_session [OF assms]
    resizing.foreign_session [OF assms] by blast

lemma foreign_user_changes_nothing_witness:
  "close_session example_service ''s'' ''v'' 9 = (Inl TerminalSessionOwnershipError, example_service)"
proof -
  have "\<exists>r m. lookup_id example_service ''s'' = Some (r, m) \<and> owner_user_id (managed_record m) = ''u''"
    by (simp add: example_simps)
  then obtain r m where "lookup_id example_service ''s'' = Some (r, m)"
    "owner_user_id (managed_record m) \<noteq> ''v''" by auto
  from foreign_user_changes_nothing [OF this] show ?thesis by blast
qed

section \<open>Creating\<close>

lemma create_new_result:
  "\<exists>rec st'. create_new st gid folder owner b uuid now (Some container) =
       (Inr (New_session rec (next_bridge st)), st') \<and>
     get_current_session st' folder = Some rec \<and> session_id rec = uuid \<and> status rec = Created \<and>
     owner_user_id rec = owner \<and> container_name rec = container \<and>
     bridge_log st' = bridge_log st @ [Bridge_start (next_bridge st)] \<and>
     sessions_by_id st' = dict_set uuid (next_ref st) (sessions_by_id st)"
  by (simp add: create_new_def Let_def get_current_session_def lookup_group_def)

lemma create_refused:
  "mode \<noteq> Mode_container \<Longrightarrow>
   create_begin st gid folder owner mode uuid now factory =
     (Inl (if mode = Mode_host then TerminalBackendDisabledError else TerminalBackendUnsupportedError), st)"
  by (simp add: create_begin_def resolve_backend_def)

lemma create_existing:
  "get_current_session st folder = Some rec \<Longrightarrow> status rec \<notin> {Closed, Exited} \<Longrightarrow>
   create_begin st gid folder owner Mode_container uuid now factory =
     ((if owner_user_id rec = owner then Inr (Existing_session rec) else Inl TerminalSessionConflictError), st)"
  by (auto simp: create_begin_def resolve_backend_def get_current_session_def)

lemma create_fresh:
  assumes ok: "index_ok st" and fresh: "dict_get (sessions_by_id st) uuid = None"
    and over: "\<And>rec. get_current_session st folder = Some rec \<Longrightarrow> status rec \<in> {Closed, Exited}"
  shows "\<exists>rec b st'. create_begin st gid folder owner Mode_container uuid now (Some container) =
      (Inr (New_session rec b), st') \<and>
    get_current_session st' folder = Some rec \<and> session_id rec = uuid \<and> status rec = Created \<and>
    owner_user_id rec = owner \<and> container_name rec = container \<and>
    bridge_log st' = bridge_log st @ [Bridge_start b] \<and>
    (\<forall>old. get_current_session st folder = Some old \<longrightarrow>
       dict_get (sessions_by_id st') (session_id old) = None)"
proof (cases "lookup_group st folder")
  case None
  with create_new_result [of st gid folder owner Docker_container uuid now container]
  show ?thesis by (auto simp: create_begin_def resolve_backend_def get_current_session_def)
next
  case (Some rm)
  obtain r m where rm: "rm = (r, m)" by (cases rm)
  from lookup_groupD [OF Some [unfolded rm]] have at: "dict_get (sessions_by_group st) folder = Some r"
    "heap st r = Some m" by auto
  have dead: "status (managed_record m) \<in> {Closed, Exited}"
    using over Some rm by (simp add: get_current_session_def)
  have old: "session_id (managed_record m) \<noteq> uuid"
    using index_okD(1) [OF ok at(1)] at(2) fresh by auto
  have log: "bridge_log (drop_session r st) = bridge_log st" by (simp add: drop_session_def at)
  have "create_begin st gid folder owner Mode_container uuid now (Some container) =
      create_new (drop_session r st) gid folder owner Docker_container uuid now (Some container)"
    using dead Some rm by (auto simp: create_begin_def resolve_backend_def)
  moreover have "get_current_session st folder = Some (managed_record m)"
    using Some rm by (simp add: get_current_session_def)
  ultimately show ?thesis
    using create_new_result [of "drop_session r st" gid folder owner Docker_container uuid now container]
      drop_session_sel(2) [OF at(2)] log old by fastforce
qed

text \<open>What \<open>create_session\<close> does on every branch: a mode other than a container is refused,
a live session is returned to its owner and refused to others, with nothing changed in these
cases; otherwise (no session, or one that is over) a new session with the given id becomes the
workspace's, its bridge is started, and the old one leaves both dictionaries.\<close>

theorem create_session_branches:
  assumes "reachable_service st" "dict_get (sessions_by_id st) uuid = None"
  shows "(mode \<noteq> Mode_container \<longrightarrow>
      create_begin st gid folder owner mode uuid now factory =
        (Inl (if mode = Mode_host then TerminalBackendDisabledError else TerminalBackendUnsupportedError), st)) \<and>
    (\<forall>rec. get_current_session st folder = Some rec \<longrightarrow> status rec \<notin> {Closed, Exited} \<longrightarrow>
      create_begin st gid folder owner Mode_container uuid now factory =
        ((if owner_user_id rec = owner then Inr (Existing_session rec)
          else Inl TerminalSessionConflictError), st)) \<and>
    ((\<forall>rec. get_current_session st folder = Some rec \<longrightarrow> status rec \<in> {Closed, Exited}) \<longrightarrow>
      (\<exists>rec b st'. create_begin st gid folder owner Mode_container uuid now (Some container) =
          (Inr (New_session rec b), st') \<and>
        get_current_session st' folder = Some rec \<and> session_id rec = uuid \<and> status rec = Created \<and>
        owner_user_id rec = owner \<and> container_name rec = container \<and>
        bridge_log st' = bridge_log st @ [Bridge_start b] \<and>
        (\<forall>old. get_current_session st folder = Some old \<longrightarrow>
           dict_get (sessions_by_id st') (session_id old) = None)))"
proof (intro conjI impI allI)
  show "\<exists>rec b st'. create_begin st gid folder owner Mode_container uuid now (Some container) =
          (Inr (New_session rec b), st') \<and>
        get_current_session st' folder = Some rec \<and> session_id rec = uuid \<and> status rec = Created \<and>
        owner_user_id rec = owner \<and> container_name rec = container \<and>
        bridge_log st' = bridge_log st @ [Bridge_start b] \<and>
        (\<forall>old. get_current_session st folder = Some old \<longrightarrow>
           dict_get (sessions_by_id st') (session_id old) = None)"
    if "\<forall>rec. get_current_session st folder = Some rec \<longrightarrow> status rec \<in> {Closed, Exited}"
    using create_fresh [of st uuid folder] reachable_invariant [OF assms(1)] assms(2) that
    by (auto simp: service_ok_def)
qed (auto simp: create_refused create_existing)

lemma create_session_branches_witness:
  "create_begin example_service ''g'' ''f'' ''v'' Mode_container ''t'' 9 None =
     (Inl TerminalSessionConflictError, example_service)"
proof -
  have at: "\<exists>rec. get_current_session example_service ''f'' = Some rec \<and> status rec = Created \<and>
      owner_user_id rec = ''u''"
    "dict_get (sessions_by_id example_service) ''t'' = None"
    by (simp_all add: example_simps get_current_session_def)
  then obtain rec where live: "get_current_session example_service ''f'' = Some rec"
    "status rec \<notin> {Closed, Exited}" "owner_user_id rec = ''u''" by auto
  from create_session_branches [OF example_reachable at(2), THEN conjunct2, THEN conjunct1,
      THEN spec, THEN mp, OF live(1), THEN mp, OF live(2)] live(3)
  show ?thesis by simp
qed

section \<open>Attaching and expiry\<close>

text \<open>Attaching replays the whole history: on success the client's queue is new and holds
exactly the chunks of the history in order, so that what it reads first is the session's output so
far; the session is attached, with no deadline and no reconnect task.\<close>

theorem attach_replays_history:
  assumes "attach_begin st sid owner now factory = (Inr (rec, q, start), st')"
    and "lookup_id st sid = Some (r, m)"
  shows "q = next_queue st \<and>
    concat (map (\<lambda>e. the (event_data e)) (queues st' q)) = snap_output (build_history_snapshot st now m) \<and>
    (\<forall>e \<in> set (queues st' q). event_type e = ''terminal.output'') \<and>
    (\<exists>m'. heap st' r = Some m' \<and> output_queue m' = Some q \<and> bridge m' \<noteq> None \<and>
       managed_record m' = rec \<and> status rec = Attached \<and> last_attached_at rec = Some now \<and>
       reconnect_deadline rec = None \<and> reconnect_task m' = None)"
proof -
  have own: "require_owned st sid owner = Inr (r, m)"
    using assms by (auto simp: attach_begin_def require_owned_def require_session_def
        require_owner_def split: if_splits)
  have at: "heap st r = Some m" using lookup_idD [OF assms(2)] by simp
  show ?thesis
  proof (cases "bridge m")
    case (Some b)
    with assms(1) own at show ?thesis
      by (auto simp: attach_begin_def Let_def replay_events_def build_history_snapshot_def comp_def)
  next
    case None
    then obtain container where "factory = Some container"
      using assms(1) own at by (auto simp: attach_begin_def Let_def split: option.splits)
    with None assms(1) own at show ?thesis
      by (auto simp: attach_begin_def Let_def replay_events_def build_history_snapshot_def comp_def)
  qed
qed

lemma attach_replays_history_witness:
  "\<exists>rec st'. attach_begin example_service ''s'' ''u'' 7 None = (Inr (rec, 0, None), st') \<and> status rec = Attached"
proof -
  have "\<exists>rec st'. attach_begin example_service ''s'' ''u'' 7 None = (Inr (rec, 0, None), st')"
    by (simp add: example_simps attach_begin_def require_owned_def require_session_def require_owner_def
        cancel_reconnect_task_def update_managed_def store_managed_def)
  then obtain rec st' where ok: "attach_begin example_service ''s'' ''u'' 7 None = (Inr (rec, 0, None), st')"
    by blast
  moreover have "\<exists>r m. lookup_id example_service ''s'' = Some (r, m)" by (simp add: example_simps)
  ultimately have "status rec = Attached" using attach_replays_history by blast
  with ok show ?thesis by blast
qed

lemma detach_result:
  assumes "service_ok st" "detach_session st sid owner now = (Inr rec, st')"
  shows "\<exists>r m'. lookup_id st' sid = Some (r, m') \<and> managed_record m' = rec \<and> status rec = Detached \<and>
    owner_user_id rec = owner \<and>
    reconnect_deadline rec = Some (now + reconnect_timeout st) \<and> output_queue m' = None \<and>
    reconnect_task m' = Some (next_timer st) \<and>
    timers st' (next_timer st) = Some \<lparr>timer_session = sid, timer_deadline = now + reconnect_timeout st,
      timer_phase = Sleeping\<rparr>"
proof -
  obtain r m where own: "require_owned st sid owner = Inr (r, m)"
    using assms(2) by (auto simp: detach_session_def split: sum.splits)
  from require_ownedD [OF this] have at: "dict_get (sessions_by_id st) sid = Some r"
    "heap st r = Some m" "owner_user_id (managed_record m) = owner" by auto
  show ?thesis
    using assms(2) own at by (auto simp: detach_session_def Let_def lookup_id_def)
qed

text \<open>
  The steps that leave a detached session alone: all but an attach, a detach or a close of the session, by its
  id or by its workspace, a failed start or an exit of its bridge, and the expiry itself.
\<close>

inductive idle_step :: "string \<Rightarrow> terminal_service \<Rightarrow> terminal_service \<Rightarrow> bool" for sid where
  create: "dict_get (sessions_by_id st) uuid = None \<Longrightarrow>
    idle_step sid st (snd (create_begin st gid folder owner mode uuid now factory))"
| created: "idle_step sid st (create_finish st any now)"
| attached: "other \<noteq> sid \<Longrightarrow> idle_step sid st (snd (attach_begin st other owner now factory))"
| started: "idle_step sid st (attach_started st snapshot)"
| start_failed: "other \<noteq> sid \<Longrightarrow> idle_step sid st (attach_failed st other now)"
| detached: "other \<noteq> sid \<Longrightarrow> idle_step sid st (snd (detach_session st other owner now))"
| fire: "(\<And>timer. timers st t = Some timer \<Longrightarrow> timer_session timer \<noteq> sid) \<Longrightarrow> idle_step sid st (expire_fire st t now)"
| expired: "idle_step sid st (expire_finish st t)"
| closed: "other \<noteq> sid \<Longrightarrow> idle_step sid st (snd (close_session st other owner now))"
| close_group: "(\<And>r m. lookup_group st folder = Some (r, m) \<Longrightarrow> session_id (managed_record m) \<noteq> sid) \<Longrightarrow>
    idle_step sid st (snd (close_session_by_group st folder owner now))"
| force_close: "(\<And>r m. lookup_group st folder = Some (r, m) \<Longrightarrow> session_id (managed_record m) \<noteq> sid) \<Longrightarrow>
    idle_step sid st (snd (force_close_session_by_group st folder now))"
| typed: "idle_step sid st (snd (send_input st any owner data))"
| resized: "idle_step sid st (snd (resize st any owner cols rows))"
| bridge_event: "other \<noteq> sid \<or> bridge_event_type ev \<noteq> ''exit'' \<Longrightarrow>
    idle_step sid st (fst (bridge_event_locked st other ev now))"
| delivered: "idle_step sid st (bridge_event_deliver st q ev)"
| written: "idle_step sid st (finish_write i succeeds st)"

inductive idle_steps :: "string \<Rightarrow> terminal_service \<Rightarrow> terminal_service \<Rightarrow> bool" for sid st where
  none: "idle_steps sid st st"
| more: "idle_steps sid st st' \<Longrightarrow> idle_step sid st' st'' \<Longrightarrow> idle_steps sid st st''"

lemma idle_step_step: "idle_step sid st st' \<Longrightarrow> terminal_step st st'"
  by (induction rule: idle_step.induct) (auto intro: terminal_step.intros)

text \<open>A session that is detached with the record \<open>rec\<close> and will be expired by the task \<open>t\<close>.\<close>

definition expiring :: "terminal_service \<Rightarrow> string \<Rightarrow> nat \<Rightarrow> nat \<Rightarrow> terminal_session_record \<Rightarrow> bool" where
  "expiring st sid r t rec \<longleftrightarrow>
     dict_get (sessions_by_id st) sid = Some r \<and>
     (\<exists>m d. heap st r = Some m \<and> managed_record m = rec \<and> reconnect_task m = Some t \<and> session_id rec = sid \<and>
        status rec = Detached \<and> reconnect_deadline rec = Some d \<and>
        timers st t = Some \<lparr>timer_session = sid, timer_deadline = d, timer_phase = Sleeping\<rparr>)"

lemma expiring_frame:
  assumes "expiring st sid r t rec"
    and "dict_get (sessions_by_id st') sid = dict_get (sessions_by_id st) sid"
    and "\<And>m. heap st r = Some m \<Longrightarrow> \<exists>m'. heap st' r = Some m' \<and> managed_record m' = managed_record m \<and>
      reconnect_task m' = reconnect_task m"
    and "timers st' t = timers st t"
  shows "expiring st' sid r t rec"
  using assms unfolding expiring_def by fastforce

lemma expiring_here: "expiring st sid r t rec \<Longrightarrow> \<exists>m. heap st r = Some m \<and> reconnect_task m = Some t"
  by (auto simp: expiring_def)

text \<open>Cancelling the task of another session.\<close>

lemma expiring_cancel_timers:
  assumes "service_ok st" "expiring st sid r t rec" "x \<noteq> r"
  shows "timers (cancel_reconnect_task x st) t = timers st t"
proof -
  from expiring_here [OF assms(2)] obtain m where "heap st r = Some m" "reconnect_task m = Some t" by blast
  with timers_cancel_other [of st r m x t] assms(1,3) show ?thesis by (simp add: service_ok_def)
qed

lemma other_reference:
  assumes "service_ok st" "expiring st sid r t rec" "dict_get (sessions_by_id st) other = Some x" "other \<noteq> sid"
  shows "x \<noteq> r"
  using assms index_okD(2) [of st other x] index_okD(2) [of st sid r]
  by (auto simp: service_ok_def expiring_def)

lemma expiring_close:
  assumes "service_ok st" "expiring st sid r t rec" "x \<noteq> r"
  shows "expiring (close_managed x now st) sid r t rec"
  using expiring_cancel_timers [OF assms] assms(3)
  by (intro expiring_frame [OF assms(2)]) (simp_all add: cancel_reconnect_task_sel)

lemma expiring_create:
  assumes ok: "service_ok st" and e: "expiring st sid r t rec" and new: "dict_get (sessions_by_id st) uuid = None"
  shows "expiring (snd (create_begin st gid folder owner mode uuid now factory)) sid r t rec"
proof -
  from e have at: "dict_get (sessions_by_id st) sid = Some r" by (simp add: expiring_def)
  obtain m where m: "heap st r = Some m" "status (managed_record m) = Detached" "session_id (managed_record m) = sid"
    using e by (auto simp: expiring_def)
  have fresh: "r \<noteq> next_ref st" using ok m(1) by (auto simp: service_ok_def heap_ok_def)
  have uuid: "uuid \<noteq> sid" using new at by auto
  have create: "expiring (snd (create_new s gid folder owner b uuid now factory)) sid r t rec"
    if "expiring s sid r t rec" "next_ref s = next_ref st" for s b
    using that(2) fresh uuid
    by (intro expiring_frame [OF that(1)]) (auto simp: create_new_def Let_def split: option.split)
  show ?thesis
  proof (cases "lookup_group st folder")
    case None
    with e create show ?thesis by (auto simp: create_begin_def split: sum.split)
  next
    case (Some rm)
    obtain x n where rm: "rm = (x, n)" by (cases rm)
    from lookup_groupD [OF Some [unfolded rm]] have x: "dict_get (sessions_by_group st) folder = Some x" "heap st x = Some n"
      by auto
    have "expiring (snd (create_new (drop_session x st) gid folder owner b uuid now factory)) sid r t rec"
      if "status (managed_record n) \<in> {Closed, Exited}" for b
    proof -
      have ne: "x \<noteq> r" using that x(2) m by auto
      have "dict_get (sessions_by_id st) (session_id (managed_record n)) = Some x"
        using index_okD(1) [of st folder x] ok x by (auto simp: service_ok_def)
      with ne at have "session_id (managed_record n) \<noteq> sid" by auto
      then have "expiring (drop_session x st) sid r t rec"
        using expiring_cancel_timers [OF ok e ne] ne x(2)
        by (intro expiring_frame [OF e]) (auto simp: drop_session_def cancel_reconnect_task_timers split: option.splits)
      with create drop_session_sel(3) [OF x(2)] show ?thesis by simp
    qed
    with e show ?thesis by (auto simp: create_begin_def Some rm split: sum.split)
  qed
qed

lemma expiring_fire:
  assumes e: "expiring st sid r t rec" and ok: "service_ok st"
    and other: "\<And>timer. timers st u = Some timer \<Longrightarrow> timer_session timer \<noteq> sid"
  shows "expiring (expire_fire st u now) sid r t rec"
proof -
  have u: "u \<noteq> t" using other e by (auto simp: expiring_def)
  have x: "x \<noteq> r" if "lookup_id st (timer_session timer) = Some (x, m)" "timers st u = Some timer" for x m timer
    using other_reference [OF ok e, of "timer_session timer" x] lookup_idD [OF that(1)] other that(2) by auto
  then show ?thesis
    using u by (intro expiring_frame [OF e])
      (auto simp: expire_fire_def Let_def split: option.split reconnect_phase.split)
qed

lemma expiring_event:
  assumes ok: "service_ok st" and e: "expiring st sid r t rec"
    and other: "other \<noteq> sid \<or> bridge_event_type ev \<noteq> ''exit''"
  shows "expiring (fst (bridge_event_locked st other ev now)) sid r t rec"
proof (cases "lookup_id st other")
  case None
  with e show ?thesis by (simp add: bridge_event_locked_def)
next
  case (Some xm)
  obtain x m where xm: "xm = (x, m)" by (cases xm)
  have ne: "x \<noteq> r" if "bridge_event_type ev = ''exit''"
    using other that other_reference [OF ok e, of other x] lookup_idD [OF Some [unfolded xm]] by auto
  show ?thesis
    using expiring_cancel_timers [OF ok e ne] ne
    by (intro expiring_frame [OF e])
      (auto simp: bridge_event_locked_def Some xm split: option.split)
qed

lemma expiring_idle_step:
  assumes "idle_step sid st st'" and ok: "service_ok st" and e: "expiring st sid r t rec"
  shows "expiring st' sid r t rec"
  using assms(1)
proof cases
  case (create uuid gid folder owner mode now factory)
  with expiring_create [OF ok e] show ?thesis by simp
next
  case (attached other owner now factory)
  have "x \<noteq> r" if "require_owned st other owner = Inr (x, m)" for x m
    using other_reference [OF ok e _ attached(2)] require_ownedD [OF that] by auto
  then show ?thesis
    unfolding attached(1) using expiring_cancel_timers [OF ok e]
    by (intro expiring_frame [OF e]) (auto simp: attach_begin_def Let_def split: sum.split option.split)
next
  case (start_failed other now)
  have "x \<noteq> r" if "lookup_id st other = Some (x, m)" for x m
    using other_reference [OF ok e _ start_failed(2)] lookup_idD [OF that] by auto
  then show ?thesis
    unfolding start_failed(1)
    by (intro expiring_frame [OF e]) (auto simp: attach_failed_def split: option.split)
next
  case (detached other owner now)
  have x: "x \<noteq> r" if "require_owned st other owner = Inr (x, m)" for x m
    using other_reference [OF ok e _ detached(2)] require_ownedD [OF that] by auto
  have t: "t < next_timer st" using ok e by (auto simp: service_ok_def expiring_def intro: timers_okD(1))
  have "timers (cancel_reconnect_task x (update_managed x f st)) t = timers st t"
    if "x \<noteq> r" "\<And>m. reconnect_task (f m) = reconnect_task m" for x f
  proof -
    have "Option.bind (map_option f (heap st x)) reconnect_task = Option.bind (heap st x) reconnect_task"
      by (cases "heap st x") (simp_all add: that(2))
    with expiring_cancel_timers [OF ok e that(1)] show ?thesis
      by (cases "Option.bind (heap st x) reconnect_task") (simp_all add: cancel_reconnect_task_timers)
  qed
  then show ?thesis
    unfolding detached(1) using x t
    by (intro expiring_frame [OF e]) (auto simp: detach_session_def Let_def split: sum.split)
next
  case (fire t now)
  with expiring_fire [OF e ok] show ?thesis by blast
next
  case (expired u)
  have "timers (expire_finish st u) t = timers st t"
    using e by (auto simp: expiring_def expire_finish_def split: option.split reconnect_phase.split)
  then show ?thesis
    unfolding expired by (intro expiring_frame [OF e])
      (auto simp: expire_finish_def split: option.split reconnect_phase.split)
next
  case (closed other owner now)
  have "x \<noteq> r" if "require_owned st other owner = Inr (x, m)" for x m
    using other_reference [OF ok e _ closed(2)] require_ownedD [OF that] by auto
  with e show ?thesis
    unfolding closed(1) by (auto simp: close_session_def Let_def expiring_close [OF ok e] split: sum.split)
next
  case (close_group folder owner now)
  have "expiring (snd (close_session st other owner now)) sid r t rec" if "other \<noteq> sid" for other
  proof -
    have "x \<noteq> r" if "require_owned st other owner = Inr (x, m)" for x m
      using other_reference [OF ok e _ \<open>other \<noteq> sid\<close>] require_ownedD [OF that] by auto
    with e show ?thesis by (auto simp: close_session_def Let_def expiring_close [OF ok e] split: sum.split)
  qed
  with close_group(2) e show ?thesis
    unfolding close_group(1) by (auto simp: close_session_by_group_def split: option.split sum.split)
next
  case (force_close folder now)
  have "x \<noteq> r" if "lookup_group st folder = Some (x, m)" for x m
    using force_close(2) [OF that] e lookup_groupD [OF that] by (auto simp: expiring_def)
  with e show ?thesis
    unfolding force_close(1)
    by (auto simp: force_close_session_by_group_def Let_def expiring_close [OF ok e] split: option.split)
next
  case (bridge_event other ev now)
  with expiring_event [OF ok e] show ?thesis by simp
next
  case (written i succeeds)
  show ?thesis
    unfolding written
    by (intro expiring_frame [OF e])
      (auto simp: finish_write_def persist_history_snapshot_def write_snapshot_payload_def Let_def split: option.split)
qed (auto intro!: expiring_frame [OF e]
      simp: create_finish_def attach_started_def send_input_def resize_def bridge_event_deliver_def
      split: option.split sum.split)

lemma expiring_idle_steps:
  assumes "idle_steps sid st st'" "reachable_service st" "expiring st sid r t rec"
  shows "reachable_service st' \<and> expiring st' sid r t rec"
  using assms
proof induction
  case (more st' st'')
  then have r: "reachable_service st'" and e: "expiring st' sid r t rec" by simp_all
  from expiring_idle_step [OF more.hyps(2) reachable_invariant [OF r] e] reachable_service.step [OF r idle_step_step [OF more.hyps(2)]]
  show ?case by simp
qed simp

text \<open>C9: A detached session expires. After a detach, whatever steps follow that leave the session alone
(neither attached nor detached again, closed nor ended), it stays detached with its deadline, and its reconnect
task sleeps. When that task wakes up, the session is closed. Without a bridge its snapshot is handed to the
write at once; otherwise the bridge is told to close, and when it has closed the same snapshot is handed to
the write and the task is over.\<close>

theorem detached_session_expires:
  assumes "reachable_service st" "detach_session st sid owner now = (Inr rec, st1)" "idle_steps sid st1 st2"
  defines "t \<equiv> next_timer st"
  shows "\<exists>r m closed snap. lookup_id st2 sid = Some (r, m) \<and> managed_record m = rec \<and> status rec = Detached \<and>
    timers st2 t = Some \<lparr>timer_session = sid, timer_deadline = now + reconnect_timeout st, timer_phase = Sleeping\<rparr> \<and>
    closed = set_status Closed m \<and> snap = build_history_snapshot st2 later closed \<and>
    lookup_id (expire_fire st2 t later) sid = Some (r, closed) \<and>
    (case bridge m of
       None \<Rightarrow> pending_writes (expire_fire st2 t later) = pending_writes st2 @ [snap] \<and>
         timers (expire_fire st2 t later) t = None
     | Some b \<Rightarrow> bridge_log (expire_fire st2 t later) = bridge_log st2 @ [Bridge_close b] \<and>
         (\<forall>st3. timers st3 t = timers (expire_fire st2 t later) t \<longrightarrow>
            pending_writes (expire_finish st3 t) = pending_writes st3 @ [snap] \<and> timers (expire_finish st3 t) t = None))"
proof -
  have ok: "service_ok st" by (rule reachable_invariant [OF assms(1)])
  from detach_result [OF ok assms(2)]
  obtain r m' where look: "lookup_id st1 sid = Some (r, m')"
    and m': "managed_record m' = rec" "status rec = Detached" "reconnect_task m' = Some t"
      "reconnect_deadline rec = Some (now + reconnect_timeout st)"
    and timer: "timers st1 t = Some \<lparr>timer_session = sid,
      timer_deadline = now + reconnect_timeout st, timer_phase = Sleeping\<rparr>" unfolding t_def by blast
  have reach: "reachable_service st1"
    using reachable_service.step [OF assms(1) terminal_step.detached [of st sid owner now]] assms(2) by simp
  from lookup_idD [OF look] have at: "dict_get (sessions_by_id st1) sid = Some r" "heap st1 r = Some m'" by auto
  with reachable_invariant [OF reach] have "session_id rec = sid"
    using m'(1) by (auto simp: service_ok_def dest: index_okD(2))
  then have "expiring st1 sid r t rec" using at m' timer by (simp add: expiring_def)
  from expiring_idle_steps [OF assms(3) reach this] have "expiring st2 sid r t rec" by simp
  then obtain m where m: "dict_get (sessions_by_id st2) sid = Some r" "heap st2 r = Some m" "managed_record m = rec"
    "timers st2 t = Some \<lparr>timer_session = sid, timer_deadline = now + reconnect_timeout st, timer_phase = Sleeping\<rparr>"
    using m'(4) by (auto simp: expiring_def)
  have look2: "lookup_id st2 sid = Some (r, m)" using m(1,2) by (simp add: lookup_id_def)
  let ?closed = "set_status Closed m"
  let ?st' = "expire_fire st2 t later"
  have snap: "build_history_snapshot (store_managed r ?closed st2) later ?closed = build_history_snapshot st2 later ?closed"
    by (simp add: build_history_snapshot_def)
  note fire = expire_fire_def [of st2 t later] look2 m m'(2,4) snap Let_def
  have "lookup_id ?st' sid = Some (r, ?closed)"
    unfolding lookup_id_def by (simp add: fire split: option.split)
  moreover have "case bridge m of
       None \<Rightarrow> pending_writes ?st' = pending_writes st2 @ [build_history_snapshot st2 later ?closed] \<and> timers ?st' t = None
     | Some b \<Rightarrow> bridge_log ?st' = bridge_log st2 @ [Bridge_close b] \<and>
         (\<forall>st3. timers st3 t = timers ?st' t \<longrightarrow>
            pending_writes (expire_finish st3 t) = pending_writes st3 @ [build_history_snapshot st2 later ?closed] \<and>
            timers (expire_finish st3 t) t = None)"
    by (auto simp: fire expire_finish_def split: option.split)
  ultimately show ?thesis using look2 m m'(2) by blast
qed

lemma detached_session_expires_witness:
  "\<exists>r m. lookup_id (expire_fire (snd (send_input (snd (detach_session example_service ''s'' ''u'' 10)) ''s'' ''u'' ''ls'')) 0 99) ''s'' =
       Some (r, m) \<and> status (managed_record m) = Closed"
proof -
  have t: "next_timer example_service = 0" by (simp add: example_simps)
  have "\<exists>rec st'. detach_session example_service ''s'' ''u'' 10 = (Inr rec, st')"
    by (simp add: example_simps detach_session_def require_owned_def require_session_def require_owner_def)
  then obtain rec st' where d: "detach_session example_service ''s'' ''u'' 10 = (Inr rec, st')" by blast
  have "idle_steps ''s'' st' (snd (send_input st' ''s'' ''u'' ''ls''))"
    by (rule idle_steps.more [OF idle_steps.none idle_step.typed])
  from detached_session_expires [OF example_reachable d this, of 99] d t show ?thesis by fastforce
qed

text \<open>The task of a session that was attached again finds nothing to close.\<close>

lemma expire_fire_cancelled: "timers st t = None \<Longrightarrow> expire_fire st t now = st"
  by (simp add: expire_fire_def)

text \<open>Attaching cancels the expiry: after a detach and an attach, whatever the old reconnect
task does changes nothing, so the session stays attached.\<close>

lemma attach_cancels_expiry:
  assumes "reachable_service st" "detach_session st sid owner t0 = (Inr rec, st1)"
    and "attach_begin st1 sid owner t1 factory = (Inr (rec2, q, start), st2)"
  shows "expire_fire st2 (next_timer st) later = st2 \<and> expire_finish st2 (next_timer st) = st2 \<and>
    status rec2 = Attached"
proof -
  from detach_result [OF reachable_invariant [OF assms(1)] assms(2)]
  obtain r m' where look: "lookup_id st1 sid = Some (r, m')"
    and task: "reconnect_task m' = Some (next_timer st)"
    and own: "owner_user_id (managed_record m') = owner" by blast
  have h: "heap st1 r = Some m'" using lookup_idD [OF look] by simp
  have owned: "require_owned st1 sid owner = Inr (r, m')"
    using look own by (simp add: require_owned_def require_session_def require_owner_def)
  have "timers (snd (attach_begin st1 sid owner t1 factory)) = timers (cancel_reconnect_task r st1)"
    by (simp add: attach_begin_def owned Let_def h cancel_reconnect_task_timers split: option.split)
  with assms(3) h task have "timers st2 (next_timer st) = None"
    by (simp add: cancel_reconnect_task_timers)
  moreover have "status rec2 = Attached"
    using assms(3) owned h
    by (auto simp: attach_begin_def Let_def split: option.splits)
  ultimately show ?thesis by (simp add: expire_fire_def expire_finish_def)
qed

lemma attach_cancels_expiry_witness:
  "\<exists>st2. snd (attach_begin (snd (detach_session example_service ''s'' ''u'' 10)) ''s'' ''u'' 11 None) = st2 \<and>
     expire_fire st2 0 99 = st2"
proof -
  have t: "next_timer example_service = 0" by (simp add: example_simps)
  have "\<exists>rec st'. detach_session example_service ''s'' ''u'' 10 = (Inr rec, st')"
    by (simp add: example_simps detach_session_def require_owned_def require_session_def require_owner_def)
  then obtain rec st1 where d: "detach_session example_service ''s'' ''u'' 10 = (Inr rec, st1)" by blast
  have "\<exists>rec q. fst (attach_begin (snd (detach_session example_service ''s'' ''u'' 10)) ''s'' ''u'' 11 None) =
      Inr (rec, q, None)"
    by (simp add: example_simps detach_session_def attach_begin_def require_owned_def require_session_def
        require_owner_def cancel_reconnect_task_def update_managed_def store_managed_def schedule_write_def)
  with d obtain rec2 q where "fst (attach_begin st1 ''s'' ''u'' 11 None) = Inr (rec2, q, None)" by auto
  then have "attach_begin st1 ''s'' ''u'' 11 None =
      (Inr (rec2, q, None), snd (attach_begin st1 ''s'' ''u'' 11 None))" by (metis prod.collapse)
  from attach_cancels_expiry [OF example_reachable d this, of 99] d t show ?thesis by simp
qed

lemma utf8_len_concat: "int (utf8_len (concat cs)) = chunk_bytes cs"
  by (induction cs) (simp_all add: utf8_len_append)

section \<open>Recovery after a restart\<close>

definition recovered_from :: "terminal_service \<Rightarrow> history_snapshot \<Rightarrow> bool" where
  "recovered_from st s \<longleftrightarrow>
     (\<exists>r m. lookup_group st (group_folder (snap_record s)) = Some (r, m) \<and>
        managed_record m = (snap_record s)\<lparr>status := Detached, reconnect_deadline := None\<rparr> \<and>
        bridge m = None \<and>
        concat (output_history_chunks m) =
          (if int (utf8_len (snap_output s)) \<le> service_max_bytes st then snap_output s else []))"

lemma recover_snapshot_recovers:
  assumes "status (snap_record s) \<in> active_recoverable_statuses" "0 \<le> service_max_bytes st"
    and "dict_get (sessions_by_group st) (group_folder (snap_record s)) = None"
    and "dict_get (sessions_by_id st) (session_id (snap_record s)) = None"
  shows "recovered_from (recover_snapshot s st) s"
proof -
  have "0 < utf8_len (snap_output s)" if "snap_output s \<noteq> []"
    using that by (cases "snap_output s") auto
  with assms show ?thesis
    by (auto simp: recovered_from_def recover_snapshot_def lookup_group_def Let_def
        append_output_history_def)
qed

lemma recover_snapshot_keeps:
  assumes "service_ok st" "recovered_from st s" "group_folder (snap_record s') \<noteq> group_folder (snap_record s)"
  shows "recovered_from (recover_snapshot s' st) s"
proof -
  from assms(2) obtain r m where at: "lookup_group st (group_folder (snap_record s)) = Some (r, m)"
    by (auto simp: recovered_from_def)
  from lookup_groupD [OF at] assms(1) have "r \<noteq> next_ref st"
    by (auto simp: service_ok_def heap_ok_def)
  with assms(2,3) at show ?thesis
    by (auto simp: recovered_from_def recover_snapshot_def lookup_group_def Let_def split: option.splits)
qed

lemma recover_snapshot_fresh:
  "dict_get (sessions_by_group st) g = None \<Longrightarrow> group_folder (snap_record s) \<noteq> g \<Longrightarrow>
   dict_get (sessions_by_group (recover_snapshot s st)) g = None"
  "dict_get (sessions_by_id st) i = None \<Longrightarrow> session_id (snap_record s) \<noteq> i \<Longrightarrow>
   dict_get (sessions_by_id (recover_snapshot s st)) i = None"
  by (simp_all add: recover_snapshot_def Let_def)

lemma fold_recover_snapshot:
  assumes "service_ok st" "distinct (map (group_folder \<circ> snap_record) snaps)"
    and "distinct (map (session_id \<circ> snap_record) snaps)"
    and "\<forall>s \<in> set snaps. dict_get (sessions_by_group st) (group_folder (snap_record s)) = None \<and>
      dict_get (sessions_by_id st) (session_id (snap_record s)) = None"
    and "s \<in> set snaps" "status (snap_record s) \<in> active_recoverable_statuses"
  shows "recovered_from (fold recover_snapshot snaps st) s"
  using assms
proof (induction snaps arbitrary: st)
  case (Cons s' snaps)
  have keep: "recovered_from (fold recover_snapshot xs st'') s"
    if "service_ok st''" "recovered_from st'' s" "\<forall>x \<in> set xs. group_folder (snap_record x) \<noteq> group_folder (snap_record s)"
    for xs st''
    using that
    by (induction xs arbitrary: st'') (auto intro: recover_snapshot_keeps recover_snapshot_ok)
  show ?case
  proof (cases "s = s'")
    case True
    have "0 \<le> service_max_bytes st" using Cons.prems(1) by (simp add: service_ok_def heap_ok_def)
    with Cons.prems True have "recovered_from (recover_snapshot s' st) s"
      by (auto intro: recover_snapshot_recovers)
    moreover have "\<forall>x \<in> set snaps. group_folder (snap_record x) \<noteq> group_folder (snap_record s)"
      using Cons.prems(2) True by (auto simp: image_iff)
    ultimately show ?thesis using keep recover_snapshot_ok [OF Cons.prems(1)] by simp
  next
    case False
    then have s: "s \<in> set snaps" using Cons.prems(5) by simp
    have "\<forall>s \<in> set snaps. dict_get (sessions_by_group (recover_snapshot s' st)) (group_folder (snap_record s)) = None \<and>
        dict_get (sessions_by_id (recover_snapshot s' st)) (session_id (snap_record s)) = None"
      using Cons.prems(2-4) by (force intro!: recover_snapshot_fresh)
    with Cons.IH [OF recover_snapshot_ok [OF Cons.prems(1)]] Cons.prems s show ?thesis by simp
  qed
qed simp

definition snapshots_apart :: "history_snapshot list \<Rightarrow> bool" where
  "snapshots_apart snaps \<longleftrightarrow>
     distinct (map (group_folder \<circ> snap_record) snaps) \<and> distinct (map (session_id \<circ> snap_record) snaps)"

lemma started_service_recovers:
  assumes "disk = (initial_service timeout mb base strs)\<lparr>history_files := files\<rparr>"
    and "snapshots_apart (list_persisted_history_snapshots disk)" "s \<in> set (list_persisted_history_snapshots disk)"
    and "status (snap_record s) \<in> active_recoverable_statuses"
  shows "recovered_from (started_service timeout mb base strs files) s"
  unfolding started_service_def recover_active_sessions_from_persisted_snapshots_def assms(1) [symmetric]
  using initial_service_ok assms unfolding snapshots_apart_def
  by (intro fold_recover_snapshot) (auto simp: initial_service_def)

text \<open>A folder that is a single name, and a root as \<open>resolve\<close> gives it.\<close>

definition plain_folder :: "string \<Rightarrow> bool" where
  "plain_folder folder \<longleftrightarrow> folder \<notin> {[], ''.'', ''..''} \<and> CHR ''/'' \<notin> set folder \<and> CHR 0x00 \<notin> set folder"

definition resolved_root :: "path \<Rightarrow> bool" where
  "resolved_root base \<longleftrightarrow> ''..'' \<notin> set base \<and> list_all (\<lambda>n. CHR 0x00 \<notin> set n) base"

lemma history_path_of_plain_folder:
  assumes "plain_folder folder" "resolved_root base"
  shows "history_snapshot_path base folder = Some (base @ [folder, ''latest.json''])"
proof -
  have "py_split (CHR ''/'') folder = [folder]"
    using assms(1) by (intro py_split_none) (simp add: plain_folder_def)
  then have "path_join base folder = base @ [folder]"
    using assms(1) by (cases folder)
      (auto simp: plain_folder_def path_join_def path_absolute_def path_parts_def py_startswith_def)
  moreover have "plain_resolve (base @ [folder, ''latest.json'']) = base @ [folder, ''latest.json'']"
  proof -
    have "''..'' \<notin> set (base @ [folder, ''latest.json''])" using assms by (auto simp: plain_folder_def resolved_root_def)
    from plain_resolve_clean [OF this, of "[]"] show ?thesis by simp
  qed
  ultimately show ?thesis
    using assms by (simp add: history_snapshot_path_def checked_place_def history_filename_def plain_folder_def
        resolved_root_def)
qed

lemma persisted_latest_text:
  assumes "history_snapshot_path (history_root disk) (group_folder (snap_record s)) = Some p"
    and "status (snap_record s) \<notin> terminal_archive_statuses"
  shows "dict_get (history_files (persist_history_snapshot s disk)) p = Some (snapshot_text s)"
  using assms by (simp add: persist_history_snapshot_def write_snapshot_payload_def Let_def)

lemma listed_snapshot:
  assumes "plain_folder folder" "resolved_root (history_root disk)"
    and "dict_get (history_files disk) (history_root disk @ [folder, ''latest.json'']) = Some (snapshot_text s)" "storable s"
  shows "s \<in> set (list_persisted_history_snapshots disk)"
proof -
  have "load_persisted_history_snapshot disk folder = Some s"
    using history_path_of_plain_folder [OF assms(1,2)] assms(3) snapshot_read_back [OF assms(4)]
    by (simp add: load_persisted_history_snapshot_def load_persisted_history_snapshot_from_path_def)
  moreover have "folder \<in> set (workspace_dirs disk)"
    using map_of_SomeD [OF assms(3)] by (force simp: workspace_dirs_def Let_def List.map_filter_def)
  ultimately show ?thesis unfolding list_persisted_history_snapshots_def List.map_filter_def by force
qed

text \<open>C10: A live session survives a restart. Let its snapshot be written by the service's own write, and be
what the workspace's file still holds when the service starts again on the same root with the same byte
limit. Then the JSON text is read, accepted and listed, and the session is back: same record, now detached
and without a deadline, no bridge, and the same output. The times have to be in the calendar and the
identifiers not empty, and no other workspace's file may claim the same folder or session.\<close>

theorem session_survives_restart:
  assumes st: "reachable_service st" "lookup_group st folder = Some (r, m)"
      "status (managed_record m) \<notin> {Closed, Exited}"
    and snapshot: "snapshot = build_history_snapshot st now m" "storable snapshot"
    and place: "plain_folder folder" "resolved_root base"
    and kept: "history_root disk = base"
      "dict_get files (base @ [folder, ''latest.json'']) =
       dict_get (history_files (persist_history_snapshot snapshot disk)) (base @ [folder, ''latest.json''])"
    and apart: "snapshots_apart (list_persisted_history_snapshots
      ((initial_service timeout (service_max_bytes st) base strs)\<lparr>history_files := files\<rparr>))"
  shows "\<exists>r' m'. lookup_group (started_service timeout (service_max_bytes st) base strs files) folder = Some (r', m') \<and>
    managed_record m' = (managed_record m)\<lparr>status := Detached, reconnect_deadline := None\<rparr> \<and>
    bridge m' = None \<and> concat (output_history_chunks m') = concat (output_history_chunks m)"
proof -
  let ?disk = "(initial_service timeout (service_max_bytes st) base strs)\<lparr>history_files := files\<rparr>"
  have ok: "service_ok st" by (rule reachable_invariant [OF st(1)])
  from lookup_groupD [OF st(2)] have at: "dict_get (sessions_by_group st) folder = Some r" "heap st r = Some m"
    by auto
  have mb: "service_max_bytes (fold recover_snapshot snaps st') = service_max_bytes st'" for snaps st'
    by (induction snaps arbitrary: st') (simp_all add: recover_snapshot_def Let_def)
  have "0 \<le> service_max_bytes st" using ok by (simp add: service_ok_def heap_ok_def)
  then have limit: "service_max_bytes (started_service timeout (service_max_bytes st) base strs files) = service_max_bytes st"
    by (simp add: started_service_def recover_active_sessions_from_persisted_snapshots_def mb initial_service_def)
  have "history_ok (service_max_bytes st) m" using ok at by (simp add: service_ok_def heap_ok_def)
  then have fits: "int (utf8_len (snap_output snapshot)) \<le> service_max_bytes st"
    by (simp add: snapshot build_history_snapshot_def utf8_len_concat history_ok_def)
  have folder: "group_folder (managed_record m) = folder"
    using ok at by (auto simp: service_ok_def dest: index_okD(1))
  have alive: "status (snap_record snapshot) \<in> active_recoverable_statuses"
    using st(3) by (cases "status (managed_record m)")
      (auto simp: active_recoverable_statuses_def snapshot build_history_snapshot_def)
  have "history_snapshot_path (history_root disk) (group_folder (snap_record snapshot)) = Some (base @ [folder, ''latest.json''])"
    using history_path_of_plain_folder [OF place] kept(1) folder by (simp add: snapshot build_history_snapshot_def)
  from persisted_latest_text [OF this] alive kept(2)
  have "dict_get files (base @ [folder, ''latest.json'']) = Some (snapshot_text snapshot)"
    by (simp add: recoverable_or_archived)
  then have "snapshot \<in> set (list_persisted_history_snapshots ?disk)"
    using place snapshot(2) by (intro listed_snapshot) (simp_all add: initial_service_def)
  from started_service_recovers [OF refl apart this alive] fits limit folder
  show ?thesis by (auto simp: recovered_from_def snapshot build_history_snapshot_def)
qed

lemma session_survives_restart_witness:
  "\<exists>r m files. files = history_files (persist_history_snapshot
       (build_history_snapshot example_service 8 (the (heap example_service 0))) example_service) \<and>
     lookup_group (started_service 9 100 [''data''] (\<lambda>_. []) files) ''f'' = Some (r, m) \<and> bridge m = None"
proof -
  let ?m = "the (heap example_service 0)"
  let ?s = "build_history_snapshot example_service 8 ?m"
  let ?files = "history_files (persist_history_snapshot ?s example_service)"
  let ?disk = "(initial_service 9 100 [''data''] (\<lambda>_. []))\<lparr>history_files := ?files\<rparr>"
  have base: "resolved_root [''data'']" "plain_folder ''f''" "history_root example_service = [''data'']"
    by (simp_all add: resolved_root_def plain_folder_def example_simps)
  have rec: "group_folder (snap_record ?s) = ''f''" "status (snap_record ?s) = Created"
    "history_files example_service = []"
    by (simp_all add: example_simps build_history_snapshot_def)
  have store: "storable ?s"
    by (simp add: storable_def example_simps build_history_snapshot_def in_calendar_def day_of_def)
  have files: "?files = [([''data'', ''f'', ''latest.json''], snapshot_text ?s)]"
    using history_path_of_plain_folder [OF base(2,1)] rec base(3)
    by (simp add: persist_history_snapshot_def write_snapshot_payload_def terminal_archive_statuses_def Let_def)
  have dirs: "workspace_dirs ?disk = [''f'']"
    by (simp add: workspace_dirs_def files initial_service_def List.map_filter_def)
  then have "list_persisted_history_snapshots ?disk = List.map_filter (load_persisted_history_snapshot ?disk) [''f'']"
    by (simp add: list_persisted_history_snapshots_def)
  then have apart: "snapshots_apart (list_persisted_history_snapshots ?disk)"
    by (simp add: snapshots_apart_def List.map_filter_def split: option.split)
  have at: "lookup_group example_service ''f'' = Some (0, ?m)" "status (managed_record ?m) \<notin> {Closed, Exited}"
    and mb: "service_max_bytes example_service = 100"
    by (simp_all add: example_simps)
  from session_survives_restart [OF example_reachable at refl store base(2,1,3) refl, where timeout = 9 and strs = "\<lambda>_. []"]
    apart mb
  show ?thesis by auto
qed

section \<open>The output of a session\<close>

definition output_event :: "string \<Rightarrow> terminal_bridge_event" where
  "output_event chunk =
     \<lparr>bridge_event_type = ''output'', bridge_event_data = Some chunk, bridge_event_exit_code = None,
      bridge_event_error = None\<rparr>"

lemma bridge_output:
  assumes "lookup_id st sid = Some (r, m)"
  shows "lookup_id (fst (bridge_event_locked st sid (output_event c) now)) sid =
      Some (r, append_output_history (service_max_bytes st) m c)"
    and "service_max_bytes (fst (bridge_event_locked st sid (output_event c) now)) = service_max_bytes st"
proof -
  from lookup_idD [OF assms] have "dict_get (sessions_by_id st) sid = Some r" "heap st r = Some m" by auto
  with assms show "lookup_id (fst (bridge_event_locked st sid (output_event c) now)) sid =
      Some (r, append_output_history (service_max_bytes st) m c)"
    by (simp add: bridge_event_locked_def output_event_def lookup_id_def)
  show "service_max_bytes (fst (bridge_event_locked st sid (output_event c) now)) = service_max_bytes st"
    by (simp add: bridge_event_locked_def output_event_def assms)
qed

lemma bridge_outputs:
  "lookup_id st sid = Some (r, m) \<Longrightarrow>
   lookup_id (fold (\<lambda>(c, now) st. fst (bridge_event_locked st sid (output_event c) now)) cs st) sid =
     Some (r, fold (\<lambda>c m. append_output_history (service_max_bytes st) m c) (map fst cs) m)"
proof (induction cs arbitrary: st m)
  case (Cons cn cs)
  obtain c now where cn: "cn = (c, now)" by (cases cn)
  from Cons.IH [OF bridge_output(1) [OF Cons.prems]] bridge_output(2) [OF Cons.prems] cn
  show ?case by simp
qed simp

text \<open>C11: However a bridge splits a session's output into chunks, after any sequence of output
events the history is the longest suffix of the non-empty chunks received, those already kept
included, whose UTF-8 encoding fits into the byte limit.\<close>

theorem output_history_is_longest_suffix:
  assumes "reachable_service st" "0 < service_max_bytes st" "lookup_id st sid = Some (r, m)"
  shows "\<exists>m' dropped.
    lookup_id (fold (\<lambda>(c, now) st. fst (bridge_event_locked st sid (output_event c) now)) cs st) sid =
      Some (r, m') \<and>
    output_history_chunks m @ filter (\<lambda>c. c \<noteq> []) (map fst cs) = dropped @ output_history_chunks m' \<and>
    chunk_bytes (output_history_chunks m') \<le> service_max_bytes st \<and>
    (\<forall>pre kept. output_history_chunks m @ filter (\<lambda>c. c \<noteq> []) (map fst cs) = pre @ kept \<longrightarrow>
       chunk_bytes kept \<le> service_max_bytes st \<longrightarrow> length kept \<le> length (output_history_chunks m'))"
proof -
  let ?m' = "fold (\<lambda>c m. append_output_history (service_max_bytes st) m c) (map fst cs) m"
  let ?all = "output_history_chunks m @ filter (\<lambda>c. c \<noteq> []) (map fst cs)"
  have "history_ok (service_max_bytes st) m"
    using reachable_invariant [OF assms(1)] lookup_idD [OF assms(3)] by (auto simp: service_ok_def heap_ok_def)
  from append_stream [OF assms(2) this]
  have eq: "output_history_chunks ?m' = fitting_suffix (service_max_bytes st) ?all" .
  obtain dropped where "?all = dropped @ output_history_chunks ?m'"
    unfolding eq using fitting_suffix_suffix by blast
  moreover have "chunk_bytes (output_history_chunks ?m') \<le> service_max_bytes st"
    unfolding eq using assms(2) by (intro fitting_suffix_fits) simp
  moreover have "length kept \<le> length (output_history_chunks ?m')"
    if "?all = pre @ kept" "chunk_bytes kept \<le> service_max_bytes st" for pre kept
    unfolding eq using that by (rule fitting_suffix_longest)
  ultimately show ?thesis using bridge_outputs [OF assms(3)] by blast
qed

lemma output_history_is_longest_suffix_witness:
  "\<exists>m'. lookup_id (fold (\<lambda>(c, now) st. fst (bridge_event_locked st ''s'' (output_event c) now))
      [(''ab'', 1), (''cd'', 2)] example_service) ''s'' = Some (0, m')"
proof -
  have "0 < service_max_bytes example_service" "\<exists>m. lookup_id example_service ''s'' = Some (0, m)"
    by (simp_all add: example_simps)
  then obtain m where "0 < service_max_bytes example_service" "lookup_id example_service ''s'' = Some (0, m)"
    by blast
  from output_history_is_longest_suffix [OF example_reachable this] show ?thesis by blast
qed

section \<open>Two gaps in the life cycle\<close>

text \<open>\<open>attach_session\<close> does not look at the status: the owner of a closed session attaches to
it, and the session is attached again over the bridge that closing it has shut down, which is not
started again.\<close>

lemma attach_revives_closed_session:
  assumes "service_ok st" "close_session st sid owner now = (Inr (Some rec), st1)"
    and "lookup_id st sid = Some (r, m)" "bridge m = Some b"
  shows "\<exists>rec2 q st2. attach_begin st1 sid owner now2 factory = (Inr (rec2, q, None), st2) \<and>
    status rec = Closed \<and> status rec2 = Attached \<and>
    bridge_log st2 = bridge_log st @ [Bridge_close b]"
proof -
  from lookup_idD [OF assms(3)] have at: "dict_get (sessions_by_id st) sid = Some r" "heap st r = Some m" by auto
  have own: "require_owned st sid owner = Inr (r, m)"
    using assms(2,3) by (auto simp: close_session_def require_owned_def require_session_def
        require_owner_def split: if_splits)
  have own1: "owner_user_id (managed_record m) = owner" using require_ownedD [OF own] by simp
  let ?m1 = "set_status Closed (m\<lparr>reconnect_task := None, output_queue := None\<rparr>)"
  have st1: "st1 = close_managed r now st" "rec = managed_record ?m1"
    using assms(2) own at by (auto simp: close_session_def Let_def)
  have heap1: "heap st1 r = Some ?m1" using st1 at by simp
  have log1: "bridge_log st1 = bridge_log st @ [Bridge_close b]"
    using st1 at assms(4) by (simp add: close_managed_def Let_def)
  have "require_owned st1 sid owner = Inr (r, ?m1)"
    using st1 at own1 heap1 by (simp add: require_owned_def require_session_def require_owner_def lookup_id_def)
  with heap1 log1 assms(4) st1(2) show ?thesis by (simp add: attach_begin_def Let_def)
qed

lemma attach_revives_closed_session_witness:
  "\<exists>rec2 q st2. attach_begin (snd (close_session example_service ''s'' ''u'' 8)) ''s'' ''u'' 9 None =
     (Inr (rec2, q, None), st2) \<and> status rec2 = Attached"
proof -
  have "service_ok example_service" by (rule reachable_invariant [OF example_reachable])
  moreover have "\<exists>rec st1. close_session example_service ''s'' ''u'' 8 = (Inr (Some rec), st1)"
    by (simp add: example_simps close_session_def require_owned_def require_session_def
        require_owner_def)
  then obtain rec st1 where c: "close_session example_service ''s'' ''u'' 8 = (Inr (Some rec), st1)" by blast
  moreover have "\<exists>m. lookup_id example_service ''s'' = Some (0, m) \<and> bridge m = Some 0"
    by (simp add: example_simps)
  then obtain m where "lookup_id example_service ''s'' = Some (0, m)" "bridge m = Some 0" by blast
  ultimately show ?thesis
    using attach_revives_closed_session [of example_service "''s''" "''u''" 8 rec st1 0 m 0 9 None] by auto
qed

text \<open>When \<open>bridge.start\<close> raises in \<open>create_session\<close>, the session stays registered as created:
the next create of its owner returns it, without starting anything, and everyone else is refused.\<close>

lemma failed_start_keeps_session:
  assumes "create_begin st gid folder owner Mode_container uuid now (Some container) = (Inr (New_session rec b), st1)"
  shows "create_begin st1 gid folder owner2 Mode_container uuid2 now2 factory =
    ((if owner = owner2 then Inr (Existing_session rec) else Inl TerminalSessionConflictError), st1)"
proof -
  have new: "get_current_session st1 folder = Some rec \<and> status rec = Created \<and> owner_user_id rec = owner"
    if "create_new st' gid folder owner bk uuid now (Some container) = (Inr (New_session rec b), st1)" for st' bk
    using create_new_result [of st' gid folder owner bk uuid now container] that by auto
  have "get_current_session st1 folder = Some rec \<and> status rec = Created \<and> owner_user_id rec = owner"
    using assms by (auto simp: create_begin_def dest!: new split: option.splits sum.splits if_splits)
  then show ?thesis by (simp add: create_existing)
qed

lemma failed_start_keeps_session_witness:
  "create_begin example_service ''g'' ''f'' ''v'' Mode_container ''t'' 9 None =
     (Inl TerminalSessionConflictError, example_service)"
proof -
  have "\<exists>rec. create_begin (started_service 60 100 [''data''] (\<lambda>_. []) []) ''g'' ''f'' ''u'' Mode_container ''s'' 5 (Some None) =
      (Inr (New_session rec 0), example_service)"
    by (simp add: example_simps)
  then obtain rec where c: "create_begin (started_service 60 100 [''data''] (\<lambda>_. []) []) ''g'' ''f'' ''u'' Mode_container ''s'' 5 (Some None) =
      (Inr (New_session rec 0), example_service)" by blast
  show ?thesis using failed_start_keeps_session [OF c, of "''v''"] by simp
qed

end
