(* ===== verification/TerminalHistory.thy ===== *)
theory TerminalHistory
  imports TerminalRank TerminalProtocol
begin

text \<open>
  The history queries of the terminal service (\<open>services/terminal_sessions.py\<close>): the snapshots of
  a workspace merged from memory and disk, the shared filter, and the timeline, snapshot, search
  and inventory listings with their pages and errors.

  A query reads the session in memory under the lock and the files afterwards in a worker thread,
  so the definitions take two states: \<open>st\<close> for the memory and \<open>disk\<close> for the files.
\<close>

section \<open>The filter\<close>

fun normalize_snapshot_bound :: "py_datetime option \<Rightarrow> instant option" where
  "normalize_snapshot_bound None = None"
| "normalize_snapshot_bound (Some (Naive t)) = Some t"
| "normalize_snapshot_bound (Some (Aware t utc_offset)) = Some (t - utc_offset)"

record history_filter =
  filter_status :: "terminal_session_status option"
  filter_owner_user_id :: "string option"
  filter_session_id_prefix :: "string option"
  filter_snapshot_from :: "py_datetime option"
  filter_snapshot_to :: "py_datetime option"

definition normalize_optional :: "string option \<Rightarrow> string option" where
  "normalize_optional value =
     (case value of
        None \<Rightarrow> None
      | Some s \<Rightarrow> let stripped = py_strip s in if stripped = [] then None else Some stripped)"

definition filter_keeps :: "history_filter \<Rightarrow> history_snapshot \<Rightarrow> bool" where
  "filter_keeps flt s =
     (if (case filter_status flt of None \<Rightarrow> False | Some x \<Rightarrow> status (snap_record s) \<noteq> x) then False
      else if (case normalize_optional (filter_owner_user_id flt) of None \<Rightarrow> False
               | Some owner \<Rightarrow> owner_user_id (snap_record s) \<noteq> owner) then False
      else if (case normalize_optional (filter_session_id_prefix flt) of None \<Rightarrow> False
               | Some prefix \<Rightarrow> \<not> py_startswith (session_id (snap_record s)) prefix) then False
      else if (case normalize_snapshot_bound (filter_snapshot_from flt) of None \<Rightarrow> False
               | Some t \<Rightarrow> snapshot_at s < t) then False
      else if (case normalize_snapshot_bound (filter_snapshot_to flt) of None \<Rightarrow> False
               | Some t \<Rightarrow> snapshot_at s > t) then False
      else True)"

definition filter_history_snapshots ::
  "history_snapshot list \<Rightarrow> history_filter \<Rightarrow> terminal_error + history_snapshot list" where
  "filter_history_snapshots snapshots flt =
     (case (normalize_snapshot_bound (filter_snapshot_from flt),
            normalize_snapshot_bound (filter_snapshot_to flt)) of
        (Some from_t, Some to_t) \<Rightarrow>
          if from_t > to_t
          then Inl (ValueError ''snapshot_from must be less than or equal to snapshot_to'')
          else Inr (filter (filter_keeps flt) snapshots)
      | _ \<Rightarrow> Inr (filter (filter_keeps flt) snapshots))"

section \<open>The snapshots of a workspace\<close>

definition dedupe_step ::
  "history_snapshot \<Rightarrow> (string, history_snapshot) dict \<Rightarrow> (string, history_snapshot) dict" where
  "dedupe_step snapshot snapshots_by_session =
     (case dict_get snapshots_by_session (session_id (snap_record snapshot)) of
        None \<Rightarrow> dict_set (session_id (snap_record snapshot)) snapshot snapshots_by_session
      | Some existing \<Rightarrow>
          if snapshot_at snapshot > snapshot_at existing
          then dict_set (session_id (snap_record snapshot)) snapshot snapshots_by_session
          else snapshots_by_session)"

definition dedupe_timeline_snapshots ::
  "history_snapshot option \<Rightarrow> history_snapshot option \<Rightarrow> history_snapshot list \<Rightarrow> history_snapshot list" where
  "dedupe_timeline_snapshots in_memory latest archived =
     map snd (fold dedupe_step (List.map_filter id ([in_memory, latest] @ map Some archived)) [])"

definition timeline_key :: "history_snapshot \<Rightarrow> instant \<times> string" where
  "timeline_key s = (snapshot_at s, session_id (snap_record s))"

text \<open>\<open>list.sort\<close> with \<open>reverse=True\<close> keeps the order of equal elements.\<close>

definition list_merged_history_snapshots_by_group ::
  "terminal_service \<Rightarrow> terminal_service \<Rightarrow> string \<Rightarrow> instant \<Rightarrow> terminal_error + history_snapshot list" where
  "list_merged_history_snapshots_by_group st disk folder now =
     (let in_memory = map_option (build_history_snapshot st now \<circ> snd) (lookup_group st folder);
          snapshots = dedupe_timeline_snapshots in_memory (load_persisted_history_snapshot disk folder)
                        (list_persisted_history_archived_snapshots disk folder)
      in if snapshots = [] then Inl TerminalSessionNotFoundError
         else Inr (rev (sort_key timeline_key (rev snapshots))))"

definition get_history_by_group ::
  "terminal_service \<Rightarrow> terminal_service \<Rightarrow> string \<Rightarrow> instant \<Rightarrow> terminal_error + history_snapshot" where
  "get_history_by_group st disk folder now =
     (case lookup_group st folder of
        Some (_, m) \<Rightarrow> Inr (build_history_snapshot st now m)
      | None \<Rightarrow>
          (case load_persisted_history_snapshot disk folder of
             None \<Rightarrow> Inl TerminalSessionNotFoundError
           | Some persisted \<Rightarrow> Inr persisted))"

definition get_history_snapshot_by_group ::
  "terminal_service \<Rightarrow> terminal_service \<Rightarrow> string \<Rightarrow> string \<Rightarrow> instant \<Rightarrow> terminal_error + history_snapshot" where
  "get_history_snapshot_by_group st disk folder sid now =
     (let normalized_session_id = py_strip sid in
      if normalized_session_id = [] then Inl TerminalSessionNotFoundError
      else
        (case list_merged_history_snapshots_by_group st disk folder now of
           Inl e \<Rightarrow> Inl e
         | Inr snapshots \<Rightarrow>
             (case find (\<lambda>s. session_id (snap_record s) = normalized_session_id) snapshots of
                None \<Rightarrow> Inl TerminalSessionNotFoundError
              | Some s \<Rightarrow> Inr s)))"

section \<open>Listings of one workspace\<close>

text \<open>The part the listings share: load, filter, and fail when nothing is left.\<close>

definition list_history_snapshots_by_group ::
  "terminal_service \<Rightarrow> terminal_service \<Rightarrow> string \<Rightarrow> instant \<Rightarrow> history_filter \<Rightarrow>
   terminal_error + history_snapshot list" where
  "list_history_snapshots_by_group st disk folder now flt =
     (case list_merged_history_snapshots_by_group st disk folder now of
        Inl e \<Rightarrow> Inl e
      | Inr snapshots \<Rightarrow>
          (case filter_history_snapshots snapshots flt of
             Inl e \<Rightarrow> Inl e
           | Inr [] \<Rightarrow> Inl TerminalSessionNotFoundError
           | Inr filtered \<Rightarrow> Inr filtered))"

definition check_page :: "int \<Rightarrow> int \<Rightarrow> terminal_error + unit" where
  "check_page limit offset =
     (if limit \<le> 0 then Inl (ValueError ''limit must be positive'')
      else if offset < 0 then Inl (ValueError ''offset must be non-negative'')
      else Inr ())"

definition page_of :: "'a list \<Rightarrow> int \<Rightarrow> int \<Rightarrow> 'a history_page" where
  "page_of items limit offset =
     \<lparr>page_limit = limit, page_offset = offset, page_total = int (length items),
      page_has_more = offset + limit < int (length items),
      page_items = py_slice items (nat offset) (nat (offset + limit))\<rparr>"

text \<open>The timeline page leaves out the total.\<close>

definition list_history_timeline_by_group ::
  "terminal_service \<Rightarrow> terminal_service \<Rightarrow> string \<Rightarrow> instant \<Rightarrow> int \<Rightarrow> int \<Rightarrow> history_filter \<Rightarrow>
   terminal_error + history_summary history_page" where
  "list_history_timeline_by_group st disk folder now limit offset flt =
     (case check_page limit offset of
        Inl e \<Rightarrow> Inl e
      | Inr _ \<Rightarrow>
          (case list_history_snapshots_by_group st disk folder now flt of
             Inl e \<Rightarrow> Inl e
           | Inr filtered \<Rightarrow> Inr (page_of (map to_history_summary filtered) limit offset)))"

definition list_history_snapshot_page_by_group ::
  "terminal_service \<Rightarrow> terminal_service \<Rightarrow> string \<Rightarrow> instant \<Rightarrow> int \<Rightarrow> int \<Rightarrow> history_filter \<Rightarrow>
   terminal_error + history_snapshot history_page" where
  "list_history_snapshot_page_by_group st disk folder now limit offset flt =
     (case check_page limit offset of
        Inl e \<Rightarrow> Inl e
      | Inr _ \<Rightarrow>
          (case list_history_snapshots_by_group st disk folder now flt of
             Inl e \<Rightarrow> Inl e
           | Inr filtered \<Rightarrow> Inr (page_of filtered limit offset)))"

definition check_snippets :: "int \<Rightarrow> int \<Rightarrow> terminal_error + unit" where
  "check_snippets snippet_limit snippet_context_chars =
     (if snippet_limit \<le> 0 then Inl (ValueError ''snippet_limit must be positive'')
      else if snippet_context_chars < 0 then Inl (ValueError ''snippet_context_chars must be non-negative'')
      else Inr ())"

text \<open>The page carries the normalized query besides the page fields.\<close>

definition search_history_by_group ::
  "terminal_service \<Rightarrow> terminal_service \<Rightarrow> string \<Rightarrow> instant \<Rightarrow> string \<Rightarrow> int \<Rightarrow> int \<Rightarrow> string \<Rightarrow>
   history_filter \<Rightarrow> int \<Rightarrow> int \<Rightarrow> terminal_error + string \<times> history_search_match history_page" where
  "search_history_by_group st disk folder now query limit offset sort_by flt snippet_limit snippet_context_chars =
     (let normalized_query = py_strip query in
      case normalize_search_sort sort_by of
        Inl e \<Rightarrow> Inl e
      | Inr normalized_sort \<Rightarrow>
          if normalized_query = [] then Inl (ValueError ''query must not be empty'')
          else
            (case check_page limit offset of
               Inl e \<Rightarrow> Inl e
             | Inr _ \<Rightarrow>
                 (case check_snippets snippet_limit snippet_context_chars of
                    Inl e \<Rightarrow> Inl e
                  | Inr _ \<Rightarrow>
                      (case list_history_snapshots_by_group st disk folder now flt of
                         Inl e \<Rightarrow> Inl e
                       | Inr filtered \<Rightarrow>
                           Inr (normalized_query,
                                page_of (search_history_snapshots filtered normalized_query normalized_sort
                                           (nat snippet_limit) (nat snippet_context_chars)) limit offset)))))"

section \<open>Listings over all workspaces\<close>

definition list_sessions :: "terminal_service \<Rightarrow> terminal_session_record list" where
  "list_sessions st =
     sort_key (\<lambda>r. (group_folder r, session_id r))
       (map managed_record (List.map_filter (heap st \<circ> snd) (sessions_by_group st)))"

definition merge_latest ::
  "history_snapshot list \<Rightarrow> history_snapshot list \<Rightarrow> (string, history_snapshot) dict" where
  "merge_latest in_memory persisted =
     fold (\<lambda>s d. if dict_get d (group_folder (snap_record s)) \<noteq> None then d
                 else dict_set (group_folder (snap_record s)) s d) persisted
       (fold (\<lambda>s. dict_set (group_folder (snap_record s)) s) in_memory [])"

definition list_latest_history_snapshots :: "terminal_service \<Rightarrow> instant \<Rightarrow> history_snapshot list" where
  "list_latest_history_snapshots st now =
     sort_key (\<lambda>s. (group_folder (snap_record s), session_id (snap_record s)))
       (map snd (merge_latest
          (map (build_history_snapshot st now) (List.map_filter (heap st \<circ> snd) (sessions_by_group st)))
          (list_persisted_history_snapshots st)))"

definition list_history_summaries :: "terminal_service \<Rightarrow> instant \<Rightarrow> history_summary list" where
  "list_history_summaries st now =
     sort_key (\<lambda>s. (group_folder (sum_record s), session_id (sum_record s)))
       (map (to_history_summary \<circ> snd) (merge_latest
          (map (build_history_snapshot st now) (List.map_filter (heap st \<circ> snd) (sessions_by_group st)))
          (list_persisted_history_snapshots st)))"

definition list_history_snapshot_archives_by_groups ::
  "terminal_service \<Rightarrow> terminal_service \<Rightarrow> string list \<Rightarrow> instant \<Rightarrow> history_filter \<Rightarrow>
   terminal_error + (string, history_snapshot list) dict" where
  "list_history_snapshot_archives_by_groups st disk group_folders now flt =
     (case filter_history_snapshots [] flt of
        Inl e \<Rightarrow> Inl e
      | Inr _ \<Rightarrow>
          let normalized = sort (remdups (filter (\<lambda>g. g \<noteq> []) (map py_strip group_folders)));
              load = (\<lambda>g. case list_merged_history_snapshots_by_group st disk g now of
                            Inl _ \<Rightarrow> []
                          | Inr items \<Rightarrow> filter (filter_keeps flt) items)
          in Inr (filter (\<lambda>(g, items). items \<noteq> []) (map (\<lambda>g. (g, load g)) normalized)))"

section \<open>The filter keeps what matches\<close>

lemma filter_keeps_iff:
  "filter_keeps flt s \<longleftrightarrow>
     (\<forall>x. filter_status flt = Some x \<longrightarrow> status (snap_record s) = x) \<and>
     (\<forall>x. normalize_optional (filter_owner_user_id flt) = Some x \<longrightarrow> owner_user_id (snap_record s) = x) \<and>
     (\<forall>x. normalize_optional (filter_session_id_prefix flt) = Some x \<longrightarrow>
        py_startswith (session_id (snap_record s)) x) \<and>
     (\<forall>t. normalize_snapshot_bound (filter_snapshot_from flt) = Some t \<longrightarrow> t \<le> snapshot_at s) \<and>
     (\<forall>t. normalize_snapshot_bound (filter_snapshot_to flt) = Some t \<longrightarrow> snapshot_at s \<le> t)"
  by (auto simp: filter_keeps_def not_less split: option.splits)

lemma filter_result:
  "filter_history_snapshots snaps flt = Inr xs \<Longrightarrow> xs = filter (filter_keeps flt) snaps"
  by (auto simp: filter_history_snapshots_def split: option.splits if_splits)

lemma filter_error_iff:
  "(\<exists>e. filter_history_snapshots snaps flt = Inl e) \<longleftrightarrow>
     (\<exists>f t. normalize_snapshot_bound (filter_snapshot_from flt) = Some f \<and>
        normalize_snapshot_bound (filter_snapshot_to flt) = Some t \<and> f > t)"
  by (auto simp: filter_history_snapshots_def split: option.splits)

section \<open>The merged snapshots\<close>

text \<open>Deduplication keeps, per session, the first of the newest snapshots.\<close>

definition newest_first :: "(string, history_snapshot) dict \<Rightarrow> history_snapshot list \<Rightarrow> bool" where
  "newest_first d snaps \<longleftrightarrow> dict_ok d \<and>
     (\<forall>k s. dict_get d k = Some s \<longrightarrow> session_id (snap_record s) = k \<and> s \<in> set snaps) \<and>
     (\<forall>s \<in> set snaps. \<exists>t. dict_get d (session_id (snap_record s)) = Some t \<and> snapshot_at s \<le> snapshot_at t)"

lemma newest_firstD:
  assumes "newest_first d snaps"
  shows "dict_ok d" "dict_get d k = Some s \<Longrightarrow> session_id (snap_record s) = k \<and> s \<in> set snaps"
    and "s \<in> set snaps \<Longrightarrow>
      \<exists>t. dict_get d (session_id (snap_record s)) = Some t \<and> snapshot_at s \<le> snapshot_at t"
  using assms unfolding newest_first_def by blast+

lemma newest_first_step:
  assumes "newest_first d snaps"
  shows "newest_first (dedupe_step s d) (snaps @ [s])"
proof -
  note D = newest_firstD [OF assms]
  let ?k = "session_id (snap_record s)"
  consider (keep) t where "dict_get d ?k = Some t" "snapshot_at s \<le> snapshot_at t" "dedupe_step s d = d"
    | (set) "dedupe_step s d = dict_set ?k s d" "\<And>t. dict_get d ?k = Some t \<Longrightarrow> snapshot_at t < snapshot_at s"
    by (cases "dict_get d ?k"; cases "\<exists>t. dict_get d ?k = Some t \<and> snapshot_at s \<le> snapshot_at t")
      (auto simp: dedupe_step_def not_le intro: that)
  then show ?thesis
  proof cases
    case keep
    then show ?thesis using D by (simp add: newest_first_def)
  next
    case set
    have newer: "\<exists>t. ((dict_get d)(?k \<mapsto> s)) (session_id (snap_record u)) = Some t \<and> snapshot_at u \<le> snapshot_at t"
      if "u \<in> set snaps" for u
    proof (cases "session_id (snap_record u) = ?k")
      case True
      from D(3) [OF that] True set(2) show ?thesis by fastforce
    next
      case False
      with D(3) [OF that] show ?thesis by simp
    qed
    show ?thesis
      unfolding newest_first_def set(1) dict_get_set
      using D(1,2) newer by auto
  qed
qed

lemma newest_first_fold:
  "newest_first d snaps \<Longrightarrow> newest_first (fold dedupe_step xs d) (snaps @ xs)"
proof (induction xs arbitrary: d snaps)
  case (Cons x xs)
  from Cons.IH [OF newest_first_step [OF Cons.prems, of x]] show ?case by simp
qed simp

definition candidates :: "terminal_service \<Rightarrow> terminal_service \<Rightarrow> string \<Rightarrow> instant \<Rightarrow> history_snapshot set" where
  "candidates st disk folder now =
     {build_history_snapshot st now m |r m. lookup_group st folder = Some (r, m)} \<union>
     set_option (load_persisted_history_snapshot disk folder) \<union>
     set (list_persisted_history_archived_snapshots disk folder)"

lemma set_dedupe_input:
  "set (List.map_filter id ([a, b] @ map Some xs)) = set_option a \<union> set_option b \<union> set xs"
  by (cases a; cases b) (auto simp: List.map_filter_def image_iff)

lemma dedupe_newest:
  "newest_first (fold dedupe_step xs []) xs"
  using newest_first_fold [of "[]" "[]" xs] by (simp add: newest_first_def)

lemma dict_values_distinct:
  assumes "newest_first d snaps"
  shows "distinct (map (session_id \<circ> snap_record) (map snd d))"
proof -
  have "session_id (snap_record s) = k" if "(k, s) \<in> set d" for k s
    using newest_firstD(1,2) [OF assms] that by (metis dict_items)
  then have "map (session_id \<circ> snap_record) (map snd d) = map fst d"
    by (auto intro!: map_cong)
  with newest_firstD(1) [OF assms] show ?thesis by (simp only:)
qed

lemma newest_first_values:
  assumes "newest_first d snaps" "mset xs = mset (map snd d)"
  shows "set xs \<subseteq> set snaps \<and> distinct (map (session_id \<circ> snap_record) xs) \<and>
    (\<forall>s \<in> set snaps. \<exists>t \<in> set xs.
       session_id (snap_record t) = session_id (snap_record s) \<and> snapshot_at s \<le> snapshot_at t)"
proof (intro conjI ballI)
  note D = newest_firstD [OF assms(1)]
  have set: "set xs = snd ` set d" using assms(2) by (metis set_map set_mset_mset)
  show "set xs \<subseteq> set snaps"
  proof
    fix s assume "s \<in> set xs"
    then obtain k where "(k, s) \<in> set d" by (auto simp: set)
    then have "dict_get d k = Some s" using dict_items [OF D(1)] by blast
    from D(2) [OF this] show "s \<in> set snaps" by blast
  qed
  have "mset (map (session_id \<circ> snap_record) xs) = mset (map (session_id \<circ> snap_record) (map snd d))"
    using assms(2) by (metis mset_map)
  with dict_values_distinct [OF assms(1)] show "distinct (map (session_id \<circ> snap_record) xs)"
    using mset_eq_imp_distinct_iff by blast
  fix s assume "s \<in> set snaps"
  from D(3) [OF this] obtain t where t: "dict_get d (session_id (snap_record s)) = Some t"
    "snapshot_at s \<le> snapshot_at t" by blast
  have "t \<in> set xs" unfolding set using map_of_SomeD [OF t(1)] by force
  with D(2) [OF t(1)] t(2) show "\<exists>t \<in> set xs.
      session_id (snap_record t) = session_id (snap_record s) \<and> snapshot_at s \<le> snapshot_at t" by blast
qed

lemma merged_result:
  assumes "list_merged_history_snapshots_by_group st disk folder now = Inr xs"
  shows "xs \<noteq> [] \<and> sorted (map timeline_key (rev xs)) \<and> set xs \<subseteq> candidates st disk folder now \<and>
    distinct (map (session_id \<circ> snap_record) xs) \<and>
    (\<forall>s \<in> candidates st disk folder now. \<exists>t \<in> set xs.
       session_id (snap_record t) = session_id (snap_record s) \<and> snapshot_at s \<le> snapshot_at t)"
proof -
  let ?ins = "List.map_filter id
    ([map_option (build_history_snapshot st now \<circ> snd) (lookup_group st folder),
      load_persisted_history_snapshot disk folder] @
     map Some (list_persisted_history_archived_snapshots disk folder))"
  have in_set: "set ?ins = candidates st disk folder now"
    unfolding set_dedupe_input candidates_def by (cases "lookup_group st folder") auto
  obtain d where d: "newest_first d ?ins" and ne: "d \<noteq> []"
    and xs: "xs = rev (sort_key timeline_key (rev (map snd d)))"
    using assms dedupe_newest [of ?ins]
    by (simp add: list_merged_history_snapshots_by_group_def dedupe_timeline_snapshots_def Let_def
        split: if_splits del: append_Cons)
  have "mset xs = mset (map snd d)" by (simp add: xs)
  from newest_first_values [OF d this] in_set
  have "set xs \<subseteq> candidates st disk folder now \<and> distinct (map (session_id \<circ> snap_record) xs) \<and>
    (\<forall>s \<in> candidates st disk folder now. \<exists>t \<in> set xs.
       session_id (snap_record t) = session_id (snap_record s) \<and> snapshot_at s \<le> snapshot_at t)" by simp
  moreover have "xs \<noteq> []" using ne by (metis xs length_0_conv length_map length_rev length_sort)
  moreover have "sorted (map timeline_key (rev xs))" by (simp add: xs)
  ultimately show ?thesis by blast
qed

text \<open>The merged history of a workspace (memory, latest file and archive) has each session
exactly once, with a newest snapshot of it, and lists them newest first; no session of the three
sources is missing, and nothing else is listed.\<close>

theorem merged_history_newest_per_session:
  assumes "list_merged_history_snapshots_by_group st disk folder now = Inr xs"
  shows "distinct (map (session_id \<circ> snap_record) xs) \<and> sorted (rev (map timeline_key xs)) \<and>
    set xs \<subseteq> candidates st disk folder now \<and>
    (\<forall>s \<in> candidates st disk folder now. \<exists>t \<in> set xs.
       session_id (snap_record t) = session_id (snap_record s) \<and> snapshot_at s \<le> snapshot_at t)"
  using merged_result [OF assms] by (simp add: rev_map)

lemma merged_history_newest_per_session_witness:
  "\<exists>xs. list_merged_history_snapshots_by_group example_service example_service ''f'' 9 = Inr xs \<and>
     distinct (map (session_id \<circ> snap_record) xs)"
proof -
  have "\<exists>xs. list_merged_history_snapshots_by_group example_service example_service ''f'' 9 = Inr xs"
    by (simp add: list_merged_history_snapshots_by_group_def dedupe_timeline_snapshots_def example_simps
        List.map_filter_def load_persisted_history_snapshot_def load_persisted_history_snapshot_from_path_def dedupe_step_def
        list_persisted_history_archived_snapshots_def history_archive_snapshots_root_def checked_place_def)
  then show ?thesis using merged_history_newest_per_session by blast
qed

section \<open>Pages\<close>

lemma page_of_items:
  "check_page limit offset = Inr () \<Longrightarrow>
   page_items (page_of xs limit offset) = take (nat limit) (drop (nat offset) xs)"
  by (auto simp: check_page_def page_of_def py_slice_def nat_add_distrib split: if_splits)

text \<open>The pages that a client gets by asking on from an offset as long as there is more.\<close>

function follow_pages :: "'a list \<Rightarrow> int \<Rightarrow> int \<Rightarrow> 'a list" where
  "follow_pages xs limit offset =
     (let page = page_of xs limit offset in
      if page_has_more page \<and> 0 < limit
      then page_items page @ follow_pages xs limit (offset + limit)
      else page_items page)"
  by pat_completeness auto
termination
  by (relation "measure (\<lambda>(xs, limit, offset). nat (int (length xs) - offset))")
    (auto simp: page_of_def)

declare follow_pages.simps [simp del]

lemma follow_pages_all:
  "0 < limit \<Longrightarrow> 0 \<le> offset \<Longrightarrow> follow_pages xs limit offset = drop (nat offset) xs"
proof (induction xs limit offset rule: follow_pages.induct)
  case (1 xs limit offset)
  let ?page = "page_of xs limit offset"
  have items: "page_items ?page = take (nat limit) (drop (nat offset) xs)"
    using 1 by (intro page_of_items) (simp add: check_page_def)
  show ?case
  proof (cases "page_has_more ?page")
    case True
    with 1 have "follow_pages xs limit (offset + limit) = drop (nat (offset + limit)) xs" by simp
    with True items 1 show ?thesis
      by (subst follow_pages.simps)
        (simp add: Let_def nat_add_distrib add.commute [of "nat offset"] flip: drop_drop)
  next
    case False
    with 1 have "length (drop (nat offset) xs) \<le> nat limit" by (auto simp: page_of_def)
    with False items show ?thesis by (subst follow_pages.simps) (simp add: Let_def)
  qed
qed

text \<open>The history filter: an interval whose lower bound is above its upper bound is refused;
otherwise the result is, in order, the snapshots whose status, owner and id prefix (blank ones
count as absent) match and whose time lies in the interval, naive bounds read as UTC.\<close>

lemma filter_history_spec:
  "filter_history_snapshots snaps flt =
     (if \<exists>f t. normalize_snapshot_bound (filter_snapshot_from flt) = Some f \<and>
               normalize_snapshot_bound (filter_snapshot_to flt) = Some t \<and> t < f
      then Inl (ValueError ''snapshot_from must be less than or equal to snapshot_to'')
      else Inr (filter (\<lambda>s.
        filter_status flt \<in> {None, Some (status (snap_record s))} \<and>
        normalize_optional (filter_owner_user_id flt) \<in> {None, Some (owner_user_id (snap_record s))} \<and>
        py_startswith (session_id (snap_record s))
          (case normalize_optional (filter_session_id_prefix flt) of None \<Rightarrow> [] | Some p \<Rightarrow> p) \<and>
        (case normalize_snapshot_bound (filter_snapshot_from flt) of None \<Rightarrow> True | Some t \<Rightarrow> t \<le> snapshot_at s) \<and>
        (case normalize_snapshot_bound (filter_snapshot_to flt) of None \<Rightarrow> True | Some t \<Rightarrow> snapshot_at s \<le> t)) snaps))"
proof -
  have keeps: "filter_keeps flt = (\<lambda>s.
        filter_status flt \<in> {None, Some (status (snap_record s))} \<and>
        normalize_optional (filter_owner_user_id flt) \<in> {None, Some (owner_user_id (snap_record s))} \<and>
        py_startswith (session_id (snap_record s))
          (case normalize_optional (filter_session_id_prefix flt) of None \<Rightarrow> [] | Some p \<Rightarrow> p) \<and>
        (case normalize_snapshot_bound (filter_snapshot_from flt) of None \<Rightarrow> True | Some t \<Rightarrow> t \<le> snapshot_at s) \<and>
        (case normalize_snapshot_bound (filter_snapshot_to flt) of None \<Rightarrow> True | Some t \<Rightarrow> snapshot_at s \<le> t))"
    by (rule ext, cases "filter_status flt"; cases "normalize_optional (filter_owner_user_id flt)";
        cases "normalize_optional (filter_session_id_prefix flt)")
      (auto simp: filter_keeps_iff py_startswith_def split: option.splits)
  show ?thesis
    unfolding keeps [symmetric]
    by (auto simp: filter_history_snapshots_def split: option.splits)
qed

text \<open>Paging loses and repeats nothing: whatever the page size, a client that asks on from
offset 0 as long as \<open>has_more\<close> gets exactly the filtered history, in order; every page reports the
full total.\<close>

theorem pages_partition_history:
  assumes "list_history_snapshots_by_group st disk folder now flt = Inr xs" "0 < limit" "0 \<le> offset"
  shows "follow_pages xs limit 0 = xs \<and>
    list_history_snapshot_page_by_group st disk folder now limit offset flt = Inr (page_of xs limit offset) \<and>
    page_total (page_of xs limit offset) = int (length xs) \<and>
    page_items (page_of xs limit offset) = take (nat limit) (drop (nat offset) xs)"
proof -
  have ok: "check_page limit offset = Inr ()" using assms(2,3) by (simp add: check_page_def)
  with page_of_items [OF ok, of xs] assms show ?thesis
    by (simp add: follow_pages_all list_history_snapshot_page_by_group_def page_of_def)
qed

lemma pages_partition_history_witness:
  "\<exists>xs. list_history_snapshots_by_group example_service example_service ''f'' 9
      \<lparr>filter_status = None, filter_owner_user_id = None, filter_session_id_prefix = None,
       filter_snapshot_from = None, filter_snapshot_to = None\<rparr> = Inr xs \<and> follow_pages xs 2 0 = xs"
proof -
  have "\<exists>xs. list_history_snapshots_by_group example_service example_service ''f'' 9
      \<lparr>filter_status = None, filter_owner_user_id = None, filter_session_id_prefix = None,
       filter_snapshot_from = None, filter_snapshot_to = None\<rparr> = Inr xs"
    by (simp add: list_history_snapshots_by_group_def list_merged_history_snapshots_by_group_def
        dedupe_timeline_snapshots_def example_simps List.map_filter_def
        load_persisted_history_snapshot_def load_persisted_history_snapshot_from_path_def dedupe_step_def filter_history_snapshots_def
        list_persisted_history_archived_snapshots_def history_archive_snapshots_root_def checked_place_def filter_keeps_def normalize_optional_def)
  moreover have "(0::int) < 2" "(0::int) \<le> 0" by simp_all
  ultimately show ?thesis using pages_partition_history by blast
qed

section \<open>Searching\<close>

lemma search_history_result:
  assumes "search_history_by_group st disk folder now query limit offset sort_by flt sl sc = Inr (nq, page)"
  shows "\<exists>filtered srt. list_history_snapshots_by_group st disk folder now flt = Inr filtered \<and>
    normalize_search_sort sort_by = Inr srt \<and> nq = py_strip query \<and> nq \<noteq> [] \<and> 0 < limit \<and> 0 \<le> offset \<and>
    0 < sl \<and> page = page_of (search_history_snapshots filtered nq srt (nat sl) (nat sc)) limit offset"
  using assms
  by (auto simp: search_history_by_group_def Let_def check_page_def check_snippets_def
      split: sum.splits if_splits)

lemma snippet_matches_length:
  "length (snippet_matches (snapshot_match q limit ctx s)) =
     min limit (length (find_case_insensitive_match_offsets (snap_output s) q))"
  by (simp add: snapshot_match_def Let_def build_search_snippets_def)

text \<open>C12: A search page is about the filtered history: its total is the number of filtered
snapshots whose output contains the trimmed query, case ignored, and every item on it is such a
snapshot's match, with at least one and at most \<open>snippet_limit\<close> snippets.\<close>

theorem search_page_correct:
  assumes "search_history_by_group st disk folder now query limit offset sort_by flt sl sc = Inr (nq, page)"
    and "list_history_snapshots_by_group st disk folder now flt = Inr filtered"
  shows "nq = py_strip query \<and>
    page_total page = int (length (filter (\<lambda>s. \<exists>j. occurs_at (snap_output s) nq j) filtered)) \<and>
    (\<forall>mt \<in> set (page_items page). \<exists>s \<in> set filtered.
       match_record mt = snap_record s \<and> match_snapshot_at mt = snapshot_at s \<and>
       (\<exists>j. occurs_at (snap_output s) nq j) \<and>
       0 < length (snippet_matches mt) \<and> int (length (snippet_matches mt)) \<le> sl)"
proof -
  from search_history_result [OF assms(1)] assms(2)
  obtain srt where q: "nq = py_strip query" "nq \<noteq> []" and pg: "0 < limit" "0 \<le> offset" "0 < sl"
    and page: "page = page_of (search_history_snapshots filtered nq srt (nat sl) (nat sc)) limit offset"
    by auto
  let ?res = "search_history_snapshots filtered nq srt (nat sl) (nat sc)"
  let ?hits = "filter (\<lambda>s. \<exists>j. occurs_at (snap_output s) nq j) filtered"
  have m: "mset ?res = mset (map (snapshot_match nq (nat sl) (nat sc)) ?hits)"
    using q(2) by (rule search_results_mset)
  have len: "length ?res = length ?hits" using mset_eq_length [OF m] by simp
  have item: "\<exists>s \<in> set filtered. match_record mt = snap_record s \<and> match_snapshot_at mt = snapshot_at s \<and>
       (\<exists>j. occurs_at (snap_output s) nq j) \<and>
       0 < length (snippet_matches mt) \<and> int (length (snippet_matches mt)) \<le> sl"
    if "mt \<in> set (page_items page)" for mt
  proof -
    have "check_page limit offset = Inr ()" using pg by (simp add: check_page_def)
    then have "set (page_items page) \<subseteq> set ?res"
      unfolding page by (simp only: page_of_items set_page_subset)
    with that have "mt \<in> set ?res" by blast
    then have "mt \<in> set (map (snapshot_match nq (nat sl) (nat sc)) ?hits)"
      using mset_eq_setD [OF m] by blast
    then obtain s j where s: "s \<in> set filtered" "occurs_at (snap_output s) nq j"
      and mt: "mt = snapshot_match nq (nat sl) (nat sc) s" by auto
    have "find_case_insensitive_match_offsets (snap_output s) nq \<noteq> []"
      using s(2) find_offsets_empty_iff [OF q(2)] by blast
    then have "0 < length (snippet_matches mt)" "int (length (snippet_matches mt)) \<le> sl"
      unfolding mt snippet_matches_length using pg by auto
    moreover have "match_record mt = snap_record s" "match_snapshot_at mt = snapshot_at s"
      unfolding mt by (simp_all add: snapshot_match_def Let_def)
    ultimately show ?thesis using s by blast
  qed
  have "page_total page = int (length ?hits)" unfolding page by (simp add: page_of_def len)
  with item q(1) show ?thesis by blast
qed

text \<open>The order of a search is the one asked for: by falling number of hits for relevance, by
falling time for newest, by rising time for oldest, on every page.\<close>

theorem search_page_sorted:
  assumes "search_history_by_group st disk folder now query limit offset sort_by flt sl sc = Inr (nq, page)"
  shows "sorted_wrt
    (if sort_by = ''relevance'' then (\<lambda>a b. match_count b \<le> match_count a)
     else if sort_by = ''newest'' then (\<lambda>a b. match_snapshot_at b \<le> match_snapshot_at a)
     else (\<lambda>a b. match_snapshot_at a \<le> match_snapshot_at b)) (page_items page)"
proof -
  from search_history_result [OF assms]
  obtain filtered srt where srt: "normalize_search_sort sort_by = Inr srt" and pg: "0 < limit" "0 \<le> offset"
    and page: "page = page_of (search_history_snapshots filtered nq srt (nat sl) (nat sc)) limit offset"
    by auto
  have "check_page limit offset = Inr ()" using pg by (simp add: check_page_def)
  note items = page_of_items [OF this, of "search_history_snapshots filtered nq srt (nat sl) (nat sc)", folded page]
  show ?thesis
    using srt unfolding items
    by (auto simp: normalize_search_sort_def intro: sorted_wrt_take sorted_wrt_drop
        relevance_results_by_count newest_results_by_time oldest_results_by_time split: if_splits)
qed

definition example_history :: terminal_service where
  "example_history =
     fst (bridge_event_locked example_service ''s'' (output_event ''Error: disk'') 6)"

definition no_filter :: history_filter where
  "no_filter = \<lparr>filter_status = None, filter_owner_user_id = None, filter_session_id_prefix = None,
     filter_snapshot_from = None, filter_snapshot_to = None\<rparr>"

lemma example_search:
  "\<exists>nq page filtered. search_history_by_group example_history example_history ''f'' 9 ''error'' 5 0
      ''newest'' no_filter 3 40 = Inr (nq, page) \<and>
    list_history_snapshots_by_group example_history example_history ''f'' 9 no_filter = Inr filtered"
proof -
  have "\<exists>filtered. list_history_snapshots_by_group example_history example_history ''f'' 9 no_filter = Inr filtered"
    by (simp add: list_history_snapshots_by_group_def list_merged_history_snapshots_by_group_def
        dedupe_timeline_snapshots_def example_history_def no_filter_def example_simps List.map_filter_def
        load_persisted_history_snapshot_def load_persisted_history_snapshot_from_path_def dedupe_step_def filter_history_snapshots_def
        list_persisted_history_archived_snapshots_def history_archive_snapshots_root_def checked_place_def filter_keeps_def normalize_optional_def
        bridge_event_locked_def output_event_def schedule_write_def update_managed_def store_managed_def)
  moreover have "py_strip ''error'' = ''error''" by code_simp
  ultimately show ?thesis
    by (auto simp: search_history_by_group_def normalize_search_sort_def check_page_def check_snippets_def
        Let_def)
qed

lemma search_page_correct_witness:
  "\<exists>nq page. search_history_by_group example_history example_history ''f'' 9 ''error'' 5 0
      ''newest'' no_filter 3 40 = Inr (nq, page) \<and> nq = py_strip ''error''"
  using example_search search_page_correct by blast

lemma search_page_sorted_witness:
  "\<exists>nq page. search_history_by_group example_history example_history ''f'' 9 ''error'' 5 0
      ''newest'' no_filter 3 40 = Inr (nq, page) \<and>
    sorted_wrt (\<lambda>a b. match_snapshot_at b \<le> match_snapshot_at a) (page_items page)"
proof -
  from example_search obtain nq page where s: "search_history_by_group example_history example_history
      ''f'' 9 ''error'' 5 0 ''newest'' no_filter 3 40 = Inr (nq, page)" by blast
  from search_page_sorted [OF s] s show ?thesis by auto
qed

end
