(* ===== verification/Tables.thy ===== *)
theory Tables
  imports Prelude
begin

text \<open>
  Rows of a database table under a primary key. The services reach the database through
  SQLAlchemy's session: \<open>get\<close> and a \<open>select\<close> on the key find the row, \<open>add\<close> and \<open>merge\<close> with a
  commit store it, \<open>delete\<close> removes it. A table is the list of its rows; what the clients rely on is
  the locale \<open>keyed_rows\<close>, which each table interprets with its own key.
\<close>

definition row_get :: "('r \<Rightarrow> 'k) \<Rightarrow> 'k \<Rightarrow> 'r list \<Rightarrow> 'r option" where
  "row_get key k rows = find (\<lambda>r. key r = k) rows"

definition row_put :: "('r \<Rightarrow> 'k) \<Rightarrow> 'r \<Rightarrow> 'r list \<Rightarrow> 'r list" where
  "row_put key r rows =
     (if list_ex (\<lambda>x. key x = key r) rows then map (\<lambda>x. if key x = key r then r else x) rows
      else rows @ [r])"

definition row_delete :: "('r \<Rightarrow> 'k) \<Rightarrow> 'k \<Rightarrow> 'r list \<Rightarrow> 'r list" where
  "row_delete key k rows = filter (\<lambda>r. key r \<noteq> k) rows"

abbreviation rows_ok :: "('r \<Rightarrow> 'k) \<Rightarrow> 'r list \<Rightarrow> bool" where
  "rows_ok key rows \<equiv> distinct (map key rows)"

lemma row_getD: "row_get key k rows = Some r \<Longrightarrow> key r = k \<and> r \<in> set rows"
  by (auto simp: row_get_def find_Some_iff)

lemma row_get_None_iff: "row_get key k rows = None \<longleftrightarrow> k \<notin> key ` set rows"
  by (auto simp: row_get_def find_None_iff)

lemma row_get_append:
  "row_get key k (rows @ rows') = (case row_get key k rows of None \<Rightarrow> row_get key k rows' | Some r \<Rightarrow> Some r)"
  by (induction rows) (auto simp: row_get_def)

lemma row_get_map_upd:
  "row_get key k (map (\<lambda>x. if key x = key r then r else x) rows) =
     (if k = key r then (if list_ex (\<lambda>x. key x = key r) rows then Some r else None) else row_get key k rows)"
  by (induction rows) (auto simp: row_get_def)

lemma row_get_put: "row_get key k (row_put key r rows) = (if k = key r then Some r else row_get key k rows)"
proof (cases "list_ex (\<lambda>x. key x = key r) rows")
  case False
  then have "row_get key (key r) rows = None" by (auto simp: row_get_None_iff list_ex_iff)
  with False show ?thesis by (auto simp: row_put_def row_get_append split: option.split) (auto simp: row_get_def)
qed (simp add: row_put_def row_get_map_upd)

lemma row_get_delete: "row_get key k (row_delete key k' rows) = (if k = k' then None else row_get key k rows)"
  by (induction rows) (auto simp: row_get_def row_delete_def)

lemma keys_put: "key ` set (row_put key r rows) = insert (key r) (key ` set rows)"
  by (auto simp: row_put_def list_ex_iff image_iff)

lemma rows_ok_put: "rows_ok key rows \<Longrightarrow> rows_ok key (row_put key r rows)"
proof -
  assume ok: "rows_ok key rows"
  have "map key (map (\<lambda>x. if key x = key r then r else x) rows) = map key rows" by simp
  with ok show ?thesis by (auto simp: row_put_def list_ex_iff simp del: map_map)
qed

lemma rows_ok_delete: "rows_ok key rows \<Longrightarrow> rows_ok key (row_delete key k rows)"
  by (simp add: row_delete_def distinct_map_filter)

lemma set_row_put: "rows_ok key rows \<Longrightarrow> set (row_put key r rows) = insert r {x \<in> set rows. key x \<noteq> key r}"
  by (auto simp: row_put_def list_ex_iff)

lemma row_in_get: "rows_ok key rows \<Longrightarrow> r \<in> set rows \<longleftrightarrow> row_get key (key r) rows = Some r"
proof
  assume ok: "rows_ok key rows" and r: "r \<in> set rows"
  then obtain x where x: "row_get key (key r) rows = Some x"
    using row_get_None_iff [of key "key r" rows] by (cases "row_get key (key r) rows") auto
  then have "key x = key r" "x \<in> set rows" using row_getD by metis+
  with ok r have "x = r" using inj_onD [of key "set rows" x r] by (simp add: distinct_map)
  with x show "row_get key (key r) rows = Some r" by simp
qed (use row_getD in metis)

section \<open>The contract of a table\<close>

locale keyed_rows =
  fixes key :: "'r \<Rightarrow> 'k"
    and lookup :: "'t \<Rightarrow> 'k \<Rightarrow> 'r option"
    and store :: "'r \<Rightarrow> 't \<Rightarrow> 't"
    and remove :: "'k \<Rightarrow> 't \<Rightarrow> 't"
  assumes lookup_key: "lookup t k = Some r \<Longrightarrow> key r = k"
    and lookup_store: "lookup (store r t) k = (if k = key r then Some r else lookup t k)"
    and lookup_remove: "lookup (remove k t) j = (if j = k then None else lookup t j)"
begin

lemma stored [simp]: "lookup (store r t) (key r) = Some r"
  by (simp add: lookup_store)

lemma store_other: "k \<noteq> key r \<Longrightarrow> lookup (store r t) k = lookup t k"
  by (simp add: lookup_store)

lemma removed [simp]: "lookup (remove k t) k = None"
  by (simp add: lookup_remove)

lemma remove_store: "lookup (remove (key r) (store r t)) k = lookup (remove (key r) t) k"
  by (simp add: lookup_store lookup_remove)

lemma store_keeps: "lookup t k \<noteq> None \<Longrightarrow> lookup (store r t) k \<noteq> None"
  by (simp add: lookup_store)

end

end
