(* ===== verification/WorkspaceRegistry.thy ===== *)
theory WorkspaceRegistry
  imports Tables
begin

text \<open>
  The workspaces: conversation slots (\<open>services/conversation_slot_service.py\<close>), memberships
  (\<open>services/group_member_service.py\<close>) and registered groups with their IM bindings
  (\<open>services/group_registry.py\<close>). The state is the three tables. Each service call runs in one
  session and is one step; \<open>now\<close> is the clock's reading. The tables exist, in the current schema;
  the rewriting of the old \<open>group_members\<close> table by its \<open>_ensure_schema\<close> is \<open>migrate_members\<close>.
\<close>

section \<open>Rows\<close>

record conversation_slot =
  workspace_folder :: string
  slot_id :: string
  slot_title :: string
  slot_created_by :: "string option"
  slot_created_at :: instant

record group_member =
  member_folder :: string
  member_user_id :: string
  member_role :: string
  joined_at :: instant
  added_by :: "string option"

record registered_group =
  jid :: string
  group_name :: string
  folder :: string
  added_at :: instant
  container_config :: "string option"
  created_by :: "string option"
  is_home :: bool
  target_workspace_jid :: "string option"

record workspace_db =
  slots :: "conversation_slot list"
  members :: "group_member list"
  groups :: "registered_group list"

definition slot_key :: "conversation_slot \<Rightarrow> string \<times> string" where
  "slot_key s = (workspace_folder s, slot_id s)"

definition member_key :: "group_member \<Rightarrow> string \<times> string" where
  "member_key m = (member_folder m, member_user_id m)"

datatype registry_error =
    Conflict_error string
  | Lookup_error string
  | Value_error string

section \<open>Conversation slots\<close>

text \<open>\<open>re.compile(r"^[a-z0-9][a-z0-9-]*$").fullmatch\<close>, the pattern of slots and of folders.\<close>

definition slug_char :: "char \<Rightarrow> bool" where
  "slug_char c = (let n = of_char c :: nat in (97 \<le> n \<and> n \<le> 122) \<or> (48 \<le> n \<and> n \<le> 57))"

definition slug_match :: "string \<Rightarrow> bool" where
  "slug_match s =
     (case s of [] \<Rightarrow> False | c # cs \<Rightarrow> slug_char c \<and> list_all (\<lambda>d. slug_char d \<or> d = CHR ''-'') cs)"

definition get_slot :: "workspace_db \<Rightarrow> string \<Rightarrow> string \<Rightarrow> conversation_slot option" where
  "get_slot db ws sid = row_get slot_key (ws, sid) (slots db)"

definition list_slots :: "workspace_db \<Rightarrow> string \<Rightarrow> conversation_slot list" where
  "list_slots db ws =
     sort_key (\<lambda>s. (if slot_id s = ''main'' then 0 else 1 :: nat, slot_id s))
       (filter (\<lambda>s. workspace_folder s = ws) (slots db))"

definition ensure_main_slot ::
  "workspace_db \<Rightarrow> string \<Rightarrow> string option \<Rightarrow> instant \<Rightarrow> conversation_slot \<times> workspace_db" where
  "ensure_main_slot db ws creator now =
     (case get_slot db ws ''main'' of
        Some existing \<Rightarrow>
          if slot_created_by existing = None \<and> creator \<noteq> None then
            let s = existing\<lparr>slot_created_by := creator\<rparr> in (s, db\<lparr>slots := row_put slot_key s (slots db)\<rparr>)
          else (existing, db)
      | None \<Rightarrow>
          let s = \<lparr>workspace_folder = ws, slot_id = ''main'', slot_title = ''Main'', slot_created_by = creator,
                   slot_created_at = now\<rparr>
          in (s, db\<lparr>slots := row_put slot_key s (slots db)\<rparr>))"

definition create_slot ::
  "workspace_db \<Rightarrow> string \<Rightarrow> string \<Rightarrow> string \<Rightarrow> string option \<Rightarrow> instant \<Rightarrow>
   (registry_error + conversation_slot) \<times> workspace_db" where
  "create_slot db ws sid title creator now =
     (if sid = ''main'' then (Inl (Value_error ''slot_id 'main' is reserved''), db)
      else if \<not> slug_match sid then (Inl (Value_error ''invalid slot_id''), db)
      else
        (case get_slot db ws sid of
           Some existing \<Rightarrow> (Inr existing, db)
         | None \<Rightarrow>
             let s = \<lparr>workspace_folder = ws, slot_id = sid, slot_title = title, slot_created_by = creator,
                      slot_created_at = now\<rparr>
             in (Inr s, db\<lparr>slots := row_put slot_key s (slots db)\<rparr>)))"

section \<open>Members\<close>

definition valid_group_member_roles :: "string list" where
  "valid_group_member_roles = [''owner'', ''admin'', ''member'']"

definition get_member :: "workspace_db \<Rightarrow> string \<Rightarrow> string \<Rightarrow> group_member option" where
  "get_member db ws uid = row_get member_key (ws, uid) (members db)"

definition get_member_role :: "workspace_db \<Rightarrow> string \<Rightarrow> string \<Rightarrow> string option" where
  "get_member_role db ws uid =
     (case get_member db ws uid of None \<Rightarrow> None | Some m \<Rightarrow> Some (member_role m))"

definition list_members :: "workspace_db \<Rightarrow> string \<Rightarrow> group_member list" where
  "list_members db ws = sort_key member_user_id (filter (\<lambda>m. member_folder m = ws) (members db))"

definition add_member ::
  "workspace_db \<Rightarrow> string \<Rightarrow> string \<Rightarrow> string \<Rightarrow> string option \<Rightarrow> instant \<Rightarrow>
   (registry_error + group_member) \<times> workspace_db" where
  "add_member db ws uid role adder now =
     (if role \<notin> set valid_group_member_roles
      then (Inl (Value_error (''invalid group member role: '' @ role)), db)
      else
        (let existing = get_member db ws uid in
         if (case existing of None \<Rightarrow> False | Some m \<Rightarrow> (role = ''owner'') \<noteq> (member_role m = ''owner''))
         then (Inl (Value_error ''owner role changes are not supported''), db)
         else
           (let m = \<lparr>member_folder = ws, member_user_id = uid, member_role = role,
                     joined_at = (case existing of None \<Rightarrow> now | Some e \<Rightarrow> joined_at e),
                     added_by = (case existing of None \<Rightarrow> adder | Some e \<Rightarrow> added_by e)\<rparr>
            in (Inr m, db\<lparr>members := row_put member_key m (members db)\<rparr>))))"

definition remove_member ::
  "workspace_db \<Rightarrow> string \<Rightarrow> string \<Rightarrow> (registry_error + bool) \<times> workspace_db" where
  "remove_member db ws uid =
     (case get_member db ws uid of
        None \<Rightarrow> (Inr False, db)
      | Some m \<Rightarrow>
          if member_role m = ''owner'' then (Inl (Value_error ''group owner cannot be removed''), db)
          else (Inr True, db\<lparr>members := row_delete member_key (ws, uid) (members db)\<rparr>))"

text \<open>
  The old table: rows with a \<open>group_jid\<close>, perhaps a \<open>group_folder\<close>, perhaps an \<open>added_by\<close>, copied
  with \<open>INSERT OR IGNORE\<close>: the first row of a key stays, and a row without a value for one of the
  \<open>NOT NULL\<close> columns is dropped.
\<close>

record legacy_member =
  legacy_group_jid :: "string option"
  legacy_group_folder :: "string option"
  legacy_user_id :: "string option"
  legacy_role :: "string option"
  legacy_joined_at :: "instant option"
  legacy_added_by :: "string option"

definition migrate_row :: "legacy_member \<Rightarrow> group_member list \<Rightarrow> group_member list" where
  "migrate_row l rows =
     (case (case legacy_group_folder l of None \<Rightarrow> legacy_group_jid l | Some f \<Rightarrow> Some f,
            legacy_user_id l, legacy_role l, legacy_joined_at l) of
        (Some ws, Some uid, Some role, Some joined) \<Rightarrow>
          if row_get member_key (ws, uid) rows \<noteq> None then rows
          else rows @ [\<lparr>member_folder = ws, member_user_id = uid, member_role = role, joined_at = joined,
                        added_by = legacy_added_by l\<rparr>]
      | _ \<Rightarrow> rows)"

definition migrate_members :: "legacy_member list \<Rightarrow> group_member list" where
  "migrate_members old = fold migrate_row old []"

section \<open>Registered groups\<close>

definition is_web :: "registered_group \<Rightarrow> bool" where
  "is_web g = py_startswith (jid g) ''web:''"

definition channel_from_jid :: "string \<Rightarrow> string option" where
  "channel_from_jid j =
     (if py_startswith j ''telegram:'' then Some ''telegram''
      else if py_startswith j ''feishu:'' then Some ''feishu'' else None)"

definition validate_workspace_folder :: "string \<Rightarrow> registry_error option" where
  "validate_workspace_folder f =
     (if f = ''main'' \<or> py_startswith f ''home-'' then Some (Value_error ''reserved workspace folder'')
      else if \<not> slug_match f then Some (Value_error ''invalid workspace folder'') else None)"

definition get_registered_group :: "workspace_db \<Rightarrow> string \<Rightarrow> registered_group option" where
  "get_registered_group db j = row_get jid j (groups db)"

definition list_registered_groups :: "workspace_db \<Rightarrow> registered_group list" where
  "list_registered_groups db = sort_key (\<lambda>g. (added_at g, folder g)) (groups db)"

definition get_group_by_folder :: "workspace_db \<Rightarrow> string \<Rightarrow> registered_group option" where
  "get_group_by_folder db f =
     (case sort_key (\<lambda>g. (added_at g, jid g)) (filter (\<lambda>g. folder g = f) (groups db)) of
        [] \<Rightarrow> None | g # _ \<Rightarrow> Some g)"

definition ensure_main_slot_for_workspace :: "workspace_db \<Rightarrow> registered_group \<Rightarrow> instant \<Rightarrow> workspace_db" where
  "ensure_main_slot_for_workspace db g now = snd (ensure_main_slot db (folder g) (created_by g) now)"

text \<open>\<open>target\<close> is \<open>None\<close> where the caller leaves \<open>target_workspace_jid\<close> unset.\<close>

definition ensure_registered_group ::
  "workspace_db \<Rightarrow> string \<Rightarrow> string \<Rightarrow> string \<Rightarrow> string option \<Rightarrow> bool \<Rightarrow> string option option \<Rightarrow> instant \<Rightarrow>
   registered_group \<times> workspace_db" where
  "ensure_registered_group db j name f creator home target now =
     (case get_registered_group db j of
        Some existing \<Rightarrow>
          let g = existing\<lparr>group_name := name, folder := f,
                    created_by := (if created_by existing = None \<and> creator \<noteq> None then creator
                                   else created_by existing),
                    is_home := (if home then True else is_home existing),
                    target_workspace_jid := (case target of None \<Rightarrow> target_workspace_jid existing | Some t \<Rightarrow> t)\<rparr>
          in (g, ensure_main_slot_for_workspace (db\<lparr>groups := row_put jid g (groups db)\<rparr>) g now)
      | None \<Rightarrow>
          let g = \<lparr>jid = j, group_name = name, folder = f, added_at = now, container_config = None,
                   created_by = creator, is_home = home,
                   target_workspace_jid = (case target of None \<Rightarrow> None | Some t \<Rightarrow> t)\<rparr>
          in (g, ensure_main_slot_for_workspace (db\<lparr>groups := row_put jid g (groups db)\<rparr>) g now))"

definition ensure_im_endpoint ::
  "workspace_db \<Rightarrow> string \<Rightarrow> string \<Rightarrow> string \<Rightarrow> instant \<Rightarrow> registered_group \<times> workspace_db" where
  "ensure_im_endpoint db j name f now =
     (case get_registered_group db j of
        Some existing \<Rightarrow> (existing, ensure_main_slot_for_workspace db existing now)
      | None \<Rightarrow> ensure_registered_group db j name f None False None now)"

definition ensure_home_workspace ::
  "workspace_db \<Rightarrow> string \<Rightarrow> string option \<Rightarrow> string \<Rightarrow> instant \<Rightarrow> registered_group \<times> workspace_db" where
  "ensure_home_workspace db uid role name now =
     (if role = Some ''owner'' then
        ensure_registered_group db ''web:main'' ''Main'' ''main'' (Some uid) True None now
      else
        ensure_registered_group db (''web:home-'' @ uid) (name @ '' Home'') (''home-'' @ uid) (Some uid) True None now)"

definition create_workspace ::
  "workspace_db \<Rightarrow> string \<Rightarrow> string \<Rightarrow> string \<Rightarrow> instant \<Rightarrow> (registry_error + registered_group) \<times> workspace_db" where
  "create_workspace db f name creator now =
     (case validate_workspace_folder f of
        Some e \<Rightarrow> (Inl e, db)
      | None \<Rightarrow>
          (case get_group_by_folder db f of
             Some _ \<Rightarrow> (Inl (Conflict_error ''workspace already exists''), db)
           | None \<Rightarrow>
               (case ensure_registered_group db (''web:'' @ f) name f (Some creator) False None now of
                  (workspace, db1) \<Rightarrow>
                    (case add_member db1 f creator ''owner'' (Some creator) now of
                       (Inl e, db2) \<Rightarrow> (Inl e, db2)
                     | (Inr _, db2) \<Rightarrow> (Inr workspace, db2)))))"

definition rename_workspace ::
  "workspace_db \<Rightarrow> registered_group \<Rightarrow> string \<Rightarrow> (registry_error + registered_group) \<times> workspace_db" where
  "rename_workspace db g name =
     (if is_home g then (Inl (Value_error ''home workspaces cannot be renamed''), db)
      else if \<not> is_web g then (Inl (Value_error ''only canonical web workspaces can be renamed''), db)
      else let g' = g\<lparr>group_name := name\<rparr> in (Inr g', db\<lparr>groups := row_put jid g' (groups db)\<rparr>))"

definition get_web_workspace_by_folder ::
  "workspace_db \<Rightarrow> string \<Rightarrow> instant \<Rightarrow> registered_group option \<times> workspace_db" where
  "get_web_workspace_by_folder db f now =
     (case sort_key (\<lambda>g. (added_at g, jid g)) (filter is_web (filter (\<lambda>g. folder g = f) (groups db))) of
        [] \<Rightarrow> (None, db)
      | workspace # _ \<Rightarrow> (Some workspace, ensure_main_slot_for_workspace db workspace now))"

definition resolve_im_workspace :: "workspace_db \<Rightarrow> string \<Rightarrow> registered_group option" where
  "resolve_im_workspace db j =
     (case get_registered_group db j of
        None \<Rightarrow> None
      | Some endpoint \<Rightarrow>
          (case target_workspace_jid endpoint of
             None \<Rightarrow> Some endpoint
           | Some t \<Rightarrow>
               if t = [] then Some endpoint
               else (case get_registered_group db t of
                       None \<Rightarrow> Some endpoint
                     | Some bound \<Rightarrow> if is_web bound then Some bound else Some endpoint)))"

section \<open>IM bindings\<close>

datatype binding_state = Unbound | Orphaned | Bound

record im_binding =
  im_jid :: string
  im_name :: string
  im_channel :: string
  fallback_group_id :: string
  binding_state :: binding_state
  target_group_id :: "string option"
  target_group_name :: "string option"
  bound_to_current_group :: bool

definition im_endpoint_binding :: "workspace_db \<Rightarrow> registered_group \<Rightarrow> registered_group \<Rightarrow> string \<Rightarrow> im_binding" where
  "im_endpoint_binding db g endpoint channel =
     (let unbound = \<lparr>im_jid = jid endpoint, im_name = group_name endpoint, im_channel = channel,
            fallback_group_id = folder endpoint, binding_state = Unbound, target_group_id = None,
            target_group_name = None, bound_to_current_group = False\<rparr>
      in (case target_workspace_jid endpoint of
            None \<Rightarrow> unbound
          | Some t \<Rightarrow>
              if t = [] then unbound
              else (case get_registered_group db t of
                      None \<Rightarrow> unbound\<lparr>binding_state := Orphaned\<rparr>
                    | Some target \<Rightarrow>
                        if \<not> is_web target then unbound\<lparr>binding_state := Orphaned\<rparr>
                        else unbound\<lparr>binding_state := Bound, target_group_id := Some (folder target),
                               target_group_name := Some (group_name target),
                               bound_to_current_group := (jid target = jid g)\<rparr>)))"

definition list_im_endpoint_bindings :: "workspace_db \<Rightarrow> registered_group \<Rightarrow> im_binding list" where
  "list_im_endpoint_bindings db g =
     List.map_filter
       (\<lambda>endpoint. case channel_from_jid (jid endpoint) of
                     None \<Rightarrow> None
                   | Some channel \<Rightarrow> Some (im_endpoint_binding db g endpoint channel))
       (sort_key (\<lambda>e. (added_at e, jid e)) (groups db))"

definition bind_im_endpoint_to_workspace ::
  "workspace_db \<Rightarrow> registered_group \<Rightarrow> string \<Rightarrow> (registry_error + registered_group) \<times> workspace_db" where
  "bind_im_endpoint_to_workspace db g j =
     (case get_registered_group db j of
        None \<Rightarrow> (Inl (Lookup_error ''IM endpoint not found''), db)
      | Some endpoint \<Rightarrow>
          if channel_from_jid (jid endpoint) = None then (Inl (Value_error ''group is not an IM endpoint''), db)
          else if target_workspace_jid endpoint = Some (jid g) then (Inr endpoint, db)
          else if (case target_workspace_jid endpoint of
                     None \<Rightarrow> False
                   | Some t \<Rightarrow> t \<noteq> [] \<and> (case get_registered_group db t of None \<Rightarrow> False | Some w \<Rightarrow> is_web w))
            then (Inl (Conflict_error ''IM endpoint is already bound elsewhere''), db)
          else let e = endpoint\<lparr>target_workspace_jid := Some (jid g)\<rparr>
               in (Inr e, db\<lparr>groups := row_put jid e (groups db)\<rparr>))"

definition unbind_im_endpoint_from_workspace ::
  "workspace_db \<Rightarrow> registered_group \<Rightarrow> string \<Rightarrow> (registry_error + registered_group) \<times> workspace_db" where
  "unbind_im_endpoint_from_workspace db g j =
     (case get_registered_group db j of
        None \<Rightarrow> (Inl (Lookup_error ''IM endpoint not found''), db)
      | Some endpoint \<Rightarrow>
          if channel_from_jid (jid endpoint) = None then (Inl (Value_error ''group is not an IM endpoint''), db)
          else if target_workspace_jid endpoint \<noteq> Some (jid g)
            then (Inl (Value_error ''IM endpoint is not bound to this workspace''), db)
          else let e = endpoint\<lparr>target_workspace_jid := None\<rparr>
               in (Inr e, db\<lparr>groups := row_put jid e (groups db)\<rparr>))"

section \<open>Access\<close>

text \<open>An endpoint asks about its bound workspace: the recursion ends because that is a web workspace.\<close>

lemma resolve_im_workspace_Some:
  "resolve_im_workspace db j = Some w \<Longrightarrow> jid w = j \<or> is_web w"
  by (auto simp: resolve_im_workspace_def get_registered_group_def split: option.splits if_splits dest: row_getD)

definition is_member :: "workspace_db \<Rightarrow> string \<Rightarrow> string \<Rightarrow> bool" where
  "is_member db ws uid \<longleftrightarrow> get_member db ws uid \<noteq> None"

function user_can_access_group :: "workspace_db \<Rightarrow> string \<Rightarrow> string option \<Rightarrow> registered_group \<Rightarrow> bool" where
  "user_can_access_group db uid role g =
     (if is_home g then
        (if jid g = ''web:main'' \<and> folder g = ''main'' \<and> role = Some ''owner'' then True
         else created_by g = Some uid)
      else if is_web g then (if created_by g = Some uid then True else is_member db (folder g) uid)
      else
        (case (if target_workspace_jid g \<noteq> None \<and> target_workspace_jid g \<noteq> Some [] then resolve_im_workspace db (jid g)
               else None) of
           None \<Rightarrow> created_by g = Some uid
         | Some bound \<Rightarrow>
             if jid bound \<noteq> jid g then user_can_access_group db uid role bound else created_by g = Some uid))"
  by pat_completeness auto
termination
  by (relation "measure (\<lambda>(db, uid, role, g). if is_web g then 0 else 1)")
    (auto split: if_splits dest: resolve_im_workspace_Some)

declare user_can_access_group.simps [simp del]

definition user_can_manage_members :: "string \<Rightarrow> registered_group \<Rightarrow> bool" where
  "user_can_manage_members uid g =
     (if is_home g then False else if \<not> is_web g then False else created_by g = Some uid)"

end
