(* ===== verification/Permissions.thy ===== *)
theory Permissions
  imports Prelude
begin

text \<open>
  The permission templates of the roles (\<open>domain/permissions.py\<close>) and the choice of the execution
  mode of a group (\<open>services/execution_mode.py\<close>). A role is a string, or \<open>None\<close>: the routes hand on
  the role of a user as it is, and an update of a user can set it to \<open>None\<close>.
\<close>

definition permission_templates :: "(string, (string, string list) dict) dict" where
  "permission_templates =
     [(''owner'',
       [(''users'', [''read'', ''write'', ''delete'', ''admin'']), (''groups'', [''read'', ''write'', ''delete'']),
        (''messages'', [''read'', ''write'']), (''tasks'', [''read'', ''write'', ''execute'']),
        (''settings'', [''read'', ''write''])]),
      (''admin'',
       [(''users'', [''read'', ''write'']), (''groups'', [''read'', ''write'']),
        (''messages'', [''read'', ''write'']), (''tasks'', [''read'', ''write'', ''execute'']),
        (''settings'', [''read''])]),
      (''member'',
       [(''groups'', [''read'']), (''messages'', [''read'', ''write'']), (''tasks'', [''read''])])]"

definition get_permissions_for_role :: "string option \<Rightarrow> (string, string list) dict" where
  "get_permissions_for_role role =
     (case role of
        None \<Rightarrow> []
      | Some r \<Rightarrow> (case dict_get permission_templates r of None \<Rightarrow> [] | Some permissions \<Rightarrow> permissions))"

definition has_permission :: "string option \<Rightarrow> string \<Rightarrow> string \<Rightarrow> bool" where
  "has_permission role resource action =
     (case dict_get (get_permissions_for_role role) resource of
        None \<Rightarrow> False
      | Some actions \<Rightarrow> action \<in> set actions)"

text \<open>\<open>group_config\<close> maps its keys to the truth values of their objects.\<close>

definition get_execution_mode :: "string \<Rightarrow> (string, bool) dict \<Rightarrow> string" where
  "get_execution_mode user_role group_config =
     (if user_role = ''admin'' \<and> dict_get group_config ''host_mode'' = Some True then ''host'' else ''container'')"

section \<open>What the templates grant\<close>

lemma has_permission_member:
  "has_permission (Some ''member'') resource action \<longleftrightarrow>
     (resource, action) \<in> {(''groups'', ''read''), (''messages'', ''read''), (''messages'', ''write''), (''tasks'', ''read'')}"
  by (auto simp: has_permission_def get_permissions_for_role_def permission_templates_def split: if_splits)

lemma has_permission_admin:
  "has_permission (Some ''admin'') resource action \<longleftrightarrow>
     (resource, action) \<in> {(''users'', ''read''), (''users'', ''write''), (''groups'', ''read''), (''groups'', ''write''),
       (''messages'', ''read''), (''messages'', ''write''), (''tasks'', ''read''), (''tasks'', ''write''),
       (''tasks'', ''execute''), (''settings'', ''read'')}"
  by (auto simp: has_permission_def get_permissions_for_role_def permission_templates_def split: if_splits)

lemma has_permission_owner:
  "has_permission (Some ''owner'') resource action \<longleftrightarrow>
     has_permission (Some ''admin'') resource action \<or>
     (resource, action) \<in> {(''users'', ''delete''), (''users'', ''admin''), (''groups'', ''delete''), (''settings'', ''write'')}"
  unfolding has_permission_admin
  by (auto simp: has_permission_def get_permissions_for_role_def permission_templates_def split: if_splits)

lemma has_permission_unknown:
  "role \<notin> {Some ''owner'', Some ''admin'', Some ''member''} \<Longrightarrow> \<not> has_permission role resource action"
  by (auto simp: has_permission_def get_permissions_for_role_def permission_templates_def split: option.splits)

lemma has_permission_role:
  "has_permission role resource action \<Longrightarrow> role \<in> {Some ''owner'', Some ''admin'', Some ''member''}"
  using has_permission_unknown by blast

lemma group_write_role: "has_permission role ''groups'' ''write'' \<longleftrightarrow> role \<in> {Some ''owner'', Some ''admin''}"
proof (cases "role \<in> {Some ''owner'', Some ''admin'', Some ''member''}")
  case True
  then show ?thesis by (auto simp: has_permission_owner has_permission_admin has_permission_member)
next
  case False
  then have "\<not> has_permission role ''groups'' ''write''" by (intro has_permission_unknown) simp
  with False show ?thesis by simp
qed

lemma user_write_role: "has_permission role ''users'' ''write'' \<longleftrightarrow> role \<in> {Some ''owner'', Some ''admin''}"
proof (cases "role \<in> {Some ''owner'', Some ''admin'', Some ''member''}")
  case True
  then show ?thesis by (auto simp: has_permission_owner has_permission_admin has_permission_member)
next
  case False
  then have "\<not> has_permission role ''users'' ''write''" by (intro has_permission_unknown) simp
  with False show ?thesis by simp
qed

end
