(* ===== verification/Accounts.thy ===== *)
theory Accounts
  imports Permissions
begin

text \<open>
  The accounts of \<open>services/auth.py\<close>: password hashes, users and invite codes. The tokens and the
  requests' authentication are in \<open>AccountProtocol\<close>.

  Bytes are characters below 256. \<open>hashlib.scrypt\<close> with the module's cost parameters is the argument
  \<open>scrypt\<close>, from a password's UTF-8 bytes and a salt to the digest. Random salts, \<open>uuid4\<close> values and the
  clock's readings are arguments of the operations.
\<close>

section \<open>Base 64\<close>

definition b64_char :: "nat \<Rightarrow> char" where
  "b64_char n =
     (if n < 26 then char_of (65 + n) else if n < 52 then char_of (71 + n)
      else if n < 62 then char_of (n - 4) else if n = 62 then CHR ''-'' else CHR ''_'')"

text \<open>\<open>base64.urlsafe_b64encode\<close> followed by \<open>rstrip("=")\<close>.\<close>

fun base64_urlsafe_encode :: "string \<Rightarrow> string" where
  "base64_urlsafe_encode [] = []"
| "base64_urlsafe_encode [a] =
     (let x = of_char a :: nat in [b64_char (x div 4), b64_char ((x mod 4) * 16)])"
| "base64_urlsafe_encode [a, b] =
     (let x = of_char a :: nat; y = of_char b in
      [b64_char (x div 4), b64_char ((x mod 4) * 16 + y div 16), b64_char ((y mod 16) * 4)])"
| "base64_urlsafe_encode (a # b # c # rest) =
     (let x = of_char a :: nat; y = of_char b; z = of_char c in
      b64_char (x div 4) # b64_char ((x mod 4) * 16 + y div 16) # b64_char ((y mod 16) * 4 + z div 64) #
      b64_char (z mod 64) # base64_urlsafe_encode rest)"

text \<open>
  The value of a character for \<open>urlsafe_b64decode\<close>, which first turns \<open>-\<close> and \<open>_\<close> into \<open>+\<close> and
  \<open>/\<close>; other characters are skipped.
\<close>

definition b64_value :: "char \<Rightarrow> nat option" where
  "b64_value c =
     (let n = of_char c :: nat in
      if 65 \<le> n \<and> n \<le> 90 then Some (n - 65)
      else if 97 \<le> n \<and> n \<le> 122 then Some (n - 71)
      else if 48 \<le> n \<and> n \<le> 57 then Some (n + 4)
      else if n = 43 \<or> n = 45 then Some 62
      else if n = 47 \<or> n = 95 then Some 63
      else None)"

text \<open>
  The decoder of \<open>binascii.a2b_base64\<close> without strict mode: the place in the current group of four,
  the bits that are left over, and the count of padding characters.
\<close>

fun a2b_base64 :: "string \<Rightarrow> nat \<Rightarrow> nat \<Rightarrow> nat \<Rightarrow> string option" where
  "a2b_base64 [] quad left pads = (if quad = 0 then Some [] else None)"
| "a2b_base64 (c # cs) quad left pads =
     (if c = CHR ''='' then
        (if 2 \<le> quad then
           (if quad + Suc pads \<ge> 4 then Some [] else a2b_base64 cs quad left (Suc pads))
         else a2b_base64 cs quad left pads)
      else
        (case b64_value c of
           None \<Rightarrow> a2b_base64 cs quad left pads
         | Some v \<Rightarrow>
             if quad = 0 then a2b_base64 cs 1 v 0
             else if quad = 1 then map_option (Cons (char_of (left * 4 + v div 16))) (a2b_base64 cs 2 (v mod 16) 0)
             else if quad = 2 then map_option (Cons (char_of (left * 16 + v div 4))) (a2b_base64 cs 3 (v mod 4) 0)
             else map_option (Cons (char_of (left * 64 + v))) (a2b_base64 cs 0 0 0)))"

text \<open>\<open>_base64_urlsafe_decode\<close>: \<open>None\<close> stands for the \<open>ValueError\<close>s that it can raise.\<close>

definition base64_urlsafe_decode :: "string \<Rightarrow> string option" where
  "base64_urlsafe_decode s =
     (if s = [] \<or> \<not> list_all (\<lambda>c. (of_char c :: nat) < 128) s then None
      else a2b_base64 (s @ replicate ((4 - length s mod 4) mod 4) (CHR ''='')) 0 0 0)"

section \<open>Passwords\<close>

definition derive_password_key :: "(string \<Rightarrow> string \<Rightarrow> string) \<Rightarrow> string \<Rightarrow> string \<Rightarrow> string" where
  "derive_password_key scrypt password salt = scrypt (utf8_bytes password) salt"

definition hash_password :: "(string \<Rightarrow> string \<Rightarrow> string) \<Rightarrow> string \<Rightarrow> string \<Rightarrow> string" where
  "hash_password scrypt password salt =
     ''scrypt-v1$16384$8$1$32$'' @ base64_urlsafe_encode salt @ ''$'' @
     base64_urlsafe_encode (derive_password_key scrypt password salt)"

definition verify_password :: "(string \<Rightarrow> string \<Rightarrow> string) \<Rightarrow> string \<Rightarrow> string \<Rightarrow> bool" where
  "verify_password scrypt password password_hash =
     (case py_split (CHR ''$'') password_hash of
        [scheme, n, r, p, dklen, salt_payload, digest_payload] \<Rightarrow>
          if scheme \<noteq> ''scrypt-v1'' then False
          else if py_int n \<noteq> Some 16384 \<or> py_int r \<noteq> Some 8 \<or> py_int p \<noteq> Some 1 \<or> py_int dklen \<noteq> Some 32
            then False
          else
            (case (base64_urlsafe_decode salt_payload, base64_urlsafe_decode digest_payload) of
               (Some salt, Some expected_digest) \<Rightarrow>
                 if length salt \<noteq> 16 \<or> length expected_digest \<noteq> 32 then False
                 else derive_password_key scrypt password salt = expected_digest
             | _ \<Rightarrow> False)
      | _ \<Rightarrow> False)"

subsection \<open>Round trips\<close>

lemma of_b64_char:
  "n < 64 \<Longrightarrow> (of_char (b64_char n) :: nat) =
     (if n < 26 then 65 + n else if n < 52 then 71 + n else if n < 62 then n - 4
      else if n = 62 then 45 else 95)"
  by (simp add: b64_char_def)

lemma b64_value_char [simp]: "n < 64 \<Longrightarrow> b64_value (b64_char n) = Some n"
  by (auto simp: b64_value_def of_b64_char Let_def)

lemma b64_char_ascii [simp]: "n < 64 \<Longrightarrow> (of_char (b64_char n) :: nat) < 128"
  by (auto simp: of_b64_char)

lemma b64_char_other [simp]:
  assumes "n < 64"
  shows "b64_char n \<noteq> CHR ''=''" "b64_char n \<noteq> CHR ''$''"
proof -
  have "(of_char (b64_char n) :: nat) \<notin> {61, 36}" using assms by (auto simp: of_b64_char)
  then show "b64_char n \<noteq> CHR ''=''" "b64_char n \<noteq> CHR ''$''" by auto
qed

lemma byte_quotients [simp]:
  "(of_char a :: nat) div 4 < 64" "(of_char a :: nat) div 16 < 16" "(of_char a :: nat) div 64 < 4"
  using nat_of_char_less_256 [of a] by (simp_all add: less_mult_imp_div_less)

lemma byte_pieces [simp]:
  fixes x y z :: nat
  shows "(x mod 4) * 16 < 64" "(x mod 16) * 4 < 64"
    "y < 16 \<Longrightarrow> (x mod 4) * 16 + y < 64" "z < 4 \<Longrightarrow> (x mod 16) * 4 + z < 64"
  using mod_less_divisor [of 4 x] mod_less_divisor [of 16 x] by linarith+

lemma join_bytes [simp]:
  fixes x y z :: nat
  shows "(x div 4) * 4 + ((x mod 4) * 16) div 16 = x" "(x div 16) * 16 + ((x mod 16) * 4) div 4 = x"
    "y < 16 \<Longrightarrow> (x div 4) * 4 + ((x mod 4) * 16 + y) div 16 = x"
    "y < 16 \<Longrightarrow> ((x mod 4) * 16 + y) mod 16 = y"
    "z < 4 \<Longrightarrow> (x div 16) * 16 + ((x mod 16) * 4 + z) div 4 = x"
    "z < 4 \<Longrightarrow> ((x mod 16) * 4 + z) mod 4 = z"
    "(x div 64) * 64 + x mod 64 = x"
  by simp_all

lemma replicate_2: "replicate 2 c = [c, c]"
  by (simp add: numeral_2_eq_2)

lemma a2b_encode:
  "a2b_base64 (base64_urlsafe_encode s @
     replicate ((4 - length (base64_urlsafe_encode s) mod 4) mod 4) (CHR ''='')) 0 0 0 = Some s"
proof (induction s rule: base64_urlsafe_encode.induct)
  case (4 a b c rest)
  have "length (base64_urlsafe_encode (a # b # c # rest)) mod 4 = length (base64_urlsafe_encode rest) mod 4"
    by (simp add: Let_def)
  then show ?case using "4.IH" by (simp add: Let_def)
qed (simp_all add: Let_def replicate_2)

lemma base64_ascii:
  "list_all (\<lambda>c. (of_char c :: nat) < 128 \<and> c \<noteq> CHR ''$'') (base64_urlsafe_encode s)"
  by (induction s rule: base64_urlsafe_encode.induct) (simp_all add: Let_def)

lemma base64_Nil [simp]: "base64_urlsafe_encode s = [] \<longleftrightarrow> s = []"
  by (cases s rule: base64_urlsafe_encode.cases) (simp_all add: Let_def)

lemma base64_roundtrip: "s \<noteq> [] \<Longrightarrow> base64_urlsafe_decode (base64_urlsafe_encode s) = Some s"
  using base64_ascii [of s] by (simp add: base64_urlsafe_decode_def a2b_encode list_all_iff)

lemma verify_hash_password:
  assumes "length salt = 16" and "\<And>p s. length (scrypt p s) = 32"
  shows "verify_password scrypt q (hash_password scrypt p salt) \<longleftrightarrow>
    scrypt (utf8_bytes q) salt = scrypt (utf8_bytes p) salt"
proof -
  have payload: "CHR ''$'' \<notin> set (base64_urlsafe_encode s)" for s
    using base64_ascii [of s] by (auto simp: list_all_iff)
  have "py_split (CHR ''$'') (hash_password scrypt p salt) =
      [''scrypt-v1'', ''16384'', ''8'', ''1'', ''32'', base64_urlsafe_encode salt,
       base64_urlsafe_encode (scrypt (utf8_bytes p) salt)]"
    using payload by (simp add: hash_password_def derive_password_key_def py_split_next py_split_none)
  moreover have "salt \<noteq> []" "scrypt (utf8_bytes p) salt \<noteq> []"
    using assms by (metis length_0_conv zero_neq_numeral)+
  moreover have "py_int ''16384'' = Some 16384" "py_int ''8'' = Some 8" "py_int ''1'' = Some 1" "py_int ''32'' = Some 32"
    by (simp_all add: py_int_def py_int_space_def digit_value_def Let_def)
  ultimately show ?thesis
    using assms by (auto simp: verify_password_def base64_roundtrip derive_password_key_def)
qed

text \<open>A stored password hash accepts exactly the passwords with the same key: what \<open>hash_password\<close>
wrote for a password and a salt of 16 bytes, \<open>verify_password\<close> parses back, and it answers true for
another password if and only if \<open>scrypt\<close> gives both the same digest under that salt.\<close>

theorem password_roundtrip:
  assumes "length salt = 16" and "\<And>p s. length (scrypt p s) = 32"
  shows "verify_password scrypt q (hash_password scrypt p salt) \<longleftrightarrow>
    scrypt (utf8_bytes q) salt = scrypt (utf8_bytes p) salt"
  using assms by (rule verify_hash_password)

lemma password_roundtrip_witness:
  "\<not> verify_password (\<lambda>p s. take 32 (p @ s @ replicate 32 newline)) ''secreT''
     (hash_password (\<lambda>p s. take 32 (p @ s @ replicate 32 newline)) ''secret'' ''0123456789abcdef'')"
  by (subst password_roundtrip) (simp_all add: utf8_bytes_def)

section \<open>The auth service\<close>

text \<open>
  \<open>update_user\<close> can store \<open>None\<close> in the fields \<open>role\<close>, \<open>status\<close> and \<open>must_change_password\<close>, whatever
  their annotations say: an optional value.
\<close>

record auth_user =
  user_id :: string
  username :: string
  user_role :: "string option"
  user_status :: "string option"
  avatar_emoji :: "string option"
  avatar_color :: "string option"
  ai_name :: "string option"
  ai_avatar_emoji :: "string option"
  must_change_password :: "bool option"
  last_login_at :: "instant option"
  disable_reason :: "string option"
  user_notes :: "string option"

record user_record =
  rec_user :: auth_user
  rec_password_hash :: string

record auth_invite_code =
  invite_code :: string
  invite_created_by :: string
  invite_role :: string
  permission_template :: "string option"
  expires_at :: "py_datetime option"
  used_by :: "string option"
  used_at :: "instant option"

datatype auth_error =
    UserAlreadyExistsError string
  | UserNotFoundError string
  | InviteCodeAlreadyExistsError string
  | InviteCodeUnavailableError string
  | MissingUsername string

record auth_service =
  users_by_username :: "(string, user_record) dict"
  users_by_id :: "(string, auth_user) dict"
  invite_codes_by_code :: "(string, auth_invite_code) dict"

definition initial_auth_service :: auth_service where
  "initial_auth_service = \<lparr>users_by_username = [], users_by_id = [], invite_codes_by_code = []\<rparr>"

definition reset_auth :: "auth_service \<Rightarrow> auth_service" where
  "reset_auth st = st\<lparr>users_by_username := [], users_by_id := [], invite_codes_by_code := []\<rparr>"

definition get_available_invite :: "auth_service \<Rightarrow> string \<Rightarrow> instant \<Rightarrow> auth_error + auth_invite_code" where
  "get_available_invite st code now =
     (case dict_get (invite_codes_by_code st) code of
        None \<Rightarrow> Inl (InviteCodeUnavailableError code)
      | Some invite \<Rightarrow>
          if used_by invite \<noteq> None \<or> used_at invite \<noteq> None then Inl (InviteCodeUnavailableError code)
          else
            (case expires_at invite of
               None \<Rightarrow> Inr invite
             | Some e \<Rightarrow>
                 if to_utc_datetime e < now then Inl (InviteCodeUnavailableError code) else Inr invite))"

text \<open>The clock is read when the expiry is compared, and again for \<open>used_at\<close>.\<close>

definition consume_invite_code ::
  "auth_service \<Rightarrow> string \<Rightarrow> string \<Rightarrow> instant \<Rightarrow> instant \<Rightarrow> (auth_error + auth_invite_code) \<times> auth_service" where
  "consume_invite_code st code user now now' =
     (case get_available_invite st code now of
        Inl e \<Rightarrow> (Inl e, st)
      | Inr invite \<Rightarrow>
          let updated = invite\<lparr>used_by := Some user, used_at := Some now'\<rparr> in
          (Inr updated, st\<lparr>invite_codes_by_code := dict_set code updated (invite_codes_by_code st)\<rparr>))"

text \<open>
  \<open>register_user\<close> checks the invite before it hashes the password and stores the user, and again when
  it consumes it: at \<open>now\<close> and at \<open>later\<close>.
\<close>

definition register_user ::
  "(string \<Rightarrow> string \<Rightarrow> string) \<Rightarrow> auth_service \<Rightarrow> string \<Rightarrow> string \<Rightarrow> string \<Rightarrow> string option \<Rightarrow>
   string \<Rightarrow> string \<Rightarrow> instant \<Rightarrow> instant \<Rightarrow> instant \<Rightarrow> (auth_error + auth_user) \<times> auth_service" where
  "register_user scrypt st name password role invite uuid salt now later stamp =
     (if dict_get (users_by_username st) name \<noteq> None then (Inl (UserAlreadyExistsError name), st)
      else
        (case (case invite of None \<Rightarrow> Inr role
               | Some code \<Rightarrow> (case get_available_invite st code now of Inl e \<Rightarrow> Inl e | Inr i \<Rightarrow> Inr (invite_role i))) of
           Inl e \<Rightarrow> (Inl e, st)
         | Inr effective_role \<Rightarrow>
             let user =
                   \<lparr>user_id = uuid, username = name, user_role = Some effective_role,
                    user_status = Some ''active'', avatar_emoji = None, avatar_color = None, ai_name = None,
                    ai_avatar_emoji = None, must_change_password = Some False, last_login_at = None,
                    disable_reason = None, user_notes = None\<rparr>;
                 stored = \<lparr>rec_user = user, rec_password_hash = hash_password scrypt password salt\<rparr>;
                 st1 = st\<lparr>users_by_username := dict_set name stored (users_by_username st),
                          users_by_id := dict_set uuid user (users_by_id st)\<rparr>
             in (case invite of
                   None \<Rightarrow> (Inr user, st1)
                 | Some code \<Rightarrow>
                     (case consume_invite_code st1 code uuid later stamp of
                        (Inl e, st2) \<Rightarrow> (Inl e, st2)
                      | (Inr _, st2) \<Rightarrow> (Inr user, st2)))))"

definition create_invite_code ::
  "auth_service \<Rightarrow> string \<Rightarrow> string \<Rightarrow> string option \<Rightarrow> py_datetime option \<Rightarrow> string option \<Rightarrow> string \<Rightarrow>
   (auth_error + auth_invite_code) \<times> auth_service" where
  "create_invite_code st creator role template expires code uuid =
     (let code' = (case code of None \<Rightarrow> take 12 uuid | Some c \<Rightarrow> if c = [] then take 12 uuid else c) in
      if dict_get (invite_codes_by_code st) code' \<noteq> None then (Inl (InviteCodeAlreadyExistsError code'), st)
      else
        let invite = \<lparr>invite_code = code', invite_created_by = creator, invite_role = role,
                      permission_template = template, expires_at = expires, used_by = None, used_at = None\<rparr>
        in (Inr invite, st\<lparr>invite_codes_by_code := dict_set code' invite (invite_codes_by_code st)\<rparr>))"

text \<open>One entry of the keyword arguments of \<open>update_user\<close>; a field that is not allowed is dropped.\<close>

datatype user_change =
    Set_role "string option"
  | Set_status "string option"
  | Set_avatar_emoji "string option"
  | Set_avatar_color "string option"
  | Set_ai_name "string option"
  | Set_ai_avatar_emoji "string option"
  | Set_must_change_password "bool option"
  | Set_disable_reason "string option"
  | Set_notes "string option"
  | Other_field string

fun apply_change :: "user_change \<Rightarrow> auth_user \<Rightarrow> auth_user" where
  "apply_change (Set_role v) u = u\<lparr>user_role := v\<rparr>"
| "apply_change (Set_status v) u = u\<lparr>user_status := v\<rparr>"
| "apply_change (Set_avatar_emoji v) u = u\<lparr>avatar_emoji := v\<rparr>"
| "apply_change (Set_avatar_color v) u = u\<lparr>avatar_color := v\<rparr>"
| "apply_change (Set_ai_name v) u = u\<lparr>ai_name := v\<rparr>"
| "apply_change (Set_ai_avatar_emoji v) u = u\<lparr>ai_avatar_emoji := v\<rparr>"
| "apply_change (Set_must_change_password v) u = u\<lparr>must_change_password := v\<rparr>"
| "apply_change (Set_disable_reason v) u = u\<lparr>disable_reason := v\<rparr>"
| "apply_change (Set_notes v) u = u\<lparr>user_notes := v\<rparr>"
| "apply_change (Other_field _) u = u"

definition update_user ::
  "auth_service \<Rightarrow> string \<Rightarrow> user_change list \<Rightarrow> (auth_error + auth_user) \<times> auth_service" where
  "update_user st uid changes =
     (case dict_get (users_by_id st) uid of
        None \<Rightarrow> (Inl (UserNotFoundError uid), st)
      | Some current_user \<Rightarrow>
          let updated = fold apply_change changes current_user in
          (case dict_get (users_by_username st) (username updated) of
             None \<Rightarrow> (Inl (MissingUsername (username updated)), st)
           | Some r \<Rightarrow>
               (Inr updated,
                st\<lparr>users_by_username := dict_set (username updated) (r\<lparr>rec_user := updated\<rparr>) (users_by_username st),
                   users_by_id := dict_set uid updated (users_by_id st)\<rparr>)))"

definition authenticate_user ::
  "(string \<Rightarrow> string \<Rightarrow> string) \<Rightarrow> auth_service \<Rightarrow> string \<Rightarrow> string \<Rightarrow> auth_user option" where
  "authenticate_user scrypt st name password =
     (case dict_get (users_by_username st) name of
        None \<Rightarrow> None
      | Some r \<Rightarrow> if \<not> verify_password scrypt password (rec_password_hash r) then None else Some (rec_user r))"

definition get_user_by_id :: "auth_service \<Rightarrow> string \<Rightarrow> auth_user option" where
  "get_user_by_id st uid = dict_get (users_by_id st) uid"

definition list_users :: "auth_service \<Rightarrow> auth_user list" where
  "list_users st = sort_key username (map snd (users_by_id st))"

definition get_invite_code :: "auth_service \<Rightarrow> string \<Rightarrow> auth_invite_code option" where
  "get_invite_code st code = dict_get (invite_codes_by_code st) code"

definition list_invite_codes :: "auth_service \<Rightarrow> auth_invite_code list" where
  "list_invite_codes st = sort_key invite_code (map snd (invite_codes_by_code st))"

end
