(* ===== verification/AccountProtocol.thy ===== *)
theory AccountProtocol
  imports Accounts
begin

text \<open>
  The life of the accounts: the operations of the auth service as a step relation with the
  invariant that ties its three tables together, the bearer tokens, and the request dependencies
  of \<open>app/middleware/auth.py\<close>.
\<close>

section \<open>The tables agree\<close>

definition users_ok :: "auth_service \<Rightarrow> bool" where
  "users_ok st \<longleftrightarrow>
     (\<forall>name r. dict_get (users_by_username st) name = Some r \<longrightarrow>
        username (rec_user r) = name \<and> dict_get (users_by_id st) (user_id (rec_user r)) = Some (rec_user r)) \<and>
     (\<forall>uid u. dict_get (users_by_id st) uid = Some u \<longrightarrow>
        user_id u = uid \<and> (\<exists>r. dict_get (users_by_username st) (username u) = Some r \<and> rec_user r = u))"

definition invites_ok :: "auth_service \<Rightarrow> bool" where
  "invites_ok st \<longleftrightarrow>
     (\<forall>code i. dict_get (invite_codes_by_code st) code = Some i \<longrightarrow>
        invite_code i = code \<and> (used_by i = None \<longleftrightarrow> used_at i = None))"

inductive auth_step :: "auth_service \<Rightarrow> auth_service \<Rightarrow> bool" where
  registered: "dict_get (users_by_id st) uuid = None \<Longrightarrow>
    auth_step st (snd (register_user scrypt st name password role invite uuid salt now later stamp))"
| invited: "auth_step st (snd (create_invite_code st creator role template expires code uuid))"
| consumed: "auth_step st (snd (consume_invite_code st code user now stamp))"
| updated: "auth_step st (snd (update_user st uid changes))"

inductive_cases auth_stepE: "auth_step st st'"

inductive reachable_auth :: "auth_service \<Rightarrow> bool" where
  initial: "reachable_auth initial_auth_service"
| step: "reachable_auth st \<Longrightarrow> auth_step st st' \<Longrightarrow> reachable_auth st'"

subsection \<open>What each operation does to the tables\<close>

lemma fold_apply_change [simp]:
  "user_id (fold apply_change changes u) = user_id u" "username (fold apply_change changes u) = username u"
proof -
  have one: "user_id (apply_change c u) = user_id u \<and> username (apply_change c u) = username u" for c u
    by (cases c) simp_all
  show "user_id (fold apply_change changes u) = user_id u" "username (fold apply_change changes u) = username u"
    by (induction changes arbitrary: u) (simp_all add: one)
qed

lemma get_available_invite_Inr:
  "get_available_invite st code now = Inr i \<longleftrightarrow>
     dict_get (invite_codes_by_code st) code = Some i \<and> used_by i = None \<and> used_at i = None \<and>
     (\<forall>e. expires_at i = Some e \<longrightarrow> now \<le> to_utc_datetime e)"
  by (auto simp: get_available_invite_def split: option.splits)

lemma get_available_invite_Inl:
  "get_available_invite st code now = Inl e \<Longrightarrow> e = InviteCodeUnavailableError code"
  by (auto simp: get_available_invite_def split: option.splits if_splits)

lemma consume_result:
  "consume_invite_code st code user now stamp =
     (case get_available_invite st code now of
        Inl _ \<Rightarrow> (Inl (InviteCodeUnavailableError code), st)
      | Inr i \<Rightarrow> (Inr (i\<lparr>used_by := Some user, used_at := Some stamp\<rparr>),
          st\<lparr>invite_codes_by_code := dict_set code (i\<lparr>used_by := Some user, used_at := Some stamp\<rparr>)
               (invite_codes_by_code st)\<rparr>))"
  by (auto simp: consume_invite_code_def Let_def dest: get_available_invite_Inl split: sum.split)

lemma consume_users [simp]:
  "users_by_id (snd (consume_invite_code st code user now stamp)) = users_by_id st"
  "users_by_username (snd (consume_invite_code st code user now stamp)) = users_by_username st"
  by (simp_all add: consume_result split: sum.split)

lemma create_invite_users [simp]:
  "users_by_id (snd (create_invite_code st creator role template expires code uuid)) = users_by_id st"
  "users_by_username (snd (create_invite_code st creator role template expires code uuid)) = users_by_username st"
  by (simp_all add: create_invite_code_def Let_def)

lemma update_invites [simp]:
  "invite_codes_by_code (snd (update_user st uid changes)) = invite_codes_by_code st"
  by (simp add: update_user_def Let_def split: option.split)

text \<open>The user that a registration stores, and the service with it.\<close>

definition new_user :: "string \<Rightarrow> string \<Rightarrow> string \<Rightarrow> auth_user" where
  "new_user uuid name role =
     \<lparr>user_id = uuid, username = name, user_role = Some role, user_status = Some ''active'',
      avatar_emoji = None, avatar_color = None, ai_name = None, ai_avatar_emoji = None,
      must_change_password = Some False, last_login_at = None, disable_reason = None, user_notes = None\<rparr>"

definition with_user :: "(string \<Rightarrow> string \<Rightarrow> string) \<Rightarrow> string \<Rightarrow> string \<Rightarrow> auth_user \<Rightarrow> auth_service \<Rightarrow> auth_service" where
  "with_user scrypt password salt u st =
     st\<lparr>users_by_username := dict_set (username u)
          \<lparr>rec_user = u, rec_password_hash = hash_password scrypt password salt\<rparr> (users_by_username st),
        users_by_id := dict_set (user_id u) u (users_by_id st)\<rparr>"

lemma new_user_sel [simp]:
  "user_id (new_user uuid name role) = uuid" "username (new_user uuid name role) = name"
  "user_role (new_user uuid name role) = Some role" "user_status (new_user uuid name role) = Some ''active''"
  by (simp_all add: new_user_def)

lemma with_user_sel [simp]:
  "invite_codes_by_code (with_user scrypt password salt u st) = invite_codes_by_code st"
  "get_available_invite (with_user scrypt password salt u st) code now = get_available_invite st code now"
  by (simp_all add: with_user_def get_available_invite_def)

lemma register_user_eq:
  "register_user scrypt st name password role invite uuid salt now later stamp =
     (if dict_get (users_by_username st) name \<noteq> None then (Inl (UserAlreadyExistsError name), st)
      else (case invite of
          None \<Rightarrow> (Inr (new_user uuid name role), with_user scrypt password salt (new_user uuid name role) st)
        | Some code \<Rightarrow>
            (case get_available_invite st code now of
               Inl _ \<Rightarrow> (Inl (InviteCodeUnavailableError code), st)
             | Inr i \<Rightarrow>
                 (case consume_invite_code (with_user scrypt password salt (new_user uuid name (invite_role i)) st)
                        code uuid later stamp of
                    (Inl e, st2) \<Rightarrow> (Inl e, st2)
                  | (Inr _, st2) \<Rightarrow> (Inr (new_user uuid name (invite_role i)), st2)))))"
proof (cases invite)
  case (Some code)
  then show ?thesis
    by (cases "get_available_invite st code now")
      (auto simp: register_user_def new_user_def with_user_def Let_def
        dest: get_available_invite_Inl split: prod.split sum.split)
qed (simp add: register_user_def new_user_def with_user_def Let_def)

subsection \<open>Every step keeps the tables in agreement\<close>

lemma users_okD:
  assumes "users_ok st"
  shows "dict_get (users_by_username st) name = Some r \<Longrightarrow>
      username (rec_user r) = name \<and> dict_get (users_by_id st) (user_id (rec_user r)) = Some (rec_user r)"
    and "dict_get (users_by_id st) uid = Some u \<Longrightarrow>
      user_id u = uid \<and> (\<exists>r. dict_get (users_by_username st) (username u) = Some r \<and> rec_user r = u)"
  using assms unfolding users_ok_def by blast+

lemma users_ok_cong:
  "users_by_username st' = users_by_username st \<Longrightarrow> users_by_id st' = users_by_id st \<Longrightarrow> users_ok st' = users_ok st"
  by (simp add: users_ok_def)

lemma users_ok_with_user:
  assumes "users_ok st" "dict_get (users_by_username st) (username u) = None" "dict_get (users_by_id st) (user_id u) = None"
  shows "users_ok (with_user scrypt password salt u st)"
proof -
  have a: "user_id (rec_user r) \<noteq> user_id u \<and> username (rec_user r) = name \<and>
      dict_get (users_by_id st) (user_id (rec_user r)) = Some (rec_user r)"
    if "dict_get (users_by_username st) name = Some r" for name r
    using users_okD(1) [OF assms(1) that] assms(3) by auto
  have b: "username v \<noteq> username u \<and> user_id v = i \<and>
      (\<exists>r. dict_get (users_by_username st) (username v) = Some r \<and> rec_user r = v)"
    if "dict_get (users_by_id st) i = Some v" for i v
    using users_okD(2) [OF assms(1) that] assms(2) by auto
  show ?thesis unfolding users_ok_def with_user_def using a b by simp
qed

lemma users_ok_update:
  assumes ok: "users_ok st"
  shows "users_ok (snd (update_user st uid changes))"
proof (cases "dict_get (users_by_id st) uid")
  case (Some u)
  then obtain r where u: "user_id u = uid" "dict_get (users_by_username st) (username u) = Some r" "rec_user r = u"
    using users_okD(2) [OF ok] by blast
  have other: "username v \<noteq> username u" if "dict_get (users_by_id st) i = Some v" "i \<noteq> uid" for i v
    using users_okD(2) [OF ok that(1)] u that(2) by auto
  let ?u = "fold apply_change changes u"
  have st': "snd (update_user st uid changes) =
      st\<lparr>users_by_username := dict_set (username u) (r\<lparr>rec_user := ?u\<rparr>) (users_by_username st),
         users_by_id := dict_set uid ?u (users_by_id st)\<rparr>"
    using Some u(2) by (simp add: update_user_def Let_def)
  have names: "user_id (rec_user q) \<noteq> uid \<and> username (rec_user q) = name \<and>
      dict_get (users_by_id st) (user_id (rec_user q)) = Some (rec_user q)"
    if "dict_get (users_by_username st) name = Some q" "name \<noteq> username u" for name q
    using users_okD(1) [OF ok that(1)] that(2) Some by auto
  have ids: "username v \<noteq> username u \<and> user_id v = i \<and>
      (\<exists>q. dict_get (users_by_username st) (username v) = Some q \<and> rec_user q = v)"
    if "dict_get (users_by_id st) i = Some v" "i \<noteq> uid" for i v
    using users_okD(2) [OF ok that(1)] other [OF that] by auto
  show ?thesis unfolding st' users_ok_def using names ids u(1) by simp
qed (use ok in \<open>simp add: update_user_def\<close>)

lemma invites_ok_set:
  "invites_ok st \<Longrightarrow> invite_code i = code \<Longrightarrow> (used_by i = None \<longleftrightarrow> used_at i = None) \<Longrightarrow>
   invites_ok (st\<lparr>invite_codes_by_code := dict_set code i (invite_codes_by_code st)\<rparr>)"
  by (simp add: invites_ok_def)

lemma invites_ok_cong:
  "invite_codes_by_code st' = invite_codes_by_code st \<Longrightarrow> invites_ok st' = invites_ok st"
  by (simp add: invites_ok_def)

lemma consume_invites_ok:
  assumes "invites_ok st"
  shows "invites_ok (snd (consume_invite_code st code user now stamp))"
proof (cases "get_available_invite st code now")
  case (Inr i)
  then have "invite_code i = code" using assms by (simp add: get_available_invite_Inr invites_ok_def)
  with Inr assms show ?thesis by (simp add: consume_result invites_ok_set)
qed (use assms in \<open>simp add: consume_result\<close>)

lemma register_ok:
  assumes "users_ok st" "invites_ok st" "dict_get (users_by_id st) uuid = None"
  shows "users_ok (snd (register_user scrypt st name password role invite uuid salt now later stamp)) \<and>
    invites_ok (snd (register_user scrypt st name password role invite uuid salt now later stamp))"
proof -
  have ok1: "users_ok (with_user scrypt password salt (new_user uuid name r) st)"
    if "dict_get (users_by_username st) name = None" for r
    using assms(1,3) that by (simp add: users_ok_with_user)
  have ok2: "invites_ok (with_user scrypt password salt u st)" for u
    using assms(2) invites_ok_cong [OF with_user_sel(1)] by blast
  show ?thesis
  proof (cases "dict_get (users_by_username st) name = None")
    case free: True
    note ok = ok1 [OF free] ok2
    show ?thesis
    proof (cases invite)
      case None
      with free ok show ?thesis by (simp add: register_user_eq)
    next
      case (Some code)
      show ?thesis
      proof (cases "get_available_invite st code now")
        case (Inr i)
        let ?c = "consume_invite_code (with_user scrypt password salt (new_user uuid name (invite_role i)) st)
          code uuid later stamp"
        have "snd (register_user scrypt st name password role invite uuid salt now later stamp) = snd ?c"
          using free Some Inr by (simp add: register_user_eq split: prod.split sum.split)
        moreover have "users_ok (snd ?c)"
          using ok(1) users_ok_cong [OF consume_users(2) consume_users(1)] by blast
        ultimately show ?thesis using ok(2) by (simp add: consume_invites_ok)
      qed (use free Some assms in \<open>simp add: register_user_eq\<close>)
    qed
  qed (use assms in \<open>simp add: register_user_eq\<close>)
qed

lemma auth_step_ok:
  assumes "auth_step st st'" "users_ok st" "invites_ok st"
  shows "users_ok st' \<and> invites_ok st'"
  using assms
proof (cases rule: auth_step.cases)
  case (registered uuid scrypt name password role invite salt now later stamp)
  with register_ok assms(2,3) show ?thesis by simp
next
  case (invited creator role template expires code uuid)
  have "users_ok st'"
    using invited assms(2) users_ok_cong [OF create_invite_users(2) create_invite_users(1)] by blast
  moreover have "invites_ok st'"
    using invited assms(3) by (simp add: create_invite_code_def Let_def invites_ok_set)
  ultimately show ?thesis ..
next
  case (consumed code user now stamp)
  then show ?thesis
    using assms(2,3) users_ok_cong [OF consume_users(2) consume_users(1)] consume_invites_ok by blast
next
  case (updated uid changes)
  then show ?thesis
    using assms(2,3) users_ok_update invites_ok_cong [OF update_invites] by blast
qed

lemma reachable_auth_ok: "reachable_auth st \<Longrightarrow> users_ok st \<and> invites_ok st"
proof (induction rule: reachable_auth.induct)
  case initial
  show ?case by (simp add: users_ok_def invites_ok_def initial_auth_service_def)
qed (use auth_step_ok in blast)

section \<open>Users\<close>

text \<open>An update of a user is what every later reader sees: in a reachable state an update of a
known user never fails, keeps the user's id and name, and from then on both a lookup by id and a login
with an accepted password give the updated user; nobody else's record changes.\<close>

theorem update_seen_everywhere:
  assumes "reachable_auth st" and "get_user_by_id st uid = Some u"
  shows "\<exists>u' st'. update_user st uid changes = (Inr u', st') \<and> user_id u' = uid \<and> username u' = username u \<and>
    get_user_by_id st' uid = Some u' \<and>
    (\<forall>password. authenticate_user scrypt st (username u) password \<in> {None, Some u} \<and>
       authenticate_user scrypt st' (username u) password =
         map_option (\<lambda>_. u') (authenticate_user scrypt st (username u) password)) \<and>
    (\<forall>i. i \<noteq> uid \<longrightarrow> get_user_by_id st' i = get_user_by_id st i) \<and>
    (\<forall>name password. name \<noteq> username u \<longrightarrow>
       authenticate_user scrypt st' name password = authenticate_user scrypt st name password)"
proof -
  obtain r where u: "user_id u = uid" "dict_get (users_by_username st) (username u) = Some r" "rec_user r = u"
    using users_okD(2) reachable_auth_ok [OF assms(1)] assms(2) unfolding get_user_by_id_def by blast
  with assms(2) show ?thesis
    by (simp add: update_user_def get_user_by_id_def authenticate_user_def Let_def)
qed

definition example_scrypt :: "string \<Rightarrow> string \<Rightarrow> string" where
  "example_scrypt p s = take 32 (p @ s @ replicate 32 newline)"

definition example_accounts :: auth_service where
  "example_accounts = snd (register_user example_scrypt initial_auth_service ''ann'' ''pw'' ''member'' None
     ''id1'' ''0123456789abcdef'' 5 5 5)"

lemma example_accounts_reachable: "reachable_auth example_accounts"
  unfolding example_accounts_def
  by (rule reachable_auth.step [OF reachable_auth.initial auth_step.registered]) (simp add: initial_auth_service_def)

lemma example_accounts_user: "get_user_by_id example_accounts ''id1'' = Some (new_user ''id1'' ''ann'' ''member'')"
  by (simp add: example_accounts_def register_user_eq with_user_def get_user_by_id_def initial_auth_service_def)

lemma update_seen_everywhere_witness:
  "\<exists>u' st'. update_user example_accounts ''id1'' [Set_role (Some ''admin'')] = (Inr u', st') \<and>
     get_user_by_id st' ''id1'' = Some u'"
  using update_seen_everywhere [OF example_accounts_reachable example_accounts_user, of "[Set_role (Some ''admin'')]" example_scrypt]
  by (elim exE conjE) (intro exI conjI)

section \<open>Invite codes\<close>

lemma auth_step_invite:
  assumes "auth_step st st'" "dict_get (invite_codes_by_code st) code = Some i" "used_by i \<noteq> None"
  shows "dict_get (invite_codes_by_code st') code = Some i"
proof -
  have unavailable: "\<exists>e. get_available_invite s code n = Inl e"
    if "invite_codes_by_code s = invite_codes_by_code st" for s n
    using assms(2,3) that by (simp add: get_available_invite_def)
  have consume: "dict_get (invite_codes_by_code (snd (consume_invite_code s c user n stamp))) code = Some i"
    if "invite_codes_by_code s = invite_codes_by_code st" for s c user n stamp
    using unavailable [OF that, of n] assms(2) that
    by (cases "c = code") (auto simp: consume_result split: sum.split)
  from assms(1) show ?thesis
  proof (cases rule: auth_step.cases)
    case (registered uuid scrypt name password role invite salt now later stamp)
    show ?thesis
    proof (cases "\<exists>c j. dict_get (users_by_username st) name = None \<and> invite = Some c \<and>
        get_available_invite st c now = Inr j")
      case True
      then obtain c j where c: "dict_get (users_by_username st) name = None" "invite = Some c"
        "get_available_invite st c now = Inr j" by blast
      then have "st' = snd (consume_invite_code (with_user scrypt password salt (new_user uuid name (invite_role j)) st)
          c uuid later stamp)"
        using registered(1) by (simp add: register_user_eq split: prod.split sum.split)
      with consume [OF with_user_sel(1)] show ?thesis by simp
    next
      case False
      then have "invite_codes_by_code st' = invite_codes_by_code st"
        using registered(1) by (auto simp: register_user_eq split: option.split sum.split)
      with assms(2) show ?thesis by simp
    qed
  next
    case (invited creator role template expires c uuid)
    with assms(2) show ?thesis by (auto simp: create_invite_code_def Let_def)
  next
    case (consumed c user now stamp)
    with consume show ?thesis by simp
  qed (use assms(2) in simp)
qed

text \<open>C18: An invite code admits one user only: once a code is used, it keeps its user for ever, in
every later state it is refused, and a registration with it is refused without any change.\<close>

theorem invite_single_use:
  assumes "auth_step\<^sup>*\<^sup>* st st'" and "dict_get (invite_codes_by_code st) code = Some i" "used_by i = Some user"
  shows "get_invite_code st' code = Some i \<and>
    get_available_invite st' code now = Inl (InviteCodeUnavailableError code) \<and>
    (dict_get (users_by_username st') name = None \<longrightarrow>
       register_user scrypt st' name password role (Some code) uuid salt now later stamp =
         (Inl (InviteCodeUnavailableError code), st'))"
proof -
  from assms(1) have "dict_get (invite_codes_by_code st') code = Some i"
    by (induction rule: rtranclp_induct) (use assms(2,3) auth_step_invite in auto)
  with assms(3) show ?thesis
    by (simp add: get_invite_code_def get_available_invite_def register_user_eq)
qed

definition example_invited :: auth_service where
  "example_invited = snd (register_user example_scrypt
     (snd (create_invite_code initial_auth_service ''id0'' ''admin'' None (Some (Aware 9 2)) (Some ''code'') []))
     ''bob'' ''pw'' ''member'' (Some ''code'') ''id2'' ''0123456789abcdef'' 5 6 7)"

lemma invite_single_use_witness:
  "get_available_invite example_invited ''code'' 7 = Inl (InviteCodeUnavailableError ''code'')"
proof -
  have "map_option used_by (dict_get (invite_codes_by_code example_invited) ''code'') = Some (Some ''id2'')"
    by (simp add: example_invited_def create_invite_code_def register_user_eq consume_result with_user_def
        get_available_invite_def initial_auth_service_def Let_def)
  then obtain i where "dict_get (invite_codes_by_code example_invited) ''code'' = Some i" "used_by i = Some ''id2''"
    by (auto simp del: map_of_eq_Some_iff)
  from invite_single_use [OF rtranclp.rtrancl_refl this] show ?thesis by blast
qed

text \<open>What a registration does, on every branch: a name that is taken, or an invite code that is
missing, used or expired, is refused without any change; otherwise the new user is stored, active,
with the invite's role or the given one, and the code is marked as used. But a code that expires while
the password is hashed is refused after the user has been stored with the invited role: the caller
gets the error, the account exists, and the code stays unused.\<close>

lemma register_user_branches:
  assumes "r = register_user scrypt st name password role invite uuid salt now later stamp"
  shows "(dict_get (users_by_username st) name \<noteq> None \<longrightarrow> r = (Inl (UserAlreadyExistsError name), st)) \<and>
    (dict_get (users_by_username st) name = None \<longrightarrow>
      (case invite of
         None \<Rightarrow> fst r = Inr (new_user uuid name role) \<and>
           snd r = with_user scrypt password salt (new_user uuid name role) st
       | Some code \<Rightarrow>
           (case get_available_invite st code now of
              Inl _ \<Rightarrow> r = (Inl (InviteCodeUnavailableError code), st)
            | Inr i \<Rightarrow>
                get_user_by_id (snd r) uuid = Some (new_user uuid name (invite_role i)) \<and>
                dict_get (users_by_username (snd r)) name =
                  Some \<lparr>rec_user = new_user uuid name (invite_role i),
                        rec_password_hash = hash_password scrypt password salt\<rparr> \<and>
                (if \<exists>e. expires_at i = Some e \<and> to_utc_datetime e < later
                 then fst r = Inl (InviteCodeUnavailableError code) \<and>
                   invite_codes_by_code (snd r) = invite_codes_by_code st
                 else fst r = Inr (new_user uuid name (invite_role i)) \<and>
                   get_invite_code (snd r) code = Some (i\<lparr>used_by := Some uuid, used_at := Some stamp\<rparr>)))))"
proof (cases "\<exists>code i. dict_get (users_by_username st) name = None \<and> invite = Some code \<and>
    get_available_invite st code now = Inr i")
  case False
  then show ?thesis
    unfolding assms by (auto simp: register_user_eq split: option.split sum.split)
next
  case True
  then obtain code i where i: "dict_get (users_by_username st) name = None" "invite = Some code"
    "get_available_invite st code now = Inr i" by blast
  let ?u = "new_user uuid name (invite_role i)"
  have code: "dict_get (invite_codes_by_code st) code = Some i" "used_by i = None" "used_at i = None"
    using i(3) by (simp_all add: get_available_invite_Inr)
  show ?thesis
  proof (cases "\<exists>e. expires_at i = Some e \<and> to_utc_datetime e < later")
    case True
    then have "get_available_invite st code later = Inl (InviteCodeUnavailableError code)"
      using code by (auto simp: get_available_invite_def)
    with i assms have "r = (Inl (InviteCodeUnavailableError code), with_user scrypt password salt ?u st)"
      by (simp add: register_user_eq consume_result)
    with True i show ?thesis by (simp add: with_user_def get_user_by_id_def)
  next
    case False
    then have "get_available_invite st code later = Inr i"
      using code by (auto simp: get_available_invite_Inr)
    with i assms have "r = (Inr ?u, with_user scrypt password salt ?u st
        \<lparr>invite_codes_by_code := dict_set code (i\<lparr>used_by := Some uuid, used_at := Some stamp\<rparr>)
           (invite_codes_by_code st)\<rparr>)"
      by (simp add: register_user_eq consume_result)
    with False i show ?thesis by (auto simp: with_user_def get_user_by_id_def get_invite_code_def)
  qed
qed

lemma register_user_branches_witness:
  "\<exists>u. get_user_by_id (snd (register_user example_scrypt
       (snd (create_invite_code initial_auth_service ''id0'' ''admin'' None (Some (Naive 9)) (Some ''code'') []))
       ''bob'' ''pw'' ''member'' (Some ''code'') ''id2'' ''0123456789abcdef'' 5 10 10)) ''id2'' = Some u \<and>
     user_role u = Some ''admin'' \<and> user_status u = Some ''active''"
proof -
  let ?st = "snd (create_invite_code initial_auth_service ''id0'' ''admin'' None (Some (Naive 9)) (Some ''code'') [])"
  let ?r = "register_user example_scrypt ?st ''bob'' ''pw'' ''member'' (Some ''code'') ''id2'' ''0123456789abcdef'' 5 10 10"
  have st: "?st = \<lparr>users_by_username = [], users_by_id = [], invite_codes_by_code =
      [(''code'', \<lparr>invite_code = ''code'', invite_created_by = ''id0'', invite_role = ''admin'',
        permission_template = None, expires_at = Some (Naive 9), used_by = None, used_at = None\<rparr>)]\<rparr>"
    by (simp add: create_invite_code_def initial_auth_service_def Let_def)
  have i: "get_available_invite ?st ''code'' 5 = Inr \<lparr>invite_code = ''code'', invite_created_by = ''id0'',
      invite_role = ''admin'', permission_template = None, expires_at = Some (Naive 9), used_by = None, used_at = None\<rparr>"
    "dict_get (users_by_username ?st) ''bob'' = None"
    unfolding st by (simp_all add: get_available_invite_def)
  show ?thesis using register_user_branches [where scrypt = example_scrypt and st = ?st and name = "''bob''"
      and password = "''pw''" and role = "''member''" and invite = "Some ''code''" and uuid = "''id2''"
      and salt = "''0123456789abcdef''" and now = 5 and later = 10 and stamp = 10, OF refl] i by simp
qed

section \<open>Tokens and the current user\<close>

text \<open>
  \<open>jwt_encode\<close> takes the subject and the expiry, \<open>jwt_decode\<close> gives \<open>None\<close> for a \<open>JWTError\<close> and
  otherwise the payload's subject when that is a string.
\<close>

definition create_access_token ::
  "(string \<Rightarrow> instant \<Rightarrow> string) \<Rightarrow> instant \<Rightarrow> string \<Rightarrow> instant \<Rightarrow> string" where
  "create_access_token jwt_encode expires_delta uid now = jwt_encode uid (now + expires_delta)"

definition decode_access_token ::
  "(instant \<Rightarrow> string \<Rightarrow> string option option) \<Rightarrow> string \<Rightarrow> instant \<Rightarrow> string option" where
  "decode_access_token jwt_decode token now =
     (case jwt_decode now token of None \<Rightarrow> None | Some subject \<Rightarrow> subject)"

datatype http_error = Http_error int string

definition unauthorized_error :: http_error where
  "unauthorized_error = Http_error 401 ''invalid or missing token''"

definition get_current_user ::
  "(instant \<Rightarrow> string \<Rightarrow> string option option) \<Rightarrow> auth_service \<Rightarrow> string option \<Rightarrow> instant \<Rightarrow> http_error + auth_user" where
  "get_current_user jwt_decode st credentials now =
     (case credentials of
        None \<Rightarrow> Inl unauthorized_error
      | Some token \<Rightarrow>
          (case decode_access_token jwt_decode token now of
             None \<Rightarrow> Inl unauthorized_error
           | Some uid \<Rightarrow>
               (case get_user_by_id st uid of None \<Rightarrow> Inl unauthorized_error | Some u \<Rightarrow> Inr u)))"

definition require_role :: "string \<Rightarrow> http_error + auth_user \<Rightarrow> http_error + auth_user" where
  "require_role role current =
     (case current of
        Inl e \<Rightarrow> Inl e
      | Inr u \<Rightarrow> if user_role u \<noteq> Some role then Inl (Http_error 403 ''permission denied'') else Inr u)"

definition require_permission :: "string \<Rightarrow> string \<Rightarrow> http_error + auth_user \<Rightarrow> http_error + auth_user" where
  "require_permission resource action current =
     (case current of
        Inl e \<Rightarrow> Inl e
      | Inr u \<Rightarrow>
          if \<not> has_permission (user_role u) resource action then Inl (Http_error 403 ''permission denied'')
          else Inr u)"

lemma require_permission_Inr:
  "require_permission resource action current = Inr u \<longleftrightarrow>
     current = Inr u \<and> has_permission (user_role u) resource action"
  by (auto simp: require_permission_def split: sum.split)

lemma require_role_Inr:
  "require_role role current = Inr u \<longleftrightarrow> current = Inr u \<and> user_role u = Some role"
  by (auto simp: require_role_def split: sum.split)

lemma get_current_user_issued:
  assumes "\<And>subject exp t. t \<le> exp \<Longrightarrow> jwt_decode t (jwt_encode subject exp) = Some (Some subject)"
    and "get_user_by_id st uid = Some u" "now \<le> issued + delta"
  shows "get_current_user jwt_decode st (Some (create_access_token jwt_encode delta uid issued)) now = Inr u"
  using assms by (simp add: get_current_user_def decode_access_token_def create_access_token_def)

text \<open>Disabling a user has no effect: whatever status an update gives a user, the user's password
still logs in, the tokens issued before still name the user until they expire, and every permission of
the role is still granted.\<close>

theorem status_never_checked:
  assumes "reachable_auth st" and u: "get_user_by_id st uid = Some u"
    and login: "authenticate_user scrypt st (username u) password \<noteq> None"
    and jwt: "\<And>subject exp t. t \<le> exp \<Longrightarrow> jwt_decode t (jwt_encode subject exp) = Some (Some subject)"
    and time: "now \<le> issued + delta"
  shows "\<exists>u' st'. update_user st uid [Set_status (Some new_status)] = (Inr u', st') \<and>
    user_status u' = Some new_status \<and> user_role u' = user_role u \<and>
    authenticate_user scrypt st' (username u) password = Some u' \<and>
    get_current_user jwt_decode st' (Some (create_access_token jwt_encode delta uid issued)) now = Inr u' \<and>
    (has_permission (user_role u) resource action \<longrightarrow>
       require_permission resource action
         (get_current_user jwt_decode st' (Some (create_access_token jwt_encode delta uid issued)) now) = Inr u')"
proof -
  obtain r where r: "user_id u = uid" "dict_get (users_by_username st) (username u) = Some r" "rec_user r = u"
    using users_okD(2) reachable_auth_ok [OF assms(1)] u unfolding get_user_by_id_def by blast
  let ?u' = "u\<lparr>user_status := Some new_status\<rparr>"
  let ?st' = "snd (update_user st uid [Set_status (Some new_status)])"
  have st': "update_user st uid [Set_status (Some new_status)] = (Inr ?u', ?st')" "get_user_by_id ?st' uid = Some ?u'"
    "authenticate_user scrypt ?st' (username u) password = Some ?u'"
    using u r login by (simp_all add: update_user_def get_user_by_id_def authenticate_user_def Let_def split: if_splits)
  have "get_current_user jwt_decode ?st' (Some (create_access_token jwt_encode delta uid issued)) now = Inr ?u'"
    using get_current_user_issued [of jwt_decode jwt_encode] jwt st'(2) time by blast
  with st' show ?thesis
    by (intro exI [of _ ?u'] exI [of _ ?st']) (simp add: require_permission_Inr)
qed

lemma status_never_checked_witness:
  "\<exists>u' st'. update_user example_accounts ''id1'' [Set_status (Some ''disabled'')] = (Inr u', st') \<and>
     user_status u' = Some ''disabled'' \<and> authenticate_user example_scrypt st' ''ann'' ''pw'' = Some u' \<and>
     get_current_user (\<lambda>t token. Some (Some token)) st' (Some ''id1'') 7 = Inr u'"
proof -
  have "verify_password example_scrypt ''pw'' (hash_password example_scrypt ''pw'' ''0123456789abcdef'')"
    by (simp add: verify_hash_password example_scrypt_def)
  then have "authenticate_user example_scrypt example_accounts (username (new_user ''id1'' ''ann'' ''member'')) ''pw'' \<noteq> None"
    by (simp add: example_accounts_def register_user_eq with_user_def authenticate_user_def initial_auth_service_def)
  from status_never_checked [OF example_accounts_reachable example_accounts_user this,
      where jwt_decode = "\<lambda>t token. Some (Some token)" and jwt_encode = "\<lambda>subject exp. subject"
        and now = 7 and issued = 5 and delta = 10 and new_status = "''disabled''" and resource = "''tasks''" and action = "''read''"]
  obtain u' st' where "update_user example_accounts ''id1'' [Set_status (Some ''disabled'')] = (Inr u', st')"
    "user_status u' = Some ''disabled''" "authenticate_user example_scrypt st' ''ann'' ''pw'' = Some u'"
    "get_current_user (\<lambda>t token. Some (Some token)) st' (Some (create_access_token (\<lambda>subject exp. subject) 10 ''id1'' 5)) 7 = Inr u'"
    by (elim meta_impE exE conjE) simp_all
  then show ?thesis unfolding create_access_token_def by (intro exI conjI)
qed

end
