(* ===== verification/WorkspaceRoutes.thy ===== *)
theory WorkspaceRoutes
  imports WorkspaceRegistry AccountProtocol
begin

text \<open>
  The handlers of \<open>app/routes/groups.py\<close>. Each takes the outcome of its dependency (\<open>current\<close>, the
  current user or the error of \<open>get_current_user\<close> or \<open>require_permission\<close>) and gives the response or an
  HTTP error, with the database after the request.
\<close>

type_synonym 'a response = "(http_error + 'a) \<times> workspace_db"

definition as_user :: "http_error + auth_user \<Rightarrow> workspace_db \<Rightarrow> (auth_user \<Rightarrow> 'a response) \<Rightarrow> 'a response" where
  "as_user current db handler = (case current of Inl e \<Rightarrow> (Inl e, db) | Inr u \<Rightarrow> handler u)"

section \<open>Responses\<close>

record group_summary =
  summary_group_id :: string
  summary_name :: string

definition to_group_summary_response :: "registered_group \<Rightarrow> group_summary" where
  "to_group_summary_response g = \<lparr>summary_group_id = folder g, summary_name = group_name g\<rparr>"

record member_response =
  response_group_id :: string
  response_user_id :: string
  response_role :: string
  response_joined_at :: instant

definition to_group_member_response :: "group_member \<Rightarrow> member_response" where
  "to_group_member_response m =
     \<lparr>response_group_id = member_folder m, response_user_id = member_user_id m,
      response_role = member_role m, response_joined_at = joined_at m\<rparr>"

text \<open>The status codes that the handlers give to the services' exceptions.\<close>

fun registry_http_error :: "registry_error \<Rightarrow> http_error" where
  "registry_http_error (Conflict_error detail) = Http_error 409 detail"
| "registry_http_error (Lookup_error detail) = Http_error 404 detail"
| "registry_http_error (Value_error detail) = Http_error 400 detail"

abbreviation permission_denied :: http_error where
  "permission_denied \<equiv> Http_error 403 ''permission denied''"

section \<open>Guards\<close>

definition require_accessible_workspace ::
  "workspace_db \<Rightarrow> string \<Rightarrow> auth_user \<Rightarrow> instant \<Rightarrow> registered_group response" where
  "require_accessible_workspace db group_id u now =
     (case get_web_workspace_by_folder db group_id now of
        (None, db1) \<Rightarrow> (Inl (Http_error 404 ''group not found''), db1)
      | (Some workspace, db1) \<Rightarrow>
          if \<not> user_can_access_group db1 (user_id u) (user_role u) workspace
          then (Inl (Http_error 404 ''group not found''), db1)
          else (Inr workspace, db1))"

definition in_workspace ::
  "workspace_db \<Rightarrow> string \<Rightarrow> auth_user \<Rightarrow> instant \<Rightarrow>
   (registered_group \<Rightarrow> workspace_db \<Rightarrow> 'a response) \<Rightarrow> 'a response" where
  "in_workspace db group_id u now handler =
     (case require_accessible_workspace db group_id u now of
        (Inl e, db1) \<Rightarrow> (Inl e, db1)
      | (Inr workspace, db1) \<Rightarrow> handler workspace db1)"

definition require_owner_binding_role :: "auth_user \<Rightarrow> http_error option" where
  "require_owner_binding_role u = (if user_role u \<noteq> Some ''owner'' then Some permission_denied else None)"

definition ensure_owner_role_change_supported :: "workspace_db \<Rightarrow> string \<Rightarrow> string \<Rightarrow> string \<Rightarrow> http_error option" where
  "ensure_owner_role_change_supported db ws uid requested_role =
     (let existing = get_member db ws uid;
          unsupported = Some (Http_error 400 ''owner role changes are not supported'')
      in if requested_role = ''owner'' then
           (case existing of None \<Rightarrow> unsupported | Some m \<Rightarrow> if member_role m \<noteq> ''owner'' then unsupported else None)
         else (case existing of None \<Rightarrow> None | Some m \<Rightarrow> if member_role m = ''owner'' then unsupported else None))"

text \<open>The service's result as a response.\<close>

definition respond :: "('a \<Rightarrow> 'b) \<Rightarrow> (registry_error + 'a) \<times> workspace_db \<Rightarrow> 'b response" where
  "respond f r = (case r of (Inl e, db) \<Rightarrow> (Inl (registry_http_error e), db) | (Inr x, db) \<Rightarrow> (Inr (f x), db))"

section \<open>Groups\<close>

definition list_groups :: "workspace_db \<Rightarrow> http_error + auth_user \<Rightarrow> instant \<Rightarrow> group_summary list response" where
  "list_groups db current now =
     as_user current db (\<lambda>u.
       let db1 = snd (ensure_home_workspace db (user_id u) (user_role u) (username u) now) in
       (Inr (map to_group_summary_response
          (filter (\<lambda>g. is_web g \<and> channel_from_jid (jid g) = None \<and>
             user_can_access_group db1 (user_id u) (user_role u) g) (list_registered_groups db1))), db1))"

definition create_group ::
  "workspace_db \<Rightarrow> http_error + auth_user \<Rightarrow> string \<Rightarrow> string \<Rightarrow> instant \<Rightarrow> group_summary response" where
  "create_group db current group_id name now =
     as_user (require_permission ''groups'' ''write'' current) db (\<lambda>u.
       respond to_group_summary_response (create_workspace db group_id name (user_id u) now))"

definition update_group ::
  "workspace_db \<Rightarrow> http_error + auth_user \<Rightarrow> string \<Rightarrow> string \<Rightarrow> instant \<Rightarrow> group_summary response" where
  "update_group db current group_id name now =
     as_user (require_permission ''groups'' ''write'' current) db (\<lambda>u.
       in_workspace db group_id u now (\<lambda>workspace db1.
         let rest = (\<lambda>db2.
               if \<not> user_can_manage_members (user_id u) workspace then (Inl permission_denied, db2)
               else respond to_group_summary_response (rename_workspace db2 workspace name))
         in if is_home workspace then
              (case rename_workspace db1 workspace name of
                 (Inl e, db2) \<Rightarrow> (Inl (registry_http_error e), db2)
               | (Inr _, db2) \<Rightarrow> rest db2)
            else rest db1))"

section \<open>Slots\<close>

definition list_group_slots ::
  "workspace_db \<Rightarrow> http_error + auth_user \<Rightarrow> string \<Rightarrow> instant \<Rightarrow> conversation_slot list response" where
  "list_group_slots db current group_id now =
     as_user current db (\<lambda>u. in_workspace db group_id u now (\<lambda>workspace db1.
       (Inr (list_slots db1 (folder workspace)), db1)))"

definition create_group_slot ::
  "workspace_db \<Rightarrow> http_error + auth_user \<Rightarrow> string \<Rightarrow> string \<Rightarrow> string \<Rightarrow> instant \<Rightarrow> conversation_slot response" where
  "create_group_slot db current group_id sid title now =
     as_user current db (\<lambda>u. in_workspace db group_id u now (\<lambda>workspace db1.
       respond id (create_slot db1 (folder workspace) sid title (Some (user_id u)) now)))"

section \<open>IM bindings\<close>

definition list_group_im_bindings ::
  "workspace_db \<Rightarrow> http_error + auth_user \<Rightarrow> string \<Rightarrow> instant \<Rightarrow> im_binding list response" where
  "list_group_im_bindings db current group_id now =
     as_user current db (\<lambda>u.
       case require_owner_binding_role u of
         Some e \<Rightarrow> (Inl e, db)
       | None \<Rightarrow> in_workspace db group_id u now (\<lambda>workspace db1.
           (Inr (list_im_endpoint_bindings db1 workspace), db1)))"

definition channel_from_im_jid :: "string \<Rightarrow> string" where
  "channel_from_im_jid j = (if py_startswith j ''telegram:'' then ''telegram'' else ''feishu'')"

definition bound_response :: "registered_group option \<Rightarrow> registered_group \<Rightarrow> im_binding" where
  "bound_response workspace endpoint =
     \<lparr>im_jid = jid endpoint, im_name = group_name endpoint, im_channel = channel_from_im_jid (jid endpoint),
      fallback_group_id = folder endpoint, binding_state = (if workspace = None then Unbound else Bound),
      target_group_id = map_option folder workspace, target_group_name = map_option group_name workspace,
      bound_to_current_group = (workspace \<noteq> None)\<rparr>"

definition bind_group_im_endpoint ::
  "workspace_db \<Rightarrow> http_error + auth_user \<Rightarrow> string \<Rightarrow> string \<Rightarrow> instant \<Rightarrow> im_binding response" where
  "bind_group_im_endpoint db current group_id j now =
     as_user current db (\<lambda>u.
       case require_owner_binding_role u of
         Some e \<Rightarrow> (Inl e, db)
       | None \<Rightarrow> in_workspace db group_id u now (\<lambda>workspace db1.
           respond (bound_response (Some workspace)) (bind_im_endpoint_to_workspace db1 workspace j)))"

definition unbind_group_im_endpoint ::
  "workspace_db \<Rightarrow> http_error + auth_user \<Rightarrow> string \<Rightarrow> string \<Rightarrow> instant \<Rightarrow> im_binding response" where
  "unbind_group_im_endpoint db current group_id j now =
     as_user current db (\<lambda>u.
       case require_owner_binding_role u of
         Some e \<Rightarrow> (Inl e, db)
       | None \<Rightarrow> in_workspace db group_id u now (\<lambda>workspace db1.
           respond (bound_response None) (unbind_im_endpoint_from_workspace db1 workspace j)))"

section \<open>Members\<close>

abbreviation no_home_members :: http_error where
  "no_home_members \<equiv> Http_error 400 ''home workspaces do not support member management''"

abbreviation member_not_found :: http_error where
  "member_not_found \<equiv> Http_error 404 ''group member not found''"

definition list_group_members ::
  "workspace_db \<Rightarrow> http_error + auth_user \<Rightarrow> string \<Rightarrow> instant \<Rightarrow> member_response list response" where
  "list_group_members db current group_id now =
     as_user (require_permission ''groups'' ''read'' current) db (\<lambda>u.
       in_workspace db group_id u now (\<lambda>workspace db1.
         if is_home workspace then (Inl no_home_members, db1)
         else (Inr (map to_group_member_response (list_members db1 (folder workspace))), db1)))"

definition add_group_member ::
  "auth_service \<Rightarrow> workspace_db \<Rightarrow> http_error + auth_user \<Rightarrow> string \<Rightarrow> string \<Rightarrow> string \<Rightarrow> instant \<Rightarrow> member_response response" where
  "add_group_member accounts db current group_id uid role now =
     as_user (require_permission ''groups'' ''write'' current) db (\<lambda>u.
       in_workspace db group_id u now (\<lambda>workspace db1.
         if is_home workspace then (Inl no_home_members, db1)
         else if \<not> user_can_manage_members (user_id u) workspace then (Inl permission_denied, db1)
         else if get_user_by_id accounts uid = None then (Inl (Http_error 404 ''user not found''), db1)
         else (case ensure_owner_role_change_supported db1 (folder workspace) uid role of
                 Some e \<Rightarrow> (Inl e, db1)
               | None \<Rightarrow> respond to_group_member_response
                   (add_member db1 (folder workspace) uid role (Some (user_id u)) now))))"

definition removal_response :: "(registry_error + bool) \<times> workspace_db \<Rightarrow> unit response" where
  "removal_response r =
     (case r of
        (Inl e, db) \<Rightarrow> (Inl (registry_http_error e), db)
      | (Inr removed, db) \<Rightarrow> if \<not> removed then (Inl member_not_found, db) else (Inr (), db))"

definition remove_group_member ::
  "workspace_db \<Rightarrow> http_error + auth_user \<Rightarrow> string \<Rightarrow> string \<Rightarrow> instant \<Rightarrow> unit response" where
  "remove_group_member db current group_id uid now =
     as_user current db (\<lambda>u. in_workspace db group_id u now (\<lambda>workspace db1.
       if is_home workspace then (Inl no_home_members, db1)
       else if uid = user_id u then
         (case get_member_role db1 (folder workspace) (user_id u) of
            None \<Rightarrow> (Inl member_not_found, db1)
          | Some role \<Rightarrow>
              if role = ''owner'' then (Inl (Http_error 400 ''group owner cannot remove self''), db1)
              else removal_response (remove_member db1 (folder workspace) uid))
       else if \<not> user_can_manage_members (user_id u) workspace then (Inl permission_denied, db1)
       else removal_response (remove_member db1 (folder workspace) uid)))"

end
