(* ===== verification/WorkspaceAccess.thy ===== *)
theory WorkspaceAccess
  imports WorkspaceRoutes
begin

text \<open>
  Who may do what to a workspace: the three tables as instances of \<open>keyed_rows\<close>, the access policy
  as a specification, the requests of the group routes as steps with the invariants that they keep,
  and the life of an IM binding.
\<close>

section \<open>The three tables\<close>

interpretation slot_rows: keyed_rows slot_key "\<lambda>t k. row_get slot_key k t" "row_put slot_key" "row_delete slot_key"
  by unfold_locales (auto simp: row_get_put row_get_delete dest: row_getD)

interpretation member_rows: keyed_rows member_key "\<lambda>t k. row_get member_key k t" "row_put member_key" "row_delete member_key"
  by unfold_locales (auto simp: row_get_put row_get_delete dest: row_getD)

interpretation group_rows: keyed_rows jid "\<lambda>t k. row_get jid k t" "row_put jid" "row_delete jid"
  by unfold_locales (auto simp: row_get_put row_get_delete dest: row_getD)

lemma get_registered_groupD: "get_registered_group db j = Some g \<Longrightarrow> jid g = j \<and> g \<in> set (groups db)"
  unfolding get_registered_group_def by (rule row_getD)

lemma get_put_group [simp]:
  "get_registered_group (db\<lparr>groups := row_put jid g (groups db)\<rparr>) j =
     (if j = jid g then Some g else get_registered_group db j)"
  by (simp add: get_registered_group_def group_rows.lookup_store)

lemma get_put_slot [simp]:
  "get_slot (db\<lparr>slots := row_put slot_key s (slots db)\<rparr>) ws sid =
     (if ws = workspace_folder s \<and> sid = slot_id s then Some s else get_slot db ws sid)"
  by (simp add: get_slot_def slot_rows.lookup_store slot_key_def)

lemma get_put_member [simp]:
  "get_member (db\<lparr>members := row_put member_key m (members db)\<rparr>) ws uid =
     (if ws = member_folder m \<and> uid = member_user_id m then Some m else get_member db ws uid)"
  by (simp add: get_member_def member_rows.lookup_store member_key_def)

lemma get_delete_member [simp]:
  "get_member (db\<lparr>members := row_delete member_key k (members db)\<rparr>) ws uid =
     (if (ws, uid) = k then None else get_member db ws uid)"
  by (simp add: get_member_def member_rows.lookup_remove)

lemma get_other_table [simp]:
  "get_registered_group (db\<lparr>slots := xs\<rparr>) j = get_registered_group db j"
  "get_registered_group (db\<lparr>members := ys\<rparr>) j = get_registered_group db j"
  "get_slot (db\<lparr>members := ys\<rparr>) ws sid = get_slot db ws sid"
  "get_slot (db\<lparr>groups := zs\<rparr>) ws sid = get_slot db ws sid"
  "get_member (db\<lparr>slots := xs\<rparr>) ws uid = get_member db ws uid"
  "get_member (db\<lparr>groups := zs\<rparr>) ws uid = get_member db ws uid"
  by (simp_all add: get_registered_group_def get_slot_def get_member_def)

section \<open>The access policy\<close>

text \<open>
  The specification: the workspace that answers for a group is the group itself, or for an IM
  endpoint the web workspace that it is bound to; and who may enter it.
\<close>

definition bound_workspace :: "workspace_db \<Rightarrow> registered_group \<Rightarrow> registered_group option" where
  "bound_workspace db g =
     (case target_workspace_jid g of
        None \<Rightarrow> None
      | Some t \<Rightarrow> (case get_registered_group db t of
                    None \<Rightarrow> None
                  | Some w \<Rightarrow> if t \<noteq> [] \<and> is_web w then Some w else None))"

definition answers_for :: "workspace_db \<Rightarrow> registered_group \<Rightarrow> registered_group" where
  "answers_for db g =
     (if is_home g \<or> is_web g then g else case bound_workspace db g of None \<Rightarrow> g | Some w \<Rightarrow> w)"

definition may_access :: "workspace_db \<Rightarrow> string \<Rightarrow> string option \<Rightarrow> registered_group \<Rightarrow> bool" where
  "may_access db uid role g \<longleftrightarrow>
     (let w = answers_for db g in
      created_by w = Some uid \<or>
      (is_home w \<and> jid w = ''web:main'' \<and> folder w = ''main'' \<and> role = Some ''owner'') \<or>
      (\<not> is_home w \<and> is_web w \<and> is_member db (folder w) uid))"

lemma bound_workspaceD: "bound_workspace db g = Some w \<Longrightarrow> is_web w"
  by (auto simp: bound_workspace_def split: option.splits if_splits)

lemma resolve_bound:
  assumes "get_registered_group db (jid g) = Some g"
  shows "resolve_im_workspace db (jid g) = Some (case bound_workspace db g of None \<Rightarrow> g | Some w \<Rightarrow> w)"
  using assms by (auto simp: resolve_im_workspace_def bound_workspace_def split: option.splits)

lemma access_home:
  "is_home g \<Longrightarrow> user_can_access_group db uid role g \<longleftrightarrow>
     created_by g = Some uid \<or> (jid g = ''web:main'' \<and> folder g = ''main'' \<and> role = Some ''owner'')"
  by (auto simp: user_can_access_group.simps)

lemma access_web:
  "\<not> is_home g \<Longrightarrow> is_web g \<Longrightarrow> user_can_access_group db uid role g \<longleftrightarrow>
     created_by g = Some uid \<or> is_member db (folder g) uid"
  by (simp add: user_can_access_group.simps)

text \<open>C15: Access to a group is the policy: for every group of the registry \<open>user_can_access_group\<close>
terminates and answers exactly \<open>may_access\<close>: an IM endpoint that is bound to a web workspace is open
to those who may enter that workspace, an endpoint without one and a home to its creator, the main
home also to every owner, a shared workspace to its creator and its members, and to nobody else.\<close>

theorem access_policy:
  assumes g: "get_registered_group db (jid g) = Some g"
  shows "user_can_access_group db uid role g \<longleftrightarrow> may_access db uid role g"
proof (cases "is_home g \<or> is_web g")
  case True
  then show ?thesis
    by (cases "is_home g") (auto simp: may_access_def answers_for_def Let_def access_home access_web)
next
  case False
  show ?thesis
  proof (cases "bound_workspace db g")
    case None
    with False g show ?thesis
      by (auto simp: user_can_access_group.simps [of db uid role g] may_access_def answers_for_def Let_def resolve_bound)
  next
    case (Some w)
    then have w: "is_web w" by (rule bound_workspaceD)
    with False have "jid w \<noteq> jid g" by (auto simp: is_web_def)
    moreover have "target_workspace_jid g \<noteq> None" "target_workspace_jid g \<noteq> Some []"
      using Some by (auto simp: bound_workspace_def split: option.splits)
    ultimately have "user_can_access_group db uid role g = user_can_access_group db uid role w"
      using False Some g by (simp add: user_can_access_group.simps [of db uid role g] resolve_bound)
    also have "\<dots> \<longleftrightarrow> may_access db uid role g"
      using False Some w by (cases "is_home w") (auto simp: may_access_def answers_for_def Let_def access_home access_web)
    finally show ?thesis .
  qed
qed

definition example_workspaces :: workspace_db where
  "example_workspaces = snd (create_workspace \<lparr>slots = [], members = [], groups = []\<rparr> ''team'' ''Team'' ''id1'' 1)"

lemma example_team:
  "get_registered_group example_workspaces ''web:team'' =
     Some \<lparr>jid = ''web:team'', group_name = ''Team'', folder = ''team'', added_at = 1, container_config = None,
           created_by = Some ''id1'', is_home = False, target_workspace_jid = None\<rparr>"
  "get_member example_workspaces ''team'' ''id1'' =
     Some \<lparr>member_folder = ''team'', member_user_id = ''id1'', member_role = ''owner'', joined_at = 1, added_by = Some ''id1''\<rparr>"
  "groups example_workspaces =
     [\<lparr>jid = ''web:team'', group_name = ''Team'', folder = ''team'', added_at = 1, container_config = None,
       created_by = Some ''id1'', is_home = False, target_workspace_jid = None\<rparr>]"
  by (simp_all add: example_workspaces_def create_workspace_def validate_workspace_folder_def py_startswith_def
      slug_match_def slug_char_def get_group_by_folder_def ensure_registered_group_def get_registered_group_def
      row_get_def row_put_def ensure_main_slot_for_workspace_def ensure_main_slot_def get_slot_def add_member_def
      valid_group_member_roles_def get_member_def member_key_def Let_def)

lemma access_policy_witness:
  "\<exists>g. get_registered_group example_workspaces ''web:team'' = Some g \<and>
     \<not> user_can_access_group example_workspaces ''id2'' (Some ''owner'') g"
proof -
  let ?g = "\<lparr>jid = ''web:team'', group_name = ''Team'', folder = ''team'', added_at = 1, container_config = None,
           created_by = Some ''id1'', is_home = False, target_workspace_jid = None\<rparr>"
  have "get_member example_workspaces ''team'' ''id2'' = None"
    by (simp add: example_workspaces_def create_workspace_def validate_workspace_folder_def py_startswith_def
      slug_match_def slug_char_def get_group_by_folder_def ensure_registered_group_def get_registered_group_def
      row_get_def row_put_def ensure_main_slot_for_workspace_def ensure_main_slot_def get_slot_def add_member_def
      valid_group_member_roles_def get_member_def member_key_def Let_def)
  then have "\<not> may_access example_workspaces ''id2'' (Some ''owner'') ?g"
    by (simp add: may_access_def answers_for_def is_web_def py_startswith_def is_member_def)
  then show ?thesis using access_policy [of example_workspaces ?g] example_team(1) by simp
qed

section \<open>What the guards establish\<close>

lemma ensure_main_slot_other [simp]:
  "groups (snd (ensure_main_slot db ws c now)) = groups db"
  "members (snd (ensure_main_slot db ws c now)) = members db"
  by (simp_all add: ensure_main_slot_def Let_def split: option.split)

lemma ensure_main_slot_slots:
  "get_slot (snd (ensure_main_slot db ws c now)) ws ''main'' \<noteq> None"
  "get_slot db ws' sid \<noteq> None \<Longrightarrow> get_slot (snd (ensure_main_slot db ws c now)) ws' sid \<noteq> None"
  by (auto simp: ensure_main_slot_def Let_def get_slot_def slot_rows.lookup_store slot_key_def
      split: option.split)

lemma main_slot_for_workspace [simp]:
  "groups (ensure_main_slot_for_workspace db g now) = groups db"
  "members (ensure_main_slot_for_workspace db g now) = members db"
  by (simp_all add: ensure_main_slot_for_workspace_def)

lemma get_web_workspace_other [simp]:
  "groups (snd (get_web_workspace_by_folder db f now)) = groups db"
  "members (snd (get_web_workspace_by_folder db f now)) = members db"
  by (simp_all add: get_web_workspace_by_folder_def split: list.split)

lemma get_web_workspaceD:
  assumes "get_web_workspace_by_folder db f now = (Some w, db1)"
  shows "w \<in> set (groups db) \<and> folder w = f \<and> is_web w"
proof -
  let ?xs = "sort_key (\<lambda>g. (added_at g, jid g)) (filter is_web (filter (\<lambda>g. folder g = f) (groups db)))"
  from assms obtain rest where xs: "?xs = w # rest"
    by (auto simp: get_web_workspace_by_folder_def simp del: filter_filter split: list.splits)
  have "w \<in> set ?xs" unfolding xs by simp
  then show ?thesis by simp
qed

lemma get_web_workspace_None:
  "fst (get_web_workspace_by_folder db f now) = None \<longleftrightarrow> (\<forall>g \<in> set (groups db). folder g = f \<longrightarrow> \<not> is_web g)"
proof -
  let ?xs = "sort_key (\<lambda>g. (added_at g, jid g)) (filter is_web (filter (\<lambda>g. folder g = f) (groups db)))"
  have "fst (get_web_workspace_by_folder db f now) = None \<longleftrightarrow> ?xs = []"
    by (simp add: get_web_workspace_by_folder_def split: list.split)
  also have "\<dots> \<longleftrightarrow> set ?xs = {}" by (simp only: set_empty)
  finally show ?thesis by auto
qed

lemma access_same_tables:
  "groups db' = groups db \<Longrightarrow> members db' = members db \<Longrightarrow>
   user_can_access_group db' uid role g = user_can_access_group db uid role g"
proof (induction db uid role g rule: user_can_access_group.induct)
  case (1 db uid role g)
  have lookup: "get_registered_group db' = get_registered_group db"
    using "1.prems" by (simp add: fun_eq_iff get_registered_group_def)
  have same: "resolve_im_workspace db' = resolve_im_workspace db" "is_member db' = is_member db"
    unfolding fun_eq_iff resolve_im_workspace_def lookup is_member_def get_member_def
    using "1.prems" by simp_all
  show ?case
    using "1.IH" "1.prems" unfolding user_can_access_group.simps [of db' uid role g] user_can_access_group.simps [of db uid role g] same
    by (auto split: option.split)
qed

text \<open>A handler that needs a workspace is refused, or runs with one that its user may enter.\<close>

lemma in_workspace_cases:
  obtains (refused) e where "in_workspace db gid u now handler =
      (Inl e, snd (get_web_workspace_by_folder db gid now))"
  | (inside) w where "in_workspace db gid u now handler = handler w (snd (get_web_workspace_by_folder db gid now))"
      "w \<in> set (groups db)" "folder w = gid" "is_web w" "user_can_access_group db (user_id u) (user_role u) w"
proof -
  obtain found db1 where web: "get_web_workspace_by_folder db gid now = (found, db1)" by fastforce
  have same: "groups db1 = groups db" "members db1 = members db"
    using get_web_workspace_other [of db gid now] web by simp_all
  show thesis
  proof (cases found)
    case None
    with web show ?thesis by (intro refused) (simp add: in_workspace_def require_accessible_workspace_def)
  next
    case (Some w)
    show ?thesis
    proof (cases "user_can_access_group db1 (user_id u) (user_role u) w")
      case True
      with web Some same show ?thesis
        by (intro inside [of w]) (auto simp: in_workspace_def require_accessible_workspace_def
            dest: get_web_workspaceD access_same_tables [OF same, THEN iffD1])
    next
      case False
      with web Some show ?thesis by (intro refused) (simp add: in_workspace_def require_accessible_workspace_def)
    qed
  qed
qed

section \<open>Requests\<close>

text \<open>What a user's request to the group routes does to the database.\<close>

inductive portal_step :: "auth_service \<Rightarrow> auth_user \<Rightarrow> workspace_db \<Rightarrow> workspace_db \<Rightarrow> bool"
  for accounts :: auth_service and u :: auth_user where
  listed: "portal_step accounts u db (snd (list_groups db (Inr u) now))"
| created: "portal_step accounts u db (snd (create_group db (Inr u) gid name now))"
| renamed: "portal_step accounts u db (snd (update_group db (Inr u) gid name now))"
| slots_listed: "portal_step accounts u db (snd (list_group_slots db (Inr u) gid now))"
| slot_created: "portal_step accounts u db (snd (create_group_slot db (Inr u) gid sid title now))"
| bindings_listed: "portal_step accounts u db (snd (list_group_im_bindings db (Inr u) gid now))"
| bound: "portal_step accounts u db (snd (bind_group_im_endpoint db (Inr u) gid j now))"
| unbound: "portal_step accounts u db (snd (unbind_group_im_endpoint db (Inr u) gid j now))"
| members_listed: "portal_step accounts u db (snd (list_group_members db (Inr u) gid now))"
| member_added: "portal_step accounts u db (snd (add_group_member accounts db (Inr u) gid uid role now))"
| member_removed: "portal_step accounts u db (snd (remove_group_member db (Inr u) gid uid now))"

lemma as_user_Inr [simp]: "as_user (Inr u) db handler = handler u"
  by (simp add: as_user_def)

lemma as_user_permission:
  "as_user (require_permission resource action (Inr u)) db handler =
     (if has_permission (user_role u) resource action then handler u else (Inl permission_denied, db))"
  by (simp add: as_user_def require_permission_def)

lemma respond_snd [simp]: "snd (respond f r) = snd r"
  by (simp add: respond_def split: prod.split sum.split)

lemma removal_snd [simp]: "snd (removal_response r) = snd r"
  by (simp add: removal_response_def split: prod.split sum.split)

lemma members_frame [simp]:
  "members (snd (ensure_registered_group db j name f c h t now)) = members db"
  "members (snd (ensure_home_workspace db uid role name now)) = members db"
  "members (snd (rename_workspace db g name)) = members db"
  "members (snd (create_slot db ws sid title c now)) = members db"
  "members (snd (bind_im_endpoint_to_workspace db g j)) = members db"
  "members (snd (unbind_im_endpoint_from_workspace db g j)) = members db"
  by (simp_all add: ensure_registered_group_def ensure_home_workspace_def rename_workspace_def create_slot_def
      bind_im_endpoint_to_workspace_def unbind_im_endpoint_from_workspace_def Let_def split: option.split)

lemma add_member_other:
  "(ws', uid') \<noteq> (ws, uid) \<Longrightarrow> get_member (snd (add_member db ws uid role adder now)) ws' uid' = get_member db ws' uid'"
  by (auto simp: add_member_def Let_def)

lemma remove_member_other:
  "(ws', uid') \<noteq> (ws, uid) \<Longrightarrow> get_member (snd (remove_member db ws uid)) ws' uid' = get_member db ws' uid'"
  by (auto simp: remove_member_def split: option.split)

lemma member_owner_kept:
  "get_member_role db ws uid = Some ''owner'' \<Longrightarrow>
     get_member_role (snd (add_member db ws' uid' role adder now)) ws uid = Some ''owner''"
  "get_member_role db ws uid = Some ''owner'' \<Longrightarrow>
     get_member_role (snd (remove_member db ws' uid')) ws uid = Some ''owner''"
  by (auto simp: get_member_role_def add_member_def remove_member_def Let_def split: option.splits if_splits)

lemma in_workspace_members:
  "(\<And>w db1. members db1 = members db \<Longrightarrow> members (snd (handler w db1)) = members db) \<Longrightarrow>
   members (snd (in_workspace db gid u now handler)) = members db"
  by (cases rule: in_workspace_cases [of db gid u now handler]) auto

text \<open>The requests that leave the memberships alone.\<close>

lemma request_members [simp]:
  "members (snd (list_groups db (Inr u) now)) = members db"
  "members (snd (update_group db (Inr u) gid name now)) = members db"
  "members (snd (list_group_slots db (Inr u) gid now)) = members db"
  "members (snd (create_group_slot db (Inr u) gid sid title now)) = members db"
  "members (snd (list_group_im_bindings db (Inr u) gid now)) = members db"
  "members (snd (bind_group_im_endpoint db (Inr u) gid j now)) = members db"
  "members (snd (unbind_group_im_endpoint db (Inr u) gid j now)) = members db"
  "members (snd (list_group_members db (Inr u) gid now)) = members db"
proof -
  show "members (snd (list_groups db (Inr u) now)) = members db" by (simp add: list_groups_def Let_def)
  show "members (snd (update_group db (Inr u) gid name now)) = members db"
    unfolding update_group_def as_user_permission
    by (auto simp: rename_workspace_def Let_def intro!: in_workspace_members)
  show "members (snd (list_group_slots db (Inr u) gid now)) = members db"
    unfolding list_group_slots_def as_user_Inr by (rule in_workspace_members) simp
  show "members (snd (create_group_slot db (Inr u) gid sid title now)) = members db"
    unfolding create_group_slot_def as_user_Inr by (rule in_workspace_members) simp
  show "members (snd (list_group_im_bindings db (Inr u) gid now)) = members db"
    unfolding list_group_im_bindings_def as_user_Inr
    by (cases "require_owner_binding_role u") (auto intro!: in_workspace_members)
  show "members (snd (bind_group_im_endpoint db (Inr u) gid j now)) = members db"
    unfolding bind_group_im_endpoint_def as_user_Inr
    by (cases "require_owner_binding_role u") (auto intro!: in_workspace_members)
  show "members (snd (unbind_group_im_endpoint db (Inr u) gid j now)) = members db"
    unfolding unbind_group_im_endpoint_def as_user_Inr
    by (cases "require_owner_binding_role u") (auto intro!: in_workspace_members)
  show "members (snd (list_group_members db (Inr u) gid now)) = members db"
    unfolding list_group_members_def as_user_permission by (auto intro!: in_workspace_members)
qed

lemma get_member_cong: "members db' = members db \<Longrightarrow> get_member db' = get_member db"
  by (simp add: fun_eq_iff get_member_def)

lemma get_member_role_cong: "members db' = members db \<Longrightarrow> get_member_role db' = get_member_role db"
  by (simp add: fun_eq_iff get_member_role_def get_member_def)

text \<open>The three ways to change a membership.\<close>

definition manages :: "workspace_db \<Rightarrow> auth_user \<Rightarrow> string \<Rightarrow> bool" where
  "manages db u ws \<longleftrightarrow>
     (\<exists>w \<in> set (groups db). is_web w \<and> \<not> is_home w \<and> folder w = ws \<and> created_by w = Some (user_id u))"

definition leaves :: "workspace_db \<Rightarrow> auth_user \<Rightarrow> string \<Rightarrow> string \<Rightarrow> workspace_db \<Rightarrow> bool" where
  "leaves db u ws x db' \<longleftrightarrow>
     x = user_id u \<and> get_member_role db ws x \<noteq> Some ''owner'' \<and> get_member db' ws x = None"

definition founds :: "workspace_db \<Rightarrow> auth_user \<Rightarrow> string \<Rightarrow> string \<Rightarrow> workspace_db \<Rightarrow> bool" where
  "founds db u ws x db' \<longleftrightarrow>
     x = user_id u \<and> has_permission (user_role u) ''groups'' ''write'' \<and> ws \<notin> folder ` set (groups db) \<and>
     get_member_role db' ws x = Some ''owner''"

lemma get_group_by_folder_None: "get_group_by_folder db f = None \<longleftrightarrow> f \<notin> folder ` set (groups db)"
proof -
  let ?xs = "sort_key (\<lambda>g. (added_at g, jid g)) (filter (\<lambda>g. folder g = f) (groups db))"
  have "get_group_by_folder db f = None \<longleftrightarrow> ?xs = []"
    by (simp add: get_group_by_folder_def split: list.split)
  also have "\<dots> \<longleftrightarrow> set ?xs = {}" by (simp only: set_empty)
  finally show ?thesis by auto
qed

lemma add_member_role:
  "fst (add_member db ws uid role adder now) = Inr m \<Longrightarrow>
     get_member_role (snd (add_member db ws uid role adder now)) ws uid = Some role"
  "fst (add_member db ws uid role adder now) = Inl e \<Longrightarrow> snd (add_member db ws uid role adder now) = db"
  by (auto simp: add_member_def get_member_role_def Let_def split: if_splits)

lemma create_workspace_members:
  assumes "get_member (snd (create_workspace db f name creator now)) ws x \<noteq> get_member db ws x"
  shows "x = creator \<and> ws = f \<and> f \<notin> folder ` set (groups db) \<and>
    get_member_role (snd (create_workspace db f name creator now)) ws x = Some ''owner''"
proof -
  obtain w db1 where w: "ensure_registered_group db (''web:'' @ f) name f (Some creator) False None now = (w, db1)"
    by fastforce
  have m: "members db1 = members db" using members_frame(1) [of db "''web:'' @ f" name f "Some creator" False None now]
    unfolding w snd_conv .
  let ?r = "add_member db1 f creator ''owner'' (Some creator) now"
  have snd: "snd (create_workspace db f name creator now) = snd ?r"
    and new: "f \<notin> folder ` set (groups db)"
    using assms w by (auto simp: create_workspace_def get_group_by_folder_None [symmetric] split: option.splits prod.splits sum.splits)
  have changed: "get_member (snd ?r) ws x \<noteq> get_member db1 ws x"
    using assms snd get_member_cong [OF m] by simp
  then have key: "ws = f" "x = creator" using add_member_other [of ws x f creator db1] by auto
  with changed obtain m where "fst ?r = Inr m" using add_member_role(2) [of db1 f creator "''owner''"] by (cases "fst ?r") auto
  with key snd new show ?thesis using add_member_role(1) by simp
qed

lemma in_workspace_changed:
  assumes "get_member (snd (in_workspace db gid u now handler)) ws x \<noteq> get_member db ws x"
  obtains (changed) w db1 where "groups db1 = groups db" "members db1 = members db"
    "get_member (snd (handler w db1)) ws x \<noteq> get_member db1 ws x"
    "w \<in> set (groups db)" "folder w = gid" "is_web w" "in_workspace db gid u now handler = handler w db1"
proof (cases rule: in_workspace_cases [of db gid u now handler])
  case (refused e)
  with assms get_member_cong [OF get_web_workspace_other(2) [of db gid now]] show ?thesis by simp
next
  case (inside w)
  with assms get_member_cong [OF get_web_workspace_other(2) [of db gid now]] show ?thesis
    by (intro changed [of "snd (get_web_workspace_by_folder db gid now)" w]) simp_all
qed

lemma manages_if:
  "user_can_manage_members (user_id u) w \<Longrightarrow> w \<in> set (groups db) \<Longrightarrow> manages db u (folder w)"
  by (auto simp: manages_def user_can_manage_members_def split: if_splits)

lemma add_request_members:
  assumes "get_member (snd (add_group_member accounts db (Inr u) gid uid role now)) ws x \<noteq> get_member db ws x"
  shows "manages db u ws"
proof (cases "has_permission (user_role u) ''groups'' ''write''")
  case True
  from assms obtain w db1 where w: "w \<in> set (groups db)" "user_can_manage_members (user_id u) w"
    "get_member (snd (add_member db1 (folder w) uid role (Some (user_id u)) now)) ws x \<noteq> get_member db1 ws x"
    unfolding add_group_member_def as_user_permission if_P [OF True]
    by (elim in_workspace_changed) (auto split: if_splits option.splits)
  then have "ws = folder w" using add_member_other [of ws x "folder w" uid db1] by auto
  with manages_if [OF w(2,1)] show ?thesis by simp
qed (use assms in \<open>simp add: add_group_member_def as_user_permission\<close>)

lemma remove_request_members:
  assumes "get_member (snd (remove_group_member db (Inr u) gid uid now)) ws x \<noteq> get_member db ws x"
  shows "manages db u ws \<or> leaves db u ws x (snd (remove_group_member db (Inr u) gid uid now))"
proof -
  let ?db' = "snd (remove_group_member db (Inr u) gid uid now)"
  from assms obtain w db1 where w: "w \<in> set (groups db)" "user_can_manage_members (user_id u) w \<or> uid = user_id u"
    "get_member (snd (remove_member db1 (folder w) uid)) ws x \<noteq> get_member db1 ws x" "members db1 = members db"
    and db': "?db' = snd (remove_member db1 (folder w) uid)"
    unfolding remove_group_member_def as_user_Inr
    by (elim in_workspace_changed) (auto split: if_splits option.splits)
  have key: "ws = folder w" "x = uid" using w(3) remove_member_other [of ws x "folder w" uid db1] by auto
  show ?thesis
  proof (cases "user_can_manage_members (user_id u) w")
    case True
    with manages_if w(1) key show ?thesis by blast
  next
    case False
    have "get_member_role db ws x \<noteq> Some ''owner''"
      using w(3) key member_owner_kept(2) [of db1 ws x "folder w" uid] get_member_role_cong [OF w(4)]
      by (auto simp: remove_member_def get_member_role_def split: option.splits if_splits)
    moreover have "get_member ?db' ws x = None"
      using w(3) unfolding db' key by (auto simp: remove_member_def split: option.splits if_splits)
    ultimately show ?thesis using False w(2) key by (simp add: leaves_def)
  qed
qed

text \<open>A request to add a member never makes or unmakes an owner; neither does one to remove one.\<close>

lemma add_member_guarded:
  assumes "ensure_owner_role_change_supported db ws uid role = None"
  shows "get_member_role (snd (add_member db ws uid role adder now)) ws' x = Some ''owner'' \<longleftrightarrow>
    get_member_role db ws' x = Some ''owner''"
  using assms
  by (auto simp: ensure_owner_role_change_supported_def add_member_def get_member_role_def Let_def
      split: option.splits if_splits)

lemma add_request_owner:
  "get_member_role (snd (add_group_member accounts db (Inr u) gid uid role now)) ws x = Some ''owner'' \<longleftrightarrow>
   get_member_role db ws x = Some ''owner''"
proof (cases "get_member (snd (add_group_member accounts db (Inr u) gid uid role now)) ws x = get_member db ws x")
  case False
  then have perm: "has_permission (user_role u) ''groups'' ''write''"
    by (auto simp: add_group_member_def as_user_permission split: if_splits)
  from False show ?thesis
    unfolding add_group_member_def as_user_permission if_P [OF perm]
  proof (rule in_workspace_changed, goal_cases)
    case (1 w db1)
    from 1(3) show ?case
      unfolding 1(7) get_member_role_cong [OF 1(2), symmetric]
      by (auto simp: add_member_guarded split: option.splits if_splits)
  qed
qed (simp add: get_member_role_def)

lemma remove_member_owner:
  "get_member_role (snd (remove_member db ws uid)) ws' x = Some ''owner'' \<longleftrightarrow> get_member_role db ws' x = Some ''owner''"
  by (auto simp: remove_member_def get_member_role_def split: option.splits if_splits)

lemma remove_request_owner:
  "get_member_role (snd (remove_group_member db (Inr u) gid uid now)) ws x = Some ''owner'' \<longleftrightarrow>
   get_member_role db ws x = Some ''owner''"
proof (cases "get_member (snd (remove_group_member db (Inr u) gid uid now)) ws x = get_member db ws x")
  case False
  then show ?thesis
    unfolding remove_group_member_def as_user_Inr
  proof (rule in_workspace_changed, goal_cases)
    case (1 w db1)
    from 1(3) show ?case
      unfolding 1(7) get_member_role_cong [OF 1(2), symmetric]
      by (auto simp: remove_member_owner split: option.splits if_splits)
  qed
qed (simp add: get_member_role_def)

text \<open>C14: Only three things change who belongs to a workspace, whatever users request in whatever order:
a request of the workspace's creator, a member who is not the owner leaving it, and the creation of a
workspace by a user with the permission to write groups, which makes that user its owner; and the last
is the only way to become an owner, and no request ends an ownership.\<close>

theorem membership_guarded:
  assumes "portal_step accounts u db db'"
  shows "(get_member db' ws x = get_member db ws x \<or> manages db u ws \<or> leaves db u ws x db' \<or> founds db u ws x db') \<and>
    (get_member_role db ws x = Some ''owner'' \<longrightarrow> get_member_role db' ws x = Some ''owner'') \<and>
    (get_member_role db' ws x = Some ''owner'' \<longrightarrow>
       get_member_role db ws x = Some ''owner'' \<or> founds db u ws x db')"
proof -
  have quiet: ?thesis if "members db' = members db"
    using get_member_cong [OF that] get_member_role_cong [OF that] by simp
  from assms show ?thesis
  proof (cases rule: portal_step.cases)
    case (created gid name now)
    show ?thesis
    proof (cases "has_permission (user_role u) ''groups'' ''write''")
      case True
      then have db': "db' = snd (create_workspace db gid name (user_id u) now)"
        using created by (simp add: create_group_def as_user_permission)
      have "get_member db' ws x = get_member db ws x \<or> founds db u ws x db'"
        using create_workspace_members [of db gid name "user_id u" now ws x] True unfolding db' founds_def by blast
      then show ?thesis by (auto simp: get_member_role_def founds_def)
    next
      case False
      with created show ?thesis by (intro quiet) (simp add: create_group_def as_user_permission)
    qed
  next
    case (member_added gid uid role now)
    show ?thesis using member_added add_request_members add_request_owner by blast
  next
    case (member_removed gid uid now)
    show ?thesis using member_removed remove_request_members remove_request_owner by blast
  qed (intro quiet, simp)+
qed

definition example_owner :: auth_user where
  "example_owner = new_user ''id1'' ''ann'' ''owner''"

lemma membership_guarded_witness:
  "get_member_role (snd (remove_group_member example_workspaces (Inr example_owner) ''team'' ''id1'' 2)) ''team'' ''id1''
     = Some ''owner''"
proof -
  have "get_member_role example_workspaces ''team'' ''id1'' = Some ''owner''"
    by (simp add: get_member_role_def example_team)
  with membership_guarded [OF portal_step.member_removed [of initial_auth_service example_owner example_workspaces
        "''team''" "''id1''" 2], of "''team''" "''id1''"] show ?thesis by blast
qed

section \<open>IM bindings\<close>

lemma web_not_endpoint: "is_web g \<Longrightarrow> channel_from_jid (jid g) = None"
  unfolding is_web_def channel_from_jid_def py_startswith_iff by auto

lemma web_jid_nonempty: "is_web g \<Longrightarrow> jid g \<noteq> []"
  by (auto simp: is_web_def py_startswith_def)

lemma bind_result:
  assumes "bind_im_endpoint_to_workspace db g j = (Inr e, db1)"
  obtains endpoint where "get_registered_group db j = Some endpoint" "channel_from_jid j \<noteq> None" "jid endpoint = j"
    "e = endpoint\<lparr>target_workspace_jid := Some (jid g)\<rparr>" "get_registered_group db1 j = Some e"
    "\<forall>k. k \<noteq> j \<longrightarrow> get_registered_group db1 k = get_registered_group db k"
proof (cases "get_registered_group db j")
  case (Some endpoint)
  have j: "jid endpoint = j" using get_registered_groupD [OF Some] by simp
  show ?thesis
  proof (rule that [OF Some _ j])
    show "channel_from_jid j \<noteq> None" "e = endpoint\<lparr>target_workspace_jid := Some (jid g)\<rparr>"
      "get_registered_group db1 j = Some e" "\<forall>k. k \<noteq> j \<longrightarrow> get_registered_group db1 k = get_registered_group db k"
      using assms Some j
      by (auto simp: bind_im_endpoint_to_workspace_def Let_def split: if_splits option.splits)
  qed
qed (use assms in \<open>simp add: bind_im_endpoint_to_workspace_def\<close>)

text \<open>C17: Binding and unbinding: after a successful bind the endpoint's messages and its access resolve
to the workspace and no other workspace can take it; the same workspace may bind again without
effect; unbinding succeeds, the endpoint answers for itself again, and every other group is as it was
before.\<close>

theorem binding_roundtrip:
  assumes g: "get_registered_group db (jid g) = Some g" "is_web g"
    and bind: "bind_im_endpoint_to_workspace db g j = (Inr e, db1)"
  shows "resolve_im_workspace db1 j = Some g \<and>
    (\<not> is_home e \<longrightarrow> may_access db1 uid role e = may_access db1 uid role g) \<and>
    bind_im_endpoint_to_workspace db1 g j = (Inr e, db1) \<and>
    (\<forall>w. is_web w \<and> jid w \<noteq> jid g \<longrightarrow> bind_im_endpoint_to_workspace db1 w j =
       (Inl (Conflict_error ''IM endpoint is already bound elsewhere''), db1)) \<and>
    (\<exists>db2. unbind_im_endpoint_from_workspace db1 g j = (Inr (e\<lparr>target_workspace_jid := None\<rparr>), db2) \<and>
       resolve_im_workspace db2 j = Some (e\<lparr>target_workspace_jid := None\<rparr>) \<and>
       (\<forall>k. k \<noteq> j \<longrightarrow> get_registered_group db2 k = get_registered_group db k) \<and>
       slots db2 = slots db1 \<and> members db2 = members db1)"
proof -
  from bind obtain endpoint where ep: "channel_from_jid j \<noteq> None" "jid endpoint = j"
    "e = endpoint\<lparr>target_workspace_jid := Some (jid g)\<rparr>" "get_registered_group db1 j = Some e"
    and other: "\<forall>k. k \<noteq> j \<longrightarrow> get_registered_group db1 k = get_registered_group db k"
    by (rule bind_result)
  have je: "jid e = j" "target_workspace_jid e = Some (jid g)" using ep by simp_all
  have "j \<noteq> jid g" using ep(1) web_not_endpoint [OF g(2)] by auto
  then have g1: "get_registered_group db1 (jid g) = Some g" using other g(1) by simp
  have "\<not> is_web e" using ep(1) web_not_endpoint [of e] je by auto
  have bound: "bound_workspace db1 e = Some g"
    using g(2) g1 web_jid_nonempty [OF g(2)] je by (simp add: bound_workspace_def)
  let ?e = "e\<lparr>target_workspace_jid := None\<rparr>"
  let ?db2 = "db1\<lparr>groups := row_put jid ?e (groups db1)\<rparr>"
  have "resolve_im_workspace db1 j = Some g"
    using resolve_bound [of db1 e] ep(4) je bound by simp
  moreover have "\<not> is_home e \<longrightarrow> may_access db1 uid role e = may_access db1 uid role g"
    using \<open>\<not> is_web e\<close> bound g(2) by (simp add: may_access_def answers_for_def)
  moreover have "bind_im_endpoint_to_workspace db1 g j = (Inr e, db1)"
    using ep(1,4) je by (simp add: bind_im_endpoint_to_workspace_def)
  moreover have "bind_im_endpoint_to_workspace db1 w j =
      (Inl (Conflict_error ''IM endpoint is already bound elsewhere''), db1)" if "jid w \<noteq> jid g" for w
    using that ep(1,4) je g(2) g1 web_jid_nonempty [OF g(2)] by (simp add: bind_im_endpoint_to_workspace_def)
  moreover have "unbind_im_endpoint_from_workspace db1 g j = (Inr ?e, ?db2)"
    using ep(1,4) je by (simp add: unbind_im_endpoint_from_workspace_def Let_def)
  moreover have "resolve_im_workspace ?db2 j = Some ?e"
    using je by (simp add: resolve_im_workspace_def)
  moreover have "\<forall>k. k \<noteq> j \<longrightarrow> get_registered_group ?db2 k = get_registered_group db k"
    using other je by simp
  ultimately show ?thesis by auto
qed

definition example_endpoint :: workspace_db where
  "example_endpoint = snd (ensure_im_endpoint example_workspaces ''telegram:7'' ''Chat'' ''chat-7'' 2)"

lemma example_endpoint_groups:
  "get_registered_group example_endpoint ''web:team'' = get_registered_group example_workspaces ''web:team''"
  "get_registered_group example_endpoint ''telegram:7'' =
     Some \<lparr>jid = ''telegram:7'', group_name = ''Chat'', folder = ''chat-7'', added_at = 2, container_config = None,
           created_by = None, is_home = False, target_workspace_jid = None\<rparr>"
  by (simp_all add: example_endpoint_def ensure_im_endpoint_def ensure_registered_group_def get_registered_group_def
      example_team row_get_def row_put_def Let_def)

lemma binding_roundtrip_witness:
  "\<exists>g e db1. bind_im_endpoint_to_workspace example_endpoint g ''telegram:7'' = (Inr e, db1) \<and>
     resolve_im_workspace db1 ''telegram:7'' = Some g"
proof -
  obtain g where g: "get_registered_group example_endpoint (jid g) = Some g" "is_web g" "jid g = ''web:team''"
    using example_team(1) by (simp add: example_endpoint_groups is_web_def py_startswith_def)
  obtain e db1 where "bind_im_endpoint_to_workspace example_endpoint g ''telegram:7'' = (Inr e, db1)"
    by (simp add: bind_im_endpoint_to_workspace_def example_endpoint_groups channel_from_jid_def py_startswith_def Let_def)
  with binding_roundtrip [OF g(1,2) this] show ?thesis by blast
qed

end
