(* ===== verification/TerminalRoutes.thy ===== *)
theory TerminalRoutes
  imports TerminalHistory WorkspaceAccess
begin

text \<open>
  The HTTP handlers of \<open>app/routes/terminals.py\<close>: the terminal service behind the guards of the
  workspaces. A handler gets the outcome of \<open>get_current_user\<close> and gives a response or an HTTP error
  with the workspace tables after the request; those that change the terminal service give it as well.
  The service is read as \<open>st\<close> (memory) and \<open>disk\<close> (files). A timestamp in a response is its UTC
  instant, not the ISO text. FastAPI runs \<open>get_current_user\<close> first and answers 422 to query
  parameters outside their declared ranges.
\<close>

section \<open>Responses\<close>

record terminal_session_response =
  tsr_session_id :: string
  tsr_group_id :: string
  tsr_owner_user_id :: string
  tsr_backend :: terminal_backend_name
  tsr_container_name :: "string option"
  tsr_status :: terminal_session_status
  tsr_created_at :: instant
  tsr_last_attached_at :: "instant option"
  tsr_reconnect_deadline :: "instant option"

definition to_terminal_session_response :: "terminal_session_record \<Rightarrow> terminal_session_response" where
  "to_terminal_session_response r =
     \<lparr>tsr_session_id = session_id r, tsr_group_id = group_id r, tsr_owner_user_id = owner_user_id r,
      tsr_backend = backend r, tsr_container_name = container_name r, tsr_status = status r,
      tsr_created_at = created_at r, tsr_last_attached_at = last_attached_at r,
      tsr_reconnect_deadline = reconnect_deadline r\<rparr>"

record history_summary_response =
  hsr_session :: terminal_session_response
  hsr_snapshot_at :: instant
  hsr_output_bytes :: int
  hsr_history_max_bytes :: int
  hsr_truncated :: bool

definition to_terminal_history_summary_response :: "history_summary \<Rightarrow> history_summary_response" where
  "to_terminal_history_summary_response s =
     \<lparr>hsr_session = to_terminal_session_response (sum_record s), hsr_snapshot_at = sum_snapshot_at s,
      hsr_output_bytes = sum_output_bytes s, hsr_history_max_bytes = sum_history_max_bytes s,
      hsr_truncated = sum_truncated s\<rparr>"

record history_detail_response =
  hdr_session :: terminal_session_response
  hdr_snapshot_at :: instant
  hdr_output :: string
  hdr_output_bytes :: int
  hdr_history_max_bytes :: int
  hdr_truncated :: bool

definition to_terminal_history_detail_response :: "history_snapshot \<Rightarrow> history_detail_response" where
  "to_terminal_history_detail_response s =
     \<lparr>hdr_session = to_terminal_session_response (snap_record s), hdr_snapshot_at = snapshot_at s,
      hdr_output = snap_output s, hdr_output_bytes = output_bytes s,
      hdr_history_max_bytes = history_max_bytes s, hdr_truncated = truncated s\<rparr>"

record search_match_response =
  smr_session :: terminal_session_response
  smr_snapshot_at :: instant
  smr_match_count :: int
  smr_snippets :: "string list"
  smr_snippet_matches :: "history_search_snippet list"

definition to_terminal_history_search_match_response :: "history_search_match \<Rightarrow> search_match_response" where
  "to_terminal_history_search_match_response x =
     \<lparr>smr_session = to_terminal_session_response (match_record x), smr_snapshot_at = match_snapshot_at x,
      smr_match_count = match_count x, smr_snippets = snippets x, smr_snippet_matches = snippet_matches x\<rparr>"

definition map_page :: "('a \<Rightarrow> 'b) \<Rightarrow> 'a history_page \<Rightarrow> 'b history_page" where
  "map_page f p =
     \<lparr>page_limit = page_limit p, page_offset = page_offset p, page_total = page_total p,
      page_has_more = page_has_more p, page_items = map f (page_items p)\<rparr>"

record terminal_workspace_summary =
  tws_group_id :: string
  tws_group_name :: string
  tws_chat_accessible :: bool
  tws_session :: "terminal_session_response option"
  tws_history :: "history_summary_response option"

text \<open>A download: the file's name in \<open>Content-Disposition\<close> and the content.\<close>

record 'a attachment =
  attachment_filename :: string
  attachment_content :: 'a

section \<open>File names\<close>

definition filename_char :: "char \<Rightarrow> bool" where
  "filename_char c =
     (let n = of_char c :: nat in
      (65 \<le> n \<and> n \<le> 90) \<or> (97 \<le> n \<and> n \<le> 122) \<or> (48 \<le> n \<and> n \<le> 57) \<or> n = 46 \<or> n = 95 \<or> n = 45)"

text \<open>\<open>re.sub(r"[^A-Za-z0-9._-]+", "-", s)\<close>: \<open>in_run\<close> says that a run is being replaced.\<close>

fun replace_runs :: "bool \<Rightarrow> string \<Rightarrow> string" where
  "replace_runs in_run [] = []"
| "replace_runs in_run (c # cs) =
     (if filename_char c then c # replace_runs False cs
      else if in_run then replace_runs True cs
      else CHR ''-'' # replace_runs True cs)"

definition strip_dashes :: "string \<Rightarrow> string" where
  "strip_dashes s =
     (let dash = (\<lambda>c. c = CHR ''-'' \<or> c = CHR ''.'') in rev (dropWhile dash (rev (dropWhile dash s))))"

definition sanitize_terminal_filename_part :: "string \<Rightarrow> string" where
  "sanitize_terminal_filename_part value =
     (let sanitized = strip_dashes (replace_runs False (py_strip value)) in
      if sanitized = [] then ''snapshot'' else sanitized)"

definition build_terminal_history_download_filename :: "string \<Rightarrow> string \<Rightarrow> string \<Rightarrow> string" where
  "build_terminal_history_download_filename gid sid extension =
     ''terminal-history-'' @ sanitize_terminal_filename_part gid @ ''-'' @ sanitize_terminal_filename_part sid @
     ''.'' @ extension"

definition build_terminal_history_export_filename :: "string \<Rightarrow> int \<Rightarrow> int \<Rightarrow> string" where
  "build_terminal_history_export_filename gid offset limit =
     ''terminal-history-export-'' @ sanitize_terminal_filename_part gid @ ''-offset-'' @ int_string offset @
     ''-limit-'' @ int_string limit @ ''.json''"

definition build_terminal_history_archive_filename :: "string \<Rightarrow> string" where
  "build_terminal_history_archive_filename gid =
     ''terminal-history-archive-'' @ sanitize_terminal_filename_part gid @ ''.json''"

definition build_terminal_history_search_export_filename :: "string \<Rightarrow> string \<Rightarrow> int \<Rightarrow> int \<Rightarrow> string" where
  "build_terminal_history_search_export_filename gid query offset limit =
     ''terminal-history-search-'' @ sanitize_terminal_filename_part gid @ ''-'' @
     sanitize_terminal_filename_part query @ ''-offset-'' @ int_string offset @ ''-limit-'' @ int_string limit @ ''.json''"

definition build_terminal_history_search_archive_filename :: "string \<Rightarrow> string \<Rightarrow> string" where
  "build_terminal_history_search_archive_filename gid query =
     ''terminal-history-search-archive-'' @ sanitize_terminal_filename_part gid @ ''-'' @
     sanitize_terminal_filename_part query @ ''.json''"

section \<open>Guards and errors\<close>

definition require_terminal_role :: "auth_user \<Rightarrow> http_error option" where
  "require_terminal_role u =
     (if user_role u \<notin> {Some ''owner'', Some ''admin''} then Some permission_denied else None)"

abbreviation terminal_not_found :: http_error where
  "terminal_not_found \<equiv> Http_error 404 ''terminal session not found''"

text \<open>The status of each exception, with the message of the service as the detail.\<close>

fun map_terminal_error :: "terminal_error \<Rightarrow> http_error" where
  "map_terminal_error TerminalSessionNotFoundError = terminal_not_found"
| "map_terminal_error TerminalSessionConflictError = Http_error 409 ''active terminal session already owned by another user''"
| "map_terminal_error TerminalSessionOwnershipError = Http_error 409 ''terminal session is owned by another user''"
| "map_terminal_error TerminalBackendDisabledError = Http_error 422 ''host_process backend is disabled for terminal sessions''"
| "map_terminal_error TerminalBackendUnsupportedError = Http_error 422 ''openai_runtime backend does not support terminal sessions''"
| "map_terminal_error (ValueError detail) = Http_error 400 detail"
| "map_terminal_error BridgeError = Http_error 500 ''terminal operation failed''"

text \<open>The role, then \<open>_require_accessible_workspace\<close>, which is that of the group routes.\<close>

definition in_terminal_workspace ::
  "workspace_db \<Rightarrow> http_error + auth_user \<Rightarrow> string \<Rightarrow> instant \<Rightarrow>
   (auth_user \<Rightarrow> registered_group \<Rightarrow> http_error + 'a) \<Rightarrow> 'a response" where
  "in_terminal_workspace db current gid now handler =
     as_user current db (\<lambda>u.
       case require_terminal_role u of
         Some e \<Rightarrow> (Inl e, db)
       | None \<Rightarrow> in_workspace db gid u now (\<lambda>workspace db1. (handler u workspace, db1)))"

text \<open>A service's result as a response.\<close>

definition answer :: "('a \<Rightarrow> 'b) \<Rightarrow> terminal_error + 'a \<Rightarrow> http_error + 'b" where
  "answer f r = (case r of Inl e \<Rightarrow> Inl (map_terminal_error e) | Inr x \<Rightarrow> Inr (f x))"

definition query_ok :: "int \<Rightarrow> int \<Rightarrow> bool" where
  "query_ok limit offset \<longleftrightarrow> 1 \<le> limit \<and> limit \<le> 100 \<and> 0 \<le> offset"

definition validated :: "bool \<Rightarrow> http_error + auth_user \<Rightarrow> http_error + auth_user" where
  "validated ok current =
     (case current of Inl e \<Rightarrow> Inl e | Inr u \<Rightarrow> if ok then Inr u else Inl (Http_error 422 ''validation error''))"

section \<open>Sessions\<close>

text \<open>
  \<open>create_session\<close> up to the start of the bridge; for a new session the response comes when the
  bridge has started, or is an error when that fails.
\<close>

definition create_terminal_session ::
  "workspace_db \<Rightarrow> terminal_service \<Rightarrow> http_error + auth_user \<Rightarrow> string \<Rightarrow> terminal_requested_mode \<Rightarrow> string \<Rightarrow>
   instant \<Rightarrow> string option option \<Rightarrow> create_result response \<times> terminal_service" where
  "create_terminal_session db st current gid requested_mode uuid now factory =
     (let begin_result = (\<lambda>u workspace. create_begin st gid (folder workspace) (user_id u) requested_mode uuid now factory) in
      (in_terminal_workspace db current gid now (\<lambda>u workspace. answer id (fst (begin_result u workspace))),
       case in_terminal_workspace db current gid now (\<lambda>u workspace. Inr (snd (begin_result u workspace))) of
         (Inl _, _) \<Rightarrow> st
       | (Inr st', _) \<Rightarrow> st'))"

definition create_terminal_session_end ::
  "create_result \<Rightarrow> bool \<Rightarrow> terminal_service \<Rightarrow> instant \<Rightarrow> (http_error + terminal_session_response) \<times> terminal_service" where
  "create_terminal_session_end result started st now =
     (case result of
        Existing_session r \<Rightarrow> (Inr (to_terminal_session_response r), st)
      | New_session r _ \<Rightarrow>
          if started then (Inr (to_terminal_session_response r), create_finish st (session_id r) now)
          else (Inl (map_terminal_error BridgeError), st))"

definition get_current_terminal_session ::
  "workspace_db \<Rightarrow> terminal_service \<Rightarrow> http_error + auth_user \<Rightarrow> string \<Rightarrow> instant \<Rightarrow> terminal_session_response response" where
  "get_current_terminal_session db st current gid now =
     in_terminal_workspace db current gid now (\<lambda>u workspace.
       case get_current_session st (folder workspace) of
         None \<Rightarrow> Inl terminal_not_found
       | Some r \<Rightarrow> Inr (to_terminal_session_response r))"

definition delete_current_terminal_session ::
  "workspace_db \<Rightarrow> terminal_service \<Rightarrow> http_error + auth_user \<Rightarrow> string \<Rightarrow> instant \<Rightarrow> unit response \<times> terminal_service" where
  "delete_current_terminal_session db st current gid now =
     (let closing = (\<lambda>u workspace. close_session_by_group st (folder workspace) (user_id u) now) in
      (in_terminal_workspace db current gid now (\<lambda>u workspace. answer (\<lambda>_. ()) (fst (closing u workspace))),
       case in_terminal_workspace db current gid now (\<lambda>u workspace. Inr (snd (closing u workspace))) of
         (Inl _, _) \<Rightarrow> st
       | (Inr st', _) \<Rightarrow> st'))"

definition force_delete_current_terminal_session ::
  "workspace_db \<Rightarrow> terminal_service \<Rightarrow> http_error + auth_user \<Rightarrow> string \<Rightarrow> instant \<Rightarrow> unit response \<times> terminal_service" where
  "force_delete_current_terminal_session db st current gid now =
     (let closing = (\<lambda>workspace. force_close_session_by_group st (folder workspace) now) in
      (in_terminal_workspace db current gid now (\<lambda>u workspace. answer (\<lambda>_. ()) (fst (closing workspace))),
       case in_terminal_workspace db current gid now (\<lambda>u workspace. Inr (snd (closing workspace))) of
         (Inl _, _) \<Rightarrow> st
       | (Inr st', _) \<Rightarrow> st'))"

section \<open>Histories of one workspace\<close>

record history_response =
  hr_session :: terminal_session_response
  hr_output :: string
  hr_output_bytes :: int
  hr_history_max_bytes :: int
  hr_truncated :: bool

definition get_current_terminal_session_history ::
  "workspace_db \<Rightarrow> terminal_service \<Rightarrow> terminal_service \<Rightarrow> http_error + auth_user \<Rightarrow> string \<Rightarrow> instant \<Rightarrow>
   history_response response" where
  "get_current_terminal_session_history db st disk current gid now =
     in_terminal_workspace db current gid now (\<lambda>u workspace.
       answer (\<lambda>s. \<lparr>hr_session = to_terminal_session_response (snap_record s), hr_output = snap_output s,
                   hr_output_bytes = output_bytes s, hr_history_max_bytes = history_max_bytes s,
                   hr_truncated = truncated s\<rparr>)
         (get_history_by_group st disk (folder workspace) now))"

definition get_terminal_history_timeline ::
  "workspace_db \<Rightarrow> terminal_service \<Rightarrow> terminal_service \<Rightarrow> http_error + auth_user \<Rightarrow> string \<Rightarrow> instant \<Rightarrow> int \<Rightarrow> int \<Rightarrow>
   history_filter \<Rightarrow> history_summary_response history_page response" where
  "get_terminal_history_timeline db st disk current gid now limit offset flt =
     in_terminal_workspace db (validated (query_ok limit offset) current) gid now (\<lambda>u workspace.
       answer (map_page to_terminal_history_summary_response)
         (list_history_timeline_by_group st disk (folder workspace) now limit offset flt))"

definition export_terminal_history ::
  "workspace_db \<Rightarrow> terminal_service \<Rightarrow> terminal_service \<Rightarrow> http_error + auth_user \<Rightarrow> string \<Rightarrow> instant \<Rightarrow> int \<Rightarrow> int \<Rightarrow>
   history_filter \<Rightarrow> history_detail_response history_page attachment response" where
  "export_terminal_history db st disk current gid now limit offset flt =
     in_terminal_workspace db (validated (query_ok limit offset) current) gid now (\<lambda>u workspace.
       answer (\<lambda>page. \<lparr>attachment_filename =
                       build_terminal_history_export_filename (folder workspace) (page_offset page) (page_limit page),
                     attachment_content = map_page to_terminal_history_detail_response page\<rparr>)
         (list_history_snapshot_page_by_group st disk (folder workspace) now limit offset flt))"

definition archive_terminal_history ::
  "workspace_db \<Rightarrow> terminal_service \<Rightarrow> terminal_service \<Rightarrow> http_error + auth_user \<Rightarrow> string \<Rightarrow> instant \<Rightarrow>
   history_filter \<Rightarrow> history_detail_response list attachment response" where
  "archive_terminal_history db st disk current gid now flt =
     in_terminal_workspace db current gid now (\<lambda>u workspace.
       answer (\<lambda>items. \<lparr>attachment_filename = build_terminal_history_archive_filename (folder workspace),
                      attachment_content = map to_terminal_history_detail_response items\<rparr>)
         (list_history_snapshots_by_group st disk (folder workspace) now flt))"

text \<open>A search with the service's defaults, three snippets with forty characters around a match.\<close>

definition search_service ::
  "terminal_service \<Rightarrow> terminal_service \<Rightarrow> string \<Rightarrow> instant \<Rightarrow> string \<Rightarrow> int \<Rightarrow> int \<Rightarrow> string \<Rightarrow> history_filter \<Rightarrow>
   terminal_error + string \<times> history_search_match history_page" where
  "search_service st disk ws now q limit offset sort_by flt =
     search_history_by_group st disk ws now q limit offset sort_by flt 3 40"

definition search_params_ok :: "string \<Rightarrow> string \<Rightarrow> bool" where
  "search_params_ok q sort_by \<longleftrightarrow> q \<noteq> [] \<and> sort_by \<in> {''relevance'', ''newest'', ''oldest''}"

definition search_terminal_history_output ::
  "workspace_db \<Rightarrow> terminal_service \<Rightarrow> terminal_service \<Rightarrow> http_error + auth_user \<Rightarrow> string \<Rightarrow> instant \<Rightarrow> string \<Rightarrow>
   int \<Rightarrow> int \<Rightarrow> string \<Rightarrow> history_filter \<Rightarrow> (string \<times> search_match_response history_page) response" where
  "search_terminal_history_output db st disk current gid now q limit offset sort_by flt =
     in_terminal_workspace db (validated (query_ok limit offset \<and> search_params_ok q sort_by) current) gid now
       (\<lambda>u workspace.
          answer (map_prod id (map_page to_terminal_history_search_match_response))
            (search_service st disk (folder workspace) now q limit offset sort_by flt))"

definition export_terminal_history_search ::
  "workspace_db \<Rightarrow> terminal_service \<Rightarrow> terminal_service \<Rightarrow> http_error + auth_user \<Rightarrow> string \<Rightarrow> instant \<Rightarrow> string \<Rightarrow>
   int \<Rightarrow> int \<Rightarrow> string \<Rightarrow> history_filter \<Rightarrow> (string \<times> search_match_response history_page) attachment response" where
  "export_terminal_history_search db st disk current gid now q limit offset sort_by flt =
     in_terminal_workspace db (validated (query_ok limit offset \<and> search_params_ok q sort_by) current) gid now
       (\<lambda>u workspace.
          answer (\<lambda>(query, page). \<lparr>attachment_filename =
                      build_terminal_history_search_export_filename (folder workspace) query (page_offset page) (page_limit page),
                    attachment_content = (query, map_page to_terminal_history_search_match_response page)\<rparr>)
            (search_service st disk (folder workspace) now q limit offset sort_by flt))"

text \<open>
  The archive of a search asks for one match and then for as many as there are. The service is
  read again for the second search, at a later time.
\<close>

definition search_everything ::
  "terminal_service \<Rightarrow> terminal_service \<Rightarrow> terminal_service \<Rightarrow> terminal_service \<Rightarrow> string \<Rightarrow> instant \<Rightarrow> instant \<Rightarrow> string \<Rightarrow>
   string \<Rightarrow> history_filter \<Rightarrow> terminal_error + string \<times> history_search_match history_page" where
  "search_everything st disk st' disk' ws now now' q sort_by flt =
     (case search_service st disk ws now q 1 0 sort_by flt of
        Inl e \<Rightarrow> Inl e
      | Inr (query, first_page) \<Rightarrow>
          if page_total first_page > int (length (page_items first_page))
          then search_service st' disk' ws now' q (page_total first_page) 0 sort_by flt
          else Inr (query, first_page))"

definition archive_terminal_history_search ::
  "workspace_db \<Rightarrow> terminal_service \<Rightarrow> terminal_service \<Rightarrow> terminal_service \<Rightarrow> terminal_service \<Rightarrow> http_error + auth_user \<Rightarrow>
   string \<Rightarrow> instant \<Rightarrow> instant \<Rightarrow> string \<Rightarrow> string \<Rightarrow> history_filter \<Rightarrow>
   (string \<times> int \<times> search_match_response list) attachment response" where
  "archive_terminal_history_search db st disk st' disk' current gid now now' q sort_by flt =
     in_terminal_workspace db (validated (search_params_ok q sort_by) current) gid now
       (\<lambda>u workspace.
          answer (\<lambda>(query, page). \<lparr>attachment_filename =
                      build_terminal_history_search_archive_filename (folder workspace) query,
                    attachment_content = (query, page_total page,
                      map to_terminal_history_search_match_response (page_items page))\<rparr>)
            (search_everything st disk st' disk' (folder workspace) now now' q sort_by flt))"

definition get_terminal_history_detail ::
  "workspace_db \<Rightarrow> terminal_service \<Rightarrow> terminal_service \<Rightarrow> http_error + auth_user \<Rightarrow> string \<Rightarrow> string \<Rightarrow> instant \<Rightarrow>
   history_detail_response response" where
  "get_terminal_history_detail db st disk current gid sid now =
     in_terminal_workspace db current gid now (\<lambda>u workspace.
       answer to_terminal_history_detail_response (get_history_snapshot_by_group st disk (folder workspace) sid now))"

datatype download_content = Download_json history_detail_response | Download_text string

definition download_terminal_history_detail ::
  "workspace_db \<Rightarrow> terminal_service \<Rightarrow> terminal_service \<Rightarrow> http_error + auth_user \<Rightarrow> string \<Rightarrow> string \<Rightarrow> string \<Rightarrow> instant \<Rightarrow>
   download_content attachment response" where
  "download_terminal_history_detail db st disk current gid sid fmt now =
     in_terminal_workspace db (validated (fmt \<in> {''text'', ''json''}) current) gid now (\<lambda>u workspace.
       answer (\<lambda>s. if fmt = ''json''
                   then \<lparr>attachment_filename = build_terminal_history_download_filename (folder workspace) sid ''json'',
                         attachment_content = Download_json (to_terminal_history_detail_response s)\<rparr>
                   else \<lparr>attachment_filename = build_terminal_history_download_filename (folder workspace) sid ''log'',
                         attachment_content = Download_text (snap_output s)\<rparr>)
         (get_history_snapshot_by_group st disk (folder workspace) sid now))"

section \<open>All workspaces\<close>

definition terminal_workspace_sort_key :: "terminal_workspace_summary \<Rightarrow> nat \<times> string \<times> string" where
  "terminal_workspace_sort_key item =
     (case tws_session item of
        None \<Rightarrow> 2
      | Some s \<Rightarrow> if tsr_status s \<in> {Created, Attached, Detached} then 0 else 1,
      py_lower (tws_group_name item), tws_group_id item)"

text \<open>A dictionary by workspace folder: a later item replaces an earlier one.\<close>

definition by_folder :: "('a \<Rightarrow> string) \<Rightarrow> 'a list \<Rightarrow> (string, 'a) dict" where
  "by_folder key items = fold (\<lambda>x. dict_set (key x) x) items []"

definition terminal_overview ::
  "workspace_db \<Rightarrow> terminal_service \<Rightarrow> auth_user \<Rightarrow> instant \<Rightarrow> terminal_workspace_summary list" where
  "terminal_overview db st u now =
     (let sessions = by_folder group_folder (list_sessions st);
          histories = by_folder (group_folder \<circ> sum_record) (list_history_summaries st now);
          item = (\<lambda>g. \<lparr>tws_group_id = folder g, tws_group_name = group_name g,
                      tws_chat_accessible = user_can_access_group db (user_id u) (user_role u) g,
                      tws_session = map_option to_terminal_session_response (dict_get sessions (folder g)),
                      tws_history = map_option to_terminal_history_summary_response (dict_get histories (folder g))\<rparr>)
      in sort_key terminal_workspace_sort_key
           (map item (filter (\<lambda>g. folder g \<noteq> []) (filter is_web (list_registered_groups db)))))"

definition with_terminal_role :: "http_error + auth_user \<Rightarrow> (auth_user \<Rightarrow> http_error + 'a) \<Rightarrow> http_error + 'a" where
  "with_terminal_role current handler =
     (case current of
        Inl e \<Rightarrow> Inl e
      | Inr u \<Rightarrow> (case require_terminal_role u of Some e \<Rightarrow> Inl e | None \<Rightarrow> handler u))"

definition list_terminal_overview ::
  "workspace_db \<Rightarrow> terminal_service \<Rightarrow> http_error + auth_user \<Rightarrow> instant \<Rightarrow> http_error + terminal_workspace_summary list" where
  "list_terminal_overview db st current now =
     with_terminal_role current (\<lambda>u. Inr (terminal_overview db st u now))"

definition export_terminal_overview ::
  "workspace_db \<Rightarrow> terminal_service \<Rightarrow> http_error + auth_user \<Rightarrow> instant \<Rightarrow>
   http_error + terminal_workspace_summary list attachment" where
  "export_terminal_overview db st current now =
     map_sum id (\<lambda>items. \<lparr>attachment_filename = ''terminal-overview.json'', attachment_content = items\<rparr>)
       (list_terminal_overview db st current now)"

record latest_history_item =
  lhi_group_id :: string
  lhi_group_name :: string
  lhi_chat_accessible :: bool
  lhi_history :: history_detail_response

definition latest_history_items ::
  "terminal_workspace_summary list \<Rightarrow> history_snapshot list \<Rightarrow> latest_history_item list" where
  "latest_history_items overview latest =
     (let snapshots = by_folder (group_folder \<circ> snap_record) latest in
      List.map_filter
        (\<lambda>item. map_option
           (\<lambda>s. \<lparr>lhi_group_id = tws_group_id item, lhi_group_name = tws_group_name item,
                 lhi_chat_accessible = tws_chat_accessible item, lhi_history = to_terminal_history_detail_response s\<rparr>)
           (dict_get snapshots (tws_group_id item)))
        overview)"

definition export_terminal_latest_histories ::
  "workspace_db \<Rightarrow> terminal_service \<Rightarrow> http_error + auth_user \<Rightarrow> instant \<Rightarrow>
   http_error + latest_history_item list attachment" where
  "export_terminal_latest_histories db st current now =
     (case list_terminal_overview db st current now of
        Inl e \<Rightarrow> Inl e
      | Inr overview \<Rightarrow>
          let items = latest_history_items overview (list_latest_history_snapshots st now) in
          if items = [] then Inl terminal_not_found
          else Inr \<lparr>attachment_filename = ''terminal-latest-histories.json'', attachment_content = items\<rparr>)"

record archive_params =
  arc_group_name_prefix :: "string option"
  arc_group_id_prefix :: "string option"
  arc_chat_accessible :: "bool option"

record archive_item =
  arc_group_id :: string
  arc_group_name :: string
  arc_accessible :: bool
  arc_total :: int
  arc_items :: "history_detail_response list"

text \<open>
  \<open>str.casefold\<close>: on Latin-1 it is \<open>lower\<close>, but the sharp s becomes two letters, and the micro sign
  a Greek letter that no other Latin-1 character becomes, so it stays itself here.
\<close>

definition py_casefold :: "string \<Rightarrow> string" where
  "py_casefold s = concat (map (\<lambda>c. if (of_char c :: nat) = 223 then ''ss'' else [py_lower_char c]) s)"

definition archive_entry ::
  "workspace_db \<Rightarrow> auth_user \<Rightarrow> archive_params \<Rightarrow> registered_group \<Rightarrow> (string \<times> string \<times> bool) option" where
  "archive_entry db u params g =
     (let gid = py_strip (folder g);
          accessible = user_can_access_group db (user_id u) (user_role u) g in
      if \<not> is_web g then None
      else if gid = [] then None
      else if (case normalize_optional (arc_group_id_prefix params) of
                 None \<Rightarrow> False | Some p \<Rightarrow> \<not> py_startswith gid p) then None
      else if (case normalize_optional (arc_group_name_prefix params) of
                 None \<Rightarrow> False | Some p \<Rightarrow> \<not> py_startswith (py_casefold (group_name g)) (py_casefold p)) then None
      else if (case arc_chat_accessible params of None \<Rightarrow> False | Some b \<Rightarrow> accessible \<noteq> b) then None
      else Some (gid, group_name g, accessible))"

definition archive_items ::
  "(string \<times> string \<times> bool) list \<Rightarrow> (string, history_snapshot list) dict \<Rightarrow> archive_item list" where
  "archive_items entries archives =
     List.map_filter
       (\<lambda>(gid, name, accessible).
          case dict_get archives gid of
            None \<Rightarrow> None
          | Some [] \<Rightarrow> None
          | Some snapshots \<Rightarrow>
              Some \<lparr>arc_group_id = gid, arc_group_name = name, arc_accessible = accessible,
                    arc_total = int (length snapshots),
                    arc_items = map to_terminal_history_detail_response snapshots\<rparr>)
       entries"

definition archive_sort_key :: "archive_item \<Rightarrow> nat \<times> string \<times> string" where
  "archive_sort_key item =
     (if tsr_status (hdr_session (hd (arc_items item))) \<in> {Created, Attached, Detached} then 0 else 1,
      py_lower (arc_group_name item), arc_group_id item)"

definition export_terminal_history_archive ::
  "workspace_db \<Rightarrow> terminal_service \<Rightarrow> terminal_service \<Rightarrow> http_error + auth_user \<Rightarrow> archive_params \<Rightarrow> history_filter \<Rightarrow>
   instant \<Rightarrow> http_error + archive_item list attachment" where
  "export_terminal_history_archive db st disk current params flt now =
     with_terminal_role current (\<lambda>u.
       let entries = List.map_filter (archive_entry db u params) (list_registered_groups db) in
       case list_history_snapshot_archives_by_groups st disk (map fst entries) now flt of
         Inl e \<Rightarrow> Inl (map_terminal_error e)
       | Inr archives \<Rightarrow>
           let items = archive_items entries archives in
           if items = [] then Inl terminal_not_found
           else Inr \<lparr>attachment_filename = ''terminal-history-archive.json'',
                     attachment_content = sort_key archive_sort_key items\<rparr>)"

end
