(* ===== verification/TerminalSocket.thy ===== *)
theory TerminalSocket
  imports TerminalRoutes
begin

text \<open>
  The websocket of a terminal, \<open>terminal_websocket_endpoint\<close> of \<open>app/routes/terminals.py\<close>: who may
  connect, what each message does, and how the connection ends. A message is what \<open>json.loads\<close> makes
  of its text, or its failure. Each definition is one stretch between awaits of the socket; the
  service's own awaits are those of \<open>TerminalSessions\<close>.
\<close>

section \<open>Values of a message\<close>

datatype json =
    Json_null
  | Json_bool bool
  | Json_int int
  | Json_float
  | Json_string string
  | Json_list "json list"
  | Json_object "(string \<times> json) list"

definition json_get :: "(string \<times> json) list \<Rightarrow> string \<Rightarrow> json" where
  "json_get obj key = (case dict_get obj key of None \<Rightarrow> Json_null | Some v \<Rightarrow> v)"

text \<open>\<open>isinstance(x, int)\<close> holds of a bool too, which counts as zero or one.\<close>

fun json_as_int :: "json \<Rightarrow> int option" where
  "json_as_int (Json_bool b) = Some (if b then 1 else 0)"
| "json_as_int (Json_int n) = Some n"
| "json_as_int _ = None"

section \<open>Connecting\<close>

text \<open>\<open>authorization.partition(" ")\<close>: the scheme and what follows the first space.\<close>

definition bearer_token :: "string \<Rightarrow> string option" where
  "bearer_token authorization =
     (let scheme = takeWhile (\<lambda>c. c \<noteq> CHR '' '') authorization;
          token = drop (Suc (length scheme)) authorization
      in if py_lower scheme = ''bearer'' \<and> token \<noteq> [] then Some token else None)"

definition authenticate_websocket ::
  "(instant \<Rightarrow> string \<Rightarrow> string option option) \<Rightarrow> auth_service \<Rightarrow> string option \<Rightarrow> string option \<Rightarrow> instant \<Rightarrow>
   auth_user option" where
  "authenticate_websocket jwt_decode accounts header access_token now =
     (let header_token = Option.bind header bearer_token;
          token = (case header_token of Some t \<Rightarrow> t | None \<Rightarrow> (case access_token of None \<Rightarrow> [] | Some t \<Rightarrow> t))
      in if token = [] then None
         else (case decode_access_token jwt_decode token now of
                 None \<Rightarrow> None
               | Some uid \<Rightarrow> get_user_by_id accounts uid))"

text \<open>
  The result of a connection attempt: refused with code 1008, or attached, with the record and queue
  and the bridge that is still to be started, if any.
\<close>

datatype connect_result =
    Refused int
  | Connected auth_user terminal_session_record nat "(nat \<times> history_snapshot) option"

definition websocket_connect ::
  "terminal_service \<Rightarrow> auth_user option \<Rightarrow> string \<Rightarrow> instant \<Rightarrow> string option option \<Rightarrow> connect_result \<times> terminal_service" where
  "websocket_connect st user sid now factory =
     (case user of
        None \<Rightarrow> (Refused 1008, st)
      | Some u \<Rightarrow>
          (case attach_begin st sid (user_id u) now factory of
             (Inl _, st1) \<Rightarrow> (Refused 1008, st1)
           | (Inr (r, q, start), st1) \<Rightarrow> (Connected u r q start, st1)))"

text \<open>The first message to the client.\<close>

record ready_message =
  ready_session_id :: string
  ready_backend :: terminal_backend_name
  ready_status :: terminal_session_status

definition ready_payload :: "terminal_session_record \<Rightarrow> ready_message" where
  "ready_payload r = \<lparr>ready_session_id = session_id r, ready_backend = backend r, ready_status = status r\<rparr>"

section \<open>Events to the client\<close>

text \<open>
  What \<open>_forward_terminal_events\<close> sends for an event, and whether it ends: it does after the exit
  event.
\<close>

definition event_payload :: "terminal_session_event \<Rightarrow> (string \<times> json) list" where
  "event_payload e =
     [(''type'', Json_string (event_type e))] @
     (case event_data e of None \<Rightarrow> [] | Some d \<Rightarrow> [(''data'', Json_string d)]) @
     (case event_exit_code e of None \<Rightarrow> [] | Some c \<Rightarrow> [(''exit_code'', Json_int c)]) @
     (case event_error e of None \<Rightarrow> [] | Some x \<Rightarrow> [(''error'', Json_string x)])"

text \<open>The payloads that a queue's events become, up to and with the first exit event.\<close>

fun forwarded :: "terminal_session_event list \<Rightarrow> (string \<times> json) list list" where
  "forwarded [] = []"
| "forwarded (e # es) =
     event_payload e # (if event_type e = ''terminal.exit'' then [] else forwarded es)"

section \<open>Messages from the client\<close>

text \<open>After a message the loop goes on, perhaps with an error sent to the client, or it ends.\<close>

datatype message_result =
    Go_on "string option"
  | Closed_by_client
  | Message_failed bool terminal_error

text \<open>\<open>Message_failed\<close> carries whether the client had asked to close.\<close>

definition handle_message ::
  "terminal_service \<Rightarrow> string \<Rightarrow> auth_user \<Rightarrow> json option \<Rightarrow> instant \<Rightarrow> message_result \<times> terminal_service" where
  "handle_message st sid u message now =
     (case message of
        Some (Json_object obj) \<Rightarrow>
          (if json_get obj ''type'' = Json_string ''terminal.input'' then
             (case json_get obj ''data'' of
                Json_string data \<Rightarrow>
                  (case send_input st sid (user_id u) data of
                     (Inl e, st1) \<Rightarrow> (Message_failed False e, st1)
                   | (Inr _, st1) \<Rightarrow> (Go_on None, st1))
              | _ \<Rightarrow> (Go_on (Some ''terminal.input requires string data''), st))
           else if json_get obj ''type'' = Json_string ''terminal.resize'' then
             (case (json_as_int (json_get obj ''cols''), json_as_int (json_get obj ''rows'')) of
                (Some cols, Some rows) \<Rightarrow>
                  if cols \<le> 0 \<or> rows \<le> 0
                  then (Go_on (Some ''terminal.resize requires positive integer cols and rows''), st)
                  else
                    (case resize st sid (user_id u) cols rows of
                       (Inl e, st1) \<Rightarrow> (Message_failed False e, st1)
                     | (Inr _, st1) \<Rightarrow> (Go_on None, st1))
              | _ \<Rightarrow> (Go_on (Some ''terminal.resize requires positive integer cols and rows''), st))
           else if json_get obj ''type'' = Json_string ''terminal.close'' then
             (case close_session st sid (user_id u) now of
                (Inl e, st1) \<Rightarrow> (Message_failed True e, st1)
              | (Inr _, st1) \<Rightarrow> (Closed_by_client, st1))
           else (Go_on (Some ''unsupported terminal message type''), st))
      | _ \<Rightarrow> (Go_on (Some ''invalid terminal message payload''), st))"

text \<open>
  The \<open>finally\<close> block, when the client disconnects, a message fails or the client has closed: unless
  the client asked to close, the session is detached, and a failure of that is ignored.
\<close>

definition websocket_end :: "terminal_service \<Rightarrow> string \<Rightarrow> auth_user \<Rightarrow> bool \<Rightarrow> instant \<Rightarrow> terminal_service" where
  "websocket_end st sid u explicitly_closed now =
     (if explicitly_closed then st else snd (detach_session st sid (user_id u) now))"

text \<open>A connection from its first message on: the messages with the times at which they arrive.\<close>

fun serve_messages ::
  "terminal_service \<Rightarrow> string \<Rightarrow> auth_user \<Rightarrow> (json option \<times> instant) list \<Rightarrow> string list \<times> bool \<times> terminal_service" where
  "serve_messages st sid u [] = ([], False, st)"
| "serve_messages st sid u ((message, now) # rest) =
     (case handle_message st sid u message now of
        (Go_on reply, st1) \<Rightarrow>
          (case serve_messages st1 sid u rest of
             (replies, ended, st2) \<Rightarrow> ((case reply of None \<Rightarrow> [] | Some r \<Rightarrow> [r]) @ replies, ended, st2))
      | (Closed_by_client, st1) \<Rightarrow> ([], True, st1)
      | (Message_failed closing e, st1) \<Rightarrow> ([], closing, st1))"

end
