(* ===== verification/TerminalPortal.thy ===== *)
theory TerminalPortal
  imports TerminalSocket
begin

text \<open>
  What the routes of the terminals guarantee: the guard of every handler of one workspace, the names
  of the downloads, the archive of a search; and where the guarantees end: the exports over all
  workspaces, and what the end of a connection does to a session.
\<close>

section \<open>The guard\<close>

definition admitted :: "workspace_db \<Rightarrow> http_error + auth_user \<Rightarrow> string \<Rightarrow> bool" where
  "admitted db current gid \<longleftrightarrow>
     (\<exists>u w. current = Inr u \<and> user_role u \<in> {Some ''owner'', Some ''admin''} \<and> w \<in> set (groups db) \<and>
        is_web w \<and> folder w = gid \<and> user_can_access_group db (user_id u) (user_role u) w)"

text \<open>What every handler of one workspace runs with.\<close>

definition entered ::
  "workspace_db \<Rightarrow> http_error + auth_user \<Rightarrow> string \<Rightarrow> instant \<Rightarrow> http_error + auth_user \<times> registered_group" where
  "entered db current gid now = fst (in_terminal_workspace db current gid now (\<lambda>u w. Inr (u, w)))"

lemma in_terminal_workspace_entered:
  "fst (in_terminal_workspace db current gid now handler) =
     (case entered db current gid now of Inl e \<Rightarrow> Inl e | Inr (u, w) \<Rightarrow> handler u w)"
  by (auto simp: entered_def in_terminal_workspace_def as_user_def in_workspace_def split: sum.split option.split prod.split)

lemma entered_admitted:
  assumes "entered db current gid now = Inr (u, w)"
  shows "current = Inr u \<and> folder w = gid \<and> admitted db current gid"
proof -
  obtain v where v: "current = Inr v"
    using assms by (cases current) (simp_all add: entered_def in_terminal_workspace_def as_user_def)
  have role: "require_terminal_role v = None"
    using assms v by (cases "require_terminal_role v") (simp_all add: entered_def in_terminal_workspace_def)
  then have inner: "fst (in_workspace db gid v now (\<lambda>w' db1. (Inr (v, w'), db1))) = Inr (u, w)"
    using assms v by (simp add: entered_def in_terminal_workspace_def)
  show ?thesis
  proof (cases rule: in_workspace_cases [of db gid v now "\<lambda>w' db1. (Inr (v, w'), db1)"])
    case (refused e)
    with inner show ?thesis by simp
  next
    case (inside w')
    with inner have "u = v" "w = w'" by simp_all
    with inside v role show ?thesis
      by (auto simp: admitted_def require_terminal_role_def split: if_splits)
  qed
qed



lemma refused_entry_plain: "\<not> admitted db current gid \<Longrightarrow> \<exists>e. entered db current gid now = Inl e"
  using entered_admitted [of db current gid now] by (cases "entered db current gid now") auto






section \<open>Names of downloads\<close>

lemma filename_char_dash: "filename_char (CHR ''-'')" "filename_char (CHR ''.'')"
  by (simp_all add: filename_char_def)

lemma replace_runs_chars: "c \<in> set (replace_runs b s) \<Longrightarrow> filename_char c"
  by (induction b s rule: replace_runs.induct) (auto simp: filename_char_dash split: if_splits)

lemma strip_dashes_ends:
  "set (strip_dashes s) \<subseteq> set s"
  "strip_dashes s \<noteq> [] \<Longrightarrow> hd (strip_dashes s) \<notin> {CHR ''-'', CHR ''.''} \<and> last (strip_dashes s) \<notin> {CHR ''-'', CHR ''.''}"
proof -
  define dash where "dash = (\<lambda>c. c = CHR ''-'' \<or> c = CHR ''.'')"
  define front where "front = dropWhile dash s"
  define rest where "rest = dropWhile dash (rev front)"
  have strip: "strip_dashes s = rev rest" by (simp add: strip_dashes_def Let_def dash_def front_def rest_def)
  have "set rest \<subseteq> set front" "set front \<subseteq> set s"
    using set_dropWhileD [of _ dash s] set_dropWhileD [of _ dash "rev front"] by (auto simp: front_def rest_def)
  then show "set (strip_dashes s) \<subseteq> set s" unfolding strip by auto
  assume ne: "strip_dashes s \<noteq> []"
  then have "rest \<noteq> []" by (simp add: strip)
  then have "\<not> dash (hd rest)" unfolding rest_def by (rule hd_dropWhile)
  moreover have "\<not> dash (last rest)"
  proof -
    have "last (rev front) = last rest"
      using \<open>rest \<noteq> []\<close> takeWhile_dropWhile_id [of dash "rev front"] last_appendR [of rest "takeWhile dash (rev front)"]
      by (simp add: rest_def)
    moreover have "front \<noteq> []" using \<open>rest \<noteq> []\<close> by (auto simp: rest_def)
    moreover have "\<not> dash (hd front)" using \<open>front \<noteq> []\<close> unfolding front_def by (rule hd_dropWhile)
    ultimately show ?thesis by (simp add: last_rev)
  qed
  ultimately show "hd (strip_dashes s) \<notin> {CHR ''-'', CHR ''.''} \<and> last (strip_dashes s) \<notin> {CHR ''-'', CHR ''.''}"
    using ne by (simp add: strip hd_rev last_rev dash_def)
qed

lemma filename_char_literals:
  "filename_char (CHR ''-'')" "filename_char (CHR ''.'')"
  "list_all filename_char ''terminal-history-''" "list_all filename_char ''terminal-history-export-''"
  "list_all filename_char ''terminal-history-archive-''" "list_all filename_char ''terminal-history-search-''"
  "list_all filename_char ''terminal-history-search-archive-''" "list_all filename_char ''-offset-''"
  "list_all filename_char ''-limit-''" "list_all filename_char ''.json''"
  by (simp_all add: filename_char_def)

lemma sanitized_part:
  "list_all filename_char (sanitize_terminal_filename_part v)"
  "sanitize_terminal_filename_part v \<noteq> []"
  "hd (sanitize_terminal_filename_part v) \<notin> {CHR ''-'', CHR ''.''}"
  "last (sanitize_terminal_filename_part v) \<notin> {CHR ''-'', CHR ''.''}"
  using strip_dashes_ends [of "replace_runs False (py_strip v)"] replace_runs_chars
  by (auto simp: sanitize_terminal_filename_part_def Let_def list_all_iff filename_char_def)

lemma nat_string_chars: "list_all filename_char (nat_string n)"
proof (induction n rule: nat_string.induct)
  case (1 n)
  have digit: "filename_char (char_of (48 + k))" if "k < 10" for k :: nat
    using that by (simp add: filename_char_def)
  have "filename_char (char_of (48 + n mod 10))" by (rule digit) simp
  with 1 digit show ?case by (subst nat_string.simps) auto
qed

lemma int_string_chars: "list_all filename_char (int_string i)"
  by (simp add: int_string_def nat_string_chars filename_char_literals)

text \<open>The name of every download consists of ASCII letters, digits, dots, dashes and underscores only,
whatever the folder, the session id and the query contain, so it cannot end the quoted file name of the
\<open>Content-Disposition\<close> header or name another directory; and the part that stands for the folder or the
session is never empty and neither begins nor ends with a dot or a dash.\<close>

theorem download_names_safe:
  shows "list_all filename_char (build_terminal_history_export_filename gid offset limit) \<and>
    list_all filename_char (build_terminal_history_archive_filename gid) \<and>
    list_all filename_char (build_terminal_history_search_export_filename gid query offset limit) \<and>
    list_all filename_char (build_terminal_history_search_archive_filename gid query) \<and>
    list_all filename_char (build_terminal_history_download_filename gid sid ''log'') \<and>
    list_all filename_char (build_terminal_history_download_filename gid sid ''json'') \<and>
    sanitize_terminal_filename_part gid \<noteq> [] \<and>
    hd (sanitize_terminal_filename_part gid) \<notin> {CHR ''-'', CHR ''.''} \<and>
    last (sanitize_terminal_filename_part gid) \<notin> {CHR ''-'', CHR ''.''}"
proof -
  note parts = int_string_chars sanitized_part(1) filename_char_literals list_all_append
  have "list_all filename_char (build_terminal_history_download_filename gid sid ext)" if "ext \<in> {''log'', ''json''}" for ext
  proof -
    have "list_all filename_char ext" "list_all filename_char ''.''" "list_all filename_char ''-''"
      using that by (auto simp: filename_char_def)
    then show ?thesis unfolding build_terminal_history_download_filename_def by (intro list_all_append [THEN iffD2] conjI parts)
  qed
  then show ?thesis
    unfolding build_terminal_history_export_filename_def build_terminal_history_archive_filename_def
      build_terminal_history_search_export_filename_def build_terminal_history_search_archive_filename_def
    by (intro conjI impI list_all_append [THEN iffD2] parts sanitized_part(2-4))
      (simp_all add: filename_char_dash)
qed

section \<open>The archive of a search\<close>

text \<open>C24: The two requests of a search archive add up: while the histories do not change, the archive of a
query holds every match in the order of the search, and each page of the paginated search is a slice of
it with the same query and total.\<close>

theorem search_archive_complete:
  assumes archive: "fst (archive_terminal_history_search db st disk st disk current gid now now q sort_by flt) = Inr att"
    and page: "fst (search_terminal_history_output db st disk current gid now q limit offset sort_by flt) = Inr (query, page)"
  shows "fst (attachment_content att) = query \<and> fst (snd (attachment_content att)) = page_total page \<and>
    int (length (snd (snd (attachment_content att)))) = page_total page \<and>
    page_items page = py_slice (snd (snd (attachment_content att))) (nat offset) (nat (offset + limit))"
proof -
  let ?search = "\<lambda>ws limit offset. search_service st disk ws now q limit offset sort_by flt"
  from archive obtain u w where e: "entered db (validated (search_params_ok q sort_by) current) gid now = Inr (u, w)"
    and all: "answer (\<lambda>(query, page). \<lparr>attachment_filename =
                build_terminal_history_search_archive_filename (folder w) query,
              attachment_content = (query, page_total page,
                map to_terminal_history_search_match_response (page_items page))\<rparr>)
            (search_everything st disk st disk (folder w) now now q sort_by flt) = Inr att"
    unfolding archive_terminal_history_search_def in_terminal_workspace_entered by (auto split: sum.splits)
  from page obtain u' w' where e': "entered db (validated (query_ok limit offset \<and> search_params_ok q sort_by) current) gid now = Inr (u', w')"
    and one: "answer (map_prod id (map_page to_terminal_history_search_match_response)) (?search (folder w') limit offset) = Inr (query, page)"
    unfolding search_terminal_history_output_def in_terminal_workspace_entered by (auto split: sum.splits)
  have w: "folder w = gid" "folder w' = gid" using entered_admitted [OF e] entered_admitted [OF e'] by simp_all
  from one w obtain p where p: "?search gid limit offset = Inr (query, p)"
    "page = map_page to_terminal_history_search_match_response p"
    by (auto simp: answer_def split: sum.splits)
  then obtain found where found: "p = page_of found limit offset"
    "\<And>l k. 0 < l \<Longrightarrow> 0 \<le> k \<Longrightarrow> ?search gid l k = Inr (query, page_of found l k)"
    unfolding search_service_def search_history_by_group_def check_page_def Let_def
    by (auto split: sum.splits if_splits)
  have "search_everything st disk st disk gid now now q sort_by flt =
      Inr (query, page_of found (max 1 (int (length found))) 0)"
    unfolding search_everything_def using found(2) [of 1 0] found(2) [of "int (length found)" 0]
    by (cases found) (auto simp: page_of_def py_slice_def)
  with all w have "attachment_content att = (query, int (length found),
      map to_terminal_history_search_match_response found)"
    by (cases found) (auto simp: answer_def page_of_def py_slice_def)
  then show ?thesis unfolding p(2) found(1) by (simp add: map_page_def page_of_def py_slice_def take_map drop_map)
qed

definition example_terminals :: workspace_db where
  "example_terminals = snd (create_workspace \<lparr>slots = [], members = [], groups = []\<rparr> ''f'' ''F'' ''u'' 1)"

abbreviation example_operator :: "http_error + auth_user" where
  "example_operator \<equiv> Inr (new_user ''u'' ''ann'' ''owner'')"

lemma example_terminals_groups:
  "groups example_terminals =
     [\<lparr>jid = ''web:f'', group_name = ''F'', folder = ''f'', added_at = 1, container_config = None,
       created_by = Some ''u'', is_home = False, target_workspace_jid = None\<rparr>]"
  by (simp add: example_terminals_def create_workspace_def validate_workspace_folder_def py_startswith_def
      slug_match_def slug_char_def get_group_by_folder_def ensure_registered_group_def get_registered_group_def
      row_get_def row_put_def ensure_main_slot_for_workspace_def ensure_main_slot_def get_slot_def add_member_def
      valid_group_member_roles_def get_member_def member_key_def Let_def)

lemma example_entered: "\<exists>w. entered example_terminals example_operator ''f'' 9 = Inr (new_user ''u'' ''ann'' ''owner'', w) \<and> folder w = ''f''"
  by (simp add: entered_def in_terminal_workspace_def require_terminal_role_def in_workspace_def
      require_accessible_workspace_def get_web_workspace_by_folder_def example_terminals_groups is_web_def py_startswith_def
      user_can_access_group.simps)

lemma search_archive_complete_witness:
  "\<exists>att query page.
     fst (archive_terminal_history_search example_terminals example_history example_history example_history example_history
       example_operator ''f'' 9 9 ''error'' ''newest'' no_filter) = Inr att \<and>
     fst (search_terminal_history_output example_terminals example_history example_history example_operator ''f'' 9
       ''error'' 5 0 ''newest'' no_filter) = Inr (query, page) \<and>
     fst (snd (attachment_content att)) = page_total page"
proof -
  have ok: "search_params_ok ''error'' ''newest''" "query_ok 5 0" by (simp_all add: search_params_ok_def query_ok_def)
  obtain w where w: "entered example_terminals example_operator ''f'' 9 = Inr (new_user ''u'' ''ann'' ''owner'', w)"
    "folder w = ''f''" using example_entered by blast
  have run: "\<exists>r. search_service example_history example_history ''f'' 9 ''error'' l 0 ''newest'' no_filter = Inr r" if "0 < l" for l
    using example_search that
    unfolding search_service_def search_history_by_group_def check_page_def check_snippets_def Let_def
    by (auto split: sum.splits if_splits)
  have "\<exists>r. search_everything example_history example_history example_history example_history ''f'' 9 9 ''error'' ''newest''
      no_filter = Inr r"
  proof -
    obtain query first_page where first: "search_service example_history example_history ''f'' 9 ''error'' 1 0 ''newest'' no_filter
        = Inr (query, first_page)" using run [of 1] by auto
    show ?thesis
    proof (cases "int (length (page_items first_page)) < page_total first_page")
      case True
      then have "0 < page_total first_page" by linarith
      with True first run show ?thesis by (simp add: search_everything_def)
    qed (simp add: search_everything_def first)
  qed
  then obtain att where a: "fst (archive_terminal_history_search example_terminals example_history example_history
      example_history example_history example_operator ''f'' 9 9 ''error'' ''newest'' no_filter) = Inr att"
    using w ok unfolding archive_terminal_history_search_def in_terminal_workspace_entered validated_def answer_def
    by (auto split: prod.split)
  obtain query page where p: "fst (search_terminal_history_output example_terminals example_history example_history
      example_operator ''f'' 9 ''error'' 5 0 ''newest'' no_filter) = Inr (query, page)"
    using w ok run [of 5] unfolding search_terminal_history_output_def in_terminal_workspace_entered validated_def answer_def
    by (auto split: prod.split)
  from search_archive_complete [OF a p] a p show ?thesis by blast
qed

section \<open>The exports over all workspaces\<close>

text \<open>The export of the latest histories ignores who may enter a workspace: an owner or admin gets the
terminal output of every web workspace that has a history, also of one that the routes of that very
workspace answer with an error; the item only says that the chat is not accessible.\<close>

theorem export_ignores_access:
  assumes role: "user_role u \<in> {Some ''owner'', Some ''admin''}"
    and g: "g \<in> set (groups db)" "is_web g" "folder g \<noteq> []"
    and barred: "\<forall>h \<in> set (groups db). is_web h \<and> folder h = folder g \<longrightarrow>
      \<not> user_can_access_group db (user_id u) (user_role u) h"
    and latest: "dict_get (by_folder (group_folder \<circ> snap_record) (list_latest_history_snapshots st now)) (folder g) = Some s"
  shows "\<exists>att. export_terminal_latest_histories db st (Inr u) now = Inr att \<and>
    (\<exists>i \<in> set (attachment_content att). lhi_group_id i = folder g \<and> \<not> lhi_chat_accessible i \<and>
       hdr_output (lhi_history i) = snap_output s) \<and>
    isl (fst (get_current_terminal_session_history db st disk (Inr u) (folder g) now)) \<and>
    isl (fst (get_terminal_history_detail db st disk (Inr u) (folder g) sid now))"
proof -
  let ?items = "latest_history_items (terminal_overview db st u now) (list_latest_history_snapshots st now)"
  have "require_terminal_role u = None" using role by (auto simp: require_terminal_role_def)
  then have export: "export_terminal_latest_histories db st (Inr u) now =
      (if ?items = [] then Inl terminal_not_found
       else Inr \<lparr>attachment_filename = ''terminal-latest-histories.json'', attachment_content = ?items\<rparr>)"
    by (simp add: export_terminal_latest_histories_def list_terminal_overview_def with_terminal_role_def Let_def)
  obtain t where t: "t \<in> set (terminal_overview db st u now)" "tws_group_id t = folder g" "\<not> tws_chat_accessible t"
  proof (rule that)
    let ?item = "\<lambda>g. \<lparr>tws_group_id = folder g, tws_group_name = group_name g,
        tws_chat_accessible = user_can_access_group db (user_id u) (user_role u) g,
        tws_session = map_option to_terminal_session_response (dict_get (by_folder group_folder (list_sessions st)) (folder g)),
        tws_history = map_option to_terminal_history_summary_response
          (dict_get (by_folder (group_folder \<circ> sum_record) (list_history_summaries st now)) (folder g))\<rparr>"
    have "set (terminal_overview db st u now) = ?item ` {g \<in> set (groups db). is_web g \<and> folder g \<noteq> []}"
      by (simp add: terminal_overview_def Let_def list_registered_groups_def conj_commute)
    with g show "?item g \<in> set (terminal_overview db st u now)" by blast
  qed (use g barred in simp_all)
  have "\<exists>i \<in> set ?items. lhi_group_id i = folder g \<and> \<not> lhi_chat_accessible i \<and> hdr_output (lhi_history i) = snap_output s"
  proof (rule bexI)
    let ?i = "\<lparr>lhi_group_id = tws_group_id t, lhi_group_name = tws_group_name t,
        lhi_chat_accessible = tws_chat_accessible t, lhi_history = to_terminal_history_detail_response s\<rparr>"
    show "?i \<in> set ?items"
      unfolding latest_history_items_def Let_def List.map_filter_def using t latest
      by (auto simp: image_iff intro!: bexI [of _ t])
    show "lhi_group_id ?i = folder g \<and> \<not> lhi_chat_accessible ?i \<and> hdr_output (lhi_history ?i) = snap_output s"
      using t by (simp add: to_terminal_history_detail_response_def)
  qed
  moreover have "\<not> admitted db (Inr u) (folder g)" using barred by (auto simp: admitted_def)
  then obtain e where "entered db (Inr u) (folder g) now = Inl e" using refused_entry_plain by blast
  ultimately show ?thesis
    unfolding export get_current_terminal_session_history_def get_terminal_history_detail_def in_terminal_workspace_entered
    by auto
qed

lemma export_ignores_access_witness:
  "\<exists>att. export_terminal_latest_histories example_terminals example_history (Inr (new_user ''v'' ''bob'' ''admin'')) 9 = Inr att"
proof -
  let ?g = "\<lparr>jid = ''web:f'', group_name = ''F'', folder = ''f'', added_at = 1, container_config = None,
       created_by = Some ''u'', is_home = False, target_workspace_jid = None\<rparr>"
  have barred: "\<not> user_can_access_group example_terminals ''v'' (Some ''admin'') ?g"
    by (simp add: user_can_access_group.simps is_web_def py_startswith_def is_member_def)
      (simp add: example_terminals_def create_workspace_def validate_workspace_folder_def py_startswith_def
      slug_match_def slug_char_def get_group_by_folder_def ensure_registered_group_def get_registered_group_def
      row_get_def row_put_def ensure_main_slot_for_workspace_def ensure_main_slot_def get_slot_def add_member_def
      valid_group_member_roles_def get_member_def member_key_def Let_def)
  have web: "is_web ?g" by (simp add: is_web_def py_startswith_def)
  have "\<exists>s. dict_get (by_folder (group_folder \<circ> snap_record) (list_latest_history_snapshots example_history 9)) ''f'' = Some s"
    by (simp add: by_folder_def list_latest_history_snapshots_def example_history_def example_simps merge_latest_def
        bridge_event_locked_def output_event_def schedule_write_def update_managed_def store_managed_def
        build_history_snapshot_def List.map_filter_def)
  then obtain s where s: "dict_get (by_folder (group_folder \<circ> snap_record) (list_latest_history_snapshots example_history 9)) (folder ?g) = Some s"
    by auto
  have "\<exists>att. export_terminal_latest_histories example_terminals example_history (Inr (new_user ''v'' ''bob'' ''admin'')) 9 = Inr att \<and>
      (\<exists>i \<in> set (attachment_content att). lhi_group_id i = folder ?g \<and> \<not> lhi_chat_accessible i \<and>
       hdr_output (lhi_history i) = snap_output s) \<and>
    isl (fst (get_current_terminal_session_history example_terminals example_history example_history
      (Inr (new_user ''v'' ''bob'' ''admin'')) (folder ?g) 9)) \<and>
    isl (fst (get_terminal_history_detail example_terminals example_history example_history
      (Inr (new_user ''v'' ''bob'' ''admin'')) (folder ?g) ''s'' 9))"
    by (rule export_ignores_access [OF _ _ web _ _ s]) (use barred in \<open>simp_all add: example_terminals_groups\<close>)
  then show ?thesis by blast
qed

section \<open>The end of a connection\<close>

text \<open>A disconnect detaches whatever it finds. When a connection ends without the client's request to
close, its session becomes detached with a new deadline, whatever it was: a session whose shell has
exited, or that was closed, counts as live again, so until the deadline its owner's next create request
returns it instead of starting a shell and everybody else's is refused; and if another connection of the
owner is the one attached, that one loses its queue and gets no further event.\<close>

theorem disconnect_detaches_anything:
  assumes "reachable_service st" "lookup_id st sid = Some (r, m)" "owner_user_id (managed_record m) = user_id u"
    and "st' = websocket_end st sid u False now"
  shows "\<exists>m'. lookup_id st' sid = Some (r, m') \<and> status (managed_record m') = Detached \<and>
    reconnect_deadline (managed_record m') = Some (now + reconnect_timeout st) \<and>
    create_begin st' gid (group_folder (managed_record m)) (user_id u) Mode_container uuid later factory =
      (Inr (Existing_session (managed_record m')), st') \<and>
    (owner \<noteq> user_id u \<longrightarrow>
      create_begin st' gid (group_folder (managed_record m)) owner Mode_container uuid later factory =
        (Inl TerminalSessionConflictError, st')) \<and>
    snd (bridge_event_locked st' sid event later) = None"
proof -
  have ok: "index_ok st" using reachable_invariant [OF assms(1)] by (simp add: service_ok_def)
  have at: "dict_get (sessions_by_id st) sid = Some r" "heap st r = Some m" using lookup_idD [OF assms(2)] by blast+
  then have by_group: "dict_get (sessions_by_group st) (group_folder (managed_record m)) = Some r"
    using index_okD(2) [OF ok at(1)] by auto
  have owned: "require_owned st sid (user_id u) = Inr (r, m)"
    using assms(2,3) by (simp add: require_owned_def require_session_def require_owner_def)
  let ?m' = "m\<lparr>output_queue := None, managed_record := (managed_record m)\<lparr>status := Detached,
      reconnect_deadline := Some (now + reconnect_timeout st)\<rparr>, reconnect_task := Some (next_timer st)\<rparr>"
  have st': "heap st' r = Some ?m'" "sessions_by_id st' = sessions_by_id st" "sessions_by_group st' = sessions_by_group st"
    unfolding assms(4) websocket_end_def using at by (simp_all add: detach_session_def owned Let_def)
  have lookup: "lookup_id st' sid = Some (r, ?m')" "lookup_group st' (group_folder (managed_record m)) = Some (r, ?m')"
    using st' at(1) by_group by (simp_all add: lookup_id_def lookup_group_def)
  have "snd (bridge_event_locked st' sid event later) = None"
    using lookup(1) by (simp add: bridge_event_locked_def split: option.split)
  with lookup assms(3) show ?thesis
    by (intro exI [of _ ?m']) (simp add: create_begin_def resolve_backend_def)
qed

lemma disconnect_detaches_anything_witness:
  "\<exists>m'. lookup_id (websocket_end (fst (bridge_event_locked example_service ''s''
       \<lparr>bridge_event_type = ''exit'', bridge_event_data = None, bridge_event_exit_code = Some 0, bridge_event_error = None\<rparr> 8))
     ''s'' (new_user ''u'' ''ann'' ''owner'') False 9) ''s'' = Some (0, m') \<and> status (managed_record m') = Detached"
proof -
  let ?e = "\<lparr>bridge_event_type = ''exit'', bridge_event_data = None, bridge_event_exit_code = Some 0, bridge_event_error = None\<rparr>"
  let ?st = "fst (bridge_event_locked example_service ''s'' ?e 8)"
  have reach: "reachable_service ?st"
    by (rule reachable_service.step [OF example_reachable terminal_step.bridge_event])
  have "\<exists>m. lookup_id ?st ''s'' = Some (0, m) \<and> owner_user_id (managed_record m) = user_id (new_user ''u'' ''ann'' ''owner'')"
    by (simp add: bridge_event_locked_def example_simps schedule_write_def update_managed_def store_managed_def
        cancel_reconnect_task_def set_status_def)
  with disconnect_detaches_anything [OF reach _ _ refl] show ?thesis by blast
qed

end
