(* ===== verification/WorkspaceSessions.thy ===== *)
theory WorkspaceSessions
  imports Prelude
begin

text \<open>
  The session that each workspace continues (\<open>services/workspace_lifecycle.py\<close>): a resumed run
  gets the committed session of its backend, a fresh one or one after an invalidation gets a new id.
  A \<open>uuid4\<close> value is an argument. The store's contract with the execution coordinator is a locale.
\<close>

record workspace_session_state =
  workspace_key :: string
  ws_session_id :: "string option"
  ws_backend :: "string option"
  ever_committed :: bool

type_synonym session_store = "(string, workspace_session_state) dict"

definition build_slot_workspace_key :: "string \<Rightarrow> string \<Rightarrow> string" where
  "build_slot_workspace_key group_folder slot_id = group_folder @ ''#slot:'' @ slot_id"

definition new_state :: "string \<Rightarrow> workspace_session_state" where
  "new_state key = \<lparr>workspace_key = key, ws_session_id = None, ws_backend = None, ever_committed = False\<rparr>"

text \<open>\<open>_default_new_session_id\<close> with the hex digits of its \<open>uuid4\<close>.\<close>

definition default_new_session_id :: "string \<Rightarrow> string \<Rightarrow> string" where
  "default_new_session_id key uuid = key @ '':'' @ take 8 uuid"

definition get_state :: "session_store \<Rightarrow> string \<Rightarrow> workspace_session_state" where
  "get_state st key = (case dict_get st key of None \<Rightarrow> new_state key | Some s \<Rightarrow> s)"

definition preview_session_id ::
  "session_store \<Rightarrow> string \<Rightarrow> string \<Rightarrow> bool \<Rightarrow> string \<Rightarrow> string \<times> session_store" where
  "preview_session_id st key backend_name fresh uuid =
     (let st' = dict_setdefault key (new_state key) st;
          state = get_state st' key
      in (case ws_session_id state of
            Some sid \<Rightarrow>
              if \<not> fresh \<and> ws_backend state = Some backend_name then (sid, st')
              else (default_new_session_id key uuid, st')
          | None \<Rightarrow>
              if \<not> ever_committed state then (key, st')
              else (default_new_session_id key uuid, st')))"

definition commit_success :: "session_store \<Rightarrow> string \<Rightarrow> string \<Rightarrow> string \<Rightarrow> session_store" where
  "commit_success st key backend_name sid =
     (let st' = dict_setdefault key (new_state key) st
      in dict_set key ((get_state st' key)\<lparr>ws_session_id := Some sid, ws_backend := Some backend_name,
           ever_committed := True\<rparr>) st')"

definition invalidate :: "session_store \<Rightarrow> string \<Rightarrow> session_store" where
  "invalidate st key =
     (let st' = dict_setdefault key (new_state key) st
      in dict_set key ((get_state st' key)\<lparr>ws_session_id := None, ws_backend := None,
           ever_committed := True\<rparr>) st')"

section \<open>What the coordinator relies on\<close>

lemma get_state_setdefault [simp]: "get_state (dict_setdefault k (new_state k) st) j = get_state st j"
  by (simp add: get_state_def split: option.splits)

lemma get_state_preview [simp]: "get_state (snd (preview_session_id st k b f u)) j = get_state st j"
  by (simp add: preview_session_id_def Let_def split: option.splits)

lemma get_state_commit:
  "get_state (commit_success st k b sid) j =
     (if j = k then (get_state st k)\<lparr>ws_session_id := Some sid, ws_backend := Some b, ever_committed := True\<rparr>
      else get_state st j)"
  by (simp add: commit_success_def Let_def) (simp add: get_state_def)

lemma get_state_invalidate:
  "get_state (invalidate st k) j =
     (if j = k then (get_state st k)\<lparr>ws_session_id := None, ws_backend := None, ever_committed := True\<rparr>
      else get_state st j)"
  by (simp add: invalidate_def Let_def) (simp add: get_state_def)

lemma fst_preview:
  "fst (preview_session_id st k b f u) =
     (case ws_session_id (get_state st k) of
        Some sid \<Rightarrow> if \<not> f \<and> ws_backend (get_state st k) = Some b then sid else default_new_session_id k u
      | None \<Rightarrow> if \<not> ever_committed (get_state st k) then k else default_new_session_id k u)"
  by (simp add: preview_session_id_def Let_def split: option.splits)

text \<open>
  The contract: looking changes nothing that later looks can see, a commit is what a later resume
  with the same backend gets, and after an invalidation every session is a new one.
\<close>

locale session_memory =
  fixes preview :: "'s \<Rightarrow> string \<Rightarrow> string \<Rightarrow> bool \<Rightarrow> string \<Rightarrow> string \<times> 's"
    and commit :: "'s \<Rightarrow> string \<Rightarrow> string \<Rightarrow> string \<Rightarrow> 's"
    and forget :: "'s \<Rightarrow> string \<Rightarrow> 's"
    and fresh_id :: "string \<Rightarrow> string \<Rightarrow> string"
  assumes preview_preview: "fst (preview (snd (preview st k b f u)) k' b' f' u') = fst (preview st k' b' f' u')"
    and preview_commit: "fst (preview (commit st k b sid) k b' f u) = (if \<not> f \<and> b = b' then sid else fresh_id k u)"
    and preview_forget: "fst (preview (forget st k) k b f u) = fresh_id k u"
    and preview_commit_other: "k' \<noteq> k \<Longrightarrow> fst (preview (commit st k b sid) k' b' f u) = fst (preview st k' b' f u)"
    and preview_forget_other: "k' \<noteq> k \<Longrightarrow> fst (preview (forget st k) k' b' f u) = fst (preview st k' b' f u)"
begin

lemma resume_after_commit: "fst (preview (snd (preview (commit st k b sid) k b f u)) k b False u') = sid"
  by (simp add: preview_preview preview_commit)

lemma fresh_after_forget: "fst (preview (snd (preview (forget st k) k b f u)) k b' f' u') = fresh_id k u'"
  by (simp add: preview_preview preview_forget)

lemma last_commit_wins: "fst (preview (commit (commit st k b sid) k b' sid') k b' False u) = sid'"
  by (simp add: preview_commit)

lemma commit_after_forget: "fst (preview (commit (forget st k) k b sid) k b False u) = sid"
  by (simp add: preview_commit)

end

interpretation sessions: session_memory preview_session_id commit_success invalidate default_new_session_id
  by unfold_locales
    (simp_all add: fst_preview get_state_commit get_state_invalidate split: option.split)

text \<open>A workspace resumes what it last committed: after a commit, a later run of the same
backend that does not ask for a fresh session gets the committed id, whatever was looked up in
between; a run of another backend, or one that asks for a fresh session, gets a new id; and after an
invalidation every run gets a new id, the workspace's own key included never again.\<close>

theorem session_resume_contract:
  "fst (preview_session_id (snd (preview_session_id (commit_success st k b sid) k' b2 f2 u2)) k b False u) = sid \<and>
   (b' \<noteq> b \<or> f \<longrightarrow>
     fst (preview_session_id (commit_success st k b sid) k b' f u) = default_new_session_id k u) \<and>
   fst (preview_session_id (snd (preview_session_id (invalidate st k) k' b2 f2 u2)) k b' f u) = default_new_session_id k u \<and>
   default_new_session_id k u \<noteq> k"
  by (auto simp: sessions.preview_preview sessions.preview_commit sessions.preview_forget
      default_new_session_id_def)

lemma session_resume_contract_witness:
  "fst (preview_session_id (commit_success [] ''ws'' ''openai_runtime'' ''s1'') ''ws'' ''host_process'' False ''0123456789'')
     = ''ws:01234567''"
  using session_resume_contract [of "[]" "''ws''" "''openai_runtime''" "''s1''" "''ws''" "''x''" False "''u''"
      "''0123456789''" "''host_process''" False]
  by (simp add: default_new_session_id_def)

text \<open>The key of a workspace determines its folder and slot when folders have no \<open>#\<close>.\<close>

lemma workspace_key_inj:
  assumes "CHR ''#'' \<notin> set g" "CHR ''#'' \<notin> set g'"
    and "build_slot_workspace_key g s = build_slot_workspace_key g' s'"
  shows "g = g' \<and> s = s'"
proof -
  have *: "takeWhile (\<lambda>c. c \<noteq> CHR ''#'') (build_slot_workspace_key h s) = h" if "CHR ''#'' \<notin> set h" for h s
    using that by (subst build_slot_workspace_key_def, subst takeWhile_append2) auto
  with assms have "g = g'" by metis
  with assms(3) show ?thesis by (simp add: build_slot_workspace_key_def)
qed

end
