(* ===== verification/ExecutionCoordinator.thy ===== *)
theory ExecutionCoordinator
  imports WorkspaceSessions
begin

text \<open>
  The coordinator that runs one execution at a time per group (\<open>services/execution_coordinator.py\<close>)
  with the default policy (\<open>services/execution_policy.py\<close>).

  Tasks and futures are objects: a group has a worker task, a run has a future and, while it runs,
  an execution task of its own. All code runs on one event loop, so each definition is what one
  task does between two awaits. A backend is opaque: what \<open>backend.execute\<close> answers is the
  argument of \<open>backend_answers\<close>. The clock is an argument of each step; \<open>uuid4\<close> values come from
  \<open>uuid_at\<close>. Ghost fields record what leaves the coordinator: the results handed to the futures and
  the cancel calls on backends.
\<close>

section \<open>Data\<close>

datatype execution_status = Queued | Running | Completed | Failed | Cancelled | Timeout

record execution_request =
  req_group_folder :: string
  req_chat_jid :: string
  req_user_id :: string
  req_prompt :: string
  req_source :: string
  req_slot_id :: string
  requested_mode :: "string option"
  req_timeout_ms :: "int option"
  fresh_session :: bool
  request_id :: "string option"

record execution_result =
  res_run_id :: string
  res_status :: execution_status
  res_group_folder :: string
  res_backend :: string
  res_session_id :: string
  res_slot_id :: string
  res_final_output :: "string option"
  res_error :: "string option"
  res_timeout_ms :: "int option"

record execution_run_snapshot =
  run_id :: string
  run_group_folder :: string
  run_chat_jid :: string
  run_user_id :: string
  run_source :: string
  run_requested_mode :: "string option"
  run_status :: execution_status
  run_slot_id :: string
  run_backend :: "string option"
  run_session_id :: "string option"
  run_created_at :: instant
  run_started_at :: "instant option"
  run_finished_at :: "instant option"
  run_final_output :: "string option"
  run_error :: "string option"
  run_timeout_ms :: "int option"
  recovery_attempted :: bool
  recovery_reason :: "string option"
  recovery_succeeded :: "bool option"

record monitor_group =
  queued_runs :: int
  running_runs :: int
  active_run_id :: "string option"
  active_backend :: "string option"

text \<open>A future in \<open>_run_futures\<close>: it is popped before its result is set, so it is never done there.\<close>

datatype run_future = Pending | Future_cancelled

text \<open>What \<open>backend.execute\<close> does: a dictionary, a result object, or an exception.\<close>

record raw_result =
  raw_status :: "execution_status option"
  raw_final_output :: "string option"
  raw_error :: "string option"
  raw_timeout_ms :: "int option"

datatype backend_answer =
    Raw_result raw_result
  | Direct_result execution_result
  | Runtime_error string
  | Session_resume_failed string
  | Other_error string
  | Timed_out
  | Cancelled_error

datatype attempt = First_attempt | Retry_attempt

record execution_task =
  task_run :: string
  task_request :: execution_request
  task_backend :: string
  task_key :: string
  task_session :: string
  task_attempt :: attempt

text \<open>How an execution task that is done ended.\<close>

datatype task_outcome = Returned execution_result | Task_cancelled

text \<open>A worker task that is not done is about to run its loop, or awaits an execution task.\<close>

datatype worker = Ready string | Awaiting string string nat

record coordinator =
  execution_policy :: "execution_request \<Rightarrow> string + string"
  backend_names :: "string list"
  max_completed_runs :: int
  session_states :: session_store
  group_queues :: "(string, (string \<times> execution_request) list) dict"
  group_workers :: "(string, nat) dict"
  worker_tasks :: "nat \<rightharpoonup> worker"
  next_worker :: nat
  run_futures :: "(string, run_future) dict"
  run_requests :: "(string, execution_request) dict"
  statuses :: "(string, execution_status) dict"
  running_backends :: "(string, string) dict"
  running_tasks :: "(string, nat) dict"
  run_session_ids :: "(string, string) dict"
  cancelled_run_ids :: "string set"
  completed_results :: "(string, execution_result) dict"
  completed_order :: "string list"
  run_snapshots :: "(string, execution_run_snapshot) dict"
  execution_tasks :: "nat \<rightharpoonup> execution_task + task_outcome"
  next_execution :: nat
  uuid_at :: "nat \<Rightarrow> string"
  next_uuid :: nat
  delivered :: "(string \<times> execution_result) list"
  backend_cancels :: "string list"

definition initial_coordinator ::
  "(execution_request \<Rightarrow> string + string) \<Rightarrow> string list \<Rightarrow> int \<Rightarrow> (nat \<Rightarrow> string) \<Rightarrow> coordinator" where
  "initial_coordinator policy names max_runs uuids =
     \<lparr>execution_policy = policy, backend_names = names, max_completed_runs = max_runs,
      session_states = [], group_queues = [], group_workers = [], worker_tasks = Map.empty,
      next_worker = 0, run_futures = [], run_requests = [], statuses = [], running_backends = [],
      running_tasks = [], run_session_ids = [], cancelled_run_ids = {}, completed_results = [],
      completed_order = [], run_snapshots = [], execution_tasks = Map.empty, next_execution = 0,
      uuid_at = uuids, next_uuid = 0, delivered = [], backend_cancels = []\<rparr>"

section \<open>Backend selection and sessions\<close>

definition mode_to_backend :: "(string, string) dict" where
  "mode_to_backend =
     [(''openai'', ''openai_runtime''), (''host'', ''host_process''), (''container'', ''docker_container'')]"

definition select_backend :: "execution_request \<Rightarrow> string + string" where
  "select_backend request =
     (case requested_mode request of
        None \<Rightarrow> Inr ''openai_runtime''
      | Some mode \<Rightarrow>
          (case dict_get mode_to_backend mode of
             None \<Rightarrow> Inl (''unsupported execution mode: '' @ mode)
           | Some backend_name \<Rightarrow> Inr backend_name))"

definition safe_select_backend_name :: "coordinator \<Rightarrow> execution_request \<Rightarrow> string" where
  "safe_select_backend_name st request =
     (case execution_policy st request of Inl _ \<Rightarrow> ''unknown'' | Inr backend_name \<Rightarrow> backend_name)"

definition request_workspace_key :: "execution_request \<Rightarrow> string" where
  "request_workspace_key request = build_slot_workspace_key (req_group_folder request) (req_slot_id request)"

definition uses_workspace_session :: "string \<Rightarrow> bool" where
  "uses_workspace_session backend_name \<longleftrightarrow> backend_name = ''openai_runtime''"

text \<open>The session id and the state after the call, which has taken one \<open>uuid4\<close> value.\<close>

definition resolve_session_id ::
  "coordinator \<Rightarrow> execution_request \<Rightarrow> string \<Rightarrow> bool option \<Rightarrow> string \<times> coordinator" where
  "resolve_session_id st request backend_name fresh =
     (let key = request_workspace_key request;
          effective_fresh = (case fresh of None \<Rightarrow> fresh_session request | Some b \<Rightarrow> b);
          uuid = uuid_at st (next_uuid st);
          st1 = st\<lparr>next_uuid := Suc (next_uuid st)\<rparr>
      in if uses_workspace_session backend_name then
           (case preview_session_id (session_states st) key backend_name effective_fresh uuid of
              (sid, states) \<Rightarrow> (sid, st1\<lparr>session_states := states\<rparr>))
         else if effective_fresh then (key @ '':'' @ take 8 uuid, st1)
         else (key, st1))"

definition should_retry_session_resume :: "string \<Rightarrow> execution_request \<Rightarrow> backend_answer \<Rightarrow> bool" where
  "should_retry_session_resume backend_name request error =
     (if fresh_session request \<or> \<not> uses_workspace_session backend_name then False
      else (case error of Session_resume_failed _ \<Rightarrow> True | _ \<Rightarrow> False))"

section \<open>Snapshots and terminal results\<close>

definition build_result ::
  "string \<Rightarrow> execution_request \<Rightarrow> string \<Rightarrow> string \<Rightarrow> execution_status \<Rightarrow> string option \<Rightarrow> execution_result" where
  "build_result run request backend_name sid st error =
     \<lparr>res_run_id = run, res_status = st, res_group_folder = req_group_folder request,
      res_backend = backend_name, res_session_id = sid, res_slot_id = req_slot_id request,
      res_final_output = None, res_error = error, res_timeout_ms = None\<rparr>"

definition update_snapshot ::
  "string \<Rightarrow> (execution_run_snapshot \<Rightarrow> execution_run_snapshot) \<Rightarrow> coordinator \<Rightarrow> coordinator" where
  "update_snapshot run f st =
     (case dict_get (run_snapshots st) run of
        None \<Rightarrow> st
      | Some s \<Rightarrow> st\<lparr>run_snapshots := dict_set run (f s) (run_snapshots st)\<rparr>)"

definition mark_running :: "string \<Rightarrow> string \<Rightarrow> string \<Rightarrow> instant \<Rightarrow> coordinator \<Rightarrow> coordinator" where
  "mark_running run backend_name sid now =
     update_snapshot run (\<lambda>s. s\<lparr>run_status := Running, run_backend := Some backend_name,
       run_session_id := Some sid, run_started_at := Some now\<rparr>)"

definition mark_recovery_attempt :: "string \<Rightarrow> string \<Rightarrow> coordinator \<Rightarrow> coordinator" where
  "mark_recovery_attempt run reason =
     update_snapshot run (\<lambda>s. s\<lparr>recovery_attempted := True, recovery_reason := Some reason,
       recovery_succeeded := None\<rparr>)"

definition mark_recovery_result :: "string \<Rightarrow> bool \<Rightarrow> coordinator \<Rightarrow> coordinator" where
  "mark_recovery_result run succeeded =
     update_snapshot run (\<lambda>s. s\<lparr>recovery_succeeded := Some succeeded\<rparr>)"

definition mark_terminal :: "execution_result \<Rightarrow> instant \<Rightarrow> coordinator \<Rightarrow> coordinator" where
  "mark_terminal result now =
     update_snapshot (res_run_id result) (\<lambda>s. s\<lparr>run_status := res_status result,
       run_backend := Some (res_backend result), run_session_id := Some (res_session_id result),
       run_slot_id := res_slot_id result, run_final_output := res_final_output result,
       run_error := res_error result, run_timeout_ms := res_timeout_ms result,
       run_finished_at := Some now\<rparr>)"

text \<open>The loop of \<open>_store_terminal_result\<close> over \<open>_completed_order\<close>.\<close>

fun evict_stale :: "string list \<Rightarrow> coordinator \<Rightarrow> coordinator" where
  "evict_stale [] st = st\<lparr>completed_order := []\<rparr>"
| "evict_stale (stale # order) st =
     (if int (length (stale # order)) > max_completed_runs st
      then evict_stale order
             (st\<lparr>completed_results := dict_pop stale (completed_results st),
                 statuses := dict_pop stale (statuses st),
                 run_snapshots := dict_pop stale (run_snapshots st)\<rparr>)
      else st\<lparr>completed_order := stale # order\<rparr>)"

definition resolve_future :: "execution_result \<Rightarrow> coordinator \<Rightarrow> coordinator" where
  "resolve_future result st =
     (let run = res_run_id result;
          st1 = st\<lparr>run_futures := dict_pop run (run_futures st)\<rparr>
      in if dict_get (run_futures st) run = Some Pending
         then st1\<lparr>delivered := delivered st1 @ [(run, result)]\<rparr> else st1)"

definition store_terminal_result :: "execution_result \<Rightarrow> instant \<Rightarrow> coordinator \<Rightarrow> coordinator" where
  "store_terminal_result result now st =
     (let run = res_run_id result;
          st1 = st\<lparr>statuses := dict_set run (res_status result) (statuses st),
                   completed_results := dict_set run result (completed_results st),
                   completed_order := completed_order st @ [run]\<rparr>;
          st2 = mark_terminal result now st1;
          st3 = evict_stale (completed_order st2) st2;
          st4 = resolve_future result st3
      in st4\<lparr>run_requests := dict_pop run (run_requests st4)\<rparr>)"

section \<open>Submitting\<close>

definition ensure_worker :: "string \<Rightarrow> coordinator \<Rightarrow> coordinator" where
  "ensure_worker folder st =
     (let start = st\<lparr>group_workers := dict_set folder (next_worker st) (group_workers st),
                    worker_tasks := (worker_tasks st)(next_worker st \<mapsto> Ready folder),
                    next_worker := Suc (next_worker st)\<rparr>
      in (case dict_get (group_workers st) folder of
            None \<Rightarrow> start
          | Some w \<Rightarrow> if worker_tasks st w = None then start else st))"

definition submit_run_id :: "coordinator \<Rightarrow> execution_request \<Rightarrow> string" where
  "submit_run_id st request =
     (case request_id request of
        Some (c # cs) \<Rightarrow> c # cs
      | _ \<Rightarrow> uuid_at st (next_uuid st))"

definition submit_execution :: "coordinator \<Rightarrow> execution_request \<Rightarrow> instant \<Rightarrow> string \<times> coordinator" where
  "submit_execution st request now =
     (let run = submit_run_id st request;
          folder = req_group_folder request;
          snapshot =
            \<lparr>run_id = run, run_group_folder = folder, run_chat_jid = req_chat_jid request,
             run_user_id = req_user_id request, run_source = req_source request,
             run_requested_mode = requested_mode request, run_status = Queued,
             run_slot_id = req_slot_id request, run_backend = None, run_session_id = None,
             run_created_at = now, run_started_at = None, run_finished_at = None,
             run_final_output = None, run_error = None, run_timeout_ms = None,
             recovery_attempted = False, recovery_reason = None, recovery_succeeded = None\<rparr>;
          queue = (case dict_get (group_queues st) folder of None \<Rightarrow> [] | Some q \<Rightarrow> q);
          st1 = st\<lparr>next_uuid := Suc (next_uuid st),
                   run_futures := dict_set run Pending (run_futures st),
                   run_requests := dict_set run request (run_requests st),
                   statuses := dict_set run Queued (statuses st),
                   run_snapshots := dict_set run snapshot (run_snapshots st),
                   group_queues := dict_set folder (queue @ [(run, request)]) (group_queues st)\<rparr>
      in (run, ensure_worker folder st1))"

section \<open>The worker of a group\<close>

text \<open>
  \<open>_execute_request\<close> up to its await: either the run is settled at once (\<open>None\<close>), or an execution
  task is created and awaited. The result for an unknown backend does not pass the slot, so it has
  the default one.
\<close>

definition execute_request ::
  "string \<Rightarrow> execution_request \<Rightarrow> instant \<Rightarrow> coordinator \<Rightarrow> nat option \<times> coordinator" where
  "execute_request run request now st =
     (case execution_policy st request of
        Inl e \<Rightarrow>
          (case resolve_session_id st request ''unknown'' None of
             (sid, st1) \<Rightarrow>
               (None, store_terminal_result (build_result run request ''unknown'' sid Failed (Some e)) now st1))
      | Inr backend_name \<Rightarrow>
          if backend_name \<notin> set (backend_names st) then
            (case resolve_session_id st request backend_name None of
               (sid, st1) \<Rightarrow>
                 (None, store_terminal_result
                    ((build_result run request backend_name sid Failed
                        (Some (''unknown execution backend: '' @ backend_name)))\<lparr>res_slot_id := ''main''\<rparr>)
                    now st1))
          else
            (case resolve_session_id st request backend_name None of
               (sid, st1) \<Rightarrow>
                 let st2 = st1\<lparr>run_session_ids := dict_set run sid (run_session_ids st1),
                               statuses := dict_set run Running (statuses st1)\<rparr>;
                     st3 = mark_running run backend_name sid now st2;
                     t = next_execution st3;
                     task = \<lparr>task_run = run, task_request = request, task_backend = backend_name,
                             task_key = request_workspace_key request, task_session = sid,
                             task_attempt = First_attempt\<rparr>
                 in (Some t, st3\<lparr>running_backends := dict_set run backend_name (running_backends st3),
                                 execution_tasks := (execution_tasks st3)(t \<mapsto> Inl task),
                                 next_execution := Suc t,
                                 running_tasks := dict_set run t (running_tasks st3)\<rparr>)))"

text \<open>
  The loop of \<open>_run_group_queue\<close> from a loop head to the next await or the end, over the group's
  queue: entries whose future is gone or done are skipped.
\<close>

fun serve_queue ::
  "nat \<Rightarrow> string \<Rightarrow> instant \<Rightarrow> (string \<times> execution_request) list \<Rightarrow> coordinator \<Rightarrow> coordinator" where
  "serve_queue w folder now [] st =
     st\<lparr>group_workers := dict_pop folder (group_workers st), worker_tasks := (worker_tasks st)(w := None)\<rparr>"
| "serve_queue w folder now ((run, request) # queue) st =
     (let st1 = st\<lparr>group_queues := dict_set folder queue (group_queues st)\<rparr> in
      if dict_get (run_futures st1) run \<noteq> Some Pending then serve_queue w folder now queue st1
      else
        (case execute_request run request now st1 of
           (None, st2) \<Rightarrow> serve_queue w folder now queue st2
         | (Some t, st2) \<Rightarrow> st2\<lparr>worker_tasks := (worker_tasks st2)(w \<mapsto> Awaiting folder run t)\<rparr>))"

definition group_queue :: "coordinator \<Rightarrow> string \<Rightarrow> (string \<times> execution_request) list" where
  "group_queue st folder = (case dict_get (group_queues st) folder of None \<Rightarrow> [] | Some q \<Rightarrow> q)"

definition worker_starts :: "coordinator \<Rightarrow> nat \<Rightarrow> instant \<Rightarrow> coordinator" where
  "worker_starts st w now =
     (case worker_tasks st w of
        Some (Ready folder) \<Rightarrow> serve_queue w folder now (group_queue st folder) st
      | _ \<Rightarrow> st)"

section \<open>The execution task\<close>

text \<open>
  What \<open>_run_backend_with_timeout\<close> makes of an answer: a result and whether a cancel of the backend
  is started, or the \<open>RuntimeError\<close> it lets through, or the cancellation.
\<close>

datatype run_outcome = Run_result execution_result bool | Run_error string | Run_cancelled

definition run_backend_with_timeout ::
  "string \<Rightarrow> execution_request \<Rightarrow> string \<Rightarrow> string \<Rightarrow> backend_answer \<Rightarrow> run_outcome" where
  "run_backend_with_timeout run request backend_name sid answer =
     (case answer of
        Timed_out \<Rightarrow>
          Run_result ((build_result run request backend_name sid Timeout None)
            \<lparr>res_timeout_ms := req_timeout_ms request\<rparr>) True
      | Runtime_error e \<Rightarrow> Run_error e
      | Session_resume_failed e \<Rightarrow> Run_error e
      | Other_error e \<Rightarrow> Run_result (build_result run request backend_name sid Failed (Some e)) False
      | Direct_result result \<Rightarrow> Run_result result False
      | Raw_result raw \<Rightarrow>
          Run_result ((build_result run request backend_name sid
              (case raw_status raw of None \<Rightarrow> Completed | Some s \<Rightarrow> s) (raw_error raw))
            \<lparr>res_final_output := raw_final_output raw, res_timeout_ms := raw_timeout_ms raw\<rparr>) False
      | Cancelled_error \<Rightarrow> Run_cancelled)"

definition finish_task :: "nat \<Rightarrow> task_outcome \<Rightarrow> coordinator \<Rightarrow> coordinator" where
  "finish_task t outcome st = st\<lparr>execution_tasks := (execution_tasks st)(t \<mapsto> Inr outcome)\<rparr>"

definition note_backend_cancel :: "bool \<Rightarrow> string \<Rightarrow> coordinator \<Rightarrow> coordinator" where
  "note_backend_cancel started run st =
     (if started then st\<lparr>backend_cancels := backend_cancels st @ [run]\<rparr> else st)"

text \<open>A completed run of a backend with sessions commits its session.\<close>

definition finish_with_result :: "nat \<Rightarrow> execution_task \<Rightarrow> execution_result \<Rightarrow> coordinator \<Rightarrow> coordinator" where
  "finish_with_result t task result st =
     finish_task t (Returned result)
       (if uses_workspace_session (task_backend task) \<and> res_status result = Completed
        then st\<lparr>session_states := commit_success (session_states st) (task_key task) (task_backend task)
                  (res_session_id result)\<rparr>
        else st)"

text \<open>\<open>_execute_backend_with_lifecycle\<close> when the backend answers the current attempt.\<close>

definition backend_answers :: "coordinator \<Rightarrow> nat \<Rightarrow> backend_answer \<Rightarrow> coordinator" where
  "backend_answers st t answer =
     (case execution_tasks st t of
        Some (Inl task) \<Rightarrow>
          let run = task_run task; request = task_request task; backend_name = task_backend task in
          (case run_backend_with_timeout run request backend_name (task_session task) answer of
             Run_cancelled \<Rightarrow> finish_task t Task_cancelled st
           | Run_result result cancel_started \<Rightarrow>
               finish_with_result t task result
                 (note_backend_cancel cancel_started run
                   (if task_attempt task = Retry_attempt then mark_recovery_result run True st else st))
           | Run_error e \<Rightarrow>
               (case task_attempt task of
                  First_attempt \<Rightarrow>
                    if should_retry_session_resume backend_name request answer then
                      let st1 = mark_recovery_attempt run e st;
                          st2 = st1\<lparr>session_states := invalidate (session_states st1) (task_key task)\<rparr>
                      in (case resolve_session_id st2 request backend_name (Some True) of
                            (retry_session_id, st3) \<Rightarrow>
                              st3\<lparr>run_session_ids := dict_set run retry_session_id (run_session_ids st3),
                                  execution_tasks := (execution_tasks st3)
                                    (t \<mapsto> Inl (task\<lparr>task_session := retry_session_id,
                                                  task_attempt := Retry_attempt\<rparr>))\<rparr>)
                    else finish_task t (Returned (build_result run request backend_name (task_session task)
                           Failed (Some e))) st
                | Retry_attempt \<Rightarrow>
                    finish_task t (Returned (build_result run request backend_name (task_session task)
                      Failed (Some e))) (mark_recovery_result run False st)))
      | _ \<Rightarrow> st)"

section \<open>The worker goes on\<close>

text \<open>
  The \<open>finally\<close> block, and what follows the await in \<open>_execute_request\<close> and \<open>_run_group_queue\<close>. A
  cancellation that is not one of \<open>cancel\<close> ends the worker task.
\<close>

definition forget_running :: "string \<Rightarrow> coordinator \<Rightarrow> coordinator" where
  "forget_running run st =
     st\<lparr>running_backends := dict_pop run (running_backends st),
        running_tasks := dict_pop run (running_tasks st),
        run_session_ids := dict_pop run (run_session_ids st)\<rparr>"

definition worker_wakes :: "coordinator \<Rightarrow> nat \<Rightarrow> instant \<Rightarrow> coordinator" where
  "worker_wakes st w now =
     (case worker_tasks st w of
        Some (Awaiting folder run t) \<Rightarrow>
          (case execution_tasks st t of
             Some (Inr outcome) \<Rightarrow>
               let st1 = forget_running run (st\<lparr>worker_tasks := (worker_tasks st)(w \<mapsto> Ready folder)\<rparr>);
                   discard = st1\<lparr>cancelled_run_ids := cancelled_run_ids st1 - {run}\<rparr>;
                   continue = (\<lambda>s. serve_queue w folder now (group_queue s folder) s)
               in (case outcome of
                     Task_cancelled \<Rightarrow>
                       if run \<in> cancelled_run_ids st1 then continue discard
                       else st1\<lparr>worker_tasks := (worker_tasks st1)(w := None)\<rparr>
                   | Returned result \<Rightarrow>
                       if run \<in> cancelled_run_ids st1 then continue discard
                       else continue (store_terminal_result result now st1))
           | _ \<Rightarrow> st)
      | _ \<Rightarrow> st)"

section \<open>Cancelling and waiting\<close>

text \<open>
  Where \<open>self._run_requests[run_id]\<close> would raise, for a queued or running run without a request, the
  model answers \<open>False\<close>; no reachable state has such a run (lemma \<open>active_run\<close>).
\<close>

definition cancel :: "coordinator \<Rightarrow> string \<Rightarrow> instant \<Rightarrow> bool \<times> coordinator" where
  "cancel st run now =
     (case dict_get (statuses st) run of
        None \<Rightarrow> (False, st)
      | Some s \<Rightarrow>
          (case dict_get (run_requests st) run of
             None \<Rightarrow> (False, st)
           | Some request \<Rightarrow>
               let backend_name = safe_select_backend_name st request in
               (case resolve_session_id st request backend_name None of
                  (peeked, st1) \<Rightarrow>
                    if s = Queued then
                      (True, store_terminal_result (build_result run request backend_name peeked Cancelled None) now st1)
                    else if s = Running then
                      let sid = (case dict_get (run_session_ids st1) run of None \<Rightarrow> peeked | Some x \<Rightarrow> x) in
                      (case dict_get (running_backends st1) run of
                         None \<Rightarrow> (False, st1)
                       | Some _ \<Rightarrow>
                           let st2 = st1\<lparr>cancelled_run_ids := insert run (cancelled_run_ids st1),
                                         statuses := dict_set run Cancelled (statuses st1)\<rparr>;
                               st3 = store_terminal_result
                                       (build_result run request backend_name sid Cancelled None) now st2
                           in (True, note_backend_cancel True run st3))
                    else (False, st))))"

text \<open>
  \<open>wait_for_run\<close>: the result at once, or the run's future to await, or a \<open>KeyError\<close>. Cancelling a
  task that awaits the future cancels the future itself.
\<close>

definition wait_for_run :: "coordinator \<Rightarrow> string \<Rightarrow> execution_result option + run_future" where
  "wait_for_run st run =
     (case dict_get (completed_results st) run of
        Some result \<Rightarrow> Inl (Some result)
      | None \<Rightarrow>
          (case dict_get (run_futures st) run of
             Some future \<Rightarrow> Inr future
           | None \<Rightarrow> Inl None))"

definition waiter_cancelled :: "coordinator \<Rightarrow> string \<Rightarrow> coordinator" where
  "waiter_cancelled st run =
     (if dict_get (run_futures st) run = Some Pending
      then st\<lparr>run_futures := dict_set run Future_cancelled (run_futures st)\<rparr> else st)"

section \<open>Queries\<close>

definition get_status :: "coordinator \<Rightarrow> string \<Rightarrow> execution_status option" where
  "get_status st run = dict_get (statuses st) run"

definition get_run_snapshot :: "coordinator \<Rightarrow> string \<Rightarrow> execution_run_snapshot option" where
  "get_run_snapshot st run = dict_get (run_snapshots st) run"

definition list_run_snapshots :: "coordinator \<Rightarrow> nat \<Rightarrow> execution_run_snapshot list" where
  "list_run_snapshots st limit =
     take limit (rev (sort_key run_created_at (rev (map snd (run_snapshots st)))))"

definition list_backend_names :: "coordinator \<Rightarrow> string list" where
  "list_backend_names st = sort (backend_names st)"

definition monitor_step ::
  "coordinator \<Rightarrow> string \<times> execution_request \<Rightarrow> (string, monitor_group) dict \<Rightarrow> (string, monitor_group) dict" where
  "monitor_step st entry groups =
     (case entry of (run, request) \<Rightarrow>
        (case dict_get (statuses st) run of
           None \<Rightarrow> groups
         | Some s \<Rightarrow>
             if s \<notin> {Queued, Running} then groups
             else
               let folder = req_group_folder request;
                   groups1 = dict_setdefault folder
                     \<lparr>queued_runs = 0, running_runs = 0, active_run_id = None, active_backend = None\<rparr> groups;
                   current = the (dict_get groups1 folder)
               in if s = Queued
                  then dict_set folder (current\<lparr>queued_runs := queued_runs current + 1\<rparr>) groups1
                  else dict_set folder
                         (current\<lparr>running_runs := running_runs current + 1, active_run_id := Some run,
                            active_backend := Option.bind (dict_get (run_snapshots st) run) run_backend\<rparr>)
                         groups1))"

definition get_monitor_queue_snapshot :: "coordinator \<Rightarrow> (string \<times> monitor_group) list" where
  "get_monitor_queue_snapshot st = sort_key fst (fold (monitor_step st) (run_requests st) [])"

end
