(* ===== verification/CoordinatorInvariant.thy ===== *)
theory CoordinatorInvariant
  imports ExecutionCoordinator
begin

text \<open>
  The invariant of the execution coordinator and that every step keeps it. It says that a group has
  at most one live worker, which awaits at most one execution; that every run that has a future is
  queued in its group or executed by its group's worker; that the completed runs are distinct and
  bounded and are never executed again; and that a cancelled run has no future any more.
\<close>

section \<open>Effects of the helpers\<close>

lemma update_snapshot_sel [simp]:
  "execution_policy (update_snapshot run f st) = execution_policy st"
  "backend_names (update_snapshot run f st) = backend_names st"
  "max_completed_runs (update_snapshot run f st) = max_completed_runs st"
  "session_states (update_snapshot run f st) = session_states st"
  "group_queues (update_snapshot run f st) = group_queues st"
  "group_workers (update_snapshot run f st) = group_workers st"
  "worker_tasks (update_snapshot run f st) = worker_tasks st"
  "next_worker (update_snapshot run f st) = next_worker st"
  "run_futures (update_snapshot run f st) = run_futures st"
  "run_requests (update_snapshot run f st) = run_requests st"
  "statuses (update_snapshot run f st) = statuses st"
  "running_backends (update_snapshot run f st) = running_backends st"
  "running_tasks (update_snapshot run f st) = running_tasks st"
  "run_session_ids (update_snapshot run f st) = run_session_ids st"
  "cancelled_run_ids (update_snapshot run f st) = cancelled_run_ids st"
  "completed_results (update_snapshot run f st) = completed_results st"
  "completed_order (update_snapshot run f st) = completed_order st"
  "execution_tasks (update_snapshot run f st) = execution_tasks st"
  "next_execution (update_snapshot run f st) = next_execution st"
  "uuid_at (update_snapshot run f st) = uuid_at st"
  "next_uuid (update_snapshot run f st) = next_uuid st"
  "delivered (update_snapshot run f st) = delivered st"
  "backend_cancels (update_snapshot run f st) = backend_cancels st"
  by (simp_all add: update_snapshot_def split: option.splits)

lemma mark_running_sel [simp]:
  "execution_policy (mark_running run b sid now st) = execution_policy st"
  "backend_names (mark_running run b sid now st) = backend_names st"
  "max_completed_runs (mark_running run b sid now st) = max_completed_runs st"
  "session_states (mark_running run b sid now st) = session_states st"
  "group_queues (mark_running run b sid now st) = group_queues st"
  "group_workers (mark_running run b sid now st) = group_workers st"
  "worker_tasks (mark_running run b sid now st) = worker_tasks st"
  "next_worker (mark_running run b sid now st) = next_worker st"
  "run_futures (mark_running run b sid now st) = run_futures st"
  "run_requests (mark_running run b sid now st) = run_requests st"
  "statuses (mark_running run b sid now st) = statuses st"
  "running_backends (mark_running run b sid now st) = running_backends st"
  "running_tasks (mark_running run b sid now st) = running_tasks st"
  "run_session_ids (mark_running run b sid now st) = run_session_ids st"
  "cancelled_run_ids (mark_running run b sid now st) = cancelled_run_ids st"
  "completed_results (mark_running run b sid now st) = completed_results st"
  "completed_order (mark_running run b sid now st) = completed_order st"
  "execution_tasks (mark_running run b sid now st) = execution_tasks st"
  "next_execution (mark_running run b sid now st) = next_execution st"
  "uuid_at (mark_running run b sid now st) = uuid_at st"
  "next_uuid (mark_running run b sid now st) = next_uuid st"
  "delivered (mark_running run b sid now st) = delivered st"
  "backend_cancels (mark_running run b sid now st) = backend_cancels st"
  by (simp_all add: mark_running_def)

lemma mark_recovery_attempt_sel [simp]:
  "execution_policy (mark_recovery_attempt run reason st) = execution_policy st"
  "backend_names (mark_recovery_attempt run reason st) = backend_names st"
  "max_completed_runs (mark_recovery_attempt run reason st) = max_completed_runs st"
  "session_states (mark_recovery_attempt run reason st) = session_states st"
  "group_queues (mark_recovery_attempt run reason st) = group_queues st"
  "group_workers (mark_recovery_attempt run reason st) = group_workers st"
  "worker_tasks (mark_recovery_attempt run reason st) = worker_tasks st"
  "next_worker (mark_recovery_attempt run reason st) = next_worker st"
  "run_futures (mark_recovery_attempt run reason st) = run_futures st"
  "run_requests (mark_recovery_attempt run reason st) = run_requests st"
  "statuses (mark_recovery_attempt run reason st) = statuses st"
  "running_backends (mark_recovery_attempt run reason st) = running_backends st"
  "running_tasks (mark_recovery_attempt run reason st) = running_tasks st"
  "run_session_ids (mark_recovery_attempt run reason st) = run_session_ids st"
  "cancelled_run_ids (mark_recovery_attempt run reason st) = cancelled_run_ids st"
  "completed_results (mark_recovery_attempt run reason st) = completed_results st"
  "completed_order (mark_recovery_attempt run reason st) = completed_order st"
  "execution_tasks (mark_recovery_attempt run reason st) = execution_tasks st"
  "next_execution (mark_recovery_attempt run reason st) = next_execution st"
  "uuid_at (mark_recovery_attempt run reason st) = uuid_at st"
  "next_uuid (mark_recovery_attempt run reason st) = next_uuid st"
  "delivered (mark_recovery_attempt run reason st) = delivered st"
  "backend_cancels (mark_recovery_attempt run reason st) = backend_cancels st"
  by (simp_all add: mark_recovery_attempt_def)

lemma mark_recovery_result_sel [simp]:
  "execution_policy (mark_recovery_result run b st) = execution_policy st"
  "backend_names (mark_recovery_result run b st) = backend_names st"
  "max_completed_runs (mark_recovery_result run b st) = max_completed_runs st"
  "session_states (mark_recovery_result run b st) = session_states st"
  "group_queues (mark_recovery_result run b st) = group_queues st"
  "group_workers (mark_recovery_result run b st) = group_workers st"
  "worker_tasks (mark_recovery_result run b st) = worker_tasks st"
  "next_worker (mark_recovery_result run b st) = next_worker st"
  "run_futures (mark_recovery_result run b st) = run_futures st"
  "run_requests (mark_recovery_result run b st) = run_requests st"
  "statuses (mark_recovery_result run b st) = statuses st"
  "running_backends (mark_recovery_result run b st) = running_backends st"
  "running_tasks (mark_recovery_result run b st) = running_tasks st"
  "run_session_ids (mark_recovery_result run b st) = run_session_ids st"
  "cancelled_run_ids (mark_recovery_result run b st) = cancelled_run_ids st"
  "completed_results (mark_recovery_result run b st) = completed_results st"
  "completed_order (mark_recovery_result run b st) = completed_order st"
  "execution_tasks (mark_recovery_result run b st) = execution_tasks st"
  "next_execution (mark_recovery_result run b st) = next_execution st"
  "uuid_at (mark_recovery_result run b st) = uuid_at st"
  "next_uuid (mark_recovery_result run b st) = next_uuid st"
  "delivered (mark_recovery_result run b st) = delivered st"
  "backend_cancels (mark_recovery_result run b st) = backend_cancels st"
  by (simp_all add: mark_recovery_result_def)

lemma mark_terminal_sel [simp]:
  "execution_policy (mark_terminal result now st) = execution_policy st"
  "backend_names (mark_terminal result now st) = backend_names st"
  "max_completed_runs (mark_terminal result now st) = max_completed_runs st"
  "session_states (mark_terminal result now st) = session_states st"
  "group_queues (mark_terminal result now st) = group_queues st"
  "group_workers (mark_terminal result now st) = group_workers st"
  "worker_tasks (mark_terminal result now st) = worker_tasks st"
  "next_worker (mark_terminal result now st) = next_worker st"
  "run_futures (mark_terminal result now st) = run_futures st"
  "run_requests (mark_terminal result now st) = run_requests st"
  "statuses (mark_terminal result now st) = statuses st"
  "running_backends (mark_terminal result now st) = running_backends st"
  "running_tasks (mark_terminal result now st) = running_tasks st"
  "run_session_ids (mark_terminal result now st) = run_session_ids st"
  "cancelled_run_ids (mark_terminal result now st) = cancelled_run_ids st"
  "completed_results (mark_terminal result now st) = completed_results st"
  "completed_order (mark_terminal result now st) = completed_order st"
  "execution_tasks (mark_terminal result now st) = execution_tasks st"
  "next_execution (mark_terminal result now st) = next_execution st"
  "uuid_at (mark_terminal result now st) = uuid_at st"
  "next_uuid (mark_terminal result now st) = next_uuid st"
  "delivered (mark_terminal result now st) = delivered st"
  "backend_cancels (mark_terminal result now st) = backend_cancels st"
  by (simp_all add: mark_terminal_def)

lemma resolve_session_id_sel [simp]:
  "execution_policy (snd (resolve_session_id st request b fresh)) = execution_policy st"
  "backend_names (snd (resolve_session_id st request b fresh)) = backend_names st"
  "max_completed_runs (snd (resolve_session_id st request b fresh)) = max_completed_runs st"
  "group_queues (snd (resolve_session_id st request b fresh)) = group_queues st"
  "group_workers (snd (resolve_session_id st request b fresh)) = group_workers st"
  "worker_tasks (snd (resolve_session_id st request b fresh)) = worker_tasks st"
  "next_worker (snd (resolve_session_id st request b fresh)) = next_worker st"
  "run_futures (snd (resolve_session_id st request b fresh)) = run_futures st"
  "run_requests (snd (resolve_session_id st request b fresh)) = run_requests st"
  "statuses (snd (resolve_session_id st request b fresh)) = statuses st"
  "running_backends (snd (resolve_session_id st request b fresh)) = running_backends st"
  "running_tasks (snd (resolve_session_id st request b fresh)) = running_tasks st"
  "run_session_ids (snd (resolve_session_id st request b fresh)) = run_session_ids st"
  "cancelled_run_ids (snd (resolve_session_id st request b fresh)) = cancelled_run_ids st"
  "completed_results (snd (resolve_session_id st request b fresh)) = completed_results st"
  "completed_order (snd (resolve_session_id st request b fresh)) = completed_order st"
  "run_snapshots (snd (resolve_session_id st request b fresh)) = run_snapshots st"
  "execution_tasks (snd (resolve_session_id st request b fresh)) = execution_tasks st"
  "next_execution (snd (resolve_session_id st request b fresh)) = next_execution st"
  "uuid_at (snd (resolve_session_id st request b fresh)) = uuid_at st"
  "delivered (snd (resolve_session_id st request b fresh)) = delivered st"
  "backend_cancels (snd (resolve_session_id st request b fresh)) = backend_cancels st"
  by (simp_all add: resolve_session_id_def Let_def split: prod.split)

lemma note_backend_cancel_sel [simp]:
  "execution_policy (note_backend_cancel c run st) = execution_policy st"
  "backend_names (note_backend_cancel c run st) = backend_names st"
  "max_completed_runs (note_backend_cancel c run st) = max_completed_runs st"
  "session_states (note_backend_cancel c run st) = session_states st"
  "group_queues (note_backend_cancel c run st) = group_queues st"
  "group_workers (note_backend_cancel c run st) = group_workers st"
  "worker_tasks (note_backend_cancel c run st) = worker_tasks st"
  "next_worker (note_backend_cancel c run st) = next_worker st"
  "run_futures (note_backend_cancel c run st) = run_futures st"
  "run_requests (note_backend_cancel c run st) = run_requests st"
  "statuses (note_backend_cancel c run st) = statuses st"
  "running_backends (note_backend_cancel c run st) = running_backends st"
  "running_tasks (note_backend_cancel c run st) = running_tasks st"
  "run_session_ids (note_backend_cancel c run st) = run_session_ids st"
  "cancelled_run_ids (note_backend_cancel c run st) = cancelled_run_ids st"
  "completed_results (note_backend_cancel c run st) = completed_results st"
  "completed_order (note_backend_cancel c run st) = completed_order st"
  "run_snapshots (note_backend_cancel c run st) = run_snapshots st"
  "execution_tasks (note_backend_cancel c run st) = execution_tasks st"
  "next_execution (note_backend_cancel c run st) = next_execution st"
  "uuid_at (note_backend_cancel c run st) = uuid_at st"
  "next_uuid (note_backend_cancel c run st) = next_uuid st"
  "delivered (note_backend_cancel c run st) = delivered st"
  by (simp_all add: note_backend_cancel_def)

lemma evict_stale_form:
  "\<exists>cr ss rs co. evict_stale order st =
     st\<lparr>completed_results := cr, statuses := ss, run_snapshots := rs, completed_order := co\<rparr>"
proof (induction order arbitrary: st)
  case (Cons stale order)
  show ?case
  proof (cases "int (length (stale # order)) > max_completed_runs st")
    case True
    with Cons.IH [of "st\<lparr>completed_results := dict_pop stale (completed_results st),
        statuses := dict_pop stale (statuses st), run_snapshots := dict_pop stale (run_snapshots st)\<rparr>"]
    show ?thesis by auto
  next
    case False
    then have "evict_stale (stale # order) st =
        st\<lparr>completed_results := completed_results st, statuses := statuses st,
          run_snapshots := run_snapshots st, completed_order := stale # order\<rparr>" by simp
    then show ?thesis by blast
  qed
next
  case Nil
  have "evict_stale [] st = st\<lparr>completed_results := completed_results st, statuses := statuses st,
      run_snapshots := run_snapshots st, completed_order := []\<rparr>" by simp
  then show ?case by blast
qed

lemma evict_stale_sel [simp]:
  "execution_policy (evict_stale order st) = execution_policy st"
  "backend_names (evict_stale order st) = backend_names st"
  "max_completed_runs (evict_stale order st) = max_completed_runs st"
  "session_states (evict_stale order st) = session_states st"
  "group_queues (evict_stale order st) = group_queues st"
  "group_workers (evict_stale order st) = group_workers st"
  "worker_tasks (evict_stale order st) = worker_tasks st"
  "next_worker (evict_stale order st) = next_worker st"
  "run_futures (evict_stale order st) = run_futures st"
  "run_requests (evict_stale order st) = run_requests st"
  "running_backends (evict_stale order st) = running_backends st"
  "running_tasks (evict_stale order st) = running_tasks st"
  "run_session_ids (evict_stale order st) = run_session_ids st"
  "cancelled_run_ids (evict_stale order st) = cancelled_run_ids st"
  "execution_tasks (evict_stale order st) = execution_tasks st"
  "next_execution (evict_stale order st) = next_execution st"
  "uuid_at (evict_stale order st) = uuid_at st"
  "next_uuid (evict_stale order st) = next_uuid st"
  "delivered (evict_stale order st) = delivered st"
  "backend_cancels (evict_stale order st) = backend_cancels st"
  using evict_stale_form [of order st] by auto

lemma resolve_future_sel [simp]:
  "execution_policy (resolve_future result st) = execution_policy st"
  "backend_names (resolve_future result st) = backend_names st"
  "max_completed_runs (resolve_future result st) = max_completed_runs st"
  "session_states (resolve_future result st) = session_states st"
  "group_queues (resolve_future result st) = group_queues st"
  "group_workers (resolve_future result st) = group_workers st"
  "worker_tasks (resolve_future result st) = worker_tasks st"
  "next_worker (resolve_future result st) = next_worker st"
  "run_requests (resolve_future result st) = run_requests st"
  "statuses (resolve_future result st) = statuses st"
  "running_backends (resolve_future result st) = running_backends st"
  "running_tasks (resolve_future result st) = running_tasks st"
  "run_session_ids (resolve_future result st) = run_session_ids st"
  "cancelled_run_ids (resolve_future result st) = cancelled_run_ids st"
  "completed_results (resolve_future result st) = completed_results st"
  "completed_order (resolve_future result st) = completed_order st"
  "run_snapshots (resolve_future result st) = run_snapshots st"
  "execution_tasks (resolve_future result st) = execution_tasks st"
  "next_execution (resolve_future result st) = next_execution st"
  "uuid_at (resolve_future result st) = uuid_at st"
  "next_uuid (resolve_future result st) = next_uuid st"
  "backend_cancels (resolve_future result st) = backend_cancels st"
  by (simp_all add: resolve_future_def Let_def)

lemma store_terminal_result_sel [simp]:
  "execution_policy (store_terminal_result result now st) = execution_policy st"
  "backend_names (store_terminal_result result now st) = backend_names st"
  "max_completed_runs (store_terminal_result result now st) = max_completed_runs st"
  "session_states (store_terminal_result result now st) = session_states st"
  "group_queues (store_terminal_result result now st) = group_queues st"
  "group_workers (store_terminal_result result now st) = group_workers st"
  "worker_tasks (store_terminal_result result now st) = worker_tasks st"
  "next_worker (store_terminal_result result now st) = next_worker st"
  "running_backends (store_terminal_result result now st) = running_backends st"
  "running_tasks (store_terminal_result result now st) = running_tasks st"
  "run_session_ids (store_terminal_result result now st) = run_session_ids st"
  "cancelled_run_ids (store_terminal_result result now st) = cancelled_run_ids st"
  "execution_tasks (store_terminal_result result now st) = execution_tasks st"
  "next_execution (store_terminal_result result now st) = next_execution st"
  "uuid_at (store_terminal_result result now st) = uuid_at st"
  "next_uuid (store_terminal_result result now st) = next_uuid st"
  "backend_cancels (store_terminal_result result now st) = backend_cancels st"
  by (simp_all add: store_terminal_result_def Let_def)

lemma forget_running_sel [simp]:
  "execution_policy (forget_running run st) = execution_policy st"
  "backend_names (forget_running run st) = backend_names st"
  "max_completed_runs (forget_running run st) = max_completed_runs st"
  "session_states (forget_running run st) = session_states st"
  "group_queues (forget_running run st) = group_queues st"
  "group_workers (forget_running run st) = group_workers st"
  "worker_tasks (forget_running run st) = worker_tasks st"
  "next_worker (forget_running run st) = next_worker st"
  "run_futures (forget_running run st) = run_futures st"
  "run_requests (forget_running run st) = run_requests st"
  "statuses (forget_running run st) = statuses st"
  "cancelled_run_ids (forget_running run st) = cancelled_run_ids st"
  "completed_results (forget_running run st) = completed_results st"
  "completed_order (forget_running run st) = completed_order st"
  "run_snapshots (forget_running run st) = run_snapshots st"
  "execution_tasks (forget_running run st) = execution_tasks st"
  "next_execution (forget_running run st) = next_execution st"
  "uuid_at (forget_running run st) = uuid_at st"
  "next_uuid (forget_running run st) = next_uuid st"
  "delivered (forget_running run st) = delivered st"
  "backend_cancels (forget_running run st) = backend_cancels st"
  by (simp_all add: forget_running_def)

lemma finish_with_result_sel [simp]:
  "execution_policy (finish_with_result t task result st) = execution_policy st"
  "backend_names (finish_with_result t task result st) = backend_names st"
  "max_completed_runs (finish_with_result t task result st) = max_completed_runs st"
  "group_queues (finish_with_result t task result st) = group_queues st"
  "group_workers (finish_with_result t task result st) = group_workers st"
  "worker_tasks (finish_with_result t task result st) = worker_tasks st"
  "next_worker (finish_with_result t task result st) = next_worker st"
  "run_futures (finish_with_result t task result st) = run_futures st"
  "run_requests (finish_with_result t task result st) = run_requests st"
  "statuses (finish_with_result t task result st) = statuses st"
  "running_backends (finish_with_result t task result st) = running_backends st"
  "running_tasks (finish_with_result t task result st) = running_tasks st"
  "run_session_ids (finish_with_result t task result st) = run_session_ids st"
  "cancelled_run_ids (finish_with_result t task result st) = cancelled_run_ids st"
  "completed_results (finish_with_result t task result st) = completed_results st"
  "completed_order (finish_with_result t task result st) = completed_order st"
  "run_snapshots (finish_with_result t task result st) = run_snapshots st"
  "next_execution (finish_with_result t task result st) = next_execution st"
  "uuid_at (finish_with_result t task result st) = uuid_at st"
  "next_uuid (finish_with_result t task result st) = next_uuid st"
  "delivered (finish_with_result t task result st) = delivered st"
  "backend_cancels (finish_with_result t task result st) = backend_cancels st"
  by (simp_all add: finish_with_result_def finish_task_def)

lemma group_queue_cong: "group_queues st' = group_queues st \<Longrightarrow> group_queue st' = group_queue st"
  by (rule ext) (simp add: group_queue_def)

text \<open>What eviction leaves: it drops the oldest runs until the order fits.\<close>

definition stale_runs :: "int \<Rightarrow> string list \<Rightarrow> string list" where
  "stale_runs limit order = take (length order - nat limit) order"

lemma evict_stale_drop:
  assumes "0 \<le> max_completed_runs st"
  shows "order = stale_runs (max_completed_runs st) order @ completed_order (evict_stale order st) \<and>
    int (length (completed_order (evict_stale order st))) \<le> max_completed_runs st \<and>
    dict_get (completed_results (evict_stale order st)) =
      (\<lambda>r. if r \<in> set (stale_runs (max_completed_runs st) order) then None else dict_get (completed_results st) r) \<and>
    dict_get (statuses (evict_stale order st)) =
      (\<lambda>r. if r \<in> set (stale_runs (max_completed_runs st) order) then None else dict_get (statuses st) r)"
  using assms
proof (induction order st rule: evict_stale.induct)
  case (2 stale order st)
  show ?case
  proof (cases "int (length (stale # order)) > max_completed_runs st")
    case True
    then have "stale_runs (max_completed_runs st) (stale # order) =
        stale # stale_runs (max_completed_runs st) order"
      using 2(2) by (auto simp: stale_runs_def Suc_diff_le nat_le_iff)
    with True 2 show ?thesis by (auto simp: fun_eq_iff)
  next
    case False
    then have "stale_runs (max_completed_runs st) (stale # order) = []"
      by (auto simp: stale_runs_def)
    with False show ?thesis by (simp add: fun_eq_iff)
  qed
qed (simp add: stale_runs_def)

section \<open>The invariant\<close>

fun worker_folder :: "worker \<Rightarrow> string" where
  "worker_folder (Ready folder) = folder"
| "worker_folder (Awaiting folder _ _) = folder"

definition awaits :: "coordinator \<Rightarrow> nat \<Rightarrow> string \<Rightarrow> nat \<Rightarrow> bool" where
  "awaits st w run t \<longleftrightarrow> (\<exists>folder. worker_tasks st w = Some (Awaiting folder run t))"

definition queued_run :: "coordinator \<Rightarrow> string \<Rightarrow> bool" where
  "queued_run st run \<longleftrightarrow> (\<exists>g. run \<in> fst ` set (group_queue st g))"

definition terminal :: "execution_status \<Rightarrow> bool" where
  "terminal s \<longleftrightarrow> s \<notin> {Queued, Running}"

definition workers_ok :: "coordinator \<Rightarrow> bool" where
  "workers_ok st \<longleftrightarrow>
     (\<forall>w x. worker_tasks st w = Some x \<longrightarrow>
        w < next_worker st \<and> dict_get (group_workers st) (worker_folder x) = Some w) \<and>
     (\<forall>g w. dict_get (group_workers st) g = Some w \<longrightarrow>
        (\<exists>x. worker_tasks st w = Some x \<and> worker_folder x = g)) \<and>
     (\<forall>g. group_queue st g \<noteq> [] \<longrightarrow> dict_get (group_workers st) g \<noteq> None)"

definition task_fits :: "coordinator \<Rightarrow> string \<Rightarrow> string \<Rightarrow> nat \<Rightarrow> bool" where
  "task_fits st folder run t \<longleftrightarrow>
     (case execution_tasks st t of
        None \<Rightarrow> False
      | Some (Inl task) \<Rightarrow> task_run task = run \<and> req_group_folder (task_request task) = folder
      | Some (Inr (Returned result)) \<Rightarrow> res_run_id result = run \<and> terminal (res_status result)
      | Some (Inr Task_cancelled) \<Rightarrow> run \<in> cancelled_run_ids st)"

definition tasks_ok :: "coordinator \<Rightarrow> bool" where
  "tasks_ok st \<longleftrightarrow>
     (\<forall>w folder run t. worker_tasks st w = Some (Awaiting folder run t) \<longrightarrow>
        t < next_execution st \<and> task_fits st folder run t) \<and>
     (\<forall>t task. execution_tasks st t = Some (Inl task) \<longrightarrow> (\<exists>w. awaits st w (task_run task) t)) \<and>
     (\<forall>w w' run run' t t'. awaits st w run t \<longrightarrow> awaits st w' run' t' \<longrightarrow> run = run' \<or> t = t' \<longrightarrow> w = w')"

lemma tasks_okI:
  assumes "\<And>w folder run t. worker_tasks st w = Some (Awaiting folder run t) \<Longrightarrow>
      t < next_execution st \<and> task_fits st folder run t"
    and "\<And>t task. execution_tasks st t = Some (Inl task) \<Longrightarrow> \<exists>w. awaits st w (task_run task) t"
    and "\<And>w w' run run' t t'. awaits st w run t \<Longrightarrow> awaits st w' run' t' \<Longrightarrow> run = run' \<or> t = t' \<Longrightarrow> w = w'"
  shows "tasks_ok st"
  using assms unfolding tasks_ok_def by blast

lemma tasks_okD:
  assumes "tasks_ok st"
  shows "worker_tasks st w = Some (Awaiting folder run t) \<Longrightarrow> t < next_execution st \<and> task_fits st folder run t"
    and "execution_tasks st t = Some (Inl task) \<Longrightarrow> \<exists>w. awaits st w (task_run task) t"
    and "awaits st w run t \<Longrightarrow> awaits st w' run' t' \<Longrightarrow> run = run' \<or> t = t' \<Longrightarrow> w = w'"
  using assms unfolding tasks_ok_def by blast+

lemma task_fits_cong:
  assumes "execution_tasks st' t = execution_tasks st t"
    and "run \<in> cancelled_run_ids st' \<longleftrightarrow> run \<in> cancelled_run_ids st"
  shows "task_fits st' folder run t = task_fits st folder run t"
  unfolding task_fits_def assms ..

definition queues_ok :: "coordinator \<Rightarrow> bool" where
  "queues_ok st \<longleftrightarrow>
     (\<forall>g. distinct (map fst (group_queue st g)) \<and>
          (\<forall>(run, request) \<in> set (group_queue st g). req_group_folder request = g))"

definition order_ok :: "coordinator \<Rightarrow> bool" where
  "order_ok st \<longleftrightarrow> 0 \<le> max_completed_runs st \<and> distinct (completed_order st) \<and>
     int (length (completed_order st)) \<le> max_completed_runs st \<and>
     distinct (map fst (delivered st))"

text \<open>What holds of one run.\<close>

definition active_run_ok :: "coordinator \<Rightarrow> string \<Rightarrow> run_future \<Rightarrow> bool" where
  "active_run_ok st run future \<longleftrightarrow>
     (\<exists>request. dict_get (run_requests st) run = Some request \<and>
        (\<forall>g r. (run, r) \<in> set (group_queue st g) \<longrightarrow> r = request) \<and>
        (dict_get (statuses st) run = Some Queued \<and> (\<forall>w t. \<not> awaits st w run t) \<and>
           (future = Pending \<longrightarrow> queued_run st run) \<or>
         dict_get (statuses st) run = Some Running \<and> (\<exists>w t. awaits st w run t) \<and>
           dict_get (running_backends st) run \<noteq> None \<and> \<not> queued_run st run)) \<and>
     run \<notin> set (completed_order st) \<and> run \<notin> cancelled_run_ids st \<and> run \<notin> fst ` set (delivered st) \<and>
     dict_get (completed_results st) run = None"

definition settled_run_ok :: "coordinator \<Rightarrow> string \<Rightarrow> bool" where
  "settled_run_ok st run \<longleftrightarrow>
     dict_get (statuses st) run \<notin> {Some Queued, Some Running} \<and>
     ((\<exists>w t. awaits st w run t) \<longrightarrow> run \<in> cancelled_run_ids st) \<and>
     (\<forall>result. dict_get (completed_results st) run = Some result \<longrightarrow>
        run \<in> set (completed_order st) \<and> res_run_id result = run \<and>
        (\<forall>result'. (run, result') \<in> set (delivered st) \<longrightarrow> result' = result))"

definition run_ok :: "coordinator \<Rightarrow> string \<Rightarrow> bool" where
  "run_ok st run \<longleftrightarrow>
     (case dict_get (run_futures st) run of
        None \<Rightarrow> settled_run_ok st run
      | Some future \<Rightarrow> active_run_ok st run future)"

definition coordinator_ok :: "coordinator \<Rightarrow> bool" where
  "coordinator_ok st \<longleftrightarrow> workers_ok st \<and> tasks_ok st \<and> queues_ok st \<and> order_ok st \<and> (\<forall>run. run_ok st run)"

section \<open>Settling a run\<close>

text \<open>
  \<open>_store_terminal_result\<close> may be called for a run that has a future and is queued or not, executed
  or not, as long as an execution of it that goes on is marked as cancelled. Everything the
  invariant says about the other runs, the workers, the tasks and the queues stays.
\<close>

lemma store_terminal_result_effects:
  fixes st :: coordinator and result :: execution_result and now :: instant
  assumes "0 \<le> max_completed_runs st"
  defines "st' \<equiv> store_terminal_result result now st"
    and "run \<equiv> res_run_id result"
  defines "stale \<equiv> stale_runs (max_completed_runs st) (completed_order st @ [run])"
  shows "completed_order st @ [run] = stale @ completed_order st'"
    and "int (length (completed_order st')) \<le> max_completed_runs st"
    and "dict_get (completed_results st') r =
      (if r \<in> set stale then None else if r = run then Some result else dict_get (completed_results st) r)"
    and "dict_get (statuses st') r =
      (if r \<in> set stale then None else if r = run then Some (res_status result) else dict_get (statuses st) r)"
    and "dict_get (run_futures st') r = (if r = run then None else dict_get (run_futures st) r)"
    and "dict_get (run_requests st') r = (if r = run then None else dict_get (run_requests st) r)"
    and "delivered st' = delivered st @
      (if dict_get (run_futures st) run = Some Pending then [(run, result)] else [])"
  using evict_stale_drop [of "mark_terminal result now (st\<lparr>statuses := dict_set run (res_status result) (statuses st),
        completed_results := dict_set run result (completed_results st),
        completed_order := completed_order st @ [run]\<rparr>)" "completed_order st @ [run]"] assms(1)
  by (auto simp: st'_def stale_def run_def store_terminal_result_def Let_def resolve_future_def)

text \<open>The parts of the invariant that do not speak of runs only read these fields.\<close>

lemma workers_ok_cong:
  "worker_tasks st' = worker_tasks st \<Longrightarrow> next_worker st' = next_worker st \<Longrightarrow>
   group_workers st' = group_workers st \<Longrightarrow> group_queues st' = group_queues st \<Longrightarrow>
   workers_ok st' = workers_ok st"
  by (simp add: workers_ok_def group_queue_def)

lemma awaits_cong: "worker_tasks st' = worker_tasks st \<Longrightarrow> awaits st' = awaits st"
  by (intro ext) (simp add: awaits_def)

lemma queued_run_cong: "group_queues st' = group_queues st \<Longrightarrow> queued_run st' = queued_run st"
  by (rule ext) (simp add: queued_run_def group_queue_def)

lemma tasks_ok_cong:
  assumes "worker_tasks st' = worker_tasks st" "next_execution st' = next_execution st"
    and "execution_tasks st' = execution_tasks st" "cancelled_run_ids st' = cancelled_run_ids st"
  shows "tasks_ok st' = tasks_ok st"
  unfolding tasks_ok_def task_fits_def awaits_cong [OF assms(1)] assms ..

lemma queues_ok_cong: "group_queues st' = group_queues st \<Longrightarrow> queues_ok st' = queues_ok st"
  by (simp add: queues_ok_def group_queue_def)

lemma run_ok_same:
  assumes "awaits st' = awaits st" "group_queue st' = group_queue st"
    and "dict_get (run_futures st') r = dict_get (run_futures st) r"
    and "dict_get (run_requests st') r = dict_get (run_requests st) r"
    and "dict_get (statuses st') r = dict_get (statuses st) r"
    and "dict_get (running_backends st') r = dict_get (running_backends st) r"
    and "dict_get (completed_results st') r = dict_get (completed_results st) r"
    and "r \<in> cancelled_run_ids st' \<longleftrightarrow> r \<in> cancelled_run_ids st"
    and "r \<in> set (completed_order st') \<longleftrightarrow> r \<in> set (completed_order st)"
    and "\<And>x. (r, x) \<in> set (delivered st') \<longleftrightarrow> (r, x) \<in> set (delivered st)"
  shows "run_ok st' r = run_ok st r"
proof -
  have d: "r \<in> fst ` set (delivered st') \<longleftrightarrow> r \<in> fst ` set (delivered st)"
    using assms(10) by force
  show ?thesis
    unfolding run_ok_def active_run_ok_def settled_run_ok_def queued_run_def assms(3-9) d assms(10)
      assms(1,2) ..
qed

lemmas run_ok_cong = run_ok_same [OF awaits_cong group_queue_cong]

lemma store_terminal_ok:
  assumes parts: "workers_ok st" "tasks_ok st" "queues_ok st" "order_ok st"
    and others: "\<And>r. r \<noteq> run \<Longrightarrow> run_ok st r"
    and run: "run \<notin> set (completed_order st)" "run \<notin> fst ` set (delivered st)"
      "\<And>w t. awaits st w run t \<Longrightarrow> run \<in> cancelled_run_ids st"
    and result: "res_run_id result = run" "terminal (res_status result)"
  shows "coordinator_ok (store_terminal_result result now st)"
proof -
  let ?st' = "store_terminal_result result now st"
  have max: "0 \<le> max_completed_runs st" using parts(4) by (simp add: order_ok_def)
  let ?stale = "stale_runs (max_completed_runs st) (completed_order st @ [run])"
  note eff = store_terminal_result_effects [OF max, of result now, unfolded result(1)]
  have order: "distinct (completed_order st @ [run])" using parts(4) run(1) by (simp add: order_ok_def)
  then have dist: "distinct (completed_order ?st')" "set ?stale \<inter> set (completed_order ?st') = {}"
    by (subst (asm) eff(1), simp)+
  have sets: "set (completed_order st) \<union> {run} = set ?stale \<union> set (completed_order ?st')"
    using arg_cong [OF eff(1), of set] by simp
  have "order_ok ?st'"
    using parts(4) dist(1) eff(2) run(2) max
    by (auto simp: order_ok_def eff(7))
  moreover have "run_ok ?st' r" for r
  proof (cases "r = run")
    case True
    have "settled_run_ok ?st' run"
      unfolding settled_run_ok_def eff(3,4) awaits_def store_terminal_result_sel
      using run result sets
      by (auto simp: terminal_def awaits_def eff(7))
        (metis (no_types, opaque_lifting) fst_conv image_eqI)+
    with True show ?thesis by (simp add: run_ok_def eff(5))
  next
    case False
    then have same: "dict_get (run_futures ?st') r = dict_get (run_futures st) r"
      "dict_get (run_requests ?st') r = dict_get (run_requests st) r"
      "\<And>x. (r, x) \<in> set (delivered ?st') \<longleftrightarrow> (r, x) \<in> set (delivered st)"
      by (auto simp: eff(5-7))
    show ?thesis
    proof (cases "r \<in> set ?stale")
      case False
      with \<open>r \<noteq> run\<close> sets have "r \<in> set (completed_order ?st') \<longleftrightarrow> r \<in> set (completed_order st)" by blast
      with False \<open>r \<noteq> run\<close> same have "run_ok ?st' r = run_ok st r"
        by (intro run_ok_cong) (simp_all add: eff(3,4))
      with others [OF \<open>r \<noteq> run\<close>] show ?thesis by simp
    next
      case True
      with sets \<open>r \<noteq> run\<close> have old: "r \<in> set (completed_order st)" by blast
      with others [OF \<open>r \<noteq> run\<close>] have settled: "settled_run_ok st r" "dict_get (run_futures st) r = None"
        by (auto simp: run_ok_def active_run_ok_def split: option.splits)
      from True settled(1) have "settled_run_ok ?st' r"
        by (simp add: settled_run_ok_def eff(3,4) awaits_def)
      with settled(2) same(1) show ?thesis by (simp add: run_ok_def)
    qed
  qed
  ultimately show ?thesis
    using parts workers_ok_cong [of ?st' st] tasks_ok_cong [of ?st' st] queues_ok_cong [of ?st' st]
    by (simp add: coordinator_ok_def)
qed

section \<open>Serving the queue\<close>

text \<open>Everything the invariant reads.\<close>

definition core where
  "core st = (worker_tasks st, next_worker st, group_workers st, group_queues st, next_execution st,
     execution_tasks st, cancelled_run_ids st, max_completed_runs st, completed_order st, delivered st,
     (run_futures st, run_requests st, statuses st, running_backends st, completed_results st))"

lemma core_same:
  assumes "core st' = core st"
  shows "workers_ok st' = workers_ok st" "tasks_ok st' = tasks_ok st" "queues_ok st' = queues_ok st"
    "order_ok st' = order_ok st" "run_ok st' = run_ok st" "coordinator_ok st' = coordinator_ok st"
proof -
  note eqs = assms [unfolded core_def prod.inject]
  show 1: "workers_ok st' = workers_ok st" using eqs by (intro workers_ok_cong) simp_all
  show 2: "tasks_ok st' = tasks_ok st" using eqs by (intro tasks_ok_cong) simp_all
  show 3: "queues_ok st' = queues_ok st" using eqs by (intro queues_ok_cong) simp_all
  show 4: "order_ok st' = order_ok st" using eqs by (simp add: order_ok_def)
  show 5: "run_ok st' = run_ok st" using eqs by (intro ext run_ok_cong) simp_all
  show "coordinator_ok st' = coordinator_ok st" unfolding coordinator_ok_def 1 2 3 4 5 ..
qed

lemma core_helpers [simp]:
  "core (snd (resolve_session_id st request b fresh)) = core st"
  "core (update_snapshot run f st) = core st"
  "core (mark_running run b sid now st) = core st"
  "core (mark_recovery_attempt run reason st) = core st"
  "core (mark_recovery_result run ok st) = core st"
  "core (note_backend_cancel c run st) = core st"
  "core (st\<lparr>session_states := x\<rparr>) = core st"
  "core (st\<lparr>run_session_ids := y\<rparr>) = core st"
  by (simp_all add: core_def)

text \<open>A run that the worker has just taken from the queue.\<close>

definition taken :: "coordinator \<Rightarrow> string \<Rightarrow> execution_request \<Rightarrow> bool" where
  "taken st run request \<longleftrightarrow>
     workers_ok st \<and> tasks_ok st \<and> queues_ok st \<and> order_ok st \<and> (\<forall>r. r \<noteq> run \<longrightarrow> run_ok st r) \<and>
     dict_get (run_futures st) run = Some Pending \<and> dict_get (run_requests st) run = Some request \<and>
     (\<forall>w t. \<not> awaits st w run t) \<and> \<not> queued_run st run \<and> run \<notin> set (completed_order st) \<and>
     run \<notin> cancelled_run_ids st \<and> run \<notin> fst ` set (delivered st) \<and>
     dict_get (completed_results st) run = None"

lemma taken_core: "core st' = core st \<Longrightarrow> taken st run request \<Longrightarrow> taken st' run request"
  using core_same [of st' st]
  by (simp add: taken_def core_def awaits_def queued_run_def group_queue_def)

lemma taken_settled:
  assumes "taken st run request" "res_run_id result = run" "terminal (res_status result)"
  shows "coordinator_ok (store_terminal_result result now st)"
  using assms by (intro store_terminal_ok [of st run]) (auto simp: taken_def)

lemma build_result_sel [simp]:
  "res_run_id (build_result run request b sid s e) = run"
  "res_status (build_result run request b sid s e) = s"
  by (simp_all add: build_result_def)

lemma execute_request_settled:
  assumes "taken st run request" "execute_request run request now st = (None, st')"
  shows "coordinator_ok st' \<and> worker_tasks st' = worker_tasks st \<and> group_queues st' = group_queues st"
proof -
  have "terminal Failed" by (simp add: terminal_def)
  then have settle: "coordinator_ok (store_terminal_result result now (snd (resolve_session_id st request b None)))"
    if "res_run_id result = run" "res_status result = Failed" for result b
    using that taken_settled [OF taken_core [OF _ assms(1)], of "snd (resolve_session_id st request b None)" result]
    by simp
  show ?thesis
    using assms(2)
    by (auto simp: execute_request_def case_prod_beta Let_def settle split: sum.splits if_splits)
qed

lemma execute_request_started:
  assumes t: "taken st run request" and run: "execute_request run request now st = (Some t, st')"
    and w: "worker_tasks st w = Some (Ready (req_group_folder request))"
  shows "coordinator_ok (st'\<lparr>worker_tasks := (worker_tasks st')(w \<mapsto> Awaiting (req_group_folder request) run t)\<rparr>)"
    (is "coordinator_ok ?st")
proof -
  let ?g = "req_group_folder request"
  note T = t [unfolded taken_def]
  from run obtain b where b: "execution_policy st request = Inr b" "b \<in> set (backend_names st)"
    by (auto simp: execute_request_def case_prod_beta split: sum.splits if_splits)
  have fields: "worker_tasks st' = worker_tasks st" "next_worker st' = next_worker st"
    "group_workers st' = group_workers st" "group_queues st' = group_queues st"
    "cancelled_run_ids st' = cancelled_run_ids st" "max_completed_runs st' = max_completed_runs st"
    "completed_order st' = completed_order st" "delivered st' = delivered st"
    "run_futures st' = run_futures st" "run_requests st' = run_requests st"
    "completed_results st' = completed_results st"
    "next_execution st' = Suc (next_execution st)" "t = next_execution st"
    "statuses st' = dict_set run Running (statuses st)"
    "running_backends st' = dict_set run b (running_backends st)"
    "execution_tasks st' = (execution_tasks st)(t \<mapsto> Inl
       \<lparr>task_run = run, task_request = request, task_backend = b,
        task_key = request_workspace_key request, task_session = fst (resolve_session_id st request b None),
        task_attempt = First_attempt\<rparr>)"
    using run b by (auto simp: execute_request_def case_prod_beta Let_def)
  let ?task = "\<lparr>task_run = run, task_request = request, task_backend = b,
    task_key = request_workspace_key request,
    task_session = fst (resolve_session_id st request b None), task_attempt = First_attempt\<rparr>"
  obtain task where task: "task_run task = run" "task_request task = request"
    "execution_tasks st' = (execution_tasks st)(t \<mapsto> Inl task)"
    using that [of ?task] fields(16) by simp
  have fresh_t: "\<not> awaits st v r t" for v r
    using T fields(13) by (auto simp: awaits_def dest: tasks_okD(1))
  have awaits_iff: "awaits ?st v r u \<longleftrightarrow> v = w \<and> r = run \<and> u = t \<or> awaits st v r u" for v r u
    using w by (auto simp: awaits_def fields(1))
  have "workers_ok ?st"
    using T w unfolding workers_ok_def by (auto simp: fields group_queue_def) (metis option.inject worker_folder.simps)+
  moreover have "tasks_ok ?st"
  proof (rule tasks_okI, unfold awaits_iff)
    note D = tasks_okD [of st]
    fix v folder r u
    assume v: "worker_tasks ?st v = Some (Awaiting folder r u)"
    show "u < next_execution ?st \<and> task_fits ?st folder r u"
    proof (cases "v = w")
      case True
      with v task show ?thesis by (auto simp: task_fits_def fields(12,13))
    next
      case False
      with v have old: "worker_tasks st v = Some (Awaiting folder r u)" by (simp add: fields(1))
      with fresh_t have "u \<noteq> t" by (auto simp: awaits_def)
      then have "task_fits ?st folder r u = task_fits st folder r u"
        by (intro task_fits_cong) (simp_all add: task fields(5))
      with D(1) [OF _ old] T show ?thesis by (simp add: fields(12))
    qed
  next
    fix u x
    assume "execution_tasks ?st u = Some (Inl x)"
    then show "\<exists>v. v = w \<and> task_run x = run \<and> u = t \<or> awaits st v (task_run x) u"
      using T task by (auto split: if_splits dest: tasks_okD(2))
  next
    fix v v' r r' u u'
    assume "v = w \<and> r = run \<and> u = t \<or> awaits st v r u" "v' = w \<and> r' = run \<and> u' = t \<or> awaits st v' r' u'"
      "r = r' \<or> u = u'"
    then show "v = v'" using T fresh_t tasks_okD(3) [of st] by metis
  qed
  moreover have "queues_ok ?st" "order_ok ?st"
    using T by (simp_all add: queues_ok_def order_ok_def group_queue_def fields)
  moreover have "run_ok ?st r" for r
  proof (cases "r = run")
    case True
    have q: "group_queue ?st = group_queue st" by (rule group_queue_cong) (simp add: fields)
    have nq: "(run, r) \<notin> set (group_queue st g)" for g r
    proof -
      have "\<not> queued_run st run" using T by blast
      then show ?thesis by (force simp: queued_run_def)
    qed
    have "active_run_ok ?st run Pending"
      unfolding active_run_ok_def queued_run_def q
    proof (intro conjI exI [of _ request] disjI2 allI impI)
      show "\<exists>v u. awaits ?st v run u" unfolding awaits_iff by blast
      show "\<not> (\<exists>g. run \<in> fst ` set (group_queue st g))" using T by (simp add: queued_run_def)
      show "r = request" if "(run, r) \<in> set (group_queue st g)" for g r using that nq by blast
    qed (use T in \<open>simp_all add: fields\<close>)
    with True T show ?thesis by (simp add: run_ok_def fields)
  next
    case False
    have same: "awaits ?st v r u = awaits st v r u" for v u using False by (simp add: awaits_iff)
    have q: "group_queue ?st = group_queue st" by (rule group_queue_cong) (simp add: fields)
    have "run_ok ?st r = run_ok st r"
      using False fields(15)
      unfolding run_ok_def active_run_ok_def settled_run_ok_def same queued_run_def q
      by (auto simp: fields split: option.splits)
    with False T show ?thesis by simp
  qed
  ultimately show ?thesis by (simp add: coordinator_ok_def)
qed

lemma coordinator_okD:
  assumes "coordinator_ok st"
  shows "workers_ok st" "tasks_ok st" "queues_ok st" "order_ok st" "run_ok st r"
  using assms by (simp_all add: coordinator_ok_def)

lemma queue_request:
  assumes "coordinator_ok st" "(run, request) \<in> set (group_queue st g)" "dict_get (run_futures st) run = Some f"
  shows "req_group_folder request = g \<and> dict_get (run_requests st) run = Some request"
proof -
  have "req_group_folder request = g"
    using coordinator_okD(3) [OF assms(1)] assms(2) unfolding queues_ok_def by blast
  moreover have "active_run_ok st run f"
    using coordinator_okD(5) [OF assms(1), of run] assms(3) by (simp add: run_ok_def)
  then have "dict_get (run_requests st) run = Some request"
    using assms(2) by (auto simp: active_run_ok_def)
  ultimately show ?thesis ..
qed

lemma group_queue_popped:
  "group_queue (st\<lparr>group_queues := dict_set g q (group_queues st)\<rparr>) h = (if h = g then q else group_queue st h)"
  by (simp add: group_queue_def)

lemma pop_ok:
  assumes ok: "coordinator_ok st" and q: "group_queue st folder = (run, request) # queue"
  defines "st' \<equiv> st\<lparr>group_queues := dict_set folder queue (group_queues st)\<rparr>"
  shows "workers_ok st' \<and> tasks_ok st' \<and> queues_ok st' \<and> order_ok st' \<and>
    (\<forall>r. r \<noteq> run \<or> dict_get (run_futures st) r \<noteq> Some Pending \<longrightarrow> run_ok st' r)"
proof (intro conjI allI impI)
  have queues: "group_queue st' g = (if g = folder then queue else group_queue st g)" for g
    by (simp add: st'_def group_queue_def)
  have sub: "set (group_queue st' g) \<subseteq> set (group_queue st g)" for g
    using q by (auto simp: queues)
  have aw: "awaits st' = awaits st" by (rule awaits_cong) (simp add: st'_def)
  show "workers_ok st'"
    using coordinator_okD(1) [OF ok] q unfolding workers_ok_def queues by (simp add: st'_def)
  show "tasks_ok st'"
    using coordinator_okD(2) [OF ok] tasks_ok_cong [of st' st] by (simp add: st'_def)
  have "distinct (map fst (group_queue st' g)) \<and> (\<forall>(r, x) \<in> set (group_queue st' g). req_group_folder x = g)" for g
  proof -
    have D: "distinct (map fst (group_queue st h)) \<and> (\<forall>(r, x) \<in> set (group_queue st h). req_group_folder x = h)" for h
      using coordinator_okD(3) [OF ok] unfolding queues_ok_def by blast
    show ?thesis using D [of g] D [of folder] q by (cases "g = folder") (simp_all add: queues)
  qed
  then show "queues_ok st'" by (simp add: queues_ok_def)
  show "order_ok st'" using coordinator_okD(4) [OF ok] by (simp add: order_ok_def st'_def)
  fix r
  assume r: "r \<noteq> run \<or> dict_get (run_futures st) r \<noteq> Some Pending"
  have fields: "dict_get (run_futures st') r = dict_get (run_futures st) r"
    "run_requests st' = run_requests st" "statuses st' = statuses st" "running_backends st' = running_backends st"
    "completed_results st' = completed_results st" "completed_order st' = completed_order st"
    "cancelled_run_ids st' = cancelled_run_ids st" "delivered st' = delivered st"
    by (simp_all add: st'_def)
  have less: "queued_run st' r \<Longrightarrow> queued_run st r" using sub by (force simp: queued_run_def)
  have more: "queued_run st r \<Longrightarrow> r \<noteq> run \<Longrightarrow> queued_run st' r"
  proof -
    assume "queued_run st r" "r \<noteq> run"
    then obtain g x where g: "(r, x) \<in> set (group_queue st g)" by (auto simp: queued_run_def)
    with q \<open>r \<noteq> run\<close> have "(r, x) \<in> set (group_queue st' g)" by (cases "g = folder") (auto simp: queues)
    then show ?thesis unfolding queued_run_def by force
  qed
  show "run_ok st' r"
  proof (cases "dict_get (run_futures st) r")
    case None
    with coordinator_okD(5) [OF ok, of r] have "settled_run_ok st r" by (simp add: run_ok_def)
    then have "settled_run_ok st' r" unfolding settled_run_ok_def fields aw .
    then show ?thesis unfolding run_ok_def fields None by simp
  next
    case (Some f)
    with coordinator_okD(5) [OF ok, of r] have "active_run_ok st r f" by (simp add: run_ok_def)
    then obtain request where req: "dict_get (run_requests st) r = Some request"
      "\<And>g x. (r, x) \<in> set (group_queue st g) \<Longrightarrow> x = request"
      "dict_get (statuses st) r = Some Queued \<and> (\<forall>w t. \<not> awaits st w r t) \<and> (f = Pending \<longrightarrow> queued_run st r) \<or>
       dict_get (statuses st) r = Some Running \<and> (\<exists>w t. awaits st w r t) \<and>
         dict_get (running_backends st) r \<noteq> None \<and> \<not> queued_run st r"
      "r \<notin> set (completed_order st) \<and> r \<notin> cancelled_run_ids st \<and> r \<notin> fst ` set (delivered st) \<and>
       dict_get (completed_results st) r = None"
      unfolding active_run_ok_def by blast
    have pending: "f = Pending \<Longrightarrow> queued_run st r \<Longrightarrow> queued_run st' r" using more r Some by blast
    have same_request: "x = request" if "(r, x) \<in> set (group_queue st' g)" for g x
      using req(2) sub [of g] that by blast
    have "active_run_ok st' r f"
      unfolding active_run_ok_def fields aw
      using req(1,3,4) same_request less pending by metis
    then show ?thesis unfolding run_ok_def fields Some by simp
  qed
qed

lemma taken_from_queue:
  assumes ok: "coordinator_ok st" and q: "group_queue st folder = (run, request) # queue"
    and f: "dict_get (run_futures st) run = Some Pending"
  shows "taken (st\<lparr>group_queues := dict_set folder queue (group_queues st)\<rparr>) run request \<and>
    req_group_folder request = folder"
proof -
  let ?st' = "st\<lparr>group_queues := dict_set folder queue (group_queues st)\<rparr>"
  have req: "req_group_folder request = folder" "dict_get (run_requests st) run = Some request"
    using queue_request [OF ok _ f, of request folder] q by auto
  have active: "active_run_ok st run Pending" using coordinator_okD(5) [OF ok, of run] f by (simp add: run_ok_def)
  have "queued_run st run" unfolding queued_run_def using q by (intro exI [of _ folder]) simp
  with active have aw: "\<not> awaits st w run t" for w t by (auto simp: active_run_ok_def)
  have "\<not> queued_run ?st' run"
  proof
    assume "queued_run ?st' run"
    then obtain g r where g: "(run, r) \<in> set (group_queue ?st' g)" by (auto simp: queued_run_def)
    then have "(run, r) \<in> set (group_queue st g)"
      using q by (auto simp: group_queue_popped split: if_splits)
    with queue_request [OF ok this f] req have "g = folder" by simp
    with g have "run \<in> fst ` set queue" by (force simp: group_queue_popped)
    moreover have "distinct (map fst (group_queue st folder))"
      using coordinator_okD(3) [OF ok] unfolding queues_ok_def by blast
    ultimately show False using q by simp
  qed
  with pop_ok [OF ok q] f req active aw awaits_cong [of ?st' st] show ?thesis
    by (simp add: taken_def active_run_ok_def)
qed

lemma serve_queue_ok:
  assumes "coordinator_ok st" "worker_tasks st w = Some (Ready folder)" "group_queue st folder = queue"
  shows "coordinator_ok (serve_queue w folder now queue st)"
  using assms
proof (induction queue arbitrary: st)
  case Nil
  let ?st' = "serve_queue w folder now [] st"
  have st': "?st' = st\<lparr>group_workers := dict_pop folder (group_workers st),
      worker_tasks := (worker_tasks st)(w := None)\<rparr>" by simp
  note W = coordinator_okD(1) [OF Nil.prems(1), unfolded workers_ok_def]
  have q: "group_queue ?st' = group_queue st" by (rule group_queue_cong) simp
  have aw: "awaits ?st' = awaits st"
    using Nil.prems(2) by (intro ext) (auto simp: awaits_def)
  have gw: "dict_get (group_workers st) folder = Some w" using W Nil.prems(2) by fastforce
  have "workers_ok ?st'"
    unfolding workers_ok_def q
  proof (intro conjI allI impI)
    fix v x assume "worker_tasks ?st' v = Some x"
    then have v: "v \<noteq> w" "worker_tasks st v = Some x" by (auto split: if_splits)
    with W have "v < next_worker st" "dict_get (group_workers st) (worker_folder x) = Some v" by blast+
    moreover from this v gw have "worker_folder x \<noteq> folder" by auto
    ultimately show "v < next_worker ?st'" "dict_get (group_workers ?st') (worker_folder x) = Some v" by simp_all
  next
    fix g v assume "dict_get (group_workers ?st') g = Some v"
    then have g: "g \<noteq> folder" "dict_get (group_workers st) g = Some v" by (auto split: if_splits)
    with W obtain x where x: "worker_tasks st v = Some x" "worker_folder x = g" by blast
    with g Nil.prems(2) have "v \<noteq> w" by auto
    with x show "\<exists>x. worker_tasks ?st' v = Some x \<and> worker_folder x = g" by simp
  next
    fix g assume "group_queue st g \<noteq> []"
    with W Nil.prems(3) show "dict_get (group_workers ?st') g \<noteq> None" by auto
  qed
  moreover have "tasks_ok ?st'"
  proof (rule tasks_okI, unfold aw)
    note D = tasks_okD [OF coordinator_okD(2) [OF Nil.prems(1)]]
    fix v f r t
    assume "worker_tasks ?st' v = Some (Awaiting f r t)"
    then have "worker_tasks st v = Some (Awaiting f r t)" by (simp split: if_splits)
    from D(1) [OF this] show "t < next_execution ?st' \<and> task_fits ?st' f r t"
      using task_fits_cong [of ?st' t st r f] by simp
  qed (use tasks_okD [OF coordinator_okD(2) [OF Nil.prems(1)]] in \<open>simp; blast\<close>)+
  moreover have "queues_ok ?st'" "order_ok ?st'"
    using coordinator_okD(3,4) [OF Nil.prems(1)] queues_ok_cong [of ?st' st] by (simp_all add: order_ok_def)
  moreover have "run_ok ?st' r" for r
    using coordinator_okD(5) [OF Nil.prems(1), of r] run_ok_same [OF aw q, of r] by simp
  ultimately show ?case by (simp add: coordinator_ok_def)
next
  case (Cons entry queue)
  obtain run request where entry: "entry = (run, request)" by (cases entry)
  let ?st1 = "st\<lparr>group_queues := dict_set folder queue (group_queues st)\<rparr>"
  have q1: "group_queue ?st1 folder = queue" by (simp add: group_queue_def)
  note q = Cons.prems(3) [unfolded entry]
  show ?case
  proof (cases "dict_get (run_futures st) run = Some Pending")
    case False
    with pop_ok [OF Cons.prems(1) q] have "coordinator_ok ?st1"
      by (simp add: coordinator_ok_def)
    from Cons.IH [OF this] Cons.prems(2) q1 False entry show ?thesis by simp
  next
    case True
    note T = taken_from_queue [OF Cons.prems(1) q True]
    obtain outcome st2 where ex: "execute_request run request now ?st1 = (outcome, st2)" by fastforce
    show ?thesis
    proof (cases outcome)
      case None
      with execute_request_settled [of ?st1 run request now st2] T ex
      have st2: "coordinator_ok st2" "worker_tasks st2 = worker_tasks st" "group_queue st2 = group_queue ?st1"
        using group_queue_cong [of st2 ?st1] by auto
      from Cons.IH [OF st2(1)] st2(2,3) Cons.prems(2) q1 True ex None entry show ?thesis by simp
    next
      case (Some t)
      with execute_request_started [of ?st1 run request now t st2 w] T ex Cons.prems(2) True entry
      show ?thesis by simp
    qed
  qed
qed

end
