(* ===== verification/CoordinatorProtocol.thy ===== *)
theory CoordinatorProtocol
  imports CoordinatorInvariant
begin

text \<open>
  The execution coordinator as a protocol: the steps of \<open>ExecutionCoordinator\<close> as one step relation
  under the contract of the backends, its reachable states, and the properties its callers rely on.
\<close>

section \<open>Every step keeps the invariant\<close>

lemma worker_starts_ok:
  "coordinator_ok st \<Longrightarrow> coordinator_ok (worker_starts st w now)"
  by (auto simp: worker_starts_def serve_queue_ok split: option.split worker.split)

text \<open>A worker whose execution task is done is about to run its loop again.\<close>

definition woken :: "coordinator \<Rightarrow> nat \<Rightarrow> string \<Rightarrow> string \<Rightarrow> string set \<Rightarrow> coordinator" where
  "woken st w folder run cancelled =
     (forget_running run (st\<lparr>worker_tasks := (worker_tasks st)(w \<mapsto> Ready folder)\<rparr>))\<lparr>cancelled_run_ids := cancelled\<rparr>"

lemma woken_sel [simp]:
  "worker_tasks (woken st w folder run C) = (worker_tasks st)(w \<mapsto> Ready folder)"
  "next_worker (woken st w folder run C) = next_worker st"
  "group_workers (woken st w folder run C) = group_workers st"
  "group_queues (woken st w folder run C) = group_queues st"
  "group_queue (woken st w folder run C) = group_queue st"
  "next_execution (woken st w folder run C) = next_execution st"
  "execution_tasks (woken st w folder run C) = execution_tasks st"
  "cancelled_run_ids (woken st w folder run C) = C"
  "max_completed_runs (woken st w folder run C) = max_completed_runs st"
  "completed_order (woken st w folder run C) = completed_order st"
  "delivered (woken st w folder run C) = delivered st"
  "run_futures (woken st w folder run C) = run_futures st"
  "run_requests (woken st w folder run C) = run_requests st"
  "statuses (woken st w folder run C) = statuses st"
  "running_backends (woken st w folder run C) = dict_pop run (running_backends st)"
  "completed_results (woken st w folder run C) = completed_results st"
  by (simp_all add: woken_def forget_running_def group_queue_def fun_eq_iff)

lemma woken_ok:
  assumes ok: "coordinator_ok st" and w: "worker_tasks st w = Some (Awaiting folder run t)"
    and t: "execution_tasks st t = Some (Inr outcome)"
    and C: "\<And>r. r \<noteq> run \<Longrightarrow> r \<in> C \<longleftrightarrow> r \<in> cancelled_run_ids st"
  defines "st' \<equiv> woken st w folder run C"
  shows "workers_ok st' \<and> tasks_ok st' \<and> queues_ok st' \<and> order_ok st' \<and>
    (\<forall>r. r \<noteq> run \<longrightarrow> run_ok st' r) \<and> (\<forall>v u. \<not> awaits st' v run u)"
proof (intro conjI allI impI)
  have here: "awaits st w run t" using w by (simp add: awaits_def)
  have aw: "awaits st' v r u \<longleftrightarrow> v \<noteq> w \<and> awaits st v r u" for v r u
    by (simp add: awaits_def st'_def)
  note D = tasks_okD [OF coordinator_okD(2) [OF ok]]
  show "workers_ok st'"
    using coordinator_okD(1) [OF ok] w unfolding workers_ok_def st'_def
    by (simp, metis option.inject worker_folder.simps)
  show gone: "\<not> awaits st' v run u" for v u
    using D(3) [OF here, of v run u] by (auto simp: aw)
  show "tasks_ok st'"
  proof (rule tasks_okI)
    fix v f r u
    assume v: "worker_tasks st' v = Some (Awaiting f r u)"
    then have old: "worker_tasks st v = Some (Awaiting f r u)" by (auto simp: st'_def split: if_splits)
    from v gone have "r \<noteq> run" by (auto simp: awaits_def)
    then have "task_fits st' f r u = task_fits st f r u"
      using C by (intro task_fits_cong) (simp_all add: st'_def)
    with D(1) [OF old] show "u < next_execution st' \<and> task_fits st' f r u" by (simp add: st'_def)
  next
    fix u task
    assume "execution_tasks st' u = Some (Inl task)"
    then have u: "execution_tasks st u = Some (Inl task)" by (simp add: st'_def)
    from D(2) [OF u] obtain v where v: "awaits st v (task_run task) u" by blast
    have "v \<noteq> w"
    proof
      assume "v = w"
      with v w have "u = t" by (simp add: awaits_def)
      with u t show False by simp
    qed
    with v show "\<exists>v. awaits st' v (task_run task) u" by (auto simp: aw)
  next
    fix v v' r r' u u'
    assume "awaits st' v r u" "awaits st' v' r' u'" "r = r' \<or> u = u'"
    then show "v = v'" using D(3) by (auto simp: aw)
  qed
  show "queues_ok st'" using coordinator_okD(3) [OF ok] by (simp add: queues_ok_def st'_def)
  show "order_ok st'" using coordinator_okD(4) [OF ok] by (simp add: order_ok_def st'_def)
  fix r
  assume r: "r \<noteq> run"
  have same: "(\<exists>v u. awaits st' v r u) \<longleftrightarrow> (\<exists>v u. awaits st v r u)"
  proof -
    have "v \<noteq> w" if "awaits st v r u" for v u using that r w by (auto simp: awaits_def)
    then show ?thesis unfolding aw by blast
  qed
  then have none: "(\<forall>v u. \<not> awaits st' v r u) \<longleftrightarrow> (\<forall>v u. \<not> awaits st v r u)" by blast
  have "run_ok st' r \<longleftrightarrow> run_ok st r"
    unfolding run_ok_def active_run_ok_def settled_run_ok_def same none queued_run_def
    using r C by (simp add: st'_def split: option.split)
  then show "run_ok st' r" using coordinator_okD(5) [OF ok] by simp
qed

lemma worker_wakes_ok:
  assumes ok: "coordinator_ok st"
  shows "coordinator_ok (worker_wakes st w now)"
proof (cases "\<exists>folder run t outcome. worker_tasks st w = Some (Awaiting folder run t) \<and>
    execution_tasks st t = Some (Inr outcome)")
  case False
  with ok show ?thesis
    by (auto simp: worker_wakes_def split: option.split worker.split sum.split)
next
  case True
  then obtain folder run t outcome where w: "worker_tasks st w = Some (Awaiting folder run t)"
    and t: "execution_tasks st t = Some (Inr outcome)" by blast
  have fits: "task_fits st folder run t" using tasks_okD(1) [OF coordinator_okD(2) [OF ok] w] by simp
  let ?C = "cancelled_run_ids st"
  have serve: "coordinator_ok (serve_queue w folder now (group_queue s folder) s)"
    if "coordinator_ok s" "worker_tasks s w = Some (Ready folder)" for s
    using that by (intro serve_queue_ok) simp_all
  have st1: "forget_running run (st\<lparr>worker_tasks := (worker_tasks st)(w \<mapsto> Ready folder)\<rparr>) = woken st w folder run ?C"
    by (simp add: woken_def forget_running_def)
  have discard: "(woken st w folder run ?C)\<lparr>cancelled_run_ids := ?C - {run}\<rparr> =
      woken st w folder run (?C - {run})"
    by (simp add: woken_def forget_running_def)
  show ?thesis
  proof (cases "run \<in> ?C")
    case True
    have W: "workers_ok (woken st w folder run (?C - {run})) \<and> tasks_ok (woken st w folder run (?C - {run})) \<and>
        queues_ok (woken st w folder run (?C - {run})) \<and> order_ok (woken st w folder run (?C - {run})) \<and>
        (\<forall>r. r \<noteq> run \<longrightarrow> run_ok (woken st w folder run (?C - {run})) r) \<and>
        (\<forall>v u. \<not> awaits (woken st w folder run (?C - {run})) v run u)"
      by (rule woken_ok [OF ok w t]) simp
    have none: "dict_get (run_futures st) run = None"
    proof (rule ccontr)
      assume "dict_get (run_futures st) run \<noteq> None"
      then obtain f where "dict_get (run_futures st) run = Some f" by blast
      with coordinator_okD(5) [OF ok, of run] True show False by (simp add: run_ok_def active_run_ok_def)
    qed
    with coordinator_okD(5) [OF ok, of run] have "settled_run_ok st run" by (simp add: run_ok_def)
    moreover have "\<not> (\<exists>v u. awaits (woken st w folder run (?C - {run})) v run u)" using W by blast
    ultimately have "settled_run_ok (woken st w folder run (?C - {run})) run"
      unfolding settled_run_ok_def woken_sel by blast
    with none have "run_ok (woken st w folder run (?C - {run})) run" by (simp add: run_ok_def)
    with W have "coordinator_ok (woken st w folder run (?C - {run}))"
      by (auto simp: coordinator_ok_def)
    from serve [OF this] True show ?thesis
      by (simp add: worker_wakes_def w t st1 discard Let_def split: task_outcome.split)
  next
    case False
    have W: "workers_ok (woken st w folder run ?C) \<and> tasks_ok (woken st w folder run ?C) \<and>
        queues_ok (woken st w folder run ?C) \<and> order_ok (woken st w folder run ?C) \<and>
        (\<forall>r. r \<noteq> run \<longrightarrow> run_ok (woken st w folder run ?C) r) \<and>
        (\<forall>v u. \<not> awaits (woken st w folder run ?C) v run u)"
      by (rule woken_ok [OF ok w t]) simp
    from False fits t obtain result where result: "outcome = Returned result" "res_run_id result = run"
      "terminal (res_status result)"
      by (auto simp: task_fits_def split: task_outcome.splits)
    have "awaits st w run t" using w by (simp add: awaits_def)
    with coordinator_okD(5) [OF ok, of run] False obtain f where "active_run_ok st run f"
      by (auto simp: run_ok_def settled_run_ok_def split: option.splits)
    then have "coordinator_ok (store_terminal_result result now (woken st w folder run ?C))"
      using W result by (intro store_terminal_ok [of _ run]) (auto simp: active_run_ok_def)
    from serve [OF this] False result(1) show ?thesis
      by (simp add: worker_wakes_def w t st1 Let_def)
  qed
qed

subsection \<open>Submitting\<close>

text \<open>A run id that nothing in the coordinator refers to.\<close>

definition unused :: "coordinator \<Rightarrow> string \<Rightarrow> bool" where
  "unused st run \<longleftrightarrow>
     dict_get (run_futures st) run = None \<and> \<not> queued_run st run \<and> (\<forall>w t. \<not> awaits st w run t) \<and>
     run \<notin> set (completed_order st) \<and> run \<notin> cancelled_run_ids st \<and> run \<notin> fst ` set (delivered st) \<and>
     dict_get (completed_results st) run = None"

definition enqueued :: "coordinator \<Rightarrow> execution_request \<Rightarrow> string \<Rightarrow> execution_run_snapshot \<Rightarrow> coordinator" where
  "enqueued st request run snapshot =
     st\<lparr>next_uuid := Suc (next_uuid st), run_futures := dict_set run Pending (run_futures st),
        run_requests := dict_set run request (run_requests st),
        statuses := dict_set run Queued (statuses st),
        run_snapshots := dict_set run snapshot (run_snapshots st),
        group_queues := dict_set (req_group_folder request)
          (group_queue st (req_group_folder request) @ [(run, request)]) (group_queues st)\<rparr>"

lemma submit_execution_eq:
  "\<exists>snapshot. submit_execution st request now =
     (submit_run_id st request,
      ensure_worker (req_group_folder request) (enqueued st request (submit_run_id st request) snapshot))"
  by (auto simp: submit_execution_def Let_def enqueued_def group_queue_def)

lemma enqueued_ok:
  fixes request :: execution_request and snapshot :: execution_run_snapshot
  assumes ok: "coordinator_ok st" and new: "unused st run"
  defines "st' \<equiv> enqueued st request run snapshot"
  shows "tasks_ok st' \<and> queues_ok st' \<and> order_ok st' \<and> (\<forall>r. run_ok st' r) \<and>
    (\<forall>g. group_queue st' g \<noteq> [] \<longrightarrow> g = req_group_folder request \<or> group_queue st g \<noteq> [])"
proof (intro conjI allI)
  let ?g = "req_group_folder request"
  have queues: "group_queue st' g = (if g = ?g then group_queue st g @ [(run, request)] else group_queue st g)" for g
    by (simp add: st'_def enqueued_def group_queue_def)
  have fields: "worker_tasks st' = worker_tasks st" "running_backends st' = running_backends st"
    "completed_results st' = completed_results st" "completed_order st' = completed_order st"
    "cancelled_run_ids st' = cancelled_run_ids st" "delivered st' = delivered st"
    "next_execution st' = next_execution st" "execution_tasks st' = execution_tasks st"
    "max_completed_runs st' = max_completed_runs st"
    "dict_get (run_futures st') = (dict_get (run_futures st))(run \<mapsto> Pending)"
    "dict_get (run_requests st') = (dict_get (run_requests st))(run \<mapsto> request)"
    "dict_get (statuses st') = (dict_get (statuses st))(run \<mapsto> Queued)"
    by (simp_all add: st'_def enqueued_def)
  have aw: "awaits st' = awaits st" by (rule awaits_cong) (rule fields(1))
  show "tasks_ok st'"
    using coordinator_okD(2) [OF ok] tasks_ok_cong [of st' st] by (simp add: fields)
  have "distinct (map fst (group_queue st' g)) \<and> (\<forall>(r, x) \<in> set (group_queue st' g). req_group_folder x = g)" for g
  proof -
    have "distinct (map fst (group_queue st g)) \<and> (\<forall>(r, x) \<in> set (group_queue st g). req_group_folder x = g)"
      using coordinator_okD(3) [OF ok] unfolding queues_ok_def by blast
    moreover have "run \<notin> fst ` set (group_queue st g)" using new by (auto simp: unused_def queued_run_def)
    ultimately show ?thesis by (cases "g = ?g") (simp_all add: queues)
  qed
  then show "queues_ok st'" by (simp add: queues_ok_def)
  show "order_ok st'" using coordinator_okD(4) [OF ok] by (simp add: order_ok_def fields)
  fix r
  have queued: "queued_run st' r \<longleftrightarrow> r = run \<or> queued_run st r"
  proof
    assume "r = run \<or> queued_run st r"
    then obtain g where "r \<in> fst ` set (group_queue st' g)"
    proof
      assume "queued_run st r"
      then obtain g where "r \<in> fst ` set (group_queue st g)" by (auto simp: queued_run_def)
      then have "r \<in> fst ` set (group_queue st' g)" by (auto simp: queues)
      then show ?thesis by (rule that)
    qed (auto simp: queues intro: that [of ?g])
    then show "queued_run st' r" by (auto simp: queued_run_def)
  qed (auto simp: queued_run_def queues split: if_splits)
  show "run_ok st' r"
  proof (cases "r = run")
    case True
    have "x = request" if "(run, x) \<in> set (group_queue st' g)" for g x
    proof (rule ccontr)
      assume "x \<noteq> request"
      with that have "(run, x) \<in> set (group_queue st g)" by (auto simp: queues split: if_splits)
      then have "queued_run st run" unfolding queued_run_def by force
      with new show False by (simp add: unused_def)
    qed
    moreover have "queued_run st' run" using queued True by simp
    ultimately have "active_run_ok st' run Pending"
      unfolding active_run_ok_def fields aw using new by (simp add: unused_def)
    with True show ?thesis by (simp add: run_ok_def fields)
  next
    case False
    have entry: "(r, x) \<in> set (group_queue st' g) \<longleftrightarrow> (r, x) \<in> set (group_queue st g)" for g x
      using False by (simp add: queues)
    have "run_ok st' r = run_ok st r"
      unfolding run_ok_def active_run_ok_def settled_run_ok_def fields aw queued entry
      using False by (simp split: option.split)
    with coordinator_okD(5) [OF ok] show ?thesis by simp
  qed
next
  fix g
  show "group_queue st' g \<noteq> [] \<longrightarrow> g = req_group_folder request \<or> group_queue st g \<noteq> []"
    by (simp add: st'_def enqueued_def group_queue_def)
qed

lemma ensure_worker_ok:
  assumes W: "\<forall>w x. worker_tasks st w = Some x \<longrightarrow>
        w < next_worker st \<and> dict_get (group_workers st) (worker_folder x) = Some w"
      "\<forall>g w. dict_get (group_workers st) g = Some w \<longrightarrow> (\<exists>x. worker_tasks st w = Some x \<and> worker_folder x = g)"
      "\<forall>g. group_queue st g \<noteq> [] \<longrightarrow> g = folder \<or> dict_get (group_workers st) g \<noteq> None"
    and parts: "tasks_ok st" "queues_ok st" "order_ok st" "\<forall>r. run_ok st r"
  shows "coordinator_ok (ensure_worker folder st)"
proof (cases "dict_get (group_workers st) folder")
  case (Some w)
  from W(2) Some obtain x where "worker_tasks st w = Some x" by blast
  with Some have "ensure_worker folder st = st" by (simp add: ensure_worker_def Let_def)
  with W parts Some show ?thesis by (auto simp: coordinator_ok_def workers_ok_def)
next
  case None
  let ?st' = "ensure_worker folder st"
  have st': "?st' = st\<lparr>group_workers := dict_set folder (next_worker st) (group_workers st),
      worker_tasks := (worker_tasks st)(next_worker st \<mapsto> Ready folder), next_worker := Suc (next_worker st)\<rparr>"
    using None by (simp add: ensure_worker_def Let_def)
  have free: "worker_tasks st (next_worker st) = None" using W(1) by (metis less_irrefl option.exhaust)
  have aw: "awaits ?st' = awaits st" by (intro ext) (auto simp: awaits_def st' free)
  have q: "group_queue ?st' = group_queue st" by (rule group_queue_cong) (simp add: st')
  have "workers_ok ?st'"
    unfolding workers_ok_def q
  proof (intro conjI allI impI)
    fix w x assume "worker_tasks ?st' w = Some x"
    then have w: "w = next_worker st \<and> x = Ready folder \<or> w \<noteq> next_worker st \<and> worker_tasks st w = Some x"
      by (auto simp: st' split: if_splits)
    then show "w < next_worker ?st'" using W(1) by (auto simp: st' less_Suc_eq)
    from w W(1) None show "dict_get (group_workers ?st') (worker_folder x) = Some w" by (auto simp: st')
  next
    fix g w assume "dict_get (group_workers ?st') g = Some w"
    then show "\<exists>x. worker_tasks ?st' w = Some x \<and> worker_folder x = g"
      using W(2) free by (fastforce simp: st' split: if_splits)
  next
    fix g assume "group_queue st g \<noteq> []"
    with W(3) show "dict_get (group_workers ?st') g \<noteq> None" by (auto simp: st')
  qed
  moreover have "tasks_ok ?st'"
  proof (rule tasks_okI, unfold aw)
    fix v f r t assume "worker_tasks ?st' v = Some (Awaiting f r t)"
    then have "worker_tasks st v = Some (Awaiting f r t)" by (auto simp: st' split: if_splits)
    from tasks_okD(1) [OF parts(1) this] show "t < next_execution ?st' \<and> task_fits ?st' f r t"
      using task_fits_cong [of ?st' t st r f] by (simp add: st')
  qed (use tasks_okD [OF parts(1)] in \<open>simp add: st'; blast\<close>)+
  moreover have "queues_ok ?st'" using parts(2) queues_ok_cong [of ?st' st] by (simp add: st')
  moreover have "order_ok ?st'" using parts(3) by (simp add: order_ok_def st')
  moreover have "run_ok ?st' r" for r using parts(4) run_ok_same [OF aw q, of r] by (simp add: st')
  ultimately show ?thesis by (simp add: coordinator_ok_def)
qed

lemma submit_execution_ok:
  assumes ok: "coordinator_ok st" and new: "unused st (submit_run_id st request)"
  shows "coordinator_ok (snd (submit_execution st request now))"
proof -
  obtain snapshot where eq: "submit_execution st request now =
     (submit_run_id st request,
      ensure_worker (req_group_folder request) (enqueued st request (submit_run_id st request) snapshot))"
    using submit_execution_eq by blast
  let ?e = "enqueued st request (submit_run_id st request) snapshot"
  note E = enqueued_ok [OF ok new, of request snapshot]
  have same: "worker_tasks ?e = worker_tasks st" "next_worker ?e = next_worker st" "group_workers ?e = group_workers st"
    by (simp_all add: enqueued_def)
  have "coordinator_ok (ensure_worker (req_group_folder request) ?e)"
    using coordinator_okD(1) [OF ok] E
    by (intro ensure_worker_ok) (simp_all add: workers_ok_def same, blast)
  then show ?thesis by (simp add: eq)
qed

subsection \<open>Answers of a backend\<close>

text \<open>
  The contract of a backend (the protocol \<open>ExecutionBackend\<close>): a result names the run it was called
  for and is final, and a call is only cancelled by \<open>cancel\<close>.
\<close>

fun answer_ok :: "coordinator \<Rightarrow> string \<Rightarrow> backend_answer \<Rightarrow> bool" where
  "answer_ok st run (Direct_result result) \<longleftrightarrow> res_run_id result = run \<and> terminal (res_status result)"
| "answer_ok st run (Raw_result raw) \<longleftrightarrow> (case raw_status raw of None \<Rightarrow> True | Some s \<Rightarrow> terminal s)"
| "answer_ok st run Cancelled_error \<longleftrightarrow> run \<in> cancelled_run_ids st"
| "answer_ok st run _ \<longleftrightarrow> True"

text \<open>An execution task changes: it goes on with the same run, or it ends with an outcome that fits.\<close>

lemma update_task_ok:
  assumes ok: "coordinator_ok st" and t: "execution_tasks st t = Some (Inl task)"
    and x: "case x of Inl task' \<Rightarrow> task_run task' = task_run task \<and> task_request task' = task_request task
      | Inr (Returned result) \<Rightarrow> res_run_id result = task_run task \<and> terminal (res_status result)
      | Inr Task_cancelled \<Rightarrow> task_run task \<in> cancelled_run_ids st"
  shows "coordinator_ok (st\<lparr>execution_tasks := (execution_tasks st)(t \<mapsto> x)\<rparr>)" (is "coordinator_ok ?st'")
proof -
  have aw: "awaits ?st' = awaits st" by (rule awaits_cong) simp
  have q: "group_queue ?st' = group_queue st" by (rule group_queue_cong) simp
  note D = tasks_okD [OF coordinator_okD(2) [OF ok]]
  obtain w where w: "awaits st w (task_run task) t" using D(2) [OF t] by blast
  have "tasks_ok ?st'"
  proof (rule tasks_okI, unfold aw)
    fix v f r u assume "worker_tasks ?st' v = Some (Awaiting f r u)"
    then have v: "worker_tasks st v = Some (Awaiting f r u)" by simp
    show "u < next_execution ?st' \<and> task_fits ?st' f r u"
    proof (cases "u = t")
      case True
      with D(1) [OF v] t x show ?thesis
        by (auto simp: task_fits_def split: sum.splits task_outcome.splits)
    next
      case False
      with D(1) [OF v] task_fits_cong [of ?st' u st r f] show ?thesis by simp
    qed
  next
    fix u y assume "execution_tasks ?st' u = Some (Inl y)"
    then show "\<exists>v. awaits st v (task_run y) u" using D(2) w x by (auto split: if_splits)
  qed (use D(3) in blast)
  moreover have "workers_ok ?st'" using coordinator_okD(1) [OF ok] workers_ok_cong [of ?st' st] by simp
  moreover have "queues_ok ?st'" using coordinator_okD(3) [OF ok] queues_ok_cong [of ?st' st] by simp
  moreover have "order_ok ?st'" using coordinator_okD(4) [OF ok] by (simp add: order_ok_def)
  moreover have "run_ok ?st' r" for r
    using coordinator_okD(5) [OF ok, of r] run_ok_same [OF aw q, of r] by simp
  ultimately show ?thesis by (simp add: coordinator_ok_def)
qed

lemma update_task_core_ok:
  assumes "coordinator_ok st" "core st' = core st" "execution_tasks st t = Some (Inl task)"
    and "case x of Inl task' \<Rightarrow> task_run task' = task_run task \<and> task_request task' = task_request task
      | Inr (Returned result) \<Rightarrow> res_run_id result = task_run task \<and> terminal (res_status result)
      | Inr Task_cancelled \<Rightarrow> task_run task \<in> cancelled_run_ids st"
  shows "coordinator_ok (st'\<lparr>execution_tasks := (execution_tasks st')(t \<mapsto> x)\<rparr>)"
proof -
  have eqs: "execution_tasks st' = execution_tasks st" "cancelled_run_ids st' = cancelled_run_ids st"
    using assms(2) by (simp_all add: core_def)
  have "coordinator_ok st'" using assms(1) core_same(6) [OF assms(2)] by simp
  then show ?thesis
    by (rule update_task_ok [OF _ assms(3) [folded eqs(1)] assms(4) [folded eqs(2)]])
qed

lemma backend_answers_ok:
  assumes ok: "coordinator_ok st"
    and contract: "\<And>task. execution_tasks st t = Some (Inl task) \<Longrightarrow> answer_ok st (task_run task) answer"
  shows "coordinator_ok (backend_answers st t answer)"
proof (cases "\<exists>task. execution_tasks st t = Some (Inl task)")
  case False
  with ok show ?thesis by (auto simp: backend_answers_def split: option.split sum.split)
next
  case True
  then obtain task where t: "execution_tasks st t = Some (Inl task)" by blast
  note C = contract [OF t]
  let ?run = "task_run task"
  have returned: "coordinator_ok (st'\<lparr>execution_tasks := (execution_tasks st')(t \<mapsto> Inr (Returned result))\<rparr>)"
    if "core st' = core st" "res_run_id result = ?run" "terminal (res_status result)" for st' result
    using that by (intro update_task_core_ok [OF ok _ t]) simp_all
  have failed: "terminal Failed" "terminal Timeout" "terminal Completed" by (simp_all add: terminal_def)
  show ?thesis
  proof (cases "run_backend_with_timeout ?run (task_request task) (task_backend task) (task_session task) answer")
    case (Run_result result c)
    with C failed have r: "res_run_id result = ?run" "terminal (res_status result)"
      by (auto simp: run_backend_with_timeout_def split: backend_answer.splits option.splits)
    have "core (if uses_workspace_session (task_backend task) \<and> res_status result = Completed
        then s\<lparr>session_states := x\<rparr> else s) = core s" for s :: coordinator and x by simp
    then show ?thesis
      using returned [OF _ r]
      by (auto simp: backend_answers_def t Run_result Let_def finish_with_result_def finish_task_def)
  next
    case (Run_error e)
    show ?thesis
    proof (cases "task_attempt task")
      case First_attempt
      show ?thesis
      proof (cases "should_retry_session_resume (task_backend task) (task_request task) answer")
        case True
        let ?st2 = "(mark_recovery_attempt ?run e st)\<lparr>session_states :=
            invalidate (session_states (mark_recovery_attempt ?run e st)) (task_key task)\<rparr>"
        let ?p = "resolve_session_id ?st2 (task_request task) (task_backend task) (Some True)"
        have core: "core (snd ?p\<lparr>run_session_ids := y\<rparr>) = core st" for y by simp
        have "backend_answers st t answer =
            (snd ?p\<lparr>run_session_ids := dict_set ?run (fst ?p) (run_session_ids (snd ?p))\<rparr>)
              \<lparr>execution_tasks := (execution_tasks (snd ?p\<lparr>run_session_ids :=
                  dict_set ?run (fst ?p) (run_session_ids (snd ?p))\<rparr>))
                (t \<mapsto> Inl (task\<lparr>task_session := fst ?p, task_attempt := Retry_attempt\<rparr>))\<rparr>"
          using First_attempt True Run_error
          by (simp add: backend_answers_def t Let_def case_prod_beta)
        then show ?thesis
          using update_task_core_ok [OF ok core t, of "Inl (task\<lparr>task_session := fst ?p, task_attempt := Retry_attempt\<rparr>)"]
          by simp
      next
        case False
        with First_attempt Run_error failed show ?thesis
          using returned [of st] by (simp add: backend_answers_def t Let_def finish_task_def)
      qed
    next
      case Retry_attempt
      with Run_error failed show ?thesis
        using returned [of "mark_recovery_result ?run False st"]
        by (simp add: backend_answers_def t Let_def finish_task_def)
    qed
  next
    case Run_cancelled
    with C have "?run \<in> cancelled_run_ids st"
      by (auto simp: run_backend_with_timeout_def split: backend_answer.splits)
    then show ?thesis
      using update_task_ok [OF ok t, of "Inr Task_cancelled"] Run_cancelled
      by (simp add: backend_answers_def t Let_def finish_task_def)
  qed
qed

subsection \<open>Cancelling\<close>

lemma active_run:
  "coordinator_ok st \<Longrightarrow> dict_get (statuses st) run \<in> {Some Queued, Some Running} \<Longrightarrow>
   \<exists>f. dict_get (run_futures st) run = Some f \<and> active_run_ok st run f"
  using coordinator_okD(5) [of st run]
  by (auto simp: run_ok_def settled_run_ok_def split: option.splits)

lemma cancel_ok:
  assumes ok: "coordinator_ok st"
  shows "coordinator_ok (snd (cancel st run now))"
proof (cases "dict_get (statuses st) run \<in> {Some Queued, Some Running} \<and> dict_get (run_requests st) run \<noteq> None")
  case False
  with ok show ?thesis by (auto simp: cancel_def Let_def case_prod_beta split: option.split)
next
  case True
  then obtain request where req: "dict_get (run_requests st) run = Some request" by blast
  from active_run [OF ok] True obtain f where f: "dict_get (run_futures st) run = Some f" "active_run_ok st run f"
    by blast
  let ?b = "safe_select_backend_name st request"
  let ?p = "resolve_session_id st request ?b None"
  have p: "core (snd ?p) = core st" by simp
  note same = core_same [OF p]
  have terminal: "terminal Cancelled" by (simp add: terminal_def)
  show ?thesis
  proof (cases "dict_get (statuses st) run = Some Queued")
    case queued: True
    have "coordinator_ok (store_terminal_result (build_result run request ?b (fst ?p) Cancelled None) now (snd ?p))"
    proof (rule store_terminal_ok [of _ run], unfold same)
      show "run \<in> cancelled_run_ids (snd ?p)" if "awaits (snd ?p) w run t" for w t
        using that f(2) queued by (auto simp: active_run_ok_def awaits_def)
    qed (use coordinator_okD [OF ok] f(2) terminal in \<open>auto simp: active_run_ok_def\<close>)
    then show ?thesis by (simp add: cancel_def queued req Let_def case_prod_beta)
  next
    case False
    with True f(2) have running: "dict_get (statuses st) run = Some Running"
      "dict_get (running_backends st) run \<noteq> None" by (auto simp: active_run_ok_def)
    let ?st2 = "snd ?p\<lparr>cancelled_run_ids := insert run (cancelled_run_ids (snd ?p)),
        statuses := dict_set run Cancelled (statuses (snd ?p))\<rparr>"
    have aw: "awaits ?st2 = awaits st" by (rule awaits_cong) simp
    have q: "group_queue ?st2 = group_queue st" by (rule group_queue_cong) simp
    have "tasks_ok ?st2"
    proof (rule tasks_okI, unfold aw)
      fix v g r t assume "worker_tasks ?st2 v = Some (Awaiting g r t)"
      then have "worker_tasks st v = Some (Awaiting g r t)" by simp
      from tasks_okD(1) [OF coordinator_okD(2) [OF ok] this]
      show "t < next_execution ?st2 \<and> task_fits ?st2 g r t"
        by (auto simp: task_fits_def split: option.splits sum.splits task_outcome.splits)
    qed (use tasks_okD [OF coordinator_okD(2) [OF ok]] in \<open>simp; blast\<close>)+
    moreover have "run_ok ?st2 r" if "r \<noteq> run" for r
      using that coordinator_okD(5) [OF ok, of r] run_ok_same [OF aw q, of r] by simp
    moreover have "workers_ok ?st2" using coordinator_okD(1) [OF ok] workers_ok_cong [of ?st2 st] by simp
    moreover have "queues_ok ?st2" using coordinator_okD(3) [OF ok] queues_ok_cong [of ?st2 st] by simp
    moreover have "order_ok ?st2" using coordinator_okD(4) [OF ok] by (simp add: order_ok_def)
    ultimately have stored: "coordinator_ok (store_terminal_result (build_result run request ?b sid Cancelled None) now ?st2)" for sid
      using f(2) terminal by (intro store_terminal_ok [of _ run]) (auto simp: active_run_ok_def)
    obtain sid where "snd (cancel st run now) = note_backend_cancel True run
        (store_terminal_result (build_result run request ?b sid Cancelled None) now ?st2)"
      using running req by (auto simp: cancel_def Let_def case_prod_beta split: option.splits)
    then show ?thesis using stored core_same(6) [OF core_helpers(6)] by simp
  qed
qed

lemma waiter_cancelled_ok:
  assumes ok: "coordinator_ok st"
  shows "coordinator_ok (waiter_cancelled st run)"
proof (cases "dict_get (run_futures st) run = Some Pending")
  case True
  let ?st' = "st\<lparr>run_futures := dict_set run Future_cancelled (run_futures st)\<rparr>"
  have aw: "awaits ?st' = awaits st" by (rule awaits_cong) simp
  have q: "group_queue ?st' = group_queue st" by (rule group_queue_cong) simp
  have "run_ok ?st' r" for r
  proof (cases "r = run")
    case True
    with \<open>dict_get (run_futures st) run = Some Pending\<close> coordinator_okD(5) [OF ok, of run]
    have "active_run_ok st run Pending" by (simp add: run_ok_def)
    then have "active_run_ok ?st' run Future_cancelled"
      unfolding active_run_ok_def aw queued_run_def q by auto
    with True show ?thesis by (simp add: run_ok_def)
  next
    case False
    then show ?thesis using coordinator_okD(5) [OF ok, of r] run_ok_same [OF aw q, of r] by simp
  qed
  moreover have "workers_ok ?st'" using coordinator_okD(1) [OF ok] workers_ok_cong [of ?st' st] by simp
  moreover have "tasks_ok ?st'" using coordinator_okD(2) [OF ok] tasks_ok_cong [of ?st' st] by simp
  moreover have "queues_ok ?st'" using coordinator_okD(3) [OF ok] queues_ok_cong [of ?st' st] by simp
  moreover have "order_ok ?st'" using coordinator_okD(4) [OF ok] by (simp add: order_ok_def)
  ultimately have "coordinator_ok ?st'" by (simp add: coordinator_ok_def)
  with True show ?thesis by (simp add: waiter_cancelled_def)
qed (use ok in \<open>simp add: waiter_cancelled_def\<close>)

section \<open>Steps and reachable states\<close>

text \<open>
  The environment picks requests, backend answers, times and the order of the tasks. A submitted
  run id is new: the id is a fresh \<open>uuid4\<close> unless the caller chooses it.
\<close>

inductive coordinator_step :: "coordinator \<Rightarrow> coordinator \<Rightarrow> bool" where
  submitted: "unused st (submit_run_id st request) \<Longrightarrow>
    coordinator_step st (snd (submit_execution st request now))"
| started: "coordinator_step st (worker_starts st w now)"
| answered: "(\<And>task. execution_tasks st t = Some (Inl task) \<Longrightarrow> answer_ok st (task_run task) answer) \<Longrightarrow>
    coordinator_step st (backend_answers st t answer)"
| woken_up: "coordinator_step st (worker_wakes st w now)"
| cancelled: "coordinator_step st (snd (cancel st run now))"
| abandoned: "coordinator_step st (waiter_cancelled st run)"

inductive reachable_coordinator :: "coordinator \<Rightarrow> bool" where
  initial: "0 \<le> max_runs \<Longrightarrow> reachable_coordinator (initial_coordinator policy names max_runs uuids)"
| step: "reachable_coordinator st \<Longrightarrow> coordinator_step st st' \<Longrightarrow> reachable_coordinator st'"

lemma initial_coordinator_ok: "0 \<le> max_runs \<Longrightarrow> coordinator_ok (initial_coordinator policy names max_runs uuids)"
  by (simp add: coordinator_ok_def initial_coordinator_def workers_ok_def tasks_ok_def queues_ok_def
      order_ok_def run_ok_def settled_run_ok_def awaits_def group_queue_def)

lemma coordinator_step_ok: "coordinator_step st st' \<Longrightarrow> coordinator_ok st \<Longrightarrow> coordinator_ok st'"
  by (induction rule: coordinator_step.induct)
    (simp_all add: submit_execution_ok worker_starts_ok backend_answers_ok worker_wakes_ok cancel_ok
      waiter_cancelled_ok)

lemma reachable_coordinator_ok: "reachable_coordinator st \<Longrightarrow> coordinator_ok st"
  by (induction rule: reachable_coordinator.induct) (auto intro: initial_coordinator_ok coordinator_step_ok)

text \<open>A coordinator that executes one run, for the concrete instances below.\<close>

definition example_request :: execution_request where
  "example_request =
     \<lparr>req_group_folder = ''g'', req_chat_jid = ''c'', req_user_id = ''u'', req_prompt = ''p'',
      req_source = ''web'', req_slot_id = ''main'', requested_mode = None, req_timeout_ms = None,
      fresh_session = False, request_id = Some ''r1''\<rparr>"

definition example_initial :: coordinator where
  "example_initial = initial_coordinator select_backend [''openai_runtime''] 5 (\<lambda>_. ''0123456789'')"

definition example_queued :: coordinator where
  "example_queued = snd (submit_execution example_initial example_request 1)"

definition example_running :: coordinator where
  "example_running = worker_starts example_queued 0 2"

lemmas example_defs = example_request_def example_initial_def initial_coordinator_def example_queued_def
  example_running_def submit_execution_def submit_run_id_def ensure_worker_def Let_def worker_starts_def
  group_queue_def execute_request_def select_backend_def resolve_session_id_def uses_workspace_session_def
  preview_session_id_def mark_running_def update_snapshot_def request_workspace_key_def get_state_def
  new_state_def build_slot_workspace_key_def dict_setdefault_def

lemma example_queued_reachable: "reachable_coordinator example_queued"
  unfolding example_queued_def
proof (rule reachable_coordinator.step [OF _ coordinator_step.submitted])
  show "reachable_coordinator example_initial"
    unfolding example_initial_def by (rule reachable_coordinator.initial) simp
  show "unused example_initial (submit_run_id example_initial example_request)"
    by (simp add: unused_def example_initial_def initial_coordinator_def queued_run_def group_queue_def awaits_def)
qed

lemma example_running_reachable: "reachable_coordinator example_running"
  unfolding example_running_def
  by (rule reachable_coordinator.step [OF example_queued_reachable coordinator_step.started])

lemma example_running_state:
  "\<exists>task. execution_tasks example_running 0 = Some (Inl task) \<and> task_run task = ''r1'' \<and>
     task_backend task = ''openai_runtime'' \<and> task_attempt task = First_attempt \<and> \<not> fresh_session (task_request task)"
  "dict_get (statuses example_running) ''r1'' = Some Running"
  "dict_get (run_futures example_running) ''r1'' = Some Pending"
  "max_completed_runs example_running = 5"
  by (simp_all add: example_defs)

text \<open>C1: At any time at most one execution per group is going on: two execution tasks whose backend
calls have not ended belong to different groups.\<close>

theorem one_execution_per_group:
  assumes "reachable_coordinator st"
    and "execution_tasks st t = Some (Inl a)" "execution_tasks st t' = Some (Inl b)"
    and "req_group_folder (task_request a) = req_group_folder (task_request b)"
  shows "t = t'"
proof -
  have ok: "coordinator_ok st" using assms(1) by (rule reachable_coordinator_ok)
  note D = tasks_okD [OF coordinator_okD(2) [OF ok]]
  obtain w f where w: "worker_tasks st w = Some (Awaiting f (task_run a) t)"
    using D(2) [OF assms(2)] by (auto simp: awaits_def)
  obtain w' f' where w': "worker_tasks st w' = Some (Awaiting f' (task_run b) t')"
    using D(2) [OF assms(3)] by (auto simp: awaits_def)
  have "f = f'" using D(1) [OF w] D(1) [OF w'] assms(2-4) by (simp add: task_fits_def)
  moreover have "dict_get (group_workers st) f = Some w" "dict_get (group_workers st) f' = Some w'"
    using coordinator_okD(1) [OF ok] w w' unfolding workers_ok_def by fastforce+
  ultimately have "w = w'" by simp
  with w w' show ?thesis by simp
qed

lemma one_execution_per_group_witness:
  "\<exists>a. execution_tasks example_running 0 = Some (Inl a) \<and>
     (\<forall>t b. execution_tasks example_running t = Some (Inl b) \<longrightarrow>
        req_group_folder (task_request b) = req_group_folder (task_request a) \<longrightarrow> t = 0)"
  using example_running_state(1) one_execution_per_group [OF example_running_reachable] by blast



section \<open>Terminal results\<close>

text \<open>Runs without a future keep their results or lose them to eviction.\<close>

definition results_stable :: "coordinator \<Rightarrow> coordinator \<Rightarrow> bool" where
  "results_stable st st' \<longleftrightarrow>
     (\<forall>r. dict_get (run_futures st) r = None \<longrightarrow>
        dict_get (run_futures st') r = None \<and>
        dict_get (completed_results st') r \<in> {None, dict_get (completed_results st) r})"

lemma results_stable_refl: "results_stable st st"
  by (simp add: results_stable_def)

lemma results_stable_same:
  "run_futures st' = run_futures st \<Longrightarrow> completed_results st' = completed_results st \<Longrightarrow> results_stable st st'"
  by (simp add: results_stable_def)

lemma results_stable_trans: "results_stable st st' \<Longrightarrow> results_stable st' st'' \<Longrightarrow> results_stable st st''"
  by (auto simp: results_stable_def) (metis option.distinct(1))+

lemma results_stable_store:
  assumes "dict_get (run_futures st) (res_run_id result) \<noteq> None" "0 \<le> max_completed_runs st"
  shows "results_stable st (store_terminal_result result now st)"
  using assms store_terminal_result_effects(3,5) [OF assms(2), of result now]
  by (auto simp: results_stable_def)

lemma execute_request_stable:
  assumes "dict_get (run_futures st) run \<noteq> None" "0 \<le> max_completed_runs st"
  shows "results_stable st (snd (execute_request run request now st)) \<and>
    max_completed_runs (snd (execute_request run request now st)) = max_completed_runs st"
proof -
  have "results_stable st (store_terminal_result result now (snd (resolve_session_id st request b None)))"
    if "res_run_id result = run" for result b
    using assms that
    by (intro results_stable_trans [OF results_stable_same results_stable_store]) simp_all
  then show ?thesis
    by (auto simp: execute_request_def Let_def case_prod_beta intro: results_stable_same split: sum.split)
qed

lemma serve_queue_stable:
  "0 \<le> max_completed_runs st \<Longrightarrow> results_stable st (serve_queue w folder now queue st)"
proof (induction queue arbitrary: st)
  case Nil
  then show ?case by (simp add: results_stable_same)
next
  case (Cons entry queue)
  obtain run request where entry: "entry = (run, request)" by (cases entry)
  let ?st1 = "st\<lparr>group_queues := dict_set folder queue (group_queues st)\<rparr>"
  have pop: "results_stable st ?st1" by (rule results_stable_same) simp_all
  show ?case
  proof (cases "dict_get (run_futures st) run = Some Pending")
    case False
    with Cons.IH [of ?st1] Cons.prems results_stable_trans [OF pop] entry show ?thesis by simp
  next
    case True
    obtain outcome st2 where ex: "execute_request run request now ?st1 = (outcome, st2)" by fastforce
    with execute_request_stable [of ?st1 run request now] True Cons.prems
    have st2: "results_stable st st2" "max_completed_runs st2 = max_completed_runs st"
      using results_stable_trans [OF pop] by auto
    have "results_stable st (st2\<lparr>worker_tasks := x\<rparr>)" for x
      using results_stable_trans [OF st2(1)] by (simp add: results_stable_same)
    moreover have "results_stable st (serve_queue w folder now queue st2)"
      using results_stable_trans [OF st2(1) Cons.IH] st2(2) Cons.prems by simp
    ultimately show ?thesis using True ex entry by (auto split: option.split)
  qed
qed

lemma worker_wakes_stable:
  assumes ok: "coordinator_ok st"
  shows "results_stable st (worker_wakes st w now)"
proof (cases "\<exists>folder run t outcome. worker_tasks st w = Some (Awaiting folder run t) \<and>
    execution_tasks st t = Some (Inr outcome)")
  case False
  then have "worker_wakes st w now = st"
    by (auto simp: worker_wakes_def split: option.split worker.split sum.split)
  then show ?thesis by (simp add: results_stable_refl)
next
  case True
  then obtain folder run t outcome where w: "worker_tasks st w = Some (Awaiting folder run t)"
    and t: "execution_tasks st t = Some (Inr outcome)" by blast
  have max: "0 \<le> max_completed_runs st" using coordinator_okD(4) [OF ok] by (simp add: order_ok_def)
  let ?st1 = "forget_running run (st\<lparr>worker_tasks := (worker_tasks st)(w \<mapsto> Ready folder)\<rparr>)"
  have st1: "results_stable st (?st1\<lparr>cancelled_run_ids := C\<rparr>)" for C by (rule results_stable_same) simp_all
  have st1': "results_stable st (?st1\<lparr>worker_tasks := x\<rparr>)" for x by (rule results_stable_same) simp_all
  have serve: "results_stable st (serve_queue w folder now (group_queue s folder) s)"
    if "results_stable st s" "max_completed_runs s = max_completed_runs st" for s
    using that max by (intro results_stable_trans [OF that(1) serve_queue_stable]) simp
  show ?thesis
  proof (cases "run \<in> cancelled_run_ids st")
    case True
    with serve [OF st1] st1' show ?thesis
      by (simp add: worker_wakes_def w t Let_def split: task_outcome.split)
  next
    case False
    have "task_fits st folder run t" using tasks_okD(1) [OF coordinator_okD(2) [OF ok] w] by simp
    then have result: "res_run_id result = run" if "outcome = Returned result" for result
      using that t by (simp add: task_fits_def)
    have "awaits st w run t" using w by (simp add: awaits_def)
    with coordinator_okD(5) [OF ok, of run] False have "dict_get (run_futures st) run \<noteq> None"
      by (auto simp: run_ok_def settled_run_ok_def split: option.splits)
    then have "results_stable st (store_terminal_result result now ?st1)" if "res_run_id result = run" for result
      using that max
      by (intro results_stable_trans [OF results_stable_same results_stable_store]) simp_all
    with serve result False st1' show ?thesis
      by (simp add: worker_wakes_def w t Let_def split: task_outcome.split)
  qed
qed

lemma backend_answers_futures:
  "run_futures (backend_answers st t answer) = run_futures st"
  "completed_results (backend_answers st t answer) = completed_results st"
  "completed_order (backend_answers st t answer) = completed_order st"
  "max_completed_runs (backend_answers st t answer) = max_completed_runs st"
  by (simp_all add: backend_answers_def Let_def finish_task_def case_prod_beta
      split: option.split sum.split run_outcome.split attempt.split)

lemma cancel_stable:
  assumes ok: "coordinator_ok st"
  shows "results_stable st (snd (cancel st run now))"
proof -
  have max: "0 \<le> max_completed_runs st" using coordinator_okD(4) [OF ok] by (simp add: order_ok_def)
  have fut: "dict_get (run_futures st) run \<noteq> None"
    if "dict_get (statuses st) run \<in> {Some Queued, Some Running}"
    using active_run [OF ok that] by blast
  have store: "results_stable st (store_terminal_result (build_result run request b sid Cancelled None) now s)"
    if "dict_get (statuses st) run \<in> {Some Queued, Some Running}" "run_futures s = run_futures st"
      "completed_results s = completed_results st" "max_completed_runs s = max_completed_runs st"
    for s request b sid
    using fut [OF that(1)] that max
    by (intro results_stable_trans [OF results_stable_same results_stable_store]) simp_all
  have log: "results_stable st (note_backend_cancel c r s)" if "results_stable st s" for c r s
    using that by (simp add: results_stable_def)
  show ?thesis
    by (auto simp: cancel_def Let_def case_prod_beta results_stable_refl results_stable_same intro!: store log
        split: option.split)
qed

text \<open>C6: A terminal result is final: once a run has completed, failed, timed out or been cancelled,
no step changes its result; it can only be evicted. In particular the late answer of a backend
whose run was cancelled is dropped.\<close>

theorem terminal_result_final:
  assumes "reachable_coordinator st" "coordinator_step st st'"
    and "dict_get (completed_results st) run = Some result"
  shows "dict_get (completed_results st') run \<in> {None, Some result}"
proof -
  have ok: "coordinator_ok st" using assms(1) by (rule reachable_coordinator_ok)
  have none: "dict_get (run_futures st) run = None"
    using coordinator_okD(5) [OF ok, of run] assms(3)
    by (auto simp: run_ok_def active_run_ok_def split: option.splits)
  have stable: ?thesis if "results_stable st st'"
  proof -
    have "dict_get (completed_results st') run \<in> {None, dict_get (completed_results st) run}"
      using that none unfolding results_stable_def by blast
    with assms(3) show ?thesis by simp
  qed
  have max: "0 \<le> max_completed_runs st" using coordinator_okD(4) [OF ok] by (simp add: order_ok_def)
  from assms(2) show ?thesis
  proof cases
    case (submitted request now)
    have "completed_results (ensure_worker g s) = completed_results s" for g s
      by (simp add: ensure_worker_def Let_def split: option.split)
    then have "completed_results st' = completed_results st"
      using submitted by (simp add: submit_execution_def Let_def)
    with assms(3) show ?thesis by simp
  next
    case (started w now)
    have "results_stable st (worker_starts st w now)"
      using max by (auto simp: worker_starts_def results_stable_refl serve_queue_stable
          split: option.split worker.split)
    with started stable show ?thesis by simp
  next
    case (answered t answer)
    then show ?thesis using assms(3) by (simp add: backend_answers_futures)
  next
    case (woken_up w now)
    with worker_wakes_stable [OF ok] stable show ?thesis by simp
  next
    case (cancelled run' now)
    with cancel_stable [OF ok] stable show ?thesis by simp
  next
    case (abandoned run')
    then show ?thesis using assms(3) by (simp add: waiter_cancelled_def)
  qed
qed

text \<open>The coordinator's memory of completed runs is bounded: never more than
\<open>max_completed_runs\<close> results, each listed once in the eviction order.\<close>

theorem completed_runs_bounded:
  assumes "reachable_coordinator st"
  shows "int (card (dom (dict_get (completed_results st)))) \<le> max_completed_runs st \<and>
    dom (dict_get (completed_results st)) \<subseteq> set (completed_order st) \<and> distinct (completed_order st)"
proof -
  have ok: "coordinator_ok st" using assms by (rule reachable_coordinator_ok)
  have order: "distinct (completed_order st)" "int (length (completed_order st)) \<le> max_completed_runs st"
    using coordinator_okD(4) [OF ok] by (simp_all add: order_ok_def)
  have "run \<in> set (completed_order st)" if "dict_get (completed_results st) run = Some result" for run result
    using coordinator_okD(5) [OF ok, of run] that
    by (auto simp: run_ok_def active_run_ok_def settled_run_ok_def split: option.splits)
  then have sub: "dom (dict_get (completed_results st)) \<subseteq> set (completed_order st)" by auto
  then have "card (dom (dict_get (completed_results st))) \<le> length (completed_order st)"
    using card_mono [of "set (completed_order st)"] order(1) by (metis List.finite_set distinct_card)
  with order sub show ?thesis by simp
qed

lemma completed_runs_bounded_witness:
  "int (card (dom (dict_get (completed_results example_running)))) \<le> 5"
  using completed_runs_bounded [OF example_running_reachable] example_running_state(4) by simp

text \<open>\<open>cancel\<close> works exactly on queued and running runs: it returns \<open>True\<close> for them, settles the
run as cancelled at once and wakes its waiter with that result; for any other run it returns
\<open>False\<close> and changes nothing.\<close>

theorem cancel_settles_run:
  assumes "reachable_coordinator st" "cancel st run now = (ok, st')" "0 < max_completed_runs st"
  shows "(ok \<longleftrightarrow> dict_get (statuses st) run \<in> {Some Queued, Some Running}) \<and>
    (\<not> ok \<longrightarrow> st' = st) \<and>
    (ok \<longrightarrow> (\<exists>result. res_status result = Cancelled \<and> res_run_id result = run \<and>
       dict_get (completed_results st') run = Some result \<and> dict_get (statuses st') run = Some Cancelled \<and>
       dict_get (run_futures st') run = None \<and>
       (dict_get (run_futures st) run = Some Pending \<longrightarrow> delivered st' = delivered st @ [(run, result)]) \<and>
       (dict_get (statuses st) run = Some Running \<longrightarrow> backend_cancels st' = backend_cancels st @ [run])))"
proof (cases "dict_get (statuses st) run \<in> {Some Queued, Some Running}")
  case False
  with assms(2) have "\<not> ok \<and> st' = st"
    by (auto simp: cancel_def Let_def case_prod_beta split: option.splits if_splits)
  with False show ?thesis by simp
next
  case True
  have cok: "coordinator_ok st" using assms(1) by (rule reachable_coordinator_ok)
  from active_run [OF cok True] obtain f where f: "dict_get (run_futures st) run = Some f"
    and active: "active_run_ok st run f" by blast
  from active obtain request where req: "dict_get (run_requests st) run = Some request"
    and order: "run \<notin> set (completed_order st)" by (auto simp: active_run_ok_def)
  have settled: "dict_get (completed_results s') run = Some result \<and>
      dict_get (statuses s') run = Some Cancelled \<and> dict_get (run_futures s') run = None \<and>
      (dict_get (run_futures st) run = Some Pending \<longrightarrow> delivered s' = delivered st @ [(run, result)])"
    if s: "s' = store_terminal_result result now s" "res_run_id result = run" "res_status result = Cancelled"
      "run_futures s = run_futures st" "completed_order s = completed_order st" "delivered s = delivered st"
      "max_completed_runs s = max_completed_runs st" for s s' result
  proof -
    have max: "0 \<le> max_completed_runs s" using assms(3) s by simp
    have "length (completed_order st) \<le> nat (max_completed_runs st)"
      using coordinator_okD(4) [OF cok] by (simp add: order_ok_def nat_le_iff) linarith
    then have "run \<notin> set (stale_runs (max_completed_runs st) (completed_order st @ [run]))"
      using order assms(3) by (auto simp: stale_runs_def dest: in_set_takeD)
    then show ?thesis
      using store_terminal_result_effects [OF max, of result now] s by simp
  qed
  let ?b = "safe_select_backend_name st request"
  let ?p = "resolve_session_id st request ?b None"
  show ?thesis
  proof (cases "dict_get (statuses st) run = Some Queued")
    case queued: True
    let ?r = "build_result run request ?b (fst ?p) Cancelled None"
    have "ok" "st' = store_terminal_result ?r now (snd ?p)"
      using assms(2) queued req by (auto simp: cancel_def Let_def case_prod_beta)
    with settled [OF this(2)] True queued show ?thesis by simp
  next
    case False
    with True have running: "dict_get (statuses st) run = Some Running" by simp
    then have "dict_get (running_backends st) run \<noteq> None" using active by (auto simp: active_run_ok_def)
    then obtain sid where ok: "ok" and st': "st' = note_backend_cancel True run
        (store_terminal_result (build_result run request ?b sid Cancelled None) now
          (snd ?p\<lparr>cancelled_run_ids := insert run (cancelled_run_ids (snd ?p)),
             statuses := dict_set run Cancelled (statuses (snd ?p))\<rparr>))"
      using assms(2) running req by (auto simp: cancel_def Let_def case_prod_beta split: option.splits)
    then show ?thesis using settled [OF refl] running by (simp add: note_backend_cancel_def)
  qed
qed

lemma cancel_settles_run_witness:
  "\<exists>st'. cancel example_running ''r1'' 7 = (True, st') \<and> dict_get (statuses st') ''r1'' = Some Cancelled"
proof -
  obtain ok st' where c: "cancel example_running ''r1'' 7 = (ok, st')" by fastforce
  have "0 < max_completed_runs example_running" by (simp add: example_running_state(4))
  from cancel_settles_run [OF example_running_reachable c this] example_running_state(2) c show ?thesis by auto
qed

lemma terminal_result_final_witness:
  "\<exists>st1 result. cancel example_running ''r1'' 7 = (True, st1) \<and>
     dict_get (completed_results st1) ''r1'' = Some result \<and>
     dict_get (completed_results (worker_wakes st1 0 8)) ''r1'' \<in> {None, Some result}"
proof -
  obtain st1 where c: "cancel example_running ''r1'' 7 = (True, st1)"
    and r: "\<exists>result. dict_get (completed_results st1) ''r1'' = Some result"
    by (simp add: example_defs cancel_def safe_select_backend_name_def store_terminal_result_def
        mark_terminal_def build_result_def resolve_future_def note_backend_cancel_def)
  then obtain result where result: "dict_get (completed_results st1) ''r1'' = Some result" by blast
  have "reachable_coordinator st1"
    using reachable_coordinator.step [OF example_running_reachable coordinator_step.cancelled, of "''r1''" 7] c by simp
  from terminal_result_final [OF this coordinator_step.woken_up result] c result show ?thesis by blast
qed

section \<open>Order, retries and abandoned runs\<close>
















lemma get_update_snapshot [simp]:
  "dict_get (run_snapshots (update_snapshot run f st)) r =
     (if r = run then map_option f (dict_get (run_snapshots st) run) else dict_get (run_snapshots st) r)"
  by (simp add: update_snapshot_def split: option.split)

lemma snapshots_kept [simp]:
  "run_snapshots (snd (resolve_session_id st request b fresh)) = run_snapshots st"
  "run_snapshots (finish_task t outcome st) = run_snapshots st"
  "run_snapshots (finish_with_result t task result st) = run_snapshots st"
  "run_snapshots (note_backend_cancel c run st) = run_snapshots st"
  by (simp_all add: resolve_session_id_def finish_task_def finish_with_result_def note_backend_cancel_def
      Let_def case_prod_beta)



section \<open>Runs whose waiter was cancelled\<close>

text \<open>What the coordinator's dictionaries say of one run that is not settled.\<close>

definition standing where
  "standing st run = (dict_get (run_futures st) run, dict_get (statuses st) run,
     dict_get (run_snapshots st) run, dict_get (run_requests st) run)"

definition same_standing :: "string \<Rightarrow> coordinator \<Rightarrow> coordinator \<Rightarrow> bool" where
  "same_standing run st st' \<longleftrightarrow> standing st' run = standing st run \<and>
     (run \<in> set (completed_order st') \<longrightarrow> run \<in> set (completed_order st)) \<and>
     max_completed_runs st' = max_completed_runs st"

lemma same_standing_refl: "same_standing run st st"
  by (simp add: same_standing_def)

lemma same_standing_trans:
  "same_standing run st st' \<Longrightarrow> same_standing run st' st'' \<Longrightarrow> same_standing run st st''"
  by (simp add: same_standing_def)

lemma same_standingI:
  assumes "dict_get (run_futures st') run = dict_get (run_futures st) run"
    "dict_get (statuses st') run = dict_get (statuses st) run"
    "dict_get (run_snapshots st') run = dict_get (run_snapshots st) run"
    "dict_get (run_requests st') run = dict_get (run_requests st) run"
    "completed_order st' = completed_order st" "max_completed_runs st' = max_completed_runs st"
  shows "same_standing run st st'"
  using assms by (simp add: same_standing_def standing_def)

lemma evict_stale_snapshot:
  "run \<notin> set order \<Longrightarrow> dict_get (run_snapshots (evict_stale order st)) run = dict_get (run_snapshots st) run"
  by (induction order st rule: evict_stale.induct) auto

lemma same_standing_store:
  assumes "res_run_id result \<noteq> run" "run \<notin> set (completed_order st)" "0 \<le> max_completed_runs st"
  shows "same_standing run st (store_terminal_result result now st)"
proof -
  let ?stale = "stale_runs (max_completed_runs st) (completed_order st @ [res_run_id result])"
  note eff = store_terminal_result_effects [OF assms(3), of result now]
  have stale: "run \<notin> set ?stale"
    using assms(1,2) by (auto simp: stale_runs_def dest: in_set_takeD)
  have "set (completed_order (store_terminal_result result now st)) \<subseteq> insert (res_run_id result) (set (completed_order st))"
    using arg_cong [OF eff(1), of set] by auto
  moreover have "dict_get (run_snapshots (store_terminal_result result now st)) run = dict_get (run_snapshots st) run"
    using assms(1,2) evict_stale_snapshot [of run "completed_order st @ [res_run_id result]"]
    by (simp add: store_terminal_result_def Let_def resolve_future_def mark_terminal_def)
  ultimately show ?thesis
    using assms stale by (auto simp: same_standing_def standing_def eff(4-6))
qed

lemma same_standing_execute:
  assumes "r \<noteq> run" "run \<notin> set (completed_order st)" "0 \<le> max_completed_runs st"
  shows "same_standing run st (snd (execute_request r request now st))"
proof -
  have "same_standing run st (store_terminal_result result now (snd (resolve_session_id st request b None)))"
    if "res_run_id result = r" for result b
    using assms that
    by (intro same_standing_trans [OF same_standingI same_standing_store]) simp_all
  then show ?thesis
    using assms(1) by (auto simp: execute_request_def Let_def case_prod_beta mark_running_def
        intro!: same_standingI split: sum.split)
qed

lemma same_standing_serve:
  assumes "dict_get (run_futures st) run = Some Future_cancelled" "run \<notin> set (completed_order st)"
    "0 \<le> max_completed_runs st"
  shows "same_standing run st (serve_queue w folder now queue st)"
  using assms
proof (induction queue arbitrary: st)
  case Nil
  show ?case by (auto intro!: same_standingI)
next
  case (Cons entry queue)
  obtain r request where entry: "entry = (r, request)" by (cases entry)
  let ?st1 = "st\<lparr>group_queues := dict_set folder queue (group_queues st)\<rparr>"
  have pop: "same_standing run st ?st1" by (rule same_standingI) simp_all
  show ?case
  proof (cases "dict_get (run_futures st) r = Some Pending")
    case False
    with same_standing_trans [OF pop Cons.IH [of ?st1]] Cons.prems entry show ?thesis by simp
  next
    case True
    obtain outcome st2 where ex: "execute_request r request now ?st1 = (outcome, st2)" by fastforce
    have "r \<noteq> run" using True Cons.prems(1) by auto
    with same_standing_execute [of r run ?st1 request now] ex Cons.prems
    have st2: "same_standing run ?st1 st2" by simp
    then have "dict_get (run_futures st2) run = Some Future_cancelled" "run \<notin> set (completed_order st2)"
      "0 \<le> max_completed_runs st2"
      using Cons.prems by (auto simp: same_standing_def standing_def)
    from Cons.IH [OF this] have "same_standing run st (serve_queue w folder now queue st2)"
      using same_standing_trans [OF pop same_standing_trans [OF st2]] by blast
    moreover have "same_standing run st (st2\<lparr>worker_tasks := x\<rparr>)" for x
      using same_standing_trans [OF pop same_standing_trans [OF st2 same_standingI]] by simp
    ultimately show ?thesis using True ex entry by (auto split: option.split)
  qed
qed

text \<open>Every step but the \<open>cancel\<close> of the run itself.\<close>

inductive step_without_cancel :: "string \<Rightarrow> coordinator \<Rightarrow> coordinator \<Rightarrow> bool" for run where
  submitted: "unused st (submit_run_id st request) \<Longrightarrow>
    step_without_cancel run st (snd (submit_execution st request now))"
| started: "step_without_cancel run st (worker_starts st w now)"
| answered: "(\<And>task. execution_tasks st t = Some (Inl task) \<Longrightarrow> answer_ok st (task_run task) answer) \<Longrightarrow>
    step_without_cancel run st (backend_answers st t answer)"
| woken_up: "step_without_cancel run st (worker_wakes st w now)"
| cancelled: "other \<noteq> run \<Longrightarrow> step_without_cancel run st (snd (cancel st other now))"
| abandoned: "step_without_cancel run st (waiter_cancelled st other)"

inductive later_without_cancel :: "string \<Rightarrow> coordinator \<Rightarrow> coordinator \<Rightarrow> bool" for run st where
  now: "later_without_cancel run st st"
| step: "later_without_cancel run st st' \<Longrightarrow> step_without_cancel run st' st'' \<Longrightarrow> later_without_cancel run st st''"

lemma step_without_cancel_step: "step_without_cancel run st st' \<Longrightarrow> coordinator_step st st'"
  by (induction rule: step_without_cancel.induct) (auto intro: coordinator_step.intros)

text \<open>A run that nobody awaits and that was not started.\<close>

definition dormant :: "coordinator \<Rightarrow> string \<Rightarrow> bool" where
  "dormant st run \<longleftrightarrow> dict_get (run_futures st) run = Some Future_cancelled \<and>
     dict_get (statuses st) run = Some Queued"

lemma dormantD:
  assumes "coordinator_ok st" "dormant st run"
  shows "run \<notin> set (completed_order st)" "0 \<le> max_completed_runs st" "\<not> awaits st w run t"
    "run \<notin> cancelled_run_ids st" "run \<notin> fst ` set (delivered st)" "dict_get (completed_results st) run = None"
    "execution_tasks st t = Some (Inl task) \<Longrightarrow> task_run task \<noteq> run"
proof -
  from coordinator_okD(5) [OF assms(1), of run] assms(2)
  have active: "active_run_ok st run Future_cancelled" by (simp add: run_ok_def dormant_def)
  with assms(2) show idle: "\<And>w t. \<not> awaits st w run t" by (auto simp: active_run_ok_def dormant_def)
  from active show "run \<notin> set (completed_order st)" "run \<notin> cancelled_run_ids st"
    "run \<notin> fst ` set (delivered st)" "dict_get (completed_results st) run = None"
    by (auto simp: active_run_ok_def)
  show "0 \<le> max_completed_runs st" using coordinator_okD(4) [OF assms(1)] by (simp add: order_ok_def)
  show "task_run task \<noteq> run" if "execution_tasks st t = Some (Inl task)"
    using tasks_okD(2) [OF coordinator_okD(2) [OF assms(1)] that] idle by auto
qed

lemma dormant_wakes:
  assumes ok: "coordinator_ok st" and d: "dormant st run"
  shows "same_standing run st (worker_wakes st w now)"
proof (cases "\<exists>folder r t outcome. worker_tasks st w = Some (Awaiting folder r t) \<and>
    execution_tasks st t = Some (Inr outcome)")
  case False
  then have "worker_wakes st w now = st"
    by (auto simp: worker_wakes_def split: option.split worker.split sum.split)
  then show ?thesis by (simp add: same_standing_refl)
next
  case True
  then obtain folder r t outcome where w: "worker_tasks st w = Some (Awaiting folder r t)"
    and t: "execution_tasks st t = Some (Inr outcome)" by blast
  note D = dormantD [OF ok d]
  have r: "r \<noteq> run" using D(3) [of w t] w by (auto simp: awaits_def)
  let ?st1 = "forget_running r (st\<lparr>worker_tasks := (worker_tasks st)(w \<mapsto> Ready folder)\<rparr>)"
  have snap: "run_snapshots (forget_running r s) = run_snapshots s" for s by (simp add: forget_running_def)
  have fits: "task_fits st folder r t" using tasks_okD(1) [OF coordinator_okD(2) [OF ok] w] by simp
  have serve: "same_standing run st (serve_queue w folder now (group_queue s folder) s)"
    if "same_standing run st s" for s
    using that d D(1,2)
    by (intro same_standing_trans [OF that same_standing_serve])
      (auto simp: same_standing_def standing_def dormant_def)
  have st1: "same_standing run st (?st1\<lparr>cancelled_run_ids := C\<rparr>)"
    "same_standing run st (?st1\<lparr>worker_tasks := x\<rparr>)" "same_standing run st ?st1" for C x
    by (intro same_standingI; simp add: snap)+
  have "same_standing run st (store_terminal_result result now ?st1)" if "outcome = Returned result" for result
  proof -
    have "res_run_id result \<noteq> run" using fits t r that by (simp add: task_fits_def)
    with D(1,2) show ?thesis by (intro same_standing_trans [OF st1(3) same_standing_store]) simp_all
  qed
  with serve st1 show ?thesis
    by (simp add: worker_wakes_def w t Let_def split: task_outcome.split)
qed

lemma dormant_answer:
  assumes ok: "coordinator_ok st" and d: "dormant st run"
  shows "same_standing run st (backend_answers st t answer)"
proof (cases "\<exists>task. execution_tasks st t = Some (Inl task)")
  case False
  then have "backend_answers st t answer = st"
    by (auto simp: backend_answers_def split: option.split sum.split)
  then show ?thesis by (simp add: same_standing_refl)
next
  case True
  then obtain task where t: "execution_tasks st t = Some (Inl task)" by blast
  have "task_run task \<noteq> run" by (rule dormantD(7) [OF ok d t])
  then show ?thesis
    by (auto simp: backend_answers_def t Let_def case_prod_beta mark_recovery_attempt_def
        mark_recovery_result_def finish_task_def intro!: same_standingI
        split: run_outcome.split attempt.split)
qed

lemma dormant_cancel:
  assumes ok: "coordinator_ok st" and d: "dormant st run" and other: "other \<noteq> run"
  shows "same_standing run st (snd (cancel st other now))"
proof -
  note D = dormantD [OF ok d]
  have store: "same_standing run st (store_terminal_result (build_result other request b sid Cancelled None) now s)"
    if "same_standing run st s" for s request b sid
    using that D(1,2) other
    by (intro same_standing_trans [OF that same_standing_store]) (auto simp: same_standing_def)
  have log: "same_standing run st (note_backend_cancel c r s)" if "same_standing run st s" for c r s
    using that by (simp add: same_standing_def standing_def)
  show ?thesis
    using other
    by (auto simp: cancel_def Let_def case_prod_beta same_standing_refl intro!: store log same_standingI
        split: option.split)
qed

lemma dormant_step:
  assumes "step_without_cancel run st st'" and ok: "coordinator_ok st" and d: "dormant st run"
  shows "same_standing run st st'"
  using assms(1)
proof cases
  case (submitted request now)
  from submitted(2) d have "submit_run_id st request \<noteq> run" by (auto simp: unused_def dormant_def)
  moreover have "standing (ensure_worker g s) r = standing s r" "completed_order (ensure_worker g s) = completed_order s"
    "max_completed_runs (ensure_worker g s) = max_completed_runs s" for g s r
    by (simp_all add: ensure_worker_def Let_def standing_def split: option.split)
  ultimately show ?thesis
    using submitted(1) by (simp add: submit_execution_def Let_def same_standing_def) (simp add: standing_def)
next
  case (started w now)
  have "same_standing run st (serve_queue w folder now (group_queue st folder) st)" for folder
    using d dormantD [OF ok d] by (intro same_standing_serve) (simp_all add: dormant_def)
  with started show ?thesis
    by (auto simp: worker_starts_def same_standing_refl split: option.split worker.split)
next
  case (abandoned other)
  with d show ?thesis
    by (auto simp: waiter_cancelled_def dormant_def same_standing_refl intro!: same_standingI)
qed (simp_all add: dormant_wakes [OF ok d] dormant_answer [OF ok d] dormant_cancel [OF ok d])

lemma dormant_later:
  assumes "later_without_cancel run st st'" "coordinator_ok st" "dormant st run"
  shows "coordinator_ok st' \<and> same_standing run st st'"
  using assms
proof induction
  case now
  then show ?case by (simp add: same_standing_refl)
next
  case (step st' st'')
  then have ok: "coordinator_ok st'" and same: "same_standing run st st'" by simp_all
  then have "dormant st' run" using step.prems(2) by (simp add: dormant_def same_standing_def standing_def)
  from same_standing_trans [OF same dormant_step [OF step.hyps(2) ok this]] ok step.hyps(2)
  show ?case using coordinator_step_ok step_without_cancel_step by blast
qed

text \<open>The monitor's loop counts every queued run.\<close>

lemma monitor_step_grows:
  assumes "dict_get monitored g = Some m"
  shows "\<exists>m'. dict_get (monitor_step st entry monitored) g = Some m' \<and> queued_runs m \<le> queued_runs m'"
  using assms by (auto simp: monitor_step_def Let_def dict_setdefault_def split: prod.split option.split)

lemma monitor_grows:
  "dict_get monitored g = Some m \<Longrightarrow>
   \<exists>m'. dict_get (fold (monitor_step st) entries monitored) g = Some m' \<and> queued_runs m \<le> queued_runs m'"
proof (induction entries arbitrary: monitored m)
  case (Cons entry entries)
  from monitor_step_grows [OF Cons.prems] obtain m1
    where m1: "dict_get (monitor_step st entry monitored) g = Some m1" "queued_runs m \<le> queued_runs m1" by blast
  from Cons.IH [OF m1(1)] m1(2) show ?case by fastforce
qed auto

lemma monitor_step_nonneg:
  assumes "\<forall>g m. dict_get monitored g = Some m \<longrightarrow> 0 \<le> queued_runs m"
  shows "\<forall>g m. dict_get (monitor_step st entry monitored) g = Some m \<longrightarrow> 0 \<le> queued_runs m"
  using assms
  by (auto simp: monitor_step_def Let_def dict_setdefault_def split: prod.split option.split)

lemma monitor_counts:
  assumes "(run, request) \<in> set entries" "dict_get (statuses st) run = Some Queued"
    and "\<forall>g m. dict_get monitored g = Some m \<longrightarrow> 0 \<le> queued_runs m"
  shows "\<exists>m. dict_get (fold (monitor_step st) entries monitored) (req_group_folder request) = Some m \<and>
    1 \<le> queued_runs m"
  using assms(1,3)
proof (induction entries arbitrary: monitored)
  case (Cons entry entries)
  show ?case
  proof (cases "entry = (run, request)")
    case True
    have "\<exists>m. dict_get (monitor_step st entry monitored) (req_group_folder request) = Some m \<and> 1 \<le> queued_runs m"
      using Cons.prems(2) assms(2) True
      by (auto simp: monitor_step_def Let_def dict_setdefault_def split: option.split)
    then obtain m where m: "dict_get (monitor_step st entry monitored) (req_group_folder request) = Some m"
      "1 \<le> queued_runs m" by blast
    from monitor_grows [OF m(1), of st entries] m(2) show ?thesis by fastforce
  next
    case False
    with Cons.prems Cons.IH [OF _ monitor_step_nonneg] show ?thesis by simp
  qed
qed simp

text \<open>C13: When the task that waits for a queued run is cancelled, the run is never settled until
somebody cancels it by its id: whatever steps follow, except that \<open>cancel\<close> (and, as for the other
properties of reachable states, a second use of the same id or a backend that cancels on its own),
it is not executed and gets no result, its status and its snapshot stay those of a queued run, whoever waits for it waits
for the cancelled future, and the monitor goes on to count it as a queued run of its group.\<close>

theorem abandoned_run_stays_queued:
  fixes st st' :: coordinator and run :: string and request :: execution_request
  assumes st: "reachable_coordinator st" "dict_get (run_futures st) run = Some Pending"
      "dict_get (statuses st) run = Some Queued" "dict_get (run_requests st) run = Some request"
    and later: "later_without_cancel run (waiter_cancelled st run) st'"
  shows "get_status st' run = Some Queued \<and> get_run_snapshot st' run = get_run_snapshot st run \<and>
    wait_for_run st' run = Inr Future_cancelled \<and> run \<notin> fst ` set (delivered st') \<and>
    (\<forall>t task. execution_tasks st' t = Some (Inl task) \<longrightarrow> task_run task \<noteq> run) \<and>
    (\<exists>m. (req_group_folder request, m) \<in> set (get_monitor_queue_snapshot st') \<and> 1 \<le> queued_runs m)"
proof -
  let ?st1 = "waiter_cancelled st run"
  have ok1: "coordinator_ok ?st1" using st(1) by (intro waiter_cancelled_ok reachable_coordinator_ok)
  have d1: "dormant ?st1 run" using st(2,3) by (simp add: waiter_cancelled_def dormant_def)
  from dormant_later [OF later ok1 d1] have ok: "coordinator_ok st'" and same: "same_standing run ?st1 st'"
    by simp_all
  have now: "dict_get (run_futures st') run = Some Future_cancelled" "dict_get (statuses st') run = Some Queued"
    "dict_get (run_snapshots st') run = dict_get (run_snapshots st) run"
    "dict_get (run_requests st') run = Some request"
    using same st by (simp_all add: same_standing_def standing_def waiter_cancelled_def)
  then have d: "dormant st' run" by (simp add: dormant_def)
  note D = dormantD [OF ok d]
  from map_of_SomeD [OF now(4)] now(2)
  obtain m where m: "dict_get (fold (monitor_step st') (run_requests st') []) (req_group_folder request) = Some m"
    "1 \<le> queued_runs m" using monitor_counts [of run request "run_requests st'" st' "[]"] by auto
  then have "(req_group_folder request, m) \<in> set (get_monitor_queue_snapshot st')"
    by (simp add: get_monitor_queue_snapshot_def map_of_SomeD)
  with m(2) now D show ?thesis
    by (auto simp: get_status_def get_run_snapshot_def wait_for_run_def)
qed

lemma abandoned_run_stays_queued_witness:
  "get_status (worker_starts (waiter_cancelled example_queued ''r1'') 0 2) ''r1'' = Some Queued \<and>
   group_queue (worker_starts (waiter_cancelled example_queued ''r1'') 0 2) ''g'' = []"
proof -
  have q: "dict_get (run_futures example_queued) ''r1'' = Some Pending"
    "dict_get (statuses example_queued) ''r1'' = Some Queued"
    "dict_get (run_requests example_queued) ''r1'' = Some example_request"
    by (simp_all add: example_defs)
  have "later_without_cancel ''r1'' (waiter_cancelled example_queued ''r1'')
      (worker_starts (waiter_cancelled example_queued ''r1'') 0 2)"
    by (intro later_without_cancel.step [OF later_without_cancel.now] step_without_cancel.started)
  from abandoned_run_stays_queued [OF example_queued_reachable q this] show ?thesis
    by (simp add: example_defs waiter_cancelled_def)
qed

end
