(* ===== verification/MessageDispatch.thy ===== *)
theory MessageDispatch
  imports WorkspaceAccess ExecutionCoordinator
begin

text \<open>
  From an inbound message to its run and its answer: the stored messages
  (\<open>services/message_service.py\<close>), the routing by channel (\<open>services/message_router.py\<close>), the dispatch
  (\<open>services/message_dispatch.py\<close>), and how \<open>app/routes/messages.py\<close> and \<open>app/routes/im.py\<close> find the
  workspace of a message. What the execution plane answers to a request, what a channel handler does,
  \<open>sha1\<close> and the \<open>uuid4\<close> values are arguments.
\<close>

section \<open>Stored messages\<close>

text \<open>A string as \<open>json.dumps\<close> writes it.\<close>

definition hex_digit :: "nat \<Rightarrow> char" where
  "hex_digit n = (if n < 10 then char_of (48 + n) else char_of (87 + n))"

definition json_char :: "char \<Rightarrow> string" where
  "json_char c =
     (let n = of_char c :: nat in
      if n = 34 then [CHR 0x5C, CHR 0x22] else if n = 92 then [CHR 0x5C, CHR 0x5C]
      else if n = 10 then [CHR 0x5C, CHR ''n''] else if n = 13 then [CHR 0x5C, CHR ''r'']
      else if n = 9 then [CHR 0x5C, CHR ''t''] else if n = 12 then [CHR 0x5C, CHR ''f'']
      else if n = 8 then [CHR 0x5C, CHR ''b'']
      else if 32 \<le> n \<and> n \<le> 126 then [c]
      else CHR 0x5C # ''u00'' @ [hex_digit (n div 16), hex_digit (n mod 16)])"

definition json_string :: "string \<Rightarrow> string" where
  "json_string s = [CHR 0x22] @ concat (map json_char s) @ [CHR 0x22]"

fun json_members :: "(string \<times> string) list \<Rightarrow> string" where
  "json_members [] = []"
| "json_members [(k, v)] = json_string k @ '': '' @ json_string v"
| "json_members ((k, v) # kv # rest) =
     json_string k @ '': '' @ json_string v @ '', '' @ json_members (kv # rest)"

text \<open>The keys with a value, sorted; \<open>None\<close> when there is none.\<close>

definition attachment_items ::
  "string option \<Rightarrow> string option \<Rightarrow> string option \<Rightarrow> string option \<Rightarrow> (string \<times> string) list" where
  "attachment_items channel ws run external =
     List.map_filter (\<lambda>(k, v). map_option (Pair k) v)
       [(''channel'', channel), (''external_message_id'', external), (''group_folder'', ws), (''run_id'', run)]"

definition build_attachments_payload ::
  "string option \<Rightarrow> string option \<Rightarrow> string option \<Rightarrow> string option \<Rightarrow> string option" where
  "build_attachments_payload channel ws run external =
     (let payload = attachment_items channel ws run external in
      if payload = [] then None else Some (''{'' @ json_members payload @ ''}''))"

record stored_message =
  message_id :: string
  message_chat_jid :: string
  message_sender :: string
  message_content :: string
  is_from_me :: bool
  message_timestamp :: instant
  message_slot_id :: string
  attachments :: "string option"

definition new_message ::
  "string \<Rightarrow> string \<Rightarrow> string \<Rightarrow> string \<Rightarrow> bool \<Rightarrow> string \<Rightarrow> string option \<Rightarrow> string option \<Rightarrow> string option \<Rightarrow>
   string option \<Rightarrow> instant \<Rightarrow> stored_message" where
  "new_message uuid chat sender content from_me slot channel ws run external now =
     \<lparr>message_id = uuid, message_chat_jid = chat, message_sender = sender, message_content = content,
      is_from_me = from_me, message_timestamp = now, message_slot_id = slot,
      attachments = build_attachments_payload channel ws run external\<rparr>"

section \<open>Messages and their routing\<close>

record unified_message =
  msg_channel :: string
  msg_chat_jid :: string
  msg_sender_id :: string
  msg_group_folder :: "string option"
  msg_slot_id :: string
  msg_content :: string
  msg_message_id :: string
  msg_timestamp :: instant

datatype dispatch_error =
    Message_dispatch_error string
  | Message_router_error string
  | Handler_error string
  | Execution_error string

definition route_message :: "(string \<Rightarrow> unified_message \<Rightarrow> string option) \<Rightarrow> unified_message \<Rightarrow> dispatch_error option" where
  "route_message handlers message =
     (if msg_channel message \<notin> {''feishu'', ''telegram'', ''web''}
      then Some (Message_router_error (''unsupported message channel: '' @ msg_channel message))
      else map_option Handler_error (handlers (msg_channel message) message))"

section \<open>Dispatch\<close>

record resolved_target =
  target_group_folder :: string
  target_chat_jid :: string

record run_result =
  result_run_id :: string
  result_status :: string
  result_final_output :: "string option"
  result_error :: "string option"
  result_slot_id :: "string option"

record dispatch_result =
  dispatch_run_id :: string
  dispatch_status :: string
  dispatch_group_folder :: string
  inbound_message_id :: string
  outbound_message_id :: "string option"
  dispatch_final_output :: "string option"
  dispatch_error_text :: "string option"

text \<open>
  The execution plane: a coordinator, which takes an execution request and gives the result of its
  run, or a runtime trigger with the folder, the content, the sender and the run id. \<open>Inl\<close> is an
  exception.
\<close>

datatype executor =
    Coordinator "execution_request \<Rightarrow> string + run_result"
  | Runtime "string \<Rightarrow> string \<Rightarrow> string \<Rightarrow> string \<Rightarrow> string + run_result"

record dispatch_state =
  dispatch_db :: workspace_db
  messages :: "stored_message list"
  routed :: "unified_message list"

text \<open>The service's collaborators: \<open>resolve\<close> is \<open>target_resolver\<close>, \<open>register\<close> is \<open>register_target\<close>.\<close>

record dispatch_service =
  resolve_target_of :: "unified_message \<Rightarrow> workspace_db \<Rightarrow> resolved_target \<times> workspace_db"
  register_target :: "unified_message \<Rightarrow> resolved_target \<Rightarrow> workspace_db \<Rightarrow> workspace_db"
  execution_plane :: executor
  channel_handlers :: "string \<Rightarrow> unified_message \<Rightarrow> string option"

definition resolve_target :: "dispatch_service \<Rightarrow> unified_message \<Rightarrow> workspace_db \<Rightarrow> resolved_target \<times> workspace_db" where
  "resolve_target svc message db =
     (case msg_group_folder message of
        Some ws \<Rightarrow> (\<lparr>target_group_folder = ws, target_chat_jid = msg_chat_jid message\<rparr>, db)
      | None \<Rightarrow> resolve_target_of svc message db)"

definition resolve_slot_id :: "unified_message \<Rightarrow> string" where
  "resolve_slot_id message = (if msg_channel message = ''web'' then msg_slot_id message else ''main'')"

definition build_execution_request ::
  "resolved_target \<Rightarrow> unified_message \<Rightarrow> string \<Rightarrow> string \<Rightarrow> string option \<Rightarrow> execution_request" where
  "build_execution_request target message run slot mode =
     \<lparr>req_group_folder = target_group_folder target, req_chat_jid = target_chat_jid target,
      req_user_id = msg_sender_id message, req_prompt = msg_content message,
      req_source = (if msg_channel message = ''web'' then ''web'' else ''im''), req_slot_id = slot,
      requested_mode = mode, req_timeout_ms = None, fresh_session = False, request_id = Some run\<rparr>"

definition execute_message ::
  "dispatch_service \<Rightarrow> resolved_target \<Rightarrow> unified_message \<Rightarrow> string \<Rightarrow> string \<Rightarrow> string option \<Rightarrow> string + run_result" where
  "execute_message svc target message run slot mode =
     (case execution_plane svc of
        Coordinator submit \<Rightarrow> submit (build_execution_request target message run slot mode)
      | Runtime trigger \<Rightarrow>
          trigger (target_group_folder target) (msg_content message) (msg_sender_id message) run)"

definition blank :: "string option \<Rightarrow> bool" where
  "blank s = (case s of None \<Rightarrow> True | Some t \<Rightarrow> py_strip t = [])"

text \<open>\<open>uuids\<close> are the run id and the ids of the two stored messages.\<close>

definition dispatch_inbound_message ::
  "dispatch_service \<Rightarrow> dispatch_state \<Rightarrow> unified_message \<Rightarrow> string option \<Rightarrow> string \<Rightarrow> string \<Rightarrow> string \<Rightarrow> instant \<Rightarrow>
   (dispatch_error + dispatch_result) \<times> dispatch_state" where
  "dispatch_inbound_message svc st message mode run inbound_id outbound_id now =
     (if py_strip (msg_content message) = []
      then (Inl (Message_dispatch_error ''message content cannot be empty''), st)
      else
        (case resolve_target svc message (dispatch_db st) of
           (target, db1) \<Rightarrow>
             let slot = resolve_slot_id message;
                 ws = target_group_folder target;
                 inbound = new_message inbound_id (target_chat_jid target) (msg_sender_id message)
                   (msg_content message) False slot (Some (msg_channel message)) (Some ws) (Some run)
                   (Some (msg_message_id message)) now;
                 st1 = st\<lparr>dispatch_db := register_target svc message target db1, messages := messages st @ [inbound]\<rparr>
             in (case execute_message svc target message run slot mode of
                   Inl e \<Rightarrow> (Inl (Execution_error e), st1)
                 | Inr result \<Rightarrow>
                     if result_status result \<noteq> ''completed'' then
                       (Inr \<lparr>dispatch_run_id = result_run_id result, dispatch_status = result_status result,
                             dispatch_group_folder = ws, inbound_message_id = inbound_id,
                             outbound_message_id = None, dispatch_final_output = result_final_output result,
                             dispatch_error_text = result_error result\<rparr>, st1)
                     else if blank (result_final_output result)
                       then (Inl (Message_dispatch_error ''runtime completed without final output''), st1)
                     else
                       let output_text = the (result_final_output result);
                           result_slot = (case result_slot_id result of None \<Rightarrow> slot | Some s \<Rightarrow> s);
                           outbound = \<lparr>msg_channel = msg_channel message, msg_chat_jid = target_chat_jid target,
                             msg_sender_id = ''portex'', msg_group_folder = Some ws, msg_slot_id = result_slot,
                             msg_content = output_text, msg_message_id = ''out-'' @ result_run_id result,
                             msg_timestamp = now\<rparr>
                       in (case route_message (channel_handlers svc) outbound of
                             Some e \<Rightarrow> (Inl e, st1)
                           | None \<Rightarrow>
                               let stored = new_message outbound_id (target_chat_jid target) ''portex'' output_text True
                                     result_slot (Some (msg_channel message)) (Some ws) (Some (result_run_id result))
                                     (Some (msg_message_id outbound)) now
                               in (Inr \<lparr>dispatch_run_id = result_run_id result, dispatch_status = ''completed'',
                                        dispatch_group_folder = ws, inbound_message_id = inbound_id,
                                        outbound_message_id = Some outbound_id,
                                        dispatch_final_output = Some output_text, dispatch_error_text = None\<rparr>,
                                   st1\<lparr>messages := messages st1 @ [stored], routed := routed st1 @ [outbound]\<rparr>)))))"

section \<open>The workspace of a message\<close>

text \<open>\<open>_build_group_folder\<close> with \<open>sha1\<close>'s hex digits.\<close>

definition build_group_folder :: "(string \<Rightarrow> string) \<Rightarrow> string \<Rightarrow> string" where
  "build_group_folder sha1_hex chat = ''chat-'' @ take 12 (sha1_hex (utf8_bytes chat))"

definition fallback_target :: "(string \<Rightarrow> string) \<Rightarrow> unified_message \<Rightarrow> resolved_target" where
  "fallback_target sha1_hex message =
     \<lparr>target_group_folder = build_group_folder sha1_hex (msg_chat_jid message), target_chat_jid = msg_chat_jid message\<rparr>"

definition build_registered_group_name :: "unified_message \<Rightarrow> resolved_target \<Rightarrow> string" where
  "build_registered_group_name message target =
     (if msg_channel message = ''web'' then target_group_folder target else target_chat_jid target)"

definition resolve_registered_im_target ::
  "(string \<Rightarrow> string) \<Rightarrow> instant \<Rightarrow> unified_message \<Rightarrow> workspace_db \<Rightarrow> resolved_target \<times> workspace_db" where
  "resolve_registered_im_target sha1_hex now message db =
     (let fallback = fallback_target sha1_hex message in
      if msg_channel message = ''web'' then (fallback, db)
      else
        let db1 = snd (ensure_im_endpoint db (msg_chat_jid message) (build_registered_group_name message fallback)
                         (target_group_folder fallback) now)
        in (\<lparr>target_group_folder = (case resolve_im_workspace db1 (msg_chat_jid message) of
               None \<Rightarrow> target_group_folder fallback | Some w \<Rightarrow> folder w),
             target_chat_jid = msg_chat_jid message\<rparr>, db1))"

definition register_web_target :: "instant \<Rightarrow> unified_message \<Rightarrow> resolved_target \<Rightarrow> workspace_db \<Rightarrow> workspace_db" where
  "register_web_target now message target db =
     (if msg_channel message \<noteq> ''web'' then db
      else snd (ensure_registered_group db (target_chat_jid target) (build_registered_group_name message target)
             (target_group_folder target) (Some (msg_sender_id message)) False None now))"

text \<open>\<open>get_message_dispatch_service\<close>: the handlers are those of the IM clients, the web's does nothing.\<close>

definition message_dispatch_service ::
  "(string \<Rightarrow> string) \<Rightarrow> (execution_request \<Rightarrow> string + run_result) \<Rightarrow> (string \<Rightarrow> unified_message \<Rightarrow> string option) \<Rightarrow>
   instant \<Rightarrow> dispatch_service" where
  "message_dispatch_service sha1_hex submit im_handlers now =
     \<lparr>resolve_target_of = resolve_registered_im_target sha1_hex now,
      register_target = register_web_target now,
      execution_plane = Coordinator submit,
      channel_handlers = (\<lambda>channel. if channel = ''web'' then (\<lambda>_. None) else im_handlers channel)\<rparr>"

definition resolve_http_message_target ::
  "workspace_db \<Rightarrow> string \<Rightarrow> string \<Rightarrow> auth_user \<Rightarrow> instant \<Rightarrow> (string \<times> string) response" where
  "resolve_http_message_target db group_id slot u now =
     (let db1 = snd (ensure_home_workspace db (user_id u) (user_role u) (username u) now) in
      case get_web_workspace_by_folder db1 group_id now of
        (Some workspace, db2) \<Rightarrow>
          if \<not> user_can_access_group db2 (user_id u) (user_role u) workspace
          then (Inl (Http_error 404 ''group not found''), db2)
          else if slot \<noteq> ''main'' \<and> get_slot db2 (folder workspace) slot = None
          then (Inl (Http_error 404 ''slot not found''), db2)
          else (Inr (jid workspace, folder workspace), db2)
      | (None, db2) \<Rightarrow>
          if slot \<noteq> ''main'' then (Inl (Http_error 404 ''slot not found''), db2)
          else (Inr (group_id, group_id), db2))"

text \<open>
  \<open>send_message\<close>; an exception other than a \<open>MessageDispatchError\<close> becomes a 500, also that of
  \<open>UnifiedMessage\<close> when the chat id is empty.
\<close>

definition send_message ::
  "dispatch_service \<Rightarrow> dispatch_state \<Rightarrow> http_error + auth_user \<Rightarrow> string \<Rightarrow> string \<Rightarrow> string \<Rightarrow> string option \<Rightarrow>
   string \<Rightarrow> string \<Rightarrow> string \<Rightarrow> string \<Rightarrow> instant \<Rightarrow> (http_error + dispatch_result) \<times> dispatch_state" where
  "send_message svc st current group_id content slot mode uuid run inbound_id outbound_id now =
     (case current of
        Inl e \<Rightarrow> (Inl e, st)
      | Inr u \<Rightarrow>
          (case resolve_http_message_target (dispatch_db st) group_id slot u now of
             (Inl e, db1) \<Rightarrow> (Inl e, st\<lparr>dispatch_db := db1\<rparr>)
           | (Inr (chat, ws), db1) \<Rightarrow>
               if chat = [] then (Inl (Http_error 500 ''Internal Server Error''), st\<lparr>dispatch_db := db1\<rparr>) else
               let message = \<lparr>msg_channel = ''web'', msg_chat_jid = chat, msg_sender_id = user_id u,
                     msg_group_folder = Some ws, msg_slot_id = slot, msg_content = content,
                     msg_message_id = ''msg-'' @ take 12 uuid, msg_timestamp = now\<rparr>
               in (case dispatch_inbound_message svc (st\<lparr>dispatch_db := db1\<rparr>) message mode run inbound_id outbound_id now of
                     (Inl (Message_dispatch_error e), st1) \<Rightarrow> (Inl (Http_error 400 e), st1)
                   | (Inl _, st1) \<Rightarrow> (Inl (Http_error 500 ''Internal Server Error''), st1)
                   | (Inr result, st1) \<Rightarrow> (Inr result, st1))))"

end
