(* ===== verification/WorkspaceInvariant.thy ===== *)
theory WorkspaceInvariant
  imports MessageDispatch
begin

text \<open>
  What holds of the workspace tables in every state that registrations, requests and messages can
  reach, and what a message does to the group it names.
\<close>

section \<open>Well-formed tables\<close>

definition db_ok :: "workspace_db \<Rightarrow> bool" where
  "db_ok db \<longleftrightarrow>
     rows_ok slot_key (slots db) \<and> rows_ok member_key (members db) \<and> rows_ok jid (groups db) \<and>
     (\<forall>s \<in> set (slots db). slot_id s = ''main'' \<or> slug_match (slot_id s)) \<and>
     (\<forall>m \<in> set (members db). member_role m \<in> set valid_group_member_roles) \<and>
     (\<forall>g \<in> set (groups db). get_slot db (folder g) ''main'' \<noteq> None)"

lemma db_okD:
  assumes "db_ok db"
  shows "rows_ok slot_key (slots db)" "rows_ok member_key (members db)" "rows_ok jid (groups db)"
    "s \<in> set (slots db) \<Longrightarrow> slot_id s = ''main'' \<or> slug_match (slot_id s)"
    "m \<in> set (members db) \<Longrightarrow> member_role m \<in> set valid_group_member_roles"
    "g \<in> set (groups db) \<Longrightarrow> get_slot db (folder g) ''main'' \<noteq> None"
  using assms unfolding db_ok_def by blast+

lemma put_slot_ok:
  assumes "db_ok db" "slot_id s = ''main'' \<or> slug_match (slot_id s)"
  shows "db_ok (db\<lparr>slots := row_put slot_key s (slots db)\<rparr>)"
  using assms by (auto simp: db_ok_def rows_ok_put set_row_put)

lemma put_member_ok:
  assumes "db_ok db" "member_role m \<in> set valid_group_member_roles"
  shows "db_ok (db\<lparr>members := row_put member_key m (members db)\<rparr>)"
  using assms by (auto simp: db_ok_def rows_ok_put set_row_put)

lemma delete_member_ok: "db_ok db \<Longrightarrow> db_ok (db\<lparr>members := row_delete member_key k (members db)\<rparr>)"
  by (auto simp: db_ok_def rows_ok_delete) (auto simp: row_delete_def)

lemma put_group_ok:
  assumes "db_ok db" "get_slot db (folder g) ''main'' \<noteq> None"
  shows "db_ok (db\<lparr>groups := row_put jid g (groups db)\<rparr>)"
  using assms by (auto simp: db_ok_def rows_ok_put set_row_put)

lemma ensure_main_slot_ok: "db_ok db \<Longrightarrow> db_ok (snd (ensure_main_slot db ws c now))"
  by (auto simp: ensure_main_slot_def Let_def get_slot_def slot_key_def put_slot_ok dest!: row_getD split: option.split)

lemma put_group_main_slot:
  assumes "db_ok db"
  shows "db_ok (ensure_main_slot_for_workspace (db\<lparr>groups := row_put jid g (groups db)\<rparr>) g now)"
proof -
  let ?db1 = "snd (ensure_main_slot db (folder g) (created_by g) now)"
  have "db_ok (?db1\<lparr>groups := row_put jid g (groups ?db1)\<rparr>)"
    by (intro put_group_ok ensure_main_slot_ok assms ensure_main_slot_slots)
  moreover have "ensure_main_slot_for_workspace (db\<lparr>groups := row_put jid g (groups db)\<rparr>) g now =
      ?db1\<lparr>groups := row_put jid g (groups ?db1)\<rparr>"
    by (simp add: ensure_main_slot_for_workspace_def ensure_main_slot_def Let_def split: option.split)
  ultimately show ?thesis by simp
qed

lemma ensure_registered_group_ok: "db_ok db \<Longrightarrow> db_ok (snd (ensure_registered_group db j name f c h t now))"
  by (simp add: ensure_registered_group_def Let_def put_group_main_slot split: option.split)

lemma ensure_home_workspace_ok: "db_ok db \<Longrightarrow> db_ok (snd (ensure_home_workspace db uid role name now))"
  by (simp add: ensure_home_workspace_def ensure_registered_group_ok)

lemma ensure_im_endpoint_ok: "db_ok db \<Longrightarrow> db_ok (snd (ensure_im_endpoint db j name f now))"
  by (simp add: ensure_im_endpoint_def ensure_registered_group_ok ensure_main_slot_for_workspace_def
      ensure_main_slot_ok split: option.split)

lemma get_web_workspace_ok: "db_ok db \<Longrightarrow> db_ok (snd (get_web_workspace_by_folder db f now))"
  by (simp add: get_web_workspace_by_folder_def ensure_main_slot_for_workspace_def ensure_main_slot_ok split: list.split)

lemma add_member_ok: "db_ok db \<Longrightarrow> db_ok (snd (add_member db ws uid role adder now))"
  by (simp add: add_member_def Let_def put_member_ok)

lemma remove_member_ok: "db_ok db \<Longrightarrow> db_ok (snd (remove_member db ws uid))"
  by (simp add: remove_member_def delete_member_ok split: option.split)

lemma create_slot_ok: "db_ok db \<Longrightarrow> db_ok (snd (create_slot db ws sid title c now))"
  by (simp add: create_slot_def Let_def put_slot_ok split: option.split)

lemma create_workspace_ok: "db_ok db \<Longrightarrow> db_ok (snd (create_workspace db f name c now))"
proof -
  assume ok: "db_ok db"
  obtain w db1 where w: "ensure_registered_group db (''web:'' @ f) name f (Some c) False None now = (w, db1)" by fastforce
  have "db_ok db1" using ensure_registered_group_ok [OF ok, of "''web:'' @ f" name f "Some c" False None now]
    unfolding w by simp
  then have "db_ok (snd (add_member db1 f c ''owner'' (Some c) now))" by (rule add_member_ok)
  then show ?thesis
    unfolding create_workspace_def w using ok by (auto split: option.split prod.split sum.split)
qed

lemma update_group_row_ok:
  assumes "db_ok db" "get_registered_group db (jid g) = Some old" "folder g = folder old"
  shows "db_ok (db\<lparr>groups := row_put jid g (groups db)\<rparr>)"
  using assms db_okD(6) [OF assms(1)] get_registered_groupD [OF assms(2)] by (intro put_group_ok) auto

lemma rename_workspace_ok:
  "db_ok db \<Longrightarrow> g \<in> set (groups db) \<Longrightarrow> db_ok (snd (rename_workspace db g name))"
  using update_group_row_ok [of db "g\<lparr>group_name := name\<rparr>" g] db_okD(3) [of db]
  by (simp add: rename_workspace_def Let_def get_registered_group_def row_in_get)

lemma set_target_ok:
  assumes "db_ok db" "get_registered_group db j = Some e"
  shows "db_ok (db\<lparr>groups := row_put jid (e\<lparr>target_workspace_jid := t\<rparr>) (groups db)\<rparr>)"
  using assms get_registered_groupD [OF assms(2)] by (intro update_group_row_ok [of _ _ e]) auto

lemma bind_ok: "db_ok db \<Longrightarrow> db_ok (snd (bind_im_endpoint_to_workspace db g j))"
  by (simp add: bind_im_endpoint_to_workspace_def Let_def set_target_ok split: option.split)

lemma unbind_ok: "db_ok db \<Longrightarrow> db_ok (snd (unbind_im_endpoint_from_workspace db g j))"
  by (simp add: unbind_im_endpoint_from_workspace_def Let_def set_target_ok split: option.split)

lemmas service_ok_rules = ensure_registered_group_ok ensure_home_workspace_ok ensure_im_endpoint_ok
  get_web_workspace_ok add_member_ok remove_member_ok create_slot_ok create_workspace_ok
  rename_workspace_ok bind_ok unbind_ok

section \<open>Requests and messages\<close>

lemma in_workspace_ok:
  assumes "db_ok db"
    and "\<And>w db1. db_ok db1 \<Longrightarrow> groups db1 = groups db \<Longrightarrow> w \<in> set (groups db) \<Longrightarrow> db_ok (snd (handler w db1))"
  shows "db_ok (snd (in_workspace db gid u now handler))"
  using assms get_web_workspace_ok [OF assms(1)]
  by (cases rule: in_workspace_cases [of db gid u now handler]) auto

lemma portal_step_ok:
  assumes "portal_step accounts u db db'" "db_ok db"
  shows "db_ok db'"
  using assms
proof (cases rule: portal_step.cases)
  case (listed now)
  with assms(2) show ?thesis by (simp add: list_groups_def Let_def service_ok_rules)
next
  case (created gid name now)
  with assms(2) show ?thesis by (simp add: create_group_def as_user_permission service_ok_rules)
next
  case (renamed gid name now)
  have "db_ok (snd (in_workspace db gid u now handler))"
    if "handler = (\<lambda>workspace db1.
         let rest = (\<lambda>db2.
               if \<not> user_can_manage_members (user_id u) workspace then (Inl permission_denied, db2)
               else respond to_group_summary_response (rename_workspace db2 workspace name))
         in if is_home workspace then
              (case rename_workspace db1 workspace name of
                 (Inl e, db2) \<Rightarrow> (Inl (registry_http_error e), db2)
               | (Inr _, db2) \<Rightarrow> rest db2)
            else rest db1)" for handler
    unfolding that by (rule in_workspace_ok [OF assms(2)]) (simp add: Let_def rename_workspace_ok, simp add: rename_workspace_def)
  then show ?thesis using renamed assms(2) by (simp add: update_group_def as_user_permission)
next
  case (slots_listed gid now)
  with assms(2) show ?thesis by (simp add: list_group_slots_def in_workspace_ok)
next
  case (slot_created gid sid title now)
  with assms(2) show ?thesis by (simp add: create_group_slot_def in_workspace_ok service_ok_rules)
next
  case (bindings_listed gid now)
  with assms(2) show ?thesis by (simp add: list_group_im_bindings_def in_workspace_ok split: option.split)
next
  case (bound gid j now)
  with assms(2) show ?thesis by (simp add: bind_group_im_endpoint_def in_workspace_ok service_ok_rules split: option.split)
next
  case (unbound gid j now)
  with assms(2) show ?thesis by (simp add: unbind_group_im_endpoint_def in_workspace_ok service_ok_rules split: option.split)
next
  case (members_listed gid now)
  with assms(2) show ?thesis by (simp add: list_group_members_def as_user_permission in_workspace_ok)
next
  case (member_added gid uid role now)
  with assms(2) show ?thesis
    by (simp add: add_group_member_def as_user_permission in_workspace_ok service_ok_rules split: option.split)
next
  case (member_removed gid uid now)
  with assms(2) show ?thesis
    by (simp add: remove_group_member_def in_workspace_ok service_ok_rules split: option.split)
qed

lemma dispatch_db_after:
  "dispatch_db (snd (dispatch_inbound_message svc st message mode run inbound_id outbound_id now)) =
     (if py_strip (msg_content message) = [] then dispatch_db st
      else (let (target, db1) = resolve_target svc message (dispatch_db st) in register_target svc message target db1))"
  by (auto simp: dispatch_inbound_message_def Let_def split: prod.split sum.split option.split)

lemma dispatch_ok:
  assumes "db_ok (dispatch_db st)"
  shows "db_ok (dispatch_db (snd (dispatch_inbound_message (message_dispatch_service sha1 submit handlers now')
    st message mode run inbound_id outbound_id now)))"
  using assms
  by (auto simp: dispatch_db_after Let_def case_prod_beta message_dispatch_service_def resolve_target_def
      resolve_registered_im_target_def register_web_target_def service_ok_rules split: option.split)

lemma resolve_http_ok:
  assumes "db_ok db"
  shows "db_ok (snd (resolve_http_message_target db group_id slot u now))"
proof -
  have "snd (resolve_http_message_target db group_id slot u now) =
      snd (get_web_workspace_by_folder (snd (ensure_home_workspace db (user_id u) (user_role u) (username u) now)) group_id now)"
    by (auto simp: resolve_http_message_target_def Let_def split: prod.split option.split)
  with assms show ?thesis by (simp add: service_ok_rules)
qed

lemma send_message_db:
  "dispatch_db (snd (send_message svc st (Inr u) group_id content slot mode uuid run inbound_id outbound_id now)) =
     (case resolve_http_message_target (dispatch_db st) group_id slot u now of
        (Inl _, db1) \<Rightarrow> db1
      | (Inr (chat, ws), db1) \<Rightarrow>
          if chat = [] then db1
          else dispatch_db (snd (dispatch_inbound_message svc (st\<lparr>dispatch_db := db1\<rparr>)
            \<lparr>msg_channel = ''web'', msg_chat_jid = chat, msg_sender_id = user_id u, msg_group_folder = Some ws,
             msg_slot_id = slot, msg_content = content, msg_message_id = ''msg-'' @ take 12 uuid, msg_timestamp = now\<rparr>
            mode run inbound_id outbound_id now)))"
  by (auto simp: send_message_def Let_def split: prod.split sum.split dispatch_error.split)

lemma send_message_ok:
  assumes "db_ok (dispatch_db st)"
  shows "db_ok (dispatch_db (snd (send_message (message_dispatch_service sha1 submit handlers now') st (Inr u)
    group_id content slot mode uuid run inbound_id outbound_id now)))"
  using resolve_http_ok [OF assms, of group_id slot u now]
  by (auto simp: send_message_db dispatch_ok split: prod.split sum.split)

text \<open>How the tables can change: a registration or a login's home, a user's request to the group routes, a
user's message, and a message from an IM channel.\<close>

inductive reachable_db :: "workspace_db \<Rightarrow> bool" where
  empty: "reachable_db \<lparr>slots = [], members = [], groups = []\<rparr>"
| home: "reachable_db db \<Longrightarrow> reachable_db (snd (ensure_home_workspace db uid role name now))"
| request: "reachable_db db \<Longrightarrow> portal_step accounts u db db' \<Longrightarrow> reachable_db db'"
| message: "reachable_db (dispatch_db st) \<Longrightarrow>
    reachable_db (dispatch_db (snd (send_message (message_dispatch_service sha1_hex submit handlers now') st (Inr u)
      group_id content slot mode uuid run inbound_id outbound_id now)))"
| im_message: "reachable_db (dispatch_db st) \<Longrightarrow>
    reachable_db (dispatch_db (snd (dispatch_inbound_message (message_dispatch_service sha1_hex submit handlers now') st
      im_message mode run inbound_id outbound_id now)))"

lemma reachable_db_ok: "reachable_db db \<Longrightarrow> db_ok db"
proof (induction rule: reachable_db.induct)
  case empty
  show ?case by (simp add: db_ok_def)
next
  case (home db uid role name now)
  show ?case by (rule ensure_home_workspace_ok [OF home.IH])
next
  case (request db accounts u db')
  show ?case by (rule portal_step_ok [OF request.hyps(2) request.IH])
next
  case (message st)
  show ?case by (rule send_message_ok [OF message.IH])
next
  case (im_message st)
  show ?case by (rule dispatch_ok [OF im_message.IH])
qed

text \<open>C16: The tables stay well formed: in every reachable state each table has one row per key, every
member has a valid role, every slot is the main one or has a valid name, and the folder of every
registered group, home, shared workspace or IM endpoint, has its main slot.\<close>

theorem tables_well_formed:
  assumes "reachable_db db"
  shows "rows_ok slot_key (slots db) \<and> rows_ok member_key (members db) \<and> rows_ok jid (groups db) \<and>
    (\<forall>m \<in> set (members db). member_role m \<in> {''owner'', ''admin'', ''member''}) \<and>
    (\<forall>s \<in> set (slots db). slot_id s = ''main'' \<or> slug_match (slot_id s)) \<and>
    (\<forall>g \<in> set (groups db). \<exists>s. get_slot db (folder g) ''main'' = Some s \<and> s \<in> set (list_slots db (folder g)))"
proof -
  have ok: "db_ok db" by (rule reachable_db_ok [OF assms])
  have "\<exists>s. get_slot db (folder g) ''main'' = Some s \<and> s \<in> set (list_slots db (folder g))"
    if g: "g \<in> set (groups db)" for g
  proof -
    obtain s where s: "get_slot db (folder g) ''main'' = Some s" using db_okD(6) [OF ok g] unfolding not_None_eq by (elim exE)
    then have "slot_key s = (folder g, ''main'')" "s \<in> set (slots db)"
      using row_getD [of slot_key "(folder g, ''main'')" "slots db" s] unfolding get_slot_def by blast+
    with s show ?thesis by (simp add: list_slots_def slot_key_def)
  qed
  with ok show ?thesis by (auto simp: db_ok_def valid_group_member_roles_def)
qed

lemma example_workspaces_reachable: "reachable_db example_workspaces"
proof -
  have "example_workspaces = snd (create_group \<lparr>slots = [], members = [], groups = []\<rparr> (Inr example_owner) ''team'' ''Team'' 1)"
    by (simp add: example_workspaces_def create_group_def as_user_permission group_write_role example_owner_def)
  then show ?thesis
    using reachable_db.request [OF reachable_db.empty portal_step.created [where accounts = initial_auth_service]] by metis
qed

lemma tables_well_formed_witness: "get_slot example_workspaces ''team'' ''main'' \<noteq> None"
  using tables_well_formed [OF example_workspaces_reachable] example_team(3) by fastforce

section \<open>What a message does to the group it names\<close>

lemma ensure_main_get [simp]:
  "get_registered_group (ensure_main_slot_for_workspace db g now) j = get_registered_group db j"
  by (simp add: get_registered_group_def)

lemma ensure_registered_get:
  "get_registered_group (snd (ensure_registered_group db j name f c h t now)) k =
     (if k = j then Some (fst (ensure_registered_group db j name f c h t now)) else get_registered_group db k)"
proof (cases "get_registered_group db j")
  case None
  then show ?thesis by (simp add: ensure_registered_group_def Let_def)
next
  case (Some g)
  then have "jid g = j" using get_registered_groupD by blast
  with Some show ?thesis by (simp add: ensure_registered_group_def Let_def)
qed

lemma ensure_home_get:
  assumes "j \<notin> {''web:main'', ''web:home-'' @ uid}"
  shows "get_registered_group (snd (ensure_home_workspace db uid role name now)) j = get_registered_group db j"
  using assms by (cases "role = Some ''owner''") (simp_all add: ensure_home_workspace_def ensure_registered_get)

lemma get_web_same [simp]:
  "get_registered_group (snd (get_web_workspace_by_folder db f now)) j = get_registered_group db j"
  by (simp add: get_registered_group_def)

lemma register_web_get:
  assumes "get_registered_group db j = Some g" "msg_channel message = ''web''" "target_chat_jid target = j"
  shows "get_registered_group (register_web_target now message target db) j =
    Some (g\<lparr>group_name := target_group_folder target, folder := target_group_folder target,
           created_by := (if created_by g = None then Some (msg_sender_id message) else created_by g)\<rparr>)"
  using assms
  by (simp add: register_web_target_def build_registered_group_name_def ensure_registered_get)
    (simp add: ensure_registered_group_def Let_def)

text \<open>The folder of a home is not the id of a web workspace.\<close>

lemma home_folder:
  "folder (fst (ensure_home_workspace db uid role name now)) \<in> {''main'', ''home-'' @ uid}"
  by (simp add: ensure_home_workspace_def ensure_registered_group_def Let_def split: option.split)

lemma ensure_registered_groups:
  "groups (snd (ensure_registered_group db j name f c h t now)) =
     row_put jid (fst (ensure_registered_group db j name f c h t now)) (groups db)"
  by (simp add: ensure_registered_group_def Let_def split: option.split)

lemma set_row_put_subset: "set (row_put key r rows) \<subseteq> insert r (set rows)"
  by (auto simp: row_put_def)

lemma ensure_home_groups:
  "set (groups (snd (ensure_home_workspace db uid role name now))) \<subseteq>
     insert (fst (ensure_home_workspace db uid role name now)) (set (groups db))"
  unfolding ensure_home_workspace_def by (simp add: ensure_registered_groups set_row_put_subset)

lemma send_message_group:
  assumes "resolve_http_message_target (dispatch_db st) group_id slot u now = (Inr (j, ws), db1)"
    and "get_registered_group db1 j = Some g" "j \<noteq> []" "py_strip content \<noteq> []"
  shows "get_registered_group (dispatch_db (snd (send_message (message_dispatch_service sha1_hex submit handlers now') st (Inr u)
      group_id content slot mode uuid run inbound_id outbound_id now))) j =
    Some (g\<lparr>group_name := ws, folder := ws,
           created_by := (if created_by g = None then Some (user_id u) else created_by g)\<rparr>)"
  using assms
  by (simp add: send_message_db dispatch_db_after Let_def resolve_target_def message_dispatch_service_def register_web_get)

text \<open>C19: A message rewrites the row of the group it names, and the check of access is only made for the
folder: a user who sends a message with a web workspace's id in place of its folder, a user without any
right to it included, moves the workspace to a folder of that name; and an ordinary message to an
accessible workspace replaces the workspace's name by its folder.\<close>

theorem message_rewrites_group:
  assumes sent: "db' = dispatch_db (snd (send_message (message_dispatch_service sha1_hex submit handlers now') st
      (Inr u) group_id content slot mode uuid run inbound_id outbound_id now))"
    and content: "py_strip content \<noteq> []" and web: "is_web g"
  shows "(get_registered_group (dispatch_db st) (jid g) = Some g \<and> group_id = jid g \<and> slot = ''main'' \<and>
      jid g \<notin> {''web:main'', ''web:home-'' @ user_id u} \<and>
      (\<forall>h \<in> set (groups (dispatch_db st)). is_web h \<longrightarrow> folder h \<noteq> jid g) \<longrightarrow>
      (\<exists>g'. get_registered_group db' (jid g) = Some g' \<and> folder g' = jid g \<and> group_name g' = jid g)) \<and>
    (resolve_http_message_target (dispatch_db st) group_id slot u now = (Inr (jid g, folder g), db1) \<and>
      get_registered_group db1 (jid g) = Some g \<longrightarrow>
      (\<exists>g'. get_registered_group db' (jid g) = Some g' \<and> folder g' = folder g \<and> group_name g' = folder g))"
proof (intro conjI impI; elim conjE)
  assume g: "get_registered_group (dispatch_db st) (jid g) = Some g" and id: "group_id = jid g" "slot = ''main''"
    and other: "jid g \<notin> {''web:main'', ''web:home-'' @ user_id u}"
    and unnamed: "\<forall>h \<in> set (groups (dispatch_db st)). is_web h \<longrightarrow> folder h \<noteq> jid g"
  let ?home = "ensure_home_workspace (dispatch_db st) (user_id u) (user_role u) (username u) now"
  have "\<forall>h \<in> set (groups (snd ?home)). folder h = jid g \<longrightarrow> \<not> is_web h"
  proof (intro ballI impI)
    fix h assume h: "h \<in> set (groups (snd ?home))" "folder h = jid g"
    have "folder (fst ?home) \<noteq> jid g"
      using home_folder [of "dispatch_db st" "user_id u" "user_role u" "username u" now] web
      by (auto simp: is_web_def py_startswith_def dest: sym)
    with h ensure_home_groups [of "dispatch_db st" "user_id u" "user_role u" "username u" now] unnamed
    show "\<not> is_web h" by auto
  qed
  then obtain db2 where db2: "get_web_workspace_by_folder (snd ?home) (jid g) now = (None, db2)"
    using get_web_workspace_None [of "snd ?home" "jid g" now] by (metis prod.collapse)
  then have "resolve_http_message_target (dispatch_db st) (jid g) ''main'' u now = (Inr (jid g, jid g), db2)"
    by (simp add: resolve_http_message_target_def Let_def)
  moreover have "get_registered_group db2 (jid g) = Some g"
    using ensure_home_get [OF other, of "dispatch_db st" "user_role u" "username u" now] g
      get_web_same [of "snd ?home" "jid g" now "jid g"] db2 by simp
  ultimately show "\<exists>g'. get_registered_group db' (jid g) = Some g' \<and> folder g' = jid g \<and> group_name g' = jid g"
    unfolding sent id using send_message_group web_jid_nonempty [OF web] content by simp
next
  assume "resolve_http_message_target (dispatch_db st) group_id slot u now = (Inr (jid g, folder g), db1)"
    and "get_registered_group db1 (jid g) = Some g"
  then show "\<exists>g'. get_registered_group db' (jid g) = Some g' \<and> folder g' = folder g \<and> group_name g' = folder g"
    unfolding sent using send_message_group web_jid_nonempty [OF web] content by simp
qed

lemma message_rewrites_group_witness:
  "\<exists>g'. get_registered_group (dispatch_db (snd (send_message
      (message_dispatch_service (\<lambda>x. x) (\<lambda>_. Inl ''no backend'') (\<lambda>_ _. None) 3)
      \<lparr>dispatch_db = example_workspaces, messages = [], routed = []\<rparr> (Inr (new_user ''id2'' ''bob'' ''member''))
      ''web:team'' ''hi'' ''main'' None ''u'' ''r'' ''m1'' ''m2'' 3))) ''web:team'' = Some g' \<and> folder g' = ''web:team''"
proof -
  let ?g = "\<lparr>jid = ''web:team'', group_name = ''Team'', folder = ''team'', added_at = 1, container_config = None,
           created_by = Some ''id1'', is_home = False, target_workspace_jid = None\<rparr>"
  have "is_web ?g" "py_strip ''hi'' \<noteq> []"
    by (simp_all add: is_web_def py_startswith_def py_strip_def py_rstrip_def py_lstrip_def py_isspace_char_def)
  from message_rewrites_group [OF refl this(2,1), where st = "\<lparr>dispatch_db = example_workspaces, messages = [], routed = []\<rparr>"
      and u = "new_user ''id2'' ''bob'' ''member''" and group_id = "''web:team''" and slot = "''main''"
      and sha1_hex = "\<lambda>x. x" and submit = "\<lambda>_. Inl ''no backend''" and handlers = "\<lambda>_ _. None" and now' = 3
      and mode = None and uuid = "''u''" and run = "''r''" and inbound_id = "''m1''" and outbound_id = "''m2''" and now = 3]
  have "get_registered_group example_workspaces (jid ?g) = Some ?g \<and> ''web:team'' = jid ?g \<and> ''main'' = ''main'' \<and>
      jid ?g \<notin> {''web:main'', ''web:home-'' @ user_id (new_user ''id2'' ''bob'' ''member'')} \<and>
      (\<forall>h \<in> set (groups example_workspaces). is_web h \<longrightarrow> folder h \<noteq> jid ?g) \<longrightarrow>
      ?thesis" by auto
  moreover have "jid ?g \<notin> {''web:main'', ''web:home-'' @ user_id (new_user ''id2'' ''bob'' ''member'')}" by simp
  ultimately show ?thesis by (simp add: example_team(1,3))
qed

end
