(* ===== verification/TaskScheduler.thy ===== *)
theory TaskScheduler
  imports ExecutionCoordinator
begin

text \<open>
  Scheduled tasks: \<open>services/scheduler.py\<close>, the service around it (\<open>services/task_service.py\<close>) and
  the run logs (\<open>services/task_log_service.py\<close>).

  A \<open>ScheduledTask\<close> is a mutable object that the scheduler's dictionary and the polls share, so
  the state has a heap of objects and references into it. A poll (\<open>run_pending\<close>) is a coroutine: it
  is suspended while a task executes, and other operations come in between; \<open>polls\<close> holds the
  suspended ones. \<open>croniter\<close> is a third-party package and is the argument \<open>cron\<close>. The scheduler's
  clock gives naive UTC times; each reading is an argument.
\<close>

section \<open>Time\<close>

definition datetime_max :: instant where
  "datetime_max = 253402300799999999"

definition datetime_min :: instant where
  "datetime_min = -62135596800000000"

datatype task_error = Task_value_error string | Overflow_error

text \<open>\<open>timedelta(seconds=n)\<close>, at most 999999999 days; and \<open>datetime + timedelta\<close>.\<close>

definition timedelta_seconds :: "int \<Rightarrow> task_error + int" where
  "timedelta_seconds n =
     (if \<bar>n div 86400\<bar> > 999999999 then Inl Overflow_error else Inr (n * 1000000))"

definition datetime_plus :: "instant \<Rightarrow> int \<Rightarrow> task_error + instant" where
  "datetime_plus t d =
     (if t + d < datetime_min \<or> datetime_max < t + d then Inl Overflow_error else Inr (t + d))"

section \<open>Tasks\<close>

record scheduled_task =
  task_id :: string
  task_group_folder :: string
  task_chat_jid :: string
  task_prompt :: string
  task_execution_mode :: "string option"
  schedule_type :: string
  schedule_value :: "string option"
  next_run :: "instant option"
  task_status :: string
  task_created_at :: instant

text \<open>
  \<open>croniter(expression, start)\<close> and \<open>get_next(datetime)\<close>: the errors of the package are
  \<open>ValueError\<close>s.
\<close>

record cron_library =
  croniter :: "string \<Rightarrow> instant \<Rightarrow> string option"
  croniter_next :: "string \<Rightarrow> instant \<Rightarrow> string + instant"

definition cron_get_next :: "cron_library \<Rightarrow> string \<Rightarrow> instant \<Rightarrow> task_error + instant" where
  "cron_get_next cron expression start =
     (case croniter cron expression start of
        Some e \<Rightarrow> Inl (Task_value_error e)
      | None \<Rightarrow> map_sum Task_value_error id (croniter_next cron expression start))"

definition parse_interval_seconds :: "string option \<Rightarrow> task_error + int" where
  "parse_interval_seconds value =
     (case value of
        None \<Rightarrow> Inl (Task_value_error ''interval tasks require schedule_value'')
      | Some v \<Rightarrow>
          (case py_int v of
             None \<Rightarrow> Inl (Task_value_error (''invalid interval schedule: '' @ v))
           | Some n \<Rightarrow>
               if n \<le> 0 then Inl (Task_value_error (''invalid interval schedule: '' @ v)) else Inr n))"

definition parse_cron_expression :: "string option \<Rightarrow> task_error + string" where
  "parse_cron_expression value =
     (case value of
        None \<Rightarrow> Inl (Task_value_error ''cron tasks require schedule_value'')
      | Some v \<Rightarrow>
          if py_strip v = [] then Inl (Task_value_error ''cron tasks require schedule_value'') else Inr v)"

text \<open>\<open>task.next_run or self._now_func()\<close>\<close>

definition anchor_of :: "scheduled_task \<Rightarrow> instant \<Rightarrow> instant" where
  "anchor_of task now = (case next_run task of None \<Rightarrow> now | Some t \<Rightarrow> t)"

definition validate_task :: "cron_library \<Rightarrow> scheduled_task \<Rightarrow> instant \<Rightarrow> task_error option" where
  "validate_task cron task now =
     (if schedule_type task \<notin> {''cron'', ''interval'', ''once''}
      then Some (Task_value_error (''unsupported schedule type: '' @ schedule_type task))
      else if schedule_type task = ''interval'' then
        (case parse_interval_seconds (schedule_value task) of Inl e \<Rightarrow> Some e | Inr _ \<Rightarrow> None)
      else if schedule_type task = ''cron'' then
        (case parse_cron_expression (schedule_value task) of
           Inl e \<Rightarrow> Some e
         | Inr expression \<Rightarrow> map_option Task_value_error (croniter cron expression (anchor_of task now)))
      else if next_run task = None then Some (Task_value_error ''once tasks require next_run'') else None)"

definition initialize_next_run :: "cron_library \<Rightarrow> scheduled_task \<Rightarrow> instant \<Rightarrow> task_error + scheduled_task" where
  "initialize_next_run cron task now =
     (if task_status task \<noteq> ''active'' \<or> next_run task \<noteq> None then Inr task
      else if schedule_type task = ''interval'' then
        (case parse_interval_seconds (schedule_value task) of
           Inl e \<Rightarrow> Inl e
         | Inr seconds \<Rightarrow>
             (case timedelta_seconds seconds of
                Inl e \<Rightarrow> Inl e
              | Inr d \<Rightarrow> map_sum id (\<lambda>t. task\<lparr>next_run := Some t\<rparr>) (datetime_plus now d)))
      else if schedule_type task = ''cron'' then
        (case parse_cron_expression (schedule_value task) of
           Inl e \<Rightarrow> Inl e
         | Inr expression \<Rightarrow> map_sum id (\<lambda>t. task\<lparr>next_run := Some t\<rparr>) (cron_get_next cron expression now))
      else Inr task)"

text \<open>The loop \<open>while next_run <= now: next_run += interval\<close>; \<open>None\<close> is a loop that does not end.\<close>

partial_function (option) advance_run :: "instant \<Rightarrow> int \<Rightarrow> instant \<Rightarrow> (task_error + instant) option" where
  "advance_run next interval now =
     (if next \<le> now then
        (case datetime_plus next interval of
           Inl e \<Rightarrow> Some (Inl e)
         | Inr next' \<Rightarrow> advance_run next' interval now)
      else Some (Inr next))"

text \<open>\<open>_compute_next_run\<close> with its two readings of the clock.\<close>

definition compute_next_run ::
  "cron_library \<Rightarrow> scheduled_task \<Rightarrow> instant \<Rightarrow> instant \<Rightarrow> (task_error + instant option) option" where
  "compute_next_run cron task now now' =
     (let anchor = anchor_of task now in
      if schedule_type task = ''interval'' then
        (case parse_interval_seconds (schedule_value task) of
           Inl e \<Rightarrow> Some (Inl e)
         | Inr seconds \<Rightarrow>
             (case timedelta_seconds seconds of
                Inl e \<Rightarrow> Some (Inl e)
              | Inr interval \<Rightarrow> map_option (map_sum id Some) (advance_run anchor interval now')))
      else if schedule_type task = ''cron'' then
        (case parse_cron_expression (schedule_value task) of
           Inl e \<Rightarrow> Some (Inl e)
         | Inr expression \<Rightarrow> Some (map_sum id Some (cron_get_next cron expression anchor)))
      else if schedule_type task = ''once'' then Some (Inr None)
      else Some (Inl (Task_value_error (''unsupported schedule type: '' @ schedule_type task))))"

text \<open>The error that it raises, and the task afterwards.\<close>

definition mark_task_after_success ::
  "cron_library \<Rightarrow> scheduled_task \<Rightarrow> instant \<Rightarrow> instant \<Rightarrow> (task_error option \<times> scheduled_task) option" where
  "mark_task_after_success cron task now now' =
     (if schedule_type task = ''once''
      then Some (None, task\<lparr>task_status := ''completed'', next_run := None\<rparr>)
      else
        (case compute_next_run cron task now now' of
           None \<Rightarrow> None
         | Some (Inl e) \<Rightarrow> Some (Some e, task)
         | Some (Inr t) \<Rightarrow> Some (None, task\<lparr>next_run := t\<rparr>)))"

definition is_due :: "scheduled_task \<Rightarrow> instant \<Rightarrow> bool" where
  "is_due task now =
     (task_status task = ''active'' \<and> (case next_run task of None \<Rightarrow> False | Some t \<Rightarrow> t \<le> now))"

definition task_order :: "scheduled_task \<Rightarrow> instant \<times> string" where
  "task_order task = (case next_run task of None \<Rightarrow> datetime_max | Some t \<Rightarrow> t, task_id task)"

section \<open>Run logs\<close>

record task_run_log =
  log_id :: int
  log_task_id :: string
  log_run_at :: instant
  log_duration_ms :: int
  log_status :: string
  log_result :: "string option"
  log_error :: "string option"

section \<open>The service\<close>

text \<open>A suspended poll: the task that executes, when it began, and the due tasks that are left.\<close>

record poll =
  executing :: nat
  remaining :: "nat list"
  poll_run_at :: instant
  poll_started_at :: rat

record task_service =
  task_objects :: "scheduled_task list"
  tasks :: "(string, nat) dict"
  running_task_ids :: "string set"
  polls :: "poll list"
  next_log_id :: int
  logs_by_task_id :: "(string, task_run_log list) dict"

definition initial_task_service :: task_service where
  "initial_task_service =
     \<lparr>task_objects = [], tasks = [], running_task_ids = {}, polls = [], next_log_id = 1, logs_by_task_id = []\<rparr>"

text \<open>\<open>reset\<close> leaves the old scheduler to the polls that are suspended in it; they are not followed.\<close>

definition reset_tasks :: "task_service \<Rightarrow> task_service" where
  "reset_tasks st = st\<lparr>tasks := [], running_task_ids := {}, polls := [], next_log_id := 1, logs_by_task_id := []\<rparr>"

definition record_log ::
  "task_service \<Rightarrow> string \<Rightarrow> instant \<Rightarrow> int \<Rightarrow> string \<Rightarrow> string option \<Rightarrow> string option \<Rightarrow> task_service" where
  "record_log st tid run_at duration status result err =
     (let log = \<lparr>log_id = next_log_id st, log_task_id = tid, log_run_at = run_at, log_duration_ms = duration,
                 log_status = status, log_result = result, log_error = err\<rparr>;
          logs = (case dict_get (logs_by_task_id st) tid of None \<Rightarrow> [] | Some ls \<Rightarrow> ls)
      in st\<lparr>next_log_id := next_log_id st + 1, logs_by_task_id := dict_set tid (logs @ [log]) (logs_by_task_id st)\<rparr>)"

text \<open>\<open>sorted(..., reverse=True)\<close> with unique keys, and \<open>ordered_logs[:limit]\<close> for a limit that is not negative.\<close>

definition list_logs :: "task_service \<Rightarrow> string \<Rightarrow> nat \<Rightarrow> task_run_log list" where
  "list_logs st tid limit =
     take limit (rev (sort_key (\<lambda>l. (log_run_at l, log_id l))
       (case dict_get (logs_by_task_id st) tid of None \<Rightarrow> [] | Some ls \<Rightarrow> ls)))"

definition upsert_task ::
  "cron_library \<Rightarrow> scheduled_task \<Rightarrow> instant \<Rightarrow> instant \<Rightarrow> task_service \<Rightarrow> (task_error + scheduled_task) \<times> task_service" where
  "upsert_task cron task now now' st =
     (case validate_task cron task now of
        Some e \<Rightarrow> (Inl e, st)
      | None \<Rightarrow>
          (case initialize_next_run cron task now' of
             Inl e \<Rightarrow> (Inl e, st)
           | Inr task' \<Rightarrow>
               (Inr task', st\<lparr>task_objects := task_objects st @ [task'],
                              tasks := dict_set (task_id task') (length (task_objects st)) (tasks st)\<rparr>)))"

definition normalize_schedule_value :: "string \<Rightarrow> string option \<Rightarrow> task_error + string option" where
  "normalize_schedule_value stype value =
     (if stype = ''once'' then
        (case value of
           None \<Rightarrow> Inr None
         | Some v \<Rightarrow>
             if py_strip v = [] then Inr None else Inl (Task_value_error ''once tasks do not accept schedule_value''))
      else
        (case value of
           None \<Rightarrow> Inr None
         | Some v \<Rightarrow> if py_strip v = [] then Inr None else Inr (Some (py_strip v))))"

definition normalize_execution_mode :: "string option \<Rightarrow> task_error + string option" where
  "normalize_execution_mode mode =
     (case mode of
        None \<Rightarrow> Inr None
      | Some m \<Rightarrow>
          if m \<notin> {''openai'', ''host'', ''container''}
          then Inl (Task_value_error (''unsupported execution mode: '' @ m)) else Inr (Some m))"

definition create_task ::
  "cron_library \<Rightarrow> task_service \<Rightarrow> string \<Rightarrow> string \<Rightarrow> string \<Rightarrow> string \<Rightarrow> string option \<Rightarrow> string option \<Rightarrow>
   py_datetime option \<Rightarrow> string \<Rightarrow> instant \<Rightarrow> instant \<Rightarrow> instant \<Rightarrow> (task_error + scheduled_task) \<times> task_service" where
  "create_task cron st ws chat prompt stype mode value next uuid created now now' =
     (case normalize_schedule_value stype value of
        Inl e \<Rightarrow> (Inl e, st)
      | Inr value' \<Rightarrow>
          (case normalize_execution_mode mode of
             Inl e \<Rightarrow> (Inl e, st)
           | Inr mode' \<Rightarrow>
               upsert_task cron
                 \<lparr>task_id = ''task-'' @ uuid, task_group_folder = ws, task_chat_jid = chat, task_prompt = prompt,
                  task_execution_mode = mode', schedule_type = stype, schedule_value = value',
                  next_run = map_option to_utc_datetime next, task_status = ''active'', task_created_at = created\<rparr>
                 now now' st))"

definition delete_task :: "task_service \<Rightarrow> string \<Rightarrow> bool \<times> task_service" where
  "delete_task st tid = (dict_get (tasks st) tid \<noteq> None, st\<lparr>tasks := dict_pop tid (tasks st)\<rparr>)"

definition list_tasks :: "task_service \<Rightarrow> scheduled_task list" where
  "list_tasks st = sort_key task_order (map (\<lambda>(_, r). task_objects st ! r) (tasks st))"

definition get_task :: "task_service \<Rightarrow> string \<Rightarrow> scheduled_task option" where
  "get_task st tid = find (\<lambda>t. task_id t = tid) (list_tasks st)"

section \<open>Polls\<close>

text \<open>The due tasks in their order, until one can execute: the poll is then suspended in its executor.\<close>

fun execute_next :: "nat list \<Rightarrow> instant \<Rightarrow> rat \<Rightarrow> task_service \<Rightarrow> poll option \<times> task_service" where
  "execute_next [] run_at started st = (None, st)"
| "execute_next (r # rs) run_at started st =
     (let tid = task_id (task_objects st ! r) in
      if tid \<in> running_task_ids st then execute_next rs run_at started st
      else (Some \<lparr>executing = r, remaining = rs, poll_run_at = run_at, poll_started_at = started\<rparr>,
            st\<lparr>running_task_ids := insert tid (running_task_ids st)\<rparr>))"

definition due_tasks :: "task_service \<Rightarrow> instant \<Rightarrow> nat list" where
  "due_tasks st now =
     sort_key (\<lambda>r. task_order (task_objects st ! r))
       (filter (\<lambda>r. is_due (task_objects st ! r) now \<and> task_id (task_objects st ! r) \<notin> running_task_ids st)
         (map snd (tasks st)))"

definition run_pending :: "instant \<Rightarrow> instant \<Rightarrow> rat \<Rightarrow> task_service \<Rightarrow> task_service" where
  "run_pending now run_at started st =
     (case execute_next (due_tasks st now) run_at started st of
        (None, st1) \<Rightarrow> st1
      | (Some p, st1) \<Rightarrow> st1\<lparr>polls := polls st1 @ [p]\<rparr>)"

definition scheduled_request :: "scheduled_task \<Rightarrow> string \<Rightarrow> execution_request" where
  "scheduled_request task uuid =
     \<lparr>req_group_folder = task_group_folder task, req_chat_jid = task_chat_jid task,
      req_user_id = ''scheduled-task'', req_prompt = task_prompt task, req_source = ''scheduled'',
      req_slot_id = ''main'', requested_mode = task_execution_mode task, req_timeout_ms = None,
      fresh_session = False, request_id = Some (task_id task @ ''-'' @ uuid)\<rparr>"

text \<open>How the executor ends: a value, a timeout, another exception, or the poll's own cancellation.\<close>

datatype outcome = Returned "string option" | Timed_out string | Raised string | Poll_cancelled

definition error_or :: "string option \<Rightarrow> string \<Rightarrow> string" where
  "error_or e fallback = (case e of Some (c # cs) \<Rightarrow> c # cs | _ \<Rightarrow> fallback)"

definition coerce_execution_result :: "execution_result \<Rightarrow> outcome" where
  "coerce_execution_result r =
     (if res_status r = Completed then Returned (res_final_output r)
      else if res_status r = Timeout then Timed_out (error_or (res_error r) ''execution timed out'')
      else if res_status r = Cancelled then Raised (error_or (res_error r) ''cancelled'')
      else Raised (error_or (res_error r) ''execution failed''))"

text \<open>\<open>max(0, int((t - started) * 1000))\<close>, without the rounding of floats.\<close>

definition duration_ms :: "rat \<Rightarrow> rat \<Rightarrow> int" where
  "duration_ms started t = max 0 \<lfloor>(t - started) * 1000\<rfloor>"

definition log_outcome :: "poll \<Rightarrow> outcome \<Rightarrow> rat \<Rightarrow> task_service \<Rightarrow> task_service" where
  "log_outcome p out t st =
     (let tid = task_id (task_objects st ! executing p);
          write = record_log st tid (poll_run_at p) (duration_ms (poll_started_at p) t)
      in case out of
           Returned r \<Rightarrow> write ''success'' r None
         | Timed_out e \<Rightarrow> write ''timeout'' None (Some e)
         | Raised e \<Rightarrow> write ''error'' None (Some e)
         | Poll_cancelled \<Rightarrow> st)"

text \<open>
  The rest of \<open>_execute_task\<close> and of the poll up to its next suspension or its end. \<open>now\<close> and \<open>now'\<close>
  are the readings of \<open>_compute_next_run\<close>; \<open>run_at\<close> and \<open>started\<close> are those of the next task.
\<close>

definition executor_ends ::
  "cron_library \<Rightarrow> poll \<Rightarrow> outcome \<Rightarrow> instant \<Rightarrow> instant \<Rightarrow> rat \<Rightarrow> instant \<Rightarrow> rat \<Rightarrow> task_service \<Rightarrow>
   (poll option \<times> task_service) option" where
  "executor_ends cron p out now now' t run_at started st =
     (let r = executing p;
          task = task_objects st ! r;
          st1 = log_outcome p out t st;
          discard = (\<lambda>s. s\<lparr>running_task_ids := running_task_ids s - {task_id task}\<rparr>);
          go_on = (\<lambda>s. Some (execute_next (remaining p) run_at started (discard s)))
      in case out of
           Returned _ \<Rightarrow>
             (case mark_task_after_success cron task now now' of
                None \<Rightarrow> None
              | Some (raised, task') \<Rightarrow>
                  let st2 = st1\<lparr>task_objects := (task_objects st1)[r := task']\<rparr> in
                  if raised = None then go_on st2 else Some (None, discard st2))
         | Poll_cancelled \<Rightarrow> Some (None, discard st1)
         | _ \<Rightarrow> go_on st1)"

definition resume_poll ::
  "cron_library \<Rightarrow> nat \<Rightarrow> outcome \<Rightarrow> instant \<Rightarrow> instant \<Rightarrow> rat \<Rightarrow> instant \<Rightarrow> rat \<Rightarrow> task_service \<Rightarrow> task_service option" where
  "resume_poll cron i out now now' t run_at started st =
     (if i < length (polls st) then
        (case executor_ends cron (polls st ! i) out now now' t run_at started st of
           None \<Rightarrow> None
         | Some (None, st1) \<Rightarrow> Some (st1\<lparr>polls := take i (polls st) @ drop (Suc i) (polls st)\<rparr>)
         | Some (Some p, st1) \<Rightarrow> Some (st1\<lparr>polls := (polls st)[i := p]\<rparr>))
      else None)"

end
