(* ===== verification/TaskProtocol.thy ===== *)
theory TaskProtocol
  imports TaskScheduler
begin

text \<open>
  What holds of the scheduled tasks: the interval loop returns with the next run, no task executes
  twice at a time, what each outcome of an execution does, and the order of the logs.
\<close>

section \<open>The interval loop\<close>

lemma datetime_plus_Inr: "datetime_plus t d = Inr t' \<longleftrightarrow> t' = t + d \<and> datetime_min \<le> t + d \<and> t + d \<le> datetime_max"
  by (auto simp: datetime_plus_def)

text \<open>The number of turns: to the first time after \<open>now\<close>.\<close>

definition turns :: "instant \<Rightarrow> int \<Rightarrow> instant \<Rightarrow> nat" where
  "turns next interval now = (if next \<le> now then nat ((now - next) div interval + 1) else 0)"

lemma turns_Suc:
  assumes "next \<le> now" "0 < interval"
  shows "turns next interval now = Suc (turns (next + interval) interval now)"
proof (cases "next + interval \<le> now")
  case True
  have "(now - (next + interval)) div interval = (now - next) div interval - 1"
    using assms(2) div_add_self2 [of interval "now - (next + interval)"] by (simp add: algebra_simps)
  moreover have "0 \<le> (now - (next + interval)) div interval"
    using True assms(2) by (intro pos_imp_zdiv_nonneg_iff [THEN iffD2]) auto
  ultimately show ?thesis using True assms by (simp add: turns_def)
next
  case False
  then have "(now - next) div interval = 0" using assms by (intro div_pos_pos_trivial) auto
  with False assms show ?thesis by (simp add: turns_def)
qed

lemma turns_bounds:
  assumes "0 < interval"
  shows "now < next + int (turns next interval now) * interval"
    "0 < k \<Longrightarrow> k \<le> turns next interval now \<Longrightarrow> next + int (k - 1) * interval \<le> now"
proof -
  show "now < next + int (turns next interval now) * interval"
  proof (cases "next \<le> now")
    case True
    define q where "q = (now - next) div interval"
    have "0 \<le> q" using True assms unfolding q_def by (intro pos_imp_zdiv_nonneg_iff [THEN iffD2]) auto
    moreover have "now - next < (q + 1) * interval"
    proof -
      have "q * interval + (now - next) mod interval = now - next" unfolding q_def by simp
      with pos_mod_bound [OF assms, of "now - next"] show ?thesis unfolding distrib_right by linarith
    qed
    ultimately show ?thesis using True by (simp add: turns_def q_def)
  qed (simp add: turns_def)
next
  assume k: "0 < k" "k \<le> turns next interval now"
  then have le: "next \<le> now" by (auto simp: turns_def split: if_splits)
  define q where "q = (now - next) div interval"
  have "0 \<le> q" using le assms unfolding q_def by (intro pos_imp_zdiv_nonneg_iff [THEN iffD2]) auto
  with k le have "int (k - 1) \<le> q" by (auto simp: turns_def q_def)
  then have "int (k - 1) * interval \<le> q * interval" using assms by (intro mult_right_mono) auto
  also have "\<dots> \<le> now - next"
  proof -
    have "q * interval + (now - next) mod interval = now - next" unfolding q_def by simp
    with pos_mod_sign [OF assms, of "now - next"] show ?thesis by linarith
  qed
  finally show "next + int (k - 1) * interval \<le> now" by simp
qed

lemma advance_run_eq:
  assumes "0 < interval" "datetime_min \<le> next" "n = turns next interval now"
  shows "advance_run next interval now =
    Some (if n = 0 \<or> next + int n * interval \<le> datetime_max then Inr (next + int n * interval) else Inl Overflow_error)"
  using assms(2,3)
proof (induction n arbitrary: "next")
  case 0
  then have "\<not> next \<le> now"
    using turns_Suc [of "next" now interval] assms(1) by auto
  then show ?case by (subst advance_run.simps) simp
next
  case (Suc n)
  then have le: "next \<le> now" by (auto simp: turns_def split: if_splits)
  then have n: "n = turns (next + interval) interval now" using Suc.prems(2) turns_Suc assms(1) by simp
  show ?case
  proof (cases "next + interval \<le> datetime_max")
    case False
    moreover have "next + interval \<le> next + int (Suc n) * interval"
      using assms(1) by (simp add: algebra_simps)
    ultimately show ?thesis using le by (subst advance_run.simps) (simp add: datetime_plus_def)
  next
    case True
    have "advance_run next interval now = advance_run (next + interval) interval now"
      using le True Suc.prems(1) assms(1) by (subst advance_run.simps) (simp add: datetime_plus_def)
    also have "\<dots> = Some (if n = 0 \<or> next + interval + int n * interval \<le> datetime_max
        then Inr (next + interval + int n * interval) else Inl Overflow_error)"
      using Suc.prems(1) assms(1) by (intro Suc.IH n) simp
    finally show ?thesis using True by (auto simp: algebra_simps)
  qed
qed

lemma timedelta_seconds_Inr: "timedelta_seconds n = Inr d \<longleftrightarrow> d = n * 1000000 \<and> \<bar>n div 86400\<bar> \<le> 999999999"
  by (auto simp: timedelta_seconds_def)

lemma parse_interval_pos: "parse_interval_seconds v = Inr n \<Longrightarrow> 0 < n"
  by (auto simp: parse_interval_seconds_def split: option.splits if_splits)

lemma turns_least:
  assumes "0 < interval"
  shows "now < anchor + int j * interval \<longleftrightarrow> turns anchor interval now \<le> j"
proof
  assume "turns anchor interval now \<le> j"
  then have "int (turns anchor interval now) * interval \<le> int j * interval"
    using assms by (intro mult_right_mono) auto
  with turns_bounds(1) [OF assms, of now anchor] show "now < anchor + int j * interval" by linarith
next
  assume j: "now < anchor + int j * interval"
  show "turns anchor interval now \<le> j"
  proof (rule ccontr)
    assume "\<not> turns anchor interval now \<le> j"
    then have "anchor + int (Suc j - 1) * interval \<le> now" by (intro turns_bounds(2) [OF assms]) auto
    with j show False by simp
  qed
qed

text \<open>C22: Computing the next run of an interval task always returns: with the least time after \<open>now\<close> that
is a whole number of intervals after the last run, or, when a datetime cannot hold that time or a
timedelta the interval, with an overflow error. No turn of the loop is made in vain, and for the
other kinds of task the computation returns too.\<close>

theorem interval_loop_returns:
  assumes "datetime_min \<le> anchor_of task now"
  shows "\<exists>r. compute_next_run cron task now now' = Some r \<and>
    (schedule_type task = ''interval'' \<longrightarrow>
      (case parse_interval_seconds (schedule_value task) of
         Inl e \<Rightarrow> r = Inl e
       | Inr seconds \<Rightarrow>
           if 999999999 < seconds div 86400 then r = Inl Overflow_error
           else (\<exists>k. (\<forall>j. now' < anchor_of task now + int j * (seconds * 1000000) \<longleftrightarrow> k \<le> j) \<and>
             r = (if k = 0 \<or> anchor_of task now + int k * (seconds * 1000000) \<le> datetime_max
                  then Inr (Some (anchor_of task now + int k * (seconds * 1000000))) else Inl Overflow_error))))"
proof (cases "schedule_type task = ''interval''")
  case False
  then show ?thesis by (auto simp: compute_next_run_def Let_def split: sum.split)
next
  case True
  let ?anchor = "anchor_of task now"
  show ?thesis
  proof (cases "parse_interval_seconds (schedule_value task)")
    case (Inl e)
    with True show ?thesis by (simp add: compute_next_run_def Let_def)
  next
    case (Inr seconds)
    then have pos: "0 < seconds" by (rule parse_interval_pos)
    define interval where "interval = seconds * 1000000"
    have ipos: "0 < interval" using pos by (simp add: interval_def)
    show ?thesis
    proof (cases "999999999 < seconds div 86400")
      case big: True
      then have "timedelta_seconds seconds = Inl Overflow_error" by (simp add: timedelta_seconds_def)
      with True Inr big show ?thesis by (simp add: compute_next_run_def Let_def)
    next
      case False
      moreover have "0 \<le> seconds div 86400" using pos by (simp add: pos_imp_zdiv_nonneg_iff)
      ultimately have delta: "timedelta_seconds seconds = Inr interval" by (simp add: timedelta_seconds_Inr interval_def)
      define k where "k = turns ?anchor interval now'"
      have least: "now' < ?anchor + int j * interval \<longleftrightarrow> k \<le> j" for j
        unfolding k_def by (rule turns_least [OF ipos])
      have "compute_next_run cron task now now' = Some (if k = 0 \<or> ?anchor + int k * interval \<le> datetime_max
          then Inr (Some (?anchor + int k * interval)) else Inl Overflow_error)"
        using True Inr delta advance_run_eq [OF ipos assms k_def]
        by (simp add: compute_next_run_def Let_def)
      with Inr False least show ?thesis unfolding interval_def by auto
    qed
  qed
qed

lemma interval_loop_returns_witness:
  "\<exists>r. compute_next_run \<lparr>croniter = \<lambda>_ _. None, croniter_next = \<lambda>_ t. Inr (t + 1)\<rparr>
      \<lparr>task_id = ''task-1'', task_group_folder = ''team'', task_chat_jid = ''web:team'', task_prompt = ''go'',
       task_execution_mode = None, schedule_type = ''interval'', schedule_value = Some ''30'', next_run = Some 0,
       task_status = ''active'', task_created_at = 0\<rparr> 65000000 65000000 = Some r"
proof -
  let ?task = "\<lparr>task_id = ''task-1'', task_group_folder = ''team'', task_chat_jid = ''web:team'', task_prompt = ''go'',
       task_execution_mode = None, schedule_type = ''interval'', schedule_value = Some ''30'', next_run = Some 0,
       task_status = ''active'', task_created_at = 0\<rparr>"
  have "datetime_min \<le> anchor_of ?task 65000000" by (simp add: anchor_of_def datetime_min_def)
  from interval_loop_returns [OF this] show ?thesis by blast
qed

section \<open>The tasks in execution\<close>

inductive task_step :: "cron_library \<Rightarrow> task_service \<Rightarrow> task_service \<Rightarrow> bool" for cron where
  created: "task_step cron st (snd (create_task cron st ws chat prompt stype mode value next uuid created now now'))"
| deleted: "task_step cron st (snd (delete_task st tid))"
| polled: "task_step cron st (run_pending now run_at started st)"
| resumed: "resume_poll cron i out now now' t run_at started st = Some st' \<Longrightarrow> task_step cron st st'"
| reset: "task_step cron st (reset_tasks st)"

inductive reachable_tasks :: "cron_library \<Rightarrow> task_service \<Rightarrow> bool" for cron where
  initial: "reachable_tasks cron initial_task_service"
| step: "reachable_tasks cron st \<Longrightarrow> task_step cron st st' \<Longrightarrow> reachable_tasks cron st'"

abbreviation object_id :: "task_service \<Rightarrow> nat \<Rightarrow> string" where
  "object_id st r \<equiv> task_id (task_objects st ! r)"

definition scheduled_ok :: "task_service \<Rightarrow> bool" where
  "scheduled_ok st \<longleftrightarrow>
     (\<forall>(tid, r) \<in> set (tasks st). r < length (task_objects st) \<and> object_id st r = tid) \<and>
     (\<forall>p \<in> set (polls st). \<forall>r \<in> set (executing p # remaining p). r < length (task_objects st)) \<and>
     distinct (map (\<lambda>p. object_id st (executing p)) (polls st)) \<and>
     running_task_ids st = set (map (\<lambda>p. object_id st (executing p)) (polls st))"

definition logs_ok :: "task_service \<Rightarrow> bool" where
  "logs_ok st \<longleftrightarrow>
     (\<forall>(tid, ls) \<in> set (logs_by_task_id st).
        sorted_wrt (<) (map log_id ls) \<and> (\<forall>l \<in> set ls. log_task_id l = tid \<and> log_id l < next_log_id st))"

lemma execute_next_cases:
  obtains (none) "execute_next rs run_at started st = (None, st)"
  | (starts) p where "execute_next rs run_at started st =
        (Some p, st\<lparr>running_task_ids := insert (object_id st (executing p)) (running_task_ids st)\<rparr>)"
      "executing p \<in> set rs" "set (remaining p) \<subseteq> set rs" "object_id st (executing p) \<notin> running_task_ids st"
proof -
  have "execute_next rs run_at started st = (None, st) \<or> (\<exists>p. execute_next rs run_at started st =
        (Some p, st\<lparr>running_task_ids := insert (object_id st (executing p)) (running_task_ids st)\<rparr>) \<and>
      executing p \<in> set rs \<and> set (remaining p) \<subseteq> set rs \<and> object_id st (executing p) \<notin> running_task_ids st)"
    by (induction rs) (auto simp: Let_def)
  with none starts show thesis by blast
qed

lemma record_log_frame [simp]:
  "task_objects (record_log st tid run_at d s r e) = task_objects st" "tasks (record_log st tid run_at d s r e) = tasks st"
  "running_task_ids (record_log st tid run_at d s r e) = running_task_ids st" "polls (record_log st tid run_at d s r e) = polls st"
  by (simp_all add: record_log_def Let_def)

lemma log_outcome_frame [simp]:
  "task_objects (log_outcome p out t st) = task_objects st" "tasks (log_outcome p out t st) = tasks st"
  "running_task_ids (log_outcome p out t st) = running_task_ids st" "polls (log_outcome p out t st) = polls st"
  by (simp_all add: log_outcome_def Let_def split: outcome.split)

lemma mark_keeps_id:
  "mark_task_after_success cron task now now' = Some (e, task') \<Longrightarrow>
     task_id task' = task_id task \<and> schedule_type task' = schedule_type task"
  by (auto simp: mark_task_after_success_def split: if_splits option.splits sum.splits)

text \<open>What a resumed poll does to the objects, whatever it executes next.\<close>

lemma executor_ends_cases:
  assumes "executor_ends cron p out now now' t run_at started st = Some (q, st')" "executing p < length (task_objects st)"
  obtains st1 where "length (task_objects st1) = length (task_objects st)" "\<And>r. object_id st1 r = object_id st r"
    "tasks st1 = tasks st" "polls st1 = polls st"
    "running_task_ids st1 = running_task_ids st - {object_id st (executing p)}"
    "(q, st') = (None, st1) \<or> (q, st') = execute_next (remaining p) run_at started st1"
proof -
  let ?task = "task_objects st ! executing p"
  let ?done = "(log_outcome p out t st)\<lparr>running_task_ids := running_task_ids st - {object_id st (executing p)}\<rparr>"
  show ?thesis
  proof (cases out)
    case (Returned r)
    with assms(1) obtain e task' where m: "mark_task_after_success cron ?task now now' = Some (e, task')"
      and ends: "(q, st') = (None, (log_outcome p out t st)\<lparr>task_objects := (task_objects st)[executing p := task'],
           running_task_ids := running_task_ids st - {object_id st (executing p)}\<rparr>) \<or>
        (q, st') = execute_next (remaining p) run_at started ((log_outcome p out t st)\<lparr>
           task_objects := (task_objects st)[executing p := task'],
           running_task_ids := running_task_ids st - {object_id st (executing p)}\<rparr>)"
      by (auto simp: executor_ends_def Let_def split: option.splits if_splits)
    have "task_id ((task_objects st)[executing p := task'] ! r) = object_id st r" for r
      using mark_keeps_id [OF m] by (cases "r = executing p") (auto simp: nth_list_update assms(2))
    then show ?thesis by (intro that [OF _ _ _ _ _ ends]) simp_all
  next
    case Poll_cancelled
    with assms(1) have "(q, st') = (None, ?done)" by (simp add: executor_ends_def Let_def)
    then show ?thesis by (intro that [of ?done]) simp_all
  next
    case (Timed_out e)
    with assms(1) have "(q, st') = execute_next (remaining p) run_at started ?done"
      by (simp add: executor_ends_def Let_def)
    then show ?thesis by (intro that [of ?done] disjI2) simp_all
  next
    case (Raised e)
    with assms(1) have "(q, st') = execute_next (remaining p) run_at started ?done"
      by (simp add: executor_ends_def Let_def)
    then show ?thesis by (intro that [of ?done] disjI2) simp_all
  qed
qed

lemma scheduled_okD:
  assumes "scheduled_ok st"
  shows "(tid, r) \<in> set (tasks st) \<Longrightarrow> r < length (task_objects st) \<and> object_id st r = tid"
    "p \<in> set (polls st) \<Longrightarrow> executing p < length (task_objects st)"
    "p \<in> set (polls st) \<Longrightarrow> r \<in> set (remaining p) \<Longrightarrow> r < length (task_objects st)"
    "distinct (map (\<lambda>p. object_id st (executing p)) (polls st))"
    "running_task_ids st = set (map (\<lambda>p. object_id st (executing p)) (polls st))"
  using assms unfolding scheduled_ok_def by auto

lemma create_task_tasks:
  "snd (create_task cron st ws chat prompt stype mode value next uuid created now now') = st \<or>
   (\<exists>task. snd (create_task cron st ws chat prompt stype mode value next uuid created now now') =
      st\<lparr>task_objects := task_objects st @ [task], tasks := dict_set (task_id task) (length (task_objects st)) (tasks st)\<rparr>)"
  by (auto simp: create_task_def upsert_task_def split: sum.split option.split)

lemma scheduled_ok_append:
  assumes "scheduled_ok st"
  shows "scheduled_ok (st\<lparr>task_objects := task_objects st @ [task],
    tasks := dict_set (task_id task) (length (task_objects st)) (tasks st)\<rparr>)"
proof -
  have set_upd: "set (dict_set k v d) \<subseteq> insert (k, v) (set d)" for k :: string and v :: nat and d
    by (induction d) auto
  have ids: "map (\<lambda>p. task_id ((task_objects st @ [task]) ! executing p)) (polls st) =
      map (\<lambda>p. object_id st (executing p)) (polls st)"
    using scheduled_okD(2) [OF assms] by (auto simp: nth_append)
  show ?thesis
    unfolding scheduled_ok_def
  proof (intro conjI ballI)
    fix x
    assume "x \<in> set (tasks (st\<lparr>task_objects := task_objects st @ [task],
      tasks := dict_set (task_id task) (length (task_objects st)) (tasks st)\<rparr>))"
    with set_upd [of "task_id task" "length (task_objects st)" "tasks st"]
    have "x = (task_id task, length (task_objects st)) \<or> x \<in> set (tasks st)" by auto
    with scheduled_okD(1) [OF assms] show "case x of (tid, r) \<Rightarrow>
        r < length (task_objects (st\<lparr>task_objects := task_objects st @ [task],
          tasks := dict_set (task_id task) (length (task_objects st)) (tasks st)\<rparr>)) \<and>
        object_id (st\<lparr>task_objects := task_objects st @ [task],
          tasks := dict_set (task_id task) (length (task_objects st)) (tasks st)\<rparr>) r = tid"
      by (cases x) (fastforce simp: nth_append)
  qed (use scheduled_okD(2-5) [OF assms] in \<open>auto simp: ids less_SucI simp del: map_eq_conv\<close>)
qed

lemma due_tasks_valid: "scheduled_ok st \<Longrightarrow> r \<in> set (due_tasks st now) \<Longrightarrow> r < length (task_objects st)"
  using scheduled_okD(1) by (fastforce simp: due_tasks_def)

lemma run_pending_ok:
  assumes "scheduled_ok st"
  shows "scheduled_ok (run_pending now run_at started st)"
proof (cases rule: execute_next_cases [of "due_tasks st now" run_at started st])
  case none
  with assms show ?thesis by (simp add: run_pending_def)
next
  case (starts p)
  then have "\<forall>r \<in> set (executing p # remaining p). r < length (task_objects st)"
    using due_tasks_valid [OF assms] by auto
  with starts assms show ?thesis by (auto simp: run_pending_def scheduled_ok_def)
qed

lemma resume_poll_ok:
  assumes ok: "scheduled_ok st" and resume: "resume_poll cron i out now now' t run_at started st = Some st'"
  shows "scheduled_ok st'"
proof -
  let ?p = "polls st ! i"
  have i: "i < length (polls st)" using resume by (simp add: resume_poll_def split: if_splits)
  then have p: "?p \<in> set (polls st)" by simp
  from resume i obtain q s where ends: "executor_ends cron ?p out now now' t run_at started st = Some (q, s)"
    and st': "st' = (case q of None \<Rightarrow> s\<lparr>polls := take i (polls st) @ drop (Suc i) (polls st)\<rparr>
                     | Some p' \<Rightarrow> s\<lparr>polls := (polls st)[i := p']\<rparr>)"
    by (auto simp: resume_poll_def split: option.splits)
  from ends scheduled_okD(2) [OF ok p] obtain st1 where st1: "length (task_objects st1) = length (task_objects st)"
    "\<And>r. object_id st1 r = object_id st r" "tasks st1 = tasks st" "polls st1 = polls st"
    "running_task_ids st1 = running_task_ids st - {object_id st (executing ?p)}"
    and q: "(q, s) = (None, st1) \<or> (q, s) = execute_next (remaining ?p) run_at started st1"
    by (rule executor_ends_cases) (rule that; assumption)
  let ?rest = "take i (polls st) @ drop (Suc i) (polls st)"
  let ?ids = "map (\<lambda>p. object_id st (executing p))"
  have split: "polls st = take i (polls st) @ ?p # drop (Suc i) (polls st)" by (rule id_take_nth_drop [OF i])
  have "distinct (?ids (polls st))" "running_task_ids st = set (?ids (polls st))" using scheduled_okD(4,5) [OF ok] .
  moreover have "?ids (polls st) = ?ids (take i (polls st)) @ object_id st (executing ?p) # ?ids (drop (Suc i) (polls st))"
    using arg_cong [OF split, of ?ids] unfolding map_append list.map .
  ultimately have rest: "distinct (?ids ?rest)" "object_id st (executing ?p) \<notin> set (?ids ?rest)"
    "running_task_ids st1 = set (?ids ?rest)"
    unfolding st1(5) map_append by simp_all
  have ids: "map (\<lambda>p. object_id st1 (executing p)) xs = ?ids xs" for xs using st1(2) by simp
  have valid: "r < length (task_objects st1)" if "q' \<in> set (polls st)" "r \<in> set (executing q' # remaining q')" for q' r
    using that scheduled_okD(2,3) [OF ok] st1(1) by auto
  have subset: "set ?rest \<subseteq> set (polls st)" by (auto dest: in_set_takeD in_set_dropD)
  have kept: "\<forall>(tid, r) \<in> set (tasks st1). r < length (task_objects st1) \<and> object_id st1 r = tid"
    using scheduled_okD(1) [OF ok] st1 by auto
  have ended: "scheduled_ok (st1\<lparr>polls := ?rest\<rparr>)"
    unfolding scheduled_ok_def using kept rest valid subset by (simp add: ids del: map_eq_conv) blast
  show ?thesis
  proof (cases "(q, s) = (None, st1)")
    case True
    with ended st' show ?thesis by simp
  next
    case False
    with q have q: "(q, s) = execute_next (remaining ?p) run_at started st1" by blast
    show ?thesis
    proof (cases rule: execute_next_cases [of "remaining ?p" run_at started st1])
      case none
      with q ended st' show ?thesis by simp
    next
      case (starts p')
      have upd: "(polls st)[i := p'] = take i (polls st) @ p' # drop (Suc i) (polls st)"
        by (rule upd_conv_take_nth_drop [OF i])
      have q': "q = Some p'" and s: "s = st1\<lparr>running_task_ids := insert (object_id st1 (executing p')) (running_task_ids st1)\<rparr>"
        using starts(1) q by simp_all
      have "object_id st (executing p') \<notin> set (?ids ?rest)" using starts(4) rest(3) st1(2) by simp
      then have new: "distinct (?ids ((polls st)[i := p']))"
        "insert (object_id st (executing p')) (running_task_ids st1) = set (?ids ((polls st)[i := p']))"
        unfolding upd rest(3) using rest(1) by auto
      have "\<forall>r \<in> set (executing x # remaining x). r < length (task_objects st1)" if "x \<in> set ((polls st)[i := p'])" for x
        using that valid starts(2,3) valid [OF p] set_update_subset_insert [of "polls st" i p'] by fastforce
      with new kept show ?thesis
        unfolding st' q' s scheduled_ok_def by (simp add: ids st1(2) del: map_eq_conv)
    qed
  qed
qed

lemma reachable_scheduled_ok: "reachable_tasks cron st \<Longrightarrow> scheduled_ok st"
proof (induction rule: reachable_tasks.induct)
  case initial
  show ?case by (simp add: scheduled_ok_def initial_task_service_def)
next
  case (step st st')
  from step.hyps(2) show ?case
  proof (cases rule: task_step.cases)
    case (created ws chat prompt stype mode val nxt uuid stamp now now')
    then show ?thesis
      using create_task_tasks [of cron st ws chat prompt stype mode val nxt uuid stamp now now']
        scheduled_ok_append [OF step.IH] step.IH by auto
  next
    case (deleted tid)
    have "set (dict_pop tid (tasks st)) \<subseteq> set (tasks st)" by (auto simp: AList.delete_eq)
    with step.IH deleted show ?thesis by (auto simp: scheduled_ok_def delete_task_def)
  next
    case (polled now run_at started)
    with run_pending_ok [OF step.IH] show ?thesis by simp
  next
    case (resumed i out now now' t run_at started)
    with resume_poll_ok [OF step.IH] show ?thesis by blast
  next
    case reset
    then show ?thesis by (simp add: scheduled_ok_def reset_tasks_def)
  qed
qed

text \<open>C20: No task executes twice at a time, whatever polls overlap and whatever is created or deleted
meanwhile: two suspended polls execute different tasks, the ids of these are exactly the running ids,
and a new poll finds none of them due.\<close>

theorem task_runs_alone:
  assumes "reachable_tasks cron st" "i < j" "j < length (polls st)"
  shows "object_id st (executing (polls st ! i)) \<noteq> object_id st (executing (polls st ! j)) \<and>
    running_task_ids st = (\<lambda>p. object_id st (executing p)) ` set (polls st) \<and>
    (\<forall>r \<in> set (due_tasks st now). object_id st r \<noteq> object_id st (executing (polls st ! i)))"
proof -
  have ok: "scheduled_ok st" by (rule reachable_scheduled_ok [OF assms(1)])
  have "map (\<lambda>p. object_id st (executing p)) (polls st) ! i \<noteq> map (\<lambda>p. object_id st (executing p)) (polls st) ! j"
    using scheduled_okD(4) [OF ok] assms(2,3) by (subst nth_eq_iff_index_eq) auto
  moreover have "polls st ! i \<in> set (polls st)" using assms(2,3) by simp
  ultimately show ?thesis using assms(2,3) scheduled_okD(5) [OF ok] by (auto simp: due_tasks_def)
qed

section \<open>What an execution's outcome does\<close>

lemma execute_next_frame:
  assumes "execute_next rs run_at started st = (q, st')"
  shows "task_objects st' = task_objects st \<and> logs_by_task_id st' = logs_by_task_id st"
  using assms by (cases rule: execute_next_cases [of rs run_at started st]) auto

lemma resume_effect:
  assumes "resume_poll cron i out now now' t run_at started st = Some st'"
  shows "i < length (polls st) \<and> logs_by_task_id st' = logs_by_task_id (log_outcome (polls st ! i) out t st) \<and>
    (case out of
       Returned r \<Rightarrow> \<exists>e task'.
         mark_task_after_success cron (task_objects st ! executing (polls st ! i)) now now' = Some (e, task') \<and>
         task_objects st' = (task_objects st)[executing (polls st ! i) := task']
     | _ \<Rightarrow> task_objects st' = task_objects st)"
proof -
  let ?p = "polls st ! i"
  have i: "i < length (polls st)" using assms by (simp add: resume_poll_def split: if_splits)
  with assms obtain q s where ends: "executor_ends cron ?p out now now' t run_at started st = Some (q, s)"
    and st': "task_objects st' = task_objects s" "logs_by_task_id st' = logs_by_task_id s"
    by (auto simp: resume_poll_def split: option.splits)
  show ?thesis
    unfolding st' using ends i
    by (cases out)
      (auto simp: executor_ends_def Let_def split: option.splits if_splits dest!: execute_next_frame)
qed

definition outcome_status :: "outcome \<Rightarrow> string" where
  "outcome_status out = (case out of Returned _ \<Rightarrow> ''success'' | Timed_out _ \<Rightarrow> ''timeout'' | _ \<Rightarrow> ''error'')"

text \<open>C21: What the outcome of an execution does to the task. A task that ran once is completed, and no
poll finds it due again. After a successful run of an interval task the next run is the least time
after now that is a whole number of intervals after the last one, unless no timedelta holds the
interval or no datetime that time; only then the task is left as it was. After a timeout or an
exception the task is as before: a once task as well as the others is due again in every later poll, so it is executed again until it
succeeds. Each of these outcomes appends one log with its status to the task's logs; a cancelled poll
appends none and leaves the task as it was.\<close>

theorem task_outcomes:
  assumes "reachable_tasks cron st" and "resume_poll cron i out now now' t run_at started st = Some st'"
    and p: "p = polls st ! i" and task: "task = task_objects st ! executing p" "task' = task_objects st' ! executing p"
  shows "(\<forall>r. out = Returned r \<and> schedule_type task = ''once'' \<longrightarrow>
      task' = task\<lparr>task_status := ''completed'', next_run := None\<rparr> \<and> (\<forall>later. \<not> is_due task' later)) \<and>
    (\<forall>r a seconds. out = Returned r \<and> schedule_type task = ''interval'' \<and> next_run task = Some a \<and>
      datetime_min \<le> a \<and> parse_interval_seconds (schedule_value task) = Inr seconds \<longrightarrow>
      (\<exists>k. (\<forall>j. now' < a + int j * (seconds * 1000000) \<longleftrightarrow> k \<le> j) \<and>
        task' = (if 999999999 < seconds div 86400 \<or> 0 < k \<and> datetime_max < a + int k * (seconds * 1000000) then task
                 else task\<lparr>next_run := Some (a + int k * (seconds * 1000000))\<rparr>))) \<and>
    (outcome_status out \<noteq> ''success'' \<longrightarrow>
      task' = task \<and> (\<forall>before later. is_due task before \<and> before \<le> later \<longrightarrow> is_due task' later)) \<and>
    (if out = Poll_cancelled then logs_by_task_id st' = logs_by_task_id st
     else \<exists>l. dict_get (logs_by_task_id st') (task_id task) =
        Some ((case dict_get (logs_by_task_id st) (task_id task) of None \<Rightarrow> [] | Some ls \<Rightarrow> ls) @ [l]) \<and>
        log_status l = outcome_status out \<and> log_run_at l = poll_run_at p \<and> log_task_id l = task_id task)"
proof -
  have ok: "scheduled_ok st" by (rule reachable_scheduled_ok [OF assms(1)])
  note effect = resume_effect [OF assms(2), folded p]
  then have valid: "executing p < length (task_objects st)" using scheduled_okD(2) [OF ok] p by simp
  have once: "task' = task\<lparr>task_status := ''completed'', next_run := None\<rparr> \<and> (\<forall>later. \<not> is_due task' later)"
    if "out = Returned r" "schedule_type task = ''once''" for r
    using that effect valid unfolding task by (auto simp: mark_task_after_success_def is_due_def)
  have interval: "\<exists>k. (\<forall>j. now' < a + int j * (seconds * 1000000) \<longleftrightarrow> k \<le> j) \<and>
      task' = (if 999999999 < seconds div 86400 \<or> 0 < k \<and> datetime_max < a + int k * (seconds * 1000000) then task
               else task\<lparr>next_run := Some (a + int k * (seconds * 1000000))\<rparr>)"
    if out: "out = Returned r" and kind: "schedule_type task = ''interval''" "next_run task = Some a"
      and a: "datetime_min \<le> a" and s: "parse_interval_seconds (schedule_value task) = Inr seconds" for r a seconds
  proof -
    let ?d = "seconds * 1000000"
    let ?k = "turns a ?d now'"
    have d: "0 < ?d" "0 < seconds" using parse_interval_pos [OF s] by simp_all
    from effect out obtain e where m: "mark_task_after_success cron task now now' = Some (e, task')"
      using valid unfolding task by auto
    have "task' = (if 999999999 < seconds div 86400 \<or> 0 < ?k \<and> datetime_max < a + int ?k * ?d then task
               else task\<lparr>next_run := Some (a + int ?k * ?d)\<rparr>)"
    proof (cases "999999999 < seconds div 86400")
      case True
      then have "timedelta_seconds seconds = Inl Overflow_error" by (simp add: timedelta_seconds_def)
      with True m kind s show ?thesis by (simp add: mark_task_after_success_def compute_next_run_def Let_def)
    next
      case False
      moreover have "0 \<le> seconds div 86400" using d(2) by (simp add: pos_imp_zdiv_nonneg_iff)
      ultimately have "timedelta_seconds seconds = Inr ?d" by (simp add: timedelta_seconds_Inr)
      then have "compute_next_run cron task now now' =
          Some (if ?k = 0 \<or> a + int ?k * ?d \<le> datetime_max then Inr (Some (a + int ?k * ?d)) else Inl Overflow_error)"
        using kind s advance_run_eq [OF d(1) a refl, of now']
        by (simp add: compute_next_run_def Let_def anchor_of_def)
      with m kind False show ?thesis by (auto simp: mark_task_after_success_def)
    qed
    with turns_least [OF d(1)] show ?thesis by blast
  qed
  have failed: "task' = task \<and> (\<forall>before later. is_due task before \<and> before \<le> later \<longrightarrow> is_due task' later)"
    if "outcome_status out \<noteq> ''success''"
  proof -
    have "task' = task" using that effect unfolding task by (auto simp: outcome_status_def split: outcome.splits)
    then show ?thesis by (auto simp: is_due_def split: option.splits)
  qed
  have logs: "if out = Poll_cancelled then logs_by_task_id st' = logs_by_task_id st
     else \<exists>l. dict_get (logs_by_task_id st') (task_id task) =
        Some ((case dict_get (logs_by_task_id st) (task_id task) of None \<Rightarrow> [] | Some ls \<Rightarrow> ls) @ [l]) \<and>
        log_status l = outcome_status out \<and> log_run_at l = poll_run_at p \<and> log_task_id l = task_id task"
    using effect unfolding task
    by (cases out) (auto simp: log_outcome_def record_log_def Let_def outcome_status_def)
  show ?thesis using once interval failed logs by blast
qed

section \<open>Deleted tasks\<close>

text \<open>Deleting a task does not stop a poll that has found it due: when the poll's current execution
ends, by success or failure, and the next task in the poll is the deleted one, that is executed.\<close>

lemma deleted_task_still_runs:
  assumes "i < length (polls st)" "remaining (polls st ! i) = r # rs"
    and "object_id st r \<notin> running_task_ids st" "outcome_status out = ''timeout'' \<or> out = Raised e"
  shows "\<exists>st'. resume_poll cron i out now now' t run_at started (snd (delete_task st (object_id st r))) = Some st' \<and>
    dict_get (tasks st') (object_id st r) = None \<and> executing (polls st' ! i) = r \<and> object_id st r \<in> running_task_ids st'"
proof -
  have "object_id st r \<notin> running_task_ids st - X" for X using assms(3) by blast
  with assms show ?thesis
    by (cases out) (auto simp: resume_poll_def executor_ends_def delete_task_def outcome_status_def Let_def)
qed

section \<open>Concrete runs\<close>

definition example_cron :: cron_library where
  "example_cron = \<lparr>croniter = \<lambda>_ _. None, croniter_next = \<lambda>_ t. Inr (t + 60000000)\<rparr>"

definition example_tasks :: task_service where
  "example_tasks =
     snd (create_task example_cron
       (snd (create_task example_cron initial_task_service ''team'' ''web:team'' ''first'' ''once'' None None
          (Some (Naive 5)) ''a'' 0 1 2))
       ''team'' ''web:team'' ''second'' ''once'' None None (Some (Naive 6)) ''b'' 0 1 2)"

definition example_polled :: task_service where
  "example_polled = run_pending 10 10 0 example_tasks"

lemmas example_task_defs = create_task_def normalize_schedule_value_def normalize_execution_mode_def upsert_task_def
  validate_task_def initialize_next_run_def initial_task_service_def

lemma example_tasks_eq:
  "example_tasks = \<lparr>task_objects =
      [\<lparr>task_id = ''task-a'', task_group_folder = ''team'', task_chat_jid = ''web:team'', task_prompt = ''first'',
        task_execution_mode = None, schedule_type = ''once'', schedule_value = None, next_run = Some 5,
        task_status = ''active'', task_created_at = 0\<rparr>,
       \<lparr>task_id = ''task-b'', task_group_folder = ''team'', task_chat_jid = ''web:team'', task_prompt = ''second'',
        task_execution_mode = None, schedule_type = ''once'', schedule_value = None, next_run = Some 6,
        task_status = ''active'', task_created_at = 0\<rparr>],
     tasks = [(''task-a'', 0), (''task-b'', 1)], running_task_ids = {}, polls = [], next_log_id = 1, logs_by_task_id = []\<rparr>"
  by (simp add: example_tasks_def example_task_defs)

lemma example_polled_eq:
  "example_polled = example_tasks\<lparr>running_task_ids := {''task-a''},
     polls := [\<lparr>executing = 0, remaining = [1], poll_run_at = 10, poll_started_at = 0\<rparr>]\<rparr>"
  by (simp add: example_polled_def run_pending_def due_tasks_def is_due_def example_tasks_eq task_order_def Let_def)

lemma example_overlap_eq:
  "run_pending 11 11 1 example_polled = example_tasks\<lparr>running_task_ids := {''task-b'', ''task-a''},
     polls := [\<lparr>executing = 0, remaining = [1], poll_run_at = 10, poll_started_at = 0\<rparr>,
               \<lparr>executing = 1, remaining = [], poll_run_at = 11, poll_started_at = 1\<rparr>]\<rparr>"
  by (simp add: run_pending_def due_tasks_def is_due_def example_polled_eq example_tasks_eq task_order_def Let_def)

lemma example_polled_reachable: "reachable_tasks example_cron example_polled"
  unfolding example_polled_def example_tasks_def
  by (intro reachable_tasks.step [OF _ task_step.polled] reachable_tasks.step [OF _ task_step.created] reachable_tasks.initial)

lemma task_runs_alone_witness:
  "object_id (run_pending 11 11 1 example_polled) 0 \<noteq> object_id (run_pending 11 11 1 example_polled) 1"
  using task_runs_alone [OF reachable_tasks.step [OF example_polled_reachable task_step.polled [of _ _ 11 11 1]], of 0 1 0]
  unfolding example_overlap_eq by simp

lemma example_resumed:
  "\<exists>st'. resume_poll example_cron 0 (Returned (Some ''done'')) 20 20 3 20 3 example_polled = Some st'"
  by (simp add: resume_poll_def executor_ends_def example_polled_eq example_tasks_eq mark_task_after_success_def Let_def
      split: prod.split option.split)

lemma task_outcomes_witness:
  "\<exists>st'. resume_poll example_cron 0 (Returned (Some ''done'')) 20 20 3 20 3 example_polled = Some st' \<and>
     task_status (task_objects st' ! 0) = ''completed''"
proof -
  obtain st' where st': "resume_poll example_cron 0 (Returned (Some ''done'')) 20 20 3 20 3 example_polled = Some st'"
    using example_resumed by blast
  from task_outcomes [OF example_polled_reachable this refl refl refl]
  have "task_status (task_objects st' ! 0) = ''completed''"
    by (simp add: example_polled_eq example_tasks_eq)
  with st' show ?thesis by blast
qed

lemma deleted_task_still_runs_witness:
  "\<exists>st'. resume_poll example_cron 0 (Raised ''boom'') 20 20 3 20 3 (snd (delete_task example_polled ''task-b'')) = Some st' \<and>
     executing (polls st' ! 0) = 1"
  using deleted_task_still_runs [of 0 example_polled 1 "[]" "Raised ''boom''" "''boom''" example_cron 20 20 3 20 3]
  by (auto simp: example_polled_eq example_tasks_eq)

end
