(* ===== verification/TaskRoutes.thy ===== *)
theory TaskRoutes
  imports TaskProtocol AccountProtocol
begin

text \<open>
  The handlers of \<open>app/routes/tasks.py\<close> over the task service and the caller's permissions. The
  responses carry the fields of the stored objects, so they are these objects here. FastAPI runs the
  dependencies first and answers 422 to a body that its schema does not accept.
\<close>

record create_task_request =
  body_group_folder :: string
  body_chat_jid :: string
  body_prompt :: string
  body_execution_mode :: "string option"
  body_schedule_type :: string
  body_schedule_value :: "string option"
  body_next_run :: "py_datetime option"

text \<open>The constraints that \<open>CreateTaskRequest\<close> declares.\<close>

definition create_task_request_ok :: "create_task_request \<Rightarrow> bool" where
  "create_task_request_ok r \<longleftrightarrow>
     body_group_folder r \<noteq> [] \<and> body_chat_jid r \<noteq> [] \<and> body_prompt r \<noteq> [] \<and>
     (case body_execution_mode r of None \<Rightarrow> True | Some m \<Rightarrow> m \<in> {''openai'', ''host'', ''container''}) \<and>
     body_schedule_type r \<in> {''cron'', ''interval'', ''once''}"

text \<open>\<open>_normalize_utc_datetime\<close>\<close>

definition normalize_utc_datetime :: "py_datetime option \<Rightarrow> py_datetime option" where
  "normalize_utc_datetime value = map_option (\<lambda>t. Aware (to_utc_datetime t) 0) value"

abbreviation unprocessable :: http_error where
  "unprocessable \<equiv> Http_error 422 ''validation error''"

abbreviation server_error :: http_error where
  "server_error \<equiv> Http_error 500 ''Internal Server Error''"

abbreviation task_not_found :: http_error where
  "task_not_found \<equiv> Http_error 404 ''task not found''"

text \<open>Only a \<open>ValueError\<close> becomes a 400; an \<open>OverflowError\<close> is not caught.\<close>

definition create_task_handler ::
  "cron_library \<Rightarrow> http_error + auth_user \<Rightarrow> create_task_request \<Rightarrow> task_service \<Rightarrow> string \<Rightarrow> instant \<Rightarrow> instant \<Rightarrow>
   instant \<Rightarrow> (http_error + scheduled_task) \<times> task_service" where
  "create_task_handler cron current r st uuid created now now' =
     (case require_permission ''tasks'' ''write'' current of
        Inl e \<Rightarrow> (Inl e, st)
      | Inr u \<Rightarrow>
          if \<not> create_task_request_ok r then (Inl unprocessable, st)
          else
            (case create_task cron st (body_group_folder r) (body_chat_jid r) (body_prompt r) (body_schedule_type r)
                    (body_execution_mode r) (body_schedule_value r) (normalize_utc_datetime (body_next_run r))
                    uuid created now now' of
               (Inl (Task_value_error detail), st') \<Rightarrow> (Inl (Http_error 400 detail), st')
             | (Inl Overflow_error, st') \<Rightarrow> (Inl server_error, st')
             | (Inr task, st') \<Rightarrow> (Inr task, st')))"

definition list_tasks_handler ::
  "http_error + auth_user \<Rightarrow> task_service \<Rightarrow> http_error + scheduled_task list" where
  "list_tasks_handler current st =
     (case require_permission ''tasks'' ''read'' current of Inl e \<Rightarrow> Inl e | Inr u \<Rightarrow> Inr (list_tasks st))"

definition list_task_logs ::
  "http_error + auth_user \<Rightarrow> task_service \<Rightarrow> string \<Rightarrow> int \<Rightarrow> http_error + task_run_log list" where
  "list_task_logs current st tid limit =
     (case require_permission ''tasks'' ''read'' current of
        Inl e \<Rightarrow> Inl e
      | Inr u \<Rightarrow>
          (case get_task st tid of
             None \<Rightarrow> Inl task_not_found
           | Some _ \<Rightarrow> Inr (list_logs st tid (nat (min (max limit 1) 200)))))"

definition delete_task_handler ::
  "http_error + auth_user \<Rightarrow> task_service \<Rightarrow> string \<Rightarrow> (http_error + unit) \<times> task_service" where
  "delete_task_handler current st tid =
     (case require_permission ''tasks'' ''write'' current of
        Inl e \<Rightarrow> (Inl e, st)
      | Inr u \<Rightarrow>
          (case delete_task st tid of
             (removed, st') \<Rightarrow> if \<not> removed then (Inl task_not_found, st') else (Inr (), st')))"

section \<open>Logs\<close>

lemma record_log_ok: "logs_ok st \<Longrightarrow> logs_ok (record_log st tid run_at d s r e)"
proof -
  assume ok: "logs_ok st"
  let ?old = "case dict_get (logs_by_task_id st) tid of None \<Rightarrow> [] | Some ls \<Rightarrow> ls"
  have set_upd: "set (dict_set k v d) \<subseteq> insert (k, v) (set d)" for k :: string and v :: "task_run_log list" and d
    by (induction d) auto
  have old: "sorted_wrt (<) (map log_id ?old)" "\<forall>l \<in> set ?old. log_task_id l = tid \<and> log_id l < next_log_id st"
    using ok by (cases "dict_get (logs_by_task_id st) tid"; fastforce simp: logs_ok_def dest: map_of_SomeD)+
  show ?thesis
    unfolding logs_ok_def
  proof (intro ballI)
    fix x
    assume "x \<in> set (logs_by_task_id (record_log st tid run_at d s r e))"
    then have "x \<in> set (logs_by_task_id st) \<or> x = (tid, ?old @ [\<lparr>log_id = next_log_id st, log_task_id = tid,
        log_run_at = run_at, log_duration_ms = d, log_status = s, log_result = r, log_error = e\<rparr>])"
      using set_upd unfolding record_log_def Let_def by fastforce
    then show "case x of (tid', ls) \<Rightarrow> sorted_wrt (<) (map log_id ls) \<and>
        (\<forall>l \<in> set ls. log_task_id l = tid' \<and> log_id l < next_log_id (record_log st tid run_at d s r e))"
    proof
      assume "x \<in> set (logs_by_task_id st)"
      with ok show ?thesis by (fastforce simp: logs_ok_def record_log_def Let_def)
    qed (use old in \<open>auto simp: sorted_wrt_append record_log_def Let_def\<close>)
  qed
qed

lemma log_outcome_ok: "logs_ok st \<Longrightarrow> logs_ok (log_outcome p out t st)"
  by (simp add: log_outcome_def Let_def record_log_ok split: outcome.split)

lemma logs_ok_cong:
  "logs_by_task_id st' = logs_by_task_id st \<Longrightarrow> next_log_id st' = next_log_id st \<Longrightarrow> logs_ok st' \<longleftrightarrow> logs_ok st"
  by (simp add: logs_ok_def)

lemma execute_next_log_ids: "next_log_id (snd (execute_next rs run_at started st)) = next_log_id st"
  by (cases rule: execute_next_cases [of rs run_at started st]) auto

lemma resume_poll_log_ids:
  assumes "resume_poll cron i out now now' t run_at started st = Some st'"
  shows "next_log_id st' = next_log_id (log_outcome (polls st ! i) out t st)"
proof -
  have next_eq: "execute_next rs run_at started s = (q, s') \<Longrightarrow> next_log_id s' = next_log_id s" for rs s q s'
    using execute_next_log_ids [of rs run_at started s] by simp
  from assms obtain q s where "executor_ends cron (polls st ! i) out now now' t run_at started st = Some (q, s)"
    and "next_log_id st' = next_log_id s"
    by (auto simp: resume_poll_def split: option.splits if_splits)
  then show ?thesis
    by (cases out) (auto simp: executor_ends_def Let_def dest!: next_eq split: option.splits if_splits)
qed

lemma reachable_logs_ok: "reachable_tasks cron st \<Longrightarrow> logs_ok st"
proof (induction rule: reachable_tasks.induct)
  case initial
  show ?case by (simp add: logs_ok_def initial_task_service_def)
next
  case (step st st')
  have same: "logs_ok st'" if "logs_by_task_id st' = logs_by_task_id st \<and> next_log_id st' = next_log_id st"
    using logs_ok_cong [of st' st] that step.IH by blast
  from step.hyps(2) show ?case
  proof (cases rule: task_step.cases)
    case (created ws chat prompt stype mode val nxt uuid stamp now now')
    show ?thesis
      by (rule same) (use create_task_tasks [of cron st ws chat prompt stype mode val nxt uuid stamp now now'] created in auto)
  next
    case (polled now run_at started)
    show ?thesis
      by (rule same, cases rule: execute_next_cases [of "due_tasks st now" run_at started st])
        (use polled in \<open>simp_all add: run_pending_def\<close>)
  next
    case (resumed i out now now' t run_at started)
    then show ?thesis
      using logs_ok_cong [of st' "log_outcome (polls st ! i) out t st"] log_outcome_ok [OF step.IH]
        resume_effect [OF resumed] resume_poll_log_ids [OF resumed] by blast
  next
    case (deleted tid)
    show ?thesis by (rule same) (simp add: deleted delete_task_def)
  next
    case reset
    then show ?thesis by (simp add: logs_ok_def reset_tasks_def)
  qed
qed

text \<open>The log page of a task: whatever limit is asked for, it has between one and 200 logs when the
task has any, they are the task's own, each is newer than the next one (later, or recorded later in
the same instant), and a log that is left out is older than every log on the page.\<close>

lemma newest_logs_listed:
  assumes "reachable_tasks cron st" "list_task_logs current st tid limit = Inr page"
    and "logs = (case dict_get (logs_by_task_id st) tid of None \<Rightarrow> [] | Some ls \<Rightarrow> ls)"
  shows "int (length page) = min (int (length logs)) (min (max limit 1) 200) \<and>
    (\<forall>l \<in> set page. l \<in> set logs \<and> log_task_id l = tid) \<and>
    sorted_wrt (\<lambda>l l'. (log_run_at l', log_id l') < (log_run_at l, log_id l)) page \<and>
    (\<forall>l \<in> set logs - set page. \<forall>l' \<in> set page. (log_run_at l, log_id l) < (log_run_at l', log_id l'))"
proof -
  let ?key = "\<lambda>l. (log_run_at l, log_id l)"
  let ?all = "rev (sort_key ?key logs)"
  define n where "n = nat (min (max limit 1) 200)"
  have page: "page = take n ?all"
    using assms(2) unfolding n_def list_task_logs_def list_logs_def assms(3)
    by (auto split: sum.splits option.splits)
  have "logs = [] \<or> (tid, logs) \<in> set (logs_by_task_id st)"
    unfolding assms(3) by (cases "dict_get (logs_by_task_id st) tid") (auto dest: map_of_SomeD)
  then have "sorted_wrt (<) (map log_id logs)" and own: "\<forall>l \<in> set logs. log_task_id l = tid"
    using reachable_logs_ok [OF assms(1)] unfolding logs_ok_def by auto
  then have "distinct (map log_id logs)" using strict_sorted_iff by blast
  then have "distinct (map ?key logs)"
    by (induction logs) (auto simp: image_iff)
  moreover have "mset (map ?key (sort_key ?key logs)) = mset (map ?key logs)" by simp
  ultimately have "distinct (map ?key (sort_key ?key logs))" by (metis mset_eq_imp_distinct_iff)
  then have "sorted_wrt (<) (map ?key (sort_key ?key logs))"
    using sorted_sort_key [of ?key logs] strict_sorted_iff by blast
  then have sorted: "sorted_wrt (\<lambda>l l'. ?key l' < ?key l) ?all"
    by (simp add: sorted_wrt_rev sorted_wrt_map)
  then have split: "sorted_wrt (\<lambda>l l'. ?key l' < ?key l) (take n ?all @ drop n ?all)" by simp
  have older: "?key l < ?key l'" if "l \<in> set logs - set page" "l' \<in> set page" for l l'
  proof -
    have "set ?all = set (take n ?all) \<union> set (drop n ?all)" by (metis append_take_drop_id set_append)
    with that(1) page have "l \<in> set (drop n ?all)" by auto
    with split that(2) page show ?thesis unfolding sorted_wrt_append by blast
  qed
  have "sorted_wrt (\<lambda>l l'. ?key l' < ?key l) page" using split page unfolding sorted_wrt_append by blast
  moreover have "set page \<subseteq> set logs" unfolding page using set_take_subset [of n ?all] by simp
  moreover have "int (length page) = min (int (length logs)) (min (max limit 1) 200)"
    unfolding page n_def by auto
  ultimately show ?thesis using older own by blast
qed

definition example_resumed_once :: task_service where
  "example_resumed_once =
     the (resume_poll example_cron 0 (Raised ''boom'') 20 20 3 20 3 example_polled)"

lemma newest_logs_listed_witness:
  "\<exists>page. list_task_logs (Inr (new_user ''id1'' ''ann'' ''member'')) example_resumed_once ''task-a'' 1000 = Inr page \<and>
     length page = 1"
proof -
  have res: "resume_poll example_cron 0 (Raised ''boom'') 20 20 3 20 3 example_polled = Some example_resumed_once"
    unfolding example_resumed_once_def
    by (simp add: resume_poll_def executor_ends_def example_polled_eq example_tasks_eq Let_def)
  then have reach: "reachable_tasks example_cron example_resumed_once"
    by (rule reachable_tasks.step [OF example_polled_reachable task_step.resumed])
  have logs: "dict_get (logs_by_task_id example_resumed_once) ''task-a'' = Some
      [\<lparr>log_id = 1, log_task_id = ''task-a'', log_run_at = 10, log_duration_ms = 3000, log_status = ''error'',
        log_result = None, log_error = Some ''boom''\<rparr>]"
    using resume_effect [OF res]
    by (simp add: log_outcome_def record_log_def Let_def example_polled_eq example_tasks_eq duration_ms_def)
  have "get_task example_resumed_once ''task-a'' \<noteq> None"
    unfolding example_resumed_once_def
    by (simp add: resume_poll_def executor_ends_def example_polled_eq example_tasks_eq Let_def get_task_def list_tasks_def
        log_outcome_def record_log_def task_order_def)
  moreover have "has_permission (Some ''member'') ''tasks'' ''read''"
    by (simp add: has_permission_def get_permissions_for_role_def permission_templates_def)
  ultimately obtain page where page: "list_task_logs (Inr (new_user ''id1'' ''ann'' ''member'')) example_resumed_once ''task-a'' 1000 = Inr page"
    by (auto simp: list_task_logs_def require_permission_def)
  from newest_logs_listed [OF reach this refl] logs have "length page = 1" by simp
  with page show ?thesis by blast
qed

end
