(* ===== verification/FileSystem.thy ===== *)
theory FileSystem
  imports Paths "HOL-Library.Sublist"
begin

text \<open>
  The file system under the services that keep files: directories, regular files and symbolic links,
  the calls of \<open>pathlib\<close>, \<open>os\<close> and \<open>shutil\<close> that the services make (Python 3.11 on Linux), and
  \<open>validate_path\<close> of \<open>infra/exec/security.py\<close>.

  An absolute path is the list of its names from the root; as in \<open>pathlib\<close>, empty names and \<open>.\<close> are gone
  and \<open>..\<close> is kept. The file system is a dictionary from real paths (of directories and names without
  \<open>..\<close>) to nodes. Access rights, the limits on names and the space on the disk are no obstacle. Each call
  of the services runs alone: other processes change the files between the calls only.
\<close>

section \<open>Nodes\<close>

text \<open>
  A file has its bytes and its time of modification. A link has its target: whether it is absolute, and
  its names. What \<open>stat\<close> reports as the size and time of a directory is an argument of its readers.
\<close>

datatype fs_node =
    File_node string instant
  | Dir_node
  | Link_node bool path

type_synonym filesys = "(path, fs_node) dict"

definition node_at :: "filesys \<Rightarrow> path \<Rightarrow> fs_node option" where
  "node_at fs p = (if p = [] then Some Dir_node else dict_get fs p)"

definition link_base :: "path \<Rightarrow> bool \<Rightarrow> path" where
  "link_base cur absolute = (if absolute then [] else cur)"

section \<open>Resolution by the kernel\<close>

text \<open>
  What the kernel makes of a path: an existing node, a name that is missing in an existing directory, or
  an error. \<open>follow\<close> says whether a link in the last place is followed; 40 links are followed at most.
\<close>

datatype errno = ENOENT | EEXIST | ENOTDIR | EISDIR | EINVAL | ELOOP | ENOTEMPTY | EBUSY

datatype walk_result = Found path | Absent path | Failed errno

function walk :: "filesys \<Rightarrow> bool \<Rightarrow> path \<Rightarrow> path \<Rightarrow> nat \<Rightarrow> walk_result" where
  "walk fs follow cur [] n = Found cur"
| "walk fs follow cur (s # todo) n =
     (if s = ''..'' then walk fs follow (butlast cur) todo n
      else
        (case node_at fs (cur @ [s]) of
           None \<Rightarrow> if todo = [] then Absent (cur @ [s]) else Failed ENOENT
         | Some (File_node bytes mtime) \<Rightarrow> if todo = [] then Found (cur @ [s]) else Failed ENOTDIR
         | Some Dir_node \<Rightarrow> walk fs follow (cur @ [s]) todo n
         | Some (Link_node absolute target) \<Rightarrow>
             if todo = [] \<and> \<not> follow then Found (cur @ [s])
             else if n = 0 then Failed ELOOP
             else walk fs follow (link_base cur absolute) (target @ todo) (n - 1)))"
  by pat_completeness auto
termination
  by (relation "measures [\<lambda>(fs, follow, cur, todo, n). n, \<lambda>(fs, follow, cur, todo, n). length todo]") auto

definition kernel :: "filesys \<Rightarrow> bool \<Rightarrow> path \<Rightarrow> walk_result" where
  "kernel fs follow p = walk fs follow [] p 40"

definition path_exists :: "filesys \<Rightarrow> path \<Rightarrow> bool" where
  "path_exists fs p = (case kernel fs True p of Found _ \<Rightarrow> True | _ \<Rightarrow> False)"

definition path_is_dir :: "filesys \<Rightarrow> path \<Rightarrow> bool" where
  "path_is_dir fs p = (case kernel fs True p of Found q \<Rightarrow> node_at fs q = Some Dir_node | _ \<Rightarrow> False)"

section \<open>Resolution by the library\<close>

text \<open>
  \<open>os.path.realpath\<close> with its table \<open>seen\<close>: a link is there with \<open>None\<close> while it is being resolved, and
  with its value afterwards. \<open>Resolved\<close> marks the place where the value of a link is complete.
\<close>

datatype pending = Name string | Resolved path

fun names :: "pending list \<Rightarrow> path" where
  "names [] = []"
| "names (Name s # todo) = s # names todo"
| "names (Resolved q # todo) = names todo"

datatype realpath_result = Real path | Looped path

definition unseen_links :: "filesys \<Rightarrow> (path \<times> path option) list \<Rightarrow> path set" where
  "unseen_links fs seen = {q \<in> fst ` set fs. map_of seen q = None}"

lemma unseen_links_le: "card (unseen_links fs ((q, v) # seen)) \<le> card (unseen_links fs seen)"
  by (rule card_mono) (auto simp: unseen_links_def split: if_splits)

lemma unseen_links_less:
  assumes "node_at fs q = Some (Link_node absolute target)" and "map_of seen q = None"
  shows "card (unseen_links fs ((q, v) # seen)) < card (unseen_links fs seen)"
proof (rule psubset_card_mono)
  have "q \<in> fst ` set fs"
    using assms(1) by (auto simp: node_at_def split: if_splits dest!: map_of_SomeD intro: rev_image_eqI)
  with assms(2) show "unseen_links fs ((q, v) # seen) \<subset> unseen_links fs seen"
    by (auto simp: unseen_links_def split: if_splits)
qed (simp add: unseen_links_def)

function realpath_run :: "filesys \<Rightarrow> path \<Rightarrow> pending list \<Rightarrow> (path \<times> path option) list \<Rightarrow> realpath_result" where
  "realpath_run fs cur [] seen = Real cur"
| "realpath_run fs cur (Resolved q # todo) seen = realpath_run fs cur todo ((q, Some cur) # seen)"
| "realpath_run fs cur (Name s # todo) seen =
     (if s = ''..'' then realpath_run fs (butlast cur) todo seen
      else
        (case node_at fs (cur @ [s]) of
           Some (Link_node absolute target) \<Rightarrow>
             (case map_of seen (cur @ [s]) of
                None \<Rightarrow>
                  realpath_run fs (link_base cur absolute) (map Name target @ Resolved (cur @ [s]) # todo)
                    ((cur @ [s], None) # seen)
              | Some (Some value) \<Rightarrow> realpath_run fs value todo seen
              | Some None \<Rightarrow> Looped (cur @ [s] @ names todo))
         | _ \<Rightarrow> realpath_run fs (cur @ [s]) todo seen))"
  by pat_completeness auto
termination
  by (relation "measures [\<lambda>(fs, cur, todo, seen). card (unseen_links fs seen), \<lambda>(fs, cur, todo, seen). length todo]")
    (auto simp: unseen_links_less intro: le_neq_implies_less unseen_links_le)

text \<open>
  \<open>os.path.abspath\<close>, which drops names at \<open>..\<close>, and \<open>Path.resolve\<close>: it stats its result and turns a loop
  into a \<open>RuntimeError\<close>; a null character is a \<open>ValueError\<close>.
\<close>

definition lexical :: "path \<Rightarrow> path" where
  "lexical p = fold (\<lambda>s acc. if s = ''..'' then butlast acc else acc @ [s]) p []"

datatype exn_class = Value_exn | Not_found_exn | Not_directory_exn | Is_directory_exn | File_exists_exn | Os_exn | Runtime_exn

datatype exn_text = Message string | Errno errno path | Undecodable | Loop_from path

datatype file_exn = Exn exn_class exn_text

definition has_null :: "path \<Rightarrow> bool" where
  "has_null p \<longleftrightarrow> (\<exists>s \<in> set p. CHR 0x00 \<in> set s)"

definition path_resolve :: "filesys \<Rightarrow> path \<Rightarrow> file_exn + path" where
  "path_resolve fs p =
     (if has_null p then Inl (Exn Value_exn (Message ''embedded null byte''))
      else
        let q = (case realpath_run fs [] (map Name p) [] of Real r \<Rightarrow> r | Looped r \<Rightarrow> lexical r) in
        if kernel fs True q = Failed ELOOP then Inl (Exn Runtime_exn (Loop_from q)) else Inr q)"

text \<open>\<open>relative_to\<close> and \<open>validate_path\<close>.\<close>

definition relative_to :: "path \<Rightarrow> path \<Rightarrow> path option" where
  "relative_to p base = (if prefix base p then Some (drop (length base) p) else None)"

fun under_some_root :: "filesys \<Rightarrow> path \<Rightarrow> path list \<Rightarrow> file_exn + bool" where
  "under_some_root fs candidate [] = Inr False"
| "under_some_root fs candidate (allowed # roots) =
     (case path_resolve fs allowed of
        Inl e \<Rightarrow> Inl e
      | Inr r \<Rightarrow> if relative_to candidate r = None then under_some_root fs candidate roots else Inr True)"

definition validate_path :: "filesys \<Rightarrow> path \<Rightarrow> path list \<Rightarrow> file_exn + bool" where
  "validate_path fs p allowed_roots =
     (case path_resolve fs p of Inl e \<Rightarrow> Inl e | Inr candidate \<Rightarrow> under_some_root fs candidate allowed_roots)"

section \<open>Calls\<close>

text \<open>A call gives its value or an exception, with the file system after it.\<close>

type_synonym 'a fs_result = "(file_exn + 'a) \<times> filesys"

definition and_then :: "'a fs_result \<Rightarrow> ('a \<Rightarrow> filesys \<Rightarrow> 'b fs_result) \<Rightarrow> 'b fs_result" where
  "and_then r k = (case r of (Inl e, fs) \<Rightarrow> (Inl e, fs) | (Inr x, fs) \<Rightarrow> k x fs)"

text \<open>The exception that \<open>os\<close> raises for an error number.\<close>

fun errno_class :: "errno \<Rightarrow> exn_class" where
  "errno_class ENOENT = Not_found_exn"
| "errno_class EEXIST = File_exists_exn"
| "errno_class ENOTDIR = Not_directory_exn"
| "errno_class EISDIR = Is_directory_exn"
| "errno_class _ = Os_exn"

definition errno_exn :: "errno \<Rightarrow> path \<Rightarrow> file_exn" where
  "errno_exn e p = Exn (errno_class e) (Errno e p)"

text \<open>\<open>os.mkdir\<close>, and \<open>Path.mkdir\<close> with \<open>exist_ok=True\<close>, without and with \<open>parents=True\<close>.\<close>

definition os_mkdir :: "filesys \<Rightarrow> path \<Rightarrow> errno + filesys" where
  "os_mkdir fs p =
     (case kernel fs False p of
        Found q \<Rightarrow> Inl EEXIST
      | Absent q \<Rightarrow> Inr (dict_set q Dir_node fs)
      | Failed e \<Rightarrow> Inl e)"

definition mkdir_exist_ok :: "filesys \<Rightarrow> path \<Rightarrow> unit fs_result" where
  "mkdir_exist_ok fs p =
     (case os_mkdir fs p of
        Inr fs1 \<Rightarrow> (Inr (), fs1)
      | Inl e \<Rightarrow> if e \<noteq> ENOENT \<and> path_is_dir fs p then (Inr (), fs) else (Inl (errno_exn e p), fs))"

function mkdir_parents :: "filesys \<Rightarrow> path \<Rightarrow> unit fs_result" where
  "mkdir_parents fs p =
     (case os_mkdir fs p of
        Inr fs1 \<Rightarrow> (Inr (), fs1)
      | Inl e \<Rightarrow>
          if e = ENOENT then
            (if p = [] then (Inl (errno_exn e p), fs)
             else and_then (mkdir_parents fs (butlast p)) (\<lambda>_ fs1. mkdir_exist_ok fs1 p))
          else if path_is_dir fs p then (Inr (), fs) else (Inl (errno_exn e p), fs))"
  by pat_completeness auto
termination
  by (relation "measure (\<lambda>(fs, p). length p)") auto

declare mkdir_parents.simps [simp del]

text \<open>\<open>write_bytes\<close> and \<open>read_bytes\<close>.\<close>

definition write_file :: "filesys \<Rightarrow> path \<Rightarrow> string \<Rightarrow> instant \<Rightarrow> unit fs_result" where
  "write_file fs p bytes now =
     (case kernel fs True p of
        Found q \<Rightarrow>
          if node_at fs q = Some Dir_node then (Inl (errno_exn EISDIR p), fs)
          else (Inr (), dict_set q (File_node bytes now) fs)
      | Absent q \<Rightarrow> (Inr (), dict_set q (File_node bytes now) fs)
      | Failed e \<Rightarrow> (Inl (errno_exn e p), fs))"

definition read_file :: "filesys \<Rightarrow> path \<Rightarrow> file_exn + string" where
  "read_file fs p =
     (case kernel fs True p of
        Found q \<Rightarrow>
          (case node_at fs q of Some (File_node bytes mtime) \<Rightarrow> Inr bytes | _ \<Rightarrow> Inl (errno_exn EISDIR p))
      | Absent q \<Rightarrow> Inl (errno_exn ENOENT p)
      | Failed e \<Rightarrow> Inl (errno_exn e p))"

text \<open>
  \<open>read_text\<close> and \<open>write_text\<close> with UTF-8. Reading translates the line ends to newlines, writing keeps
  newlines as they are. A text with characters beyond 255 is outside of this model.
\<close>

fun utf8_decode :: "string \<Rightarrow> string option" where
  "utf8_decode [] = Some []"
| "utf8_decode (b # bs) =
     (let n = of_char b :: nat in
      if n < 128 then map_option ((#) b) (utf8_decode bs)
      else (case bs of
              [] \<Rightarrow> None
            | c # cs \<Rightarrow>
                let m = of_char c :: nat in
                if (n = 194 \<or> n = 195) \<and> 128 \<le> m \<and> m < 192
                then map_option ((#) (char_of ((n - 192) * 64 + (m - 128)))) (utf8_decode cs) else None))"

fun universal_newlines :: "string \<Rightarrow> string" where
  "universal_newlines [] = []"
| "universal_newlines [c] = (if c = CHR 0x0D then [newline] else [c])"
| "universal_newlines (c # d # cs) =
     (if c = CHR 0x0D then newline # universal_newlines (if d = newline then cs else d # cs)
      else c # universal_newlines (d # cs))"

definition read_text :: "filesys \<Rightarrow> path \<Rightarrow> file_exn + string" where
  "read_text fs p =
     (case read_file fs p of
        Inl e \<Rightarrow> Inl e
      | Inr bytes \<Rightarrow>
          (case utf8_decode bytes of
             None \<Rightarrow> Inl (Exn Value_exn Undecodable)
           | Some t \<Rightarrow> Inr (universal_newlines t)))"

definition write_text :: "filesys \<Rightarrow> path \<Rightarrow> string \<Rightarrow> instant \<Rightarrow> unit fs_result" where
  "write_text fs p content now = write_file fs p (utf8_bytes content) now"

text \<open>\<open>stat\<close>: size and time of modification; those of a directory come from \<open>dir_stat\<close>.\<close>

definition path_stat :: "(path \<Rightarrow> nat \<times> instant) \<Rightarrow> filesys \<Rightarrow> path \<Rightarrow> file_exn + nat \<times> instant" where
  "path_stat dir_stat fs p =
     (case kernel fs True p of
        Found q \<Rightarrow>
          (case node_at fs q of
             Some (File_node bytes mtime) \<Rightarrow> Inr (length bytes, mtime)
           | _ \<Rightarrow> Inr (dir_stat q))
      | Absent q \<Rightarrow> Inl (errno_exn ENOENT p)
      | Failed e \<Rightarrow> Inl (errno_exn e p))"

text \<open>\<open>iterdir\<close>, in the order of the dictionary.\<close>

definition children :: "filesys \<Rightarrow> path \<Rightarrow> string list" where
  "children fs q = map last (filter (\<lambda>k. k \<noteq> [] \<and> butlast k = q) (map fst fs))"

definition iterdir :: "filesys \<Rightarrow> path \<Rightarrow> file_exn + path list" where
  "iterdir fs p =
     (case kernel fs True p of
        Found q \<Rightarrow>
          if node_at fs q = Some Dir_node then Inr (map (\<lambda>name. p @ [name]) (children fs q))
          else Inl (errno_exn ENOTDIR p)
      | Absent q \<Rightarrow> Inl (errno_exn ENOENT p)
      | Failed e \<Rightarrow> Inl (errno_exn e p))"

text \<open>\<open>unlink\<close>, \<open>os.rmdir\<close> and \<open>shutil.rmtree\<close>, which empties the directory before it removes it by its path.\<close>

definition path_unlink :: "filesys \<Rightarrow> path \<Rightarrow> unit fs_result" where
  "path_unlink fs p =
     (case kernel fs False p of
        Found q \<Rightarrow>
          if node_at fs q = Some Dir_node then (Inl (errno_exn EISDIR p), fs) else (Inr (), dict_pop q fs)
      | Absent q \<Rightarrow> (Inl (errno_exn ENOENT p), fs)
      | Failed e \<Rightarrow> (Inl (errno_exn e p), fs))"

definition os_rmdir :: "filesys \<Rightarrow> path \<Rightarrow> unit fs_result" where
  "os_rmdir fs p =
     (case kernel fs False p of
        Found q \<Rightarrow>
          if p = [] then (Inl (errno_exn EBUSY p), fs)
          else if last p = ''..'' then (Inl (errno_exn ENOTEMPTY p), fs)
          else if node_at fs q \<noteq> Some Dir_node then (Inl (errno_exn ENOTDIR p), fs)
          else if children fs q \<noteq> [] then (Inl (errno_exn ENOTEMPTY p), fs)
          else (Inr (), dict_pop q fs)
      | Absent q \<Rightarrow> (Inl (errno_exn ENOENT p), fs)
      | Failed e \<Rightarrow> (Inl (errno_exn e p), fs))"

definition empty_tree :: "filesys \<Rightarrow> path \<Rightarrow> filesys" where
  "empty_tree fs q = filter (\<lambda>(k, v). \<not> strict_prefix q k) fs"

definition rmtree :: "filesys \<Rightarrow> path \<Rightarrow> unit fs_result" where
  "rmtree fs p =
     (case kernel fs False p of
        Found q \<Rightarrow>
          (case node_at fs q of
             Some (Link_node absolute target) \<Rightarrow>
               (Inl (Exn Os_exn (Message ''Cannot call rmtree on a symbolic link'')), fs)
           | Some Dir_node \<Rightarrow> os_rmdir (empty_tree fs q) p
           | _ \<Rightarrow> (Inl (errno_exn ENOTDIR p), fs))
      | Absent q \<Rightarrow> (Inl (errno_exn ENOENT p), fs)
      | Failed e \<Rightarrow> (Inl (errno_exn e p), fs))"

text \<open>\<open>os.rename\<close> and \<open>os.replace\<close>: the entry itself moves, links are not followed.\<close>

definition move_tree :: "path \<Rightarrow> path \<Rightarrow> filesys \<Rightarrow> filesys" where
  "move_tree q r fs =
     map (\<lambda>(k, v). (if prefix q k then r @ drop (length q) k else k, v)) (dict_pop r fs)"

definition os_rename :: "filesys \<Rightarrow> path \<Rightarrow> path \<Rightarrow> unit fs_result" where
  "os_rename fs src dst =
     (case (kernel fs False src, kernel fs False dst) of
        (Failed e, _) \<Rightarrow> (Inl (errno_exn e src), fs)
      | (Absent q, _) \<Rightarrow> (Inl (errno_exn ENOENT src), fs)
      | (Found q, Failed e) \<Rightarrow> (Inl (errno_exn e src), fs)
      | (Found q, Absent r) \<Rightarrow>
          if prefix q r then (Inl (errno_exn EINVAL src), fs) else (Inr (), move_tree q r fs)
      | (Found q, Found r) \<Rightarrow>
          if q = r then (Inr (), fs)
          else if prefix q r then (Inl (errno_exn EINVAL src), fs)
          else if node_at fs q = Some Dir_node \<and> node_at fs r \<noteq> Some Dir_node then (Inl (errno_exn ENOTDIR src), fs)
          else if node_at fs q \<noteq> Some Dir_node \<and> node_at fs r = Some Dir_node then (Inl (errno_exn EISDIR src), fs)
          else if node_at fs r = Some Dir_node \<and> children fs r \<noteq> [] then (Inl (errno_exn ENOTEMPTY src), fs)
          else (Inr (), move_tree q r fs))"

end
