(* ===== verification/PathSafety.thy ===== *)
theory PathSafety
  imports FileSystem
begin

text \<open>
  Resolving and using a path agree: where the library's \<open>resolve\<close> gives a path, every call of the kernel
  on the original path reaches that node or none, as long as the links stay the same. On this rests what
  the services check with \<open>validate_path\<close> before a call. The relation \<open>res\<close> is the reference: it resolves
  every link where it stands and counts them.
\<close>

section \<open>The reference resolution\<close>

definition no_link :: "filesys \<Rightarrow> path \<Rightarrow> bool" where
  "no_link fs p \<longleftrightarrow> (\<forall>absolute target. node_at fs p \<noteq> Some (Link_node absolute target))"

inductive res :: "filesys \<Rightarrow> path \<Rightarrow> path \<Rightarrow> nat \<Rightarrow> path \<Rightarrow> bool" for fs where
  res_done: "res fs cur [] 0 cur"
| res_up: "res fs (butlast cur) todo k q \<Longrightarrow> res fs cur (''..'' # todo) k q"
| res_plain: "s \<noteq> ''..'' \<Longrightarrow> no_link fs (cur @ [s]) \<Longrightarrow> res fs (cur @ [s]) todo k q \<Longrightarrow> res fs cur (s # todo) k q"
| res_link: "s \<noteq> ''..'' \<Longrightarrow> node_at fs (cur @ [s]) = Some (Link_node absolute target) \<Longrightarrow>
    res fs (link_base cur absolute) (target @ todo) k q \<Longrightarrow> res fs cur (s # todo) (Suc k) q"

inductive_cases res_NilE: "res fs cur [] k q"
inductive_cases res_ConsE: "res fs cur (s # todo) k q"

lemma res_Nil [simp]: "res fs cur [] k q \<longleftrightarrow> k = 0 \<and> q = cur"
  by (auto elim: res_NilE intro: res_done)

lemma res_up_iff [simp]: "res fs cur (''..'' # todo) k q \<longleftrightarrow> res fs (butlast cur) todo k q"
  by (auto elim: res_ConsE intro: res_up)

lemma res_plain_iff:
  "s \<noteq> ''..'' \<Longrightarrow> no_link fs (cur @ [s]) \<Longrightarrow> res fs cur (s # todo) k q \<longleftrightarrow> res fs (cur @ [s]) todo k q"
  by (auto simp: no_link_def elim!: res_ConsE intro: res_plain)

lemma res_link_iff:
  "s \<noteq> ''..'' \<Longrightarrow> node_at fs (cur @ [s]) = Some (Link_node absolute target) \<Longrightarrow>
   res fs cur (s # todo) k q \<longleftrightarrow> (\<exists>j. k = Suc j \<and> res fs (link_base cur absolute) (target @ todo) j q)"
  by (auto simp: no_link_def elim!: res_ConsE intro: res_link)

lemma res_deterministic: "res fs cur todo k q \<Longrightarrow> res fs cur todo k' q' \<Longrightarrow> k' = k \<and> q' = q"
proof (induction arbitrary: k' rule: res.induct)
  case (res_link s cur absolute target todo k q)
  then show ?case by (auto simp: res_link_iff)
qed (auto simp: res_plain_iff)

lemma res_append:
  "res fs cur (xs @ ys) k q \<longleftrightarrow> (\<exists>i j v. res fs cur xs i v \<and> res fs v ys j q \<and> k = i + j)"
proof
  assume "res fs cur (xs @ ys) k q"
  then show "\<exists>i j v. res fs cur xs i v \<and> res fs v ys j q \<and> k = i + j"
  proof (induction cur "xs @ ys" k q arbitrary: xs rule: res.induct)
    case (res_done cur)
    then show ?case by simp
  next
    case (res_up cur todo k q)
    show ?case
    proof (cases xs)
      case Nil
      with res_up show ?thesis by (auto intro: res.res_up)
    next
      case (Cons x xs')
      with res_up.hyps(2) [of xs'] res_up.hyps(3) show ?thesis by (metis append_Cons list.inject res_up_iff)
    qed
  next
    case (res_plain s cur todo k q)
    show ?case
    proof (cases xs)
      case Nil
      with res_plain show ?thesis by (auto intro: res.res_plain)
    next
      case (Cons x xs')
      with res_plain show ?thesis by (auto simp: res_plain_iff)
    qed
  next
    case (res_link s cur absolute target todo k q)
    show ?case
    proof (cases xs)
      case Nil
      with res_link show ?thesis by (auto intro: res.res_link)
    next
      case (Cons x xs')
      with res_link.hyps(5) have "todo = xs' @ ys" "x = s" by auto
      with res_link.hyps(4) [of "target @ xs'"] obtain i j v where
        "res fs (link_base cur absolute) (target @ xs') i v" "res fs v ys j q" "k = i + j" by auto
      moreover from this res_link.hyps(1,2) have "res fs cur xs (Suc i) v"
        unfolding Cons \<open>x = s\<close> by (blast intro: res.res_link)
      ultimately show ?thesis by (metis add_Suc)
    qed
  qed
next
  assume "\<exists>i j v. res fs cur xs i v \<and> res fs v ys j q \<and> k = i + j"
  then obtain i j v where xs: "res fs cur xs i v" and ys: "res fs v ys j q" and k: "k = i + j" by blast
  from xs ys show "res fs cur (xs @ ys) k q"
    unfolding k by (induction rule: res.induct) (auto intro: res.intros)
qed

section \<open>The kernel follows the reference\<close>

lemma walk_res:
  "walk fs True cur todo n = Found q \<or> walk fs True cur todo n = Absent q \<Longrightarrow> \<exists>k. res fs cur todo k q"
proof (induction fs True cur todo n rule: walk.induct)
  case (1 fs cur n)
  then show ?case by simp
next
  case (2 fs cur s todo n)
  show ?case
  proof (cases "s = ''..''")
    case True
    with 2 show ?thesis by simp
  next
    case False
    show ?thesis
    proof (cases "node_at fs (cur @ [s])")
      case None
      with False "2.prems" show ?thesis
        by (auto simp: res_plain_iff no_link_def split: if_splits)
    next
      case (Some l)
      show ?thesis
      proof (cases l)
        case (File_node bytes mtime)
        with Some False "2.prems" show ?thesis
          by (auto simp: res_plain_iff no_link_def split: if_splits)
      next
        case Dir_node
        with Some False 2 show ?thesis by (auto simp: res_plain_iff no_link_def)
      next
        case (Link_node absolute target)
        with Some False "2.prems" have "n \<noteq> 0"
          "walk fs True (link_base cur absolute) (target @ todo) (n - 1) = Found q \<or>
           walk fs True (link_base cur absolute) (target @ todo) (n - 1) = Absent q"
          by (auto split: if_splits)
        with "2.hyps"(3) [OF False Some Link_node] obtain k where
          "res fs (link_base cur absolute) (target @ todo) k q" by auto
        with Some Link_node False show ?thesis by (auto simp: res_link_iff)
      qed
    qed
  qed
qed

section \<open>The library follows the reference\<close>

definition link_value :: "filesys \<Rightarrow> path \<Rightarrow> nat \<Rightarrow> path \<Rightarrow> bool" where
  "link_value fs p k v \<longleftrightarrow>
     (\<exists>absolute target. node_at fs p = Some (Link_node absolute target) \<and>
        res fs (link_base (butlast p) absolute) target k v)"

lemma link_value_deterministic: "link_value fs p k v \<Longrightarrow> link_value fs p k' v' \<Longrightarrow> k' = k \<and> v' = v"
  by (auto simp: link_value_def dest: res_deterministic)

lemma res_through_link:
  assumes "s \<noteq> ''..''" and "node_at fs (cur @ [s]) = Some (Link_node absolute target)"
  shows "res fs cur (s # todo) k q \<longleftrightarrow>
    (\<exists>i j v. link_value fs (cur @ [s]) i v \<and> res fs v todo j q \<and> k = Suc (i + j))"
  using assms by (auto simp: res_link_iff res_append link_value_def)

text \<open>
  The state of the library's resolution that leads to \<open>q\<close>: finished links have their values; for a link
  being resolved, the names up to its mark lead to its value in no more steps than its value takes.
\<close>

definition run_ok :: "filesys \<Rightarrow> path \<Rightarrow> pending list \<Rightarrow> (path \<times> path option) list \<Rightarrow> path \<Rightarrow> bool" where
  "run_ok fs cur todo seen q \<longleftrightarrow>
     (\<exists>k. res fs cur (names todo) k q) \<and>
     (\<forall>p v. map_of seen p = Some (Some v) \<longrightarrow> (\<exists>k. link_value fs p k v)) \<and>
     (\<forall>p. map_of seen p = Some None \<longrightarrow> Resolved p \<in> set todo) \<and>
     (\<forall>before p after. todo = before @ Resolved p # after \<longrightarrow>
        (\<exists>k j v. link_value fs p k v \<and> res fs cur (names before) j v \<and> j \<le> k))"

lemma names_append [simp]: "names (xs @ ys) = names xs @ names ys"
  by (induction xs rule: names.induct) auto

lemma names_map [simp]: "names (map Name xs) = xs"
  by (induction xs) auto

lemma run_ok_mark:
  assumes ok: "run_ok fs cur (Resolved p # todo) seen q"
  shows "run_ok fs cur todo ((p, Some cur) # seen) q"
proof -
  have marks: "\<exists>k j v. link_value fs x k v \<and> res fs cur (names before) j v \<and> j \<le> k"
    if "todo = before @ Resolved x # after" for before x after
    using ok that unfolding run_ok_def by (metis append_Cons names.simps(3))
  have "\<exists>k. link_value fs p k cur"
    using ok unfolding run_ok_def by (metis append_Nil names.simps(1) res_Nil)
  with ok marks show ?thesis unfolding run_ok_def by (auto split: if_splits)
qed

text \<open>A name is consumed: every resolution that starts with it continues from \<open>cur'\<close>.\<close>

lemma run_ok_step:
  assumes ok: "run_ok fs cur (Name s # todo) seen q"
    and step: "\<And>xs k v. res fs cur (s # xs) k v \<Longrightarrow> \<exists>j \<le> k. res fs cur' xs j v"
  shows "run_ok fs cur' todo seen q"
proof -
  have marks: "\<exists>k j v. link_value fs x k v \<and> res fs cur' (names before) j v \<and> j \<le> k"
    if split: "todo = before @ Resolved x # after" for before x after
  proof -
    from split have "Name s # todo = (Name s # before) @ Resolved x # after" by simp
    with ok obtain k j v where "link_value fs x k v" "res fs cur (s # names before) j v" "j \<le> k"
      unfolding run_ok_def by (metis names.simps(2))
    with step show ?thesis by (meson le_trans)
  qed
  from ok step have "\<exists>k. res fs cur' (names todo) k q" unfolding run_ok_def by (metis names.simps(2))
  with ok marks show ?thesis unfolding run_ok_def by auto
qed

lemma run_ok_enter:
  assumes ok: "run_ok fs cur (Name s # todo) seen q" and s: "s \<noteq> ''..''"
    and link: "node_at fs (cur @ [s]) = Some (Link_node absolute target)"
    and unseen: "map_of seen (cur @ [s]) = None"
  shows "run_ok fs (link_base cur absolute) (map Name target @ Resolved (cur @ [s]) # todo)
    ((cur @ [s], None) # seen) q"
proof -
  let ?base = "link_base cur absolute" and ?p = "cur @ [s]"
  from ok obtain k where "res fs cur (s # names todo) k q" unfolding run_ok_def by auto
  with s link obtain i v where valued: "link_value fs ?p i v" and target: "res fs ?base target i v"
    by (auto simp: res_link_iff res_append link_value_def)
  have marks: "\<exists>k j v. link_value fs x k v \<and> res fs ?base (names before) j v \<and> j \<le> k"
    if split: "map Name target @ Resolved ?p # todo = before @ Resolved x # after" for before x after
  proof -
    from split consider (same) "before = map Name target" "x = ?p"
      | (later) us where "before = map Name target @ Resolved ?p # us" "todo = us @ Resolved x # after"
      by (auto simp: append_eq_append_conv2 append_eq_Cons_conv Cons_eq_append_conv map_eq_append_conv)
    then show ?thesis
    proof cases
      case same
      with valued target show ?thesis by auto
    next
      case later
      then have "Name s # todo = (Name s # us) @ Resolved x # after" by simp
      with ok obtain k j w where *: "link_value fs x k w" "res fs cur (s # names us) j w" "j \<le> k"
        unfolding run_ok_def by (metis names.simps(2))
      from *(2) s link obtain j' where "j = Suc j'" "res fs ?base (target @ names us) j' w"
        by (auto simp: res_link_iff)
      with *(3) later(1) have "res fs ?base (names before) j' w" "j' \<le> k" by auto
      with *(1) show ?thesis by blast
    qed
  qed
  from ok s link have "\<exists>k. res fs ?base (target @ names todo) k q"
    unfolding run_ok_def by (auto simp: res_link_iff)
  with ok marks show ?thesis unfolding run_ok_def by auto
qed

lemma run_ok_no_loop:
  assumes ok: "run_ok fs cur (Name s # todo) seen q" and s: "s \<noteq> ''..''"
    and link: "node_at fs (cur @ [s]) = Some (Link_node absolute target)"
  shows "map_of seen (cur @ [s]) \<noteq> Some None"
proof
  assume "map_of seen (cur @ [s]) = Some None"
  with ok have "Resolved (cur @ [s]) \<in> set todo" unfolding run_ok_def by auto
  then obtain us after where "todo = us @ Resolved (cur @ [s]) # after" by (meson split_list)
  then have "Name s # todo = (Name s # us) @ Resolved (cur @ [s]) # after" by simp
  with ok obtain k j v where "link_value fs (cur @ [s]) k v" "res fs cur (s # names us) j v" "j \<le> k"
    unfolding run_ok_def by (metis names.simps(2))
  with s link show False
    by (auto simp: res_through_link dest: link_value_deterministic)
qed

lemma realpath_run_ok: "run_ok fs cur todo seen q \<Longrightarrow> realpath_run fs cur todo seen = Real q"
proof (induction fs cur todo seen rule: realpath_run.induct)
  case (1 fs cur seen)
  then show ?case by (auto simp: run_ok_def)
next
  case (2 fs cur p todo seen)
  then show ?case by (simp add: run_ok_mark)
next
  case (3 fs cur s todo seen)
  show ?case
  proof (cases "s = ''..''")
    case True
    have "run_ok fs (butlast cur) todo seen q"
      using "3.prems" by (rule run_ok_step) (auto simp: True)
    with True "3.IH"(1) show ?thesis by simp
  next
    case False
    show ?thesis
    proof (cases "no_link fs (cur @ [s])")
      case True
      have "run_ok fs (cur @ [s]) todo seen q"
        using "3.prems" by (rule run_ok_step) (auto simp: res_plain_iff [OF False True])
      with True False 3 show ?thesis by (auto simp: no_link_def split: option.splits fs_node.splits)
    next
      case linked: False
      then obtain absolute target where link: "node_at fs (cur @ [s]) = Some (Link_node absolute target)"
        by (auto simp: no_link_def)
      note run_ok_no_loop [OF "3.prems" False link]
      moreover have "run_ok fs v todo seen q" if v: "map_of seen (cur @ [s]) = Some (Some v)" for v
      proof -
        from v "3.prems" obtain k where k: "link_value fs (cur @ [s]) k v" unfolding run_ok_def by blast
        have "\<exists>i \<le> m. res fs v xs i w" if "res fs cur (s # xs) m w" for xs m w
        proof -
          from that obtain i j u where "link_value fs (cur @ [s]) i u" "res fs u xs j w" "m = Suc (i + j)"
            by (auto simp: res_through_link [OF False link])
          with k show ?thesis by (auto dest: link_value_deterministic intro: exI [of _ j])
        qed
        then show ?thesis by (rule run_ok_step [OF "3.prems"])
      qed
      ultimately show ?thesis
        using 3 False link run_ok_enter [OF "3.prems" False link]
        by (auto split: option.splits)
    qed
  qed
qed

lemma realpath_res: "res fs [] p k q \<Longrightarrow> realpath_run fs [] (map Name p) [] = Real q"
  by (rule realpath_run_ok) (auto simp: run_ok_def map_eq_append_conv)

text \<open>The kernel reaches what the library resolves.\<close>

lemma kernel_follows_resolve:
  assumes "path_resolve fs p = Inr q" and "kernel fs True p = Found r \<or> kernel fs True p = Absent r"
  shows "r = q"
  using assms realpath_res [of fs p] walk_res [of fs "[]" p 40 r]
  by (auto simp: path_resolve_def kernel_def Let_def split: if_splits)

section \<open>Clean paths\<close>

text \<open>A path is clean when it has no \<open>..\<close> and none of its beginnings is a link: it resolves to itself.\<close>

definition clean :: "filesys \<Rightarrow> path \<Rightarrow> bool" where
  "clean fs p \<longleftrightarrow> ''..'' \<notin> set p \<and> (\<forall>q. prefix q p \<longrightarrow> no_link fs q)"

lemma no_link_Nil [simp]: "no_link fs []"
  by (simp add: no_link_def node_at_def)

lemma clean_Nil [simp]: "clean fs []"
  by (simp add: clean_def)

lemma clean_snoc [simp]: "clean fs (p @ [s]) \<longleftrightarrow> clean fs p \<and> s \<noteq> ''..'' \<and> no_link fs (p @ [s])"
  by (auto simp: clean_def prefix_snoc)

lemma clean_prefix: "clean fs p \<Longrightarrow> prefix q p \<Longrightarrow> clean fs q"
  by (auto simp: clean_def dest: set_mono_prefix prefix_order.trans)

lemma clean_step: "clean fs (cur @ s # todo) \<Longrightarrow> clean fs (cur @ [s])"
  by (erule clean_prefix) simp

lemma clean_butlast [simp]: "clean fs p \<Longrightarrow> clean fs (butlast p)"
  by (erule clean_prefix) (simp add: prefixeq_butlast)

lemma res_clean: "res fs cur todo k q \<Longrightarrow> clean fs cur \<Longrightarrow> clean fs q"
  by (induction rule: res.induct) (auto simp: link_base_def)

lemma clean_res: "clean fs (cur @ todo) \<Longrightarrow> res fs cur todo 0 (cur @ todo)"
proof (induction todo arbitrary: cur)
  case Nil
  then show ?case by simp
next
  case (Cons s todo)
  then have "clean fs (cur @ [s])" by (blast dest: clean_step)
  moreover have "res fs (cur @ [s]) todo 0 (cur @ s # todo)" using Cons.IH [of "cur @ [s]"] Cons.prems by simp
  ultimately show ?case by (auto intro: res_plain)
qed

lemma clean_realpath: "clean fs p \<Longrightarrow> realpath_run fs [] (map Name p) [] = Real p"
  using clean_res [of fs "[]" p] by (auto dest: realpath_res)

lemma clean_resolve: "clean fs p \<Longrightarrow> path_resolve fs p = Inr q \<Longrightarrow> q = p"
  by (auto simp: path_resolve_def clean_realpath Let_def split: if_splits)

lemma walk_clean:
  "clean fs (cur @ todo) \<Longrightarrow> walk fs follow cur todo n = Found q \<or> walk fs follow cur todo n = Absent q \<Longrightarrow> q = cur @ todo"
proof (induction fs follow cur todo n rule: walk.induct)
  case (1 fs follow cur n)
  then show ?case by simp
next
  case (2 fs follow cur s todo n)
  from "2.prems"(1) have *: "clean fs (cur @ [s])" by (rule clean_step)
  with 2 show ?case
    by (auto simp: no_link_def split: option.splits fs_node.splits if_splits)
qed

lemma kernel_clean: "clean fs p \<Longrightarrow> kernel fs follow p = Found q \<or> kernel fs follow p = Absent q \<Longrightarrow> q = p"
  using walk_clean [of fs "[]" p follow 40 q] by (simp add: kernel_def)

lemma kernel_reaches_clean: "kernel fs True p = Found q \<or> kernel fs True p = Absent q \<Longrightarrow> clean fs q"
  unfolding kernel_def using walk_res [of fs "[]" p 40 q] res_clean clean_Nil by blast

section \<open>The check\<close>

text \<open>What a path that was checked against a clean root reaches lies under the root.\<close>

lemma validated_inside:
  assumes "path_resolve fs p = Inr q" and "validate_path fs q [base] = Inr True" and "clean fs base"
    and reached: "kernel fs True p = Found r \<or> kernel fs True p = Absent r"
  shows "r = q \<and> prefix base q \<and> clean fs q"
proof -
  have r: "r = q" using assms(1) reached by (rule kernel_follows_resolve)
  with reached have q: "clean fs q" using kernel_reaches_clean by blast
  from assms(2) obtain q' base' where "path_resolve fs q = Inr q'" "path_resolve fs base = Inr base'" "prefix base' q'"
    by (auto simp: validate_path_def relative_to_def split: sum.splits if_splits)
  with q \<open>clean fs base\<close> have "q' = q" "base' = base" by (auto dest: clean_resolve)
  with r q \<open>prefix base' q'\<close> show ?thesis by simp
qed

section \<open>Changes that keep the links\<close>

definition same_links :: "filesys \<Rightarrow> filesys \<Rightarrow> bool" where
  "same_links fs fs' \<longleftrightarrow>
     (\<forall>p absolute target. node_at fs' p = Some (Link_node absolute target) \<longleftrightarrow> node_at fs p = Some (Link_node absolute target))"

lemma same_links_refl [simp]: "same_links fs fs"
  by (simp add: same_links_def)

lemma same_links_trans [trans]: "same_links fs fs' \<Longrightarrow> same_links fs' fs'' \<Longrightarrow> same_links fs fs''"
  by (simp add: same_links_def)

lemma same_links_sym: "same_links fs fs' \<Longrightarrow> same_links fs' fs"
  by (simp add: same_links_def)

lemma same_links_no_link: "same_links fs fs' \<Longrightarrow> no_link fs' p \<longleftrightarrow> no_link fs p"
  by (simp add: same_links_def no_link_def)

lemma same_links_clean: "same_links fs fs' \<Longrightarrow> clean fs' p \<longleftrightarrow> clean fs p"
  by (simp add: clean_def same_links_no_link)

lemma res_same_links: "res fs cur todo k q \<Longrightarrow> same_links fs fs' \<Longrightarrow> res fs' cur todo k q"
proof (induction rule: res.induct)
  case (res_plain s cur todo k q)
  then show ?case by (simp add: res.res_plain same_links_no_link)
next
  case (res_link s cur absolute target todo k q)
  then have "node_at fs' (cur @ [s]) = Some (Link_node absolute target)" by (simp add: same_links_def)
  with res_link show ?case by (blast intro: res.res_link)
qed simp_all

lemma kernel_follows_earlier_resolve:
  assumes "path_resolve fs p = Inr q" and "same_links fs fs'"
    and "kernel fs' True p = Found r \<or> kernel fs' True p = Absent r"
  shows "r = q"
proof -
  from assms(3) obtain k where "res fs' [] p k r" using walk_res [of fs' "[]" p 40 r] by (auto simp: kernel_def)
  with assms(2) have "res fs [] p k r" by (meson res_same_links same_links_sym)
  then have "realpath_run fs [] (map Name p) [] = Real r" by (rule realpath_res)
  with assms(1) show ?thesis by (auto simp: path_resolve_def Let_def split: if_splits)
qed

text \<open>Only directories appear, where nothing was before.\<close>

definition dirs_added :: "filesys \<Rightarrow> filesys \<Rightarrow> bool" where
  "dirs_added fs fs' \<longleftrightarrow>
     (\<forall>p. node_at fs' p = node_at fs p \<or> node_at fs p = None \<and> node_at fs' p = Some Dir_node)"

lemma dirs_added_refl [simp]: "dirs_added fs fs"
  by (simp add: dirs_added_def)

lemma dirs_added_trans: "dirs_added fs fs' \<Longrightarrow> dirs_added fs' fs'' \<Longrightarrow> dirs_added fs fs''"
  unfolding dirs_added_def by (metis option.distinct(1))

lemma dirs_added_same_links: "dirs_added fs fs' \<Longrightarrow> same_links fs fs'"
  unfolding dirs_added_def same_links_def by (metis fs_node.distinct(5) option.distinct(1) option.inject)

lemma node_at_set [simp]: "q \<noteq> [] \<Longrightarrow> node_at (dict_set q v fs) p = (if p = q then Some v else node_at fs p)"
  by (auto simp: node_at_def)

lemma node_at_pop [simp]: "q \<noteq> [] \<Longrightarrow> node_at (dict_pop q fs) p = (if p = q then None else node_at fs p)"
  by (auto simp: node_at_def)

lemma walk_Absent: "walk fs follow cur todo n = Absent q \<Longrightarrow> node_at fs q = None \<and> q \<noteq> []"
  by (induction fs follow cur todo n rule: walk.induct)
    (auto split: if_splits option.splits fs_node.splits)

lemma kernel_Absent: "kernel fs follow p = Absent q \<Longrightarrow> node_at fs q = None \<and> q \<noteq> []"
  unfolding kernel_def by (rule walk_Absent)

lemma os_mkdir_dirs: "os_mkdir fs p = Inr fs' \<Longrightarrow> dirs_added fs fs'"
  by (auto simp: os_mkdir_def dirs_added_def split: walk_result.splits if_splits dest!: kernel_Absent)

lemma mkdir_exist_ok_dirs: "mkdir_exist_ok fs p = (r, fs') \<Longrightarrow> dirs_added fs fs'"
  by (auto simp: mkdir_exist_ok_def split: sum.splits if_splits dest: os_mkdir_dirs)

lemma mkdir_parents_dirs: "mkdir_parents fs p = (r, fs') \<Longrightarrow> dirs_added fs fs'"
proof (induction fs p arbitrary: r fs' rule: mkdir_parents.induct)
  case (1 fs p)
  show ?case
  proof (cases "os_mkdir fs p")
    case (Inr fs1)
    with "1.prems" show ?thesis
      by (simp add: mkdir_parents.simps [of fs p] os_mkdir_dirs)
  next
    case (Inl e)
    show ?thesis
    proof (cases "e = ENOENT \<and> p \<noteq> []")
      case True
      obtain r1 fs1 where parent: "mkdir_parents fs (butlast p) = (r1, fs1)" by force
      with 1 True Inl have "dirs_added fs fs1" by simp
      with parent Inl True "1.prems" show ?thesis
        by (auto simp: mkdir_parents.simps [of fs p] and_then_def split: sum.splits
            intro: dirs_added_trans mkdir_exist_ok_dirs)
    next
      case False
      with Inl "1.prems" show ?thesis
        by (auto simp: mkdir_parents.simps [of fs p] split: if_splits)
    qed
  qed
qed

text \<open>A directory that is there already stays as it is.\<close>

lemma mkdir_parents_exists:
  assumes "kernel fs False p = Found q" and "path_is_dir fs p"
  shows "mkdir_parents fs p = (Inr (), fs)"
  using assms by (simp add: mkdir_parents.simps [of fs p] os_mkdir_def)

lemma and_then_Inr: "and_then r k = (Inr y, fs') \<Longrightarrow> \<exists>x fs. r = (Inr x, fs) \<and> k x fs = (Inr y, fs')"
  by (auto simp: and_then_def split: prod.splits sum.splits)

lemma and_then_cases:
  assumes "and_then r k = (y, fs')"
  obtains (failed) e where "r = (Inl e, fs')" "y = Inl e" | (ok) x fs where "r = (Inr x, fs)" "k x fs = (y, fs')"
  using assms by (auto simp: and_then_def split: prod.splits sum.splits)

section \<open>The last name of a path\<close>

text \<open>A call that does not follow the last name acts in the directory that the names before it lead to.\<close>

lemma walk_last_name:
  assumes "walk fs False cur todo n = Found q \<or> walk fs False cur todo n = Absent q"
    and "todo = xs @ [s]" and "s \<noteq> ''..''"
  shows "\<exists>k d. res fs cur xs k d \<and> q = d @ [s]"
  using assms
proof (induction fs False cur todo n arbitrary: xs rule: walk.induct)
  case (1 fs cur n)
  then show ?case by simp
next
  case (2 fs cur x todo n)
  show ?case
  proof (cases xs)
    case Nil
    with 2 show ?thesis by (auto split: option.splits fs_node.splits)
  next
    case (Cons y ys)
    with "2.prems"(2) have todo: "todo = ys @ [s]" "y = x" by auto
    show ?thesis
    proof (cases "x = ''..''")
      case True
      with 2 todo show ?thesis unfolding Cons by simp
    next
      case False
      show ?thesis
      proof (cases "no_link fs (cur @ [x])")
        case True
        with False 2 todo show ?thesis unfolding Cons
          by (auto simp: res_plain_iff no_link_def split: option.splits fs_node.splits)
      next
        case linked: False
        then obtain absolute target where link: "node_at fs (cur @ [x]) = Some (Link_node absolute target)"
          by (auto simp: no_link_def)
        with False "2.prems"(1) todo
        have n: "walk fs False (link_base cur absolute) (target @ todo) (n - 1) = Found q \<or>
            walk fs False (link_base cur absolute) (target @ todo) (n - 1) = Absent q"
          by (auto split: if_splits)
        have nz: "\<not> (todo = [] \<and> \<not> False)" "n \<noteq> 0"
          using False "2.prems"(1) todo link by (auto split: if_splits)
        from "2.hyps"(3) [OF False link refl nz n _ "2.prems"(3), of "target @ ys"] todo obtain k d where
          "res fs (link_base cur absolute) (target @ ys) k d" "q = d @ [s]" by auto
        with False link todo show ?thesis unfolding Cons by (auto simp: res_link_iff)
      qed
    qed
  qed
qed

lemma kernel_last_name:
  assumes "kernel fs False (xs @ [s]) = Found q \<or> kernel fs False (xs @ [s]) = Absent q" and "s \<noteq> ''..''"
  shows "\<exists>k d. res fs [] xs k d \<and> q = d @ [s]"
  using walk_last_name [of fs "[]" "xs @ [s]" 40 q xs s] assms by (simp add: kernel_def)

section \<open>Walking into a directory\<close>

lemma walk_into:
  assumes "walk fs True cur xs n = Found (cur @ xs)" and "node_at fs (cur @ xs) = Some Dir_node"
    and "clean fs (cur @ xs)"
  shows "walk fs follow cur (xs @ ys) n = walk fs follow (cur @ xs) ys n"
  using assms
proof (induction xs arbitrary: cur)
  case Nil
  then show ?case by simp
next
  case (Cons s xs)
  note s = clean_step [OF Cons.prems(3)]
  then have "s \<noteq> ''..''" "no_link fs (cur @ [s])" by simp_all
  moreover from this Cons.prems have "node_at fs (cur @ [s]) = Some Dir_node"
    by (auto simp: no_link_def split: option.splits fs_node.splits if_splits)
  ultimately show ?case using Cons.IH [of "cur @ [s]"] Cons.prems by simp
qed

lemma kernel_into:
  assumes "path_is_dir fs d" and "clean fs d"
  shows "kernel fs follow (d @ ys) = walk fs follow d ys 40" and "node_at fs d = Some Dir_node"
proof -
  from assms(1) obtain q where "kernel fs True d = Found q" "node_at fs q = Some Dir_node"
    by (auto simp: path_is_dir_def split: walk_result.splits)
  moreover from this assms(2) have "q = d" using kernel_clean by blast
  ultimately show "node_at fs d = Some Dir_node" "kernel fs follow (d @ ys) = walk fs follow d ys 40"
    using walk_into [of fs "[]" d 40 follow ys] assms(2) by (simp_all add: kernel_def)
qed

lemma kernel_dir: "path_is_dir fs d \<Longrightarrow> clean fs d \<Longrightarrow> kernel fs follow d = Found d"
  using kernel_into(1) [of fs d follow "[]"] by simp

text \<open>Removing nodes leaves what can still be reached.\<close>

lemma walk_fewer:
  assumes "walk fs' follow cur todo n = Found q"
    and "\<And>p. node_at fs' p \<noteq> None \<Longrightarrow> node_at fs' p = node_at fs p"
  shows "walk fs follow cur todo n = Found q"
  using assms
proof (induction fs' follow cur todo n rule: walk.induct)
  case (2 fs' follow cur s todo n)
  show ?case
  proof (cases "s = ''..''")
    case True
    with 2 show ?thesis by simp
  next
    case False
    with "2.prems"(1) obtain v where v: "node_at fs' (cur @ [s]) = Some v"
      by (auto split: option.splits if_splits)
    then have "node_at fs (cur @ [s]) = Some v" using "2.prems"(2) [of "cur @ [s]"] by simp
    with v False 2 show ?thesis by (auto split: fs_node.splits if_splits)
  qed
qed simp

section \<open>Changes under a directory\<close>

definition same_outside :: "path \<Rightarrow> filesys \<Rightarrow> filesys \<Rightarrow> bool" where
  "same_outside d fs fs' \<longleftrightarrow> (\<forall>p. \<not> prefix d p \<longrightarrow> node_at fs' p = node_at fs p)"

lemma same_outside_refl [simp]: "same_outside d fs fs"
  by (simp add: same_outside_def)

lemma same_outside_trans: "same_outside d fs fs' \<Longrightarrow> same_outside d fs' fs'' \<Longrightarrow> same_outside d fs fs''"
  by (simp add: same_outside_def)

lemma same_outside_set: "prefix d q \<Longrightarrow> q \<noteq> [] \<Longrightarrow> same_outside d fs (dict_set q v fs)"
  by (auto simp: same_outside_def)

lemma same_outside_pop: "prefix d q \<Longrightarrow> q \<noteq> [] \<Longrightarrow> same_outside d fs (dict_pop q fs)"
  by (auto simp: same_outside_def)

lemma map_of_rekey:
  "(\<And>k. k \<in> fst ` set kvs \<Longrightarrow> f k = p \<longleftrightarrow> k = p') \<Longrightarrow> map_of (map (\<lambda>(k, v). (f k, v)) kvs) p = map_of kvs p'"
proof (induction kvs)
  case (Cons kv kvs)
  from Cons.prems [of "fst kv"] have "f (fst kv) = p \<longleftrightarrow> fst kv = p'" by simp
  moreover have "map_of (map (\<lambda>(k, v). (f k, v)) kvs) p = map_of kvs p'"
    using Cons.prems by (intro Cons.IH) auto
  ultimately show ?case by (cases kv) (auto simp del: fun_upd_apply simp: fun_upd_def)
qed simp

lemma map_of_move:
  "\<not> prefix q p \<Longrightarrow> \<not> prefix r p \<Longrightarrow>
   map_of (map (\<lambda>(k, v). (if prefix q k then r @ drop (length q) k else k, v)) fs) p = map_of fs p"
  by (induction fs) auto

lemma same_outside_move:
  assumes "prefix d q" and "prefix d r" and "r \<noteq> []"
  shows "same_outside d fs (move_tree q r fs)"
proof -
  have "node_at (move_tree q r fs) p = node_at fs p" if "\<not> prefix d p" for p
  proof -
    from that assms(1,2) have "\<not> prefix q p" "\<not> prefix r p" "p \<noteq> r"
      by (auto dest: prefix_order.trans)
    then show ?thesis by (simp add: node_at_def move_tree_def map_of_move)
  qed
  then show ?thesis by (simp add: same_outside_def)
qed

lemma map_of_moved:
  "map_of (map (\<lambda>(k, v). (if prefix q k then r @ drop (length q) k else k, v)) fs) r = map_of fs q"
  if "map_of fs r = None"
  using that
proof (induction fs)
  case (Cons kv fs)
  obtain k v where "kv = (k, v)" by force
  with Cons show ?case by (auto split: if_splits simp: prefix_def)
qed simp

lemma node_at_moved:
  assumes "q \<noteq> []" and "r \<noteq> []" and "q \<noteq> r"
  shows "node_at (move_tree q r fs) r = node_at fs q"
  using assms map_of_moved [of "dict_pop r fs" r q] by (simp add: node_at_def move_tree_def)

lemma map_of_filter_key: "map_of (filter (\<lambda>(k, v). P k) fs) p = (if P p then map_of fs p else None)"
  by (induction fs) auto

lemma node_at_empty_tree [simp]: "node_at (empty_tree fs q) p = (if strict_prefix q p then None else node_at fs p)"
  using map_of_filter_key [of "\<lambda>k. \<not> strict_prefix q k" fs p] by (auto simp: node_at_def empty_tree_def)

section \<open>Trees\<close>

text \<open>In a tree everything lies in a directory. Every call keeps that.\<close>

definition tree :: "filesys \<Rightarrow> bool" where
  "tree fs \<longleftrightarrow> (\<forall>p v. p \<noteq> [] \<longrightarrow> node_at fs p = Some v \<longrightarrow> node_at fs (butlast p) = Some Dir_node)"

lemma tree_parent: "tree fs \<Longrightarrow> p \<noteq> [] \<Longrightarrow> node_at fs p \<noteq> None \<Longrightarrow> node_at fs (butlast p) = Some Dir_node"
  by (auto simp: tree_def)

lemma tree_snoc: "tree fs \<Longrightarrow> node_at fs (p @ [s]) = Some v \<Longrightarrow> node_at fs p = Some Dir_node"
  using tree_parent [of fs "p @ [s]"] by simp

lemma tree_below:
  assumes "tree fs" and "prefix p q" and "node_at fs q \<noteq> None"
  shows "p = q \<or> node_at fs p = Some Dir_node"
  using assms(2,3)
proof (induction q rule: rev_induct)
  case (snoc s q)
  then show ?case using tree_snoc [OF assms(1), of q s] by (fastforce simp: prefix_snoc)
qed simp

lemma node_at_Nil [simp]: "node_at fs [] = Some Dir_node"
  by (simp add: node_at_def)

lemma walk_in_tree:
  assumes "tree fs" and "node_at fs cur = Some Dir_node"
  shows "(walk fs follow cur todo n = Found q \<longrightarrow> node_at fs q \<noteq> None) \<and>
    (walk fs follow cur todo n = Absent q \<longrightarrow> node_at fs (butlast q) = Some Dir_node)"
  using assms
proof (induction fs follow cur todo n rule: walk.induct)
  case (2 fs follow cur s todo n)
  have up: "node_at fs (butlast cur) = Some Dir_node"
    using "2.prems" tree_parent [of fs cur] by (cases "cur = []") auto
  have base: "node_at fs (link_base cur absolute) = Some Dir_node" for absolute
    using "2.prems" by (simp add: link_base_def)
  show ?case
    using 2 up base by (auto split: option.splits fs_node.splits)
qed auto

lemma kernel_in_tree:
  assumes "tree fs"
  shows "kernel fs follow p = Found q \<Longrightarrow> node_at fs q \<noteq> None"
    and "kernel fs follow p = Absent q \<Longrightarrow> node_at fs (butlast q) = Some Dir_node"
  using walk_in_tree [OF assms, of "[]" follow p 40 q] by (auto simp: kernel_def)

text \<open>A node that is no directory has nothing below it, so it can be put, replaced or taken away.\<close>

lemma tree_set:
  assumes "tree fs" and "q \<noteq> []" and "node_at fs (butlast q) = Some Dir_node" and "node_at fs q \<noteq> Some Dir_node"
  shows "tree (dict_set q v fs)"
  using assms unfolding tree_def by (metis butlast.simps(1) node_at_set append_butlast_last_id not_Cons_self2 append_self_conv)

lemma tree_pop:
  assumes "tree fs" and "q \<noteq> []" and "\<And>p. p \<noteq> [] \<Longrightarrow> butlast p = q \<Longrightarrow> node_at fs p = None"
  shows "tree (dict_pop q fs)"
  using assms by (auto simp: tree_def split: if_splits)

lemma os_mkdir_tree: "tree fs \<Longrightarrow> os_mkdir fs p = Inr fs' \<Longrightarrow> tree fs'"
  by (auto simp: os_mkdir_def split: walk_result.splits dest: kernel_Absent kernel_in_tree intro!: tree_set)

lemma mkdir_exist_ok_tree: "tree fs \<Longrightarrow> mkdir_exist_ok fs p = (r, fs') \<Longrightarrow> tree fs'"
  by (auto simp: mkdir_exist_ok_def split: sum.splits if_splits dest: os_mkdir_tree)

lemma mkdir_parents_tree: "tree fs \<Longrightarrow> mkdir_parents fs p = (r, fs') \<Longrightarrow> tree fs'"
proof (induction fs p arbitrary: r fs' rule: mkdir_parents.induct)
  case (1 fs p)
  obtain r1 fs1 where parent: "mkdir_parents fs (butlast p) = (r1, fs1)" by force
  show ?case
    using 1 parent by (auto simp: mkdir_parents.simps [of fs p] and_then_def split: sum.splits if_splits
        dest: os_mkdir_tree mkdir_exist_ok_tree)
qed

lemma node_at_pop_Nil [simp]: "node_at (dict_pop [] fs) p = node_at fs p"
  by (simp add: node_at_def)

lemma tree_pop_file:
  assumes "tree fs" and "node_at fs q \<noteq> Some Dir_node"
  shows "tree (dict_pop q fs)"
proof -
  have "q \<noteq> []" using assms(2) by auto
  with assms show ?thesis by (intro tree_pop) (auto dest: tree_parent)
qed

lemma write_file_tree:
  assumes "tree fs" and "write_file fs p bytes now = (r, fs')"
  shows "tree fs'"
proof (cases "kernel fs True p")
  case (Found q)
  then have q: "node_at fs q \<noteq> None" using assms(1) by (simp add: kernel_in_tree)
  show ?thesis
  proof (cases "node_at fs q = Some Dir_node")
    case False
    then have "q \<noteq> []" by auto
    with False q Found assms tree_parent [of fs q] show ?thesis
      by (auto simp: write_file_def intro!: tree_set)
  qed (use Found assms in \<open>auto simp: write_file_def\<close>)
next
  case (Absent q)
  with assms kernel_Absent [OF Absent] kernel_in_tree(2) [OF assms(1) Absent] show ?thesis
    by (auto simp: write_file_def intro!: tree_set)
qed (use assms in \<open>auto simp: write_file_def\<close>)

lemma path_unlink_tree: "tree fs \<Longrightarrow> path_unlink fs p = (r, fs') \<Longrightarrow> tree fs'"
  by (auto simp: path_unlink_def tree_pop_file split: walk_result.splits if_splits)

lemma children_Nil: "children fs q = [] \<Longrightarrow> p \<noteq> [] \<Longrightarrow> butlast p = q \<Longrightarrow> node_at fs p = None"
  by (auto simp: children_def filter_empty_conv node_at_def intro!: map_of_eq_None_iff [THEN iffD2])

lemma tree_pop_empty: "tree fs \<Longrightarrow> children fs q = [] \<Longrightarrow> tree (dict_pop q fs)"
  using children_Nil [of fs q] by (cases "q = []") (auto simp: tree_def split: if_splits)

lemma os_rmdir_tree: "tree fs \<Longrightarrow> os_rmdir fs p = (r, fs') \<Longrightarrow> tree fs'"
  by (auto simp: os_rmdir_def tree_pop_empty split: walk_result.splits if_splits)

lemma strict_prefix_butlast: "strict_prefix q (butlast p) \<Longrightarrow> strict_prefix q p"
  using prefixeq_butlast prefix_order.less_le_trans by blast

lemma empty_tree_tree: "tree fs \<Longrightarrow> tree (empty_tree fs q)"
  by (auto simp: tree_def dest: strict_prefix_butlast)

lemma rmtree_tree:
  assumes "tree fs" and "rmtree fs p = (r, fs')"
  shows "tree fs'"
proof -
  have "tree fs'" if "os_rmdir (empty_tree fs q) p = (r, fs')" for q
    using empty_tree_tree [OF assms(1)] that by (rule os_rmdir_tree)
  with assms show ?thesis
    by (auto simp: rmtree_def split: walk_result.splits option.splits fs_node.splits)
qed

text \<open>Moving a node with everything below it to a place where nothing is below.\<close>

lemma map_of_move_below:
  assumes "prefix r p" and "\<forall>k \<in> fst ` set fs. \<not> prefix r k"
  shows "map_of (map (\<lambda>(k, v). (if prefix q k then r @ drop (length q) k else k, v)) fs) p = map_of fs (q @ drop (length r) p)"
proof (rule map_of_rekey)
  fix k
  assume "k \<in> fst ` set fs"
  with assms show "(if prefix q k then r @ drop (length q) k else k) = p \<longleftrightarrow> k = q @ drop (length r) p"
    by (auto simp: prefix_def)
qed

lemma map_of_move_away:
  "prefix q p \<Longrightarrow> \<not> prefix r p \<Longrightarrow>
   map_of (map (\<lambda>(k, v). (if prefix q k then r @ drop (length q) k else k, v)) fs) p = None"
proof (induction fs)
  case (Cons kv fs)
  obtain k v where "kv = (k, v)" by force
  moreover have "(if prefix q k then r @ drop (length q) k else k) \<noteq> p" using Cons.prems by auto
  ultimately show ?case using Cons by (simp del: if_split)
qed simp

definition movable :: "filesys \<Rightarrow> path \<Rightarrow> path \<Rightarrow> bool" where
  "movable fs q r \<longleftrightarrow> q \<noteq> [] \<and> r \<noteq> [] \<and> \<not> prefix q r \<and> \<not> prefix r q \<and> (\<forall>p. strict_prefix r p \<longrightarrow> node_at fs p = None)"

lemma node_at_move:
  assumes "movable fs q r"
  shows "node_at (move_tree q r fs) p =
    (if prefix r p then node_at fs (q @ drop (length r) p) else if prefix q p then None else node_at fs p)"
proof (cases "prefix r p")
  case True
  have "\<not> prefix r k" if "k \<in> fst ` set (dict_pop r fs)" for k
  proof
    assume "prefix r k"
    from that obtain v where "map_of (dict_pop r fs) k = Some v"
      by (metis imageE map_of_eq_None_iff not_None_eq)
    with \<open>prefix r k\<close> assms have "strict_prefix r k" "node_at fs k = Some v"
      by (auto simp: node_at_def strict_prefix_def movable_def split: if_splits)
    with assms show False by (auto simp: movable_def)
  qed
  with True have "map_of (map (\<lambda>(k, v). (if prefix q k then r @ drop (length q) k else k, v)) (dict_pop r fs)) p =
      map_of (dict_pop r fs) (q @ drop (length r) p)"
    by (intro map_of_move_below) auto
  moreover have "q @ drop (length r) p \<noteq> r" "p \<noteq> []" using assms True by (auto simp: movable_def prefix_def)
  ultimately show ?thesis using True assms by (simp add: node_at_def move_tree_def movable_def)
next
  case False
  with assms show ?thesis
    by (auto simp: node_at_def move_tree_def map_of_move map_of_move_away movable_def)
qed

lemma move_tree_tree:
  assumes "tree fs" and "movable fs q r" and "node_at fs (butlast r) = Some Dir_node"
  shows "tree (move_tree q r fs)"
proof -
  have "node_at (move_tree q r fs) (butlast p) = Some Dir_node"
    if p: "p \<noteq> []" "node_at (move_tree q r fs) p = Some v" for p v
  proof (cases "prefix r p")
    case True
    then obtain xs where xs: "p = r @ xs" by (auto simp: prefix_def)
    with p node_at_move [OF assms(2), of p] have v: "node_at fs (q @ xs) = Some v" by simp
    show ?thesis
    proof (cases "xs = []")
      case True
      have "\<not> prefix r (butlast r)"
        using assms(2) by (cases r rule: rev_cases) (auto simp: movable_def dest: prefix_length_le)
      moreover have "\<not> prefix q (butlast r)"
        using assms(2) by (auto simp: movable_def dest: prefix_order.trans [OF _ prefixeq_butlast])
      moreover note assms
      ultimately show ?thesis using True xs by (simp add: node_at_move)
    next
      case False
      with v assms(1) have "node_at fs (q @ butlast xs) = Some Dir_node"
        using tree_parent [of fs "q @ xs"] by (simp add: butlast_append)
      with False xs show ?thesis by (simp add: node_at_move [OF assms(2)] butlast_append)
    qed
  next
    case False
    with p node_at_move [OF assms(2), of p] have v: "\<not> prefix q p" "node_at fs p = Some v" by (auto split: if_splits)
    then have "node_at fs (butlast p) = Some Dir_node" using assms(1) p(1) by (auto simp: tree_def)
    moreover have "\<not> prefix r (butlast p)" "\<not> prefix q (butlast p)"
      using False v(1) by (auto dest: prefix_order.trans [OF _ prefixeq_butlast])
    ultimately show ?thesis by (simp add: node_at_move [OF assms(2)])
  qed
  then show ?thesis by (auto simp: tree_def)
qed

lemma not_below:
  assumes "tree fs" and "node_at fs r \<noteq> Some Dir_node \<or> children fs r = []" and "strict_prefix r p"
  shows "node_at fs p = None"
proof (rule ccontr)
  assume *: "node_at fs p \<noteq> None"
  from assms(3) obtain s zs where p: "p = (r @ [s]) @ zs" by (auto elim: strict_prefixE')
  with tree_below [OF assms(1) _ *, of "r @ [s]"] * have "node_at fs (r @ [s]) \<noteq> None" by auto
  with assms(1,2) tree_snoc children_Nil [of fs r "r @ [s]"] show False by fastforce
qed

lemma os_rename_tree:
  assumes "tree fs" and "os_rename fs src dst = (result, fs')"
  shows "tree fs'"
proof (cases "fs' = fs")
  case False
  then obtain q r where q: "kernel fs False src = Found q"
    and r: "kernel fs False dst = Found r \<and> r \<noteq> q \<and> (node_at fs r = Some Dir_node \<longrightarrow> children fs r = []) \<or>
      kernel fs False dst = Absent r"
    and apart: "\<not> prefix q r" and fs': "fs' = move_tree q r fs"
    using assms(2) by (auto simp: os_rename_def split: walk_result.splits if_splits)
  have here: "node_at fs q \<noteq> None" using kernel_in_tree(1) [OF assms(1) q] .
  have below: "node_at fs p = None" if "strict_prefix r p" for p
    using r not_below [OF assms(1) _ that] by (auto dest: kernel_Absent)
  have "\<not> prefix r q" using here below r kernel_Absent by (metis strict_prefix_def)
  moreover have "q \<noteq> []" using apart by auto
  moreover have "r \<noteq> []" using r below here calculation by (auto dest: kernel_Absent)
  ultimately have "movable fs q r" using apart below by (simp add: movable_def)
  moreover have "node_at fs (butlast r) = Some Dir_node"
    using r kernel_in_tree [OF assms(1)] tree_parent [OF assms(1) \<open>r \<noteq> []\<close>] by blast
  ultimately show ?thesis unfolding fs' by (intro move_tree_tree assms(1))
qed (use assms in simp)

text \<open>What is reached stays reached while directories, links and the end of the way stay.\<close>

lemma walk_keeps:
  assumes "walk fs follow cur todo n = Found q"
    and "\<And>p v. node_at fs p = Some v \<Longrightarrow> (\<forall>b t. v \<noteq> File_node b t) \<Longrightarrow> node_at fs' p = Some v"
    and "\<And>b t. node_at fs q = Some (File_node b t) \<Longrightarrow> \<exists>b t. node_at fs' q = Some (File_node b t)"
  shows "walk fs' follow cur todo n = Found q"
  using assms
proof (induction fs follow cur todo n rule: walk.induct)
  case (2 fs follow cur s todo n)
  show ?case
  proof (cases "s = ''..''")
    case True
    with 2 show ?thesis by simp
  next
    case False
    with "2.prems"(1) obtain v where v: "node_at fs (cur @ [s]) = Some v" by (auto split: option.splits if_splits)
    show ?thesis
    proof (cases v)
      case (File_node b t)
      with v False "2.prems"(1) have "todo = []" "q = cur @ [s]" by (auto split: if_splits)
      with "2.prems"(3) v File_node False show ?thesis by auto
    next
      case Dir_node
      with v False "2.prems" have "node_at fs' (cur @ [s]) = Some Dir_node" by simp
      with v False Dir_node 2 show ?thesis by simp
    next
      case (Link_node absolute target)
      with v False "2.prems"(2) have "node_at fs' (cur @ [s]) = Some (Link_node absolute target)" by simp
      with v False Link_node 2 show ?thesis by (auto split: if_splits)
    qed
  qed
qed simp

lemma walk_clean_no_loop: "clean fs (cur @ todo) \<Longrightarrow> walk fs follow cur todo n \<noteq> Failed ELOOP"
proof (induction fs follow cur todo n rule: walk.induct)
  case (2 fs follow cur s todo n)
  from clean_step [OF "2.prems"] 2 show ?case
    by (auto simp: no_link_def split: option.splits fs_node.splits)
qed simp

lemma resolve_reached:
  assumes "kernel fs True p = Found q" and "\<not> has_null p"
  shows "path_resolve fs p = Inr q"
proof -
  from assms(1) obtain k where "res fs [] p k q"
    using walk_res [of fs "[]" p 40 q] by (auto simp: kernel_def)
  moreover have "clean fs q" using assms(1) kernel_reaches_clean by blast
  then have "kernel fs True q \<noteq> Failed ELOOP" using walk_clean_no_loop [of fs "[]" q] by (simp add: kernel_def)
  ultimately show ?thesis using assms(2) by (simp add: path_resolve_def realpath_res)
qed

lemma resolve_no_null: "path_resolve fs p = Inr q \<Longrightarrow> \<not> has_null p"
  by (auto simp: path_resolve_def)

section \<open>Calls on files and directories that exist\<close>

lemma validated_later:
  assumes "path_resolve fs p = Inr q'" and "validate_path fs q' [base] = Inr True" and "clean fs base"
    and "dirs_added fs fs'" and "kernel fs' True p = Found q \<or> kernel fs' True p = Absent q"
  shows "prefix base q \<and> clean fs q"
proof -
  have "q = q'" using assms(1) dirs_added_same_links [OF assms(4)] assms(5) by (rule kernel_follows_earlier_resolve)
  moreover have "clean fs q"
    using assms(4,5) kernel_reaches_clean same_links_clean dirs_added_same_links by metis
  ultimately show ?thesis
    using assms(2,3) by (auto simp: validate_path_def relative_to_def dest: clean_resolve split: sum.splits if_splits)
qed

lemma path_exists_Found: "path_exists fs p \<longleftrightarrow> (\<exists>q. kernel fs True p = Found q)"
  by (auto simp: path_exists_def split: walk_result.splits)

lemma read_file_Inr:
  "read_file fs p = Inr bytes \<longleftrightarrow> (\<exists>q mtime. kernel fs True p = Found q \<and> node_at fs q = Some (File_node bytes mtime))"
  by (auto simp: read_file_def split: walk_result.splits option.splits fs_node.splits)

lemma dirs_added_file: "dirs_added fs fs' \<Longrightarrow> node_at fs' q = Some (File_node b t) \<longleftrightarrow> node_at fs q = Some (File_node b t)"
  unfolding dirs_added_def by (metis fs_node.distinct(1) option.distinct(1) option.inject)

lemma write_file_Inr:
  assumes "write_file fs p bytes now = (Inr u, fs')"
  shows "\<exists>q. (kernel fs True p = Found q \<and> node_at fs q \<noteq> Some Dir_node \<or> kernel fs True p = Absent q) \<and> q \<noteq> [] \<and>
    fs' = dict_set q (File_node bytes now) fs"
  using assms kernel_Absent [of fs True p]
  by (auto simp: write_file_def node_at_def split: walk_result.splits if_splits)

lemma write_file_Inl: "write_file fs p bytes now = (Inl e, fs') \<Longrightarrow> fs' = fs"
  by (auto simp: write_file_def split: walk_result.splits if_splits)

lemma walk_clean_exists:
  assumes "tree fs"
  shows "clean fs (cur @ todo) \<Longrightarrow> node_at fs (cur @ todo) \<noteq> None \<Longrightarrow> walk fs follow cur todo n = Found (cur @ todo)"
proof (induction todo arbitrary: cur)
  case (Cons s todo)
  note s = clean_step [OF Cons.prems(1)]
  have below: "cur @ [s] = cur @ s # todo \<or> node_at fs (cur @ [s]) = Some Dir_node"
    using assms by (rule tree_below) (use Cons.prems in auto)
  have IH: "walk fs follow (cur @ [s]) todo n = Found (cur @ s # todo)"
    using Cons.IH [of "cur @ [s]"] Cons.prems by simp
  show ?case
  proof (cases "todo = []")
    case True
    with s Cons.prems show ?thesis by (auto simp: no_link_def split: fs_node.splits)
  next
    case False
    with below s IH show ?thesis by simp
  qed
qed simp

lemma kernel_clean_exists:
  "tree fs \<Longrightarrow> clean fs q \<Longrightarrow> node_at fs q \<noteq> None \<Longrightarrow> kernel fs follow q = Found q"
  using walk_clean_exists [of fs "[]" q] by (simp add: kernel_def)

lemma clean_is_dir: "tree fs \<Longrightarrow> clean fs q \<Longrightarrow> path_is_dir fs q \<longleftrightarrow> node_at fs q = Some Dir_node"
proof
  assume *: "tree fs" "clean fs q" "node_at fs q = Some Dir_node"
  then show "path_is_dir fs q" by (simp add: path_is_dir_def kernel_clean_exists)
qed (use kernel_into(2) in blast)

lemma has_null_append [simp]: "has_null (p @ q) \<longleftrightarrow> has_null p \<or> has_null q"
  by (auto simp: has_null_def)

lemma resolve_existing: "tree fs \<Longrightarrow> clean fs p \<Longrightarrow> node_at fs p \<noteq> None \<Longrightarrow> \<not> has_null p \<Longrightarrow> path_resolve fs p = Inr p"
  using kernel_clean_exists resolve_reached by blast

lemma validate_existing:
  assumes "tree fs" and "clean fs p" and "node_at fs p \<noteq> None" and "\<not> has_null p" and "prefix base p"
  shows "validate_path fs p [base] = Inr True"
proof -
  have "clean fs base" using assms(2,5) by (rule clean_prefix)
  moreover have "node_at fs base \<noteq> None" using tree_below [OF assms(1,5,3)] assms(3) by auto
  moreover have "\<not> has_null base" using assms(4,5) by (auto simp: prefix_def)
  ultimately show ?thesis using assms by (simp add: validate_path_def resolve_existing relative_to_def)
qed

lemma tree_check: "list_all (\<lambda>(k, v). node_at fs (butlast k) = Some Dir_node) fs \<Longrightarrow> tree fs"
  by (auto simp: tree_def node_at_def list_all_iff split: if_splits dest!: map_of_SomeD)

lemma utf8_roundtrip: "utf8_decode (utf8_bytes s) = Some s"
proof (induction s)
  case (Cons c s)
  have c: "of_char c < (256 :: nat)" by (rule nat_of_char_less_256)
  show ?case
  proof (cases "of_char c < (128 :: nat)")
    case True
    with Cons show ?thesis by (simp add: utf8_bytes_def)
  next
    case False
    let ?n = "of_char c :: nat"
    have split: "?n = ?n div 64 * 64 + ?n mod 64" by simp
    from False c consider "?n div 64 = 2" | "?n div 64 = 3" by linarith
    then show ?thesis
    proof cases
      case 1
      with split have "char_of (128 + ?n mod 64) = c" by simp
      with 1 Cons False show ?thesis by (simp add: utf8_bytes_def Let_def)
    next
      case 2
      with split have "char_of (192 + ?n mod 64) = c" by simp
      with 2 Cons False show ?thesis by (simp add: utf8_bytes_def Let_def)
    qed
  qed
qed (simp add: utf8_bytes_def)

lemma walk_written:
  assumes "walk fs True cur todo n = Found q \<or> walk fs True cur todo n = Absent q"
    and "q \<noteq> []" and "node_at fs q \<noteq> Some Dir_node" and "no_link fs q"
  shows "walk (dict_set q (File_node bytes now) fs) True cur todo n = Found q"
  using assms
proof (induction fs True cur todo n rule: walk.induct)
  case (2 fs cur s todo n)
  let ?fs = "dict_set q (File_node bytes now) fs"
  show ?case
  proof (cases "s = ''..''")
    case True
    with 2 show ?thesis by simp
  next
    case False
    show ?thesis
    proof (cases "node_at fs (cur @ [s])")
      case None
      with False 2 show ?thesis by (auto split: if_splits)
    next
      case (Some v)
      show ?thesis
      proof (cases v)
        case (File_node b t)
        with Some False 2 show ?thesis by (auto split: if_splits)
      next
        case Dir_node
        with Some "2.prems"(3) have "cur @ [s] \<noteq> q" by auto
        with Some False Dir_node 2 show ?thesis by auto
      next
        case (Link_node absolute target)
        with Some "2.prems"(4) have "cur @ [s] \<noteq> q" by (auto simp: no_link_def)
        with Some False Link_node 2 show ?thesis by (auto split: if_splits)
      qed
    qed
  qed
qed auto

lemma write_file_read:
  assumes "write_file fs p bytes now = (Inr u, fs')"
  shows "\<exists>q. kernel fs' True p = Found q \<and> node_at fs' q = Some (File_node bytes now)"
proof -
  from write_file_Inr [OF assms] obtain q where
    q: "kernel fs True p = Found q \<and> node_at fs q \<noteq> Some Dir_node \<or> kernel fs True p = Absent q"
    and "q \<noteq> []" and fs': "fs' = dict_set q (File_node bytes now) fs" by blast
  moreover from q have "no_link fs q" "node_at fs q \<noteq> Some Dir_node"
    using kernel_reaches_clean [of fs p q] kernel_Absent [of fs True p q] by (auto simp: clean_def)
  ultimately have "kernel fs' True p = Found q" unfolding kernel_def by (blast intro: walk_written)
  with \<open>q \<noteq> []\<close> fs' show ?thesis by auto
qed

lemma children_empty_tree: "children (empty_tree fs q) q = []"
proof -
  have "strict_prefix (butlast k) k" if "k \<noteq> []" for k :: path
    using append_butlast_last_id [OF that] by (metis not_Cons_self2 append_self_conv prefixI strict_prefix_def)
  then show ?thesis by (auto simp: children_def empty_tree_def filter_empty_conv)
qed

end
