(* ===== verification/WorkspaceFiles.thy ===== *)
theory WorkspaceFiles
  imports PathSafety WorkspaceRoutes
begin

text \<open>
  The files of a workspace: \<open>services/workspace_files.py\<close> and its handlers in \<open>app/routes/files.py\<close>.
  The service checks a path with \<open>validate_path\<close> after resolving its links and then uses the path as it
  was given. The table of \<open>mimetypes\<close> is the argument \<open>guess_type\<close>; what \<open>stat\<close> reports of a directory is
  \<open>dir_stat\<close>. An exception's text is kept as a value: a message of the code, or an error number with its path.
\<close>

section \<open>The service\<close>

record workspace_file_entry =
  entry_name :: string
  entry_path :: string
  entry_type :: string
  entry_size :: nat
  modified_at :: instant

record workspace_file_listing =
  current_path :: string
  listing_entries :: "workspace_file_entry list"

record workspace_text_file =
  text_path :: string
  text_content :: string
  text_size :: nat

record workspace_resolved_file =
  resolved_path :: string
  absolute_path :: path
  media_type :: string

record workspace_file_service =
  groups_root :: path
  max_upload_size_bytes :: nat
  max_text_file_size_bytes :: nat

definition text_file_extensions :: "string list" where
  "text_file_extensions =
     [''.txt'', ''.md'', ''.py'', ''.json'', ''.toml'', ''.yaml'', ''.yml'', ''.js'', ''.ts'', ''.tsx'', ''.jsx'',
      ''.css'', ''.html'', ''.sh'']"

definition safe_inline_mime_types :: "string list" where
  "safe_inline_mime_types =
     [''application/pdf'', ''image/gif'', ''image/jpeg'', ''image/png'', ''image/webp'', ''text/plain'']"

text \<open>\<open>__init__\<close> with the data root as an absolute path, and the limits of the module.\<close>

definition workspace_file_service_init :: "filesys \<Rightarrow> path \<Rightarrow> workspace_file_service fs_result" where
  "workspace_file_service_init fs data_root =
     (case path_resolve fs data_root of
        Inl e \<Rightarrow> (Inl e, fs)
      | Inr data_dir \<Rightarrow>
          (case path_resolve fs (data_dir @ [''groups'']) of
             Inl e \<Rightarrow> (Inl e, fs)
           | Inr groups_dir \<Rightarrow>
               and_then (mkdir_parents fs groups_dir) (\<lambda>_ fs1.
                 (Inr \<lparr>groups_root = groups_dir, max_upload_size_bytes = 50 * 1024 * 1024,
                       max_text_file_size_bytes = 1024 * 1024\<rparr>, fs1))))"

definition value_error :: "string \<Rightarrow> file_exn" where
  "value_error message = Exn Value_exn (Message message)"

definition normalize_current_path :: "string \<Rightarrow> string" where
  "normalize_current_path relative_path =
     (let normalized = strip_slashes (py_strip relative_path) in
      if normalized = [] \<or> normalized = ''.'' then [] else as_posix (path_parts normalized))"

definition workspace_root :: "workspace_file_service \<Rightarrow> filesys \<Rightarrow> string \<Rightarrow> path fs_result" where
  "workspace_root svc fs group_folder =
     (case path_resolve fs (path_join (groups_root svc) group_folder) of
        Inl e \<Rightarrow> (Inl e, fs)
      | Inr candidate \<Rightarrow>
          (case validate_path fs candidate [groups_root svc] of
             Inl e \<Rightarrow> (Inl e, fs)
           | Inr valid \<Rightarrow>
               if \<not> valid then (Inl (value_error ''invalid workspace root''), fs)
               else and_then (mkdir_parents fs candidate) (\<lambda>_ fs1. (Inr candidate, fs1))))"

definition resolve_candidate :: "filesys \<Rightarrow> path \<Rightarrow> string \<Rightarrow> file_exn + path" where
  "resolve_candidate fs ws relative_path =
     (let candidate = path_join ws (normalize_current_path relative_path) in
      case path_resolve fs candidate of
        Inl e \<Rightarrow> Inl e
      | Inr resolved_candidate \<Rightarrow>
          (case validate_path fs resolved_candidate [ws] of
             Inl e \<Rightarrow> Inl e
           | Inr valid \<Rightarrow>
               if valid then Inr candidate
               else if ''..'' \<in> set (path_parts relative_path) then Inl (value_error ''path traversal detected'')
               else Inl (value_error ''symlink traversal detected'')))"

definition ensure_text_file :: "path \<Rightarrow> file_exn option" where
  "ensure_text_file target =
     (if py_lower (path_suffix target) \<notin> set text_file_extensions
      then Some (value_error ''file type not supported for text content'') else None)"

definition resolve_existing_file :: "workspace_file_service \<Rightarrow> filesys \<Rightarrow> string \<Rightarrow> string \<Rightarrow> path fs_result" where
  "resolve_existing_file svc fs group_folder file_path =
     and_then (workspace_root svc fs group_folder) (\<lambda>ws fs1.
       (case resolve_candidate fs1 ws file_path of
          Inl e \<Rightarrow> (Inl e, fs1)
        | Inr target \<Rightarrow>
            if \<not> path_exists fs1 target then (Inl (Exn Not_found_exn (Message ''file not found'')), fs1)
            else if path_is_dir fs1 target then (Inl (Exn Is_directory_exn (Message ''path is a directory'')), fs1)
            else (Inr target, fs1)))"

text \<open>\<open>p.relative_to(base).as_posix()\<close>.\<close>

definition relative_posix :: "path \<Rightarrow> path \<Rightarrow> file_exn + string" where
  "relative_posix p base =
     (case relative_to p base of
        None \<Rightarrow> Inl (value_error ''path is not in the subpath'')
      | Some r \<Rightarrow> Inr (as_posix r))"

section \<open>Listing and reading\<close>

definition workspace_entry ::
  "(path \<Rightarrow> nat \<times> instant) \<Rightarrow> filesys \<Rightarrow> path \<Rightarrow> path \<Rightarrow> file_exn + workspace_file_entry" where
  "workspace_entry dir_stat fs ws child =
     (case path_stat dir_stat fs child of
        Inl e \<Rightarrow> Inl e
      | Inr (sz, mtime) \<Rightarrow>
          (case relative_posix child ws of
             Inl e \<Rightarrow> Inl e
           | Inr rel \<Rightarrow>
               Inr \<lparr>entry_name = path_name child, entry_path = rel,
                    entry_type = (if path_is_dir fs child then ''directory'' else ''file''),
                    entry_size = sz, modified_at = mtime\<rparr>))"

fun traverse :: "('a \<Rightarrow> 'e + 'b) \<Rightarrow> 'a list \<Rightarrow> 'e + 'b list" where
  "traverse f [] = Inr []"
| "traverse f (x # xs) =
     (case f x of
        Inl e \<Rightarrow> Inl e
      | Inr y \<Rightarrow> (case traverse f xs of Inl e \<Rightarrow> Inl e | Inr ys \<Rightarrow> Inr (y # ys)))"

definition list_entries ::
  "(path \<Rightarrow> nat \<times> instant) \<Rightarrow> workspace_file_service \<Rightarrow> filesys \<Rightarrow> string \<Rightarrow> string \<Rightarrow>
   workspace_file_listing fs_result" where
  "list_entries dir_stat svc fs group_folder cur =
     and_then (workspace_root svc fs group_folder) (\<lambda>ws fs1.
       (case resolve_candidate fs1 ws cur of
          Inl e \<Rightarrow> (Inl e, fs1)
        | Inr target \<Rightarrow>
            if \<not> path_exists fs1 target then (Inl (Exn Not_found_exn (Message ''path not found'')), fs1)
            else if \<not> path_is_dir fs1 target
              then (Inl (Exn Not_directory_exn (Message ''path is not a directory'')), fs1)
            else
              (case iterdir fs1 target of
                 Inl e \<Rightarrow> (Inl e, fs1)
               | Inr kids \<Rightarrow>
                   (case traverse (workspace_entry dir_stat fs1 ws)
                       (sort_key (\<lambda>c. (\<not> path_is_dir fs1 c, py_lower (path_name c))) kids) of
                      Inl e \<Rightarrow> (Inl e, fs1)
                    | Inr entries \<Rightarrow>
                        (Inr \<lparr>current_path = normalize_current_path cur, listing_entries = entries\<rparr>, fs1)))))"

definition resolved_file ::
  "workspace_file_service \<Rightarrow> filesys \<Rightarrow> string \<Rightarrow> path \<Rightarrow> string \<Rightarrow> workspace_resolved_file fs_result" where
  "resolved_file svc fs group_folder target media =
     and_then (workspace_root svc fs group_folder) (\<lambda>ws fs1.
       (case relative_posix target ws of
          Inl e \<Rightarrow> (Inl e, fs1)
        | Inr rel \<Rightarrow> (Inr \<lparr>resolved_path = rel, absolute_path = target, media_type = media\<rparr>, fs1)))"

definition resolve_download_file ::
  "workspace_file_service \<Rightarrow> filesys \<Rightarrow> string \<Rightarrow> string \<Rightarrow> workspace_resolved_file fs_result" where
  "resolve_download_file svc fs group_folder file_path =
     and_then (resolve_existing_file svc fs group_folder file_path) (\<lambda>target fs1.
       resolved_file svc fs1 group_folder target ''application/octet-stream'')"

definition resolve_preview_file ::
  "(string \<Rightarrow> string option) \<Rightarrow> workspace_file_service \<Rightarrow> filesys \<Rightarrow> string \<Rightarrow> string \<Rightarrow>
   workspace_resolved_file fs_result" where
  "resolve_preview_file guess_type svc fs group_folder file_path =
     and_then (resolve_existing_file svc fs group_folder file_path) (\<lambda>target fs1.
       let media = (case guess_type (path_name target) of
                      None \<Rightarrow> ''application/octet-stream''
                    | Some t \<Rightarrow> if t = [] then ''application/octet-stream'' else t)
       in if media \<notin> set safe_inline_mime_types
          then (Inl (value_error ''file type not supported for preview''), fs1)
          else resolved_file svc fs1 group_folder target media)"

definition read_text_content ::
  "(path \<Rightarrow> nat \<times> instant) \<Rightarrow> workspace_file_service \<Rightarrow> filesys \<Rightarrow> string \<Rightarrow> string \<Rightarrow>
   workspace_text_file fs_result" where
  "read_text_content dir_stat svc fs group_folder file_path =
     and_then (resolve_existing_file svc fs group_folder file_path) (\<lambda>target fs1.
       (case ensure_text_file target of
          Some e \<Rightarrow> (Inl e, fs1)
        | None \<Rightarrow>
            (case path_stat dir_stat fs1 target of
               Inl e \<Rightarrow> (Inl e, fs1)
             | Inr (sz, mtime) \<Rightarrow>
                 if sz > max_text_file_size_bytes svc
                 then (Inl (value_error ''text file exceeds size limit''), fs1)
                 else and_then (workspace_root svc fs1 group_folder) (\<lambda>ws fs2.
                   (case relative_posix target ws of
                      Inl e \<Rightarrow> (Inl e, fs2)
                    | Inr rel \<Rightarrow>
                        (case read_text fs2 target of
                           Inl e \<Rightarrow> (Inl e, fs2)
                         | Inr content \<Rightarrow>
                             (Inr \<lparr>text_path = rel, text_content = content, text_size = sz\<rparr>, fs2)))))))"

section \<open>Writing and deleting\<close>

definition save_upload ::
  "(path \<Rightarrow> nat \<times> instant) \<Rightarrow> workspace_file_service \<Rightarrow> filesys \<Rightarrow> string \<Rightarrow> string \<Rightarrow> string \<Rightarrow> string \<Rightarrow>
   instant \<Rightarrow> workspace_file_entry fs_result" where
  "save_upload dir_stat svc fs group_folder cur file_name content now =
     (if length content > max_upload_size_bytes svc then (Inl (value_error ''file exceeds upload size limit''), fs)
      else if file_name \<in> {[], ''.'', ''..''} \<or> path_name (path_parts file_name) \<noteq> file_name
        then (Inl (value_error ''invalid file name''), fs)
      else
        and_then (workspace_root svc fs group_folder) (\<lambda>ws fs1.
          (case resolve_candidate fs1 ws cur of
             Inl e \<Rightarrow> (Inl e, fs1)
           | Inr target_dir \<Rightarrow>
               and_then (mkdir_parents fs1 target_dir) (\<lambda>_ fs2.
                 if \<not> path_is_dir fs2 target_dir
                 then (Inl (Exn Not_directory_exn (Message ''upload target is not a directory'')), fs2)
                 else
                   (case resolve_candidate fs2 ws (strip_slashes (normalize_current_path cur @ ''/'' @ file_name)) of
                      Inl e \<Rightarrow> (Inl e, fs2)
                    | Inr target_file \<Rightarrow>
                        and_then (mkdir_parents fs2 (butlast target_file)) (\<lambda>_ fs3.
                          and_then (write_file fs3 target_file content now) (\<lambda>_ fs4.
                            (case path_stat dir_stat fs4 target_file of
                               Inl e \<Rightarrow> (Inl e, fs4)
                             | Inr (sz, mtime) \<Rightarrow>
                                 (case relative_posix target_file ws of
                                    Inl e \<Rightarrow> (Inl e, fs4)
                                  | Inr rel \<Rightarrow>
                                      (Inr \<lparr>entry_name = path_name target_file, entry_path = rel,
                                            entry_type = ''file'', entry_size = sz, modified_at = mtime\<rparr>, fs4))))))))))"

text \<open>\<open>target.with_suffix(target.suffix + ".tmp")\<close>; a text file has a suffix, so a name.\<close>

definition with_suffix :: "path \<Rightarrow> string \<Rightarrow> path" where
  "with_suffix p ext =
     butlast p @ [take (length (path_name p) - length (path_suffix p)) (path_name p) @ ext]"

definition temp_path :: "path \<Rightarrow> path" where
  "temp_path target = with_suffix target (path_suffix target @ ''.tmp'')"

definition write_text_content ::
  "workspace_file_service \<Rightarrow> filesys \<Rightarrow> string \<Rightarrow> string \<Rightarrow> string \<Rightarrow> instant \<Rightarrow> workspace_text_file fs_result" where
  "write_text_content svc fs group_folder file_path content now =
     and_then (resolve_existing_file svc fs group_folder file_path) (\<lambda>target fs1.
       (case ensure_text_file target of
          Some e \<Rightarrow> (Inl e, fs1)
        | None \<Rightarrow>
            let encoded = utf8_bytes content in
            if length encoded > max_text_file_size_bytes svc
            then (Inl (value_error ''text content exceeds size limit''), fs1)
            else and_then (write_file fs1 (temp_path target) encoded now) (\<lambda>_ fs2.
              and_then (os_rename fs2 (temp_path target) target) (\<lambda>_ fs3.
                and_then (workspace_root svc fs3 group_folder) (\<lambda>ws fs4.
                  (case relative_posix target ws of
                     Inl e \<Rightarrow> (Inl e, fs4)
                   | Inr rel \<Rightarrow>
                       (Inr \<lparr>text_path = rel, text_content = content, text_size = length encoded\<rparr>, fs4)))))))"

definition delete_path :: "workspace_file_service \<Rightarrow> filesys \<Rightarrow> string \<Rightarrow> string \<Rightarrow> unit fs_result" where
  "delete_path svc fs group_folder file_path =
     and_then (workspace_root svc fs group_folder) (\<lambda>ws fs1.
       let normalized = normalize_current_path file_path in
       if normalized = [] then (Inl (value_error ''cannot delete workspace root''), fs1)
       else
         (case resolve_candidate fs1 ws normalized of
            Inl e \<Rightarrow> (Inl e, fs1)
          | Inr target \<Rightarrow>
              if \<not> path_exists fs1 target then (Inl (Exn Not_found_exn (Message ''path not found'')), fs1)
              else if path_is_dir fs1 target then rmtree fs1 target
              else path_unlink fs1 target))"

section \<open>The handlers\<close>

datatype file_failure = File_failure int exn_text

type_synonym 'a file_response = "(file_failure + 'a) \<times> workspace_db \<times> filesys"

fun map_workspace_file_error :: "file_exn \<Rightarrow> file_failure" where
  "map_workspace_file_error (Exn Not_found_exn detail) = File_failure 404 detail"
| "map_workspace_file_error (Exn Not_directory_exn detail) = File_failure 400 detail"
| "map_workspace_file_error (Exn Is_directory_exn detail) = File_failure 400 detail"
| "map_workspace_file_error (Exn Value_exn detail) = File_failure 400 detail"
| "map_workspace_file_error (Exn _ detail) = File_failure 500 (Message ''file operation failed'')"

fun http_failure :: "http_error \<Rightarrow> file_failure" where
  "http_failure (Http_error code detail) = File_failure code (Message detail)"

definition in_file_workspace ::
  "workspace_db \<Rightarrow> filesys \<Rightarrow> http_error + auth_user \<Rightarrow> string \<Rightarrow> instant \<Rightarrow>
   (string \<Rightarrow> filesys \<Rightarrow> 'a fs_result) \<Rightarrow> 'a file_response" where
  "in_file_workspace db fs current group_id now handler =
     (case current of
        Inl e \<Rightarrow> (Inl (http_failure e), db, fs)
      | Inr u \<Rightarrow>
          (case require_accessible_workspace db group_id u now of
             (Inl e, db1) \<Rightarrow> (Inl (http_failure e), db1, fs)
           | (Inr workspace, db1) \<Rightarrow>
               (case handler (folder workspace) fs of
                  (Inl e, fs1) \<Rightarrow> (Inl (map_workspace_file_error e), db1, fs1)
                | (Inr x, fs1) \<Rightarrow> (Inr x, db1, fs1))))"

definition list_workspace_files ::
  "(path \<Rightarrow> nat \<times> instant) \<Rightarrow> workspace_file_service \<Rightarrow> workspace_db \<Rightarrow> filesys \<Rightarrow> http_error + auth_user \<Rightarrow>
   string \<Rightarrow> string \<Rightarrow> instant \<Rightarrow> workspace_file_listing file_response" where
  "list_workspace_files dir_stat svc db fs current group_id p now =
     in_file_workspace db fs current group_id now (\<lambda>ws fs1. list_entries dir_stat svc fs1 ws p)"

text \<open>An upload has the name that the client sent, if any, and its content.\<close>

fun upload_all ::
  "(path \<Rightarrow> nat \<times> instant) \<Rightarrow> workspace_file_service \<Rightarrow> string \<Rightarrow> string \<Rightarrow> instant \<Rightarrow>
   (string option \<times> string) list \<Rightarrow> filesys \<Rightarrow> string list fs_result" where
  "upload_all dir_stat svc ws p now [] fs = (Inr [], fs)"
| "upload_all dir_stat svc ws p now ((name, content) # uploads) fs =
     and_then (save_upload dir_stat svc fs ws p (case name of None \<Rightarrow> [] | Some n \<Rightarrow> n) content now) (\<lambda>saved fs1.
       and_then (upload_all dir_stat svc ws p now uploads fs1) (\<lambda>saved_paths fs2.
         (Inr (entry_path saved # saved_paths), fs2)))"

definition upload_workspace_files ::
  "(path \<Rightarrow> nat \<times> instant) \<Rightarrow> workspace_file_service \<Rightarrow> workspace_db \<Rightarrow> filesys \<Rightarrow> http_error + auth_user \<Rightarrow>
   string \<Rightarrow> string \<Rightarrow> (string option \<times> string) list \<Rightarrow> instant \<Rightarrow> string list file_response" where
  "upload_workspace_files dir_stat svc db fs current group_id p uploads now =
     in_file_workspace db fs (require_permission ''groups'' ''write'' current) group_id now
       (\<lambda>ws fs1. upload_all dir_stat svc ws p now uploads fs1)"

definition download_workspace_file ::
  "workspace_file_service \<Rightarrow> workspace_db \<Rightarrow> filesys \<Rightarrow> http_error + auth_user \<Rightarrow> string \<Rightarrow> string \<Rightarrow> instant \<Rightarrow>
   workspace_resolved_file file_response" where
  "download_workspace_file svc db fs current group_id file_path now =
     in_file_workspace db fs current group_id now (\<lambda>ws fs1. resolve_download_file svc fs1 ws file_path)"

definition preview_workspace_file ::
  "(string \<Rightarrow> string option) \<Rightarrow> workspace_file_service \<Rightarrow> workspace_db \<Rightarrow> filesys \<Rightarrow> http_error + auth_user \<Rightarrow>
   string \<Rightarrow> string \<Rightarrow> instant \<Rightarrow> workspace_resolved_file file_response" where
  "preview_workspace_file guess_type svc db fs current group_id file_path now =
     in_file_workspace db fs current group_id now (\<lambda>ws fs1. resolve_preview_file guess_type svc fs1 ws file_path)"

definition get_workspace_file_content ::
  "(path \<Rightarrow> nat \<times> instant) \<Rightarrow> workspace_file_service \<Rightarrow> workspace_db \<Rightarrow> filesys \<Rightarrow> http_error + auth_user \<Rightarrow>
   string \<Rightarrow> string \<Rightarrow> instant \<Rightarrow> workspace_text_file file_response" where
  "get_workspace_file_content dir_stat svc db fs current group_id file_path now =
     in_file_workspace db fs current group_id now (\<lambda>ws fs1. read_text_content dir_stat svc fs1 ws file_path)"

definition put_workspace_file_content ::
  "workspace_file_service \<Rightarrow> workspace_db \<Rightarrow> filesys \<Rightarrow> http_error + auth_user \<Rightarrow> string \<Rightarrow> string \<Rightarrow> string \<Rightarrow>
   instant \<Rightarrow> workspace_text_file file_response" where
  "put_workspace_file_content svc db fs current group_id file_path content now =
     in_file_workspace db fs (require_permission ''groups'' ''write'' current) group_id now
       (\<lambda>ws fs1. write_text_content svc fs1 ws file_path content now)"

definition delete_workspace_file ::
  "workspace_file_service \<Rightarrow> workspace_db \<Rightarrow> filesys \<Rightarrow> http_error + auth_user \<Rightarrow> string \<Rightarrow> string \<Rightarrow> instant \<Rightarrow>
   unit file_response" where
  "delete_workspace_file svc db fs current group_id file_path now =
     in_file_workspace db fs (require_permission ''groups'' ''write'' current) group_id now
       (\<lambda>ws fs1. delete_path svc fs1 ws file_path)"

end
