(* ===== verification/MemoryFiles.thy ===== *)
theory MemoryFiles
  imports WorkspaceFiles
begin

text \<open>
  The memories: one text per user with a cache in front of it, and the markdown files of a workspace
  (\<open>services/memory.py\<close>), with the handlers of \<open>app/routes/memory.py\<close>. Reading and writing a user's memory
  happens in worker threads: each call is split at its awaits. The calls about a workspace's files run as one
  function in one thread and are one step.
\<close>

section \<open>The service\<close>

record memory_service =
  data_dir :: path
  user_memory_cache :: "(string, string) dict"
  max_group_memory_file_size_bytes :: nat

record group_memory_file_entry =
  memory_entry_path :: string
  memory_entry_name :: string
  memory_entry_updated_at :: instant
  memory_entry_size :: nat

record group_memory_file_content =
  memory_path :: string
  memory_content :: string
  memory_updated_at :: "instant option"
  memory_size :: nat

definition memory_service_init :: "path \<Rightarrow> memory_service" where
  "memory_service_init dir =
     \<lparr>data_dir = dir, user_memory_cache = [], max_group_memory_file_size_bytes = 1024 * 1024\<rparr>"

section \<open>The memory of a user\<close>

definition user_memory_path :: "memory_service \<Rightarrow> string \<Rightarrow> path" where
  "user_memory_path m uid = path_join (data_dir m @ [''memory'', ''user-global'']) uid @ [''AGENTS.md'']"

text \<open>
  \<open>get_user_memory\<close> answers at once from the cache, or when there is no file; otherwise a thread reads the
  file, and afterwards the text is cached and returned.
\<close>

datatype memory_lookup = Known string | Reading path

definition get_user_memory :: "memory_service \<Rightarrow> filesys \<Rightarrow> string \<Rightarrow> memory_lookup \<times> memory_service" where
  "get_user_memory m fs uid =
     (case dict_get (user_memory_cache m) uid of
        Some content \<Rightarrow> (Known content, m)
      | None \<Rightarrow>
          if \<not> path_exists fs (user_memory_path m uid)
          then (Known [], m\<lparr>user_memory_cache := dict_set uid [] (user_memory_cache m)\<rparr>)
          else (Reading (user_memory_path m uid), m))"

definition user_memory_read :: "memory_service \<Rightarrow> string \<Rightarrow> string \<Rightarrow> memory_service" where
  "user_memory_read m uid content = m\<lparr>user_memory_cache := dict_set uid content (user_memory_cache m)\<rparr>"

text \<open>\<open>update_user_memory\<close>: a thread makes the directory, a thread writes, then the cache is set.\<close>

definition user_memory_mkdir :: "memory_service \<Rightarrow> filesys \<Rightarrow> string \<Rightarrow> unit fs_result" where
  "user_memory_mkdir m fs uid = mkdir_parents fs (butlast (user_memory_path m uid))"

definition user_memory_write :: "memory_service \<Rightarrow> filesys \<Rightarrow> string \<Rightarrow> string \<Rightarrow> instant \<Rightarrow> unit fs_result" where
  "user_memory_write m fs uid content now = write_text fs (user_memory_path m uid) content now"

definition user_memory_written :: "memory_service \<Rightarrow> string \<Rightarrow> string \<Rightarrow> memory_service" where
  "user_memory_written m uid content = m\<lparr>user_memory_cache := dict_set uid content (user_memory_cache m)\<rparr>"

text \<open>The two calls when nothing comes in between.\<close>

definition get_user_memory_alone :: "memory_service \<Rightarrow> filesys \<Rightarrow> string \<Rightarrow> (file_exn + string) \<times> memory_service" where
  "get_user_memory_alone m fs uid =
     (case get_user_memory m fs uid of
        (Known content, m1) \<Rightarrow> (Inr content, m1)
      | (Reading p, m1) \<Rightarrow>
          (case read_text fs p of
             Inl e \<Rightarrow> (Inl e, m1)
           | Inr content \<Rightarrow> (Inr content, user_memory_read m1 uid content)))"

definition update_user_memory_alone ::
  "memory_service \<Rightarrow> filesys \<Rightarrow> string \<Rightarrow> string \<Rightarrow> instant \<Rightarrow> (file_exn + unit) \<times> memory_service \<times> filesys" where
  "update_user_memory_alone m fs uid content now =
     (case user_memory_mkdir m fs uid of
        (Inl e, fs1) \<Rightarrow> (Inl e, m, fs1)
      | (Inr _, fs1) \<Rightarrow>
          (case user_memory_write m fs1 uid content now of
             (Inl e, fs2) \<Rightarrow> (Inl e, m, fs2)
           | (Inr _, fs2) \<Rightarrow> (Inr (), user_memory_written m uid content, fs2)))"

definition get_user_memory_metadata ::
  "(path \<Rightarrow> nat \<times> instant) \<Rightarrow> memory_service \<Rightarrow> filesys \<Rightarrow> string \<Rightarrow> file_exn + instant option \<times> nat" where
  "get_user_memory_metadata dir_stat m fs uid =
     (let p = user_memory_path m uid in
      if \<not> path_exists fs p then Inr (None, 0)
      else (case path_stat dir_stat fs p of Inl e \<Rightarrow> Inl e | Inr (sz, mtime) \<Rightarrow> Inr (Some mtime, sz)))"

section \<open>The files of a workspace\<close>

definition group_memory_dir :: "memory_service \<Rightarrow> filesys \<Rightarrow> string \<Rightarrow> file_exn + path" where
  "group_memory_dir m fs group_folder =
     (case path_resolve fs (data_dir m @ [''memory'']) of
        Inl e \<Rightarrow> Inl e
      | Inr memory_root \<Rightarrow>
          (case path_resolve fs (path_join memory_root group_folder) of
             Inl e \<Rightarrow> Inl e
           | Inr candidate \<Rightarrow>
               (case validate_path fs candidate [memory_root] of
                  Inl e \<Rightarrow> Inl e
                | Inr valid \<Rightarrow> if \<not> valid then Inl (value_error ''invalid group memory root'') else Inr candidate)))"

definition daily_memory_path :: "memory_service \<Rightarrow> filesys \<Rightarrow> string \<Rightarrow> string \<Rightarrow> file_exn + path" where
  "daily_memory_path m fs group_folder today =
     (case group_memory_dir m fs group_folder of Inl e \<Rightarrow> Inl e | Inr dir \<Rightarrow> Inr (dir @ [today @ ''.md'']))"

text \<open>\<open>append_daily_memory\<close> with its two threads, for the day's ISO date.\<close>

definition append_text :: "filesys \<Rightarrow> path \<Rightarrow> string \<Rightarrow> instant \<Rightarrow> unit fs_result" where
  "append_text fs p content now =
     (case kernel fs True p of
        Found q \<Rightarrow>
          (case node_at fs q of
             Some (File_node bytes mtime) \<Rightarrow> (Inr (), dict_set q (File_node (bytes @ utf8_bytes content) now) fs)
           | _ \<Rightarrow> (Inl (errno_exn EISDIR p), fs))
      | Absent q \<Rightarrow> (Inr (), dict_set q (File_node (utf8_bytes content) now) fs)
      | Failed e \<Rightarrow> (Inl (errno_exn e p), fs))"

definition daily_memory_mkdir :: "memory_service \<Rightarrow> filesys \<Rightarrow> string \<Rightarrow> string \<Rightarrow> path fs_result" where
  "daily_memory_mkdir m fs group_folder today =
     (case daily_memory_path m fs group_folder today of
        Inl e \<Rightarrow> (Inl e, fs)
      | Inr p \<Rightarrow> and_then (mkdir_parents fs (butlast p)) (\<lambda>_ fs1. (Inr p, fs1)))"

definition daily_memory_append :: "filesys \<Rightarrow> path \<Rightarrow> string \<Rightarrow> instant \<Rightarrow> unit fs_result" where
  "daily_memory_append fs p content now = append_text fs p ([newline] @ content @ [newline]) now"

definition normalize_group_memory_relative_path :: "string \<Rightarrow> file_exn + string" where
  "normalize_group_memory_relative_path relative_path =
     (let stripped = strip_slashes (py_strip relative_path) in
      if stripped = [] \<or> stripped = ''.'' then Inl (value_error ''memory file path is required'')
      else
        let normalized = as_posix (path_parts stripped) in
        if py_lower (path_suffix (path_parts normalized)) \<noteq> ''.md''
        then Inl (value_error ''only markdown memory files are supported'') else Inr normalized)"

definition resolve_group_memory_file ::
  "memory_service \<Rightarrow> filesys \<Rightarrow> string \<Rightarrow> string \<Rightarrow> file_exn + path \<times> path \<times> string" where
  "resolve_group_memory_file m fs group_folder relative_path =
     (case group_memory_dir m fs group_folder of
        Inl e \<Rightarrow> Inl e
      | Inr dir \<Rightarrow>
          (case normalize_group_memory_relative_path relative_path of
             Inl e \<Rightarrow> Inl e
           | Inr normalized \<Rightarrow>
               let candidate = path_join dir normalized in
               (case path_resolve fs candidate of
                  Inl e \<Rightarrow> Inl e
                | Inr resolved \<Rightarrow>
                    (case validate_path fs resolved [dir] of
                       Inl e \<Rightarrow> Inl e
                     | Inr valid \<Rightarrow>
                         if valid then Inr (dir, candidate, normalized)
                         else if ''..'' \<in> set (path_parts relative_path)
                           then Inl (value_error ''path traversal detected'')
                         else Inl (value_error ''symlink traversal detected'')))))"

definition get_group_memory_file ::
  "(path \<Rightarrow> nat \<times> instant) \<Rightarrow> memory_service \<Rightarrow> filesys \<Rightarrow> string \<Rightarrow> string \<Rightarrow>
   file_exn + group_memory_file_content" where
  "get_group_memory_file dir_stat m fs group_folder relative_path =
     (case resolve_group_memory_file m fs group_folder relative_path of
        Inl e \<Rightarrow> Inl e
      | Inr (dir, candidate, normalized) \<Rightarrow>
          if \<not> path_exists fs candidate
          then Inr \<lparr>memory_path = normalized, memory_content = [], memory_updated_at = None, memory_size = 0\<rparr>
          else if path_is_dir fs candidate then Inl (Exn Is_directory_exn (Message ''path is a directory''))
          else
            (case path_stat dir_stat fs candidate of
               Inl e \<Rightarrow> Inl e
             | Inr (sz, mtime) \<Rightarrow>
                 if sz > max_group_memory_file_size_bytes m
                 then Inl (value_error ''memory file exceeds size limit'')
                 else
                   (case read_text fs candidate of
                      Inl e \<Rightarrow> Inl e
                    | Inr content \<Rightarrow>
                        Inr \<lparr>memory_path = normalized, memory_content = content,
                             memory_updated_at = Some mtime, memory_size = sz\<rparr>)))"

definition update_group_memory_file ::
  "(path \<Rightarrow> nat \<times> instant) \<Rightarrow> memory_service \<Rightarrow> filesys \<Rightarrow> string \<Rightarrow> string \<Rightarrow> string \<Rightarrow> instant \<Rightarrow>
   group_memory_file_content fs_result" where
  "update_group_memory_file dir_stat m fs group_folder relative_path content now =
     (case resolve_group_memory_file m fs group_folder relative_path of
        Inl e \<Rightarrow> (Inl e, fs)
      | Inr (dir, candidate, normalized) \<Rightarrow>
          if length (utf8_bytes content) > max_group_memory_file_size_bytes m
          then (Inl (value_error ''memory content exceeds size limit''), fs)
          else if path_exists fs candidate \<and> path_is_dir fs candidate
            then (Inl (Exn Is_directory_exn (Message ''path is a directory'')), fs)
          else
            and_then (mkdir_parents fs (butlast candidate)) (\<lambda>_ fs1.
              (case path_resolve fs1 (butlast candidate) of
                 Inl e \<Rightarrow> (Inl e, fs1)
               | Inr parent \<Rightarrow>
                   (case validate_path fs1 parent [dir] of
                      Inl e \<Rightarrow> (Inl e, fs1)
                    | Inr valid \<Rightarrow>
                        if \<not> valid then (Inl (value_error ''symlink traversal detected''), fs1)
                        else
                          and_then (write_text fs1 candidate content now) (\<lambda>_ fs2.
                            (case path_stat dir_stat fs2 candidate of
                               Inl e \<Rightarrow> (Inl e, fs2)
                             | Inr (sz, mtime) \<Rightarrow>
                                 (Inr \<lparr>memory_path = normalized, memory_content = content,
                                       memory_updated_at = Some mtime, memory_size = sz\<rparr>, fs2)))))))"

text \<open>
  \<open>rglob("*.md")\<close>, sorted: the entries of the directory and of its real subdirectories whose name ends
  with the suffix; and \<open>is_file\<close>.
\<close>

definition path_is_file :: "filesys \<Rightarrow> path \<Rightarrow> bool" where
  "path_is_file fs p =
     (case kernel fs True p of
        Found q \<Rightarrow> (case node_at fs q of Some (File_node bytes mtime) \<Rightarrow> True | _ \<Rightarrow> False)
      | _ \<Rightarrow> False)"

definition rglob_markdown :: "filesys \<Rightarrow> path \<Rightarrow> path list" where
  "rglob_markdown fs dir =
     (case kernel fs True dir of
        Found q \<Rightarrow>
          if node_at fs q = Some Dir_node
          then sort (map (\<lambda>k. dir @ drop (length q) k)
                 (filter (\<lambda>k. strict_prefix q k \<and> suffix ''.md'' (last k)) (map fst fs)))
          else []
      | _ \<Rightarrow> [])"

text \<open>The loop of \<open>_search_group_memory_files\<close> and \<open>_list_group_memory_files\<close>, with what it does to a file.\<close>

fun each_memory_file ::
  "filesys \<Rightarrow> path \<Rightarrow> (path \<Rightarrow> file_exn + 'a option) \<Rightarrow> path list \<Rightarrow> file_exn + 'a list" where
  "each_memory_file fs dir visit [] = Inr []"
| "each_memory_file fs dir visit (p # ps) =
     (if \<not> path_is_file fs p then each_memory_file fs dir visit ps
      else
        (case path_resolve fs p of
           Inl e \<Rightarrow> Inl e
         | Inr resolved \<Rightarrow>
             (case validate_path fs resolved [dir] of
                Inl e \<Rightarrow> Inl e
              | Inr valid \<Rightarrow>
                  if \<not> valid then Inl (value_error ''symlink traversal detected'')
                  else
                    (case visit p of
                       Inl e \<Rightarrow> Inl e
                     | Inr found \<Rightarrow>
                         (case each_memory_file fs dir visit ps of
                            Inl e \<Rightarrow> Inl e
                          | Inr rest \<Rightarrow> Inr (case found of None \<Rightarrow> rest | Some x \<Rightarrow> x # rest))))))"

definition contains :: "string \<Rightarrow> string \<Rightarrow> bool" where
  "contains s sub \<longleftrightarrow> py_find s sub 0 \<noteq> None"

definition visit_search :: "filesys \<Rightarrow> path \<Rightarrow> string \<Rightarrow> path \<Rightarrow> file_exn + string option" where
  "visit_search fs dir query p =
     (case read_text fs p of
        Inl e \<Rightarrow> Inl e
      | Inr content \<Rightarrow>
          if contains (py_lower content) query
          then (case relative_posix p dir of Inl e \<Rightarrow> Inl e | Inr rel \<Rightarrow> Inr (Some rel))
          else Inr None)"

definition visit_list ::
  "(path \<Rightarrow> nat \<times> instant) \<Rightarrow> filesys \<Rightarrow> path \<Rightarrow> path \<Rightarrow> file_exn + group_memory_file_entry option" where
  "visit_list dir_stat fs dir p =
     (case path_stat dir_stat fs p of
        Inl e \<Rightarrow> Inl e
      | Inr (sz, mtime) \<Rightarrow>
          (case relative_posix p dir of
             Inl e \<Rightarrow> Inl e
           | Inr rel \<Rightarrow>
               Inr (Some \<lparr>memory_entry_path = rel, memory_entry_name = path_name p,
                          memory_entry_updated_at = mtime, memory_entry_size = sz\<rparr>)))"

definition in_memory_dir ::
  "memory_service \<Rightarrow> filesys \<Rightarrow> string \<Rightarrow> (path \<Rightarrow> path \<Rightarrow> file_exn + 'a option) \<Rightarrow> file_exn + 'a list" where
  "in_memory_dir m fs group_folder visit =
     (case group_memory_dir m fs group_folder of
        Inl e \<Rightarrow> Inl e
      | Inr dir \<Rightarrow>
          if \<not> path_exists fs dir then Inr []
          else each_memory_file fs dir (visit dir) (rglob_markdown fs dir))"

definition search_memory :: "memory_service \<Rightarrow> filesys \<Rightarrow> string \<Rightarrow> string \<Rightarrow> file_exn + string list" where
  "search_memory m fs group_folder query =
     (let normalized = py_lower (py_strip query) in
      if normalized = [] then Inr []
      else in_memory_dir m fs group_folder (\<lambda>dir. visit_search fs dir normalized))"

definition list_group_memory_files ::
  "(path \<Rightarrow> nat \<times> instant) \<Rightarrow> memory_service \<Rightarrow> filesys \<Rightarrow> string \<Rightarrow> file_exn + group_memory_file_entry list" where
  "list_group_memory_files dir_stat m fs group_folder =
     in_memory_dir m fs group_folder (\<lambda>dir. visit_list dir_stat fs dir)"

section \<open>The handlers\<close>

fun map_memory_error :: "file_exn \<Rightarrow> file_failure" where
  "map_memory_error (Exn Value_exn detail) = File_failure 400 detail"
| "map_memory_error (Exn Is_directory_exn detail) = File_failure 400 detail"
| "map_memory_error (Exn Not_directory_exn detail) = File_failure 400 detail"
| "map_memory_error (Exn _ detail) = File_failure 500 (Message ''memory operation failed'')"

text \<open>
  \<open>_normalize_search_hit_path\<close>: the service gives relative paths, an absolute one is made relative.
\<close>

definition normalize_search_hit_path :: "memory_service \<Rightarrow> filesys \<Rightarrow> string \<Rightarrow> string \<Rightarrow> file_exn + string" where
  "normalize_search_hit_path m fs group_folder raw_path =
     (if path_absolute raw_path then
        (case group_memory_dir m fs group_folder of
           Inl e \<Rightarrow> Inl e
         | Inr dir \<Rightarrow>
             (case path_resolve fs (path_parts raw_path) of
                Inl e \<Rightarrow> if (case e of Exn c t \<Rightarrow> c = Value_exn)
                  then Inl (value_error ''unexpected absolute memory search hit'') else Inl e
              | Inr p \<Rightarrow>
                  (case relative_to p dir of
                     None \<Rightarrow> Inl (value_error ''unexpected absolute memory search hit'')
                   | Some r \<Rightarrow> Inr (as_posix r))))
      else Inr (as_posix (path_parts raw_path)))"

definition memory_global_response ::
  "(path \<Rightarrow> nat \<times> instant) \<Rightarrow> memory_service \<Rightarrow> filesys \<Rightarrow> string \<Rightarrow> string \<Rightarrow>
   file_failure + string \<times> instant option \<times> nat" where
  "memory_global_response dir_stat m fs uid content =
     (case get_user_memory_metadata dir_stat m fs uid of
        Inl e \<Rightarrow> Inl (File_failure 500 (Message ''Internal Server Error''))
      | Inr (updated, sz) \<Rightarrow> Inr (content, updated, sz))"

definition get_global_memory ::
  "(path \<Rightarrow> nat \<times> instant) \<Rightarrow> memory_service \<Rightarrow> filesys \<Rightarrow> http_error + auth_user \<Rightarrow>
   (file_failure + string \<times> instant option \<times> nat) \<times> memory_service" where
  "get_global_memory dir_stat m fs current =
     (case current of
        Inl e \<Rightarrow> (Inl (http_failure e), m)
      | Inr u \<Rightarrow>
          (case get_user_memory_alone m fs (user_id u) of
             (Inl e, m1) \<Rightarrow> (Inl (File_failure 500 (Message ''Internal Server Error'')), m1)
           | (Inr content, m1) \<Rightarrow> (memory_global_response dir_stat m1 fs (user_id u) content, m1)))"

definition update_global_memory ::
  "(path \<Rightarrow> nat \<times> instant) \<Rightarrow> memory_service \<Rightarrow> filesys \<Rightarrow> http_error + auth_user \<Rightarrow> string \<Rightarrow> instant \<Rightarrow>
   (file_failure + string \<times> instant option \<times> nat) \<times> memory_service \<times> filesys" where
  "update_global_memory dir_stat m fs current content now =
     (case current of
        Inl e \<Rightarrow> (Inl (http_failure e), m, fs)
      | Inr u \<Rightarrow>
          (case update_user_memory_alone m fs (user_id u) content now of
             (Inl e, m1, fs1) \<Rightarrow> (Inl (File_failure 500 (Message ''Internal Server Error'')), m1, fs1)
           | (Inr _, m1, fs1) \<Rightarrow> (memory_global_response dir_stat m1 fs1 (user_id u) content, m1, fs1)))"

text \<open>A handler about one workspace, for the service's call that it makes.\<close>

definition in_memory_workspace ::
  "workspace_db \<Rightarrow> filesys \<Rightarrow> http_error + auth_user \<Rightarrow> string \<Rightarrow> instant \<Rightarrow>
   (string \<Rightarrow> 'a fs_result) \<Rightarrow> 'a file_response" where
  "in_memory_workspace db fs current group_id now handler =
     (case current of
        Inl e \<Rightarrow> (Inl (http_failure e), db, fs)
      | Inr u \<Rightarrow>
          (case require_accessible_workspace db group_id u now of
             (Inl e, db1) \<Rightarrow> (Inl (http_failure e), db1, fs)
           | (Inr workspace, db1) \<Rightarrow>
               (case handler (folder workspace) of
                  (Inl e, fs1) \<Rightarrow> (Inl (map_memory_error e), db1, fs1)
                | (Inr x, fs1) \<Rightarrow> (Inr x, db1, fs1))))"

definition list_workspace_memory_files ::
  "(path \<Rightarrow> nat \<times> instant) \<Rightarrow> memory_service \<Rightarrow> workspace_db \<Rightarrow> filesys \<Rightarrow> http_error + auth_user \<Rightarrow> string \<Rightarrow>
   instant \<Rightarrow> group_memory_file_entry list file_response" where
  "list_workspace_memory_files dir_stat m db fs current group_id now =
     in_memory_workspace db fs current group_id now (\<lambda>ws. (list_group_memory_files dir_stat m fs ws, fs))"

text \<open>FastAPI refuses an empty \<open>path\<close>; the dependency on the user comes first.\<close>

definition nonempty_path :: "string \<Rightarrow> http_error + auth_user \<Rightarrow> http_error + auth_user" where
  "nonempty_path p current =
     (case current of Inl e \<Rightarrow> Inl e | Inr u \<Rightarrow> if p = [] then Inl (Http_error 422 ''validation error'') else Inr u)"

definition get_workspace_memory_file ::
  "(path \<Rightarrow> nat \<times> instant) \<Rightarrow> memory_service \<Rightarrow> workspace_db \<Rightarrow> filesys \<Rightarrow> http_error + auth_user \<Rightarrow> string \<Rightarrow>
   string \<Rightarrow> instant \<Rightarrow> group_memory_file_content file_response" where
  "get_workspace_memory_file dir_stat m db fs current group_id p now =
     in_memory_workspace db fs (nonempty_path p current) group_id now
       (\<lambda>ws. (get_group_memory_file dir_stat m fs ws p, fs))"

definition update_workspace_memory_file ::
  "(path \<Rightarrow> nat \<times> instant) \<Rightarrow> memory_service \<Rightarrow> workspace_db \<Rightarrow> filesys \<Rightarrow> http_error + auth_user \<Rightarrow> string \<Rightarrow>
   string \<Rightarrow> string \<Rightarrow> instant \<Rightarrow> group_memory_file_content file_response" where
  "update_workspace_memory_file dir_stat m db fs current group_id p content now =
     in_memory_workspace db fs (nonempty_path p current) group_id now
       (\<lambda>ws. update_group_memory_file dir_stat m fs ws p content now)"

definition search_workspace_memory ::
  "memory_service \<Rightarrow> workspace_db \<Rightarrow> filesys \<Rightarrow> http_error + auth_user \<Rightarrow> string \<Rightarrow> string \<Rightarrow> instant \<Rightarrow>
   string list file_response" where
  "search_workspace_memory m db fs current group_id query now =
     in_memory_workspace db fs current group_id now
       (\<lambda>ws. (case search_memory m fs ws query of
                Inl e \<Rightarrow> Inl e
              | Inr hits \<Rightarrow> traverse (normalize_search_hit_path m fs ws) hits, fs))"

end
