(* ===== verification/FileProtocol.thy ===== *)
theory FileProtocol
  imports WorkspaceFiles
begin

text \<open>
  What the workspace files guarantee, whatever links the workspace holds: what a request reads lies in the
  workspace; an upload writes one file, in the workspace; an edit or a deletion of what is not a link changes
  nothing else. And where the guarantees end.
\<close>

section \<open>The workspace's directory\<close>

abbreviation workspace_dir :: "workspace_file_service \<Rightarrow> string \<Rightarrow> path" where
  "workspace_dir svc g \<equiv> groups_root svc @ [g]"

definition workspace_ok :: "workspace_file_service \<Rightarrow> filesys \<Rightarrow> string \<Rightarrow> bool" where
  "workspace_ok svc fs g \<longleftrightarrow>
     path_join (groups_root svc) g = workspace_dir svc g \<and> clean fs (workspace_dir svc g)"

lemma workspace_root_ok:
  assumes "workspace_ok svc fs g" and "workspace_root svc fs g = (r, fs')"
  shows "dirs_added fs fs' \<and> (\<forall>ws. r = Inr ws \<longrightarrow> ws = workspace_dir svc g)"
proof (cases "path_resolve fs (workspace_dir svc g)")
  case (Inl e)
  with assms show ?thesis by (auto simp: workspace_root_def workspace_ok_def)
next
  case (Inr candidate)
  then have "candidate = workspace_dir svc g"
    using assms(1) unfolding workspace_ok_def by (blast dest: clean_resolve)
  moreover obtain r1 fs1 where mk: "mkdir_parents fs (workspace_dir svc g) = (r1, fs1)" by force
  moreover note mkdir_parents_dirs [OF mk]
  ultimately show ?thesis
    using assms Inr by (auto simp: workspace_root_def workspace_ok_def and_then_def split: sum.splits if_splits)
qed

lemma workspace_ok_dirs: "workspace_ok svc fs g \<Longrightarrow> dirs_added fs fs' \<Longrightarrow> workspace_ok svc fs' g"
  unfolding workspace_ok_def using same_links_clean dirs_added_same_links by blast

lemma workspace_root_ready:
  assumes "workspace_ok svc fs g" and "path_is_dir fs (workspace_dir svc g)"
    and "workspace_root svc fs g = (r, fs')"
  shows "fs' = fs \<and> (\<forall>ws. r = Inr ws \<longrightarrow> ws = workspace_dir svc g)"
proof (cases "path_resolve fs (workspace_dir svc g)")
  case (Inl e)
  with assms show ?thesis by (auto simp: workspace_root_def workspace_ok_def)
next
  case (Inr candidate)
  have c: "clean fs (workspace_dir svc g)" using assms(1) unfolding workspace_ok_def by blast
  then have "mkdir_parents fs (workspace_dir svc g) = (Inr (), fs)"
    using mkdir_parents_exists kernel_dir assms(2) by blast
  moreover have "candidate = workspace_dir svc g" using c Inr by (rule clean_resolve)
  ultimately show ?thesis
    using assms Inr by (auto simp: workspace_root_def workspace_ok_def and_then_def split: sum.splits if_splits)
qed

section \<open>Candidates\<close>

lemma resolve_candidate_Inr:
  assumes "resolve_candidate fs ws p = Inr target"
  shows "target = path_join ws (normalize_current_path p) \<and>
    (\<exists>q. path_resolve fs target = Inr q \<and> validate_path fs q [ws] = Inr True)"
  using assms by (auto simp: resolve_candidate_def Let_def split: sum.splits if_splits)

lemma candidate_reaches:
  assumes "resolve_candidate fs ws p = Inr target" and "clean fs ws"
    and "kernel fs True target = Found q \<or> kernel fs True target = Absent q"
  shows "prefix ws q \<and> clean fs q"
  using resolve_candidate_Inr [OF assms(1)] validated_inside [OF _ _ assms(2,3)] by blast

lemma candidate_reaches_later:
  assumes "resolve_candidate fs ws p = Inr target" and "clean fs ws" and "dirs_added fs fs'"
    and "kernel fs' True target = Found q \<or> kernel fs' True target = Absent q"
  shows "prefix ws q"
  using resolve_candidate_Inr [OF assms(1)] validated_later [OF _ _ assms(2-4)] by blast

lemma existing_file:
  assumes ok: "workspace_ok svc fs g" and found: "resolve_existing_file svc fs g p = (Inr target, fs')"
  shows "dirs_added fs fs' \<and> target = path_join (workspace_dir svc g) (normalize_current_path p) \<and>
    (\<exists>q. kernel fs' True target = Found q \<and> prefix (workspace_dir svc g) q \<and> node_at fs' q \<noteq> Some Dir_node)"
proof -
  from found obtain ws where root: "workspace_root svc fs g = (Inr ws, fs')"
    and cand: "resolve_candidate fs' ws p = Inr target"
    and kind: "path_exists fs' target" "\<not> path_is_dir fs' target"
    by (auto simp: resolve_existing_file_def dest!: and_then_Inr split: sum.splits if_splits)
  from workspace_root_ok [OF ok root] have ws: "ws = workspace_dir svc g" and dirs: "dirs_added fs fs'" by auto
  with ok have clean: "clean fs' ws" using workspace_ok_dirs unfolding workspace_ok_def by blast
  from kind obtain q where q: "kernel fs' True target = Found q" "node_at fs' q \<noteq> Some Dir_node"
    by (auto simp: path_exists_Found path_is_dir_def)
  with candidate_reaches [OF cand clean] have "prefix ws q" by blast
  with q dirs ws resolve_candidate_Inr [OF cand] show ?thesis by blast
qed

section \<open>Reading\<close>

lemma read_text_content_ok:
  assumes ok: "workspace_ok svc fs g" and read: "read_text_content dir_stat svc fs g p = (Inr doc, fs')"
  shows "dirs_added fs fs' \<and>
    (\<exists>q bytes mtime t. prefix (workspace_dir svc g) q \<and> node_at fs q = Some (File_node bytes mtime) \<and>
       utf8_decode bytes = Some t \<and> text_content doc = universal_newlines t \<and>
       text_size doc = length bytes \<and> length bytes \<le> max_text_file_size_bytes svc)"
proof -
  from read obtain target fs1 sz mtime ws content where
    found: "resolve_existing_file svc fs g p = (Inr target, fs1)"
    and stat: "path_stat dir_stat fs1 target = Inr (sz, mtime)" "sz \<le> max_text_file_size_bytes svc"
    and root: "workspace_root svc fs1 g = (Inr ws, fs')"
    and content: "read_text fs' target = Inr content" "text_content doc = content" "text_size doc = sz"
    by (auto simp: read_text_content_def dest!: and_then_Inr split: option.splits sum.splits if_splits)
  from existing_file [OF ok found] obtain q where dirs: "dirs_added fs fs1" and
    q: "kernel fs1 True target = Found q" "prefix (workspace_dir svc g) q" by blast
  have ok1: "workspace_ok svc fs1 g" using ok dirs by (rule workspace_ok_dirs)
  from workspace_root_ok [OF ok1 root] have dirs1: "dirs_added fs1 fs'" by blast
  from content obtain bytes t where bytes: "read_file fs' target = Inr bytes" and
    t: "utf8_decode bytes = Some t" "text_content doc = universal_newlines t"
    by (auto simp: read_text_def split: sum.splits option.splits)
  from bytes obtain q' m where q': "kernel fs' True target = Found q'" "node_at fs' q' = Some (File_node bytes m)"
    by (auto simp: read_file_Inr)
  have "q' = q"
  proof -
    from q(1) obtain k where "res fs1 [] target k q"
      using walk_res [of fs1 "[]" target 40 q] by (auto simp: kernel_def)
    then have "res fs' [] target k q" using dirs_added_same_links [OF dirs1] by (rule res_same_links)
    moreover from q'(1) obtain k' where "res fs' [] target k' q'"
      using walk_res [of fs' "[]" target 40 q'] by (auto simp: kernel_def)
    ultimately show ?thesis by (blast dest: res_deterministic)
  qed
  have n1: "node_at fs1 q = Some (File_node bytes m)" using q'(2) dirs_added_file [OF dirs1] \<open>q' = q\<close> by simp
  then have "node_at fs q = Some (File_node bytes m)" using dirs_added_file [OF dirs] by simp
  moreover have "sz = length bytes" using stat(1) q(1) n1 by (simp add: path_stat_def)
  ultimately show ?thesis
    using q(2) t stat(2) content(3) dirs_added_trans [OF dirs dirs1] by blast
qed

lemma resolved_file_ok:
  assumes "workspace_ok svc fs g" and "resolved_file svc fs g target media = (Inr f, fs')"
  shows "dirs_added fs fs' \<and> absolute_path f = target \<and> media_type f = media"
  using assms workspace_root_ok
  by (auto simp: resolved_file_def dest!: and_then_Inr split: sum.splits)

lemma preview_media:
  assumes "resolve_preview_file guess_type svc fs g p = (Inr f, fs')"
  shows "media_type f \<in> set safe_inline_mime_types"
  using assms by (auto simp: resolve_preview_file_def resolved_file_def Let_def dest!: and_then_Inr split: if_splits sum.splits)

text \<open>Whatever comes of a request, it makes at most directories that were missing.\<close>

lemma workspace_root_dirs: "workspace_ok svc fs g \<Longrightarrow> dirs_added fs (snd (workspace_root svc fs g))"
  using workspace_root_ok by (metis prod.collapse)

lemma and_then_dirs:
  assumes "dirs_added fs (snd x)" and "\<And>v fs1. x = (Inr v, fs1) \<Longrightarrow> dirs_added fs1 (snd (f v fs1))"
  shows "dirs_added fs (snd (and_then x f))"
  using assms by (cases x) (auto simp: and_then_def intro: dirs_added_trans split: sum.split)

lemma existing_file_dirs:
  "workspace_ok svc fs g \<Longrightarrow> dirs_added fs (snd (resolve_existing_file svc fs g p))"
  unfolding resolve_existing_file_def
  by (rule and_then_dirs) (auto simp: workspace_root_dirs split: sum.split)

lemma resolved_file_dirs: "workspace_ok svc fs g \<Longrightarrow> dirs_added fs (snd (resolved_file svc fs g target media))"
  unfolding resolved_file_def
  by (rule and_then_dirs) (auto simp: workspace_root_dirs split: sum.split)

lemma reads_make_directories:
  assumes ok: "workspace_ok svc fs g"
  shows "dirs_added fs (snd (read_text_content dir_stat svc fs g p))"
    and "dirs_added fs (snd (resolve_download_file svc fs g p))"
    and "dirs_added fs (snd (resolve_preview_file guess_type svc fs g p))"
proof -
  have later: "workspace_ok svc fs1 g" if "resolve_existing_file svc fs g p = (Inr target, fs1)" for target fs1
    using existing_file [OF ok that] workspace_ok_dirs [OF ok] by blast
  show "dirs_added fs (snd (read_text_content dir_stat svc fs g p))"
    unfolding read_text_content_def
  proof (rule and_then_dirs)
    fix target fs1
    assume "resolve_existing_file svc fs g p = (Inr target, fs1)"
    note root = workspace_root_dirs [OF later [OF this]]
    have "dirs_added fs1 (snd (and_then (workspace_root svc fs1 g) (\<lambda>ws fs2.
        case relative_posix target ws of Inl e \<Rightarrow> (Inl e, fs2)
        | Inr rel \<Rightarrow> (case read_text fs2 target of Inl e \<Rightarrow> (Inl e, fs2)
            | Inr content \<Rightarrow> (Inr \<lparr>text_path = rel, text_content = content, text_size = sz\<rparr>, fs2)))))" for sz
      by (rule and_then_dirs) (auto simp: root split: sum.split)
    then show "dirs_added fs1 (snd (case ensure_text_file target of Some e \<Rightarrow> (Inl e, fs1)
        | None \<Rightarrow> (case path_stat dir_stat fs1 target of Inl e \<Rightarrow> (Inl e, fs1)
            | Inr (sz, mtime) \<Rightarrow>
                if sz > max_text_file_size_bytes svc
                then (Inl (value_error ''text file exceeds size limit''), fs1)
                else and_then (workspace_root svc fs1 g) (\<lambda>ws fs2.
                  case relative_posix target ws of Inl e \<Rightarrow> (Inl e, fs2)
                  | Inr rel \<Rightarrow> (case read_text fs2 target of Inl e \<Rightarrow> (Inl e, fs2)
                      | Inr content \<Rightarrow>
                          (Inr \<lparr>text_path = rel, text_content = content, text_size = sz\<rparr>, fs2))))))"
      by (simp split: option.split sum.split prod.split)
  qed (rule existing_file_dirs [OF ok])
  show "dirs_added fs (snd (resolve_download_file svc fs g p))"
    unfolding resolve_download_file_def
    by (rule and_then_dirs) (simp_all add: existing_file_dirs [OF ok] resolved_file_dirs later)
  show "dirs_added fs (snd (resolve_preview_file guess_type svc fs g p))"
    unfolding resolve_preview_file_def
    by (rule and_then_dirs) (auto simp: Let_def existing_file_dirs [OF ok] resolved_file_dirs later)
qed

lemma handed_out_file:
  assumes ok: "workspace_ok svc fs g"
    and "resolve_existing_file svc fs g p = (Inr target, fs1)" "resolved_file svc fs1 g target media = (Inr f, fs')"
    and links: "same_links fs' fs''" and later: "kernel fs'' True (absolute_path f) = Found q"
  shows "prefix (workspace_dir svc g) q"
proof -
  from existing_file [OF ok assms(2)] obtain q0 where dirs: "dirs_added fs fs1"
    and q0: "kernel fs1 True target = Found q0" "prefix (workspace_dir svc g) q0" by blast
  from resolved_file_ok [OF workspace_ok_dirs [OF ok dirs] assms(3)]
  have dirs': "dirs_added fs1 fs'" and f: "absolute_path f = target" by auto
  from q0(1) obtain k where "res fs1 [] target k q0"
    using walk_res [of fs1 "[]" target 40 q0] by (auto simp: kernel_def)
  then have "res fs'' [] target k q0"
    using res_same_links [OF _ same_links_trans [OF dirs_added_same_links [OF dirs'] links]] by blast
  moreover from later f obtain k' where "res fs'' [] target k' q"
    using walk_res [of fs'' "[]" target 40 q] by (auto simp: kernel_def)
  ultimately show ?thesis using q0(2) by (blast dest: res_deterministic)
qed

text \<open>C25: Whatever symbolic links a workspace holds and whatever path a request names, what it is given is
  stored under the directory of the workspace: the text that \<open>read_text_content\<close> returns is that of a file
  there (decoded, line ends translated, and not above the size limit). The path that
  \<open>resolve_download_file\<close> or \<open>resolve_preview_file\<close> hands out is opened later: as long as the symbolic links
  are still those of the call, whatever else has changed by then, that reaches nothing outside, and a preview
  has a safe type. (A link that is put there in between is followed.) Each of the three calls, whether it
  succeeds or fails, makes at most missing directories.\<close>

theorem reads_confined:
  assumes "workspace_ok svc fs g"
  shows "(\<forall>doc fs'. read_text_content dir_stat svc fs g p = (Inr doc, fs') \<longrightarrow>
      (\<exists>q bytes mtime t. prefix (groups_root svc @ [g]) q \<and> node_at fs q = Some (File_node bytes mtime) \<and>
         utf8_decode bytes = Some t \<and> text_content doc = universal_newlines t \<and>
         text_size doc = length bytes \<and> length bytes \<le> max_text_file_size_bytes svc)) \<and>
    (\<forall>f fs' fs'' q. resolve_download_file svc fs g p = (Inr f, fs') \<and> same_links fs' fs'' \<and>
      kernel fs'' True (absolute_path f) = Found q \<longrightarrow> prefix (groups_root svc @ [g]) q) \<and>
    (\<forall>f fs' fs'' q. resolve_preview_file guess_type svc fs g p = (Inr f, fs') \<longrightarrow>
      media_type f \<in> set safe_inline_mime_types \<and>
      (same_links fs' fs'' \<and> kernel fs'' True (absolute_path f) = Found q \<longrightarrow> prefix (groups_root svc @ [g]) q)) \<and>
    dirs_added fs (snd (read_text_content dir_stat svc fs g p)) \<and>
    dirs_added fs (snd (resolve_download_file svc fs g p)) \<and>
    dirs_added fs (snd (resolve_preview_file guess_type svc fs g p))"
proof (intro conjI allI impI)
  fix f fs' fs'' q
  assume "resolve_download_file svc fs g p = (Inr f, fs') \<and> same_links fs' fs'' \<and>
    kernel fs'' True (absolute_path f) = Found q"
  then show "prefix (workspace_dir svc g) q"
    using handed_out_file [OF assms] by (auto simp: resolve_download_file_def dest!: and_then_Inr)
next
  fix f fs' fs'' q
  assume "resolve_preview_file guess_type svc fs g p = (Inr f, fs')"
    "same_links fs' fs'' \<and> kernel fs'' True (absolute_path f) = Found q"
  then show "prefix (workspace_dir svc g) q"
    using handed_out_file [OF assms]
    by (auto simp: resolve_preview_file_def Let_def dest!: and_then_Inr split: if_splits)
qed (use read_text_content_ok [OF assms] preview_media reads_make_directories [OF assms] in blast)+

abbreviation example_files :: workspace_file_service where
  "example_files \<equiv> \<lparr>groups_root = [''data'', ''groups''], max_upload_size_bytes = 100, max_text_file_size_bytes = 100\<rparr>"

abbreviation example_fs :: filesys where
  "example_fs \<equiv>
     [([''data''], Dir_node), ([''data'', ''groups''], Dir_node), ([''data'', ''groups'', ''w''], Dir_node),
      ([''data'', ''groups'', ''w'', ''a.txt''], File_node ''hi'' 7),
      ([''data'', ''groups'', ''w'', ''up.txt''], Link_node False [''..'', ''w'', ''a.txt'']), ([''etc''], Dir_node)]"

lemma workspace_ok_prefixes:
  assumes "path_join (groups_root svc) g = groups_root svc @ [g]" and "''..'' \<notin> set (groups_root svc @ [g])"
    and "list_all (\<lambda>n. no_link fs (take n (groups_root svc @ [g]))) [0..<Suc (Suc (length (groups_root svc)))]"
  shows "workspace_ok svc fs g"
proof -
  have "no_link fs q" if "prefix q (workspace_dir svc g)" for q
  proof -
    from that have "q = take (length q) (workspace_dir svc g)" by (metis append_eq_conv_conj prefix_def)
    moreover from that have "length q \<le> Suc (length (groups_root svc))" by (auto dest: prefix_length_le)
    ultimately show ?thesis using assms(3) unfolding list_all_iff by (metis atLeast0LessThan lessThan_iff less_Suc_eq_le set_upt)
  qed
  with assms(1,2) show ?thesis by (simp add: workspace_ok_def clean_def)
qed

lemmas path_eval = path_join_def path_absolute_def path_parts_def py_startswith_def no_link_def node_at_def
  list_all_iff normalize_current_path_def strip_slashes_def py_strip_def py_lstrip_def py_rstrip_def
  py_isspace_char_def as_posix_def

lemma example_workspace: "workspace_ok example_files example_fs ''w''"
  by (rule workspace_ok_prefixes) (simp_all add: path_eval)

section \<open>Uploading\<close>

text \<open>Either nothing but directories has been made, or one file has been written, under the workspace.\<close>

definition uploaded :: "workspace_file_service \<Rightarrow> string \<Rightarrow> string \<Rightarrow> instant \<Rightarrow> filesys \<Rightarrow> filesys \<Rightarrow> path \<Rightarrow> bool" where
  "uploaded svc g content now fs fs' q \<longleftrightarrow>
     prefix (workspace_dir svc g) q \<and> q \<noteq> [] \<and> (\<exists>fs1. dirs_added fs fs1 \<and> fs' = dict_set q (File_node content now) fs1)"

lemma save_upload_effect:
  assumes ok: "workspace_ok svc fs g"
    and up: "save_upload dir_stat svc fs g cur name content now = (r, fs')"
  shows "(dirs_added fs fs' \<and> (\<exists>e. r = Inl e)) \<or>
    (\<exists>q. uploaded svc g content now fs fs' q \<and>
       (\<forall>entry. r = Inr entry \<longrightarrow> entry_type entry = ''file'' \<and> entry_size entry = length content \<and>
          length content \<le> max_upload_size_bytes svc))"
proof (cases "length content > max_upload_size_bytes svc \<or> name \<in> {[], ''.'', ''..''} \<or> path_name (path_parts name) \<noteq> name")
  case True
  with up show ?thesis by (auto simp: save_upload_def split: if_splits)
next
  case sane: False
  let ?file = "strip_slashes (normalize_current_path cur @ ''/'' @ name)"
  obtain r1 fs1 where root: "workspace_root svc fs g = (r1, fs1)" by force
  note r1 = workspace_root_ok [OF ok root]
  show ?thesis
  proof (cases "\<exists>ws target_dir. r1 = Inr ws \<and> resolve_candidate fs1 ws cur = Inr target_dir")
    case False
    with up sane root r1 show ?thesis
      by (auto simp: save_upload_def and_then_def split: sum.splits)
  next
    case True
    then obtain ws target_dir where ws: "r1 = Inr ws" and dir: "resolve_candidate fs1 ws cur = Inr target_dir" by blast
    obtain r2 fs2 where mk: "mkdir_parents fs1 target_dir = (r2, fs2)" by force
    have dirs2: "dirs_added fs fs2" using r1 mkdir_parents_dirs [OF mk] by (blast intro: dirs_added_trans)
    show ?thesis
    proof (cases "(\<exists>u. r2 = Inr u) \<and> path_is_dir fs2 target_dir \<and> (\<exists>target. resolve_candidate fs2 ws ?file = Inr target)")
      case False
      with up sane root ws dir mk dirs2 show ?thesis
        by (auto simp: save_upload_def and_then_def split: sum.splits if_splits)
    next
      case True
      then obtain target where r2: "r2 = Inr ()" and d: "path_is_dir fs2 target_dir"
        and target: "resolve_candidate fs2 ws ?file = Inr target" by auto
      obtain r3 fs3 where mk3: "mkdir_parents fs2 (butlast target) = (r3, fs3)" by force
      note dirs3 = mkdir_parents_dirs [OF mk3]
      obtain r4 fs4 where wr: "write_file fs3 target content now = (r4, fs4)" by force
      have clean: "clean fs2 ws"
        using ok r1 ws dirs2 workspace_ok_dirs unfolding workspace_ok_def by blast
      show ?thesis
      proof (cases "(\<exists>u. r3 = Inr u) \<and> (\<exists>u. r4 = Inr u)")
        case False
        with up sane root ws dir mk r2 d target mk3 wr dirs2 dirs3 show ?thesis
          by (auto simp: save_upload_def and_then_def dest!: write_file_Inl intro: dirs_added_trans split: sum.splits)
      next
        case True
        then have r3: "r3 = Inr ()" and "r4 = Inr ()" by auto
        with wr obtain q where q: "kernel fs3 True target = Found q \<and> node_at fs3 q \<noteq> Some Dir_node \<or>
            kernel fs3 True target = Absent q" and nonempty: "q \<noteq> []"
          and fs4: "fs4 = dict_set q (File_node content now) fs3" by (blast dest: write_file_Inr)
        have "prefix ws q" using candidate_reaches_later [OF target clean dirs3] q by blast
        with nonempty fs4 dirs2 dirs3 r1 ws have stored: "uploaded svc g content now fs fs4 q"
          unfolding uploaded_def by (blast intro: dirs_added_trans)
        have size: "sz = length content" if "path_stat dir_stat fs4 target = Inr (sz, m)" for sz m
        proof -
          from that obtain q' where q': "kernel fs4 True target = Found q'"
            by (auto simp: path_stat_def split: walk_result.splits)
          have "same_links fs3 fs4"
          proof -
            have "no_link fs3 q" using q kernel_reaches_clean [of fs3 target q] kernel_Absent [of fs3 True target q]
              by (auto simp: clean_def)
            with fs4 nonempty show ?thesis by (auto simp: same_links_def no_link_def)
          qed
          moreover from q obtain k where "res fs3 [] target k q"
            using walk_res [of fs3 "[]" target 40 q] by (auto simp: kernel_def)
          ultimately have "res fs4 [] target k q" by (blast intro: res_same_links)
          moreover from q' obtain k' where "res fs4 [] target k' q'"
            using walk_res [of fs4 "[]" target 40 q'] by (auto simp: kernel_def)
          ultimately have "q' = q" by (blast dest: res_deterministic)
          with that q' fs4 nonempty show ?thesis by (simp add: path_stat_def)
        qed
        have "fs' = fs4 \<and> (\<forall>entry. r = Inr entry \<longrightarrow> entry_type entry = ''file'' \<and> entry_size entry = length content)"
          using up sane root ws dir mk r2 d target mk3 r3 wr \<open>r4 = Inr ()\<close> size
          by (auto simp: save_upload_def and_then_def split: sum.splits)
        with stored sane show ?thesis by auto
      qed
    qed
  qed
qed

text \<open>C26: An upload writes one file and that file lies in the workspace, whatever links the workspace holds and
  whatever directory and file name the request gives: outside of the workspace nothing changes, except that
  missing directories can appear. A successful upload has stored exactly the content, within the size limit,
  under one path, and reports its size.\<close>

theorem upload_confined:
  assumes "workspace_ok svc fs g"
    and "save_upload dir_stat svc fs g cur name content now = (r, fs')"
  shows "(\<forall>p. \<not> prefix (groups_root svc @ [g]) p \<longrightarrow>
      node_at fs' p = node_at fs p \<or> node_at fs p = None \<and> node_at fs' p = Some Dir_node) \<and>
    (\<forall>entry. r = Inr entry \<longrightarrow>
      length content \<le> max_upload_size_bytes svc \<and> entry_type entry = ''file'' \<and> entry_size entry = length content \<and>
      (\<exists>q. prefix (groups_root svc @ [g]) q \<and> node_at fs' q = Some (File_node content now) \<and>
         (\<forall>p. p \<noteq> q \<longrightarrow> node_at fs' p = node_at fs p \<or> node_at fs p = None \<and> node_at fs' p = Some Dir_node)))"
  using save_upload_effect [OF assms]
proof (elim disjE exE conjE)
  fix e
  assume "dirs_added fs fs'" "r = Inl e"
  then show ?thesis by (simp add: dirs_added_def)
next
  fix q
  assume up: "uploaded svc g content now fs fs' q"
    and entry: "\<forall>entry. r = Inr entry \<longrightarrow> entry_type entry = ''file'' \<and> entry_size entry = length content \<and>
      length content \<le> max_upload_size_bytes svc"
  from up have q: "prefix (workspace_dir svc g) q" "node_at fs' q = Some (File_node content now)"
    and others: "p \<noteq> q \<Longrightarrow> node_at fs' p = node_at fs p \<or> node_at fs p = None \<and> node_at fs' p = Some Dir_node" for p
    by (auto simp: uploaded_def dirs_added_def)
  then have "\<not> prefix (workspace_dir svc g) p \<Longrightarrow>
      node_at fs' p = node_at fs p \<or> node_at fs p = None \<and> node_at fs' p = Some Dir_node" for p by metis
  with entry q others show ?thesis by blast
qed

section \<open>Editing\<close>

lemma path_suffix_name:
  assumes "path_suffix p \<noteq> []"
  shows "take (length (path_name p) - length (path_suffix p)) (path_name p) @ path_suffix p = path_name p"
    and "p \<noteq> []" and "last p \<noteq> ''..''"
proof -
  let ?n = "path_name p" and ?ext = "rev (takeWhile (\<lambda>c. c \<noteq> CHR ''.'') (rev (path_name p)))"
  let ?rest = "dropWhile (\<lambda>c. c \<noteq> CHR ''.'') (rev ?n)"
  from assms have sfx: "path_suffix p = CHR ''.'' # ?ext" and long: "Suc (length ?ext) < length ?n"
    by (auto simp: path_suffix_def Let_def split: if_splits)
  have split: "?n = rev ?rest @ ?ext" by (metis rev_append rev_rev_ident takeWhile_dropWhile_id)
  then have "length ?n = length ?rest + length ?ext" by (metis length_append length_rev)
  with long have "0 < length ?rest" by linarith
  then have "?rest \<noteq> []" by (rule length_greater_0_conv [THEN iffD1])
  from hd_dropWhile [OF this] obtain zs where rest: "?rest = CHR ''.'' # zs"
    using \<open>?rest \<noteq> []\<close> by (cases ?rest) simp_all
  with split sfx have "?n = rev zs @ path_suffix p" by simp
  then show "take (length ?n - length (path_suffix p)) ?n @ path_suffix p = ?n" by (metis append_eq_conv_conj length_append add_diff_cancel_right')
  show "p \<noteq> []" using long by (auto simp: path_name_def)
  show "last p \<noteq> ''..''"
  proof
    assume "last p = ''..''"
    with assms \<open>p \<noteq> []\<close> show False by (simp add: path_suffix_def path_name_def)
  qed
qed

lemma temp_path_name: "path_suffix p \<noteq> [] \<Longrightarrow> temp_path p = butlast p @ [last p @ ''.tmp'']"
  using path_suffix_name [of p] by (simp add: temp_path_def with_suffix_def path_name_def flip: append.assoc)

lemma text_file_suffix: "ensure_text_file p = None \<Longrightarrow> path_suffix p \<noteq> []"
  by (auto simp: ensure_text_file_def text_file_extensions_def py_lower_def split: if_splits)

text \<open>The workspace's directory exists, and the file system is a tree.\<close>

definition workspace_ready :: "workspace_file_service \<Rightarrow> filesys \<Rightarrow> string \<Rightarrow> bool" where
  "workspace_ready svc fs g \<longleftrightarrow>
     workspace_ok svc fs g \<and> tree fs \<and> node_at fs (workspace_dir svc g) = Some Dir_node"

lemma ready_root:
  assumes "workspace_ready svc fs g" and "workspace_root svc fs g = (r, fs')"
  shows "fs' = fs \<and> (\<forall>ws. r = Inr ws \<longrightarrow> ws = workspace_dir svc g)"
proof (rule workspace_root_ready [OF _ _ assms(2)])
  show "workspace_ok svc fs g" using assms(1) by (simp add: workspace_ready_def)
  then show "path_is_dir fs (workspace_dir svc g)"
    using assms(1) clean_is_dir unfolding workspace_ready_def workspace_ok_def by blast
qed

lemma ready_existing_file:
  assumes "workspace_ready svc fs g" and "resolve_existing_file svc fs g p = (r, fs')"
  shows "fs' = fs"
proof -
  obtain r1 fs1 where "workspace_root svc fs g = (r1, fs1)" by force
  moreover from ready_root [OF assms(1) this] have "fs1 = fs" by blast
  ultimately show ?thesis
    using assms(2) by (auto simp: resolve_existing_file_def and_then_def split: sum.splits if_splits)
qed

text \<open>The last name of a path is not a link: following it or not makes no difference.\<close>

definition direct :: "filesys \<Rightarrow> path \<Rightarrow> bool" where
  "direct fs p \<longleftrightarrow> kernel fs False p = kernel fs True p"

text \<open>One file is replaced; another, the temporary one, is gone.\<close>

definition replaced :: "filesys \<Rightarrow> filesys \<Rightarrow> path \<Rightarrow> path \<Rightarrow> fs_node \<Rightarrow> bool" where
  "replaced fs fs' q r v \<longleftrightarrow>
     node_at fs' q = Some v \<and> node_at fs' r = None \<and> (\<forall>p. p \<noteq> q \<and> p \<noteq> r \<longrightarrow> node_at fs' p = node_at fs p)"

lemma move_replaces:
  assumes tree: "tree fs" and q: "\<exists>b t. node_at fs q = Some (File_node b t)"
    and r: "node_at fs r = None \<and> node_at fs (butlast r) = Some Dir_node \<or> (\<exists>b t. node_at fs r = Some (File_node b t))"
    and apart: "\<not> prefix r q" "\<not> prefix q r" and "r \<noteq> []"
  shows "replaced fs (move_tree r q (dict_set r (File_node bytes now) fs)) q r (File_node bytes now)"
proof -
  let ?fs = "dict_set r (File_node bytes now) fs"
  have "q \<noteq> []" "q \<noteq> r" using apart by auto
  have qn: "node_at fs q \<noteq> Some Dir_node" and rn: "node_at fs r \<noteq> Some Dir_node" using q r by auto
  have below_q: "node_at fs p = None" if "strict_prefix q p" for p
    using not_below [OF tree _ that] qn by simp
  have below_r: "node_at fs p = None" if "strict_prefix r p" for p
    using not_below [OF tree _ that] rn by simp
  have below: "node_at ?fs p = None" if "strict_prefix q p" for p
    using below_q [OF that] that apart \<open>r \<noteq> []\<close> by auto
  with apart \<open>q \<noteq> []\<close> \<open>r \<noteq> []\<close> have m: "movable ?fs r q" by (simp add: movable_def)
  have "node_at (move_tree r q ?fs) p = node_at fs p" if "p \<noteq> q" "p \<noteq> r" for p
  proof (cases "prefix q p")
    case True
    then obtain xs where xs: "p = q @ xs" "xs \<noteq> []" using \<open>p \<noteq> q\<close> by (auto simp: prefix_def)
    then have "node_at fs p = None" "node_at fs (r @ xs) = None"
      using below_q [of p] below_r [of "r @ xs"] by (auto simp: strict_prefix_def)
    with xs \<open>r \<noteq> []\<close> show ?thesis by (simp add: node_at_move [OF m])
  next
    case False
    then show ?thesis
      using that \<open>r \<noteq> []\<close> below_r [of p] by (auto simp: node_at_move [OF m] strict_prefix_def)
  qed
  then show ?thesis
    using apart \<open>r \<noteq> []\<close> by (simp add: replaced_def node_at_move [OF m])
qed

lemma replaced_keeps:
  assumes "replaced fs fs' q r v" and "\<exists>b t. node_at fs q = Some (File_node b t)"
    and "node_at fs r = None \<or> (\<exists>b t. node_at fs r = Some (File_node b t))" and "\<exists>b t. v = File_node b t"
  shows "\<And>p w. node_at fs p = Some w \<Longrightarrow> (\<forall>b t. w \<noteq> File_node b t) \<Longrightarrow> node_at fs' p = Some w"
    and "same_links fs fs'"
proof -
  show keeps: "node_at fs' p = Some w" if "node_at fs p = Some w" "\<forall>b t. w \<noteq> File_node b t" for p w
    using assms that unfolding replaced_def by (metis option.distinct(1) option.inject)
  show "same_links fs fs'"
    unfolding same_links_def using assms(1,4) keeps unfolding replaced_def
    by (metis fs_node.distinct(3) option.distinct(1) option.inject)
qed

text \<open>The two places that an edit of a text file touches: the file and its neighbour.\<close>

lemma edit_places:
  assumes ready: "workspace_ready svc fs g"
    and found: "resolve_existing_file svc fs g p = (Inr target, fs)"
    and is_text: "ensure_text_file target = None"
    and direct: "direct fs target" "direct fs (temp_path target)"
  shows "\<exists>k d. res fs [] (butlast target) k d \<and> prefix (workspace_dir svc g) d \<and>
    kernel fs True target = Found (d @ [last target]) \<and>
    (\<exists>b t. node_at fs (d @ [last target]) = Some (File_node b t))"
proof -
  let ?ws = "workspace_dir svc g"
  from ready have ok: "workspace_ok svc fs g" and tree: "tree fs" and dir: "node_at fs ?ws = Some Dir_node"
    by (auto simp: workspace_ready_def)
  from existing_file [OF ok found] obtain q where q: "kernel fs True target = Found q" "prefix ?ws q"
    "node_at fs q \<noteq> Some Dir_node" by blast
  note name = path_suffix_name(2,3) [OF text_file_suffix [OF is_text]]
  from q(1) direct(1) name have "kernel fs False (butlast target @ [last target]) = Found q" by (simp add: direct_def)
  from kernel_last_name [OF disjI1 [OF this] name(2)] obtain k d where
    d: "res fs [] (butlast target) k d" "q = d @ [last target]" by blast
  have "q \<noteq> ?ws" using q(3) dir by auto
  with q(2) d(2) have "prefix ?ws d" by (auto simp: prefix_snoc)
  moreover have "\<exists>b t. node_at fs q = Some (File_node b t)"
  proof -
    have "no_link fs q" using q(1) kernel_reaches_clean [of fs target q] by (simp add: clean_def)
    moreover obtain v where "node_at fs q = Some v" using kernel_in_tree(1) [OF tree q(1)] by blast
    ultimately show ?thesis using q(3) by (cases v) (auto simp: no_link_def)
  qed
  ultimately show ?thesis using d q(1) by blast
qed

lemma temp_file_place:
  assumes d: "res fs [] (butlast target) k d" and sfx: "path_suffix target \<noteq> []"
    and direct: "direct fs (temp_path target)" and tree: "tree fs"
    and written: "write_file fs (temp_path target) bytes now = (Inr u, fs')"
  shows "let r = d @ [last target @ ''.tmp''] in
    fs' = dict_set r (File_node bytes now) fs \<and>
    (node_at fs r = None \<and> node_at fs (butlast r) = Some Dir_node \<or> (\<exists>b t. node_at fs r = Some (File_node b t)))"
proof -
  from write_file_Inr [OF written] obtain r where
    r: "kernel fs True (temp_path target) = Found r \<and> node_at fs r \<noteq> Some Dir_node \<or>
        kernel fs True (temp_path target) = Absent r" and fs': "fs' = dict_set r (File_node bytes now) fs" by blast
  have dots: "last target @ ''.tmp'' \<noteq> ''..''" by (cases "last target") auto
  from r direct have "kernel fs False (butlast target @ [last target @ ''.tmp'']) = Found r \<or>
      kernel fs False (butlast target @ [last target @ ''.tmp'']) = Absent r"
    by (auto simp: direct_def temp_path_name [OF sfx])
  from kernel_last_name [OF this dots] d have rd: "r = d @ [last target @ ''.tmp'']" by (auto dest: res_deterministic)
  have "node_at fs r = None \<and> node_at fs (butlast r) = Some Dir_node \<or> (\<exists>b t. node_at fs r = Some (File_node b t))"
  proof (cases "node_at fs r")
    case None
    with r kernel_in_tree [OF tree] show ?thesis by blast
  next
    case (Some v)
    with r have v: "v \<noteq> Dir_node" "kernel fs True (temp_path target) = Found r" by (auto dest: kernel_Absent)
    then have "no_link fs r" using kernel_reaches_clean by (auto simp: clean_def)
    with Some v(1) show ?thesis by (cases v) (auto simp: no_link_def)
  qed
  with rd fs' show ?thesis by (simp add: Let_def)
qed

lemma write_text_content_effect:
  assumes ready: "workspace_ready svc fs g"
    and target: "target = path_join (workspace_dir svc g) (normalize_current_path p)"
    and direct: "direct fs target" "direct fs (temp_path target)"
    and wrote: "write_text_content svc fs g p content now = (r, fs')"
  shows "same_outside (workspace_dir svc g) fs fs' \<and>
    (\<forall>doc. r = Inr doc \<longrightarrow>
       text_content doc = content \<and> text_size doc = length (utf8_bytes content) \<and>
       length (utf8_bytes content) \<le> max_text_file_size_bytes svc \<and>
       (\<exists>ws q tmp. workspace_root svc fs' g = (Inr ws, fs') \<and> relative_posix target ws = Inr (text_path doc) \<and>
         resolve_existing_file svc fs g p = (Inr target, fs) \<and> ensure_text_file target = None \<and>
         kernel fs True target = Found q \<and> (\<exists>b t. node_at fs q = Some (File_node b t)) \<and>
         (node_at fs tmp = None \<or> (\<exists>b t. node_at fs tmp = Some (File_node b t))) \<and> tree fs' \<and>
         replaced fs fs' q tmp (File_node (utf8_bytes content) now)))"
proof -
  let ?ws = "workspace_dir svc g" and ?bytes = "utf8_bytes content"
  from ready have ok: "workspace_ok svc fs g" and tree: "tree fs" and dir: "node_at fs ?ws = Some Dir_node"
    by (auto simp: workspace_ready_def)
  obtain r1 fs1 where file1: "resolve_existing_file svc fs g p = (r1, fs1)" by force
  with ready have fs1: "fs1 = fs" by (blast dest: ready_existing_file)
  show ?thesis
  proof (cases "r1 = Inr target \<and> ensure_text_file target = None \<and> length ?bytes \<le> max_text_file_size_bytes svc")
    case False
    have "fs' = fs \<and> (\<exists>e. r = Inl e)"
    proof (cases r1)
      case (Inl e)
      with wrote file1 fs1 show ?thesis by (auto simp: write_text_content_def and_then_def)
    next
      case (Inr t)
      with existing_file [OF ok] file1 target have "t = target" by blast
      with Inr False wrote file1 fs1 show ?thesis
        by (cases "ensure_text_file target") (auto simp: write_text_content_def and_then_def Let_def not_le)
    qed
    then show ?thesis by auto
  next
    case True
    then have r1: "resolve_existing_file svc fs g p = (Inr target, fs)" and is_text: "ensure_text_file target = None"
      and small: "length ?bytes \<le> max_text_file_size_bytes svc" using file1 fs1 by auto
    note sfx = text_file_suffix [OF is_text]
    from edit_places [OF ready r1 is_text direct] obtain k d where d: "res fs [] (butlast target) k d" "prefix ?ws d"
      "kernel fs True target = Found (d @ [last target])" and qf: "\<exists>b t. node_at fs (d @ [last target]) = Some (File_node b t)"
      by blast
    let ?q = "d @ [last target]" and ?r = "d @ [last target @ ''.tmp'']"
    obtain r2 fs2 where wr: "write_file fs (temp_path target) ?bytes now = (r2, fs2)" by force
    show ?thesis
    proof (cases r2)
      case (Inl e)
      with wr wrote r1 is_text small have "fs' = fs \<and> r = Inl e"
        by (auto simp: write_text_content_def and_then_def Let_def dest: write_file_Inl)
      then show ?thesis by simp
    next
      case (Inr u)
      with temp_file_place [OF d(1) sfx direct(2) tree] wr
      have fs2: "fs2 = dict_set ?r (File_node ?bytes now) fs"
        and rf: "node_at fs ?r = None \<and> node_at fs (butlast ?r) = Some Dir_node \<or> (\<exists>b t. node_at fs ?r = Some (File_node b t))"
        by (auto simp: Let_def)
      have tree2: "tree fs2" using tree wr by (rule write_file_tree)
      have outside2: "same_outside ?ws fs fs2" unfolding fs2 using d(2) by (intro same_outside_set) (auto simp: prefix_def)
      have links2: "same_links fs fs2" unfolding fs2 using rf by (auto simp: same_links_def)
      obtain r3 fs3 where mv: "os_rename fs2 (temp_path target) target = (r3, fs3)" by force
      have places: "a = ?r" if "kernel fs2 False (temp_path target) = Found a" for a
      proof -
        have dots: "last target @ ''.tmp'' \<noteq> ''..''" by (cases "last target") auto
        from that have "kernel fs2 False (butlast target @ [last target @ ''.tmp'']) = Found a"
          by (simp add: temp_path_name [OF sfx])
        from kernel_last_name [OF disjI1 [OF this] dots] res_same_links [OF d(1) links2] show ?thesis
          by (auto dest: res_deterministic)
      qed
      have place: "b = ?q" if "kernel fs2 False target = Found b \<or> kernel fs2 False target = Absent b" for b
      proof -
        from that path_suffix_name(2) [OF sfx] have "kernel fs2 False (butlast target @ [last target]) = Found b \<or>
            kernel fs2 False (butlast target @ [last target]) = Absent b" by simp
        from kernel_last_name [OF this path_suffix_name(3) [OF sfx]] res_same_links [OF d(1) links2] show ?thesis
          by (auto dest: res_deterministic)
      qed
      have apart: "\<not> prefix ?r ?q" "\<not> prefix ?q ?r" "?r \<noteq> []" by (auto simp: prefix_def)
      have moved: "fs3 = fs2 \<and> (\<exists>e. r3 = Inl e) \<or> r3 = Inr () \<and> fs3 = move_tree ?r ?q fs2"
        using mv places place apart by (auto simp: os_rename_def split: walk_result.splits if_splits)
      show ?thesis
      proof (cases r3)
        case (Inl e)
        with moved have "fs3 = fs2" by auto
        with Inl mv wr \<open>r2 = Inr u\<close> wrote r1 is_text small have "fs' = fs2 \<and> r = Inl e"
          by (auto simp: write_text_content_def and_then_def Let_def)
        with outside2 show ?thesis by simp
      next
        case (Inr u3)
        with moved have fs3: "fs3 = move_tree ?r ?q fs2" by auto
        have rep: "replaced fs fs3 ?q ?r (File_node ?bytes now)"
          unfolding fs3 fs2 using move_replaces [OF tree qf rf apart(1,2,3)] .
        have outside3: "same_outside ?ws fs fs3"
          using rep prefix_prefix [OF d(2)] unfolding replaced_def same_outside_def by metis
        have tree3: "tree fs3" using tree2 mv by (rule os_rename_tree)
        note keeps = replaced_keeps [OF rep qf]
        have "node_at fs3 ?ws = Some Dir_node" using keeps(1) rf dir by auto
        moreover have "workspace_ok svc fs3 g"
          using ok same_links_clean [OF keeps(2)] rf unfolding workspace_ok_def by blast
        ultimately have ready3: "workspace_ready svc fs3 g" using tree3 by (simp add: workspace_ready_def)
        obtain r4 fs4 where root: "workspace_root svc fs3 g = (r4, fs4)" by force
        with ready_root [OF ready3] have fs4: "fs4 = fs3" by blast
        have "fs' = fs3 \<and> (\<forall>doc. r = Inr doc \<longrightarrow> text_content doc = content \<and> text_size doc = length ?bytes \<and>
            (\<exists>ws. r4 = Inr ws \<and> relative_posix target ws = Inr (text_path doc)))"
          using wrote r1 is_text small wr \<open>r2 = Inr u\<close> mv Inr root fs4
          by (auto simp: write_text_content_def and_then_def Let_def split: sum.splits)
        moreover have "node_at fs ?r = None \<or> (\<exists>b t. node_at fs ?r = Some (File_node b t))" using rf by blast
        ultimately show ?thesis
          using outside3 rep tree3 r1 is_text small d(3) qf root fs4 by metis
      qed
    qed
  qed
qed

text \<open>C27: Editing a text file: when neither the path that a request gives nor its temporary neighbour is a link,
  nothing outside the workspace changes, whatever happens; and after a success the file can be read back at the
  same path with the content that was written, line ends translated, and with the size that was reported.\<close>

theorem edit_roundtrip:
  assumes ready: "workspace_ready svc fs g"
    and target: "target = path_join (groups_root svc @ [g]) (normalize_current_path p)"
    and direct: "direct fs target" "direct fs (temp_path target)"
    and wrote: "write_text_content svc fs g p content now = (r, fs')"
  shows "same_outside (groups_root svc @ [g]) fs fs' \<and>
    (\<forall>doc. r = Inr doc \<longrightarrow> text_content doc = content \<and>
       read_text_content dir_stat svc fs' g p =
         (Inr \<lparr>text_path = text_path doc, text_content = universal_newlines content, text_size = text_size doc\<rparr>, fs'))"
proof (intro conjI allI impI)
  note effect = write_text_content_effect [OF assms]
  show "same_outside (workspace_dir svc g) fs fs'" using effect by blast
  fix doc
  assume "r = Inr doc"
  with effect obtain ws q tmp where content: "text_content doc = content" "text_size doc = length (utf8_bytes content)"
      "length (utf8_bytes content) \<le> max_text_file_size_bytes svc"
    and root: "workspace_root svc fs' g = (Inr ws, fs')" and rel: "relative_posix target ws = Inr (text_path doc)"
    and found: "resolve_existing_file svc fs g p = (Inr target, fs)" and is_text: "ensure_text_file target = None"
    and q: "kernel fs True target = Found q" "\<exists>b t. node_at fs q = Some (File_node b t)"
    and tmp: "node_at fs tmp = None \<or> (\<exists>b t. node_at fs tmp = Some (File_node b t))" and tree: "tree fs'"
    and rep: "replaced fs fs' q tmp (File_node (utf8_bytes content) now)" by blast
  show "text_content doc = content" by (rule content)
  have "r0 = Inr ws0 \<Longrightarrow> ws0 = workspace_dir svc g" if "workspace_root svc fs g = (r0, fs0)" for r0 ws0 fs0
    using ready_root [OF ready that] by blast
  with found obtain ws0 where cand: "resolve_candidate fs ws0 p = Inr target" "ws0 = workspace_dir svc g"
    by (auto simp: resolve_existing_file_def dest!: and_then_Inr split: sum.splits if_splits)
  note keeps = replaced_keeps [OF rep q(2) tmp]
  have q': "node_at fs' q = Some (File_node (utf8_bytes content) now)" using rep by (simp add: replaced_def)
  have reach: "kernel fs' True target = Found q"
    unfolding kernel_def by (rule walk_keeps [of fs]) (use q keeps q' in \<open>auto simp: kernel_def\<close>)
  have ws: "ws = workspace_dir svc g"
  proof -
    have "workspace_ok svc fs' g"
      using ready same_links_clean [OF keeps(2)] unfolding workspace_ready_def workspace_ok_def by blast
    then show ?thesis using workspace_root_ok [OF _ root] by blast
  qed
  from resolve_candidate_Inr [OF cand(1)] cand(2) obtain q0 where
    q0: "path_resolve fs target = Inr q0" "validate_path fs q0 [ws] = Inr True" using ws by blast
  have "q0 = q" using q0(1) q(1) kernel_follows_resolve by blast
  have clean: "clean fs' q" using reach kernel_reaches_clean by blast
  have "path_resolve fs' target = Inr q" using reach resolve_no_null [OF q0(1)] by (rule resolve_reached)
  moreover have "validate_path fs' q [ws] = Inr True"
  proof -
    from q0(2) \<open>q0 = q\<close> obtain q1 w1 where v: "path_resolve fs q = Inr q1" "path_resolve fs ws = Inr w1" "prefix w1 q1"
      by (auto simp: validate_path_def relative_to_def split: sum.splits if_splits)
    have c: "clean fs ws" using ready ws unfolding workspace_ready_def workspace_ok_def by blast
    then have c': "clean fs' ws" using same_links_clean [OF keeps(2)] by blast
    have "node_at fs' ws = Some Dir_node" using ready ws keeps(1) unfolding workspace_ready_def by simp
    note dir = this c c'
    have "w1 = ws" "q1 = q" using v(1,2) dir(2) kernel_reaches_clean q(1) clean_resolve by blast+
    moreover have "path_resolve fs' q = Inr q" "path_resolve fs' ws = Inr ws"
      using kernel_clean_exists [OF tree clean] kernel_clean_exists [OF tree dir(3)] q' dir(1) v(1,2)
      by (auto intro!: resolve_reached dest: resolve_no_null)
    ultimately show ?thesis using v(3) by (simp add: validate_path_def relative_to_def)
  qed
  ultimately have cand': "resolve_candidate fs' ws p = Inr target"
    using resolve_candidate_Inr [OF cand(1)] cand(2) ws by (simp add: resolve_candidate_def)
  have "resolve_existing_file svc fs' g p = (Inr target, fs')"
    using root cand' reach q' by (simp add: resolve_existing_file_def and_then_def path_exists_def path_is_dir_def)
  then show "read_text_content dir_stat svc fs' g p =
      (Inr \<lparr>text_path = text_path doc, text_content = universal_newlines content, text_size = text_size doc\<rparr>, fs')"
    using is_text root rel reach q' content
    by (simp add: read_text_content_def and_then_def path_stat_def read_text_def read_file_def utf8_roundtrip)
qed

section \<open>Deleting\<close>

text \<open>The node \<open>q\<close> and all below it are gone, nothing else has changed.\<close>

definition removed :: "filesys \<Rightarrow> filesys \<Rightarrow> path \<Rightarrow> bool" where
  "removed fs fs' q \<longleftrightarrow> (\<forall>x. node_at fs' x = (if prefix q x then None else node_at fs x))"

lemma unlink_removes:
  assumes "tree fs" and "path_unlink fs p = (r, fs')" and "kernel fs False p = Found q"
  shows "fs' = fs \<or> removed fs fs' q"
proof (cases "node_at fs q = Some Dir_node")
  case False
  then have "q \<noteq> []" by auto
  have "node_at fs x = None" if "prefix q x" "x \<noteq> q" for x
    using not_below [OF assms(1), of q x] False that by (simp add: strict_prefix_def)
  with \<open>q \<noteq> []\<close> have "removed fs (dict_pop q fs) q" by (simp add: removed_def)
  moreover have "fs' = dict_pop q fs" using False assms(2,3) by (simp add: path_unlink_def)
  ultimately show ?thesis by simp
qed (use assms in \<open>auto simp: path_unlink_def\<close>)

lemma rmtree_removes:
  assumes "rmtree fs p = (r, fs')" and q: "kernel fs False p = Found q" and "q \<noteq> []"
  shows "(\<forall>x. \<not> prefix q x \<longrightarrow> node_at fs' x = node_at fs x) \<and> (r = Inr () \<longrightarrow> removed fs fs' q)"
proof (cases "node_at fs q = Some Dir_node")
  case True
  then have rm: "os_rmdir (empty_tree fs q) p = (r, fs')" using assms by (simp add: rmtree_def)
  have same: "a = q" if "kernel (empty_tree fs q) False p = Found a" for a
  proof -
    from that have "walk fs False [] p 40 = Found a"
      unfolding kernel_def by (rule walk_fewer) (auto split: if_splits)
    with q show ?thesis by (simp add: kernel_def)
  qed
  have "fs' = empty_tree fs q \<and> (\<exists>e. r = Inl e) \<or> fs' = dict_pop q (empty_tree fs q)"
    using rm same by (auto simp: os_rmdir_def split: walk_result.splits if_splits)
  then show ?thesis using \<open>q \<noteq> []\<close> by (auto simp: removed_def strict_prefix_def)
qed (use assms in \<open>auto simp: rmtree_def split: option.splits fs_node.splits\<close>)

text \<open>C28: A deletion stays in the workspace: when the path that a request gives does not name a link, nothing
  outside the workspace's directory changes, whatever the links on the way; and a success has removed what the
  path leads to with everything below it, and nothing else.\<close>

theorem delete_confined:
  assumes ready: "workspace_ready svc fs g"
    and target: "target = path_join (groups_root svc @ [g]) (normalize_current_path (normalize_current_path p))"
    and direct: "direct fs target"
    and deleted: "delete_path svc fs g p = (r, fs')"
  shows "same_outside (groups_root svc @ [g]) fs fs' \<and>
    (r = Inr () \<longrightarrow> (\<exists>q. kernel fs True target = Found q \<and> removed fs fs' q))"
proof -
  let ?ws = "workspace_dir svc g" and ?n = "normalize_current_path p"
  from ready have tree: "tree fs" and clean: "clean fs ?ws" by (auto simp: workspace_ready_def workspace_ok_def simp del: clean_snoc)
  obtain r1 fs1 where root: "workspace_root svc fs g = (r1, fs1)" by force
  with ready_root [OF ready root] have fs1: "fs1 = fs" by blast
  show ?thesis
  proof (cases "r1 = Inr ?ws \<and> ?n \<noteq> [] \<and> resolve_candidate fs ?ws ?n = Inr target \<and> path_exists fs target")
    case False
    have "fs' = fs \<and> (\<exists>e. r = Inl e)"
    proof (cases r1)
      case (Inl e)
      with deleted root fs1 show ?thesis by (auto simp: delete_path_def and_then_def)
    next
      case (Inr ws)
      with ready_root [OF ready root] have ws: "ws = ?ws" by blast
      show ?thesis
      proof (cases "resolve_candidate fs ?ws ?n")
        case (Inl e)
        with deleted root fs1 Inr ws show ?thesis by (auto simp: delete_path_def and_then_def Let_def split: if_splits)
      next
        case cand: (Inr t)
        with target have "t = target" by (auto dest: resolve_candidate_Inr)
        with False deleted root fs1 Inr ws cand show ?thesis
          by (auto simp: delete_path_def and_then_def Let_def split: if_splits)
      qed
    qed
    then show ?thesis by auto
  next
    case True
    then obtain q where q: "kernel fs True target = Found q" by (auto simp: path_exists_Found)
    with direct have q': "kernel fs False target = Found q" by (simp add: direct_def)
    have inside: "prefix ?ws q" using candidate_reaches [of fs ?ws ?n target q] True clean q by blast
    then have "q \<noteq> []" by auto
    have step: "(r, fs') = (if path_is_dir fs target then rmtree fs target else path_unlink fs target)"
      using True deleted root fs1 by (auto simp: delete_path_def and_then_def Let_def)
    have "(\<forall>x. \<not> prefix q x \<longrightarrow> node_at fs' x = node_at fs x) \<and> (r = Inr () \<longrightarrow> removed fs fs' q)"
    proof (cases "path_is_dir fs target")
      case True
      with step have "rmtree fs target = (r, fs')" by simp
      from rmtree_removes [OF this q' \<open>q \<noteq> []\<close>] show ?thesis .
    next
      case False
      with step have un: "path_unlink fs target = (r, fs')" by simp
      have "node_at fs q \<noteq> Some Dir_node" using False q by (simp add: path_is_dir_def)
      with un q' have "fs' = dict_pop q fs" by (auto simp: path_unlink_def)
      moreover have "fs' = fs \<or> removed fs fs' q" using tree un q' by (rule unlink_removes)
      moreover have "node_at fs' q = None" "node_at fs q \<noteq> None"
        using calculation(1) \<open>q \<noteq> []\<close> kernel_in_tree(1) [OF tree q] by simp_all
      ultimately have "removed fs fs' q" by auto
      then show ?thesis by (simp add: removed_def)
    qed
    moreover have "\<not> prefix ?ws x \<Longrightarrow> \<not> prefix q x" for x
      using inside by (auto dest: prefix_order.trans)
    ultimately show ?thesis using q by (auto simp: same_outside_def)
  qed
qed

section \<open>Where the guarantees end\<close>

text \<open>The names of the workspace's directory have no null character, as those of existing directories.\<close>

lemma ready_root_exists:
  assumes ready: "workspace_ready svc fs g" and "\<not> has_null (workspace_dir svc g)"
  shows "workspace_root svc fs g = (Inr (workspace_dir svc g), fs)"
proof -
  let ?ws = "workspace_dir svc g"
  have c: "clean fs ?ws" and j: "path_join (groups_root svc) g = ?ws" and t: "tree fs"
    and d: "node_at fs ?ws = Some Dir_node" using ready unfolding workspace_ready_def workspace_ok_def by blast+
  have "path_resolve fs ?ws = Inr ?ws" using resolve_existing [OF t c _ assms(2)] d by simp
  moreover have "validate_path fs ?ws [groups_root svc] = Inr True"
    using validate_existing [OF t c _ assms(2)] d by simp
  moreover have "mkdir_parents fs ?ws = (Inr (), fs)"
    using mkdir_parents_exists [OF kernel_clean_exists [OF t c]] d clean_is_dir [OF t c] by simp
  ultimately show ?thesis using j by (simp add: workspace_root_def and_then_def)
qed

text \<open>The root of a workspace can be deleted. The guard compares the path with the spellings \<open>.\<close> and the
  empty one before it is brought into its normal form: for those and for slashes the deletion is refused and
  changes nothing, but \<open>./.\<close> names the same directory and passes, and the workspace with everything in it is
  gone.\<close>

theorem workspace_root_deletable:
  assumes ready: "workspace_ready svc fs g" and "\<not> has_null (groups_root svc @ [g])"
  shows "(\<forall>p \<in> {'''', ''.'', ''/'', '' ./ ''}.
      delete_path svc fs g p = (Inl (value_error ''cannot delete workspace root''), fs)) \<and>
    (\<exists>fs'. delete_path svc fs g ''./.'' = (Inr (), fs') \<and> removed fs fs' (groups_root svc @ [g]))"
proof -
  let ?ws = "workspace_dir svc g"
  have c: "clean fs ?ws" and t: "tree fs" and d: "node_at fs ?ws = Some Dir_node"
    using ready unfolding workspace_ready_def workspace_ok_def by blast+
  note root = ready_root_exists [OF assms]
  have norm: "normalize_current_path '''' = []" "normalize_current_path ''.'' = []" "normalize_current_path ''/'' = []"
    "normalize_current_path '' ./ '' = []" "normalize_current_path ''./.'' = ''.''"
    by (simp_all add: path_eval)
  have refused: "delete_path svc fs g p = (Inl (value_error ''cannot delete workspace root''), fs)"
    if "normalize_current_path p = []" for p
    using root that by (simp add: delete_path_def and_then_def)
  have "path_join ?ws (normalize_current_path ''.'') = ?ws" by (simp add: norm path_join_def path_absolute_def path_parts_def py_startswith_def)
  then have "resolve_candidate fs ?ws ''.'' = Inr ?ws"
    using resolve_existing [OF t c _ assms(2)] validate_existing [OF t c _ assms(2)] d
    by (simp add: resolve_candidate_def)
  moreover have "path_exists fs ?ws" "path_is_dir fs ?ws"
    using kernel_clean_exists [OF t c] clean_is_dir [OF t c] d by (simp_all add: path_exists_Found)
  ultimately have del: "delete_path svc fs g ''./.'' = rmtree fs ?ws"
    using root by (simp add: delete_path_def and_then_def norm)
  let ?fs = "empty_tree fs ?ws"
  have "clean ?fs ?ws" using c by (auto simp: clean_def no_link_def strict_prefix_def)
  then have "kernel ?fs False ?ws = Found ?ws"
    using kernel_clean_exists [OF empty_tree_tree [OF t]] d by simp
  moreover have "children ?fs ?ws = []" by (rule children_empty_tree)
  moreover have "g \<noteq> ''..''" using c by simp
  ultimately have "rmtree fs ?ws = (Inr (), dict_pop ?ws ?fs)"
    using kernel_clean_exists [OF t c] d by (simp add: rmtree_def os_rmdir_def)
  moreover have "removed fs (dict_pop ?ws ?fs) ?ws" by (auto simp: removed_def strict_prefix_def)
  ultimately show ?thesis using del refused norm by auto
qed

text \<open>A workspace can make the server write outside. The new text of a file goes to the file's name with
  \<open>.tmp\<close> added, and that path is never checked: when it is a symbolic link to a place outside the workspace, a
  request to write the file stores the content there, reports success, and leaves the link in the place of the
  file.\<close>

theorem temporary_link_followed:
  assumes ready: "workspace_ready svc fs g"
    and f: "path_parts f = [f]" "\<not> path_absolute f" "normalize_current_path f = f" "f \<noteq> ''..''"
      "py_lower (path_suffix [f]) \<in> set text_file_extensions"
    and nulls: "\<not> has_null (groups_root svc @ [g, f])"
    and small: "length (utf8_bytes content) \<le> max_text_file_size_bytes svc"
    and this_file: "node_at fs (groups_root svc @ [g, f]) = Some (File_node old t0)"
    and link: "node_at fs (groups_root svc @ [g, f @ ''.tmp'']) = Some (Link_node True (d @ [x]))"
    and outside: "clean fs (d @ [x])" "node_at fs d = Some Dir_node" "\<not> prefix (groups_root svc @ [g]) (d @ [x])"
      "node_at fs (d @ [x]) = None \<or> node_at fs (d @ [x]) = Some (File_node old1 t1)"
  shows "\<exists>fs'. write_text_content svc fs g f content now =
        (Inr \<lparr>text_path = f, text_content = content, text_size = length (utf8_bytes content)\<rparr>, fs') \<and>
      node_at fs' (d @ [x]) = Some (File_node (utf8_bytes content) now) \<and>
      node_at fs' (groups_root svc @ [g, f]) = Some (Link_node True (d @ [x]))"
proof -
  let ?ws = "workspace_dir svc g" and ?o = "d @ [x]" and ?bytes = "utf8_bytes content"
  let ?q = "?ws @ [f]" and ?r = "?ws @ [f @ ''.tmp'']"
  have c: "clean fs ?ws" and t: "tree fs" and dir: "node_at fs ?ws = Some Dir_node" and ok: "workspace_ok svc fs g"
    using ready unfolding workspace_ready_def workspace_ok_def by blast+
  from this_file link have q: "node_at fs ?q = Some (File_node old t0)" and r: "node_at fs ?r = Some (Link_node True ?o)"
    by simp_all
  from nulls have nulls': "\<not> has_null ?q" "\<not> has_null ?ws" by (simp_all add: has_null_def)
  have cq: "clean fs ?q" unfolding clean_snoc [of fs ?ws f] using c f(4) q by (simp add: no_link_def del: append_assoc)
  have dots: "f @ ''.tmp'' \<noteq> ''..''" by (cases f) auto
  have sfx: "path_suffix ?q = path_suffix [f]" by (simp add: path_suffix_def path_name_def)
  have is_text: "ensure_text_file ?q = None" unfolding ensure_text_file_def sfx using f(5) by simp
  have tmp: "temp_path ?q = ?r" using temp_path_name [OF text_file_suffix [OF is_text]] by (simp add: butlast_append)
  note root = ready_root_exists [OF ready nulls'(2)]
  have "path_join ?ws (normalize_current_path f) = ?q" by (simp add: f(1,2,3) path_join_def)
  then have "resolve_candidate fs ?ws f = Inr ?q"
    using resolve_existing [OF t cq _ nulls'(1)] validate_existing [OF t cq _ nulls'(1), of ?ws] q
    by (simp add: resolve_candidate_def)
  moreover have "kernel fs True ?q = Found ?q" using kernel_clean_exists [OF t cq] q by simp
  ultimately have file1: "resolve_existing_file svc fs g f = (Inr ?q, fs)"
    using root q by (simp add: resolve_existing_file_def and_then_def path_exists_def path_is_dir_def)
  have o_reached: "walk fs True [] ?o 39 = Found ?o \<or> walk fs True [] ?o 39 = Absent ?o"
  proof (cases "node_at fs ?o")
    case None
    have "walk fs True [] d 39 = Found d"
      using walk_clean_exists [OF t, of "[]" d True 39] outside(1,2) by simp
    with outside(1,2) have "walk fs True [] (d @ [x]) 39 = walk fs True d [x] 39"
      using walk_into [of fs "[]" d 39 True "[x]"] by simp
    with None outside(1) show ?thesis by simp
  next
    case (Some v)
    then show ?thesis using walk_clean_exists [OF t, of "[]" ?o True 39] outside(1) by simp
  qed
  have "kernel fs True ?r = walk fs True [] ?o 39"
    using kernel_into(1) [of fs ?ws True "[f @ ''.tmp'']"] clean_is_dir [OF t c] dir c r dots
    by (simp add: link_base_def)
  with o_reached outside(4) have wr: "write_file fs ?r ?bytes now = (Inr (), dict_set ?o (File_node ?bytes now) fs)"
    by (auto simp: write_file_def)
  let ?fs = "dict_set ?o (File_node ?bytes now) fs"
  have apart: "?ws \<noteq> ?o" "?q \<noteq> ?o" "?r \<noteq> ?o" using outside(3) by (auto simp: prefix_def)
  have links: "same_links fs ?fs" using outside(4) by (auto simp: same_links_def)
  have t2: "tree ?fs" using t wr by (rule write_file_tree)
  have c2: "clean ?fs ?ws" using c same_links_clean [OF links] by blast
  have n2: "node_at ?fs ?ws = Some Dir_node" "node_at ?fs ?q = Some (File_node old t0)"
    "node_at ?fs ?r = Some (Link_node True ?o)" using dir q r apart by auto
  have "kernel ?fs False ?q = Found ?q" "kernel ?fs False ?r = Found ?r"
    using kernel_into(1) [of ?fs ?ws False] clean_is_dir [OF t2 c2] c2 n2 f(4) dots by simp_all
  then have mv: "os_rename ?fs ?r ?q = (Inr (), move_tree ?r ?q ?fs)"
    using n2 by (simp add: os_rename_def)
  have m: "movable ?fs ?r ?q"
    using not_below [OF t2, of ?q] n2 by (auto simp: movable_def)
  note append_assoc [simp del]
  let ?fs3 = "move_tree ?r ?q ?fs"
  have t3: "tree ?fs3" using t2 mv by (rule os_rename_tree)
  have n3: "node_at ?fs3 ?ws = Some Dir_node" "node_at ?fs3 ?q = Some (Link_node True ?o)"
    using n2 by (auto simp: node_at_move [OF m] dest: prefix_length_le)
  have o3: "node_at ?fs3 ?o = Some (File_node ?bytes now)"
  proof -
    have "\<not> prefix ?q ?o" "\<not> prefix ?r ?o" using outside(3) by (auto dest: append_prefixD)
    then show ?thesis by (auto simp: node_at_move [OF m])
  qed
  have "workspace_ready svc ?fs3 g"
  proof -
    have "no_link ?fs3 p" if "prefix p ?ws" for p
    proof -
      have "\<not> prefix ?q p" "\<not> prefix ?r p" using prefix_length_le [OF that] by (auto dest!: prefix_length_le)
      moreover have "no_link ?fs p" using c2 that by (auto simp: clean_def simp del: clean_snoc)
      ultimately show ?thesis by (simp add: no_link_def node_at_move [OF m])
    qed
    moreover have "''..'' \<notin> set ?ws" using c by (simp add: clean_def)
    ultimately show ?thesis using ok t3 n3 by (simp add: workspace_ready_def workspace_ok_def clean_def)
  qed
  from ready_root_exists [OF this nulls'(2)] have "workspace_root svc ?fs3 g = (Inr ?ws, ?fs3)" .
  moreover have "relative_posix ?q ?ws = Inr f" by (simp add: relative_posix_def relative_to_def as_posix_def)
  ultimately have "write_text_content svc fs g f content now =
      (Inr \<lparr>text_path = f, text_content = content, text_size = length ?bytes\<rparr>, ?fs3)"
    using file1 is_text small tmp wr mv by (simp add: write_text_content_def and_then_def Let_def)
  with n3 o3 show ?thesis by (simp add: append_assoc)
qed

section \<open>Examples\<close>

lemma example_read:
  "read_text_content (\<lambda>_. (0, 0)) example_files example_fs ''w'' ''x/../up.txt'' =
     (Inl (Exn Not_found_exn (Message ''file not found'')), example_fs)"
  "read_text_content (\<lambda>_. (0, 0)) example_files example_fs ''w'' ''up.txt'' =
     (Inr \<lparr>text_path = ''up.txt'', text_content = ''hi'', text_size = 2\<rparr>, example_fs)"
  by code_simp+

lemma example_upload:
  "save_upload (\<lambda>_. (0, 0)) example_files example_fs ''w'' ''a/../../new/../w/b'' ''f'' ''yo'' 5 =
     (Inr \<lparr>entry_name = ''f'', entry_path = ''a/../../new/../w/b/f'', entry_type = ''file'', entry_size = 2, modified_at = 5\<rparr>,
      example_fs @
        [([''data'', ''groups'', ''w'', ''a''], Dir_node), ([''data'', ''groups'', ''new''], Dir_node),
         ([''data'', ''groups'', ''w'', ''b''], Dir_node), ([''data'', ''groups'', ''w'', ''b'', ''f''], File_node ''yo'' 5)])"
  by code_simp

lemma example_ready: "workspace_ready example_files example_fs ''w''"
  unfolding workspace_ready_def
  by (intro conjI example_workspace tree_check) (simp_all add: node_at_def)

theorem reads_confined_witness:
  "read_text_content (\<lambda>_. (0, 0)) example_files example_fs ''w'' ''up.txt'' =
     (Inr \<lparr>text_path = ''up.txt'', text_content = ''hi'', text_size = 2\<rparr>, example_fs) \<and>
   (\<exists>q bytes mtime. prefix [''data'', ''groups'', ''w''] q \<and> node_at example_fs q = Some (File_node bytes mtime))"
proof -
  from reads_confined [OF example_workspace, of "\<lambda>_. (0, 0)" "''up.txt''" "\<lambda>_. None"] example_read(2)
  obtain q bytes mtime where "prefix (groups_root example_files @ [''w'']) q"
    "node_at example_fs q = Some (File_node bytes mtime)" by blast
  with example_read(2) show ?thesis by auto
qed

theorem upload_confined_witness:
  "\<exists>fs' q. save_upload (\<lambda>_. (0, 0)) example_files example_fs ''w'' ''a/../../new/../w/b'' ''f'' ''yo'' 5 =
       (Inr \<lparr>entry_name = ''f'', entry_path = ''a/../../new/../w/b/f'', entry_type = ''file'', entry_size = 2,
             modified_at = 5\<rparr>, fs') \<and>
     node_at fs' [''etc''] = Some Dir_node \<and>
     prefix [''data'', ''groups'', ''w''] q \<and> node_at fs' q = Some (File_node ''yo'' 5)"
proof -
  obtain fs' where up: "save_upload (\<lambda>_. (0, 0)) example_files example_fs ''w'' ''a/../../new/../w/b'' ''f'' ''yo'' 5 =
      (Inr \<lparr>entry_name = ''f'', entry_path = ''a/../../new/../w/b/f'', entry_type = ''file'', entry_size = 2,
            modified_at = 5\<rparr>, fs')"
    using example_upload by blast
  note confined = upload_confined [OF example_workspace up]
  have "\<not> prefix (groups_root example_files @ [''w'']) [''etc'']" "node_at example_fs [''etc''] = Some Dir_node"
    by (simp_all add: node_at_def)
  with conjunct1 [OF confined, THEN spec, of "[''etc'']"] have "node_at fs' [''etc''] = Some Dir_node"
    by simp
  moreover from confined obtain q where "prefix [''data'', ''groups'', ''w''] q" "node_at fs' q = Some (File_node ''yo'' 5)"
    by auto
  ultimately show ?thesis using up by blast
qed

lemma example_edit:
  "direct example_fs [''data'', ''groups'', ''w'', ''a.txt'']"
  "direct example_fs (temp_path [''data'', ''groups'', ''w'', ''a.txt''])"
  "path_join [''data'', ''groups'', ''w''] (normalize_current_path ''a.txt'') = [''data'', ''groups'', ''w'', ''a.txt'']"
  "path_join [''data'', ''groups'', ''w''] (normalize_current_path (normalize_current_path ''a.txt'')) =
     [''data'', ''groups'', ''w'', ''a.txt'']"
  "fst (write_text_content example_files example_fs ''w'' ''a.txt'' ''new'' 9) =
     Inr \<lparr>text_path = ''a.txt'', text_content = ''new'', text_size = 3\<rparr>"
  "fst (delete_path example_files example_fs ''w'' ''a.txt'') = Inr ()"
  unfolding direct_def by code_simp+

theorem edit_roundtrip_witness:
  "\<exists>fs'. write_text_content example_files example_fs ''w'' ''a.txt'' ''new'' 9 =
       (Inr \<lparr>text_path = ''a.txt'', text_content = ''new'', text_size = 3\<rparr>, fs') \<and>
     read_text_content (\<lambda>_. (0, 0)) example_files fs' ''w'' ''a.txt'' =
       (Inr \<lparr>text_path = ''a.txt'', text_content = ''new'', text_size = 3\<rparr>, fs')"
proof -
  obtain fs' where wrote: "write_text_content example_files example_fs ''w'' ''a.txt'' ''new'' 9 =
      (Inr \<lparr>text_path = ''a.txt'', text_content = ''new'', text_size = 3\<rparr>, fs')"
    using example_edit(5) by (metis prod.collapse)
  have target: "[''data'', ''groups'', ''w'', ''a.txt''] =
      path_join (groups_root example_files @ [''w'']) (normalize_current_path ''a.txt'')"
    using example_edit(3) by simp
  from edit_roundtrip [OF example_ready target example_edit(1,2) wrote, of "\<lambda>_. (0, 0)"] wrote
  show ?thesis by simp
qed

theorem delete_confined_witness:
  "\<exists>fs' q. delete_path example_files example_fs ''w'' ''a.txt'' = (Inr (), fs') \<and>
     kernel example_fs True [''data'', ''groups'', ''w'', ''a.txt''] = Found q \<and> removed example_fs fs' q"
proof -
  obtain fs' where deleted: "delete_path example_files example_fs ''w'' ''a.txt'' = (Inr (), fs')"
    using example_edit(6) by (metis prod.collapse)
  have target: "[''data'', ''groups'', ''w'', ''a.txt''] =
      path_join (groups_root example_files @ [''w'']) (normalize_current_path (normalize_current_path ''a.txt''))"
    using example_edit(4) by simp
  from delete_confined [OF example_ready target example_edit(1) deleted] deleted show ?thesis by auto
qed

theorem workspace_root_deletable_witness:
  "\<exists>fs'. delete_path example_files example_fs ''w'' ''./.'' = (Inr (), fs') \<and>
     node_at fs' [''data'', ''groups'', ''w''] = None \<and> node_at fs' [''data'', ''groups'', ''w'', ''a.txt''] = None"
proof -
  have "\<not> has_null (groups_root example_files @ [''w''])" by (simp add: has_null_def)
  from workspace_root_deletable [OF example_ready this] show ?thesis by (auto simp: removed_def)
qed

abbreviation linked_fs :: filesys where
  "linked_fs \<equiv> example_fs @ [([''data'', ''groups'', ''w'', ''a.txt.tmp''], Link_node True [''etc'', ''passwd''])]"

theorem temporary_link_followed_witness:
  "\<exists>fs'. write_text_content example_files linked_fs ''w'' ''a.txt'' ''root'' 9 =
       (Inr \<lparr>text_path = ''a.txt'', text_content = ''root'', text_size = 4\<rparr>, fs') \<and>
     node_at fs' [''etc'', ''passwd''] = Some (File_node (utf8_bytes ''root'') 9) \<and>
     node_at fs' [''data'', ''groups'', ''w'', ''a.txt''] = Some (Link_node True [''etc'', ''passwd''])"
proof -
  have ok: "workspace_ok example_files linked_fs ''w''"
    by (rule workspace_ok_prefixes) (simp_all add: path_eval)
  have ready: "workspace_ready example_files linked_fs ''w''"
    unfolding workspace_ready_def by (intro conjI ok tree_check) (simp_all add: node_at_def)
  have clean: "clean linked_fs ([''etc''] @ [''passwd''])"
    using clean_snoc [of linked_fs "[''etc'']" "''passwd''"] clean_snoc [of linked_fs "[]" "''etc''"]
    by (simp add: no_link_def node_at_def)
  have nulls: "\<not> has_null (groups_root example_files @ [''w'', ''a.txt''])" by (simp add: has_null_def)
  have "\<exists>fs'. write_text_content example_files linked_fs ''w'' ''a.txt'' ''root'' 9 =
       (Inr \<lparr>text_path = ''a.txt'', text_content = ''root'', text_size = length (utf8_bytes ''root'')\<rparr>, fs') \<and>
     node_at fs' ([''etc''] @ [''passwd'']) = Some (File_node (utf8_bytes ''root'') 9) \<and>
     node_at fs' (groups_root example_files @ [''w'', ''a.txt'']) = Some (Link_node True ([''etc''] @ [''passwd'']))"
    by (rule temporary_link_followed [OF ready _ _ _ _ _ nulls _ _ _ clean])
      (simp_all add: path_eval text_file_extensions_def path_suffix_def path_name_def py_lower_def py_lower_char_def
        utf8_bytes_def)
  moreover have "length (utf8_bytes ''root'') = 4" by (simp add: utf8_bytes_def)
  ultimately show ?thesis by simp
qed

end
