(* ===== verification/MemoryProtocol.thy ===== *)
theory MemoryProtocol
  imports MemoryFiles FileProtocol
begin

text \<open>
  What the memories guarantee: a text that was stored is what is read, the files of a workspace's memory stay
  in its directory. And where this ends: the cache keeps an older text when a read and an update overlap, and
  the memories of all users lie in the memory directory of a workspace that anybody can create.
\<close>

section \<open>The memory of a user\<close>

lemma update_user_memory_Inr:
  assumes "update_user_memory_alone m fs uid content now = (Inr u, m', fs')"
  shows "m' = user_memory_written m uid content \<and> 
    (\<exists>q. kernel fs' True (user_memory_path m uid) = Found q \<and> node_at fs' q = Some (File_node (utf8_bytes content) now))"
  using assms write_file_read
  by (fastforce simp: update_user_memory_alone_def user_memory_write_def write_text_def split: prod.splits sum.splits)

lemma get_user_memory_fresh:
  assumes "kernel fs True (user_memory_path m uid) = Found q" and "node_at fs q = Some (File_node (utf8_bytes content) t)"
    and "dict_get (user_memory_cache m) uid = None"
  shows "fst (get_user_memory_alone m fs uid) = Inr (universal_newlines content)"
  using assms
  by (simp add: get_user_memory_alone_def get_user_memory_def path_exists_def read_text_def read_file_def utf8_roundtrip)

text \<open>What a user stores as the global memory is what is read afterwards: by the same process exactly, from
  its cache, and by a process that starts afresh with the line ends translated; and the metadata that the answer
  reports are the size in bytes and the time of this update.\<close>

theorem user_memory_roundtrip:
  assumes "update_user_memory_alone m fs uid content now = (Inr (), m', fs')"
  shows "get_user_memory_alone m' fs' uid = (Inr content, m') \<and>
    fst (get_user_memory_alone (memory_service_init (data_dir m)) fs' uid) = Inr (universal_newlines content) \<and>
    get_user_memory_metadata dir_stat m' fs' uid = Inr (Some now, length (utf8_bytes content))"
proof -
  from update_user_memory_Inr [OF assms] obtain q where m': "m' = user_memory_written m uid content"
    and q: "kernel fs' True (user_memory_path m uid) = Found q" "node_at fs' q = Some (File_node (utf8_bytes content) now)"
    by blast
  have "user_memory_path m' uid = user_memory_path m uid"
    "user_memory_path (memory_service_init (data_dir m)) uid = user_memory_path m uid"
    using m' by (simp_all add: user_memory_path_def user_memory_written_def memory_service_init_def)
  then show ?thesis
    using q m' get_user_memory_fresh [of fs' "memory_service_init (data_dir m)" uid q content now]
    by (simp add: get_user_memory_alone_def get_user_memory_def user_memory_written_def memory_service_init_def
        get_user_memory_metadata_def path_exists_def path_stat_def)
qed

text \<open>A read that is under way while an update completes puts the older text back in the cache: from then on,
  whatever happens to the file, this process answers with the older text, although the file holds the new one.\<close>

theorem stale_memory_cached:
  assumes started: "get_user_memory m fs uid = (Reading p, m1)" and old: "read_text fs p = Inr old"
    and updated: "update_user_memory_alone m1 fs uid content now = (Inr (), m2, fs2)"
  shows "get_user_memory_alone (user_memory_read m2 uid old) fs3 uid = (Inr old, user_memory_read m2 uid old) \<and>
    read_text fs2 p = Inr (universal_newlines content)"
proof -
  from started have "m1 = m" "p = user_memory_path m uid"
    by (auto simp: get_user_memory_def split: option.splits if_splits)
  with update_user_memory_Inr [OF updated] show ?thesis
    by (auto simp: get_user_memory_alone_def get_user_memory_def user_memory_read_def user_memory_written_def
        read_text_def read_file_def utf8_roundtrip)
qed

section \<open>The files of a workspace\<close>

abbreviation memory_dir :: "memory_service \<Rightarrow> string \<Rightarrow> path" where
  "memory_dir m g \<equiv> data_dir m @ [''memory'', g]"

definition memory_ok :: "memory_service \<Rightarrow> filesys \<Rightarrow> string \<Rightarrow> bool" where
  "memory_ok m fs g \<longleftrightarrow> path_parts g = [g] \<and> \<not> path_absolute g \<and> clean fs (memory_dir m g)"

lemma group_memory_dir_Inr:
  assumes "memory_ok m fs g" and "group_memory_dir m fs g = Inr dir"
  shows "dir = memory_dir m g"
proof -
  have "clean fs (data_dir m @ [''memory''])" "clean fs (memory_dir m g)"
    using assms(1) clean_prefix [of fs "memory_dir m g" "data_dir m @ [''memory'']"]
    by (auto simp: memory_ok_def simp del: clean_snoc)
  with assms show ?thesis
    by (auto simp: group_memory_dir_def memory_ok_def path_join_def simp del: clean_snoc
        dest!: clean_resolve split: sum.splits if_splits)
qed

lemma resolve_group_memory_file_Inr:
  assumes "memory_ok m fs g" and "resolve_group_memory_file m fs g p = Inr (dir, candidate, normalized)"
  shows "dir = memory_dir m g \<and> candidate = path_join dir normalized \<and> clean fs dir \<and>
    (\<exists>q. path_resolve fs candidate = Inr q \<and> validate_path fs q [dir] = Inr True)"
  using assms group_memory_dir_Inr [OF assms(1)]
  by (auto simp: resolve_group_memory_file_def Let_def memory_ok_def simp del: clean_snoc split: sum.splits if_splits)

text \<open>What is stored under a directory: some file there has these bytes.\<close>

definition stored_under :: "filesys \<Rightarrow> path \<Rightarrow> string \<Rightarrow> bool" where
  "stored_under fs dir bytes \<longleftrightarrow> (\<exists>q mtime. prefix dir q \<and> node_at fs q = Some (File_node bytes mtime))"

lemma read_validated:
  assumes "path_resolve fs p = Inr r" and "validate_path fs r [dir] = Inr True" and "clean fs dir"
    and "read_text fs p = Inr content"
  shows "\<exists>bytes t. stored_under fs dir bytes \<and> utf8_decode bytes = Some t \<and> content = universal_newlines t"
proof -
  from assms(4) obtain bytes t where bytes: "read_file fs p = Inr bytes"
    and t: "utf8_decode bytes = Some t" "content = universal_newlines t"
    by (auto simp: read_text_def split: sum.splits option.splits)
  from bytes obtain q mtime where q: "kernel fs True p = Found q" "node_at fs q = Some (File_node bytes mtime)"
    by (auto simp: read_file_Inr)
  with validated_inside [OF assms(1-3)] have "prefix dir q" by blast
  with q t show ?thesis by (auto simp: stored_under_def)
qed

lemma get_group_memory_file_ok:
  assumes ok: "memory_ok m fs g" and got: "get_group_memory_file dir_stat m fs g p = Inr doc"
    and existing: "memory_updated_at doc \<noteq> None"
  shows "\<exists>bytes t. stored_under fs (memory_dir m g) bytes \<and> utf8_decode bytes = Some t \<and>
    memory_content doc = universal_newlines t"
proof -
  from got existing obtain dir candidate normalized content where
    found: "resolve_group_memory_file m fs g p = Inr (dir, candidate, normalized)"
    and content: "read_text fs candidate = Inr content" "memory_content doc = content"
    by (auto simp: get_group_memory_file_def split: sum.splits if_splits)
  from resolve_group_memory_file_Inr [OF ok found] content read_validated show ?thesis by blast
qed

lemma each_memory_file_visits:
  assumes "each_memory_file fs dir visit ps = Inr found" and "x \<in> set found"
  shows "\<exists>p r. visit p = Inr (Some x) \<and> path_resolve fs p = Inr r \<and> validate_path fs r [dir] = Inr True"
  using assms
  by (induction ps arbitrary: found) (fastforce split: if_splits sum.splits option.splits)+

lemma visit_search_Some:
  assumes "visit_search fs dir query p = Inr (Some h)"
  shows "\<exists>content. read_text fs p = Inr content \<and> contains (py_lower content) query \<and> relative_posix p dir = Inr h"
  using assms by (auto simp: visit_search_def split: sum.splits if_splits)

lemma search_memory_ok:
  assumes ok: "memory_ok m fs g" and searched: "search_memory m fs g query = Inr hits" and hit: "h \<in> set hits"
  shows "\<exists>r bytes t. h = as_posix r \<and> stored_under fs (memory_dir m g) bytes \<and> utf8_decode bytes = Some t \<and>
    read_text fs (memory_dir m g @ r) = Inr (universal_newlines t) \<and>
    contains (py_lower (universal_newlines t)) (py_lower (py_strip query))"
proof -
  from searched hit obtain dir where dir: "group_memory_dir m fs g = Inr dir"
    and each: "each_memory_file fs dir (visit_search fs dir (py_lower (py_strip query))) (rglob_markdown fs dir) = Inr hits"
    by (auto simp: search_memory_def in_memory_dir_def Let_def split: if_splits sum.splits)
  from each_memory_file_visits [OF each hit] obtain p r where
    p: "path_resolve fs p = Inr r" "validate_path fs r [dir] = Inr True"
    and visit: "visit_search fs dir (py_lower (py_strip query)) p = Inr (Some h)" by blast
  from visit_search_Some [OF visit] obtain content where content: "read_text fs p = Inr content"
    "contains (py_lower content) (py_lower (py_strip query))" "relative_posix p dir = Inr h" by blast
  have "dir = memory_dir m g" using ok dir by (rule group_memory_dir_Inr)
  moreover have "clean fs (memory_dir m g)" using ok by (simp add: memory_ok_def del: clean_snoc)
  moreover from content(3) obtain s where "p = dir @ s" "h = as_posix s"
    by (auto simp: relative_posix_def relative_to_def prefix_def split: if_splits)
  ultimately show ?thesis using read_validated [OF p _ content(1)] content(1,2) by metis
qed

lemma update_group_memory_file_effect:
  assumes ok: "memory_ok m fs g"
    and up: "update_group_memory_file dir_stat m fs g p content now = (r, fs')"
  shows "dirs_added fs fs' \<and> (\<exists>e. r = Inl e) \<or>
    (\<exists>q fs1. prefix (memory_dir m g) q \<and> q \<noteq> [] \<and> dirs_added fs fs1 \<and>
       fs' = dict_set q (File_node (utf8_bytes content) now) fs1 \<and>
       length (utf8_bytes content) \<le> max_group_memory_file_size_bytes m)"
proof (cases "resolve_group_memory_file m fs g p")
  case (Inl e)
  with up show ?thesis by (auto simp: update_group_memory_file_def)
next
  case (Inr found)
  obtain dir candidate normalized where found: "found = (dir, candidate, normalized)" by (cases found)
  note place = resolve_group_memory_file_Inr [OF ok Inr [unfolded found]]
  obtain r1 fs1 where mk: "mkdir_parents fs (butlast candidate) = (r1, fs1)" by force
  note dirs = mkdir_parents_dirs [OF mk]
  obtain r2 fs2 where wr: "write_text fs1 candidate content now = (r2, fs2)" by force
  show ?thesis
  proof (cases "(\<exists>u. r1 = Inr u) \<and> (\<exists>u. r2 = Inr u)")
    case False
    with up Inr found mk wr dirs show ?thesis
      by (auto simp: update_group_memory_file_def and_then_def write_text_def dest: write_file_Inl split: sum.splits if_splits)
  next
    case True
    then obtain u where "write_file fs1 candidate (utf8_bytes content) now = (Inr u, fs2)"
      using wr by (auto simp: write_text_def)
    from write_file_Inr [OF this] obtain q where
      q: "kernel fs1 True candidate = Found q \<or> kernel fs1 True candidate = Absent q" "q \<noteq> []"
      and fs2: "fs2 = dict_set q (File_node (utf8_bytes content) now) fs1" by blast
    from place obtain q0 where "path_resolve fs candidate = Inr q0" "validate_path fs q0 [dir] = Inr True" by blast
    with q(1) dirs place have "prefix (memory_dir m g) q" using validated_later by blast
    moreover have "fs' = fs1 \<and> (\<exists>e. r = Inl e) \<or> fs' = fs \<and> (\<exists>e. r = Inl e) \<or>
        fs' = fs2 \<and> length (utf8_bytes content) \<le> max_group_memory_file_size_bytes m"
      using True up Inr found mk wr
      by (auto simp: update_group_memory_file_def and_then_def split: sum.splits if_splits)
    ultimately show ?thesis using q(2) fs2 dirs by auto
  qed
qed

text \<open>C29: Whatever links the memory directory of a workspace holds and whatever path and query a request gives,
  the requests about the workspace's memory stay in this directory: a text that is returned is stored there,
  and so is a text for each search hit that contains the query; and an update leaves everything outside as it
  was, except that missing directories can appear.\<close>

theorem memory_files_confined:
  assumes "memory_ok m fs g"
  shows "(\<forall>doc. get_group_memory_file dir_stat m fs g p = Inr doc \<and> memory_updated_at doc \<noteq> None \<longrightarrow>
      (\<exists>bytes t. stored_under fs (data_dir m @ [''memory'', g]) bytes \<and> utf8_decode bytes = Some t \<and>
         memory_content doc = universal_newlines t)) \<and>
    (\<forall>hits h. search_memory m fs g query = Inr hits \<and> h \<in> set hits \<longrightarrow>
      (\<exists>r bytes t. h = as_posix r \<and> stored_under fs (data_dir m @ [''memory'', g]) bytes \<and> utf8_decode bytes = Some t \<and>
         read_text fs (data_dir m @ [''memory'', g] @ r) = Inr (universal_newlines t) \<and>
         contains (py_lower (universal_newlines t)) (py_lower (py_strip query)))) \<and>
    (\<forall>r fs'. update_group_memory_file dir_stat m fs g p content now = (r, fs') \<longrightarrow>
      (\<forall>q. \<not> prefix (data_dir m @ [''memory'', g]) q \<longrightarrow>
         node_at fs' q = node_at fs q \<or> node_at fs q = None \<and> node_at fs' q = Some Dir_node) \<and>
      (\<forall>doc. r = Inr doc \<longrightarrow> stored_under fs' (data_dir m @ [''memory'', g]) (utf8_bytes content) \<and>
         length (utf8_bytes content) \<le> max_group_memory_file_size_bytes m))"
proof (intro conjI allI impI)
  fix hits h
  assume "search_memory m fs g query = Inr hits \<and> h \<in> set hits"
  then show "\<exists>r bytes t. h = as_posix r \<and> stored_under fs (memory_dir m g) bytes \<and> utf8_decode bytes = Some t \<and>
      read_text fs (data_dir m @ [''memory'', g] @ r) = Inr (universal_newlines t) \<and>
      contains (py_lower (universal_newlines t)) (py_lower (py_strip query))"
    using search_memory_ok [OF assms, of query hits h] by simp
next
  fix r fs' q
  assume up: "update_group_memory_file dir_stat m fs g p content now = (r, fs')" and "\<not> prefix (memory_dir m g) q"
  with update_group_memory_file_effect [OF assms up]
  show "node_at fs' q = node_at fs q \<or> node_at fs q = None \<and> node_at fs' q = Some Dir_node"
    by (cases "q \<noteq> []") (auto simp: dirs_added_def split: if_splits)
next
  fix r fs' doc
  assume up: "update_group_memory_file dir_stat m fs g p content now = (r, fs')" and "r = Inr doc"
  with update_group_memory_file_effect [OF assms up]
  show "stored_under fs' (memory_dir m g) (utf8_bytes content)"
    and "length (utf8_bytes content) \<le> max_group_memory_file_size_bytes m"
    by (auto simp: stored_under_def)
qed (use get_group_memory_file_ok [OF assms] in blast)

section \<open>The memory directory of all users\<close>

lemma slug_no_dot: "slug_match s \<Longrightarrow> s \<noteq> ''..'' \<and> s \<noteq> ''.'' \<and> s \<noteq> []"
  by (auto simp: slug_match_def slug_char_def split: list.splits)

lemma slug_chars: "slug_match s \<Longrightarrow> c \<in> set s \<Longrightarrow> slug_char c \<or> c = CHR ''-''"
  by (auto simp: slug_match_def list_all_iff split: list.splits)

lemma slug_plain:
  assumes "slug_match s"
  shows "CHR ''/'' \<notin> set s" and "CHR 0x00 \<notin> set s" and "\<not> py_isspace_char (hd s)" and "hd s \<noteq> CHR ''/''"
proof -
  have plain: "c \<noteq> CHR ''/'' \<and> c \<noteq> CHR 0x00" if "c \<in> set s" for c
    using slug_chars [OF assms that] by (auto simp: slug_char_def)
  then show "CHR ''/'' \<notin> set s" "CHR 0x00 \<notin> set s" by blast+
  from slug_no_dot [OF assms] have "hd s \<in> set s" by simp
  with plain show "hd s \<noteq> CHR ''/''" by blast
  from assms have "slug_char (hd s)" by (auto simp: slug_match_def split: list.splits)
  then show "\<not> py_isspace_char (hd s)" by (auto simp: slug_char_def py_isspace_char_def Let_def)
qed

abbreviation user_memory_request :: "string \<Rightarrow> string" where
  "user_memory_request uid \<equiv> uid @ ''/AGENTS.md''"

lemma request_parts:
  assumes "slug_match uid"
  shows "path_parts (user_memory_request uid) = [uid, ''AGENTS.md'']"
  using py_split_next [OF slug_plain(1) [OF assms], of "''AGENTS.md''"] slug_no_dot [OF assms]
  by (simp add: path_parts_def)

lemma request_normalized:
  assumes "slug_match uid"
  shows "normalize_group_memory_relative_path (user_memory_request uid) = Inr (user_memory_request uid)"
proof -
  let ?r = "user_memory_request uid"
  obtain c cs where uid: "uid = c # cs" using slug_no_dot [OF assms] by (cases uid) auto
  with slug_plain(3,4) [OF assms] have c: "\<not> py_isspace_char c" "c \<noteq> CHR ''/''" by auto
  have "\<not> py_isspace_char (CHR ''d'')" by (simp add: py_isspace_char_def)
  with c uid have "strip_slashes (py_strip ?r) = ?r"
    by (simp add: py_strip_def py_lstrip_def py_rstrip_def strip_slashes_def)
  moreover have "as_posix (path_parts ?r) = ?r" using request_parts [OF assms] by (simp add: as_posix_def)
  moreover have "py_lower (path_suffix [uid, ''AGENTS.md'']) = ''.md''" by code_simp
  ultimately show ?thesis
    using request_parts [OF assms] uid by (simp add: normalize_group_memory_relative_path_def Let_def)
qed

lemma user_memory_file_request:
  assumes ok: "memory_ok m fs ''user-global''" and tree: "tree fs" and uid: "slug_match uid"
    and data: "\<not> has_null (data_dir m)"
    and direct: "no_link fs (memory_dir m ''user-global'' @ [uid])"
    and stored: "node_at fs (user_memory_path m uid) = Some (File_node bytes t)"
  shows "user_memory_path m uid = memory_dir m ''user-global'' @ [uid, ''AGENTS.md'']"
    and "kernel fs True (user_memory_path m uid) = Found (user_memory_path m uid)"
    and "resolve_group_memory_file m fs ''user-global'' (user_memory_request uid) =
      Inr (memory_dir m ''user-global'', user_memory_path m uid, user_memory_request uid)"
proof -
  let ?dir = "memory_dir m ''user-global''" and ?p = "user_memory_path m uid"
  have plain: "path_parts uid = [uid]" "\<not> path_absolute uid" "\<not> path_absolute (user_memory_request uid)"
    using slug_plain [OF uid] slug_no_dot [OF uid]
    by (auto simp: path_parts_def py_split_none path_absolute_def py_startswith_def neq_Nil_conv)
  then show p: "?p = ?dir @ [uid, ''AGENTS.md'']" by (simp add: user_memory_path_def path_join_def)
  have dir: "clean fs ?dir" using ok by (simp add: memory_ok_def del: clean_snoc)
  have clean: "clean fs ?p"
    using p stored direct dir slug_no_dot [OF uid] clean_snoc [of fs ?dir uid] clean_snoc [of fs "?dir @ [uid]" "''AGENTS.md''"]
    by (simp add: no_link_def)
  have nulls: "\<not> has_null ?p" using p data slug_plain(2) [OF uid] by (simp add: has_null_def)
  have exists: "node_at fs ?p \<noteq> None" using stored by simp
  show "kernel fs True ?p = Found ?p" using tree clean exists by (rule kernel_clean_exists)
  have below: "node_at fs q \<noteq> None" "clean fs q" "\<not> has_null q" if "prefix q ?p" for q
    using tree_below [OF tree that exists] exists clean_prefix [OF clean that] nulls that by (auto simp: prefix_def)
  have pre: "prefix ?dir ?p" "prefix (data_dir m @ [''memory'']) ?p" using p by (auto simp: prefix_def)
  have resolved: "path_resolve fs q = Inr q" if "prefix q ?p" for q
    using resolve_existing [OF tree below(2,1,3)] that by blast
  have dir_valid: "validate_path fs ?dir [data_dir m @ [''memory'']] = Inr True"
    by (rule validate_existing [OF tree below(2,1,3)]) (use pre in \<open>auto simp: prefix_def\<close>)
  have p_valid: "validate_path fs ?p [?dir] = Inr True"
    by (rule validate_existing [OF tree clean exists nulls pre(1)])
  have folder: "path_join (data_dir m @ [''memory'']) ''user-global'' = ?dir"
    using ok by (simp add: memory_ok_def path_join_def)
  have "group_memory_dir m fs ''user-global'' = Inr ?dir"
    using resolved [OF pre(1)] resolved [OF pre(2)] dir_valid folder by (simp add: group_memory_dir_def)
  moreover have "path_join ?dir (user_memory_request uid) = ?p"
    using p plain(3) request_parts [OF uid] by (simp add: path_join_def)
  ultimately show "resolve_group_memory_file m fs ''user-global'' (user_memory_request uid) =
      Inr (?dir, ?p, user_memory_request uid)"
    using request_normalized [OF uid] resolved [OF prefix_order.refl] p_valid
    by (simp add: resolve_group_memory_file_def)
qed

text \<open>C30: The folder \<open>user-global\<close> is an admissible folder for a workspace, and its memory directory is the one in
  which the service keeps the global memories of all users. Through the requests about this workspace's memory
  the global memory of any user is read, and overwritten with any text within the size limit.\<close>

theorem user_memories_exposed:
  assumes "memory_ok m fs ''user-global''" and "tree fs" and "slug_match uid" and "\<not> has_null (data_dir m)"
    and "no_link fs (data_dir m @ [''memory'', ''user-global'', uid])"
    and "node_at fs (user_memory_path m uid) = Some (File_node (utf8_bytes secret) t)"
    and "length (utf8_bytes secret) \<le> max_group_memory_file_size_bytes m"
    and "length (utf8_bytes forged) \<le> max_group_memory_file_size_bytes m"
  shows "validate_workspace_folder ''user-global'' = None \<and>
    get_group_memory_file dir_stat m fs ''user-global'' (uid @ ''/AGENTS.md'') =
      Inr \<lparr>memory_path = uid @ ''/AGENTS.md'', memory_content = universal_newlines secret,
           memory_updated_at = Some t, memory_size = length (utf8_bytes secret)\<rparr> \<and>
    update_group_memory_file dir_stat m fs ''user-global'' (uid @ ''/AGENTS.md'') forged now =
      (Inr \<lparr>memory_path = uid @ ''/AGENTS.md'', memory_content = forged, memory_updated_at = Some now,
            memory_size = length (utf8_bytes forged)\<rparr>,
       dict_set (user_memory_path m uid) (File_node (utf8_bytes forged) now) fs)"
proof -
  have link: "no_link fs (memory_dir m ''user-global'' @ [uid])" using assms(5) by simp
  note request = user_memory_file_request [OF assms(1-4) link assms(6)]
  let ?dir = "memory_dir m ''user-global''" and ?p = "user_memory_path m uid"
  let ?fs = "dict_set ?p (File_node (utf8_bytes forged) now) fs"
  have p: "?p \<noteq> []" "butlast ?p = ?dir @ [uid]" using request(1) by (simp_all add: butlast_append)
  have d: "node_at fs (?dir @ [uid]) = Some Dir_node"
    using tree_parent [OF assms(2) p(1)] assms(6) p(2) by simp
  have clean: "clean fs (?dir @ [uid])"
    using assms(1,5) slug_no_dot [OF assms(3)] clean_snoc [of fs ?dir uid] by (simp add: memory_ok_def)
  have "\<not> has_null (?dir @ [uid])"
    using assms(4) slug_plain(2) [OF assms(3)] by (simp add: has_null_def)
  then have parent: "path_resolve fs (?dir @ [uid]) = Inr (?dir @ [uid])"
      "validate_path fs (?dir @ [uid]) [?dir] = Inr True"
    using resolve_existing [OF assms(2) clean] validate_existing [OF assms(2) clean] d by (simp_all add: prefix_def)
  have "path_is_dir fs (?dir @ [uid])" using clean_is_dir [OF assms(2) clean] d by blast
  then have mk: "mkdir_parents fs (?dir @ [uid]) = (Inr (), fs)"
    using kernel_clean_exists [OF assms(2) clean, of False] d by (intro mkdir_parents_exists) auto
  have wr: "write_text fs ?p forged now = (Inr (), ?fs)"
    using request(2) assms(6) by (simp add: write_text_def write_file_def)
  have "kernel ?fs True ?p = Found ?p"
    unfolding kernel_def
    by (rule walk_written) (use request(2) assms(6) p(1) in \<open>auto simp: kernel_def no_link_def\<close>)
  then have stat: "path_stat dir_stat ?fs ?p = Inr (length (utf8_bytes forged), now)"
    using p(1) by (simp add: path_stat_def)
  have "validate_workspace_folder ''user-global'' = None" by code_simp
  moreover have "get_group_memory_file dir_stat m fs ''user-global'' (user_memory_request uid) =
      Inr \<lparr>memory_path = user_memory_request uid, memory_content = universal_newlines secret,
           memory_updated_at = Some t, memory_size = length (utf8_bytes secret)\<rparr>"
    using request(2,3) assms(6,7)
    by (simp add: get_group_memory_file_def path_exists_def path_is_dir_def path_stat_def read_text_def
        read_file_def utf8_roundtrip)
  moreover have "update_group_memory_file dir_stat m fs ''user-global'' (user_memory_request uid) forged now =
      (Inr \<lparr>memory_path = user_memory_request uid, memory_content = forged, memory_updated_at = Some now,
            memory_size = length (utf8_bytes forged)\<rparr>, ?fs)"
    using request(2,3) assms(6,8) p(2) mk parent wr stat
    by (simp add: update_group_memory_file_def path_exists_def path_is_dir_def and_then_def)
  ultimately show ?thesis by blast
qed

section \<open>Examples\<close>

abbreviation example_memory :: memory_service where
  "example_memory \<equiv> \<lparr>data_dir = [''data''], user_memory_cache = [], max_group_memory_file_size_bytes = 100\<rparr>"

abbreviation memory_fs :: filesys where
  "memory_fs \<equiv>
     [([''data''], Dir_node), ([''data'', ''memory''], Dir_node), ([''data'', ''memory'', ''user-global''], Dir_node),
      ([''data'', ''memory'', ''user-global'', ''u1''], Dir_node),
      ([''data'', ''memory'', ''user-global'', ''u1'', ''AGENTS.md''], File_node ''key'' 7)]"

lemma example_memory_ok: "memory_ok example_memory memory_fs ''user-global''"
proof -
  have "no_link memory_fs q" for q by (auto simp: no_link_def node_at_def)
  then show ?thesis by (simp add: memory_ok_def clean_def path_eval)
qed

theorem user_memory_roundtrip_witness:
  "\<exists>m' fs'. update_user_memory_alone example_memory [] ''u1'' ''hi'' 5 = (Inr (), m', fs') \<and>
     get_user_memory_alone m' fs' ''u1'' = (Inr ''hi'', m')"
proof -
  have "fst (update_user_memory_alone example_memory [] ''u1'' ''hi'' 5) = Inr ()" by code_simp
  then obtain m' fs' where "update_user_memory_alone example_memory [] ''u1'' ''hi'' 5 = (Inr (), m', fs')"
    by (metis prod.collapse)
  with user_memory_roundtrip [OF this] show ?thesis by blast
qed

theorem stale_memory_cached_witness:
  "\<exists>m2 fs2. update_user_memory_alone example_memory memory_fs ''u1'' ''new'' 9 = (Inr (), m2, fs2) \<and>
     read_text fs2 [''data'', ''memory'', ''user-global'', ''u1'', ''AGENTS.md''] = Inr ''new'' \<and>
     fst (get_user_memory_alone (user_memory_read m2 ''u1'' ''key'') fs2 ''u1'') = Inr ''key''"
proof -
  have started: "get_user_memory example_memory memory_fs ''u1'' =
      (Reading [''data'', ''memory'', ''user-global'', ''u1'', ''AGENTS.md''], example_memory)"
    and old: "read_text memory_fs [''data'', ''memory'', ''user-global'', ''u1'', ''AGENTS.md''] = Inr ''key''"
    and finished: "fst (update_user_memory_alone example_memory memory_fs ''u1'' ''new'' 9) = Inr ()"
    and newlines: "universal_newlines ''new'' = ''new''"
    by code_simp+
  from finished obtain m2 fs2 where up: "update_user_memory_alone example_memory memory_fs ''u1'' ''new'' 9 = (Inr (), m2, fs2)"
    by (metis prod.collapse)
  from stale_memory_cached [OF started old up, of fs2] up newlines show ?thesis by auto
qed

theorem memory_files_confined_witness:
  "search_memory example_memory memory_fs ''user-global'' '' KEY '' = Inr [''u1/AGENTS.md''] \<and>
   (\<exists>bytes. stored_under memory_fs [''data'', ''memory'', ''user-global''] bytes)"
proof -
  have "search_memory example_memory memory_fs ''user-global'' '' KEY '' = Inr [''u1/AGENTS.md'']" by code_simp
  with memory_files_confined [OF example_memory_ok, of undefined "[]" "'' KEY ''" "[]" 0] show ?thesis by fastforce
qed

theorem user_memories_exposed_witness:
  "get_group_memory_file (\<lambda>_. (0, 0)) example_memory memory_fs ''user-global'' ''u1/AGENTS.md'' =
     Inr \<lparr>memory_path = ''u1/AGENTS.md'', memory_content = ''key'', memory_updated_at = Some 7, memory_size = 3\<rparr>"
proof -
  have "node_at memory_fs (user_memory_path example_memory ''u1'') = Some (File_node (utf8_bytes ''key'') 7)"
    "slug_match ''u1''" "\<not> has_null (data_dir example_memory)"
    "length (utf8_bytes ''key'') \<le> max_group_memory_file_size_bytes example_memory"
    "length (utf8_bytes []) \<le> max_group_memory_file_size_bytes example_memory"
    and evaluated: "universal_newlines ''key'' = ''key''" "length (utf8_bytes ''key'') = 3"
    by code_simp+
  moreover have "tree memory_fs" by (rule tree_check) (simp add: node_at_def)
  moreover have "no_link memory_fs (data_dir example_memory @ [''memory'', ''user-global'', ''u1''])"
    by (simp add: no_link_def node_at_def)
  ultimately have "get_group_memory_file (\<lambda>_. (0, 0)) example_memory memory_fs ''user-global'' (''u1'' @ ''/AGENTS.md'') =
      Inr \<lparr>memory_path = ''u1'' @ ''/AGENTS.md'', memory_content = universal_newlines ''key'',
           memory_updated_at = Some 7, memory_size = length (utf8_bytes ''key'')\<rparr>"
    using user_memories_exposed [OF example_memory_ok, of "''u1''" "''key''" 7 "[]" "\<lambda>_. (0, 0)" 0] by blast
  with evaluated show ?thesis by simp
qed

end
