(* ===== verification/UserDirs.thy ===== *)
theory UserDirs
  imports WorkspaceFiles
begin

text \<open>
  What the services with a directory per user share: the names they admit, the check that a path resolves to a
  place under a directory, their handlers, and the calls on directories and files that exist and are no links.
  The code repeats the definitions in \<open>services/skills.py\<close>, \<open>services/mcp_servers.py\<close> and
  \<open>services/settings.py\<close>.
\<close>

section \<open>Definitions\<close>

text \<open>\<open>_SAFE_SEGMENT.fullmatch\<close>: a letter or digit, then letters, digits, dots, underscores and hyphens.\<close>

definition ascii_alnum :: "char \<Rightarrow> bool" where
  "ascii_alnum c =
     (let n = of_char c :: nat in (48 \<le> n \<and> n \<le> 57) \<or> (65 \<le> n \<and> n \<le> 90) \<or> (97 \<le> n \<and> n \<le> 122))"

definition safe_segment :: "string \<Rightarrow> bool" where
  "safe_segment s =
     (case s of
        [] \<Rightarrow> False
      | c # cs \<Rightarrow> ascii_alnum c \<and> list_all (\<lambda>d. ascii_alnum d \<or> d \<in> {CHR ''.'', CHR ''_'', CHR ''-''}) cs)"

definition validate_segment :: "string \<Rightarrow> string \<Rightarrow> file_exn + string" where
  "validate_segment raw label =
     (let normalized = py_strip raw in
      if safe_segment normalized then Inr normalized else Inl (value_error (''invalid '' @ label)))"

text \<open>A path must resolve to a place under a directory.\<close>

definition check_inside :: "filesys \<Rightarrow> path \<Rightarrow> path \<Rightarrow> file_exn + unit" where
  "check_inside fs p base =
     (case path_resolve fs p of
        Inl e \<Rightarrow> Inl e
      | Inr resolved \<Rightarrow>
          (case validate_path fs resolved [base] of
             Inl e \<Rightarrow> Inl e
           | Inr valid \<Rightarrow> if valid then Inr () else Inl (value_error ''symlink traversal detected'')))"

text \<open>A handler of the current user, for the service's call that it makes and its mapping of exceptions.\<close>

definition for_current_user ::
  "(file_exn \<Rightarrow> file_failure) \<Rightarrow> filesys \<Rightarrow> http_error + auth_user \<Rightarrow> (string \<Rightarrow> 'a fs_result) \<Rightarrow>
   (file_failure + 'a) \<times> filesys" where
  "for_current_user map_error fs current call =
     (case current of
        Inl e \<Rightarrow> (Inl (http_failure e), fs)
      | Inr u \<Rightarrow> (case call (user_id u) of (Inl e, fs1) \<Rightarrow> (Inl (map_error e), fs1) | (Inr x, fs1) \<Rightarrow> (Inr x, fs1)))"

section \<open>Names\<close>

lemma safe_segment_chars: "safe_segment s \<Longrightarrow> c \<in> set s \<Longrightarrow> ascii_alnum c \<or> c \<in> {CHR ''.'', CHR ''_'', CHR ''-''}"
  by (auto simp: safe_segment_def list_all_iff split: list.splits)

lemma safe_segment_plain:
  assumes "safe_segment s"
  shows "CHR ''/'' \<notin> set s" and "CHR 0x00 \<notin> set s" and "s \<noteq> []" and "s \<noteq> ''.''" and "s \<noteq> ''..''"
    and "py_strip s = s"
proof -
  have plain: "\<not> py_isspace_char c \<and> c \<noteq> CHR ''/'' \<and> c \<noteq> CHR 0x00" if "c \<in> set s" for c
    using safe_segment_chars [OF assms that] by (auto simp: ascii_alnum_def py_isspace_char_def Let_def)
  then show "CHR ''/'' \<notin> set s" "CHR 0x00 \<notin> set s" by blast+
  show nonempty: "s \<noteq> []" "s \<noteq> ''.''" "s \<noteq> ''..''" using assms by (auto simp: safe_segment_def ascii_alnum_def)
  have "\<not> py_isspace_char (hd s)" "\<not> py_isspace_char (last s)" using plain nonempty(1) by auto
  then have "py_lstrip s = s" using nonempty(1) by (cases s) (auto simp: py_lstrip_def)
  moreover have "py_rstrip s = s"
    using nonempty(1) \<open>\<not> py_isspace_char (last s)\<close> by (cases s rule: rev_cases) (auto simp: py_rstrip_def)
  ultimately show "py_strip s = s" by (simp add: py_strip_def)
qed

lemma validate_segment_safe [simp]: "safe_segment s \<Longrightarrow> validate_segment s label = Inr s"
  by (simp add: validate_segment_def safe_segment_plain)

lemma path_join_safe [simp]: "safe_segment s \<Longrightarrow> path_join d s = d @ [s]"
  using safe_segment_plain [of s]
  by (auto simp: path_join_def path_absolute_def py_startswith_def path_parts_def py_split_none neq_Nil_conv)

section \<open>Places that are no links\<close>

definition plain_dir :: "filesys \<Rightarrow> path \<Rightarrow> bool" where
  "plain_dir fs d \<longleftrightarrow> tree fs \<and> clean fs d \<and> node_at fs d = Some Dir_node \<and> \<not> has_null d"

lemma plain_dir_prefix:
  assumes "plain_dir fs d" and "prefix q d"
  shows "plain_dir fs q"
proof (cases "q = d")
  case False
  with assms have "node_at fs q = Some Dir_node"
    using tree_below [of fs q d] by (auto simp: plain_dir_def)
  with assms clean_prefix [of fs d q] show ?thesis by (auto simp: plain_dir_def prefix_def)
qed (use assms in simp)

lemma plain_dir_calls:
  assumes "plain_dir fs d"
  shows "path_resolve fs d = Inr d" and "mkdir_parents fs d = (Inr (), fs)"
    and "path_exists fs d" and "path_is_dir fs d" and "kernel fs follow d = Found d"
proof -
  have *: "tree fs" "clean fs d" "node_at fs d = Some Dir_node" "\<not> has_null d" using assms by (auto simp: plain_dir_def)
  show "path_resolve fs d = Inr d" using * by (simp add: resolve_existing)
  show k: "kernel fs follow d = Found d" for follow using * by (simp add: kernel_clean_exists)
  show "path_exists fs d" "path_is_dir fs d" using k * by (simp_all add: path_exists_def path_is_dir_def)
  then show "mkdir_parents fs d = (Inr (), fs)" using k by (blast intro: mkdir_parents_exists)
qed

text \<open>A name in such a directory: a file, or nothing.\<close>

definition plain_entry :: "filesys \<Rightarrow> path \<Rightarrow> string \<Rightarrow> bool" where
  "plain_entry fs d n \<longleftrightarrow> (node_at fs (d @ [n]) = None \<or> (\<exists>b t. node_at fs (d @ [n]) = Some (File_node b t))) \<and>
     n \<noteq> ''..'' \<and> CHR 0x00 \<notin> set n"

lemma plain_entry_kernel:
  assumes "plain_dir fs d" and "plain_entry fs d n"
  shows "kernel fs follow (d @ [n]) = (if node_at fs (d @ [n]) = None then Absent (d @ [n]) else Found (d @ [n]))"
  using assms kernel_into(1) [OF plain_dir_calls(4) [OF assms(1)], of follow "[n]"]
  by (auto simp: plain_dir_def plain_entry_def)

lemma plain_entry_safe:
  assumes "plain_dir fs d" and "plain_entry fs d n" and "node_at fs (d @ [n]) \<noteq> None"
  shows "check_inside fs (d @ [n]) d = Inr ()"
proof -
  have "clean fs (d @ [n])" "tree fs" "\<not> has_null (d @ [n])"
    using assms by (auto simp: plain_dir_def plain_entry_def no_link_def has_null_def)
  with assms(3) show ?thesis
    by (simp add: check_inside_def resolve_existing validate_existing)
qed

lemma plain_subdir_safe: "plain_dir fs (d @ xs) \<Longrightarrow> check_inside fs (d @ xs) d = Inr ()"
  by (simp add: check_inside_def plain_dir_calls(1) validate_existing plain_dir_def)

text \<open>A name that is not there: it resolves to itself, and a directory can be made of it.\<close>

lemma resolve_absent:
  assumes d: "plain_dir fs d" and none: "node_at fs (d @ [n]) = None" and n: "n \<noteq> ''..''" "CHR 0x00 \<notin> set n"
  shows "kernel fs follow (d @ [n]) = Absent (d @ [n])" and "path_resolve fs (d @ [n]) = Inr (d @ [n])"
    and "validate_path fs (d @ [n]) [d] = Inr True" and "check_inside fs (d @ [n]) d = Inr ()"
proof -
  have "plain_entry fs d n" using none n by (simp add: plain_entry_def)
  then show k: "kernel fs follow (d @ [n]) = Absent (d @ [n])" for follow
    using plain_entry_kernel [OF d] none by simp
  then obtain l where "res fs [] (d @ [n]) l (d @ [n])"
    using walk_res [of fs "[]" "d @ [n]" 40 "d @ [n]"] by (auto simp: kernel_def)
  moreover have null: "\<not> has_null (d @ [n])" using d n(2) by (simp add: plain_dir_def has_null_def)
  moreover have "kernel fs True (d @ [n]) \<noteq> Failed ELOOP" using k by simp
  ultimately show r: "path_resolve fs (d @ [n]) = Inr (d @ [n])"
    using realpath_res [of fs "d @ [n]"] by (simp add: path_resolve_def del: map_append)
  then show v: "validate_path fs (d @ [n]) [d] = Inr True"
    using plain_dir_calls(1) [OF d] by (simp add: validate_path_def relative_to_def)
  with r show "check_inside fs (d @ [n]) d = Inr ()" by (simp add: check_inside_def)
qed

lemma mkdir_new_entry:
  assumes d: "plain_dir fs d" and none: "node_at fs (d @ [n]) = None" and n: "n \<noteq> ''..''" "CHR 0x00 \<notin> set n"
  shows "mkdir_parents fs (d @ [n]) = (Inr (), dict_set (d @ [n]) Dir_node fs)"
    and "plain_dir (dict_set (d @ [n]) Dir_node fs) (d @ [n])"
proof -
  let ?fs = "dict_set (d @ [n]) Dir_node fs"
  show mk: "mkdir_parents fs (d @ [n]) = (Inr (), ?fs)"
    using resolve_absent(1) [OF assms] by (subst mkdir_parents.simps) (simp add: os_mkdir_def)
  have "tree ?fs" using mkdir_parents_tree [OF _ mk] d by (simp add: plain_dir_def)
  moreover have "clean ?fs (d @ [n])"
    using d n(1) none by (auto simp: plain_dir_def clean_def no_link_def)
  moreover have "\<not> has_null (d @ [n])" using d n(2) by (simp add: plain_dir_def has_null_def)
  ultimately show "plain_dir ?fs (d @ [n])" by (simp add: plain_dir_def)
qed

text \<open>Changes of entries leave the directory as it is.\<close>

definition entries_changed :: "path \<Rightarrow> string set \<Rightarrow> filesys \<Rightarrow> filesys \<Rightarrow> bool" where
  "entries_changed d ns fs fs' \<longleftrightarrow> (\<forall>p. (\<forall>n \<in> ns. p \<noteq> d @ [n]) \<longrightarrow> node_at fs' p = node_at fs p)"

lemma entries_changed_dir:
  assumes "plain_dir fs d" and "entries_changed d ns fs fs'" and "tree fs'"
  shows "plain_dir fs' d"
proof -
  have "node_at fs' q = node_at fs q" if "prefix q d" for q
  proof -
    from that have "q \<noteq> d @ [n]" for n by (auto dest: prefix_length_le)
    with assms(2) show ?thesis by (simp add: entries_changed_def)
  qed
  with assms(1,3) show ?thesis by (auto simp: plain_dir_def clean_def no_link_def)
qed

lemma entries_changed_mono: "entries_changed d ns fs fs' \<Longrightarrow> ns \<subseteq> ms \<Longrightarrow> entries_changed d ms fs fs'"
  unfolding entries_changed_def by blast

lemma entries_changed_trans:
  "entries_changed d ns fs fs' \<Longrightarrow> entries_changed d ns fs' fs'' \<Longrightarrow> entries_changed d ns fs fs''"
  unfolding entries_changed_def by metis

lemma entries_changed_other:
  "entries_changed d {n} fs fs' \<Longrightarrow> m \<noteq> n \<Longrightarrow> node_at fs' (d @ [m]) = node_at fs (d @ [m])"
  by (simp add: entries_changed_def)

lemma write_entry:
  assumes "plain_dir fs d" and "plain_entry fs d n"
  shows "\<exists>fs'. write_text fs (d @ [n]) content now = (Inr (), fs') \<and>
    node_at fs' (d @ [n]) = Some (File_node (utf8_bytes content) now) \<and> entries_changed d {n} fs fs' \<and> plain_dir fs' d"
proof -
  let ?fs = "dict_set (d @ [n]) (File_node (utf8_bytes content) now) fs"
  have w: "write_file fs (d @ [n]) (utf8_bytes content) now = (Inr (), ?fs)"
    using assms plain_entry_kernel [OF assms, of True] by (auto simp: write_file_def plain_entry_def)
  have changed: "entries_changed d {n} fs ?fs" by (simp add: entries_changed_def)
  have "tree fs" using assms(1) by (simp add: plain_dir_def)
  then have "tree ?fs" using w by (rule write_file_tree)
  with entries_changed_dir [OF assms(1) changed] w changed show ?thesis by (simp add: write_text_def)
qed

lemma unlink_entry:
  assumes "plain_dir fs d" and "plain_entry fs d n" and "node_at fs (d @ [n]) \<noteq> None"
  shows "\<exists>fs'. path_unlink fs (d @ [n]) = (Inr (), fs') \<and>
    node_at fs' (d @ [n]) = None \<and> entries_changed d {n} fs fs' \<and> plain_dir fs' d"
proof -
  let ?fs = "dict_pop (d @ [n]) fs"
  have w: "path_unlink fs (d @ [n]) = (Inr (), ?fs)"
    using assms plain_entry_kernel [OF assms(1,2), of False] by (auto simp: path_unlink_def plain_entry_def)
  have changed: "entries_changed d {n} fs ?fs" by (simp add: entries_changed_def)
  have "tree fs" using assms(1) by (simp add: plain_dir_def)
  then have "tree ?fs" using w by (rule path_unlink_tree)
  with entries_changed_dir [OF assms(1) changed] w changed show ?thesis by simp
qed

lemma clear_entry:
  assumes "plain_dir fs d" and "plain_entry fs d n"
  shows "\<exists>fs'. (if path_exists fs (d @ [n]) then path_unlink fs (d @ [n]) else (Inr (), fs)) = (Inr (), fs') \<and>
    node_at fs' (d @ [n]) = None \<and> entries_changed d {n} fs fs' \<and> plain_dir fs' d"
proof (cases "node_at fs (d @ [n]) = None")
  case True
  with plain_entry_kernel [OF assms, of True] assms(1) show ?thesis by (simp add: path_exists_def entries_changed_def)
next
  case False
  with plain_entry_kernel [OF assms, of True] unlink_entry [OF assms False] show ?thesis
    by (simp add: path_exists_def)
qed

lemma replace_entry:
  assumes "plain_dir fs d" and "plain_entry fs d n" and "plain_entry fs d k" and "n \<noteq> k"
    and here: "node_at fs (d @ [n]) = Some v"
  shows "\<exists>fs'. os_rename fs (d @ [n]) (d @ [k]) = (Inr (), fs') \<and>
    node_at fs' (d @ [n]) = None \<and> node_at fs' (d @ [k]) = Some v \<and> entries_changed d {n, k} fs fs' \<and> plain_dir fs' d"
proof -
  let ?fs = "move_tree (d @ [n]) (d @ [k]) fs"
  have tree: "tree fs" using assms(1) by (simp add: plain_dir_def)
  have apart: "\<not> prefix (d @ [n]) (d @ [k])" "\<not> prefix (d @ [k]) (d @ [n])" using assms(4) by auto
  have nodirs: "node_at fs (d @ [m]) \<noteq> Some Dir_node" if "m = n \<or> m = k" for m
    using assms(2,3) that by (auto simp: plain_entry_def)
  have w: "os_rename fs (d @ [n]) (d @ [k]) = (Inr (), ?fs)"
    using here nodirs plain_entry_kernel [OF assms(1,2), of False] plain_entry_kernel [OF assms(1,3), of False] apart assms(4)
    by (auto simp: os_rename_def)
  have below: "node_at fs p = None" if "strict_prefix (d @ [m]) p" "m = n \<or> m = k" for m p
    using not_below [OF tree _ that(1)] nodirs [OF that(2)] by blast
  then have m: "movable fs (d @ [n]) (d @ [k])" using apart by (simp add: movable_def)
  have changed: "entries_changed d {n, k} fs ?fs"
    unfolding entries_changed_def
  proof (intro allI impI)
    fix p
    assume p: "\<forall>m\<in>{n, k}. p \<noteq> d @ [m]"
    show "node_at ?fs p = node_at fs p"
    proof (cases "prefix (d @ [k]) p")
      case True
      with p have "strict_prefix (d @ [k]) p" by (auto simp: strict_prefix_def)
      moreover from True obtain xs where xs: "p = (d @ [k]) @ xs" by (auto simp: prefix_def)
      moreover from xs p have "strict_prefix (d @ [n]) ((d @ [n]) @ xs)"
        by (auto simp: strict_prefix_def prefix_def)
      ultimately show ?thesis
        using True below [of k p] below [of n "(d @ [n]) @ xs"] by (simp add: node_at_move [OF m])
    next
      case False
      with p below [of n p] show ?thesis by (auto simp: node_at_move [OF m] strict_prefix_def)
    qed
  qed
  have "tree ?fs" using tree w by (rule os_rename_tree)
  with entries_changed_dir [OF assms(1) changed] w changed apart here show ?thesis
    by (simp add: node_at_move [OF m])
qed

lemma clean_short:
  "clean fs [a] \<longleftrightarrow> a \<noteq> ''..'' \<and> no_link fs [a]"
  "clean fs [a, b] \<longleftrightarrow> clean fs [a] \<and> b \<noteq> ''..'' \<and> no_link fs [a, b]"
  "clean fs [a, b, c] \<longleftrightarrow> clean fs [a, b] \<and> c \<noteq> ''..'' \<and> no_link fs [a, b, c]"
  using clean_snoc [of fs "[]" a] clean_snoc [of fs "[a]" b] clean_snoc [of fs "[a, b]" c] by simp_all

end
