(* ===== verification/Skills.thy ===== *)
theory Skills
  imports UserDirs
begin

text \<open>
  The skills of a user: a directory per skill with the file \<open>SKILL.md\<close>, or \<open>SKILL.md.disabled\<close>
  (\<open>services/skills.py\<close>), and the handlers of \<open>app/routes/skills.py\<close>. Each call of the service runs as one
  function in one thread and is one step.
\<close>

section \<open>The service\<close>

record skill_entry =
  entry_skill_id :: string
  entry_enabled :: bool
  entry_updated_at :: instant
  entry_skill_size :: nat

record skill_detail =
  skill_id :: string
  skill_enabled :: bool
  skill_updated_at :: instant
  skill_size :: nat
  skill_content :: string

record skills_service =
  skills_root :: path
  max_skill_file_size_bytes :: nat

definition skill_filename :: string where "skill_filename = ''SKILL.md''"

definition disabled_skill_filename :: string where "disabled_skill_filename = ''SKILL.md.disabled''"

definition skills_service_init :: "filesys \<Rightarrow> path \<Rightarrow> skills_service fs_result" where
  "skills_service_init fs data_root =
     (case path_resolve fs data_root of
        Inl e \<Rightarrow> (Inl e, fs)
      | Inr r \<Rightarrow>
          (case path_resolve fs (r @ [''skills'']) of
             Inl e \<Rightarrow> (Inl e, fs)
           | Inr skills_dir \<Rightarrow>
               and_then (mkdir_parents fs skills_dir) (\<lambda>_ fs1.
                 (Inr \<lparr>skills_root = skills_dir, max_skill_file_size_bytes = 256 * 1024\<rparr>, fs1))))"

section \<open>Names and places\<close>

definition skills_user_root :: "skills_service \<Rightarrow> filesys \<Rightarrow> string \<Rightarrow> path fs_result" where
  "skills_user_root svc fs uid =
     (case validate_segment uid ''user id'' of
        Inl e \<Rightarrow> (Inl e, fs)
      | Inr safe \<Rightarrow>
          (case path_resolve fs (path_join (skills_root svc) safe) of
             Inl e \<Rightarrow> (Inl e, fs)
           | Inr user_dir \<Rightarrow>
               (case validate_path fs user_dir [skills_root svc] of
                  Inl e \<Rightarrow> (Inl e, fs)
                | Inr valid \<Rightarrow>
                    if \<not> valid then (Inl (value_error ''invalid user id''), fs)
                    else and_then (mkdir_parents fs user_dir) (\<lambda>_ fs1. (Inr user_dir, fs1)))))"

definition skill_dir :: "skills_service \<Rightarrow> filesys \<Rightarrow> string \<Rightarrow> string \<Rightarrow> path fs_result" where
  "skill_dir svc fs uid sid =
     and_then (skills_user_root svc fs uid) (\<lambda>user_dir fs1.
       (case validate_segment sid ''skill id'' of
          Inl e \<Rightarrow> (Inl e, fs1)
        | Inr safe \<Rightarrow>
            (case check_inside fs1 (path_join user_dir safe) user_dir of
               Inl e \<Rightarrow> (Inl e, fs1)
             | Inr _ \<Rightarrow> (Inr (path_join user_dir safe), fs1))))"

definition ensure_safe_skill_file :: "filesys \<Rightarrow> path \<Rightarrow> path \<Rightarrow> file_exn + unit" where
  "ensure_safe_skill_file fs file_path skill_root =
     (case check_inside fs file_path skill_root of
        Inl e \<Rightarrow> Inl e
      | Inr _ \<Rightarrow>
          if path_name file_path \<notin> {skill_filename, disabled_skill_filename}
          then Inl (value_error ''unexpected skill file name'') else Inr ())"

definition resolve_skill_file :: "filesys \<Rightarrow> path \<Rightarrow> file_exn + path option \<times> bool" where
  "resolve_skill_file fs dir =
     (if path_exists fs (dir @ [skill_filename]) then
        (case ensure_safe_skill_file fs (dir @ [skill_filename]) dir of
           Inl e \<Rightarrow> Inl e
         | Inr _ \<Rightarrow> Inr (Some (dir @ [skill_filename]), True))
      else if path_exists fs (dir @ [disabled_skill_filename]) then
        (case ensure_safe_skill_file fs (dir @ [disabled_skill_filename]) dir of
           Inl e \<Rightarrow> Inl e
         | Inr _ \<Rightarrow> Inr (Some (dir @ [disabled_skill_filename]), False))
      else Inr (None, False))"

definition build_skill_entry ::
  "(path \<Rightarrow> nat \<times> instant) \<Rightarrow> skills_service \<Rightarrow> filesys \<Rightarrow> string \<Rightarrow> bool \<Rightarrow> path \<Rightarrow> path \<Rightarrow> file_exn + skill_entry" where
  "build_skill_entry dir_stat svc fs sid enabled file_path skill_root =
     (case ensure_safe_skill_file fs file_path skill_root of
        Inl e \<Rightarrow> Inl e
      | Inr _ \<Rightarrow>
          (case path_stat dir_stat fs file_path of
             Inl e \<Rightarrow> Inl e
           | Inr (sz, mtime) \<Rightarrow>
               if sz > max_skill_file_size_bytes svc then Inl (value_error ''skill file exceeds size limit'')
               else Inr \<lparr>entry_skill_id = sid, entry_enabled = enabled, entry_updated_at = mtime, entry_skill_size = sz\<rparr>))"

section \<open>The operations\<close>

fun each_skill ::
  "(path \<Rightarrow> nat \<times> instant) \<Rightarrow> skills_service \<Rightarrow> filesys \<Rightarrow> path \<Rightarrow> path list \<Rightarrow> file_exn + skill_entry list" where
  "each_skill dir_stat svc fs user_dir [] = Inr []"
| "each_skill dir_stat svc fs user_dir (candidate # candidates) =
     (if \<not> path_is_dir fs candidate then each_skill dir_stat svc fs user_dir candidates
      else
        (case check_inside fs candidate user_dir of
           Inl e \<Rightarrow> Inl e
         | Inr _ \<Rightarrow>
             (case resolve_skill_file fs candidate of
                Inl e \<Rightarrow> Inl e
              | Inr (None, _) \<Rightarrow> each_skill dir_stat svc fs user_dir candidates
              | Inr (Some file_path, enabled) \<Rightarrow>
                  (case build_skill_entry dir_stat svc fs (path_name candidate) enabled file_path candidate of
                     Inl e \<Rightarrow> Inl e
                   | Inr entry \<Rightarrow>
                       (case each_skill dir_stat svc fs user_dir candidates of
                          Inl e \<Rightarrow> Inl e
                        | Inr entries \<Rightarrow> Inr (entry # entries))))))"

definition list_user_skills ::
  "(path \<Rightarrow> nat \<times> instant) \<Rightarrow> skills_service \<Rightarrow> filesys \<Rightarrow> string \<Rightarrow> skill_entry list fs_result" where
  "list_user_skills dir_stat svc fs uid =
     and_then (skills_user_root svc fs uid) (\<lambda>user_dir fs1.
       (case iterdir fs1 user_dir of
          Inl e \<Rightarrow> (Inl e, fs1)
        | Inr kids \<Rightarrow>
            (each_skill dir_stat svc fs1 user_dir (sort_key (\<lambda>c. py_lower (path_name c)) kids), fs1)))"

definition skill_not_found :: file_exn where
  "skill_not_found = Exn Not_found_exn (Message ''skill not found'')"

definition get_user_skill ::
  "(path \<Rightarrow> nat \<times> instant) \<Rightarrow> skills_service \<Rightarrow> filesys \<Rightarrow> string \<Rightarrow> string \<Rightarrow> skill_detail fs_result" where
  "get_user_skill dir_stat svc fs uid sid =
     and_then (skill_dir svc fs uid sid) (\<lambda>dir fs1.
       if \<not> path_exists fs1 dir \<or> \<not> path_is_dir fs1 dir then (Inl skill_not_found, fs1)
       else
         (case resolve_skill_file fs1 dir of
            Inl e \<Rightarrow> (Inl e, fs1)
          | Inr (None, _) \<Rightarrow> (Inl skill_not_found, fs1)
          | Inr (Some file_path, enabled) \<Rightarrow>
              (case ensure_safe_skill_file fs1 file_path dir of
                 Inl e \<Rightarrow> (Inl e, fs1)
               | Inr _ \<Rightarrow>
                   (case path_stat dir_stat fs1 file_path of
                      Inl e \<Rightarrow> (Inl e, fs1)
                    | Inr (sz, mtime) \<Rightarrow>
                        if sz > max_skill_file_size_bytes svc
                        then (Inl (value_error ''skill file exceeds size limit''), fs1)
                        else
                          (case read_text fs1 file_path of
                             Inl e \<Rightarrow> (Inl e, fs1)
                           | Inr content \<Rightarrow>
                               (Inr \<lparr>skill_id = path_name dir, skill_enabled = enabled, skill_updated_at = mtime,
                                     skill_size = sz, skill_content = content\<rparr>, fs1))))))"

definition skill_is_directory :: file_exn where
  "skill_is_directory = Exn Is_directory_exn (Message ''skill path is a directory'')"

definition upsert_user_skill ::
  "(path \<Rightarrow> nat \<times> instant) \<Rightarrow> skills_service \<Rightarrow> filesys \<Rightarrow> string \<Rightarrow> string \<Rightarrow> string \<Rightarrow> instant \<Rightarrow> skill_detail fs_result" where
  "upsert_user_skill dir_stat svc fs uid sid content now =
     (if length (utf8_bytes content) > max_skill_file_size_bytes svc
      then (Inl (value_error ''skill content exceeds size limit''), fs)
      else
        and_then (skill_dir svc fs uid sid) (\<lambda>dir fs1.
          and_then (mkdir_parents fs1 dir) (\<lambda>_ fs2.
            (case path_resolve fs2 dir of
               Inl e \<Rightarrow> (Inl e, fs2)
             | Inr resolved \<Rightarrow>
                 and_then (skills_user_root svc fs2 uid) (\<lambda>user_dir fs3.
                   (case validate_path fs3 resolved [user_dir] of
                      Inl e \<Rightarrow> (Inl e, fs3)
                    | Inr valid \<Rightarrow>
                        if \<not> valid then (Inl (value_error ''symlink traversal detected''), fs3)
                        else
                          (case resolve_skill_file fs3 dir of
                             Inl e \<Rightarrow> (Inl e, fs3)
                           | Inr (existing, _) \<Rightarrow>
                               let target = (case existing of Some p \<Rightarrow> p | None \<Rightarrow> dir @ [skill_filename]) in
                               if path_exists fs3 target \<and> path_is_dir fs3 target then (Inl skill_is_directory, fs3)
                               else
                                 and_then (write_text fs3 target content now) (\<lambda>_ fs4.
                                   get_user_skill dir_stat svc fs4 uid sid)))))))) "

definition set_user_skill_enabled ::
  "(path \<Rightarrow> nat \<times> instant) \<Rightarrow> skills_service \<Rightarrow> filesys \<Rightarrow> string \<Rightarrow> string \<Rightarrow> bool \<Rightarrow> skill_detail fs_result" where
  "set_user_skill_enabled dir_stat svc fs uid sid enabled =
     and_then (skill_dir svc fs uid sid) (\<lambda>dir fs1.
       if \<not> path_exists fs1 dir \<or> \<not> path_is_dir fs1 dir then (Inl skill_not_found, fs1)
       else
         (case resolve_skill_file fs1 dir of
            Inl e \<Rightarrow> (Inl e, fs1)
          | Inr (None, _) \<Rightarrow> (Inl skill_not_found, fs1)
          | Inr (Some current_file, current_enabled) \<Rightarrow>
              if current_enabled = enabled then get_user_skill dir_stat svc fs1 uid sid
              else
                let target = dir @ [if enabled then skill_filename else disabled_skill_filename] in
                if path_exists fs1 target \<and> path_is_dir fs1 target then (Inl skill_is_directory, fs1)
                else
                  and_then (if path_exists fs1 target then path_unlink fs1 target else (Inr (), fs1)) (\<lambda>_ fs2.
                    and_then (os_rename fs2 current_file target) (\<lambda>_ fs3.
                      get_user_skill dir_stat svc fs3 uid sid))))"

definition delete_user_skill :: "skills_service \<Rightarrow> filesys \<Rightarrow> string \<Rightarrow> string \<Rightarrow> unit fs_result" where
  "delete_user_skill svc fs uid sid =
     and_then (skill_dir svc fs uid sid) (\<lambda>dir fs1.
       if \<not> path_exists fs1 dir \<or> \<not> path_is_dir fs1 dir then (Inl skill_not_found, fs1)
       else
         (case path_resolve fs1 dir of
            Inl e \<Rightarrow> (Inl e, fs1)
          | Inr resolved \<Rightarrow>
              and_then (skills_user_root svc fs1 uid) (\<lambda>user_dir fs2.
                (case validate_path fs2 resolved [user_dir] of
                   Inl e \<Rightarrow> (Inl e, fs2)
                 | Inr valid \<Rightarrow>
                     if \<not> valid then (Inl (value_error ''symlink traversal detected''), fs2) else rmtree fs2 dir))))"

section \<open>The handlers\<close>

fun map_skills_error :: "file_exn \<Rightarrow> file_failure" where
  "map_skills_error (Exn Not_found_exn detail) = File_failure 404 detail"
| "map_skills_error (Exn Value_exn detail) = File_failure 400 detail"
| "map_skills_error (Exn Is_directory_exn detail) = File_failure 400 detail"
| "map_skills_error (Exn Not_directory_exn detail) = File_failure 400 detail"
| "map_skills_error (Exn _ detail) = File_failure 500 (Message ''skill operation failed'')"

definition list_skills ::
  "(path \<Rightarrow> nat \<times> instant) \<Rightarrow> skills_service \<Rightarrow> filesys \<Rightarrow> http_error + auth_user \<Rightarrow>
   (file_failure + skill_entry list) \<times> filesys" where
  "list_skills dir_stat svc fs current =
     for_current_user map_skills_error fs current (\<lambda>uid. list_user_skills dir_stat svc fs uid)"

definition get_skill ::
  "(path \<Rightarrow> nat \<times> instant) \<Rightarrow> skills_service \<Rightarrow> filesys \<Rightarrow> http_error + auth_user \<Rightarrow> string \<Rightarrow>
   (file_failure + skill_detail) \<times> filesys" where
  "get_skill dir_stat svc fs current sid =
     for_current_user map_skills_error fs current (\<lambda>uid. get_user_skill dir_stat svc fs uid sid)"

definition put_skill ::
  "(path \<Rightarrow> nat \<times> instant) \<Rightarrow> skills_service \<Rightarrow> filesys \<Rightarrow> http_error + auth_user \<Rightarrow> string \<Rightarrow> string \<Rightarrow> instant \<Rightarrow>
   (file_failure + skill_detail) \<times> filesys" where
  "put_skill dir_stat svc fs current sid content now =
     for_current_user map_skills_error fs current (\<lambda>uid. upsert_user_skill dir_stat svc fs uid sid content now)"

definition patch_skill_state ::
  "(path \<Rightarrow> nat \<times> instant) \<Rightarrow> skills_service \<Rightarrow> filesys \<Rightarrow> http_error + auth_user \<Rightarrow> string \<Rightarrow> bool \<Rightarrow>
   (file_failure + skill_detail) \<times> filesys" where
  "patch_skill_state dir_stat svc fs current sid enabled =
     for_current_user map_skills_error fs current (\<lambda>uid. set_user_skill_enabled dir_stat svc fs uid sid enabled)"

definition delete_skill ::
  "skills_service \<Rightarrow> filesys \<Rightarrow> http_error + auth_user \<Rightarrow> string \<Rightarrow> (file_failure + string) \<times> filesys" where
  "delete_skill svc fs current sid =
     for_current_user map_skills_error fs current (\<lambda>uid.
       and_then (delete_user_skill svc fs uid sid) (\<lambda>_ fs1. (Inr ''deleted'', fs1)))"

end
