(* ===== verification/SkillProtocol.thy ===== *)
theory SkillProtocol
  imports Skills
begin

text \<open>
  What the skills promise. Seen from outside a skill is its text, the time of the last change and whether it is
  enabled; the operations on the two files implement the operations on this value. Where this ends: a link in
  the place of the file that leads nowhere yet.
\<close>

section \<open>The view of a skill\<close>

text \<open>The bytes, the time of the last change and the state of the skill that a directory holds.\<close>

definition skill_view :: "filesys \<Rightarrow> path \<Rightarrow> (string \<times> instant \<times> bool) option" where
  "skill_view fs d =
     (case node_at fs (d @ [skill_filename]) of
        Some (File_node b t) \<Rightarrow> Some (b, t, True)
      | _ \<Rightarrow>
          (case node_at fs (d @ [disabled_skill_filename]) of
             Some (File_node b t) \<Rightarrow> Some (b, t, False)
           | _ \<Rightarrow> None))"

text \<open>What the service answers about a skill with this view.\<close>

definition skill_answer ::
  "skills_service \<Rightarrow> string \<Rightarrow> (string \<times> instant \<times> bool) option \<Rightarrow> file_exn + skill_detail" where
  "skill_answer svc sid view =
     (case view of
        None \<Rightarrow> Inl skill_not_found
      | Some (bytes, t, enabled) \<Rightarrow>
          if length bytes > max_skill_file_size_bytes svc then Inl (value_error ''skill file exceeds size limit'')
          else
            (case utf8_decode bytes of
               None \<Rightarrow> Inl (Exn Value_exn Undecodable)
             | Some content \<Rightarrow>
                 Inr \<lparr>skill_id = sid, skill_enabled = enabled, skill_updated_at = t, skill_size = length bytes,
                      skill_content = universal_newlines content\<rparr>))"

definition skill_ready :: "skills_service \<Rightarrow> filesys \<Rightarrow> string \<Rightarrow> string \<Rightarrow> bool" where
  "skill_ready svc fs uid sid \<longleftrightarrow> safe_segment uid \<and> safe_segment sid \<and>
     plain_dir fs (skills_root svc @ [uid, sid]) \<and>
     plain_entry fs (skills_root svc @ [uid, sid]) skill_filename \<and>
     plain_entry fs (skills_root svc @ [uid, sid]) disabled_skill_filename"

lemma skill_places:
  assumes safe: "safe_segment uid" "safe_segment sid" and d: "plain_dir fs (skills_root svc @ [uid, sid])"
  shows "skill_dir svc fs uid sid = (Inr (skills_root svc @ [uid, sid]), fs)"
    and "skills_user_root svc fs uid = (Inr (skills_root svc @ [uid]), fs)"
    and "validate_path fs (skills_root svc @ [uid, sid]) [skills_root svc @ [uid]] = Inr True"
proof -
  let ?d = "skills_root svc @ [uid, sid]" and ?u = "skills_root svc @ [uid]"
  have u: "plain_dir fs ?u" by (rule plain_dir_prefix [OF d]) simp
  have "validate_path fs ?u [skills_root svc] = Inr True"
    using u by (intro validate_existing) (auto simp: plain_dir_def)
  then show r: "skills_user_root svc fs uid = (Inr ?u, fs)"
    using safe plain_dir_calls [OF u] by (simp add: skills_user_root_def and_then_def)
  show "validate_path fs ?d [?u] = Inr True"
    using d by (intro validate_existing) (auto simp: plain_dir_def)
  show "skill_dir svc fs uid sid = (Inr ?d, fs)"
    using r safe plain_subdir_safe [of fs ?u "[sid]"] d by (simp add: skill_dir_def and_then_def)
qed

lemma skill_ready_dir:
  assumes "skill_ready svc fs uid sid"
  shows "skill_dir svc fs uid sid = (Inr (skills_root svc @ [uid, sid]), fs)"
    and "skills_user_root svc fs uid = (Inr (skills_root svc @ [uid]), fs)"
    and "validate_path fs (skills_root svc @ [uid, sid]) [skills_root svc @ [uid]] = Inr True"
  using assms skill_places [of uid sid fs svc] by (auto simp: skill_ready_def)

lemma skill_names: "skill_filename \<noteq> disabled_skill_filename"
  by (simp add: skill_filename_def disabled_skill_filename_def)

lemma skill_file_resolved:
  assumes "skill_ready svc fs uid sid"
  shows "resolve_skill_file fs (skills_root svc @ [uid, sid]) =
    Inr (case skill_view fs (skills_root svc @ [uid, sid]) of
           None \<Rightarrow> (None, False)
         | Some (b, t, enabled) \<Rightarrow>
             (Some (skills_root svc @ [uid, sid, if enabled then skill_filename else disabled_skill_filename]), enabled))"
    (is "_ = Inr (case skill_view fs ?d of None \<Rightarrow> _ | Some x \<Rightarrow> _ x)")
proof -
  have d: "plain_dir fs ?d" and e: "plain_entry fs ?d skill_filename" "plain_entry fs ?d disabled_skill_filename"
    using assms by (auto simp: skill_ready_def)
  have exists: "path_exists fs (?d @ [n]) \<longleftrightarrow> node_at fs (?d @ [n]) \<noteq> None" if "plain_entry fs ?d n" for n
    using plain_entry_kernel [OF d that, of True] by (simp add: path_exists_def)
  show ?thesis
  proof (cases "node_at fs (?d @ [skill_filename])")
    case (Some v)
    with e(1) obtain b t where "v = File_node b t" by (auto simp: plain_entry_def)
    with Some exists [OF e(1)] plain_entry_safe [OF d e(1)] show ?thesis
      by (simp add: resolve_skill_file_def skill_view_def ensure_safe_skill_file_def path_name_def)
  next
    case none: None
    show ?thesis
    proof (cases "node_at fs (?d @ [disabled_skill_filename])")
      case (Some v)
      with e(2) obtain b t where "v = File_node b t" by (auto simp: plain_entry_def)
      with none Some exists [OF e(1)] exists [OF e(2)] plain_entry_safe [OF d e(2)] show ?thesis
        by (simp add: resolve_skill_file_def skill_view_def ensure_safe_skill_file_def path_name_def)
    next
      case None
      with none exists [OF e(1)] exists [OF e(2)] show ?thesis
        by (simp add: resolve_skill_file_def skill_view_def)
    qed
  qed
qed

lemma get_user_skill_view:
  assumes "skill_ready svc fs uid sid"
  shows "get_user_skill dir_stat svc fs uid sid =
    (skill_answer svc sid (skill_view fs (skills_root svc @ [uid, sid])), fs)"
    (is "_ = (skill_answer _ _ (skill_view fs ?d), _)")
proof (cases "skill_view fs ?d")
  case None
  with assms plain_dir_calls [of fs ?d] show ?thesis
    by (simp add: get_user_skill_def and_then_def skill_ready_dir skill_file_resolved skill_answer_def skill_ready_def)
next
  case (Some view)
  obtain b t enabled where view: "view = (b, t, enabled)" by (cases view)
  let ?n = "if enabled then skill_filename else disabled_skill_filename"
  have d: "plain_dir fs ?d" and e: "plain_entry fs ?d ?n" using assms by (auto simp: skill_ready_def)
  have here: "node_at fs (?d @ [?n]) = Some (File_node b t)"
    using Some view by (auto simp: skill_view_def split: option.splits fs_node.splits)
  then have k: "kernel fs True (?d @ [?n]) = Found (?d @ [?n])" using plain_entry_kernel [OF d e, of True] by simp
  have "check_inside fs (?d @ [?n]) ?d = Inr ()" using plain_entry_safe [OF d e] here by simp
  then have safe: "ensure_safe_skill_file fs (?d @ [?n]) ?d = Inr ()"
    by (simp add: ensure_safe_skill_file_def path_name_def)
  have stat: "path_stat dir_stat fs (?d @ [?n]) = Inr (length b, t)" using k here by (simp add: path_stat_def)
  have read: "read_text fs (?d @ [?n]) =
      (case utf8_decode b of None \<Rightarrow> Inl (Exn Value_exn Undecodable) | Some c \<Rightarrow> Inr (universal_newlines c))"
    using k here by (simp add: read_text_def read_file_def)
  have file1: "skills_root svc @ [uid, sid, ?n] = ?d @ [?n]" by simp
  have "resolve_skill_file fs ?d = Inr (Some (?d @ [?n]), enabled)"
    using skill_file_resolved [OF assms] Some view by simp
  with assms safe stat read plain_dir_calls [OF d] Some view show ?thesis
    by (cases "length b > max_skill_file_size_bytes svc")
      (auto simp: get_user_skill_def and_then_def skill_ready_dir skill_answer_def path_name_def split: option.splits)
qed

abbreviation skill_entries :: "string set" where
  "skill_entries \<equiv> {skill_filename, disabled_skill_filename}"

lemma upsert_user_skill_view:
  assumes ready: "skill_ready svc fs uid sid" and small: "length (utf8_bytes content) \<le> max_skill_file_size_bytes svc"
  shows "\<exists>fs'. upsert_user_skill dir_stat svc fs uid sid content now =
      (skill_answer svc sid (skill_view fs' (skills_root svc @ [uid, sid])), fs') \<and>
    skill_ready svc fs' uid sid \<and> entries_changed (skills_root svc @ [uid, sid]) skill_entries fs fs' \<and>
    skill_view fs' (skills_root svc @ [uid, sid]) =
      Some (utf8_bytes content, now,
        case skill_view fs (skills_root svc @ [uid, sid]) of None \<Rightarrow> True | Some (_, _, enabled) \<Rightarrow> enabled)"
proof -
  let ?d = "skills_root svc @ [uid, sid]"
  define enabled where "enabled = (case skill_view fs ?d of None \<Rightarrow> True | Some (_, _, enabled) \<Rightarrow> enabled)"
  let ?n = "if enabled then skill_filename else disabled_skill_filename"
  have d: "plain_dir fs ?d" and e: "plain_entry fs ?d skill_filename" "plain_entry fs ?d disabled_skill_filename"
    using ready by (auto simp: skill_ready_def)
  then have n: "plain_entry fs ?d ?n" by simp
  from write_entry [OF d n] obtain fs' where fs': "write_text fs (?d @ [?n]) content now = (Inr (), fs')"
    "node_at fs' (?d @ [?n]) = Some (File_node (utf8_bytes content) now)" "entries_changed ?d {?n} fs fs'" "plain_dir fs' ?d"
    by blast
  have other: "node_at fs' (?d @ [m]) = node_at fs (?d @ [m])" if "m \<noteq> ?n" for m
    using entries_changed_other [OF fs'(3) that] .
  have entries: "plain_entry fs' ?d m" if "plain_entry fs ?d m" for m
    using other [of m] that fs'(2) by (cases "m = ?n") (auto simp: plain_entry_def)
  then have ready': "skill_ready svc fs' uid sid" using ready e fs'(4) by (simp add: skill_ready_def)
  have view: "skill_view fs' ?d = Some (utf8_bytes content, now, enabled)"
  proof (cases enabled)
    case False
    then have "node_at fs (?d @ [skill_filename]) = None"
      using e(1) by (auto simp: enabled_def skill_view_def plain_entry_def split: option.splits fs_node.splits)
    with False other [of skill_filename] fs'(2) skill_names show ?thesis by (simp add: skill_view_def)
  qed (use fs'(2) in \<open>simp add: skill_view_def\<close>)
  have target: "(case (case skill_view fs ?d of
                   None \<Rightarrow> (None, False)
                 | Some (b, t, enabled) \<Rightarrow>
                     (Some (skills_root svc @ [uid, sid, if enabled then skill_filename else disabled_skill_filename]), enabled)) of
        (existing, x) \<Rightarrow> case existing of Some p \<Rightarrow> p | None \<Rightarrow> ?d @ [skill_filename]) = ?d @ [?n]"
    by (auto simp: enabled_def split: option.splits)
  have nodir: "\<not> path_is_dir fs (?d @ [?n])"
    using plain_entry_kernel [OF d n, of True] n by (auto simp: path_is_dir_def plain_entry_def)
  have "upsert_user_skill dir_stat svc fs uid sid content now = get_user_skill dir_stat svc fs' uid sid"
    using small skill_ready_dir [OF ready] plain_dir_calls [OF d] skill_file_resolved [OF ready] target nodir fs'(1)
    by (cases "skill_view fs ?d") (auto simp: upsert_user_skill_def and_then_def enabled_def)
  then have "upsert_user_skill dir_stat svc fs uid sid content now = (skill_answer svc sid (skill_view fs' ?d), fs')"
    using get_user_skill_view [OF ready'] by simp
  moreover have "entries_changed ?d skill_entries fs fs'" using fs'(3) by (rule entries_changed_mono) simp
  ultimately show ?thesis using ready' view by (auto simp: enabled_def)
qed

lemma set_user_skill_enabled_view:
  assumes ready: "skill_ready svc fs uid sid"
    and view: "skill_view fs (skills_root svc @ [uid, sid]) = Some (b, t, was)"
  shows "\<exists>fs'. set_user_skill_enabled dir_stat svc fs uid sid enabled =
      (skill_answer svc sid (skill_view fs' (skills_root svc @ [uid, sid])), fs') \<and>
    skill_ready svc fs' uid sid \<and> entries_changed (skills_root svc @ [uid, sid]) skill_entries fs fs' \<and>
    skill_view fs' (skills_root svc @ [uid, sid]) = Some (b, t, enabled)"
proof (cases "was = enabled")
  case True
  have "plain_dir fs (skills_root svc @ [uid, sid])" using ready by (simp add: skill_ready_def)
  with True view ready plain_dir_calls [of fs "skills_root svc @ [uid, sid]"] get_user_skill_view [OF ready]
  show ?thesis
    by (simp add: set_user_skill_enabled_def and_then_def skill_ready_dir skill_file_resolved entries_changed_def)
next
  case False
  let ?d = "skills_root svc @ [uid, sid]"
  let ?from = "if was then skill_filename else disabled_skill_filename"
  let ?to = "if enabled then skill_filename else disabled_skill_filename"
  have d: "plain_dir fs ?d" and entry: "plain_entry fs ?d m" if "m \<in> skill_entries" for m
    using ready that by (auto simp: skill_ready_def)
  have dir: "plain_dir fs ?d" using d by blast
  have from_: "plain_entry fs ?d ?from" and to: "plain_entry fs ?d ?to" using entry by auto
  have names: "?from \<noteq> ?to" "skill_entries = {?from, ?to}" using False skill_names by auto
  have here: "node_at fs (?d @ [?from]) = Some (File_node b t)"
    using view by (auto simp: skill_view_def split: option.splits fs_node.splits)
  from clear_entry [OF dir to] obtain fs1 where
    fs1: "(if path_exists fs (?d @ [?to]) then path_unlink fs (?d @ [?to]) else (Inr (), fs)) = (Inr (), fs1)"
    "node_at fs1 (?d @ [?to]) = None" "entries_changed ?d {?to} fs fs1" "plain_dir fs1 ?d" by blast
  have here1: "node_at fs1 (?d @ [?from]) = Some (File_node b t)"
    using entries_changed_other [OF fs1(3) names(1)] here by simp
  have entries1: "plain_entry fs1 ?d ?from" "plain_entry fs1 ?d ?to"
    using from_ to here1 fs1(2) by (simp_all add: plain_entry_def)
  from replace_entry [OF fs1(4) entries1 names(1) here1] obtain fs2 where
    fs2: "os_rename fs1 (?d @ [?from]) (?d @ [?to]) = (Inr (), fs2)" "node_at fs2 (?d @ [?from]) = None"
      "node_at fs2 (?d @ [?to]) = Some (File_node b t)" "entries_changed ?d {?from, ?to} fs1 fs2" "plain_dir fs2 ?d"
    by blast
  have ready2: "skill_ready svc fs2 uid sid"
    using ready from_ to fs2(2,3,5) False by (auto simp: skill_ready_def plain_entry_def split: if_splits)
  have view2: "skill_view fs2 ?d = Some (b, t, enabled)"
    using fs2(2,3) False by (auto simp: skill_view_def split: if_splits)
  have changed: "entries_changed ?d skill_entries fs fs2"
    unfolding names(2) by (rule entries_changed_trans [OF entries_changed_mono [OF fs1(3)] fs2(4)]) simp
  have nodir: "\<not> path_is_dir fs (?d @ [?to])"
    using plain_entry_kernel [OF dir to, of True] to by (auto simp: path_is_dir_def plain_entry_def)
  have "resolve_skill_file fs ?d = Inr (Some (?d @ [?from]), was)"
    using skill_file_resolved [OF ready] view by simp
  then have "set_user_skill_enabled dir_stat svc fs uid sid enabled = get_user_skill dir_stat svc fs2 uid sid"
    using skill_ready_dir [OF ready] plain_dir_calls [OF dir] nodir False fs1(1) fs2(1)
    by (cases enabled; cases was) (auto simp: set_user_skill_enabled_def and_then_def Let_def split: if_splits)
  then show ?thesis using get_user_skill_view [OF ready2] ready2 view2 changed by auto
qed

lemma delete_user_skill_view:
  assumes ready: "skill_ready svc fs uid sid"
  shows "\<exists>fs'. delete_user_skill svc fs uid sid = (Inr (), fs') \<and>
    (\<forall>p. node_at fs' p = (if prefix (skills_root svc @ [uid, sid]) p then None else node_at fs p))"
proof -
  let ?d = "skills_root svc @ [uid, sid]"
  let ?fs = "empty_tree fs ?d"
  have d: "plain_dir fs ?d" and last: "last ?d \<noteq> ''..''"
    using ready safe_segment_plain by (auto simp: skill_ready_def)
  have "node_at ?fs q = node_at fs q" if "prefix q ?d" for q
    using that by (auto simp: strict_prefix_def dest: prefix_order.antisym)
  with d have "plain_dir ?fs ?d"
    using empty_tree_tree [of fs ?d] by (auto simp: plain_dir_def clean_def no_link_def)
  from plain_dir_calls(5) [OF this, of False] have "os_rmdir ?fs ?d = (Inr (), dict_pop ?d ?fs)"
    using last d children_empty_tree [of fs ?d] by (simp add: os_rmdir_def plain_dir_def)
  with d plain_dir_calls [OF d] skill_ready_dir [OF ready]
  have "delete_user_skill svc fs uid sid = (Inr (), dict_pop ?d ?fs)"
    by (simp add: delete_user_skill_def and_then_def rmtree_def plain_dir_def)
  moreover have "node_at (dict_pop ?d ?fs) p = (if prefix ?d p then None else node_at fs p)" for p
    by (auto simp: strict_prefix_def)
  ultimately show ?thesis by blast
qed

section \<open>Skills and users that are not there yet\<close>

text \<open>The user has no directory yet, or it holds no directory for the skill, or one as above.\<close>

definition skill_place :: "skills_service \<Rightarrow> filesys \<Rightarrow> string \<Rightarrow> string \<Rightarrow> bool" where
  "skill_place svc fs uid sid \<longleftrightarrow> safe_segment uid \<and> safe_segment sid \<and> plain_dir fs (skills_root svc) \<and>
     (node_at fs (skills_root svc @ [uid]) = None \<or>
      plain_dir fs (skills_root svc @ [uid]) \<and>
      (node_at fs (skills_root svc @ [uid, sid]) = None \<or> skill_ready svc fs uid sid))"

text \<open>Every operation begins by making the user's directory.\<close>

definition with_user_dir :: "skills_service \<Rightarrow> string \<Rightarrow> filesys \<Rightarrow> filesys" where
  "with_user_dir svc uid fs =
     (if node_at fs (skills_root svc @ [uid]) = None then dict_set (skills_root svc @ [uid]) Dir_node fs else fs)"

lemma node_at_with_user_dir:
  "p \<noteq> skills_root svc @ [uid] \<Longrightarrow> node_at (with_user_dir svc uid fs) p = node_at fs p"
  by (simp add: with_user_dir_def)

lemma user_root_made:
  assumes place: "skill_place svc fs uid sid"
  defines "fs0 \<equiv> with_user_dir svc uid fs"
  shows "skills_user_root svc fs uid = (Inr (skills_root svc @ [uid]), fs0)"
    and "plain_dir fs0 (skills_root svc @ [uid])" and "skill_place svc fs0 uid sid"
    and "skills_user_root svc fs0 uid = (Inr (skills_root svc @ [uid]), fs0)"
proof -
  let ?u = "skills_root svc @ [uid]"
  have safe: "safe_segment uid" "safe_segment sid" and base: "plain_dir fs (skills_root svc)"
    using place by (auto simp: skill_place_def)
  have uid: "uid \<noteq> ''..''" "CHR 0x00 \<notin> set uid" using safe_segment_plain [OF safe(1)] by auto
  have present: "skills_user_root svc gs uid = (Inr ?u, gs)" if "plain_dir gs ?u" for gs
  proof -
    have "validate_path gs ?u [skills_root svc] = Inr True"
      using that by (intro validate_existing) (auto simp: plain_dir_def)
    then show ?thesis using safe plain_dir_calls [OF that] by (simp add: skills_user_root_def and_then_def)
  qed
  have *: "skills_user_root svc fs uid = (Inr ?u, fs0) \<and> plain_dir fs0 ?u"
  proof (cases "node_at fs ?u")
    case None
    note absent = resolve_absent [OF base None uid] and made = mkdir_new_entry [OF base None uid]
    from None made absent(2,3) safe show ?thesis
      by (simp add: fs0_def with_user_dir_def skills_user_root_def and_then_def)
  next
    case (Some v)
    with place have "plain_dir fs ?u" by (simp add: skill_place_def)
    with Some present show ?thesis by (simp add: fs0_def with_user_dir_def)
  qed
  then show "skills_user_root svc fs uid = (Inr ?u, fs0)" and u: "plain_dir fs0 ?u" by auto
  then show "skills_user_root svc fs0 uid = (Inr ?u, fs0)" using present by blast
  show "skill_place svc fs0 uid sid"
  proof (cases "node_at fs ?u")
    case None
    have "tree fs" using base by (simp add: plain_dir_def)
    with None have "node_at fs (?u @ [sid]) = None"
      using tree_snoc [of fs ?u sid] by (cases "node_at fs (?u @ [sid])") auto
    then have "node_at fs0 (skills_root svc @ [uid, sid]) = None"
      by (simp add: fs0_def node_at_with_user_dir)
    with u safe plain_dir_prefix [OF u, of "skills_root svc"] show ?thesis by (simp add: skill_place_def)
  next
    case (Some v)
    with place show ?thesis by (simp add: fs0_def with_user_dir_def)
  qed
qed

lemma operations_make_user_dir:
  assumes "skill_place svc fs uid sid"
  defines "fs0 \<equiv> with_user_dir svc uid fs"
  shows "get_user_skill dir_stat svc fs uid sid = get_user_skill dir_stat svc fs0 uid sid"
    and "set_user_skill_enabled dir_stat svc fs uid sid enabled = set_user_skill_enabled dir_stat svc fs0 uid sid enabled"
    and "delete_user_skill svc fs uid sid = delete_user_skill svc fs0 uid sid"
    and "length (utf8_bytes content) \<le> max_skill_file_size_bytes svc \<Longrightarrow>
      upsert_user_skill dir_stat svc fs uid sid content now = upsert_user_skill dir_stat svc fs0 uid sid content now"
proof -
  have "skill_dir svc fs uid sid = skill_dir svc fs0 uid sid"
    using user_root_made(1,4) [OF assms(1)] by (simp add: skill_dir_def fs0_def)
  then show "get_user_skill dir_stat svc fs uid sid = get_user_skill dir_stat svc fs0 uid sid"
    "set_user_skill_enabled dir_stat svc fs uid sid enabled = set_user_skill_enabled dir_stat svc fs0 uid sid enabled"
    "delete_user_skill svc fs uid sid = delete_user_skill svc fs0 uid sid"
    "length (utf8_bytes content) \<le> max_skill_file_size_bytes svc \<Longrightarrow>
      upsert_user_skill dir_stat svc fs uid sid content now = upsert_user_skill dir_stat svc fs0 uid sid content now"
    by (simp_all add: get_user_skill_def set_user_skill_enabled_def delete_user_skill_def upsert_user_skill_def)
qed

lemma new_skill:
  assumes safe: "safe_segment uid" "safe_segment sid" and u: "plain_dir fs (skills_root svc @ [uid])"
    and none: "node_at fs (skills_root svc @ [uid, sid]) = None"
  defines "d \<equiv> skills_root svc @ [uid, sid]"
  defines "fs1 \<equiv> dict_set d Dir_node fs"
  shows "skill_dir svc fs uid sid = (Inr d, fs)" and "\<not> path_exists fs d" and "skill_view fs d = None"
    and "mkdir_parents fs d = (Inr (), fs1)" and "skill_ready svc fs1 uid sid" and "skill_view fs1 d = None"
proof -
  let ?u = "skills_root svc @ [uid]"
  have d: "d = ?u @ [sid]" by (simp add: d_def)
  have sid: "sid \<noteq> ''..''" "CHR 0x00 \<notin> set sid" using safe_segment_plain [OF safe(2)] by auto
  have none': "node_at fs (?u @ [sid]) = None" using none by simp
  note absent = resolve_absent [OF u none' sid] and made = mkdir_new_entry [OF u none' sid]
  have "skill_place svc fs uid sid"
    using safe u none plain_dir_prefix [OF u, of "skills_root svc"] by (simp add: skill_place_def)
  moreover have "node_at fs ?u \<noteq> None" using u by (simp add: plain_dir_def)
  ultimately have "skills_user_root svc fs uid = (Inr ?u, fs)"
    using user_root_made(1) [of svc fs uid sid] by (simp add: with_user_dir_def split: if_splits)
  then show "skill_dir svc fs uid sid = (Inr d, fs)"
    using safe absent(4) by (simp add: skill_dir_def and_then_def d)
  show "\<not> path_exists fs d" using absent(1) [of True] by (simp add: path_exists_def d)
  have below: "node_at fs (d @ [x]) = None" for x
    using tree_snoc [of fs d x] u none by (cases "node_at fs (d @ [x])") (auto simp: d plain_dir_def)
  then show "skill_view fs d = None" by (simp add: skill_view_def)
  show "mkdir_parents fs d = (Inr (), fs1)" using made(1) by (simp add: fs1_def d)
  have entries: "node_at fs1 (d @ [x]) = None" for x using below by (simp add: fs1_def d)
  then show "skill_view fs1 d = None" by (simp add: skill_view_def)
  show "skill_ready svc fs1 uid sid"
    using safe made(2) entries
    by (simp add: skill_ready_def plain_entry_def fs1_def d_def skill_filename_def disabled_skill_filename_def)
qed

lemma upsert_new_skill:
  assumes "safe_segment uid" "safe_segment sid" "plain_dir fs (skills_root svc @ [uid])"
    and "node_at fs (skills_root svc @ [uid, sid]) = None"
  shows "upsert_user_skill dir_stat svc fs uid sid content now =
    (if length (utf8_bytes content) > max_skill_file_size_bytes svc
     then (Inl (value_error ''skill content exceeds size limit''), fs)
     else upsert_user_skill dir_stat svc (dict_set (skills_root svc @ [uid, sid]) Dir_node fs) uid sid content now)"
proof -
  note new = new_skill [OF assms]
  have d: "plain_dir (dict_set (skills_root svc @ [uid, sid]) Dir_node fs) (skills_root svc @ [uid, sid])"
    using new(5) by (simp add: skill_ready_def)
  show ?thesis
    using new(1,4) skill_ready_dir(1) [OF new(5)] plain_dir_calls(2) [OF d]
    by (simp add: upsert_user_skill_def and_then_def)
qed

lemma no_file_no_change:
  assumes "skill_ready svc fs uid sid" "skill_view fs (skills_root svc @ [uid, sid]) = None"
  shows "set_user_skill_enabled dir_stat svc fs uid sid enabled = (Inl skill_not_found, fs)"
proof -
  have "plain_dir fs (skills_root svc @ [uid, sid])" using assms(1) by (simp add: skill_ready_def)
  with plain_dir_calls(3,4) [OF this] assms skill_ready_dir(1) [OF assms(1)] skill_file_resolved [OF assms(1)]
  show ?thesis by (simp add: set_user_skill_enabled_def and_then_def)
qed

lemma absent_skill:
  assumes "safe_segment uid" "safe_segment sid" "plain_dir fs (skills_root svc @ [uid])"
    and "node_at fs (skills_root svc @ [uid, sid]) = None"
  shows "get_user_skill dir_stat svc fs uid sid = (Inl skill_not_found, fs)"
    and "set_user_skill_enabled dir_stat svc fs uid sid enabled = (Inl skill_not_found, fs)"
    and "delete_user_skill svc fs uid sid = (Inl skill_not_found, fs)"
  using new_skill(1,2) [OF assms]
  by (simp_all add: get_user_skill_def set_user_skill_enabled_def delete_user_skill_def and_then_def)

lemma skill_ready_place: "skill_ready svc fs uid sid \<Longrightarrow> skill_place svc fs uid sid"
  using plain_dir_prefix [of fs "skills_root svc @ [uid, sid]" "skills_root svc @ [uid]"]
    plain_dir_prefix [of fs "skills_root svc @ [uid, sid]" "skills_root svc"]
  by (simp add: skill_place_def skill_ready_def)

lemma deleted_skill_place:
  assumes "skill_ready svc fs uid sid"
    and gone: "\<And>p. node_at fs' p = (if prefix (skills_root svc @ [uid, sid]) p then None else node_at fs p)"
  shows "skill_place svc fs' uid sid"
proof -
  let ?d = "skills_root svc @ [uid, sid]" and ?u = "skills_root svc @ [uid]"
  have d: "plain_dir fs ?d" and safe: "safe_segment uid" "safe_segment sid" using assms(1) by (auto simp: skill_ready_def)
  have u: "plain_dir fs ?u" by (rule plain_dir_prefix [OF d]) simp
  have "tree fs'"
    unfolding tree_def
  proof (intro allI impI)
    fix p v
    assume p: "p \<noteq> []" "node_at fs' p = Some v"
    then have "\<not> prefix ?d p" "node_at fs p = Some v" using gone [of p] by (auto split: if_splits)
    moreover from this have "\<not> prefix ?d (butlast p)" using prefixeq_butlast prefix_order.trans by blast
    moreover have "node_at fs (butlast p) = Some Dir_node"
      using u p(1) \<open>node_at fs p = Some v\<close> by (auto simp: plain_dir_def tree_def)
    ultimately show "node_at fs' (butlast p) = Some Dir_node" using gone by simp
  qed
  moreover have "node_at fs' q = node_at fs q" if "prefix q ?u" for q
  proof -
    have "\<not> prefix ?d q" using that by (auto dest!: prefix_length_le)
    then show ?thesis using gone by simp
  qed
  ultimately have u': "plain_dir fs' ?u" using u by (auto simp: plain_dir_def clean_def no_link_def)
  with safe gone plain_dir_prefix [OF u', of "skills_root svc"] show ?thesis by (simp add: skill_place_def)
qed

text \<open>C31: The operations on the two files of a skill implement the operations on what is seen of it, for a skill
  that is there as for one, or a user, that has no directory yet: reading gives the text, the time and the state;
  storing a text keeps the state, and a new skill is enabled; enabling and disabling change nothing but the state,
  and find no skill where none is seen; deleting a skill removes its directory with all it holds, and is an error
  when there is none. Apart from the directories of the user and the skill nothing but the two files changes, and
  all this can be repeated after each of them.\<close>

theorem skills_refine_view:
  assumes place: "skill_place svc fs uid sid" and d: "d = skills_root svc @ [uid, sid]"
  shows "get_user_skill dir_stat svc fs uid sid = (skill_answer svc sid (skill_view fs d), with_user_dir svc uid fs) \<and>
    (length (utf8_bytes content) \<le> max_skill_file_size_bytes svc \<longrightarrow>
      (\<exists>fs'. upsert_user_skill dir_stat svc fs uid sid content now = (skill_answer svc sid (skill_view fs' d), fs') \<and>
         skill_place svc fs' uid sid \<and>
         (\<forall>p. p \<notin> {skills_root svc @ [uid], d, d @ [''SKILL.md''], d @ [''SKILL.md.disabled'']} \<longrightarrow>
            node_at fs' p = node_at fs p) \<and>
         skill_view fs' d = Some (utf8_bytes content, now,
           case skill_view fs d of None \<Rightarrow> True | Some (_, _, enabled) \<Rightarrow> enabled))) \<and>
    (\<exists>fs'. set_user_skill_enabled dir_stat svc fs uid sid enabled = (skill_answer svc sid (skill_view fs' d), fs') \<and>
       skill_place svc fs' uid sid \<and>
       (\<forall>p. p \<notin> {skills_root svc @ [uid], d @ [''SKILL.md''], d @ [''SKILL.md.disabled'']} \<longrightarrow>
          node_at fs' p = node_at fs p) \<and>
       skill_view fs' d = map_option (\<lambda>(b, t, was). (b, t, enabled)) (skill_view fs d)) \<and>
    (\<exists>fs'. delete_user_skill svc fs uid sid = (if node_at fs d = None then Inl skill_not_found else Inr (), fs') \<and>
       skill_place svc fs' uid sid \<and>
       (\<forall>p. p \<noteq> skills_root svc @ [uid] \<longrightarrow> node_at fs' p = (if prefix d p then None else node_at fs p)))"
proof -
  let ?u = "skills_root svc @ [uid]"
  let ?fs0 = "with_user_dir svc uid fs"
  have entries: "d @ [x] \<noteq> ?u" "d \<noteq> ?u" for x using d by auto
  have safe: "safe_segment uid" "safe_segment sid" using place by (auto simp: skill_place_def)
  have same: "node_at ?fs0 p = node_at fs p" if "p \<noteq> ?u" for p using that by (rule node_at_with_user_dir)
  have view0: "skill_view ?fs0 d = skill_view fs d" and node0: "node_at ?fs0 d = node_at fs d"
    unfolding skill_view_def same [OF entries(1)] same [OF entries(2)] by (rule refl)+
  note made = user_root_made [OF place] and ops = operations_make_user_dir [OF place]
  have tree: "tree fs" using place by (auto simp: skill_place_def plain_dir_def)
  show ?thesis
  proof (cases "node_at fs d = None")
    case True
    then have none: "node_at ?fs0 (skills_root svc @ [uid, sid]) = None" using node0 d by simp
    note new = new_skill [OF safe made(2) none] and absent = absent_skill [OF safe made(2) none]
    note up = upsert_new_skill [OF safe made(2) none, of dir_stat content now]
    have v: "skill_view fs d = None" using new(3) view0 d by simp
    have below: "node_at fs p = None" if "prefix d p" for p
      using tree_below [OF tree that] True by (cases "node_at fs p") auto
    have "\<exists>fs'. upsert_user_skill dir_stat svc fs uid sid content now = (skill_answer svc sid (skill_view fs' d), fs') \<and>
         skill_place svc fs' uid sid \<and>
         (\<forall>p. p \<notin> {?u, d, d @ [''SKILL.md''], d @ [''SKILL.md.disabled'']} \<longrightarrow> node_at fs' p = node_at fs p) \<and>
         skill_view fs' d = Some (utf8_bytes content, now, True)"
      if small: "length (utf8_bytes content) \<le> max_skill_file_size_bytes svc"
    proof -
      let ?fs1 = "dict_set d Dir_node ?fs0"
      from upsert_user_skill_view [OF new(5) small, of dir_stat now] obtain fs' where
        fs': "upsert_user_skill dir_stat svc ?fs1 uid sid content now = (skill_answer svc sid (skill_view fs' d), fs')"
          "skill_ready svc fs' uid sid" "entries_changed d skill_entries ?fs1 fs'"
          "skill_view fs' d = Some (utf8_bytes content, now, True)"
        using new(6) unfolding d by auto
      have "node_at fs' p = node_at fs p" if "p \<notin> {?u, d, d @ [''SKILL.md''], d @ [''SKILL.md.disabled'']}" for p
        using fs'(3) that same [of p] d
        by (simp add: entries_changed_def skill_filename_def disabled_skill_filename_def)
      with fs' small ops(4) [OF small, of dir_stat now] up d skill_ready_place [OF fs'(2)] show ?thesis by auto
    qed
    moreover have "node_at ?fs0 p = (if prefix d p then None else node_at fs p)" if "p \<noteq> ?u" for p
      using same [OF that] below by simp
    ultimately show ?thesis
      using True v view0 same ops(1-3) absent made(3) by (auto simp: skill_answer_def)
  next
    case False
    have u: "node_at fs ?u \<noteq> None"
      using tree_below [OF tree, of ?u d] False d by auto
    then have fs0: "?fs0 = fs" unfolding with_user_dir_def by (rule if_not_P)
    have ready: "skill_ready svc fs uid sid" using place False u d by (auto simp: skill_place_def)
    have changes: "\<forall>p. p \<notin> {?u, d @ [''SKILL.md''], d @ [''SKILL.md.disabled'']} \<longrightarrow> node_at fs' p = node_at fs p"
      if "entries_changed d skill_entries fs fs'" for fs'
      using that by (simp add: entries_changed_def skill_filename_def disabled_skill_filename_def)
    have set: "\<exists>fs'. set_user_skill_enabled dir_stat svc fs uid sid enabled = (skill_answer svc sid (skill_view fs' d), fs') \<and>
       skill_place svc fs' uid sid \<and>
       (\<forall>p. p \<notin> {?u, d @ [''SKILL.md''], d @ [''SKILL.md.disabled'']} \<longrightarrow> node_at fs' p = node_at fs p) \<and>
       skill_view fs' d = map_option (\<lambda>(b, t, was). (b, t, enabled)) (skill_view fs d)"
    proof (cases "skill_view fs d")
      case None
      with no_file_no_change [OF ready, of dir_stat enabled] place show ?thesis unfolding d by (auto simp: skill_answer_def)
    next
      case (Some view)
      obtain b t was where view: "view = (b, t, was)" by (cases view)
      from set_user_skill_enabled_view [OF ready, of b t was dir_stat enabled] Some view obtain fs' where
        "set_user_skill_enabled dir_stat svc fs uid sid enabled = (skill_answer svc sid (skill_view fs' d), fs')"
        "skill_ready svc fs' uid sid" "entries_changed d skill_entries fs fs'" "skill_view fs' d = Some (b, t, enabled)"
        unfolding d by blast
      with changes skill_ready_place Some view show ?thesis by auto
    qed
    have put: "\<exists>fs'. upsert_user_skill dir_stat svc fs uid sid content now = (skill_answer svc sid (skill_view fs' d), fs') \<and>
         skill_place svc fs' uid sid \<and>
         (\<forall>p. p \<notin> {?u, d, d @ [''SKILL.md''], d @ [''SKILL.md.disabled'']} \<longrightarrow> node_at fs' p = node_at fs p) \<and>
         skill_view fs' d = Some (utf8_bytes content, now,
           case skill_view fs d of None \<Rightarrow> True | Some (_, _, enabled) \<Rightarrow> enabled)"
      if small: "length (utf8_bytes content) \<le> max_skill_file_size_bytes svc"
    proof -
      from upsert_user_skill_view [OF ready small, of dir_stat now, folded d] obtain fs' where
        fs': "upsert_user_skill dir_stat svc fs uid sid content now = (skill_answer svc sid (skill_view fs' d), fs')"
          "skill_ready svc fs' uid sid" "entries_changed d skill_entries fs fs'"
          "skill_view fs' d = Some (utf8_bytes content, now,
             case skill_view fs d of None \<Rightarrow> True | Some (_, _, enabled) \<Rightarrow> enabled)" by blast
      have "\<forall>p. p \<notin> {?u, d, d @ [''SKILL.md''], d @ [''SKILL.md.disabled'']} \<longrightarrow> node_at fs' p = node_at fs p"
        using changes [OF fs'(3)] by blast
      with fs'(1,4) skill_ready_place [OF fs'(2)] show ?thesis by (intro exI [of _ fs'] conjI)
    qed
    have "\<exists>fs'. delete_user_skill svc fs uid sid = (Inr (), fs') \<and> skill_place svc fs' uid sid \<and>
        (\<forall>p. node_at fs' p = (if prefix d p then None else node_at fs p))"
      using delete_user_skill_view [OF ready] deleted_skill_place [OF ready] unfolding d by blast
    then have del: "\<exists>fs'. delete_user_skill svc fs uid sid = (if node_at fs d = None then Inl skill_not_found else Inr (), fs') \<and>
        skill_place svc fs' uid sid \<and>
        (\<forall>p. p \<noteq> ?u \<longrightarrow> node_at fs' p = (if prefix d p then None else node_at fs p))"
      using False by (simp only: if_False) blast
    have get: "get_user_skill dir_stat svc fs uid sid = (skill_answer svc sid (skill_view fs d), ?fs0)"
      unfolding fs0 d by (rule get_user_skill_view [OF ready])
    show ?thesis by (intro conjI impI get put set del)
  qed
qed

section \<open>A link that leads nowhere\<close>

lemma kernel_through_entry_link:
  assumes "plain_dir fs d" and "node_at fs (d @ [l]) = Some (Link_node True (base @ [n]))" and "l \<noteq> ''..''"
    and "plain_dir fs base" and "plain_entry fs base n"
  shows "kernel fs True (d @ [l]) = (if node_at fs (base @ [n]) = None then Absent (base @ [n]) else Found (base @ [n]))"
proof -
  have "kernel fs True (d @ [l]) = walk fs True d [l] 40"
    using kernel_into(1) [OF plain_dir_calls(4) [OF assms(1)]] assms(1) by (auto simp: plain_dir_def)
  also have "\<dots> = walk fs True [] (base @ [n]) 39" using assms(2,3) by (simp add: link_base_def)
  also have "\<dots> = walk fs True base [n] 39"
    using walk_into [of fs "[]" base 39 True "[n]"] walk_clean_exists [of fs "[]" base True 39] assms(4)
    by (simp add: plain_dir_def)
  also have "\<dots> = (if node_at fs (base @ [n]) = None then Absent (base @ [n]) else Found (base @ [n]))"
    using assms(5) by (auto simp: plain_entry_def)
  finally show ?thesis .
qed

text \<open>When the place of a skill's file holds a link to a name that does not exist, storing the skill creates the
  file that the link names, anywhere: the service looks for a file with \<open>exists\<close>, which does not see the link.
  The request is answered with an error, after the text has been written.\<close>

theorem dangling_skill_link_followed:
  assumes safe: "safe_segment uid" "safe_segment sid" and d: "plain_dir fs (skills_root svc @ [uid, sid])"
    and link: "node_at fs (skills_root svc @ [uid, sid, ''SKILL.md'']) = Some (Link_node True (base @ [n]))"
    and disabled: "node_at fs (skills_root svc @ [uid, sid, ''SKILL.md.disabled'']) = None"
    and base: "plain_dir fs base" "plain_entry fs base n" "node_at fs (base @ [n]) = None"
    and outside: "\<not> prefix (skills_root svc @ [uid, sid]) (base @ [n])"
    and small: "length (utf8_bytes content) \<le> max_skill_file_size_bytes svc"
  shows "\<exists>fs'. upsert_user_skill dir_stat svc fs uid sid content now =
      (Inl (Exn Value_exn (Message ''symlink traversal detected'')), fs') \<and>
    node_at fs' (base @ [n]) = Some (File_node (utf8_bytes content) now)"
proof -
  let ?d = "skills_root svc @ [uid, sid]" and ?p = "base @ [n]"
  let ?fs = "dict_set ?p (File_node (utf8_bytes content) now) fs"
  have names: "skill_filename \<noteq> ''..''" "disabled_skill_filename \<noteq> ''..''" "\<not> has_null [skill_filename]"
    "\<not> has_null [disabled_skill_filename]"
    by (simp_all add: skill_filename_def disabled_skill_filename_def has_null_def)
  have l: "node_at fs (?d @ [skill_filename]) = Some (Link_node True ?p)"
    "node_at fs (?d @ [disabled_skill_filename]) = None"
    using link disabled by (simp_all add: skill_filename_def disabled_skill_filename_def)
  have dis: "plain_entry fs ?d disabled_skill_filename"
    using l(2) names by (simp add: plain_entry_def has_null_def)
  have k: "kernel fs True (?d @ [skill_filename]) = Absent ?p"
    using kernel_through_entry_link [OF d l(1) names(1) base(1,2)] base(3) by simp
  have w: "write_text fs (?d @ [skill_filename]) content now = (Inr (), ?fs)"
    using k by (simp add: write_text_def write_file_def)
  have tree: "tree ?fs" using write_file_tree [of fs "?d @ [skill_filename]"] w d by (simp add: write_text_def plain_dir_def)
  have same: "entries_changed base {n} fs ?fs" by (simp add: entries_changed_def)
  have kept: "node_at ?fs q = node_at fs q" if "prefix q ?d" for q
    using plain_dir_prefix [OF d that] base(3) by (cases "q = ?p") (auto simp: plain_dir_def)
  have d': "plain_dir ?fs ?d"
    unfolding plain_dir_def clean_def no_link_def
    using d tree kept kept [OF prefix_order.refl] by (simp add: plain_dir_def clean_def no_link_def del: node_at_set)
  have base': "plain_dir ?fs base" "plain_entry ?fs base n"
    using entries_changed_dir [OF base(1) same tree] base(2) by (simp_all add: plain_entry_def)
  have l': "node_at ?fs (?d @ [skill_filename]) = Some (Link_node True ?p)" using l(1) base(3) by auto
  have k': "kernel ?fs True (?d @ [skill_filename]) = Found ?p"
    using kernel_through_entry_link [OF d' l' names(1) base'] by simp
  have nulls: "\<not> has_null (?d @ [skill_filename])" "\<not> has_null ?p"
    using d base(1,2) names(3) by (simp_all add: plain_dir_def plain_entry_def has_null_def)
  have real: "path_resolve ?fs (?d @ [skill_filename]) = Inr ?p" using k' nulls(1) resolve_reached by blast
  have "kernel ?fs True ?p = Found ?p" using plain_entry_kernel [OF base', of True] by simp
  then have "path_resolve ?fs ?p = Inr ?p" using nulls(2) resolve_reached by blast
  then have "validate_path ?fs ?p [?d] = Inr False"
    using plain_dir_calls(1) [OF d'] outside by (simp add: validate_path_def relative_to_def)
  with real k' have unsafe: "resolve_skill_file ?fs ?d = Inl (value_error ''symlink traversal detected'')"
    by (simp add: resolve_skill_file_def path_exists_def ensure_safe_skill_file_def check_inside_def)
  have absent: "resolve_skill_file fs ?d = Inr (None, False)"
    using k plain_entry_kernel [OF d dis, of True] l(2) by (simp add: resolve_skill_file_def path_exists_def)
  have "upsert_user_skill dir_stat svc fs uid sid content now = get_user_skill dir_stat svc ?fs uid sid"
    using small skill_places [OF safe d] plain_dir_calls [OF d] absent k w
    by (simp add: upsert_user_skill_def and_then_def path_exists_def)
  also have "\<dots> = (Inl (value_error ''symlink traversal detected''), ?fs)"
    using skill_places [OF safe d'] plain_dir_calls [OF d'] unsafe by (simp add: get_user_skill_def and_then_def)
  finally show ?thesis by (auto simp: value_error_def)
qed

section \<open>Examples\<close>

abbreviation example_skills :: skills_service where
  "example_skills \<equiv> \<lparr>skills_root = [''s''], max_skill_file_size_bytes = 100\<rparr>"

abbreviation skills_fs :: "fs_node \<Rightarrow> filesys" where
  "skills_fs v \<equiv>
     [([''s''], Dir_node), ([''s'', ''u''], Dir_node), ([''s'', ''u'', ''k''], Dir_node),
      ([''s'', ''u'', ''k'', ''SKILL.md''], v), ([''etc''], Dir_node)]"

lemma example_skill_dir: "plain_dir (skills_fs v) [''s'', ''u'', ''k'']" "plain_dir (skills_fs v) [''etc'']"
  unfolding plain_dir_def
  by (intro conjI tree_check; simp add: clean_short no_link_def node_at_def has_null_def)+

lemma example_safe: "safe_segment ''u''" "safe_segment ''k''"
  by code_simp+

theorem skills_refine_view_witness:
  "(\<exists>fs'. set_user_skill_enabled (\<lambda>_. (0, 0)) example_skills (skills_fs (File_node ''hi'' 7)) ''u'' ''k'' False =
     (Inr \<lparr>skill_id = ''k'', skill_enabled = False, skill_updated_at = 7, skill_size = 2, skill_content = ''hi''\<rparr>, fs')) \<and>
   (\<exists>fs'. upsert_user_skill (\<lambda>_. (0, 0)) example_skills [([''s''], Dir_node)] ''u'' ''k'' ''hi'' 8 =
     (Inr \<lparr>skill_id = ''k'', skill_enabled = True, skill_updated_at = 8, skill_size = 2, skill_content = ''hi''\<rparr>, fs'))"
proof -
  let ?fs = "skills_fs (File_node ''hi'' 7)" and ?new = "[([''s''], Dir_node)]"
  have "skill_ready example_skills ?fs ''u'' ''k''"
    using example_safe example_skill_dir(1)
    by (simp add: skill_ready_def plain_entry_def node_at_def skill_filename_def disabled_skill_filename_def)
  then have place: "skill_place example_skills ?fs ''u'' ''k''" by (rule skill_ready_place)
  have view: "skill_view ?fs (skills_root example_skills @ [''u'', ''k'']) = Some (''hi'', 7, True)"
    by (simp add: skill_view_def node_at_def skill_filename_def)
  from skills_refine_view [OF place refl, of "\<lambda>_. (0, 0)" "[]" 0 False] view
  obtain fs' where set: "set_user_skill_enabled (\<lambda>_. (0, 0)) example_skills ?fs ''u'' ''k'' False =
      (skill_answer example_skills ''k'' (Some (''hi'', 7, False)), fs')"
    by auto
  have "plain_dir ?new [''s'']"
    unfolding plain_dir_def
    by (intro conjI tree_check; simp add: clean_short no_link_def node_at_def has_null_def)
  then have new: "skill_place example_skills ?new ''u'' ''k''"
    using example_safe by (simp add: skill_place_def node_at_def)
  have "skill_view ?new (skills_root example_skills @ [''u'', ''k'']) = None"
    by (simp add: skill_view_def node_at_def)
  moreover have hi: "utf8_bytes ''hi'' = ''hi''" by code_simp
  ultimately obtain fs'' where put: "upsert_user_skill (\<lambda>_. (0, 0)) example_skills ?new ''u'' ''k'' ''hi'' 8 =
      (skill_answer example_skills ''k'' (Some (''hi'', 8, True)), fs'')"
    using skills_refine_view [OF new refl, of "\<lambda>_. (0, 0)" "''hi''" 8 False] by auto
  have "skill_answer example_skills ''k'' (Some (''hi'', 7, False)) =
      Inr \<lparr>skill_id = ''k'', skill_enabled = False, skill_updated_at = 7, skill_size = 2, skill_content = ''hi''\<rparr>"
    "skill_answer example_skills ''k'' (Some (''hi'', 8, True)) =
      Inr \<lparr>skill_id = ''k'', skill_enabled = True, skill_updated_at = 8, skill_size = 2, skill_content = ''hi''\<rparr>"
    by code_simp+
  with set put show ?thesis by simp
qed

theorem dangling_skill_link_followed_witness:
  "\<exists>fs'. upsert_user_skill (\<lambda>_. (0, 0)) example_skills (skills_fs (Link_node True [''etc'', ''cron''])) ''u'' ''k'' ''x'' 9 =
       (Inl (Exn Value_exn (Message ''symlink traversal detected'')), fs') \<and>
     node_at fs' [''etc'', ''cron''] = Some (File_node (utf8_bytes ''x'') 9)"
proof -
  let ?fs = "skills_fs (Link_node True [''etc'', ''cron''])"
  have "plain_dir ?fs (skills_root example_skills @ [''u'', ''k''])" using example_skill_dir(1) by simp
  moreover have "node_at ?fs (skills_root example_skills @ [''u'', ''k'', ''SKILL.md'']) =
      Some (Link_node True ([''etc''] @ [''cron'']))"
    "node_at ?fs (skills_root example_skills @ [''u'', ''k'', ''SKILL.md.disabled'']) = None"
    "plain_entry ?fs [''etc''] ''cron''" "node_at ?fs ([''etc''] @ [''cron'']) = None"
    "\<not> prefix (skills_root example_skills @ [''u'', ''k'']) ([''etc''] @ [''cron''])"
    by (simp_all add: node_at_def plain_entry_def)
  moreover have "length (utf8_bytes ''x'') \<le> max_skill_file_size_bytes example_skills" by code_simp
  ultimately show ?thesis
    using dangling_skill_link_followed [OF example_safe, of ?fs example_skills "[''etc'']" "''cron''" "''x''" "\<lambda>_. (0, 0)" 9]
      example_skill_dir(2) by simp
qed

end
