(* ===== verification/JsonFiles.thy ===== *)
theory JsonFiles
  imports UserDirs Json IsoTime
begin

text \<open>
  JSON texts in files: what the services of settings and of MCP servers write with \<open>json.dumps\<close> and a newline is
  what they read back with \<open>json.loads\<close>. The members of an object that was printed with sorted keys are
  found under their names.
\<close>

text \<open>An exception of a call ends what follows.\<close>

definition sum_bind :: "'e + 'a \<Rightarrow> ('a \<Rightarrow> 'e + 'b) \<Rightarrow> 'e + 'b" where
  "sum_bind r k = (case r of Inl e \<Rightarrow> Inl e | Inr x \<Rightarrow> k x)"

section \<open>The text of a value\<close>

lemma json_hex_no_return: "d < 16 \<Longrightarrow> json_hex d \<noteq> CHR 0x0D"
proof -
  have "list_all (\<lambda>d. json_hex d \<noteq> CHR 0x0D) [0 ..< 16]" by code_simp
  then show "d < 16 \<Longrightarrow> ?thesis" by (simp add: list_all_iff)
qed

lemma dump_char_no_return: "CHR 0x0D \<notin> set (dump_char c)"
proof (cases "c = CHR 0x0D")
  case False
  have "(of_char c :: nat) div 16 < 16" using nat_of_char_less_256 [of c] by linarith
  then have "json_hex (of_char c div 16) \<noteq> CHR 0x0D" "json_hex (of_char c mod 16) \<noteq> CHR 0x0D"
    using json_hex_no_return [of "of_char c div 16"] json_hex_no_return [of "of_char c mod 16"] by auto
  with False show ?thesis by (simp add: dump_char_def Let_def eq_commute [of "CHR 0x0D"])
qed (simp add: dump_char_def)

lemma dump_string_no_return: "CHR 0x0D \<notin> set (dump_string s)"
  using dump_char_no_return by (auto simp: dump_string_def)

lemma new_line_no_return: "CHR 0x0D \<notin> set (new_line i)"
  by (auto simp: new_line_def)

lemma dump_no_return:
  "plain_json v \<Longrightarrow> CHR 0x0D \<notin> set (dump_value i v)"
  "list_all plain_json xs \<Longrightarrow> CHR 0x0D \<notin> set (dump_items i xs)"
  "list_all (\<lambda>(k, v). plain_json v) kvs \<Longrightarrow> CHR 0x0D \<notin> set (dump_members i kvs)"
  by (induction i v and i xs and i kvs rule: dump_value_dump_items_dump_members.induct)
    (auto simp: dump_string_no_return new_line_no_return)

lemma universal_newlines_id: "CHR 0x0D \<notin> set s \<Longrightarrow> universal_newlines s = s"
  by (induction s rule: universal_newlines.induct) auto

definition json_text :: "json \<Rightarrow> string" where
  "json_text v = json_dumps v @ [newline]"

lemma read_json_text:
  assumes "plain_json v" and "kernel fs True p = Found q" and "node_at fs q = Some (File_node (utf8_bytes (json_text v)) t)"
  shows "read_text fs p = Inr (json_text v)" and "json_loads (json_text v) = Some (sort_keys v)"
proof -
  have "CHR 0x0D \<notin> set (json_text v)"
    using dump_no_return(1) [OF plain_sorted [OF assms(1)]] by (simp add: json_text_def json_dumps_def)
  with assms(2,3) show "read_text fs p = Inr (json_text v)"
    by (simp add: read_text_def read_file_def utf8_roundtrip universal_newlines_id)
  show "json_loads (json_text v) = Some (sort_keys v)" using json_roundtrip [OF assms(1)] by (simp add: json_text_def)
qed

lemma json_text_size: "length (utf8_bytes (json_text v)) = Suc (length (utf8_bytes (json_dumps v)))"
  by (simp add: json_text_def utf8_bytes_def)

section \<open>The members of an object\<close>

lemma map_of_sorted: "distinct (map fst kvs) \<Longrightarrow> map_of (sort_key fst kvs) = map_of kvs"
proof (rule map_of_eqI)
  assume distinct: "distinct (map fst kvs)"
  show "set (map fst (sort_key fst kvs)) = set (map fst kvs)" by simp
  have "distinct (map fst (sort_key fst kvs))"
    using distinct by (metis mset_eq_imp_distinct_iff mset_map mset_sort)
  then have "map_of (sort_key fst kvs) k = Some v \<longleftrightarrow> map_of kvs k = Some v" for k v
    using distinct by (simp add: map_of_eq_Some_iff)
  then show "\<forall>k\<in>set (map fst (sort_key fst kvs)). map_of (sort_key fst kvs) k = map_of kvs k"
    by (metis not_Some_eq)
qed

lemma sorted_members:
  assumes "distinct (map fst kvs)"
  shows "\<exists>ms. sort_keys (JObject kvs) = JObject ms \<and> distinct (map fst ms) \<and>
    (\<forall>k. dict_get ms k = map_option sort_keys (dict_get kvs k))"
proof (intro exI conjI allI)
  let ?ms = "map (\<lambda>(k, v). (k, sort_keys v)) kvs"
  have keys: "map fst ?ms = map fst kvs" by (induction kvs) auto
  with assms have distinct: "distinct (map fst ?ms)" by metis
  show "sort_keys (JObject kvs) = JObject (sort_key fst ?ms)" by simp
  show "distinct (map fst (sort_key fst ?ms))" using distinct by (metis mset_eq_imp_distinct_iff mset_map mset_sort)
  fix k
  have "map_of ?ms k = map_option sort_keys (map_of kvs k)" by (induction kvs) auto
  then show "dict_get (sort_key fst ?ms) k = map_option sort_keys (dict_get kvs k)"
    using map_of_sorted [OF distinct] by simp
qed

text \<open>\<open>d.update(e)\<close>.\<close>

definition dict_update :: "(string, 'a) dict \<Rightarrow> (string, 'a) dict \<Rightarrow> (string, 'a) dict" where
  "dict_update d e = fold (\<lambda>(k, v) d. dict_set k v d) e d"

lemma dict_get_update:
  "distinct (map fst e) \<Longrightarrow> dict_get (dict_update d e) k = (case dict_get e k of None \<Rightarrow> dict_get d k | Some v \<Rightarrow> Some v)"
proof (induction e arbitrary: d)
  case (Cons kv e)
  obtain k' v' where kv: "kv = (k', v')" by (cases kv)
  with Cons.prems have "dict_get e k' = None" by (simp add: map_of_eq_None_iff)
  with Cons kv show ?case by (auto simp: dict_update_def split: option.splits)
qed (simp add: dict_update_def)

section \<open>Entries of a directory\<close>

lemma plain_entry_inside:
  assumes "plain_dir fs d" and "plain_entry fs d n"
  shows "check_inside fs (d @ [n]) d = Inr ()"
proof (cases "node_at fs (d @ [n]) = None")
  case True
  have clean: "clean fs (d @ [n])" and nulls: "\<not> has_null (d @ [n])"
    using assms True by (auto simp: plain_dir_def plain_entry_def no_link_def has_null_def)
  moreover have "kernel fs True (d @ [n]) = Absent (d @ [n])" using plain_entry_kernel [OF assms] True by simp
  ultimately have "path_resolve fs (d @ [n]) = Inr (d @ [n])"
    using clean_realpath [OF clean] by (simp only: path_resolve_def Let_def if_False realpath_result.case walk_result.distinct)
  with plain_dir_calls(1) [OF assms(1)] show ?thesis
    by (simp add: check_inside_def validate_path_def relative_to_def)
qed (use plain_entry_safe assms in blast)

lemma entries_changed_entry:
  "entries_changed d ns fs fs' \<Longrightarrow> m \<notin> ns \<Longrightarrow> plain_entry fs' d m \<longleftrightarrow> plain_entry fs d m"
  unfolding entries_changed_def plain_entry_def by (metis append1_eq_conv)

end
