(* ===== verification/Settings.thy ===== *)
theory Settings
  imports JsonFiles
begin

text \<open>
  The settings of a user and of the system: JSON files under the directory of settings
  (\<open>services/settings.py\<close>), with the handlers of \<open>app/routes/settings.py\<close>. Each call of the service runs as one
  function in one thread and is one step. The avatar that the code sets when there is none is a character
  beyond those of this model, and is the argument \<open>robot\<close>.
\<close>

section \<open>The service\<close>

record provider_config =
  provider_enabled :: bool
  base_url :: string
  default_model :: string
  has_api_key :: bool
  provider_updated_at :: "instant option"

record channels_config =
  feishu_enabled :: bool
  feishu_app_id :: string
  feishu_has_app_secret :: bool
  feishu_has_encrypt_key :: bool
  feishu_has_verification_token :: bool
  telegram_enabled :: bool
  telegram_has_bot_token :: bool
  channels_updated_at :: "instant option"

record registration_policy =
  allow_registration :: bool
  require_invite_code :: bool
  registration_updated_at :: "instant option"

record appearance_config =
  app_name :: string
  ai_name :: string
  ai_avatar_emoji :: string
  ai_avatar_color :: string
  appearance_updated_at :: "instant option"

record system_settings =
  default_execution_mode :: string
  allow_host_execution :: bool
  system_updated_at :: "instant option"

record settings_service =
  users_root :: path
  global_root :: path
  max_settings_file_size_bytes :: nat

definition settings_service_init :: "filesys \<Rightarrow> path \<Rightarrow> settings_service fs_result" where
  "settings_service_init fs data_root =
     (case path_resolve fs data_root of
        Inl e \<Rightarrow> (Inl e, fs)
      | Inr r \<Rightarrow>
          (case path_resolve fs (r @ [''settings'']) of
             Inl e \<Rightarrow> (Inl e, fs)
           | Inr s \<Rightarrow>
               (case (path_resolve fs (s @ [''users'']), path_resolve fs (s @ [''global''])) of
                  (Inl e, _) \<Rightarrow> (Inl e, fs)
                | (_, Inl e) \<Rightarrow> (Inl e, fs)
                | (Inr users, Inr global) \<Rightarrow>
                    and_then (mkdir_parents fs users) (\<lambda>_ fs1.
                      and_then (mkdir_parents fs1 global) (\<lambda>_ fs2.
                        (Inr \<lparr>users_root = users, global_root = global, max_settings_file_size_bytes = 256 * 1024\<rparr>, fs2))))))"

section \<open>Places and files\<close>

definition invalid_settings :: file_exn where
  "invalid_settings = value_error ''invalid settings file''"

definition settings_user_root :: "settings_service \<Rightarrow> filesys \<Rightarrow> string \<Rightarrow> path fs_result" where
  "settings_user_root svc fs uid =
     (case validate_segment uid ''user id'' of
        Inl e \<Rightarrow> (Inl e, fs)
      | Inr safe \<Rightarrow>
          let user_dir = path_join (users_root svc) safe in
          (case check_inside fs user_dir (users_root svc) of
             Inl e \<Rightarrow> (Inl e, fs)
           | Inr _ \<Rightarrow> and_then (mkdir_parents fs user_dir) (\<lambda>_ fs1. (Inr user_dir, fs1))))"

definition provider_file :: "settings_service \<Rightarrow> filesys \<Rightarrow> string \<Rightarrow> path fs_result" where
  "provider_file svc fs uid =
     and_then (settings_user_root svc fs uid) (\<lambda>d fs1. (Inr (d @ [''provider.json'']), fs1))"

definition channels_file :: "settings_service \<Rightarrow> filesys \<Rightarrow> string \<Rightarrow> path fs_result" where
  "channels_file svc fs uid =
     and_then (settings_user_root svc fs uid) (\<lambda>d fs1. (Inr (d @ [''channels.json'']), fs1))"

definition registration_file :: "settings_service \<Rightarrow> path" where
  "registration_file svc = global_root svc @ [''registration.json'']"

definition appearance_file :: "settings_service \<Rightarrow> path" where
  "appearance_file svc = global_root svc @ [''appearance.json'']"

definition system_file :: "settings_service \<Rightarrow> path" where
  "system_file svc = global_root svc @ [''system.json'']"

type_synonym payload = "(string, json) dict"

definition read_json ::
  "(path \<Rightarrow> nat \<times> instant) \<Rightarrow> settings_service \<Rightarrow> filesys \<Rightarrow> path \<Rightarrow> payload \<Rightarrow> path \<Rightarrow> file_exn + payload" where
  "read_json dir_stat svc fs p default_payload base =
     (case check_inside fs p base of
        Inl e \<Rightarrow> Inl e
      | Inr _ \<Rightarrow>
          if \<not> path_exists fs p then Inr default_payload
          else
            (case path_stat dir_stat fs p of
               Inl e \<Rightarrow> Inl e
             | Inr (sz, mtime) \<Rightarrow>
                 if sz > max_settings_file_size_bytes svc then Inl (value_error ''settings file exceeds size limit'')
                 else
                   (case read_text fs p of
                      Inl e \<Rightarrow> Inl e
                    | Inr t \<Rightarrow>
                        (case json_loads t of
                           Some (JObject kvs) \<Rightarrow> Inr (dict_update default_payload kvs)
                         | _ \<Rightarrow> Inl invalid_settings))))"

definition write_json :: "settings_service \<Rightarrow> filesys \<Rightarrow> path \<Rightarrow> payload \<Rightarrow> path \<Rightarrow> instant \<Rightarrow> unit fs_result" where
  "write_json svc fs p payload base now =
     (case check_inside fs p base of
        Inl e \<Rightarrow> (Inl e, fs)
      | Inr _ \<Rightarrow>
          let encoded = json_dumps (JObject payload) in
          if length (utf8_bytes encoded) > max_settings_file_size_bytes svc
          then (Inl (value_error ''settings file exceeds size limit''), fs)
          else
            and_then (mkdir_parents fs (butlast p)) (\<lambda>_ fs1.
              and_then (write_text fs1 (temp_path p) (encoded @ [newline]) now) (\<lambda>_ fs2.
                os_rename fs2 (temp_path p) p)))"

section \<open>Values of a payload\<close>

text \<open>\<open>payload.get(key)\<close> gives \<open>None\<close> for a missing key, which is what \<open>null\<close> is read as.\<close>

definition payload_get :: "payload \<Rightarrow> string \<Rightarrow> json" where
  "payload_get payload k = (case dict_get payload k of None \<Rightarrow> JNull | Some v \<Rightarrow> v)"

fun as_bool :: "bool \<Rightarrow> json \<Rightarrow> file_exn + bool" where
  "as_bool d JNull = Inr d"
| "as_bool d (JBool b) = Inr b"
| "as_bool d _ = Inl invalid_settings"

fun as_string :: "json \<Rightarrow> file_exn + string" where
  "as_string JNull = Inr []"
| "as_string (JString s) = Inr s"
| "as_string _ = Inl invalid_settings"

fun settings_datetime :: "json \<Rightarrow> file_exn + instant option" where
  "settings_datetime JNull = Inr None"
| "settings_datetime (JString s) =
     (case fromisoformat s of None \<Rightarrow> Inl invalid_settings | Some d \<Rightarrow> Inr (Some (to_utc_datetime d)))"
| "settings_datetime _ = Inl invalid_settings"

fun normalize_execution_mode :: "json \<Rightarrow> file_exn + string" where
  "normalize_execution_mode (JString s) =
     (let normalized = py_lower (py_strip s) in
      if normalized \<in> {''openai'', ''host'', ''container''} then Inr normalized
      else Inl (value_error ''invalid execution mode''))"
| "normalize_execution_mode _ = Inl (value_error ''invalid execution mode'')"

definition get_bool :: "payload \<Rightarrow> string \<Rightarrow> bool \<Rightarrow> (bool \<Rightarrow> file_exn + 'a) \<Rightarrow> file_exn + 'a" where
  "get_bool payload k d cont = sum_bind (as_bool d (payload_get payload k)) cont"

definition get_string :: "payload \<Rightarrow> string \<Rightarrow> (string \<Rightarrow> file_exn + 'a) \<Rightarrow> file_exn + 'a" where
  "get_string payload k cont = sum_bind (as_string (payload_get payload k)) cont"

definition get_datetime :: "payload \<Rightarrow> string \<Rightarrow> (instant option \<Rightarrow> file_exn + 'a) \<Rightarrow> file_exn + 'a" where
  "get_datetime payload k cont = sum_bind (settings_datetime (payload_get payload k)) cont"

section \<open>The provider of a user\<close>

definition provider_default :: payload where
  "provider_default =
     [(''enabled'', JBool False), (''base_url'', JString []), (''default_model'', JString []),
      (''api_key'', JString []), (''updated_at'', JNull)]"

definition provider_from_payload :: "payload \<Rightarrow> file_exn + provider_config" where
  "provider_from_payload payload =
     get_string payload ''api_key'' (\<lambda>api_key.
       get_bool payload ''enabled'' False (\<lambda>enabled.
         get_string payload ''base_url'' (\<lambda>url.
           get_string payload ''default_model'' (\<lambda>model.
             get_datetime payload ''updated_at'' (\<lambda>updated.
               Inr \<lparr>provider_enabled = enabled, base_url = url, default_model = model,
                    has_api_key = (py_strip api_key \<noteq> []), provider_updated_at = updated\<rparr>)))))"

definition with_sum :: "file_exn + 'a \<Rightarrow> filesys \<Rightarrow> 'a fs_result" where
  "with_sum r fs = (r, fs)"

definition read_provider ::
  "(path \<Rightarrow> nat \<times> instant) \<Rightarrow> settings_service \<Rightarrow> filesys \<Rightarrow> string \<Rightarrow> (path \<times> payload) fs_result" where
  "read_provider dir_stat svc fs uid =
     and_then (settings_user_root svc fs uid) (\<lambda>d fs1.
       and_then (provider_file svc fs1 uid) (\<lambda>p fs2.
         and_then (with_sum (read_json dir_stat svc fs2 p provider_default d) fs2) (\<lambda>payload fs3.
           (Inr (d, payload), fs3))))"

definition get_provider_config ::
  "(path \<Rightarrow> nat \<times> instant) \<Rightarrow> settings_service \<Rightarrow> filesys \<Rightarrow> string \<Rightarrow> provider_config fs_result" where
  "get_provider_config dir_stat svc fs uid =
     and_then (read_provider dir_stat svc fs uid) (\<lambda>(d, payload) fs1.
       with_sum (provider_from_payload payload) fs1)"

definition next_api_key :: "payload \<Rightarrow> string option \<Rightarrow> string" where
  "next_api_key current api_key =
     (case api_key of
        Some k \<Rightarrow> py_strip k
      | None \<Rightarrow> (case dict_get current ''api_key'' of Some (JString k) \<Rightarrow> k | _ \<Rightarrow> []))"

definition update_provider_config ::
  "(path \<Rightarrow> nat \<times> instant) \<Rightarrow> settings_service \<Rightarrow> filesys \<Rightarrow> string \<Rightarrow> bool \<Rightarrow> string \<Rightarrow> string \<Rightarrow> string option \<Rightarrow>
   instant \<Rightarrow> provider_config fs_result" where
  "update_provider_config dir_stat svc fs uid enabled url model api_key now =
     and_then (read_provider dir_stat svc fs uid) (\<lambda>(d, current) fs1.
       let payload =
         [(''enabled'', JBool enabled), (''base_url'', JString (py_strip url)),
          (''default_model'', JString (py_strip model)), (''api_key'', JString (next_api_key current api_key)),
          (''updated_at'', JString (iso_datetime now))]
       in
       and_then (provider_file svc fs1 uid) (\<lambda>p fs2.
         and_then (write_json svc fs2 p payload d now) (\<lambda>_ fs3.
           with_sum (provider_from_payload payload) fs3)))"

section \<open>The channels of a user\<close>

definition channels_default :: payload where
  "channels_default =
     [(''feishu_enabled'', JBool False), (''feishu_app_id'', JString []), (''feishu_app_secret'', JString []),
      (''feishu_encrypt_key'', JString []), (''feishu_verification_token'', JString []),
      (''telegram_enabled'', JBool False), (''telegram_bot_token'', JString []), (''updated_at'', JNull)]"

definition channels_from_payload :: "payload \<Rightarrow> file_exn + channels_config" where
  "channels_from_payload payload =
     get_string payload ''feishu_app_secret'' (\<lambda>secret.
       get_string payload ''feishu_encrypt_key'' (\<lambda>encrypt_key.
         get_string payload ''feishu_verification_token'' (\<lambda>verification.
           get_string payload ''telegram_bot_token'' (\<lambda>bot_token.
             get_bool payload ''feishu_enabled'' False (\<lambda>feishu.
               get_string payload ''feishu_app_id'' (\<lambda>app_id.
                 get_bool payload ''telegram_enabled'' False (\<lambda>telegram.
                   get_datetime payload ''updated_at'' (\<lambda>updated.
                     Inr \<lparr>feishu_enabled = feishu, feishu_app_id = app_id, feishu_has_app_secret = (secret \<noteq> []),
                          feishu_has_encrypt_key = (encrypt_key \<noteq> []),
                          feishu_has_verification_token = (verification \<noteq> []), telegram_enabled = telegram,
                          telegram_has_bot_token = (bot_token \<noteq> []), channels_updated_at = updated\<rparr>))))))))"

definition get_channels_config ::
  "(path \<Rightarrow> nat \<times> instant) \<Rightarrow> settings_service \<Rightarrow> filesys \<Rightarrow> string \<Rightarrow> channels_config fs_result" where
  "get_channels_config dir_stat svc fs uid =
     and_then (settings_user_root svc fs uid) (\<lambda>d fs1.
       and_then (channels_file svc fs1 uid) (\<lambda>p fs2.
         and_then (with_sum (read_json dir_stat svc fs2 p channels_default d) fs2) (\<lambda>payload fs3.
           with_sum (channels_from_payload payload) fs3)))"

text \<open>The arguments of \<open>update_channels_config\<close>.\<close>

record channels_update =
  new_feishu_enabled :: bool
  new_feishu_app_id :: string
  new_feishu_app_secret :: string
  new_feishu_encrypt_key :: string
  new_feishu_verification_token :: string
  new_telegram_enabled :: bool
  new_telegram_bot_token :: string

definition update_channels_config ::
  "settings_service \<Rightarrow> filesys \<Rightarrow> string \<Rightarrow> channels_update \<Rightarrow> instant \<Rightarrow> channels_config fs_result" where
  "update_channels_config svc fs uid u now =
     and_then (settings_user_root svc fs uid) (\<lambda>d fs1.
       let payload =
         [(''feishu_enabled'', JBool (new_feishu_enabled u)), (''feishu_app_id'', JString (py_strip (new_feishu_app_id u))),
          (''feishu_app_secret'', JString (py_strip (new_feishu_app_secret u))),
          (''feishu_encrypt_key'', JString (py_strip (new_feishu_encrypt_key u))),
          (''feishu_verification_token'', JString (py_strip (new_feishu_verification_token u))),
          (''telegram_enabled'', JBool (new_telegram_enabled u)),
          (''telegram_bot_token'', JString (py_strip (new_telegram_bot_token u))),
          (''updated_at'', JString (iso_datetime now))]
       in
       and_then (channels_file svc fs1 uid) (\<lambda>p fs2.
         and_then (write_json svc fs2 p payload d now) (\<lambda>_ fs3.
           with_sum (channels_from_payload payload) fs3)))"

section \<open>The settings of the system\<close>

definition registration_default :: payload where
  "registration_default =
     [(''allow_registration'', JBool True), (''require_invite_code'', JBool False), (''updated_at'', JNull)]"

definition registration_from_payload :: "payload \<Rightarrow> file_exn + registration_policy" where
  "registration_from_payload payload =
     get_bool payload ''allow_registration'' True (\<lambda>allow.
       get_bool payload ''require_invite_code'' False (\<lambda>invite.
         get_datetime payload ''updated_at'' (\<lambda>updated.
           Inr \<lparr>allow_registration = allow, require_invite_code = invite, registration_updated_at = updated\<rparr>)))"

definition get_registration_policy ::
  "(path \<Rightarrow> nat \<times> instant) \<Rightarrow> settings_service \<Rightarrow> filesys \<Rightarrow> file_exn + registration_policy" where
  "get_registration_policy dir_stat svc fs =
     sum_bind (read_json dir_stat svc fs (registration_file svc) registration_default (global_root svc))
       registration_from_payload"

definition update_registration_policy ::
  "settings_service \<Rightarrow> filesys \<Rightarrow> bool \<Rightarrow> bool \<Rightarrow> instant \<Rightarrow> registration_policy fs_result" where
  "update_registration_policy svc fs allow invite now =
     (let payload =
        [(''allow_registration'', JBool allow), (''require_invite_code'', JBool invite),
         (''updated_at'', JString (iso_datetime now))]
      in
      and_then (write_json svc fs (registration_file svc) payload (global_root svc) now) (\<lambda>_ fs1.
        with_sum (get_datetime payload ''updated_at'' (\<lambda>updated.
          Inr \<lparr>allow_registration = allow, require_invite_code = invite, registration_updated_at = updated\<rparr>)) fs1))"

definition appearance_default :: "string \<Rightarrow> payload" where
  "appearance_default robot =
     [(''app_name'', JString ''Portex''), (''ai_name'', JString ''Portex''), (''ai_avatar_emoji'', JString robot),
      (''ai_avatar_color'', JString ''#0ea5e9''), (''updated_at'', JNull)]"

definition appearance_from_payload :: "payload \<Rightarrow> file_exn + appearance_config" where
  "appearance_from_payload payload =
     get_string payload ''app_name'' (\<lambda>app.
       get_string payload ''ai_name'' (\<lambda>ai.
         get_string payload ''ai_avatar_emoji'' (\<lambda>emoji.
           get_string payload ''ai_avatar_color'' (\<lambda>colour.
             get_datetime payload ''updated_at'' (\<lambda>updated.
               Inr \<lparr>app_name = app, ai_name = ai, ai_avatar_emoji = emoji, ai_avatar_color = colour,
                    appearance_updated_at = updated\<rparr>)))))"

definition get_appearance_config ::
  "string \<Rightarrow> (path \<Rightarrow> nat \<times> instant) \<Rightarrow> settings_service \<Rightarrow> filesys \<Rightarrow> file_exn + appearance_config" where
  "get_appearance_config robot dir_stat svc fs =
     sum_bind (read_json dir_stat svc fs (appearance_file svc) (appearance_default robot) (global_root svc))
       appearance_from_payload"

definition stripped_or :: "string \<Rightarrow> string \<Rightarrow> string" where
  "stripped_or s d = (if py_strip s = [] then d else py_strip s)"

definition update_appearance_config ::
  "string \<Rightarrow> settings_service \<Rightarrow> filesys \<Rightarrow> string \<Rightarrow> string \<Rightarrow> string \<Rightarrow> string \<Rightarrow> instant \<Rightarrow> appearance_config fs_result" where
  "update_appearance_config robot svc fs app ai emoji colour now =
     (let payload =
        [(''app_name'', JString (stripped_or app ''Portex'')), (''ai_name'', JString (stripped_or ai ''Portex'')),
         (''ai_avatar_emoji'', JString (stripped_or emoji robot)),
         (''ai_avatar_color'', JString (stripped_or colour ''#0ea5e9'')), (''updated_at'', JString (iso_datetime now))]
      in
      and_then (write_json svc fs (appearance_file svc) payload (global_root svc) now) (\<lambda>_ fs1.
        with_sum (get_datetime payload ''updated_at'' (\<lambda>updated.
          Inr \<lparr>app_name = stripped_or app ''Portex'', ai_name = stripped_or ai ''Portex'',
               ai_avatar_emoji = stripped_or emoji robot, ai_avatar_color = stripped_or colour ''#0ea5e9'',
               appearance_updated_at = updated\<rparr>)) fs1))"

definition system_default :: payload where
  "system_default =
     [(''default_execution_mode'', JString ''openai''), (''allow_host_execution'', JBool False), (''updated_at'', JNull)]"

definition system_from_payload :: "payload \<Rightarrow> file_exn + system_settings" where
  "system_from_payload payload =
     sum_bind (normalize_execution_mode (payload_get payload ''default_execution_mode'')) (\<lambda>mode.
       get_bool payload ''allow_host_execution'' False (\<lambda>host.
         get_datetime payload ''updated_at'' (\<lambda>updated.
           Inr \<lparr>default_execution_mode = mode, allow_host_execution = host, system_updated_at = updated\<rparr>)))"

definition get_system_settings ::
  "(path \<Rightarrow> nat \<times> instant) \<Rightarrow> settings_service \<Rightarrow> filesys \<Rightarrow> file_exn + system_settings" where
  "get_system_settings dir_stat svc fs =
     sum_bind (read_json dir_stat svc fs (system_file svc) system_default (global_root svc)) system_from_payload"

definition update_system_settings ::
  "settings_service \<Rightarrow> filesys \<Rightarrow> string \<Rightarrow> bool \<Rightarrow> instant \<Rightarrow> system_settings fs_result" where
  "update_system_settings svc fs requested_mode host now =
     (case normalize_execution_mode (JString requested_mode) of
        Inl e \<Rightarrow> (Inl e, fs)
      | Inr mode \<Rightarrow>
          let payload =
            [(''default_execution_mode'', JString mode), (''allow_host_execution'', JBool host),
             (''updated_at'', JString (iso_datetime now))]
          in
          and_then (write_json svc fs (system_file svc) payload (global_root svc) now) (\<lambda>_ fs1.
            with_sum (get_datetime payload ''updated_at'' (\<lambda>updated.
              Inr \<lparr>default_execution_mode = mode, allow_host_execution = host, system_updated_at = updated\<rparr>)) fs1))"

section \<open>The handlers\<close>

fun map_settings_error :: "file_exn \<Rightarrow> file_failure" where
  "map_settings_error (Exn Not_found_exn detail) = File_failure 404 detail"
| "map_settings_error (Exn Value_exn detail) = File_failure 400 detail"
| "map_settings_error (Exn Is_directory_exn detail) = File_failure 400 detail"
| "map_settings_error (Exn Not_directory_exn detail) = File_failure 400 detail"
| "map_settings_error (Exn _ detail) = File_failure 500 (Message ''settings operation failed'')"

type_synonym 'a settings_response = "(file_failure + 'a) \<times> filesys"

definition read_provider_config ::
  "(path \<Rightarrow> nat \<times> instant) \<Rightarrow> settings_service \<Rightarrow> filesys \<Rightarrow> http_error + auth_user \<Rightarrow> provider_config settings_response" where
  "read_provider_config dir_stat svc fs current =
     for_current_user map_settings_error fs current (\<lambda>uid. get_provider_config dir_stat svc fs uid)"

definition put_provider_config ::
  "(path \<Rightarrow> nat \<times> instant) \<Rightarrow> settings_service \<Rightarrow> filesys \<Rightarrow> http_error + auth_user \<Rightarrow> bool \<Rightarrow> string \<Rightarrow> string \<Rightarrow>
   string option \<Rightarrow> instant \<Rightarrow> provider_config settings_response" where
  "put_provider_config dir_stat svc fs current enabled url model api_key now =
     for_current_user map_settings_error fs current (\<lambda>uid.
       update_provider_config dir_stat svc fs uid enabled url model api_key now)"

definition read_channels_config ::
  "(path \<Rightarrow> nat \<times> instant) \<Rightarrow> settings_service \<Rightarrow> filesys \<Rightarrow> http_error + auth_user \<Rightarrow> channels_config settings_response" where
  "read_channels_config dir_stat svc fs current =
     for_current_user map_settings_error fs current (\<lambda>uid. get_channels_config dir_stat svc fs uid)"

definition put_channels_config ::
  "settings_service \<Rightarrow> filesys \<Rightarrow> http_error + auth_user \<Rightarrow> channels_update \<Rightarrow> instant \<Rightarrow> channels_config settings_response" where
  "put_channels_config svc fs current u now =
     for_current_user map_settings_error fs current (\<lambda>uid. update_channels_config svc fs uid u now)"

text \<open>The handlers of the system's settings ask for a permission.\<close>

definition with_settings_permission ::
  "string \<Rightarrow> filesys \<Rightarrow> http_error + auth_user \<Rightarrow> 'a fs_result \<Rightarrow> 'a settings_response" where
  "with_settings_permission action fs current call =
     for_current_user map_settings_error fs (require_permission ''settings'' action current) (\<lambda>_. call)"

definition read_registration_policy ::
  "(path \<Rightarrow> nat \<times> instant) \<Rightarrow> settings_service \<Rightarrow> filesys \<Rightarrow> http_error + auth_user \<Rightarrow> registration_policy settings_response" where
  "read_registration_policy dir_stat svc fs current =
     with_settings_permission ''read'' fs current (get_registration_policy dir_stat svc fs, fs)"

definition put_registration_policy ::
  "settings_service \<Rightarrow> filesys \<Rightarrow> http_error + auth_user \<Rightarrow> bool \<Rightarrow> bool \<Rightarrow> instant \<Rightarrow> registration_policy settings_response" where
  "put_registration_policy svc fs current allow invite now =
     with_settings_permission ''write'' fs current (update_registration_policy svc fs allow invite now)"

definition read_appearance_config ::
  "string \<Rightarrow> (path \<Rightarrow> nat \<times> instant) \<Rightarrow> settings_service \<Rightarrow> filesys \<Rightarrow> http_error + auth_user \<Rightarrow>
   appearance_config settings_response" where
  "read_appearance_config robot dir_stat svc fs current =
     with_settings_permission ''read'' fs current (get_appearance_config robot dir_stat svc fs, fs)"

definition put_appearance_config ::
  "string \<Rightarrow> settings_service \<Rightarrow> filesys \<Rightarrow> http_error + auth_user \<Rightarrow> string \<Rightarrow> string \<Rightarrow> string \<Rightarrow> string \<Rightarrow> instant \<Rightarrow>
   appearance_config settings_response" where
  "put_appearance_config robot svc fs current app ai emoji colour now =
     with_settings_permission ''write'' fs current (update_appearance_config robot svc fs app ai emoji colour now)"

definition read_system_settings ::
  "(path \<Rightarrow> nat \<times> instant) \<Rightarrow> settings_service \<Rightarrow> filesys \<Rightarrow> http_error + auth_user \<Rightarrow> system_settings settings_response" where
  "read_system_settings dir_stat svc fs current =
     with_settings_permission ''read'' fs current (get_system_settings dir_stat svc fs, fs)"

text \<open>FastAPI admits the three modes only.\<close>

definition put_system_settings ::
  "settings_service \<Rightarrow> filesys \<Rightarrow> http_error + auth_user \<Rightarrow> string \<Rightarrow> bool \<Rightarrow> instant \<Rightarrow> system_settings settings_response" where
  "put_system_settings svc fs current mode host now =
     (case require_permission ''settings'' ''write'' current of
        Inl e \<Rightarrow> (Inl (http_failure e), fs)
      | Inr u \<Rightarrow>
          if mode \<notin> {''openai'', ''host'', ''container''} then (Inl (File_failure 422 (Message ''validation error'')), fs)
          else with_settings_permission ''write'' fs current (update_system_settings svc fs mode host now))"

end
