(* ===== verification/SettingsProtocol.thy ===== *)
theory SettingsProtocol
  imports Settings FileProtocol
begin

text \<open>
  What the settings keep: an update that succeeds is what later reads give, for every kind of settings and
  for that kind only; and the text of an update may be one byte too long to be read again.
\<close>

section \<open>A file of settings\<close>

text \<open>The directory is there, the file and its temporary file are files or missing.\<close>

definition cell_ready :: "filesys \<Rightarrow> path \<Rightarrow> string \<Rightarrow> bool" where
  "cell_ready fs d n \<longleftrightarrow> plain_dir fs d \<and> plain_entry fs d n \<and> plain_entry fs d (n @ ''.tmp'')"

definition settings_names :: "string set" where
  "settings_names = {''provider.json'', ''channels.json'', ''registration.json'', ''appearance.json'', ''system.json''}"

definition settings_temp :: "string \<Rightarrow> string set" where
  "settings_temp n = {n, n @ ''.tmp''}"

lemma settings_temp_path: "n \<in> settings_names \<Longrightarrow> temp_path (d @ [n]) = d @ [n @ ''.tmp'']"
  by (auto simp: settings_names_def temp_path_def with_suffix_def path_suffix_def path_name_def Let_def)

lemma settings_in_names:
  "''provider.json'' \<in> settings_names" "''channels.json'' \<in> settings_names" "''registration.json'' \<in> settings_names"
  "''appearance.json'' \<in> settings_names" "''system.json'' \<in> settings_names"
  by (simp_all add: settings_names_def)

lemma write_json_ready:
  assumes n: "n \<in> settings_names" and ready: "cell_ready fs d n"
    and small: "length (utf8_bytes (json_dumps (JObject payload))) \<le> max_settings_file_size_bytes svc"
  shows "\<exists>fs'. write_json svc fs (d @ [n]) payload d now = (Inr (), fs') \<and>
    node_at fs' (d @ [n]) = Some (File_node (utf8_bytes (json_text (JObject payload))) now) \<and>
    entries_changed d (settings_temp n) fs fs' \<and> cell_ready fs' d n"
proof -
  let ?tmp = "n @ ''.tmp''" and ?text = "json_text (JObject payload)"
  have dir: "plain_dir fs d" and entries: "plain_entry fs d n" "plain_entry fs d ?tmp"
    using ready by (auto simp: cell_ready_def)
  from write_entry [OF dir entries(2), of ?text now] obtain fs1 where
    fs1: "write_text fs (d @ [?tmp]) ?text now = (Inr (), fs1)"
      "node_at fs1 (d @ [?tmp]) = Some (File_node (utf8_bytes ?text) now)" "entries_changed d {?tmp} fs fs1" "plain_dir fs1 d"
    by blast
  have entries1: "plain_entry fs1 d n" "plain_entry fs1 d ?tmp"
    using entries entries_changed_entry [OF fs1(3)] fs1(2) by (auto simp: plain_entry_def)
  from replace_entry [OF fs1(4) entries1(2,1) _ fs1(2)] obtain fs2 where
    fs2: "os_rename fs1 (d @ [?tmp]) (d @ [n]) = (Inr (), fs2)" "node_at fs2 (d @ [?tmp]) = None"
      "node_at fs2 (d @ [n]) = Some (File_node (utf8_bytes ?text) now)" "entries_changed d {?tmp, n} fs1 fs2" "plain_dir fs2 d"
    by auto
  have "entries_changed d (settings_temp n) fs fs2"
    by (rule entries_changed_trans [OF entries_changed_mono [OF fs1(3)] entries_changed_mono [OF fs2(4)]])
      (auto simp: settings_temp_def)
  moreover have "cell_ready fs2 d n" using fs2 entries by (simp add: cell_ready_def plain_entry_def)
  moreover have "write_json svc fs (d @ [n]) payload d now = (Inr (), fs2)"
    using plain_entry_inside [OF dir entries(1)] small plain_dir_calls(2) [OF dir] fs1(1) fs2(1)
    by (simp add: write_json_def and_then_def settings_temp_path [OF n] json_text_def Let_def)
  ultimately show ?thesis using fs2(3) by blast
qed

text \<open>Reading gives the members that were written over the defaults, unless the text is too long.\<close>

definition scalars :: "payload \<Rightarrow> bool" where
  "scalars payload \<longleftrightarrow> distinct (map fst payload) \<and> list_all (\<lambda>(k, v). plain_json v \<and> sort_keys v = v) payload"

lemma read_json_written:
  assumes ready: "cell_ready fs d n" and scalars: "scalars payload"
    and here: "node_at fs (d @ [n]) = Some (File_node (utf8_bytes (json_text (JObject payload))) t)"
  shows "\<exists>ms. read_json dir_stat svc fs (d @ [n]) defaults d =
      (if length (utf8_bytes (json_text (JObject payload))) > max_settings_file_size_bytes svc
       then Inl (value_error ''settings file exceeds size limit'') else Inr ms) \<and>
    (\<forall>k \<in> set (map fst payload). payload_get ms k = payload_get payload k)"
proof -
  have dir: "plain_dir fs d" and entry: "plain_entry fs d n" using ready by (auto simp: cell_ready_def)
  have k: "kernel fs True (d @ [n]) = Found (d @ [n])" using plain_entry_kernel [OF dir entry, of True] here by simp
  have plain: "plain_json (JObject payload)" and distinct: "distinct (map fst payload)"
    using scalars by (auto simp: scalars_def list_all_iff)
  from sorted_members [OF distinct] obtain ms where
    ms: "sort_keys (JObject payload) = JObject ms" "distinct (map fst ms)"
      "\<And>k. dict_get ms k = map_option sort_keys (dict_get payload k)" by blast
  have same: "dict_get ms k = dict_get payload k" for k
  proof (cases "dict_get payload k")
    case (Some v)
    then have "sort_keys v = v" using scalars by (auto simp: scalars_def list_all_iff dest!: map_of_SomeD)
    with Some ms(3) show ?thesis by simp
  qed (simp add: ms(3))
  have "payload_get (dict_update defaults ms) k = payload_get payload k" if "k \<in> set (map fst payload)" for k
  proof -
    from that have "dict_get payload k \<noteq> None" by (simp add: map_of_eq_None_iff)
    with same show ?thesis by (auto simp: payload_get_def dict_get_update [OF ms(2)])
  qed
  moreover have "read_json dir_stat svc fs (d @ [n]) defaults d =
      (if length (utf8_bytes (json_text (JObject payload))) > max_settings_file_size_bytes svc
       then Inl (value_error ''settings file exceeds size limit'') else Inr (dict_update defaults ms))"
    using plain_entry_inside [OF dir entry] k here read_json_text [OF plain k here] ms(1)
    by (simp add: read_json_def path_exists_def path_stat_def)
  ultimately show ?thesis by blast
qed

section \<open>Updates and reads\<close>

definition too_long :: "settings_service \<Rightarrow> filesys \<Rightarrow> path \<Rightarrow> bool" where
  "too_long svc fs p =
     (case node_at fs p of Some (File_node b t) \<Rightarrow> length b > max_settings_file_size_bytes svc | _ \<Rightarrow> False)"

definition stored_size :: "filesys \<Rightarrow> path \<Rightarrow> nat" where
  "stored_size fs p = (case node_at fs p of Some (File_node b t) \<Rightarrow> length b | _ \<Rightarrow> 0)"

text \<open>What a read gives after an update whose answer was \<open>x\<close>.\<close>

definition read_back :: "settings_service \<Rightarrow> filesys \<Rightarrow> path \<Rightarrow> 'a \<Rightarrow> file_exn + 'a" where
  "read_back svc fs p x = (if too_long svc fs p then Inl (value_error ''settings file exceeds size limit'') else Inr x)"

text \<open>An update of a file of settings: nothing else changes, and a read finds the members that were written.\<close>

lemma update_then_read:
  assumes n: "n \<in> settings_names" and ready: "cell_ready fs d n" and scalars: "scalars payload"
    and written: "write_json svc fs (d @ [n]) payload d now = (Inr (), fs')"
  shows "cell_ready fs' d n" and "entries_changed d (settings_temp n) fs fs'"
    and "\<exists>ms. read_json dir_stat svc fs' (d @ [n]) defaults d = read_back svc fs' (d @ [n]) ms \<and>
      (\<forall>k \<in> set (map fst payload). payload_get ms k = payload_get payload k)"
    and "node_at fs' (d @ [n]) = Some (File_node (utf8_bytes (json_text (JObject payload))) now) \<and>
      length (utf8_bytes (json_text (JObject payload))) \<le> Suc (max_settings_file_size_bytes svc)"
proof -
  have "check_inside fs (d @ [n]) d = Inr ()" using ready plain_entry_inside by (simp add: cell_ready_def)
  with written have small: "length (utf8_bytes (json_dumps (JObject payload))) \<le> max_settings_file_size_bytes svc"
    by (simp add: write_json_def Let_def split: if_splits)
  from write_json_ready [OF n ready small, of now] written have *: "cell_ready fs' d n"
      "entries_changed d (settings_temp n) fs fs'"
      "node_at fs' (d @ [n]) = Some (File_node (utf8_bytes (json_text (JObject payload))) now)"
    by auto
  then show "cell_ready fs' d n" "entries_changed d (settings_temp n) fs fs'" by blast+
  from *(3) small show "node_at fs' (d @ [n]) = Some (File_node (utf8_bytes (json_text (JObject payload))) now) \<and>
      length (utf8_bytes (json_text (JObject payload))) \<le> Suc (max_settings_file_size_bytes svc)"
    by (simp add: json_text_size)
  from read_json_written [OF *(1) scalars *(3), of dir_stat svc defaults] *(3)
  show "\<exists>ms. read_json dir_stat svc fs' (d @ [n]) defaults d = read_back svc fs' (d @ [n]) ms \<and>
      (\<forall>k \<in> set (map fst payload). payload_get ms k = payload_get payload k)"
    by (auto simp: read_back_def too_long_def)
qed

text \<open>
  The contract of a kind of settings: its file, the members that it reads, and the value that it makes of them,
  which depends on these members only.
\<close>

locale settings_cell =
  fixes name :: string and members :: "string set" and parse :: "payload \<Rightarrow> file_exn + 'a"
  assumes known: "name \<in> settings_names"
    and parse_members: "(\<And>k. k \<in> members \<Longrightarrow> payload_get ms k = payload_get ms' k) \<Longrightarrow> parse ms = parse ms'"
begin

lemma stored_is_read:
  assumes ready: "cell_ready fs d name" and scalars: "scalars payload" and members: "members \<subseteq> set (map fst payload)"
    and up: "and_then (write_json svc fs (d @ [name]) payload d now) (\<lambda>_. with_sum r) = (Inr x, fs')"
    and answer: "r = parse payload"
  shows "parse payload = Inr x" and "cell_ready fs' d name" and "entries_changed d (settings_temp name) fs fs'"
    and "sum_bind (read_json dir_stat svc fs' (d @ [name]) defaults d) parse = read_back svc fs' (d @ [name]) x"
    and "node_at fs' (d @ [name]) = Some (File_node (utf8_bytes (json_text (JObject payload))) now) \<and>
      length (utf8_bytes (json_text (JObject payload))) \<le> Suc (max_settings_file_size_bytes svc)"
proof -
  have w: "write_json svc fs (d @ [name]) payload d now = (Inr (), fs')" and r: "r = Inr x"
    using up by (auto simp: and_then_def with_sum_def split: prod.splits sum.splits)
  from r answer show x: "parse payload = Inr x" by simp
  show "cell_ready fs' d name" "entries_changed d (settings_temp name) fs fs'"
    using update_then_read(1,2) [OF known ready scalars w] by blast+
  show "node_at fs' (d @ [name]) = Some (File_node (utf8_bytes (json_text (JObject payload))) now) \<and>
      length (utf8_bytes (json_text (JObject payload))) \<le> Suc (max_settings_file_size_bytes svc)"
    by (rule update_then_read(4) [OF known ready scalars w])
  from update_then_read(3) [OF known ready scalars w] obtain ms where
    ms: "read_json dir_stat svc fs' (d @ [name]) defaults d = read_back svc fs' (d @ [name]) ms"
      "\<forall>k \<in> set (map fst payload). payload_get ms k = payload_get payload k" by blast
  have "parse ms = Inr x" using parse_members [of ms payload] ms(2) members x by auto
  with ms(1) show "sum_bind (read_json dir_stat svc fs' (d @ [name]) defaults d) parse = read_back svc fs' (d @ [name]) x"
    by (simp add: read_back_def sum_bind_def)
qed

end

lemmas payload_readers = get_bool_def get_string_def get_datetime_def

interpretation provider_cell: settings_cell "''provider.json''"
  "{''enabled'', ''base_url'', ''default_model'', ''api_key'', ''updated_at''}" provider_from_payload
  by unfold_locales (simp_all add: settings_names_def provider_from_payload_def payload_readers)

interpretation channels_cell: settings_cell "''channels.json''"
  "{''feishu_enabled'', ''feishu_app_id'', ''feishu_app_secret'', ''feishu_encrypt_key'', ''feishu_verification_token'',
    ''telegram_enabled'', ''telegram_bot_token'', ''updated_at''}" channels_from_payload
  by unfold_locales (simp_all add: settings_names_def channels_from_payload_def payload_readers)

interpretation registration_cell: settings_cell "''registration.json''"
  "{''allow_registration'', ''require_invite_code'', ''updated_at''}" registration_from_payload
  by unfold_locales (simp_all add: settings_names_def registration_from_payload_def payload_readers)

interpretation appearance_cell: settings_cell "''appearance.json''"
  "{''app_name'', ''ai_name'', ''ai_avatar_emoji'', ''ai_avatar_color'', ''updated_at''}" appearance_from_payload
  by unfold_locales (simp_all add: settings_names_def appearance_from_payload_def payload_readers)

interpretation system_cell: settings_cell "''system.json''"
  "{''default_execution_mode'', ''allow_host_execution'', ''updated_at''}" system_from_payload
  by unfold_locales (simp_all add: settings_names_def system_from_payload_def payload_readers)

section \<open>Every kind of settings\<close>

lemma datetime_written: "in_calendar now \<Longrightarrow> settings_datetime (JString (iso_datetime now)) = Inr (Some now)"
  by (simp add: fromisoformat_iso)

lemmas written_values = payload_readers payload_get_def sum_bind_def datetime_written scalars_def

text \<open>The text of the policy is short.\<close>

lemma registration_size:
  "length (utf8_bytes (json_text (JObject [(''allow_registration'', JBool allow), (''require_invite_code'', JBool invite),
     (''updated_at'', JString (iso_datetime t))]))) \<le> 1100" (is "length (utf8_bytes (json_text (JObject ?kvs))) \<le> _")
proof -
  have le: "''allow_registration'' \<le> ''require_invite_code''" "''require_invite_code'' \<le> ''updated_at''"
    "''allow_registration'' \<le> ''updated_at''" by code_simp+
  have string_size: "length (dump_string s) \<le> 6 * length s + 2" for s
  proof -
    have "length (dump_char c) \<le> 6" for c by (simp add: dump_char_def Let_def)
    then have "length (concat (map dump_char s)) \<le> 6 * length s" by (induction s) (auto intro: order_trans add_mono)
    then show ?thesis by (simp add: dump_string_def)
  qed
  have bytes: "length (utf8_bytes s) \<le> 2 * length s" for s
    by (induction s) (auto simp: utf8_bytes_def Let_def)
  have "length (iso_datetime t) \<le> 32"
    by (auto simp: iso_datetime_def iso_date_def iso_day_def iso_clock_def Let_def split: prod.splits)
  with string_size [of "iso_datetime t"] have "length (dump_string (iso_datetime t)) \<le> 194" by linarith
  moreover have "sort_keys (JObject ?kvs) = JObject ?kvs" using le by simp
  then have "length (json_dumps (JObject ?kvs)) \<le> length (dump_string ''allow_registration'') +
      length (dump_string ''require_invite_code'') + length (dump_string ''updated_at'') +
      length (dump_string (iso_datetime t)) + 30"
    by (simp add: json_dumps_def new_line_def)
  ultimately have "length (json_text (JObject ?kvs)) \<le> 550"
    using string_size [of "''allow_registration''"] string_size [of "''require_invite_code''"] string_size [of "''updated_at''"]
    by (simp add: json_text_def)
  with bytes [of "json_text (JObject ?kvs)"] show ?thesis by linarith
qed

lemma registration_roundtrip:
  assumes now: "in_calendar now" and ready: "cell_ready fs (global_root svc) ''registration.json''"
    and up: "update_registration_policy svc fs allow invite now = (Inr x, fs')"
  shows "x = \<lparr>allow_registration = allow, require_invite_code = invite, registration_updated_at = Some now\<rparr>"
    and "cell_ready fs' (global_root svc) ''registration.json''"
    and "entries_changed (global_root svc) (settings_temp ''registration.json'') fs fs'"
    and "get_registration_policy dir_stat svc fs' = read_back svc fs' (registration_file svc) x"
    and "1100 \<le> max_settings_file_size_bytes svc \<Longrightarrow> \<not> too_long svc fs' (registration_file svc)"
proof -
  let ?payload = "[(''allow_registration'', JBool allow), (''require_invite_code'', JBool invite),
    (''updated_at'', JString (iso_datetime now))]"
  have parsed: "registration_from_payload ?payload =
      Inr \<lparr>allow_registration = allow, require_invite_code = invite, registration_updated_at = Some now\<rparr>"
    using now by (simp add: registration_from_payload_def written_values del: settings_datetime.simps)
  have "and_then (write_json svc fs (global_root svc @ [''registration.json'']) ?payload (global_root svc) now)
      (\<lambda>_. with_sum (registration_from_payload ?payload)) = (Inr x, fs')"
    using up parsed now by (simp add: update_registration_policy_def registration_file_def written_values del: settings_datetime.simps)
  note stored = registration_cell.stored_is_read [OF ready _ _ this refl]
  show "\<not> too_long svc fs' (registration_file svc)" if "1100 \<le> max_settings_file_size_bytes svc"
    using stored(5) registration_size [of allow invite now] that by (simp add: scalars_def too_long_def registration_file_def)
  from stored parsed show "x = \<lparr>allow_registration = allow, require_invite_code = invite, registration_updated_at = Some now\<rparr>"
    "cell_ready fs' (global_root svc) ''registration.json''"
    "entries_changed (global_root svc) (settings_temp ''registration.json'') fs fs'"
    "get_registration_policy dir_stat svc fs' = read_back svc fs' (registration_file svc) x"
    by (simp_all add: scalars_def get_registration_policy_def registration_file_def)
qed

lemma appearance_roundtrip:
  assumes now: "in_calendar now" and ready: "cell_ready fs (global_root svc) ''appearance.json''"
    and up: "update_appearance_config robot svc fs app ai emoji colour now = (Inr x, fs')"
  shows "x = \<lparr>app_name = stripped_or app ''Portex'', ai_name = stripped_or ai ''Portex'',
      ai_avatar_emoji = stripped_or emoji robot, ai_avatar_color = stripped_or colour ''#0ea5e9'',
      appearance_updated_at = Some now\<rparr>"
    and "cell_ready fs' (global_root svc) ''appearance.json''"
    and "entries_changed (global_root svc) (settings_temp ''appearance.json'') fs fs'"
    and "get_appearance_config robot dir_stat svc fs' = read_back svc fs' (appearance_file svc) x"
    and "stored_size fs' (appearance_file svc) \<le> Suc (max_settings_file_size_bytes svc)"
proof -
  let ?payload = "[(''app_name'', JString (stripped_or app ''Portex'')), (''ai_name'', JString (stripped_or ai ''Portex'')),
    (''ai_avatar_emoji'', JString (stripped_or emoji robot)),
    (''ai_avatar_color'', JString (stripped_or colour ''#0ea5e9'')), (''updated_at'', JString (iso_datetime now))]"
  let ?x = "\<lparr>app_name = stripped_or app ''Portex'', ai_name = stripped_or ai ''Portex'',
      ai_avatar_emoji = stripped_or emoji robot, ai_avatar_color = stripped_or colour ''#0ea5e9'',
      appearance_updated_at = Some now\<rparr>"
  have parsed: "appearance_from_payload ?payload = Inr ?x"
    using now by (simp add: appearance_from_payload_def written_values del: settings_datetime.simps)
  have "and_then (write_json svc fs (global_root svc @ [''appearance.json'']) ?payload (global_root svc) now)
      (\<lambda>_. with_sum (appearance_from_payload ?payload)) = (Inr x, fs')"
    using up parsed now by (simp add: update_appearance_config_def appearance_file_def written_values del: settings_datetime.simps)
  note stored = appearance_cell.stored_is_read [OF ready _ _ this refl]
  from stored parsed show "x = ?x" "cell_ready fs' (global_root svc) ''appearance.json''"
    "entries_changed (global_root svc) (settings_temp ''appearance.json'') fs fs'"
    "get_appearance_config robot dir_stat svc fs' = read_back svc fs' (appearance_file svc) x"
    "stored_size fs' (appearance_file svc) \<le> Suc (max_settings_file_size_bytes svc)"
    by (simp_all add: scalars_def get_appearance_config_def appearance_file_def stored_size_def)
qed

lemma normalized_mode: "normalize_execution_mode v = Inr mode \<Longrightarrow> normalize_execution_mode (JString mode) = Inr mode"
proof -
  have "py_strip ''openai'' = ''openai''" "py_strip ''host'' = ''host''" "py_strip ''container'' = ''container''"
    "py_lower ''openai'' = ''openai''" "py_lower ''host'' = ''host''" "py_lower ''container'' = ''container''"
    by code_simp+
  then have "normalize_execution_mode (JString m) = Inr m" if "m \<in> {''openai'', ''host'', ''container''}" for m
    using that by (auto simp: Let_def)
  moreover have "mode \<in> {''openai'', ''host'', ''container''}" if "normalize_execution_mode v = Inr mode"
    using that by (cases v) (simp_all add: Let_def split: if_split_asm del: insert_iff)
  ultimately show "normalize_execution_mode v = Inr mode \<Longrightarrow> ?thesis" by blast
qed

lemma system_roundtrip:
  assumes now: "in_calendar now" and ready: "cell_ready fs (global_root svc) ''system.json''"
    and up: "update_system_settings svc fs requested_mode host now = (Inr x, fs')"
  shows "\<exists>mode. normalize_execution_mode (JString requested_mode) = Inr mode \<and>
      x = \<lparr>default_execution_mode = mode, allow_host_execution = host, system_updated_at = Some now\<rparr>"
    and "cell_ready fs' (global_root svc) ''system.json''"
    and "entries_changed (global_root svc) (settings_temp ''system.json'') fs fs'"
    and "get_system_settings dir_stat svc fs' = read_back svc fs' (system_file svc) x"
    and "stored_size fs' (system_file svc) \<le> Suc (max_settings_file_size_bytes svc)"
proof -
  from up obtain mode where mode: "normalize_execution_mode (JString requested_mode) = Inr mode"
    by (cases "normalize_execution_mode (JString requested_mode)") (simp_all add: update_system_settings_def)
  note again = normalized_mode [OF mode]
  let ?payload = "[(''default_execution_mode'', JString mode), (''allow_host_execution'', JBool host),
    (''updated_at'', JString (iso_datetime now))]"
  let ?x = "\<lparr>default_execution_mode = mode, allow_host_execution = host, system_updated_at = Some now\<rparr>"
  have parsed: "system_from_payload ?payload = Inr ?x"
    using now again by (simp add: system_from_payload_def written_values del: settings_datetime.simps normalize_execution_mode.simps)
  have "and_then (write_json svc fs (global_root svc @ [''system.json'']) ?payload (global_root svc) now)
      (\<lambda>_. with_sum (system_from_payload ?payload)) = (Inr x, fs')"
    using up parsed now mode
    by (simp add: update_system_settings_def system_file_def written_values del: settings_datetime.simps normalize_execution_mode.simps)
  note stored = system_cell.stored_is_read [OF ready _ _ this refl]
  from stored parsed mode show "\<exists>mode. normalize_execution_mode (JString requested_mode) = Inr mode \<and>
      x = \<lparr>default_execution_mode = mode, allow_host_execution = host, system_updated_at = Some now\<rparr>"
    "cell_ready fs' (global_root svc) ''system.json''"
    "entries_changed (global_root svc) (settings_temp ''system.json'') fs fs'"
    "get_system_settings dir_stat svc fs' = read_back svc fs' (system_file svc) x"
    "stored_size fs' (system_file svc) \<le> Suc (max_settings_file_size_bytes svc)"
    by (simp_all add: scalars_def get_system_settings_def system_file_def stored_size_def)
qed

text \<open>The settings of a user lie in the directory of the user.\<close>

definition user_settings_ready :: "settings_service \<Rightarrow> filesys \<Rightarrow> string \<Rightarrow> string \<Rightarrow> bool" where
  "user_settings_ready svc fs uid n \<longleftrightarrow> safe_segment uid \<and> cell_ready fs (users_root svc @ [uid]) n"

lemma user_dir_ready:
  assumes "user_settings_ready svc fs uid n"
  shows "settings_user_root svc fs uid = (Inr (users_root svc @ [uid]), fs)"
    and "provider_file svc fs uid = (Inr ((users_root svc @ [uid]) @ [''provider.json'']), fs)"
    and "channels_file svc fs uid = (Inr ((users_root svc @ [uid]) @ [''channels.json'']), fs)"
proof -
  have d: "plain_dir fs (users_root svc @ [uid])" and "safe_segment uid"
    using assms by (auto simp: user_settings_ready_def cell_ready_def)
  then show r: "settings_user_root svc fs uid = (Inr (users_root svc @ [uid]), fs)"
    using plain_dir_calls(2) [OF d] plain_subdir_safe [OF d] by (simp add: settings_user_root_def and_then_def)
  show "provider_file svc fs uid = (Inr ((users_root svc @ [uid]) @ [''provider.json'']), fs)"
    "channels_file svc fs uid = (Inr ((users_root svc @ [uid]) @ [''channels.json'']), fs)"
    using r by (simp_all add: provider_file_def channels_file_def and_then_def)
qed

lemma and_then_value [simp]: "and_then (Inr x, fs) k = k x fs"
  by (simp add: and_then_def)

lemma and_then_with_sum: "and_then (with_sum r fs) (\<lambda>x. with_sum (f x)) = (sum_bind r f, fs)"
  by (simp add: and_then_def with_sum_def sum_bind_def split: sum.splits)

lemma channels_roundtrip:
  assumes now: "in_calendar now" and ready: "user_settings_ready svc fs uid ''channels.json''"
    and up: "update_channels_config svc fs uid u now = (Inr x, fs')"
  shows "x = \<lparr>feishu_enabled = new_feishu_enabled u, feishu_app_id = py_strip (new_feishu_app_id u),
      feishu_has_app_secret = (py_strip (new_feishu_app_secret u) \<noteq> []),
      feishu_has_encrypt_key = (py_strip (new_feishu_encrypt_key u) \<noteq> []),
      feishu_has_verification_token = (py_strip (new_feishu_verification_token u) \<noteq> []),
      telegram_enabled = new_telegram_enabled u,
      telegram_has_bot_token = (py_strip (new_telegram_bot_token u) \<noteq> []), channels_updated_at = Some now\<rparr>" (is "_ = ?x")
    and "user_settings_ready svc fs' uid ''channels.json''"
    and "entries_changed (users_root svc @ [uid]) (settings_temp ''channels.json'') fs fs'"
    and "get_channels_config dir_stat svc fs' uid = (read_back svc fs' (users_root svc @ [uid, ''channels.json'']) x, fs')"
proof -
  let ?d = "users_root svc @ [uid]"
  let ?payload = "[(''feishu_enabled'', JBool (new_feishu_enabled u)), (''feishu_app_id'', JString (py_strip (new_feishu_app_id u))),
    (''feishu_app_secret'', JString (py_strip (new_feishu_app_secret u))),
    (''feishu_encrypt_key'', JString (py_strip (new_feishu_encrypt_key u))),
    (''feishu_verification_token'', JString (py_strip (new_feishu_verification_token u))),
    (''telegram_enabled'', JBool (new_telegram_enabled u)),
    (''telegram_bot_token'', JString (py_strip (new_telegram_bot_token u))), (''updated_at'', JString (iso_datetime now))]"
  have cell: "cell_ready fs ?d ''channels.json''" using ready by (simp add: user_settings_ready_def)
  have parsed: "channels_from_payload ?payload = Inr ?x"
    using now by (simp add: channels_from_payload_def written_values del: settings_datetime.simps)
  have "and_then (write_json svc fs (?d @ [''channels.json'']) ?payload ?d now)
      (\<lambda>_. with_sum (channels_from_payload ?payload)) = (Inr x, fs')"
    using up user_dir_ready [OF ready] by (simp add: update_channels_config_def Let_def)
  note stored = channels_cell.stored_is_read [OF cell _ _ this refl]
  from stored parsed show "x = ?x" "entries_changed ?d (settings_temp ''channels.json'') fs fs'"
    and ready': "user_settings_ready svc fs' uid ''channels.json''"
    using ready by (simp_all add: scalars_def user_settings_ready_def)
  from stored(4) [of dir_stat channels_default] show
    "get_channels_config dir_stat svc fs' uid = (read_back svc fs' (users_root svc @ [uid, ''channels.json'']) x, fs')"
    using user_dir_ready [OF ready'] by (simp add: get_channels_config_def and_then_with_sum scalars_def)
qed

text \<open>
  The key that the file of a user holds, as the member of the text on the disk, whatever its size; no file
  and a member that is missing or no text hold no key.
\<close>

definition key_on_disk :: "filesys \<Rightarrow> path \<Rightarrow> string" where
  "key_on_disk fs p =
     (case read_text fs p of
        Inl e \<Rightarrow> []
      | Inr t \<Rightarrow>
          (case json_loads t of
             Some (JObject ms) \<Rightarrow> (case payload_get ms ''api_key'' of JString k \<Rightarrow> k | _ \<Rightarrow> [])
           | _ \<Rightarrow> []))"

lemma dict_of_apart: "distinct (map fst (dict_of kvs))"
proof -
  have "distinct (map fst d) \<Longrightarrow> distinct (map fst (fold (\<lambda>(k, v) d. dict_set k v d) kvs d))" for d :: "(string, 'a) dict"
    by (induction kvs arbitrary: d) (auto simp: distinct_update)
  then show ?thesis by (simp add: dict_of_def)
qed

lemma loads_apart:
  assumes "json_loads t = Some (JObject ms)"
  shows "distinct (map fst ms)"
proof -
  from assms obtain r where "parse_value (skip_spaces t) = Some (JObject ms, r)"
    by (auto simp: json_loads_def split: option.splits prod.splits if_splits)
  moreover have "parse_word json_words s \<noteq> Some (JObject ms, r)" for s r
    by (auto simp: json_words_def parse_number_def Let_def split: if_splits option.splits prod.splits)
  ultimately show ?thesis
    by (subst (asm) parse_value.simps) (auto simp: dict_of_apart split: list.splits if_splits)
qed

text \<open>An update without a key goes on with the key of the file.\<close>

lemma current_key:
  assumes "read_json dir_stat svc fs p provider_default d = Inr current"
  shows "next_api_key current None = key_on_disk fs p"
proof (cases "path_exists fs p")
  case False
  with assms have "current = provider_default" by (simp add: read_json_def split: sum.splits)
  moreover from False have "key_on_disk fs p = []"
    by (auto simp: key_on_disk_def read_text_def read_file_def path_exists_def split: walk_result.splits)
  ultimately show ?thesis by (simp add: next_api_key_def provider_default_def)
next
  case True
  with assms obtain t ms where t: "read_text fs p = Inr t" "json_loads t = Some (JObject ms)"
    and current: "current = dict_update provider_default ms"
    by (auto simp: read_json_def split: sum.splits prod.splits if_splits option.splits json.splits)
  have "dict_get provider_default ''api_key'' = Some (JString [])" by (simp add: provider_default_def)
  with current dict_get_update [OF loads_apart [OF t(2)], of provider_default "''api_key''"]
  have "dict_get current ''api_key'' = Some (case dict_get ms ''api_key'' of None \<Rightarrow> JString [] | Some v \<Rightarrow> v)"
    by (simp split: option.splits)
  with t show ?thesis
    by (simp add: next_api_key_def key_on_disk_def payload_get_def split: option.split json.split)
qed

lemma written_key:
  assumes "plain_dir fs d" and "plain_entry fs d n" and "scalars payload"
    and "node_at fs (d @ [n]) = Some (File_node (utf8_bytes (json_text (JObject payload))) t)"
    and "dict_get payload ''api_key'' = Some (JString k)"
  shows "key_on_disk fs (d @ [n]) = k"
proof -
  have "kernel fs True (d @ [n]) = Found (d @ [n])" using plain_entry_kernel [OF assms(1,2), of True] assms(4) by simp
  moreover have "plain_json (JObject payload)" "distinct (map fst payload)"
    using assms(3) by (auto simp: scalars_def list_all_iff)
  ultimately have t: "read_text fs (d @ [n]) = Inr (json_text (JObject payload))"
      "json_loads (json_text (JObject payload)) = Some (sort_keys (JObject payload))"
    using read_json_text [OF _ _ assms(4)] by blast+
  from sorted_members [OF \<open>distinct (map fst payload)\<close>] obtain ms where
    ms: "sort_keys (JObject payload) = JObject ms" "\<And>k. dict_get ms k = map_option sort_keys (dict_get payload k)" by blast
  from ms(2) [of "''api_key''"] assms(5) have "payload_get ms ''api_key'' = JString k" by (simp add: payload_get_def)
  with t ms(1) show ?thesis by (simp add: key_on_disk_def)
qed

lemma provider_roundtrip:
  assumes now: "in_calendar now" and ready: "user_settings_ready svc fs uid ''provider.json''"
    and up: "update_provider_config dir_stat svc fs uid enabled url model api_key now = (Inr x, fs')"
  shows "\<exists>current. read_json dir_stat svc fs (users_root svc @ [uid, ''provider.json'']) provider_default (users_root svc @ [uid]) = Inr current \<and>
      x = \<lparr>provider_enabled = enabled, base_url = py_strip url, default_model = py_strip model,
           has_api_key = (py_strip (next_api_key current api_key) \<noteq> []), provider_updated_at = Some now\<rparr> \<and>
      key_on_disk fs' (users_root svc @ [uid, ''provider.json'']) = next_api_key current api_key"
    and "user_settings_ready svc fs' uid ''provider.json''"
    and "entries_changed (users_root svc @ [uid]) (settings_temp ''provider.json'') fs fs'"
    and "get_provider_config dir_stat svc fs' uid = (read_back svc fs' (users_root svc @ [uid, ''provider.json'']) x, fs')"
    and "\<exists>b. node_at fs' (users_root svc @ [uid, ''provider.json'']) = Some (File_node b now) \<and>
      length b \<le> Suc (max_settings_file_size_bytes svc)"
proof -
  let ?d = "users_root svc @ [uid]"
  have cell: "cell_ready fs ?d ''provider.json''" using ready by (simp add: user_settings_ready_def)
  from up user_dir_ready [OF ready] obtain current where
    current: "read_json dir_stat svc fs (?d @ [''provider.json'']) provider_default ?d = Inr current"
    by (auto simp: update_provider_config_def read_provider_def with_sum_def and_then_def split: sum.splits)
  let ?payload = "[(''enabled'', JBool enabled), (''base_url'', JString (py_strip url)),
    (''default_model'', JString (py_strip model)), (''api_key'', JString (next_api_key current api_key)),
    (''updated_at'', JString (iso_datetime now))]"
  let ?x = "\<lparr>provider_enabled = enabled, base_url = py_strip url, default_model = py_strip model,
    has_api_key = (py_strip (next_api_key current api_key) \<noteq> []), provider_updated_at = Some now\<rparr>"
  have parsed: "provider_from_payload ?payload = Inr ?x"
    using now by (simp add: provider_from_payload_def written_values del: settings_datetime.simps)
  have "and_then (write_json svc fs (?d @ [''provider.json'']) ?payload ?d now)
      (\<lambda>_. with_sum (provider_from_payload ?payload)) = (Inr x, fs')"
    using up current user_dir_ready [OF ready]
    by (simp add: update_provider_config_def read_provider_def with_sum_def [of "Inr _"] Let_def)
  note stored = provider_cell.stored_is_read [OF cell _ _ this refl]
  from stored parsed have "x = ?x" and *: "entries_changed ?d (settings_temp ''provider.json'') fs fs'"
    and ready': "user_settings_ready svc fs' uid ''provider.json''"
    using ready by (simp_all add: scalars_def user_settings_ready_def)
  have "key_on_disk fs' (?d @ [''provider.json'']) = next_api_key current api_key"
    using ready' stored(5) by (intro written_key [of _ _ _ ?payload now]) (auto simp: user_settings_ready_def cell_ready_def scalars_def)
  with current \<open>x = ?x\<close> show "\<exists>current. read_json dir_stat svc fs (users_root svc @ [uid, ''provider.json'']) provider_default ?d = Inr current \<and>
      x = \<lparr>provider_enabled = enabled, base_url = py_strip url, default_model = py_strip model,
           has_api_key = (py_strip (next_api_key current api_key) \<noteq> []), provider_updated_at = Some now\<rparr> \<and>
      key_on_disk fs' (users_root svc @ [uid, ''provider.json'']) = next_api_key current api_key" by auto
  show "user_settings_ready svc fs' uid ''provider.json''" "entries_changed ?d (settings_temp ''provider.json'') fs fs'"
    using ready' * by blast+
  show "\<exists>b. node_at fs' (users_root svc @ [uid, ''provider.json'']) = Some (File_node b now) \<and>
      length b \<le> Suc (max_settings_file_size_bytes svc)"
    using stored(5) by (simp add: scalars_def)
  from stored(4) [of dir_stat provider_default] show
    "get_provider_config dir_stat svc fs' uid = (read_back svc fs' (users_root svc @ [uid, ''provider.json'']) x, fs')"
    using user_dir_ready [OF ready']
    by (auto simp: get_provider_config_def read_provider_def scalars_def and_then_def with_sum_def sum_bind_def split: sum.splits)
qed

lemma strip_strip: "py_strip (py_strip s) = py_strip s"
proof (cases "py_strip s")
  case (Cons c cs)
  have again: "py_rstrip (py_rstrip t) = py_rstrip t" for t by (simp add: py_rstrip_def)
  have "prefix (py_strip s) (py_lstrip s)"
    using suffix_dropWhile [of py_isspace_char "rev (py_lstrip s)"] by (simp add: py_strip_def py_rstrip_def suffix_to_prefix)
  with Cons have "hd (py_lstrip s) = c" "py_lstrip s \<noteq> []" by (auto simp: prefix_def)
  then have "\<not> py_isspace_char c" using hd_dropWhile [of py_isspace_char s] by (auto simp: py_lstrip_def)
  with Cons have "py_lstrip (py_strip s) = py_strip s" by (simp add: py_lstrip_def)
  then show ?thesis using again by (simp add: py_strip_def)
qed (simp add: py_strip_def [of "[]"] py_lstrip_def py_rstrip_def)

lemma kept_key:
  assumes "provider_from_payload current = Inr before"
  shows "py_strip (next_api_key current None) \<noteq> [] \<longleftrightarrow> has_api_key before"
  using assms
  by (cases "payload_get current ''api_key''")
    (auto simp: provider_from_payload_def payload_readers sum_bind_def next_api_key_def payload_get_def py_strip_def py_lstrip_def
      py_rstrip_def split: sum.splits option.splits json.splits)

text \<open>C32: An update of the provider that succeeds is what reads give from then on: the enabled flag, the trimmed
  address and model, the time, and whether there is a key; the key itself is never given. The file holds the
  trimmed new key, or the very key that it held before when the update has none. Nothing changes but the file and
  its temporary file. The one exception is a file that the update made too long to be read.
\<close>

theorem provider_kept:
  assumes "in_calendar now" and "user_settings_ready svc fs uid ''provider.json''"
    and "get_provider_config dir_stat svc fs uid = (Inr before, fs0)"
    and "update_provider_config dir_stat svc fs uid enabled url model api_key now = (Inr x, fs')"
  shows "x = \<lparr>provider_enabled = enabled, base_url = py_strip url, default_model = py_strip model,
      has_api_key = (case api_key of None \<Rightarrow> has_api_key before | Some k \<Rightarrow> py_strip k \<noteq> []), provider_updated_at = Some now\<rparr> \<and>
    key_on_disk fs' (users_root svc @ [uid, ''provider.json'']) =
      (case api_key of None \<Rightarrow> key_on_disk fs (users_root svc @ [uid, ''provider.json'']) | Some k \<Rightarrow> py_strip k) \<and>
    get_provider_config dir_stat svc fs' uid = (read_back svc fs' (users_root svc @ [uid, ''provider.json'']) x, fs') \<and>
    entries_changed (users_root svc @ [uid]) {''provider.json'', ''provider.json.tmp''} fs fs'"
proof -
  from provider_roundtrip [OF assms(1,2,4)] obtain current where
    current: "read_json dir_stat svc fs (users_root svc @ [uid, ''provider.json'']) provider_default (users_root svc @ [uid]) = Inr current"
    and x: "x = \<lparr>provider_enabled = enabled, base_url = py_strip url, default_model = py_strip model,
      has_api_key = (py_strip (next_api_key current api_key) \<noteq> []), provider_updated_at = Some now\<rparr>"
    and key: "key_on_disk fs' (users_root svc @ [uid, ''provider.json'']) = next_api_key current api_key" by blast
  have "provider_from_payload current = Inr before"
    using assms(3) current user_dir_ready [OF assms(2)]
    by (simp add: get_provider_config_def read_provider_def and_then_def with_sum_def)
  note flag = kept_key [OF this] and rest = provider_roundtrip(3,4) [OF assms(1,2,4)]
  show ?thesis
  proof (cases api_key)
    case None
    with flag current_key [OF current] x key rest show ?thesis by (simp add: settings_temp_def)
  next
    case (Some k)
    then have "next_api_key current api_key = py_strip k" by (simp add: next_api_key_def)
    with Some x key rest show ?thesis by (simp add: settings_temp_def strip_strip)
  qed
qed

text \<open>The limit of the size counts the text without the newline that is stored after it: an update whose text
  has exactly the limit succeeds, and from then on every read and every update of the provider fails.
\<close>

theorem provider_lockout:
  assumes "in_calendar now" and "user_settings_ready svc fs uid ''provider.json''"
    and "update_provider_config dir_stat svc fs uid enabled url model api_key now = (Inr x, fs')"
    and "node_at fs' (users_root svc @ [uid, ''provider.json'']) = Some (File_node bytes t)"
    and "length bytes > max_settings_file_size_bytes svc"
  shows "length bytes = Suc (max_settings_file_size_bytes svc) \<and>
    get_provider_config dir_stat svc fs' uid = (Inl (value_error ''settings file exceeds size limit''), fs') \<and>
    update_provider_config dir_stat svc fs' uid enabled2 url2 model2 api_key2 now2 =
      (Inl (value_error ''settings file exceeds size limit''), fs')"
proof -
  note stored = provider_roundtrip [OF assms(1-3)]
  let ?d = "users_root svc @ [uid]"
  have cell: "plain_dir fs' ?d" "plain_entry fs' ?d ''provider.json''"
    using stored(2) by (simp_all add: user_settings_ready_def cell_ready_def)
  have k: "kernel fs' True (?d @ [''provider.json'']) = Found (?d @ [''provider.json''])"
    using plain_entry_kernel [OF cell, of True] assms(4) by simp
  have "read_json dir_stat svc fs' (?d @ [''provider.json'']) provider_default ?d =
      Inl (value_error ''settings file exceeds size limit'')"
    using plain_entry_inside [OF cell] k assms(4,5) by (simp add: read_json_def path_exists_def path_stat_def)
  then have "read_provider dir_stat svc fs' uid = (Inl (value_error ''settings file exceeds size limit''), fs')"
    using user_dir_ready [OF stored(2)] by (simp add: read_provider_def and_then_def with_sum_def)
  moreover have "length bytes = Suc (max_settings_file_size_bytes svc)" using stored(5) assms(4,5) by auto
  ultimately show ?thesis by (simp add: get_provider_config_def update_provider_config_def and_then_def)
qed

section \<open>The settings of the system are kept apart\<close>

text \<open>Another file of the directory is read as before.\<close>

lemma read_json_same:
  assumes "plain_dir fs d" and "plain_entry fs d n" and "entries_changed d ns fs fs'" and "n \<notin> ns" and "plain_dir fs' d"
  shows "read_json dir_stat svc fs' (d @ [n]) defaults d = read_json dir_stat svc fs (d @ [n]) defaults d"
proof -
  have entry: "plain_entry fs' d n" and same: "node_at fs' (d @ [n]) = node_at fs (d @ [n])"
    using assms entries_changed_entry [OF assms(3,4)] by (auto simp: entries_changed_def)
  note kernels = plain_entry_kernel [OF assms(1,2), of True] plain_entry_kernel [OF assms(5) entry, of True]
  have "read_text fs' (d @ [n]) = read_text fs (d @ [n])" using kernels same by (simp add: read_text_def read_file_def)
  with plain_entry_inside [OF assms(1,2)] plain_entry_inside [OF assms(5) entry] kernels same show ?thesis
    by (simp add: read_json_def path_exists_def path_stat_def split: sum.split)
qed

definition global_names :: "string set" where
  "global_names = {''registration.json'', ''appearance.json'', ''system.json''}"

definition global_ready :: "settings_service \<Rightarrow> filesys \<Rightarrow> bool" where
  "global_ready svc fs \<longleftrightarrow> (\<forall>n \<in> global_names. cell_ready fs (global_root svc) n)"

lemma global_step:
  assumes ready: "global_ready svc fs" and n: "n \<in> global_names" and m: "m \<in> global_names" "m \<noteq> n"
    and step: "entries_changed (global_root svc) (settings_temp n) fs fs'" "cell_ready fs' (global_root svc) n"
  shows "read_json dir_stat svc fs' (global_root svc @ [m]) defaults (global_root svc) =
      read_json dir_stat svc fs (global_root svc @ [m]) defaults (global_root svc)" and "global_ready svc fs'"
proof -
  have apart: "m \<notin> settings_temp n" "m @ ''.tmp'' \<notin> settings_temp n" if "m \<in> global_names" "m \<noteq> n" for m
    using n that by (auto simp: global_names_def settings_temp_def)
  have dir: "plain_dir fs (global_root svc)" "plain_dir fs' (global_root svc)"
    using ready n step(2) by (auto simp: global_ready_def cell_ready_def)
  have "plain_entry fs (global_root svc) m" using ready m(1) by (auto simp: global_ready_def cell_ready_def)
  then show "read_json dir_stat svc fs' (global_root svc @ [m]) defaults (global_root svc) =
      read_json dir_stat svc fs (global_root svc @ [m]) defaults (global_root svc)"
    by (rule read_json_same [OF dir(1) _ step(1) apart(1) [OF m] dir(2)])
  have "cell_ready fs' (global_root svc) k" if "k \<in> global_names" for k
  proof (cases "k = n")
    case False
    have "cell_ready fs (global_root svc) k" using ready that by (simp add: global_ready_def)
    with entries_changed_entry [OF step(1) apart(1) [OF that False]] entries_changed_entry [OF step(1) apart(2) [OF that False]]
      dir(2) show ?thesis by (simp add: cell_ready_def)
  qed (use step(2) in simp)
  then show "global_ready svc fs'" by (simp add: global_ready_def)
qed


text \<open>C33: An update of the registration policy, of the appearance or of the system settings that succeeds is what
  reads of that kind give from then on, and reads of the other two kinds give what they gave before. The names of
  the appearance are trimmed, with the default in the place of one that is blank; the mode is trimmed and in lower
  case, and it is one of the three modes. The one exception are appearance and system settings that the update
  made one byte too long: then reads of them give the error of the size limit. The policy is never too long.
\<close>

theorem system_settings_kept:
  assumes "in_calendar now" and "global_ready svc fs" and "1100 \<le> max_settings_file_size_bytes svc"
  shows "(\<forall>allow invite x fs'. update_registration_policy svc fs allow invite now = (Inr x, fs') \<longrightarrow>
      x = \<lparr>allow_registration = allow, require_invite_code = invite, registration_updated_at = Some now\<rparr> \<and>
      get_registration_policy dir_stat svc fs' = Inr x \<and>
      get_appearance_config robot dir_stat svc fs' = get_appearance_config robot dir_stat svc fs \<and>
      get_system_settings dir_stat svc fs' = get_system_settings dir_stat svc fs \<and> global_ready svc fs') \<and>
    (\<forall>app ai emoji colour x fs'. update_appearance_config robot svc fs app ai emoji colour now = (Inr x, fs') \<longrightarrow>
      app_name x = (if py_strip app = [] then ''Portex'' else py_strip app) \<and>
      ai_name x = (if py_strip ai = [] then ''Portex'' else py_strip ai) \<and>
      ai_avatar_emoji x = (if py_strip emoji = [] then robot else py_strip emoji) \<and>
      ai_avatar_color x = (if py_strip colour = [] then ''#0ea5e9'' else py_strip colour) \<and>
      appearance_updated_at x = Some now \<and>
      get_appearance_config robot dir_stat svc fs' =
        (if too_long svc fs' (appearance_file svc) then Inl (value_error ''settings file exceeds size limit'') else Inr x) \<and>
      stored_size fs' (appearance_file svc) \<le> Suc (max_settings_file_size_bytes svc) \<and>
      get_registration_policy dir_stat svc fs' = get_registration_policy dir_stat svc fs \<and>
      get_system_settings dir_stat svc fs' = get_system_settings dir_stat svc fs \<and> global_ready svc fs') \<and>
    (\<forall>mode host x fs'. update_system_settings svc fs mode host now = (Inr x, fs') \<longrightarrow>
      default_execution_mode x = py_lower (py_strip mode) \<and>
      default_execution_mode x \<in> {''openai'', ''host'', ''container''} \<and> allow_host_execution x = host \<and>
      system_updated_at x = Some now \<and>
      get_system_settings dir_stat svc fs' =
        (if too_long svc fs' (system_file svc) then Inl (value_error ''settings file exceeds size limit'') else Inr x) \<and>
      stored_size fs' (system_file svc) \<le> Suc (max_settings_file_size_bytes svc) \<and>
      get_registration_policy dir_stat svc fs' = get_registration_policy dir_stat svc fs \<and>
      get_appearance_config robot dir_stat svc fs' = get_appearance_config robot dir_stat svc fs \<and> global_ready svc fs')"
proof -
  have cell: "cell_ready fs (global_root svc) n" if "n \<in> global_names" for n
    using assms(2) that by (simp add: global_ready_def)
  have names: "''registration.json'' \<in> global_names" "''appearance.json'' \<in> global_names" "''system.json'' \<in> global_names"
    by (simp_all add: global_names_def)
  note others = global_step(1) [OF assms(2)] and still = global_step(2) [OF assms(2)]
  note reads = get_registration_policy_def get_appearance_config_def get_system_settings_def
    registration_file_def appearance_file_def system_file_def
  show ?thesis
  proof (intro conjI allI impI)
    fix allow invite x fs'
    assume up: "update_registration_policy svc fs allow invite now = (Inr x, fs')"
    note r = registration_roundtrip [OF assms(1) cell [OF names(1)] up]
    show "x = \<lparr>allow_registration = allow, require_invite_code = invite, registration_updated_at = Some now\<rparr>" by (rule r(1))
    show "get_registration_policy dir_stat svc fs' = Inr x" using r(4,5) assms(3) by (simp add: read_back_def)
    show "get_appearance_config robot dir_stat svc fs' = get_appearance_config robot dir_stat svc fs"
      "get_system_settings dir_stat svc fs' = get_system_settings dir_stat svc fs" "global_ready svc fs'"
      using others [OF names(1) names(2) _ r(3,2)] others [OF names(1) names(3) _ r(3,2)]
        still [OF names(1) names(2) _ r(3,2)] by (simp_all add: reads)
  next
    fix app ai emoji colour x fs'
    assume up: "update_appearance_config robot svc fs app ai emoji colour now = (Inr x, fs')"
    note r = appearance_roundtrip [OF assms(1) cell [OF names(2)] up]
    show "app_name x = (if py_strip app = [] then ''Portex'' else py_strip app)"
      "ai_name x = (if py_strip ai = [] then ''Portex'' else py_strip ai)"
      "ai_avatar_emoji x = (if py_strip emoji = [] then robot else py_strip emoji)"
      "ai_avatar_color x = (if py_strip colour = [] then ''#0ea5e9'' else py_strip colour)"
      "appearance_updated_at x = Some now" by (simp_all add: r(1) stripped_or_def)
    show "get_appearance_config robot dir_stat svc fs' =
        (if too_long svc fs' (appearance_file svc) then Inl (value_error ''settings file exceeds size limit'') else Inr x)"
      using r(4) by (simp add: read_back_def)
    show "stored_size fs' (appearance_file svc) \<le> Suc (max_settings_file_size_bytes svc)" by (rule r(5))
    show "get_registration_policy dir_stat svc fs' = get_registration_policy dir_stat svc fs"
      "get_system_settings dir_stat svc fs' = get_system_settings dir_stat svc fs" "global_ready svc fs'"
      using others [OF names(2) names(1) _ r(3,2)] others [OF names(2) names(3) _ r(3,2)]
        still [OF names(2) names(1) _ r(3,2)] by (simp_all add: reads)
  next
    fix mode host x fs'
    assume up: "update_system_settings svc fs mode host now = (Inr x, fs')"
    note r = system_roundtrip [OF assms(1) cell [OF names(3)] up]
    from r(1) have mode: "normalize_execution_mode (JString mode) = Inr (default_execution_mode x)"
      and "allow_host_execution x = host" "system_updated_at x = Some now" by auto
    then show "allow_host_execution x = host" "system_updated_at x = Some now" by simp_all
    from mode show "default_execution_mode x = py_lower (py_strip mode)"
      by (simp add: Let_def del: insert_iff split: if_splits)
    from mode show "default_execution_mode x \<in> {''openai'', ''host'', ''container''}"
      by (auto simp: Let_def simp del: insert_iff split: if_splits)
    show "get_system_settings dir_stat svc fs' =
        (if too_long svc fs' (system_file svc) then Inl (value_error ''settings file exceeds size limit'') else Inr x)"
      using r(4) by (simp add: read_back_def)
    show "stored_size fs' (system_file svc) \<le> Suc (max_settings_file_size_bytes svc)" by (rule r(5))
    show "get_registration_policy dir_stat svc fs' = get_registration_policy dir_stat svc fs"
      "get_appearance_config robot dir_stat svc fs' = get_appearance_config robot dir_stat svc fs" "global_ready svc fs'"
      using others [OF names(3) names(1) _ r(3,2)] others [OF names(3) names(2) _ r(3,2)]
        still [OF names(3) names(1) _ r(3,2)] by (simp_all add: reads)
  qed
qed

section \<open>Examples\<close>

abbreviation example_provider :: payload where
  "example_provider \<equiv>
     [(''enabled'', JBool True), (''base_url'', JString ''http://a''), (''default_model'', JString ''m''),
      (''api_key'', JString ''k''), (''updated_at'', JString (iso_datetime 0))]"

definition example_limit :: nat where
  "example_limit = length (utf8_bytes (json_dumps (JObject example_provider)))"

definition example_settings :: "nat \<Rightarrow> settings_service" where
  "example_settings limit = \<lparr>users_root = [''u''], global_root = [''g''], max_settings_file_size_bytes = limit\<rparr>"

abbreviation settings_fs :: filesys where
  "settings_fs \<equiv> [([''u''], Dir_node), ([''u'', ''ann''], Dir_node), ([''g''], Dir_node)]"

lemma example_settings_dirs: "plain_dir settings_fs [''u'', ''ann'']" "plain_dir settings_fs [''g'']"
  unfolding plain_dir_def
  by (intro conjI tree_check; simp add: clean_short no_link_def node_at_def has_null_def)+

lemma example_provider_ready: "user_settings_ready (example_settings l) settings_fs ''ann'' ''provider.json''"
proof -
  have "safe_segment ''ann''" by code_simp
  with example_settings_dirs(1) show ?thesis
    by (simp add: user_settings_ready_def cell_ready_def example_settings_def plain_entry_def node_at_def)
qed

lemma example_global_ready: "global_ready (example_settings l) settings_fs"
  using example_settings_dirs(2)
  by (simp add: global_ready_def global_names_def cell_ready_def example_settings_def plain_entry_def node_at_def)

lemma example_now: "in_calendar 0"
  by code_simp

lemma example_provider_read:
  "read_json (\<lambda>_. (0, 0)) (example_settings l) settings_fs ([''u'', ''ann''] @ [''provider.json'']) provider_default [''u'', ''ann''] =
    Inr provider_default"
  "get_provider_config (\<lambda>_. (0, 0)) (example_settings l) settings_fs ''ann'' =
    (Inr \<lparr>provider_enabled = False, base_url = [], default_model = [], has_api_key = False, provider_updated_at = None\<rparr>, settings_fs)"
proof -
  have entry: "plain_entry settings_fs [''u'', ''ann''] ''provider.json''" by (simp add: plain_entry_def node_at_def)
  note calls = plain_entry_inside [OF example_settings_dirs(1) entry] plain_entry_kernel [OF example_settings_dirs(1) entry, of True]
  have absent: "node_at settings_fs ([''u'', ''ann''] @ [''provider.json'']) = None" by (simp add: node_at_def)
  show r: "read_json (\<lambda>_. (0, 0)) (example_settings l) settings_fs ([''u'', ''ann''] @ [''provider.json'']) provider_default
      [''u'', ''ann''] = Inr provider_default"
    using calls absent by (simp add: read_json_def path_exists_def)
  have "provider_from_payload provider_default =
      Inr \<lparr>provider_enabled = False, base_url = [], default_model = [], has_api_key = False, provider_updated_at = None\<rparr>"
    by code_simp
  moreover have "users_root (example_settings l) = [''u'']" by (simp add: example_settings_def)
  ultimately show "get_provider_config (\<lambda>_. (0, 0)) (example_settings l) settings_fs ''ann'' =
    (Inr \<lparr>provider_enabled = False, base_url = [], default_model = [], has_api_key = False, provider_updated_at = None\<rparr>, settings_fs)"
    using user_dir_ready [OF example_provider_ready, of l] r
    by (simp add: get_provider_config_def read_provider_def with_sum_def)
qed

lemma example_provider_update:
  assumes "example_limit \<le> l"
  shows "\<exists>x fs'. update_provider_config (\<lambda>_. (0, 0)) (example_settings l) settings_fs ''ann'' True ''http://a'' ''m'' (Some ''k'') 0 =
      (Inr x, fs') \<and>
    node_at fs' [''u'', ''ann'', ''provider.json''] = Some (File_node (utf8_bytes (json_text (JObject example_provider))) 0)"
proof -
  have root: "users_root (example_settings l) = [''u'']" "max_settings_file_size_bytes (example_settings l) = l"
    by (simp_all add: example_settings_def)
  have cell: "cell_ready settings_fs [''u'', ''ann''] ''provider.json''"
    using example_provider_ready [of l] root by (simp add: user_settings_ready_def)
  from write_json_ready [OF settings_in_names(1) cell, of example_provider "example_settings l" 0] assms root obtain fs' where
    fs': "write_json (example_settings l) settings_fs ([''u'', ''ann''] @ [''provider.json'']) example_provider [''u'', ''ann''] 0 = (Inr (), fs')"
      "node_at fs' ([''u'', ''ann''] @ [''provider.json'']) = Some (File_node (utf8_bytes (json_text (JObject example_provider))) 0)"
    by (auto simp: example_limit_def)
  have trimmed: "py_strip ''http://a'' = ''http://a''" "py_strip ''m'' = ''m''" "py_strip ''k'' = ''k''" by code_simp+
  have "provider_from_payload example_provider = Inr \<lparr>provider_enabled = True, base_url = ''http://a'', default_model = ''m'',
      has_api_key = True, provider_updated_at = Some 0\<rparr>"
    using example_now trimmed by (simp add: provider_from_payload_def written_values del: settings_datetime.simps)
  with fs' trimmed user_dir_ready [OF example_provider_ready, of l] example_provider_read(1) [of l] root show ?thesis
    by (simp add: update_provider_config_def read_provider_def with_sum_def next_api_key_def)
qed

lemma example_text_size: "length (utf8_bytes (json_text (JObject example_provider))) = Suc example_limit"
  by (simp add: json_text_size example_limit_def)

theorem provider_kept_witness:
  "\<exists>x fs'. update_provider_config (\<lambda>_. (0, 0)) (example_settings (Suc example_limit)) settings_fs ''ann'' True ''http://a'' ''m''
       (Some ''k'') 0 = (Inr x, fs') \<and> has_api_key x \<and> base_url x = ''http://a'' \<and>
     key_on_disk fs' [''u'', ''ann'', ''provider.json''] = ''k'' \<and>
     get_provider_config (\<lambda>_. (0, 0)) (example_settings (Suc example_limit)) fs' ''ann'' = (Inr x, fs')"
proof -
  let ?svc = "example_settings (Suc example_limit)"
  from example_provider_update [of "Suc example_limit"] obtain x fs' where
    up: "update_provider_config (\<lambda>_. (0, 0)) ?svc settings_fs ''ann'' True ''http://a'' ''m'' (Some ''k'') 0 = (Inr x, fs')"
    and here: "node_at fs' [''u'', ''ann'', ''provider.json''] = Some (File_node (utf8_bytes (json_text (JObject example_provider))) 0)"
    by auto
  have "\<not> too_long ?svc fs' [''u'', ''ann'', ''provider.json'']"
    using here example_text_size by (simp add: too_long_def example_settings_def)
  moreover have "py_strip ''http://a'' = ''http://a''" "py_strip ''k'' = ''k''" by code_simp+
  ultimately show ?thesis
    using provider_kept [OF example_now example_provider_ready example_provider_read(2) up] up
    by (auto simp: read_back_def example_settings_def)
qed

theorem provider_lockout_witness:
  "\<exists>x fs'. update_provider_config (\<lambda>_. (0, 0)) (example_settings example_limit) settings_fs ''ann'' True ''http://a'' ''m''
       (Some ''k'') 0 = (Inr x, fs') \<and>
     get_provider_config (\<lambda>_. (0, 0)) (example_settings example_limit) fs' ''ann'' =
       (Inl (value_error ''settings file exceeds size limit''), fs') \<and>
     update_provider_config (\<lambda>_. (0, 0)) (example_settings example_limit) fs' ''ann'' False [] [] None 1 =
       (Inl (value_error ''settings file exceeds size limit''), fs')"
proof -
  let ?svc = "example_settings example_limit"
  from example_provider_update [of example_limit] obtain x fs' where
    up: "update_provider_config (\<lambda>_. (0, 0)) ?svc settings_fs ''ann'' True ''http://a'' ''m'' (Some ''k'') 0 = (Inr x, fs')"
    and here: "node_at fs' [''u'', ''ann'', ''provider.json''] = Some (File_node (utf8_bytes (json_text (JObject example_provider))) 0)"
    by auto
  have "node_at fs' (users_root ?svc @ [''ann'', ''provider.json'']) =
      Some (File_node (utf8_bytes (json_text (JObject example_provider))) 0)"
    using here by (simp add: example_settings_def)
  moreover have "length (utf8_bytes (json_text (JObject example_provider))) > max_settings_file_size_bytes ?svc"
    using example_text_size by (simp add: example_settings_def)
  ultimately show ?thesis
    using provider_lockout [OF example_now example_provider_ready up] up by blast
qed

lemma example_registration_update:
  "\<exists>x fs'. update_registration_policy (example_settings 1100) settings_fs False True 0 = (Inr x, fs')"
proof -
  let ?payload = "[(''allow_registration'', JBool False), (''require_invite_code'', JBool True),
    (''updated_at'', JString (iso_datetime 0))]"
  have "length (utf8_bytes (json_dumps (JObject ?payload))) \<le> max_settings_file_size_bytes (example_settings 1100)"
    using registration_size [of False True 0] json_text_size [of "JObject ?payload"] by (simp add: example_settings_def)
  moreover have "cell_ready settings_fs (global_root (example_settings 1100)) ''registration.json''"
    using example_global_ready [of 1100] by (simp add: global_ready_def global_names_def)
  ultimately obtain fs' where "write_json (example_settings 1100) settings_fs (registration_file (example_settings 1100)) ?payload
      (global_root (example_settings 1100)) 0 = (Inr (), fs')"
    using write_json_ready [OF settings_in_names(3), of settings_fs "global_root (example_settings 1100)" ?payload "example_settings 1100" 0]
    by (auto simp: registration_file_def)
  then show ?thesis
    using example_now
    by (simp add: update_registration_policy_def with_sum_def written_values del: settings_datetime.simps)
qed

theorem system_settings_kept_witness:
  "\<exists>x fs'. update_registration_policy (example_settings 1100) settings_fs False True 0 = (Inr x, fs') \<and>
     get_registration_policy (\<lambda>_. (0, 0)) (example_settings 1100) fs' =
       Inr \<lparr>allow_registration = False, require_invite_code = True, registration_updated_at = Some 0\<rparr>"
proof -
  from example_registration_update obtain x fs' where
    up: "update_registration_policy (example_settings 1100) settings_fs False True 0 = (Inr x, fs')" by blast
  have "1100 \<le> max_settings_file_size_bytes (example_settings 1100)" by (simp add: example_settings_def)
  from system_settings_kept [OF example_now example_global_ready this, of "\<lambda>_. (0, 0)" "[]",
      THEN conjunct1, THEN spec, THEN spec, THEN spec, THEN spec, THEN mp, OF up] up show ?thesis by auto
qed

end
