(* ===== verification/AccountRoutes.thy ===== *)
theory AccountRoutes
  imports SettingsProtocol WorkspaceInvariant
begin

text \<open>
  The handlers of registration, login, users and invites (\<open>app/routes/auth.py\<close>, \<open>app/routes/users.py\<close>), over
  the service of accounts, the settings and the tables of workspaces; and what the registration policy makes of
  registrations.
\<close>

section \<open>The handlers\<close>

text \<open>An exception that no handler takes, and a body that does not validate.\<close>

definition internal_error :: http_error where
  "internal_error = Http_error 500 ''Internal Server Error''"

definition validation_error :: http_error where
  "validation_error = Http_error 422 ''validation error''"

definition default_role :: string where
  "default_role = ''member''"

definition register_route ::
  "(string \<Rightarrow> string \<Rightarrow> string) \<Rightarrow> (path \<Rightarrow> nat \<times> instant) \<Rightarrow> settings_service \<Rightarrow> filesys \<Rightarrow> auth_service \<Rightarrow> workspace_db \<Rightarrow>
   string \<Rightarrow> string \<Rightarrow> string option \<Rightarrow> string \<Rightarrow> string \<Rightarrow> instant \<Rightarrow> instant \<Rightarrow> instant \<Rightarrow> instant \<Rightarrow>
   (http_error + string) \<times> auth_service \<times> workspace_db" where
  "register_route scrypt dir_stat svc fs st db name password invite uuid salt now later stamp db_now =
     (if name = [] \<or> password = [] then (Inl validation_error, st, db)
      else
        (case get_registration_policy dir_stat svc fs of
           Inl e \<Rightarrow> (Inl internal_error, st, db)
         | Inr policy \<Rightarrow>
             if \<not> allow_registration policy then (Inl (Http_error 403 ''registration is disabled''), st, db)
             else if require_invite_code policy \<and> (invite = None \<or> invite = Some [])
             then (Inl (Http_error 400 ''invite code is required by registration policy''), st, db)
             else
               (case register_user scrypt st name password default_role invite uuid salt now later stamp of
                  (Inl (UserAlreadyExistsError _), st1) \<Rightarrow> (Inl (Http_error 409 ''username already exists''), st1, db)
                | (Inl (InviteCodeUnavailableError _), st1) \<Rightarrow>
                    (Inl (Http_error 400 ''invite code is invalid, expired, or already used''), st1, db)
                | (Inl _, st1) \<Rightarrow> (Inl internal_error, st1, db)
                | (Inr u, st1) \<Rightarrow>
                    let (home, db1) = ensure_home_workspace db (user_id u) (user_role u) (username u) db_now in
                    (Inr (user_id u), st1, db1))))"

definition login_route ::
  "(string \<Rightarrow> string \<Rightarrow> string) \<Rightarrow> (string \<Rightarrow> instant \<Rightarrow> string) \<Rightarrow> instant \<Rightarrow> auth_service \<Rightarrow> string \<Rightarrow> string \<Rightarrow> instant \<Rightarrow>
   http_error + string" where
  "login_route scrypt jwt_encode expires_delta st name password now =
     (if name = [] \<or> password = [] then Inl validation_error
      else
        (case authenticate_user scrypt st name password of
           None \<Rightarrow> Inl (Http_error 401 ''invalid username or password'')
         | Some u \<Rightarrow> Inr (create_access_token jwt_encode expires_delta (user_id u) now)))"

text \<open>
  \<open>UserResponse.model_validate\<close>: the response has the fields of the user, of which role, status and
  \<open>must_change_password\<close> may not be \<open>None\<close>.
\<close>

definition to_user_response :: "auth_user \<Rightarrow> http_error + auth_user" where
  "to_user_response u =
     (if user_role u = None \<or> user_status u = None \<or> must_change_password u = None then Inl internal_error else Inr u)"

fun to_user_responses :: "auth_user list \<Rightarrow> http_error + auth_user list" where
  "to_user_responses [] = Inr []"
| "to_user_responses (u # us) =
     (case to_user_response u of
        Inl e \<Rightarrow> Inl e
      | Inr r \<Rightarrow> (case to_user_responses us of Inl e \<Rightarrow> Inl e | Inr rs \<Rightarrow> Inr (r # rs)))"

definition get_me :: "http_error + auth_user \<Rightarrow> http_error + auth_user" where
  "get_me current = (case current of Inl e \<Rightarrow> Inl e | Inr u \<Rightarrow> to_user_response u)"

definition list_users_route :: "auth_service \<Rightarrow> http_error + auth_user \<Rightarrow> http_error + auth_user list" where
  "list_users_route st current =
     (case require_permission ''users'' ''read'' current of
        Inl e \<Rightarrow> Inl e
      | Inr _ \<Rightarrow> to_user_responses (list_users st))"

text \<open>The fields that a request sent, with \<open>null\<close> as a value: a role or a status that is a string is not empty.\<close>

fun valid_change :: "user_change \<Rightarrow> bool" where
  "valid_change (Set_role (Some r)) = (r \<noteq> [])"
| "valid_change (Set_status (Some s)) = (s \<noteq> [])"
| "valid_change (Other_field _) = False"
| "valid_change _ = True"

definition update_user_route ::
  "auth_service \<Rightarrow> http_error + auth_user \<Rightarrow> string \<Rightarrow> user_change list \<Rightarrow> (http_error + auth_user) \<times> auth_service" where
  "update_user_route st current uid changes =
     (case require_permission ''users'' ''write'' current of
        Inl e \<Rightarrow> (Inl e, st)
      | Inr _ \<Rightarrow>
          if \<not> list_all valid_change changes then (Inl validation_error, st)
          else
            (case update_user st uid changes of
               (Inl (UserNotFoundError _), st1) \<Rightarrow> (Inl (Http_error 404 ''user not found''), st1)
             | (Inl _, st1) \<Rightarrow> (Inl internal_error, st1)
             | (Inr u, st1) \<Rightarrow> (to_user_response u, st1)))"

definition list_invite_codes_route :: "auth_service \<Rightarrow> http_error + auth_user \<Rightarrow> http_error + auth_invite_code list" where
  "list_invite_codes_route st current =
     (case require_permission ''users'' ''read'' current of Inl e \<Rightarrow> Inl e | Inr _ \<Rightarrow> Inr (list_invite_codes st))"

definition create_invite_code_route ::
  "auth_service \<Rightarrow> http_error + auth_user \<Rightarrow> string \<Rightarrow> string option \<Rightarrow> py_datetime option \<Rightarrow> string option \<Rightarrow> string \<Rightarrow>
   (http_error + auth_invite_code) \<times> auth_service" where
  "create_invite_code_route st current role template expires code uuid =
     (case require_permission ''users'' ''write'' current of
        Inl e \<Rightarrow> (Inl e, st)
      | Inr u \<Rightarrow>
          if role = [] \<or> code = Some [] then (Inl validation_error, st)
          else
            (case create_invite_code st (user_id u) role template expires code uuid of
               (Inl (InviteCodeAlreadyExistsError _), st1) \<Rightarrow> (Inl (Http_error 409 ''invite code already exists''), st1)
             | (Inl _, st1) \<Rightarrow> (Inl internal_error, st1)
             | (Inr invite, st1) \<Rightarrow> (Inr invite, st1)))"

section \<open>The policy governs registrations\<close>

lemma register_user_Inr:
  assumes "register_user scrypt st name password role invite uuid salt now later stamp = (Inr u, st')"
  shows "\<exists>r. u = new_user uuid name r \<and> get_user_by_id st' uuid = Some u \<and> dict_get (users_by_username st) name = None \<and>
    (case invite of None \<Rightarrow> r = role | Some code \<Rightarrow> (\<exists>i. get_available_invite st code now = Inr i \<and> r = invite_role i \<and>
       (\<exists>i'. get_invite_code st' code = Some i' \<and> used_by i' = Some uuid)))"
  using assms
  by (auto simp: register_user_eq consume_invite_code_def with_user_def get_user_by_id_def get_invite_code_def Let_def
      split: if_splits option.splits sum.splits prod.splits)

text \<open>C34: After an update of the registration policy, registrations obey it: while registration is closed nobody
  registers, and while an invite is required nobody registers without the code of an invite that is unused and has
  not expired. Whoever registers can be found, has the role of the invite or \<open>member\<close>, has used up the invite,
  and has a home workspace. A refusal by the policy changes nothing.
\<close>

theorem registration_policy_enforced:
  assumes "in_calendar t" and "global_ready svc fs" and "1100 \<le> max_settings_file_size_bytes svc"
    and "update_registration_policy svc fs allow invite_required t = (Inr policy, fs')"
    and "name \<noteq> []" and "password \<noteq> []"
    and "register_route scrypt dir_stat svc fs' st db name password invite uuid salt now later stamp db_now = (answer, st', db')"
  shows "(\<not> allow \<longrightarrow> answer = Inl (Http_error 403 ''registration is disabled'') \<and> st' = st \<and> db' = db) \<and>
    (allow \<and> invite_required \<and> (invite = None \<or> invite = Some []) \<longrightarrow>
       answer = Inl (Http_error 400 ''invite code is required by registration policy'') \<and> st' = st \<and> db' = db) \<and>
    (\<forall>uid. answer = Inr uid \<longrightarrow> allow \<and> uid = uuid \<and> (invite_required \<longrightarrow> invite \<noteq> None) \<and>
       (\<exists>u. get_user_by_id st' uid = Some u \<and> username u = name \<and>
         (case invite of
            None \<Rightarrow> user_role u = Some ''member''
          | Some code \<Rightarrow> \<exists>i. get_available_invite st code now = Inr i \<and> user_role u = Some (invite_role i) \<and>
              (\<exists>i'. get_invite_code st' code = Some i' \<and> used_by i' = Some uid)) \<and>
         (\<exists>home. get_registered_group db' (if user_role u = Some ''owner'' then ''web:main'' else ''web:home-'' @ uid) = Some home)))"
proof -
  have policy: "get_registration_policy dir_stat svc fs' =
      Inr \<lparr>allow_registration = allow, require_invite_code = invite_required, registration_updated_at = Some t\<rparr>"
  proof -
    have cell: "cell_ready fs (global_root svc) ''registration.json''"
      using assms(2) by (simp add: global_ready_def global_names_def)
    show ?thesis using registration_roundtrip [OF assms(1) cell assms(4)] assms(3) by (simp add: read_back_def)
  qed
  have home: "\<exists>home. get_registered_group (snd (ensure_home_workspace db uid role nm db_now))
      (if role = Some ''owner'' then ''web:main'' else ''web:home-'' @ uid) = Some home" for uid role nm
    by (simp add: ensure_home_workspace_def ensure_registered_get)
  note route = assms(7) [unfolded register_route_def, simplified policy assms(5,6), simplified]
  show ?thesis
  proof (intro conjI allI impI)
    fix uid
    assume ok: "answer = Inr uid"
    with route have open': "allow" "\<not> (invite_required \<and> (invite = None \<or> invite = Some []))" by (auto split: if_splits)
    with route ok obtain u where u: "register_user scrypt st name password default_role invite uuid salt now later stamp = (Inr u, st')"
      "uid = user_id u" "db' = snd (ensure_home_workspace db (user_id u) (user_role u) (username u) db_now)"
      by (auto split: sum.splits prod.splits auth_error.splits)
    from register_user_Inr [OF u(1)] obtain r where r: "u = new_user uuid name r" "get_user_by_id st' uuid = Some u"
      "case invite of None \<Rightarrow> r = default_role | Some code \<Rightarrow> (\<exists>i. get_available_invite st code now = Inr i \<and> r = invite_role i \<and>
         (\<exists>i'. get_invite_code st' code = Some i' \<and> used_by i' = Some uuid))" by blast
    show "allow" "uid = uuid" using open' u(2) r(1) by simp_all
    show "invite \<noteq> None" if "invite_required" using open' that by auto
    show "\<exists>u. get_user_by_id st' uid = Some u \<and> username u = name \<and>
         (case invite of
            None \<Rightarrow> user_role u = Some ''member''
          | Some code \<Rightarrow> \<exists>i. get_available_invite st code now = Inr i \<and> user_role u = Some (invite_role i) \<and>
              (\<exists>i'. get_invite_code st' code = Some i' \<and> used_by i' = Some uid)) \<and>
         (\<exists>home. get_registered_group db' (if user_role u = Some ''owner'' then ''web:main'' else ''web:home-'' @ uid) = Some home)"
      using r u(2,3) home [of "user_id u" "user_role u" "username u"]
      by (intro exI [of _ u]) (auto simp: default_role_def split: option.splits)
  qed (use route in \<open>auto split: if_splits\<close>)
qed

section \<open>A null in an update\<close>

lemma responses_fail: "u \<in> set us \<Longrightarrow> to_user_response u = Inl e \<Longrightarrow> to_user_responses us = Inl internal_error"
  by (induction us) (auto simp: to_user_response_def split: if_splits sum.splits)

text \<open>A \<open>null\<close> that an update of a user sends for the role or the status is stored before the response fails
  to validate: the request answers 500, and from then on so does every list of the users and the user's own profile.
\<close>

theorem null_field_breaks_users:
  assumes "reachable_auth st" and "get_user_by_id st uid = Some u"
    and "require_permission ''users'' ''write'' current = Inr admin" and "change \<in> {Set_role None, Set_status None}"
    and "update_user_route st current uid [change] = (answer, st')"
    and "require_permission ''users'' ''read'' reader = Inr someone"
  shows "answer = Inl internal_error \<and> get_user_by_id st' uid = Some (apply_change change u) \<and>
    list_users_route st' reader = Inl internal_error \<and>
    get_me (get_current_user jwt_decode st' (Some token) now) \<noteq> Inr (apply_change change u)"
proof -
  let ?u = "apply_change change u"
  obtain r where r: "user_id u = uid" "dict_get (users_by_username st) (username u) = Some r"
    using users_okD(2) reachable_auth_ok [OF assms(1)] assms(2) unfolding get_user_by_id_def by blast
  have bad: "to_user_response ?u = Inl internal_error" and change: "valid_change change" "username ?u = username u"
    using assms(4) by (auto simp: to_user_response_def)
  have step: "update_user st uid [change] = (Inr ?u, st')" "answer = Inl internal_error" "get_user_by_id st' uid = Some ?u"
    using assms(2,3,5) r bad change by (auto simp: update_user_route_def update_user_def get_user_by_id_def Let_def)
  then have "?u \<in> set (list_users st')"
    by (auto simp: list_users_def get_user_by_id_def dest!: map_of_SomeD intro: rev_image_eqI)
  then have "to_user_responses (list_users st') = Inl internal_error" using bad by (rule responses_fail)
  moreover have "get_me c \<noteq> Inr ?u" for c
    using bad by (auto simp: get_me_def to_user_response_def internal_error_def split: sum.splits if_splits)
  ultimately show ?thesis using step assms(6) by (simp add: list_users_route_def)
qed

section \<open>Examples\<close>

definition example_admin :: auth_user where
  "example_admin = new_user ''id9'' ''root'' ''owner''"

lemma example_admin_permissions:
  "require_permission ''users'' ''write'' (Inr example_admin) = Inr example_admin"
  "require_permission ''users'' ''read'' (Inr example_admin) = Inr example_admin"
  by (simp_all add: require_permission_Inr example_admin_def) code_simp+

theorem null_field_breaks_users_witness:
  "fst (update_user_route example_accounts (Inr example_admin) ''id1'' [Set_role None]) = Inl internal_error \<and>
   list_users_route (snd (update_user_route example_accounts (Inr example_admin) ''id1'' [Set_role None])) (Inr example_admin) =
     Inl internal_error"
  using null_field_breaks_users [OF example_accounts_reachable example_accounts_user example_admin_permissions(1) _
      prod.collapse [symmetric] example_admin_permissions(2), of "Set_role None"] by blast

theorem registration_policy_enforced_witness:
  "\<exists>policy fs'. update_registration_policy (example_settings 1100) settings_fs False True 0 = (Inr policy, fs') \<and>
     fst (register_route example_scrypt (\<lambda>_. (0, 0)) (example_settings 1100) fs' initial_auth_service example_workspaces
       ''bob'' ''pw'' None ''id2'' ''salt'' 1 1 1 1) = Inl (Http_error 403 ''registration is disabled'')"
proof -
  from example_registration_update obtain policy fs' where
    up: "update_registration_policy (example_settings 1100) settings_fs False True 0 = (Inr policy, fs')" by blast
  have "1100 \<le> max_settings_file_size_bytes (example_settings 1100)" by (simp add: example_settings_def)
  note enforced = registration_policy_enforced [OF example_now example_global_ready this up]
  obtain answer st' db' where
    r: "register_route example_scrypt (\<lambda>_. (0, 0)) (example_settings 1100) fs' initial_auth_service example_workspaces
      ''bob'' ''pw'' None ''id2'' ''salt'' 1 1 1 1 = (answer, st', db')" by (metis prod_cases3)
  from enforced [OF _ _ r] up r show ?thesis by auto
qed

end
