(* ===== verification/ExecutionRoutes.thy ===== *)
theory ExecutionRoutes
  imports CoordinatorProtocol WorkspaceAccess
begin

text \<open>
  The handlers that show executions: the status of a run (\<open>app/routes/executions.py\<close>) and the monitor of the
  operators (\<open>app/routes/monitor.py\<close> with \<open>build_monitor_backend_health\<close> of \<open>services/execution_runtime.py\<close>), over
  the coordinator and the tables of workspaces. What a probe of a backend meets (a directory, a docker daemon) is
  the argument \<open>probe\<close>: an exception's text or nothing.
\<close>

section \<open>The status of a run\<close>

definition normalize_requested_mode :: "string option \<Rightarrow> string option" where
  "normalize_requested_mode mode = (if mode \<in> {Some ''openai'', Some ''host'', Some ''container''} then mode else None)"

text \<open>The response has the fields of the snapshot.\<close>

definition to_execution_status_response :: "execution_run_snapshot \<Rightarrow> execution_run_snapshot" where
  "to_execution_status_response snap = snap\<lparr>run_requested_mode := normalize_requested_mode (run_requested_mode snap)\<rparr>"

definition can_read_execution_snapshot ::
  "workspace_db \<Rightarrow> auth_user \<Rightarrow> execution_run_snapshot \<Rightarrow> instant \<Rightarrow> bool \<times> workspace_db" where
  "can_read_execution_snapshot db u snap now =
     (case get_web_workspace_by_folder db (run_group_folder snap) now of
        (Some workspace, db1) \<Rightarrow> (user_can_access_group db1 (user_id u) (user_role u) workspace, db1)
      | (None, db1) \<Rightarrow>
          (if user_role u \<in> {Some ''owner'', Some ''admin''} then (True, db1) else (run_user_id snap = user_id u, db1)))"

definition run_not_found :: http_error where
  "run_not_found = Http_error 404 ''execution run not found''"

definition get_execution_status ::
  "coordinator \<Rightarrow> workspace_db \<Rightarrow> http_error + auth_user \<Rightarrow> string \<Rightarrow> instant \<Rightarrow> execution_run_snapshot response" where
  "get_execution_status st db current run now =
     as_user current db (\<lambda>u.
       case get_run_snapshot st run of
         None \<Rightarrow> (Inl run_not_found, db)
       | Some snap \<Rightarrow>
           (case can_read_execution_snapshot db u snap now of
              (False, db1) \<Rightarrow> (Inl run_not_found, db1)
            | (True, db1) \<Rightarrow> (Inr (to_execution_status_response snap), db1)))"

section \<open>The monitor\<close>

record run_summary =
  summary_run_id :: string
  summary_run_group :: string
  summary_chat_jid :: string
  summary_user_id :: string
  summary_source :: string
  summary_slot_id :: string
  summary_status :: execution_status
  summary_backend :: "string option"
  summary_requested_mode :: "string option"
  summary_created_at :: instant
  summary_started_at :: "instant option"
  summary_finished_at :: "instant option"
  summary_error :: "string option"
  summary_timeout_ms :: "int option"
  summary_recovery :: "bool \<times> string option \<times> bool option"

definition to_monitor_run_summary :: "execution_run_snapshot \<Rightarrow> run_summary" where
  "to_monitor_run_summary snap =
     \<lparr>summary_run_id = run_id snap, summary_run_group = run_group_folder snap, summary_chat_jid = run_chat_jid snap,
      summary_user_id = run_user_id snap, summary_source = run_source snap, summary_slot_id = run_slot_id snap,
      summary_status = run_status snap, summary_backend = run_backend snap,
      summary_requested_mode = normalize_requested_mode (run_requested_mode snap),
      summary_created_at = run_created_at snap, summary_started_at = run_started_at snap,
      summary_finished_at = run_finished_at snap, summary_error = run_error snap, summary_timeout_ms = run_timeout_ms snap,
      summary_recovery = (recovery_attempted snap, recovery_reason snap, recovery_succeeded snap)\<rparr>"

record backend_health =
  health_backend :: string
  health_status :: string
  health_detail :: string

definition probe_backend_health :: "(string \<Rightarrow> string option) \<Rightarrow> string \<Rightarrow> backend_health" where
  "probe_backend_health probe name =
     (if name \<in> {''openai_runtime'', ''host_process'', ''docker_container''} \<and> probe name \<noteq> None
      then \<lparr>health_backend = name, health_status = ''error'', health_detail = the (probe name)\<rparr>
      else \<lparr>health_backend = name, health_status = ''ok'', health_detail =
        (if name = ''openai_runtime'' then ''runtime factory available''
         else if name = ''host_process'' then ''host runner root validated''
         else if name = ''docker_container'' then ''docker daemon reachable'' else ''backend registered'')\<rparr>)"

text \<open>The names are those of the backends, so that \<open>get_backend\<close> finds each.\<close>

definition build_monitor_backend_health :: "(string \<Rightarrow> string option) \<Rightarrow> coordinator \<Rightarrow> backend_health list" where
  "build_monitor_backend_health probe st = map (probe_backend_health probe) (list_backend_names st)"

record monitor_status =
  monitor_backends :: "backend_health list"
  monitor_queue :: "(string \<times> monitor_group) list"
  monitor_runs :: "run_summary list"

definition get_monitor_status ::
  "(string \<Rightarrow> string option) \<Rightarrow> coordinator \<Rightarrow> http_error + auth_user \<Rightarrow> http_error + monitor_status" where
  "get_monitor_status probe st current =
     (case current of
        Inl e \<Rightarrow> Inl e
      | Inr u \<Rightarrow>
          if user_role u \<notin> {Some ''owner'', Some ''admin''} then Inl (Http_error 403 ''permission denied'')
          else Inr \<lparr>monitor_backends = build_monitor_backend_health probe st, monitor_queue = get_monitor_queue_snapshot st,
                    monitor_runs = map to_monitor_run_summary (list_run_snapshots st 50)\<rparr>)"

section \<open>Who sees a run\<close>

text \<open>C35: The status of a run is shown to those who may enter the web workspace of its folder, and when there is none,
  to operators and to the user who submitted it; everybody else gets the answer for a run that does not exist.
  The request changes no group and no membership.
\<close>

theorem run_status_confined:
  assumes "get_execution_status st db (Inr u) run now = (answer, db')"
  shows "groups db' = groups db \<and> members db' = members db \<and>
    (case get_run_snapshot st run of
       None \<Rightarrow> answer = Inl run_not_found
     | Some snap \<Rightarrow>
         (if (\<exists>w. fst (get_web_workspace_by_folder db (run_group_folder snap) now) = Some w \<and>
                user_can_access_group db (user_id u) (user_role u) w) \<or>
             (\<forall>g \<in> set (groups db). folder g = run_group_folder snap \<longrightarrow> \<not> is_web g) \<and>
               (user_role u \<in> {Some ''owner'', Some ''admin''} \<or> run_user_id snap = user_id u)
          then answer = Inr (to_execution_status_response snap) else answer = Inl run_not_found))"
proof (cases "get_run_snapshot st run")
  case None
  with assms show ?thesis by (simp add: get_execution_status_def)
next
  case (Some snap)
  obtain found db1 where found: "get_web_workspace_by_folder db (run_group_folder snap) now = (found, db1)" by force
  with get_web_workspace_other [of db "run_group_folder snap" now] have tables: "groups db1 = groups db" "members db1 = members db"
    by simp_all
  show ?thesis
  proof (cases found)
    case (Some w)
    with found get_web_workspaceD have "\<not> (\<forall>g \<in> set (groups db). folder g = run_group_folder snap \<longrightarrow> \<not> is_web g)" by blast
    with assms \<open>get_run_snapshot st run = Some snap\<close> found Some tables show ?thesis
      by (auto simp: get_execution_status_def can_read_execution_snapshot_def access_same_tables [OF tables]
          split: bool.splits)
  next
    case None
    with found get_web_workspace_None [of db "run_group_folder snap" now]
    have "\<forall>g \<in> set (groups db). folder g = run_group_folder snap \<longrightarrow> \<not> is_web g" by simp
    with assms \<open>get_run_snapshot st run = Some snap\<close> found None tables show ?thesis
      by (auto simp: get_execution_status_def can_read_execution_snapshot_def split: bool.splits if_splits)
  qed
qed

section \<open>The queue of the monitor\<close>

text \<open>The runs of a group that have a status, in the order of their submission.\<close>

definition runs_with :: "coordinator \<Rightarrow> execution_status \<Rightarrow> string \<Rightarrow> (string \<times> execution_request) list \<Rightarrow> string list" where
  "runs_with st s g entries =
     map fst (filter (\<lambda>(run, request). req_group_folder request = g \<and> dict_get (statuses st) run = Some s) entries)"

definition group_view :: "coordinator \<Rightarrow> string \<Rightarrow> (string \<times> execution_request) list \<Rightarrow> monitor_group option" where
  "group_view st g entries =
     (let queued = runs_with st Queued g entries; running = runs_with st Running g entries in
      if queued = [] \<and> running = [] then None
      else Some \<lparr>queued_runs = int (length queued), running_runs = int (length running),
        active_run_id = (if running = [] then None else Some (last running)),
        active_backend = (if running = [] then None else Option.bind (dict_get (run_snapshots st) (last running)) run_backend)\<rparr>)"

lemma monitor_fold: "dict_get (fold (monitor_step st) entries []) g = group_view st g entries"
proof (induction entries rule: rev_induct)
  case Nil
  show ?case by (simp add: group_view_def runs_with_def)
next
  case (snoc entry entries)
  obtain run request where entry: "entry = (run, request)" by (cases entry)
  show ?case
    using snoc
    by (auto simp: entry monitor_step_def group_view_def runs_with_def Let_def split: option.splits)
qed

lemma monitor_distinct: "distinct (map fst (fold (monitor_step st) entries d))" if "distinct (map fst d)"
  using that
  by (induction entries arbitrary: d) (auto simp: monitor_step_def Let_def distinct_update split: option.splits prod.splits)

text \<open>The queue of the monitor is the state of the coordinator: the groups are sorted and each is listed once; a
  group is listed with the number of its queued and of its running runs, its latest running run and the backend of
  that run; and every run that is queued or running is counted in the group of its request.
\<close>

theorem monitor_matches_runs:
  assumes "reachable_coordinator st"
  shows "sorted (map fst (get_monitor_queue_snapshot st)) \<and> distinct (map fst (get_monitor_queue_snapshot st)) \<and>
    (\<forall>g m. (g, m) \<in> set (get_monitor_queue_snapshot st) \<longleftrightarrow> group_view st g (run_requests st) = Some m) \<and>
    (\<forall>run s. get_status st run = Some s \<longrightarrow> s \<in> {Queued, Running} \<longrightarrow>
       (\<exists>request m. dict_get (run_requests st) run = Some request \<and>
          run \<in> set (runs_with st s (req_group_folder request) (run_requests st)) \<and>
          (req_group_folder request, m) \<in> set (get_monitor_queue_snapshot st)))"
proof -
  let ?groups = "fold (monitor_step st) (run_requests st) []"
  have distinct: "distinct (map fst ?groups)" by (rule monitor_distinct) simp
  have listed: "(g, m) \<in> set (get_monitor_queue_snapshot st) \<longleftrightarrow> group_view st g (run_requests st) = Some m" for g m
    using dict_items [OF distinct] by (simp add: get_monitor_queue_snapshot_def monitor_fold)
  have counted: "\<exists>request m. dict_get (run_requests st) run = Some request \<and>
      run \<in> set (runs_with st s (req_group_folder request) (run_requests st)) \<and>
      (req_group_folder request, m) \<in> set (get_monitor_queue_snapshot st)"
    if s: "get_status st run = Some s" "s \<in> {Queued, Running}" for run s
  proof -
    have "run_ok st run" using reachable_coordinator_ok [OF assms] by (simp add: coordinator_ok_def)
    with s obtain request where request: "dict_get (run_requests st) run = Some request"
      by (auto simp: run_ok_def settled_run_ok_def active_run_ok_def get_status_def split: option.splits)
    have member: "run \<in> set (runs_with st s (req_group_folder request) (run_requests st))"
      using map_of_SomeD [OF request] s(1) by (force simp: runs_with_def get_status_def)
    then have "runs_with st s (req_group_folder request) (run_requests st) \<noteq> []" by (metis empty_iff empty_set)
    with s(2) have "group_view st (req_group_folder request) (run_requests st) \<noteq> None"
      by (elim insertE emptyE) (simp_all add: group_view_def Let_def)
    with request member listed show ?thesis by blast
  qed
  have "distinct (map fst (get_monitor_queue_snapshot st))"
    using distinct by (simp add: get_monitor_queue_snapshot_def distinct_map)
  moreover have "sorted (map fst (get_monitor_queue_snapshot st))" by (simp add: get_monitor_queue_snapshot_def)
  ultimately show ?thesis using listed counted by blast
qed

theorem monitor_matches_runs_witness:
  "\<exists>request m. dict_get (run_requests example_running) ''r1'' = Some request \<and>
     (req_group_folder request, m) \<in> set (get_monitor_queue_snapshot example_running)"
  using monitor_matches_runs [OF example_running_reachable, THEN conjunct2, THEN conjunct2, THEN conjunct2, THEN spec, THEN spec,
      of "''r1''" Running] example_running_state(2) by (auto simp: get_status_def)

theorem run_status_confined_witness:
  "fst (get_execution_status example_running example_workspaces (Inr (new_user ''id7'' ''eve'' ''member'')) ''r1'' 3) =
     Inl run_not_found"
proof -
  have "\<exists>snap. get_run_snapshot example_running ''r1'' = Some snap \<and> run_group_folder snap = ''g'' \<and> run_user_id snap = ''u''"
    by (simp add: example_defs get_run_snapshot_def)
  then obtain snap where snap: "get_run_snapshot example_running ''r1'' = Some snap" "run_group_folder snap = ''g''"
    "run_user_id snap = ''u''" by blast
  have "fst (get_web_workspace_by_folder example_workspaces ''g'' 3) = None"
    by (simp add: get_web_workspace_None example_team(3))
  then show ?thesis
    using run_status_confined [of example_running example_workspaces "new_user ''id7'' ''eve'' ''member''" "''r1''" 3,
        OF prod.collapse [symmetric]] snap
    by (simp add: new_user_def)
qed

end
