(* ===== verification/McpServers.thy ===== *)
theory McpServers
  imports JsonFiles
begin

text \<open>
  The MCP servers of a user: one JSON file per user with a record per server (\<open>services/mcp_servers.py\<close>), with
  the handlers of \<open>app/routes/mcp_servers.py\<close>. Each call of the service runs as one function in one thread and is one
  step.
\<close>

section \<open>Data\<close>

record mcp_server_entry =
  entry_server_id :: string
  entry_transport :: string
  entry_enabled :: bool
  entry_updated_at :: instant

record mcp_server_detail =
  server_id :: string
  mcp_transport :: string
  mcp_enabled :: bool
  mcp_description :: "string option"
  mcp_created_at :: instant
  mcp_updated_at :: instant
  mcp_command :: "string option"
  mcp_args :: "string list option"
  mcp_env :: "(string, string) dict option"
  mcp_url :: "string option"
  mcp_headers :: "(string, string) dict option"

record mcp_servers_service =
  mcp_servers_root :: path
  max_mcp_file_size_bytes :: nat

definition mcp_servers_service_init :: "filesys \<Rightarrow> path \<Rightarrow> mcp_servers_service fs_result" where
  "mcp_servers_service_init fs data_root =
     (case path_resolve fs data_root of
        Inl e \<Rightarrow> (Inl e, fs)
      | Inr r \<Rightarrow>
          (case path_resolve fs (r @ [''mcp-servers'']) of
             Inl e \<Rightarrow> (Inl e, fs)
           | Inr r0 \<Rightarrow>
               and_then (mkdir_parents fs r0) (\<lambda>_ fs1.
                 (Inr \<lparr>mcp_servers_root = r0, max_mcp_file_size_bytes = 512 * 1024\<rparr>, fs1))))"

definition servers_filename :: string where
  "servers_filename = ''servers.json''"

definition invalid_servers :: file_exn where
  "invalid_servers = value_error ''invalid mcp servers file''"

definition mcp_transports :: "string set" where
  "mcp_transports = {''stdio'', ''http'', ''sse''}"

section \<open>Values\<close>

definition normalize_optional_string :: "string option \<Rightarrow> string option" where
  "normalize_optional_string v =
     (case v of None \<Rightarrow> None | Some s \<Rightarrow> if py_strip s = [] then None else Some (py_strip s))"

text \<open>A value of a record, \<open>None\<close> for a member that is missing.\<close>

definition member :: "(string, json) dict \<Rightarrow> string \<Rightarrow> json" where
  "member r k = (case dict_get r k of None \<Rightarrow> JNull | Some v \<Rightarrow> v)"

fun normalize_required_string :: "json \<Rightarrow> file_exn + string" where
  "normalize_required_string (JString s) = (if py_strip s = [] then Inl invalid_servers else Inr (py_strip s))"
| "normalize_required_string _ = Inl invalid_servers"

fun strip_items :: "string \<Rightarrow> json list \<Rightarrow> file_exn + string list" where
  "strip_items label [] = Inr []"
| "strip_items label (JString s # vs) =
     (if py_strip s = [] then Inl (value_error (label @ '' must be an array of strings''))
      else sum_bind (strip_items label vs) (\<lambda>rest. Inr (py_strip s # rest)))"
| "strip_items label (v # vs) = Inl (value_error (label @ '' must be an array of strings''))"

fun normalize_string_list :: "json \<Rightarrow> string \<Rightarrow> file_exn + string list" where
  "normalize_string_list JNull label = Inr []"
| "normalize_string_list (JArray vs) label = strip_items label vs"
| "normalize_string_list _ label = Inl (value_error (label @ '' must be an array of strings''))"

fun strip_members :: "string \<Rightarrow> (string, json) dict \<Rightarrow> (string, string) dict \<Rightarrow> file_exn + (string, string) dict" where
  "strip_members label [] acc = Inr acc"
| "strip_members label ((k, v) # kvs) acc =
     (if py_strip k = [] then Inl (value_error (label @ '' must be an object with string values''))
      else
        (case v of
           JString s \<Rightarrow> strip_members label kvs (dict_set (py_strip k) s acc)
         | _ \<Rightarrow> Inl (value_error (label @ '' must be an object with string values''))))"

fun normalize_string_dict :: "json \<Rightarrow> string \<Rightarrow> file_exn + (string, string) dict" where
  "normalize_string_dict JNull label = Inr []"
| "normalize_string_dict (JObject kvs) label = strip_members label kvs []"
| "normalize_string_dict _ label = Inl (value_error (label @ '' must be an object with string values''))"

text \<open>A final \<open>Z\<close> is read as \<open>+00:00\<close>.\<close>

fun mcp_datetime :: "json \<Rightarrow> file_exn + instant" where
  "mcp_datetime (JString s) =
     (let c = py_strip s in
      if c = [] then Inl invalid_servers
      else
        (case fromisoformat (if last c = CHR ''Z'' then butlast c @ ''+00:00'' else c) of
           None \<Rightarrow> Inl invalid_servers
         | Some d \<Rightarrow> Inr (to_utc_datetime d)))"
| "mcp_datetime _ = Inl invalid_servers"

definition whole_seconds :: "instant \<Rightarrow> instant" where
  "whole_seconds t = t - t mod 1000000"

definition mcp_iso_datetime :: "instant \<Rightarrow> string" where
  "mcp_iso_datetime t = iso_datetime (whole_seconds t)"

section \<open>Records\<close>

definition detail_from_record :: "string \<Rightarrow> (string, json) dict \<Rightarrow> file_exn + mcp_server_detail" where
  "detail_from_record sid r =
     (case (case dict_get r ''enabled'' of None \<Rightarrow> JBool True | Some v \<Rightarrow> v) of
        JBool enabled \<Rightarrow>
          (case member r ''transport'' of
             JString raw \<Rightarrow>
               let transport = py_lower (py_strip raw) in
               if transport \<notin> mcp_transports then Inl invalid_servers
               else
                 sum_bind (case member r ''description'' of
                     JNull \<Rightarrow> Inr None | JString d \<Rightarrow> Inr (Some d) | _ \<Rightarrow> Inl invalid_servers) (\<lambda>description.
                   sum_bind (mcp_datetime (member r ''created_at'')) (\<lambda>created.
                     sum_bind (mcp_datetime (member r ''updated_at'')) (\<lambda>updated.
                       if transport = ''stdio'' then
                         sum_bind (normalize_required_string (member r ''command'')) (\<lambda>command.
                           sum_bind (normalize_string_list (member r ''args'') ''args'') (\<lambda>args.
                             sum_bind (normalize_string_dict (member r ''env'') ''env'') (\<lambda>env.
                               Inr \<lparr>server_id = sid, mcp_transport = ''stdio'', mcp_enabled = enabled,
                                    mcp_description = description, mcp_created_at = created, mcp_updated_at = updated,
                                    mcp_command = Some command, mcp_args = Some args, mcp_env = Some env,
                                    mcp_url = None, mcp_headers = None\<rparr>)))
                       else
                         sum_bind (normalize_required_string (member r ''url'')) (\<lambda>url.
                           sum_bind (normalize_string_dict (member r ''headers'') ''headers'') (\<lambda>headers.
                             Inr \<lparr>server_id = sid, mcp_transport = transport, mcp_enabled = enabled,
                                  mcp_description = description, mcp_created_at = created, mcp_updated_at = updated,
                                  mcp_command = None, mcp_args = None, mcp_env = None,
                                  mcp_url = Some url, mcp_headers = Some headers\<rparr>)))))
           | _ \<Rightarrow> Inl invalid_servers)
      | _ \<Rightarrow> Inl invalid_servers)"

text \<open>The arguments of an upsert, and the members of the record that depend on the transport.\<close>

record mcp_request =
  request_transport :: string
  request_command :: "string option"
  request_args :: "string list option"
  request_env :: "(string, string) dict option"
  request_url :: "string option"
  request_headers :: "(string, string) dict option"
  request_description :: "string option"

definition json_strings :: "string list option \<Rightarrow> json" where
  "json_strings v = (case v of None \<Rightarrow> JNull | Some xs \<Rightarrow> JArray (map JString xs))"

definition json_dict :: "(string, string) dict option \<Rightarrow> json" where
  "json_dict v = (case v of None \<Rightarrow> JNull | Some kvs \<Rightarrow> JObject (map (\<lambda>(k, s). (k, JString s)) kvs))"

definition normalize_transport_payload :: "mcp_request \<Rightarrow> file_exn + string \<times> (string, json) dict" where
  "normalize_transport_payload q =
     (let transport = py_lower (py_strip (request_transport q)) in
      if transport \<notin> mcp_transports then Inl (value_error ''invalid transport'')
      else if transport = ''stdio'' then
        (case normalize_optional_string (request_command q) of
           None \<Rightarrow> Inl (value_error ''command is required for stdio transport'')
         | Some command \<Rightarrow>
             sum_bind (normalize_string_list (json_strings (request_args q)) ''args'') (\<lambda>args.
               sum_bind (normalize_string_dict (json_dict (request_env q)) ''env'') (\<lambda>env.
                 Inr (''stdio'', [(''command'', JString command), (''args'', json_strings (Some args)), (''env'', json_dict (Some env))]))))
      else
        (case normalize_optional_string (request_url q) of
           None \<Rightarrow> Inl (value_error ''url is required for http/sse transport'')
         | Some url \<Rightarrow>
             sum_bind (normalize_string_dict (json_dict (request_headers q)) ''headers'') (\<lambda>headers.
               Inr (transport, [(''url'', JString url), (''headers'', json_dict (Some headers))]))))"

section \<open>The file\<close>

definition mcp_user_root :: "mcp_servers_service \<Rightarrow> filesys \<Rightarrow> string \<Rightarrow> path fs_result" where
  "mcp_user_root svc fs uid =
     (case validate_segment uid ''user id'' of
        Inl e \<Rightarrow> (Inl e, fs)
      | Inr safe \<Rightarrow>
          let user_root = path_join (mcp_servers_root svc) safe in
          (case check_inside fs user_root (mcp_servers_root svc) of
             Inl e \<Rightarrow> (Inl e, fs)
           | Inr _ \<Rightarrow> and_then (mkdir_parents fs user_root) (\<lambda>_ fs1. (Inr user_root, fs1))))"

definition servers_file :: "mcp_servers_service \<Rightarrow> filesys \<Rightarrow> string \<Rightarrow> path fs_result" where
  "servers_file svc fs uid =
     and_then (mcp_user_root svc fs uid) (\<lambda>user_dir fs1.
       (case check_inside fs1 (user_dir @ [servers_filename]) user_dir of
          Inl e \<Rightarrow> (Inl e, fs1)
        | Inr _ \<Rightarrow> (Inr (user_dir @ [servers_filename]), fs1)))"

definition ensure_safe_servers_file :: "filesys \<Rightarrow> path \<Rightarrow> path \<Rightarrow> file_exn + unit" where
  "ensure_safe_servers_file fs p user_dir =
     (case check_inside fs p user_dir of
        Inl e \<Rightarrow> Inl e
      | Inr _ \<Rightarrow>
          if path_name p \<noteq> servers_filename then Inl (value_error ''unexpected mcp servers file name'')
          else if path_exists fs p \<and> path_is_dir fs p
          then Inl (Exn Is_directory_exn (Message ''mcp servers path is a directory''))
          else Inr ())"

fun normalize_records ::
  "(string, json) dict \<Rightarrow> (string, (string, json) dict) dict \<Rightarrow> file_exn + (string, (string, json) dict) dict" where
  "normalize_records [] acc = Inr acc"
| "normalize_records ((sid, r) # rest) acc =
     sum_bind (validate_segment sid ''server id'') (\<lambda>safe.
       case r of JObject kvs \<Rightarrow> normalize_records rest (dict_set safe kvs acc) | _ \<Rightarrow> Inl invalid_servers)"

definition read_user_servers ::
  "(path \<Rightarrow> nat \<times> instant) \<Rightarrow> mcp_servers_service \<Rightarrow> filesys \<Rightarrow> string \<Rightarrow> (string, (string, json) dict) dict fs_result" where
  "read_user_servers dir_stat svc fs uid =
     and_then (mcp_user_root svc fs uid) (\<lambda>user_dir fs1.
       and_then (servers_file svc fs1 uid) (\<lambda>p fs2.
         if \<not> path_exists fs2 p then (Inr [], fs2)
         else
           (sum_bind (ensure_safe_servers_file fs2 p user_dir) (\<lambda>_.
              sum_bind (path_stat dir_stat fs2 p) (\<lambda>(sz, mtime).
                if sz > max_mcp_file_size_bytes svc then Inl (value_error ''mcp servers file exceeds size limit'')
                else
                  sum_bind (read_text fs2 p) (\<lambda>t.
                    case json_loads t of
                      Some (JObject payload) \<Rightarrow>
                        (case (case dict_get payload ''servers'' of None \<Rightarrow> JObject [] | Some v \<Rightarrow> v) of
                           JObject servers \<Rightarrow> normalize_records servers []
                         | _ \<Rightarrow> Inl invalid_servers)
                    | _ \<Rightarrow> Inl invalid_servers))), fs2)))"

definition write_user_servers ::
  "mcp_servers_service \<Rightarrow> filesys \<Rightarrow> string \<Rightarrow> (string, (string, json) dict) dict \<Rightarrow> instant \<Rightarrow> unit fs_result" where
  "write_user_servers svc fs uid servers now =
     and_then (servers_file svc fs uid) (\<lambda>p fs1.
       and_then (mcp_user_root svc fs1 uid) (\<lambda>user_dir fs2.
         (case ensure_safe_servers_file fs2 p user_dir of
            Inl e \<Rightarrow> (Inl e, fs2)
          | Inr _ \<Rightarrow>
              let payload = JObject [(''servers'', JObject (map (\<lambda>(sid, r). (sid, JObject r)) (sort_key (\<lambda>(sid, r). py_lower sid) servers)))];
                  encoded = json_dumps payload
              in
              if length (utf8_bytes encoded) > max_mcp_file_size_bytes svc
              then (Inl (value_error ''mcp servers file exceeds size limit''), fs2)
              else write_text fs2 p (encoded @ [newline]) now)))"

section \<open>Operations\<close>

fun list_details :: "(string, (string, json) dict) dict \<Rightarrow> file_exn + mcp_server_entry list" where
  "list_details [] = Inr []"
| "list_details ((sid, r) # rest) =
     sum_bind (detail_from_record sid r) (\<lambda>d.
       sum_bind (list_details rest) (\<lambda>es.
         Inr (\<lparr>entry_server_id = server_id d, entry_transport = mcp_transport d, entry_enabled = mcp_enabled d,
               entry_updated_at = mcp_updated_at d\<rparr> # es)))"

definition list_user_servers ::
  "(path \<Rightarrow> nat \<times> instant) \<Rightarrow> mcp_servers_service \<Rightarrow> filesys \<Rightarrow> string \<Rightarrow> mcp_server_entry list fs_result" where
  "list_user_servers dir_stat svc fs uid =
     and_then (read_user_servers dir_stat svc fs uid) (\<lambda>servers fs1.
       (list_details (sort_key (\<lambda>(sid, r). py_lower sid) servers), fs1))"

definition server_not_found :: file_exn where
  "server_not_found = Exn Not_found_exn (Message ''mcp server not found'')"

definition get_user_server ::
  "(path \<Rightarrow> nat \<times> instant) \<Rightarrow> mcp_servers_service \<Rightarrow> filesys \<Rightarrow> string \<Rightarrow> string \<Rightarrow> mcp_server_detail fs_result" where
  "get_user_server dir_stat svc fs uid sid =
     (case validate_segment sid ''server id'' of
        Inl e \<Rightarrow> (Inl e, fs)
      | Inr safe \<Rightarrow>
          and_then (read_user_servers dir_stat svc fs uid) (\<lambda>servers fs1.
            (case dict_get servers safe of
               None \<Rightarrow> (Inl server_not_found, fs1)
             | Some r \<Rightarrow> (detail_from_record safe r, fs1))))"

definition upsert_user_server ::
  "(path \<Rightarrow> nat \<times> instant) \<Rightarrow> mcp_servers_service \<Rightarrow> filesys \<Rightarrow> string \<Rightarrow> string \<Rightarrow> mcp_request \<Rightarrow> instant \<Rightarrow>
   mcp_server_detail fs_result" where
  "upsert_user_server dir_stat svc fs uid sid q now =
     (case validate_segment sid ''server id'' of
        Inl e \<Rightarrow> (Inl e, fs)
      | Inr safe \<Rightarrow>
          (case normalize_transport_payload q of
             Inl e \<Rightarrow> (Inl e, fs)
           | Inr (transport, settled) \<Rightarrow>
               and_then (read_user_servers dir_stat svc fs uid) (\<lambda>servers fs1.
                 (case (case dict_get servers safe of
                          None \<Rightarrow> Inr (True, now)
                        | Some r \<Rightarrow> sum_bind (detail_from_record safe r) (\<lambda>d. Inr (mcp_enabled d, mcp_created_at d))) of
                    Inl e \<Rightarrow> (Inl e, fs1)
                  | Inr (enabled, created) \<Rightarrow>
                      let r =
                        [(''enabled'', JBool enabled), (''transport'', JString transport),
                         (''description'', (case normalize_optional_string (request_description q) of
                            None \<Rightarrow> JNull | Some d \<Rightarrow> JString d)),
                         (''created_at'', JString (mcp_iso_datetime created)),
                         (''updated_at'', JString (mcp_iso_datetime now))] @ settled
                      in
                      and_then (write_user_servers svc fs1 uid (dict_set safe r servers) now) (\<lambda>_ fs2.
                        (detail_from_record safe r, fs2))))))"

definition set_user_server_enabled ::
  "(path \<Rightarrow> nat \<times> instant) \<Rightarrow> mcp_servers_service \<Rightarrow> filesys \<Rightarrow> string \<Rightarrow> string \<Rightarrow> bool \<Rightarrow> instant \<Rightarrow>
   mcp_server_detail fs_result" where
  "set_user_server_enabled dir_stat svc fs uid sid enabled now =
     (case validate_segment sid ''server id'' of
        Inl e \<Rightarrow> (Inl e, fs)
      | Inr safe \<Rightarrow>
          and_then (read_user_servers dir_stat svc fs uid) (\<lambda>servers fs1.
            (case dict_get servers safe of
               None \<Rightarrow> (Inl server_not_found, fs1)
             | Some r \<Rightarrow>
                 (case detail_from_record safe r of
                    Inl e \<Rightarrow> (Inl e, fs1)
                  | Inr d \<Rightarrow>
                      if mcp_enabled d = enabled then (Inr d, fs1)
                      else
                        let r' = dict_set ''updated_at'' (JString (mcp_iso_datetime now)) (dict_set ''enabled'' (JBool enabled) r) in
                        and_then (write_user_servers svc fs1 uid (dict_set safe r' servers) now) (\<lambda>_ fs2.
                          (detail_from_record safe r', fs2))))))"

definition delete_user_server ::
  "(path \<Rightarrow> nat \<times> instant) \<Rightarrow> mcp_servers_service \<Rightarrow> filesys \<Rightarrow> string \<Rightarrow> string \<Rightarrow> instant \<Rightarrow> unit fs_result" where
  "delete_user_server dir_stat svc fs uid sid now =
     (case validate_segment sid ''server id'' of
        Inl e \<Rightarrow> (Inl e, fs)
      | Inr safe \<Rightarrow>
          and_then (read_user_servers dir_stat svc fs uid) (\<lambda>servers fs1.
            if dict_get servers safe = None then (Inl server_not_found, fs1)
            else write_user_servers svc fs1 uid (dict_pop safe servers) now))"

section \<open>The handlers\<close>

fun map_mcp_servers_error :: "file_exn \<Rightarrow> file_failure" where
  "map_mcp_servers_error (Exn Not_found_exn detail) = File_failure 404 detail"
| "map_mcp_servers_error (Exn Value_exn detail) = File_failure 400 detail"
| "map_mcp_servers_error (Exn Is_directory_exn detail) = File_failure 400 detail"
| "map_mcp_servers_error (Exn Not_directory_exn detail) = File_failure 400 detail"
| "map_mcp_servers_error (Exn _ detail) = File_failure 500 (Message ''mcp server operation failed'')"

type_synonym 'a mcp_response = "(file_failure + 'a) \<times> filesys"

definition list_mcp_servers ::
  "(path \<Rightarrow> nat \<times> instant) \<Rightarrow> mcp_servers_service \<Rightarrow> filesys \<Rightarrow> http_error + auth_user \<Rightarrow> mcp_server_entry list mcp_response" where
  "list_mcp_servers dir_stat svc fs current =
     for_current_user map_mcp_servers_error fs current (\<lambda>uid. list_user_servers dir_stat svc fs uid)"

definition get_mcp_server ::
  "(path \<Rightarrow> nat \<times> instant) \<Rightarrow> mcp_servers_service \<Rightarrow> filesys \<Rightarrow> http_error + auth_user \<Rightarrow> string \<Rightarrow> mcp_server_detail mcp_response" where
  "get_mcp_server dir_stat svc fs current sid =
     for_current_user map_mcp_servers_error fs current (\<lambda>uid. get_user_server dir_stat svc fs uid sid)"

text \<open>FastAPI admits the three transports only.\<close>

definition put_mcp_server ::
  "(path \<Rightarrow> nat \<times> instant) \<Rightarrow> mcp_servers_service \<Rightarrow> filesys \<Rightarrow> http_error + auth_user \<Rightarrow> string \<Rightarrow> mcp_request \<Rightarrow> instant \<Rightarrow>
   mcp_server_detail mcp_response" where
  "put_mcp_server dir_stat svc fs current sid q now =
     for_current_user map_mcp_servers_error fs
       (case current of
          Inl e \<Rightarrow> Inl e
        | Inr u \<Rightarrow> if request_transport q \<notin> mcp_transports then Inl (Http_error 422 ''validation error'') else Inr u)
       (\<lambda>uid. upsert_user_server dir_stat svc fs uid sid q now)"

definition patch_mcp_server_state ::
  "(path \<Rightarrow> nat \<times> instant) \<Rightarrow> mcp_servers_service \<Rightarrow> filesys \<Rightarrow> http_error + auth_user \<Rightarrow> string \<Rightarrow> bool \<Rightarrow> instant \<Rightarrow>
   mcp_server_detail mcp_response" where
  "patch_mcp_server_state dir_stat svc fs current sid enabled now =
     for_current_user map_mcp_servers_error fs current (\<lambda>uid. set_user_server_enabled dir_stat svc fs uid sid enabled now)"

definition delete_mcp_server ::
  "(path \<Rightarrow> nat \<times> instant) \<Rightarrow> mcp_servers_service \<Rightarrow> filesys \<Rightarrow> http_error + auth_user \<Rightarrow> string \<Rightarrow> instant \<Rightarrow> unit mcp_response" where
  "delete_mcp_server dir_stat svc fs current sid now =
     for_current_user map_mcp_servers_error fs current (\<lambda>uid. delete_user_server dir_stat svc fs uid sid now)"

end
