(* ===== verification/McpProtocol.thy ===== *)
theory McpProtocol
  imports McpServers SettingsProtocol
begin

text \<open>
  The file of MCP servers as a map: what the service wrote it reads back, an operation on one server leaves the
  others as they are, and the enabled flag and the time of creation outlive updates.
\<close>

section \<open>Sorted values\<close>

lemma insort_key_map: "insort_key f (g x) (map g xs) = map g (insort_key (\<lambda>x. f (g x)) x xs)"
  by (induction xs) auto

lemma sort_key_map: "sort_key f (map g xs) = map g (sort_key (\<lambda>x. f (g x)) xs)"
  by (induction xs) (simp_all add: insort_key_map)

lemma sort_members_map: "sort_key fst (map (\<lambda>(k, v). (k, h v)) xs) = map (\<lambda>(k, v). (k, h v)) (sort_key fst xs)"
  using sort_key_map [of fst "\<lambda>(k, v). (k, h v)" xs] by (simp add: case_prod_unfold)

lemma sort_keys_twice: "sort_keys (sort_keys v) = sort_keys v"
proof (induction v rule: sort_keys.induct)
  case (2 kvs)
  have "map (\<lambda>(k, v). (k, sort_keys v)) (map (\<lambda>(k, v). (k, sort_keys v)) kvs) = map (\<lambda>(k, v). (k, sort_keys v)) kvs"
    using 2 by (auto split: prod.splits)
  then show ?case
    by (simp only: sort_keys.simps sort_members_map [symmetric] sort_key_id_if_sorted sorted_sort_key)
qed auto

lemma json_text_sorted: "json_text (sort_keys v) = json_text v"
  by (simp add: json_text_def json_dumps_def sort_keys_twice)

text \<open>The members of a record in the order in which the file has them.\<close>

definition in_order :: "(string, json) dict \<Rightarrow> (string, json) dict" where
  "in_order r = sort_key fst (map (\<lambda>(k, v). (k, sort_keys v)) r)"

lemma sort_keys_object: "sort_keys (JObject r) = JObject (in_order r)"
  by (simp add: in_order_def)

lemma dict_get_in_order: "distinct (map fst r) \<Longrightarrow> dict_get (in_order r) k = map_option sort_keys (dict_get r k)"
  using sorted_members [of r] by (auto simp: in_order_def)

section \<open>What normalization gives is normal\<close>

lemma strip_items_normal:
  "strip_items label (map JString xs) = Inr ys \<Longrightarrow> strip_items label' (map JString ys) = Inr ys"
proof (induction xs arbitrary: ys)
  case (Cons x xs)
  then obtain zs where zs: "ys = py_strip x # zs" "strip_items label (map JString xs) = Inr zs" "py_strip x \<noteq> []"
    by (auto simp: sum_bind_def split: if_splits sum.splits)
  with Cons.IH show ?case by (simp add: strip_strip sum_bind_def)
qed auto

definition normal_dict :: "(string, string) dict \<Rightarrow> bool" where
  "normal_dict d \<longleftrightarrow> distinct (map fst d) \<and> list_all (\<lambda>k. k \<noteq> [] \<and> py_strip k = k) (map fst d)"

lemma strip_members_normal: "strip_members label kvs acc = Inr d \<Longrightarrow> normal_dict acc \<Longrightarrow> normal_dict d"
proof (induction label kvs acc rule: strip_members.induct)
  case (2 label k v kvs acc)
  then obtain s where s: "v = JString s" "py_strip k \<noteq> []" "strip_members label kvs (dict_set (py_strip k) s acc) = Inr d"
    by (auto split: if_splits json.splits)
  have "fst ` set (dict_set (py_strip k) s acc) \<subseteq> insert (py_strip k) (fst ` set acc)" by (simp add: dom_update)
  moreover have "\<forall>x \<in> insert (py_strip k) (fst ` set acc). x \<noteq> [] \<and> py_strip x = x"
    using "2.prems"(2) s(2) by (auto simp: normal_dict_def list_all_iff strip_strip)
  ultimately have "\<forall>x \<in> fst ` set (dict_set (py_strip k) s acc). x \<noteq> [] \<and> py_strip x = x" by blast
  then have "normal_dict (dict_set (py_strip k) s acc)"
    using "2.prems"(2) by (simp add: normal_dict_def list_all_iff distinct_update)
  with 2 s show ?case by blast
qed simp

lemma strip_members_id:
  "normal_dict (acc @ d) \<Longrightarrow> strip_members label (map (\<lambda>(k, s). (k, JString s)) d) acc = Inr (acc @ d)"
proof (induction d arbitrary: acc)
  case (Cons kv d)
  obtain k s where kv: "kv = (k, s)" by (cases kv)
  with Cons.prems have "k \<notin> fst ` set acc" "k \<noteq> []" "py_strip k = k" by (auto simp: normal_dict_def)
  moreover from this(1) have "dict_set k s acc = acc @ [(k, s)]" by (induction acc) auto
  ultimately show ?case using Cons.IH [of "acc @ [(k, s)]"] Cons.prems kv by simp
qed simp

lemma normal_dict_sorted: "normal_dict d \<Longrightarrow> normal_dict (sort_key fst d)"
  by (auto simp: normal_dict_def list_all_iff distinct_map)

lemma normalize_json_dict: "normal_dict d \<Longrightarrow> normalize_string_dict (json_dict (Some d)) label = Inr d"
  using strip_members_id [of "[]" d label] by (simp add: json_dict_def)

lemma normalize_string_dict_normal: "normalize_string_dict v label = Inr d \<Longrightarrow> normal_dict d"
  by (cases v) (auto simp: normal_dict_def dest: strip_members_normal)

lemma sort_json_dict: "sort_keys (json_dict (Some d)) = json_dict (Some (sort_key fst d))"
proof -
  have "map (\<lambda>(k, v). (k, sort_keys v)) (map (\<lambda>(k, s). (k, JString s)) d) = map (\<lambda>(k, s). (k, JString s)) d" by auto
  then show ?thesis by (simp add: json_dict_def sort_members_map del: map_map)
qed

lemma plain_json_dict: "normal_dict d \<Longrightarrow> plain_json (json_dict (Some d))"
  by (auto simp: json_dict_def normal_dict_def list_all_iff comp_def case_prod_unfold)

section \<open>The file of a user\<close>

text \<open>Records by the names of their servers, as the service writes them: sorted, and with safe names.\<close>

definition tidy_servers :: "(string, (string, json) dict) dict \<Rightarrow> bool" where
  "tidy_servers recs \<longleftrightarrow> distinct (map fst recs) \<and> sorted (map fst recs) \<and>
     list_all (\<lambda>(sid, r). safe_segment sid \<and> plain_json (JObject r) \<and> in_order r = r) recs"

definition servers_json :: "(string, (string, json) dict) dict \<Rightarrow> json" where
  "servers_json recs = JObject [(''servers'', JObject (map (\<lambda>(sid, r). (sid, JObject r)) recs))]"

definition servers_stored ::
  "mcp_servers_service \<Rightarrow> filesys \<Rightarrow> string \<Rightarrow> (string, (string, json) dict) dict \<Rightarrow> bool" where
  "servers_stored svc fs uid recs \<longleftrightarrow>
     safe_segment uid \<and> plain_dir fs (mcp_servers_root svc @ [uid]) \<and>
     plain_entry fs (mcp_servers_root svc @ [uid]) servers_filename \<and> tidy_servers recs \<and>
     (case node_at fs (mcp_servers_root svc @ [uid, servers_filename]) of
        Some (File_node b t) \<Rightarrow> b = utf8_bytes (json_text (servers_json recs))
      | _ \<Rightarrow> recs = [])"

definition over_limit :: "mcp_servers_service \<Rightarrow> filesys \<Rightarrow> string \<Rightarrow> bool" where
  "over_limit svc fs uid =
     (case node_at fs (mcp_servers_root svc @ [uid, servers_filename]) of
        Some (File_node b t) \<Rightarrow> length b > max_mcp_file_size_bytes svc
      | _ \<Rightarrow> False)"

lemma stored_places:
  assumes "servers_stored svc fs uid recs"
  defines "d \<equiv> mcp_servers_root svc @ [uid]"
  shows "mcp_user_root svc fs uid = (Inr d, fs)" and "servers_file svc fs uid = (Inr (d @ [servers_filename]), fs)"
    and "check_inside fs (d @ [servers_filename]) d = Inr ()"
    and "kernel fs True (d @ [servers_filename]) =
      (if node_at fs (d @ [servers_filename]) = None then Absent (d @ [servers_filename]) else Found (d @ [servers_filename]))"
    and "ensure_safe_servers_file fs (d @ [servers_filename]) d = Inr ()"
proof -
  have dir: "plain_dir fs d" and entry: "plain_entry fs d servers_filename" and "safe_segment uid"
    using assms by (auto simp: servers_stored_def)
  then show r: "mcp_user_root svc fs uid = (Inr d, fs)"
    using plain_dir_calls(2) [OF dir] plain_subdir_safe [of fs "mcp_servers_root svc" "[uid]"]
    by (simp add: mcp_user_root_def and_then_def d_def)
  show inside: "check_inside fs (d @ [servers_filename]) d = Inr ()" by (rule plain_entry_inside [OF dir entry])
  with r show "servers_file svc fs uid = (Inr (d @ [servers_filename]), fs)" by (simp add: servers_file_def and_then_def)
  show k: "kernel fs True (d @ [servers_filename]) =
      (if node_at fs (d @ [servers_filename]) = None then Absent (d @ [servers_filename]) else Found (d @ [servers_filename]))"
    by (rule plain_entry_kernel [OF dir entry])
  have "\<not> path_is_dir fs (d @ [servers_filename])"
    using k entry by (auto simp: path_is_dir_def plain_entry_def split: if_splits)
  with inside show "ensure_safe_servers_file fs (d @ [servers_filename]) d = Inr ()"
    by (simp add: ensure_safe_servers_file_def path_name_def)
qed

lemma tidy_json:
  assumes "tidy_servers recs"
  shows "plain_json (servers_json recs)" and "sort_keys (servers_json recs) = servers_json recs"
    and "distinct (map fst acc @ map fst recs) \<Longrightarrow>
      normalize_records (map (\<lambda>(sid, r). (sid, JObject r)) recs) acc = Inr (acc @ recs)"
proof -
  let ?objects = "map (\<lambda>(sid, r). (sid, JObject r)) recs"
  have keys: "map fst ?objects = map fst recs" by (induction recs) auto
  have "list_all (\<lambda>(sid, r). plain_json r) ?objects" using assms by (auto simp: tidy_servers_def list_all_iff)
  then show "plain_json (servers_json recs)"
    using assms keys by (simp add: servers_json_def tidy_servers_def del: map_map)
  have "map (\<lambda>(k, v). (k, sort_keys v)) ?objects = ?objects"
    using assms by (auto simp: tidy_servers_def list_all_iff sort_keys_object simp del: sort_keys.simps)
  moreover have "sort_key fst ?objects = ?objects"
    using assms keys by (simp add: tidy_servers_def sort_key_id_if_sorted del: map_map)
  ultimately have "sort_keys (JObject ?objects) = JObject ?objects" by (simp del: map_map)
  then show "sort_keys (servers_json recs) = servers_json recs" by (simp add: servers_json_def del: map_map)
  show "normalize_records ?objects acc = Inr (acc @ recs)" if "distinct (map fst acc @ map fst recs)"
    using that assms
  proof (induction recs arbitrary: acc)
    case (Cons kv recs)
    obtain sid r where kv: "kv = (sid, r)" by (cases kv)
    have "sid \<notin> fst ` set acc" using Cons.prems(1) kv by auto
    then have "dict_set sid r acc = acc @ [(sid, r)]" by (induction acc) auto
    moreover have "tidy_servers recs" "safe_segment sid" using Cons.prems(2) kv by (simp_all add: tidy_servers_def)
    ultimately show ?case using Cons.IH [of "acc @ [(sid, r)]"] Cons.prems(1) kv by (simp add: sum_bind_def)
  qed simp
qed

definition servers_limit :: file_exn where
  "servers_limit = value_error ''mcp servers file exceeds size limit''"

lemma read_stored:
  assumes stored: "servers_stored svc fs uid recs"
  shows "read_user_servers dir_stat svc fs uid = (if over_limit svc fs uid then Inl servers_limit else Inr recs, fs)"
proof -
  let ?d = "mcp_servers_root svc @ [uid]"
  note places = stored_places [OF stored]
  have tidy: "tidy_servers recs" and entry: "plain_entry fs ?d servers_filename" using stored by (auto simp: servers_stored_def)
  show ?thesis
  proof (cases "node_at fs (?d @ [servers_filename])")
    case None
    with stored places show ?thesis
      by (simp add: read_user_servers_def and_then_def path_exists_def over_limit_def servers_stored_def)
  next
    case (Some v)
    with entry stored obtain t where here: "node_at fs (?d @ [servers_filename]) = Some (File_node (utf8_bytes (json_text (servers_json recs))) t)"
      by (auto simp: plain_entry_def servers_stored_def)
    have k: "kernel fs True (?d @ [servers_filename]) = Found (?d @ [servers_filename])" using places(4) Some by simp
    note read = read_json_text [OF tidy_json(1) [OF tidy] k here]
    have "normalize_records (map (\<lambda>(sid, r). (sid, JObject r)) recs) [] = Inr recs"
      using tidy_json(3) [OF tidy, of "[]"] tidy by (simp add: tidy_servers_def)
    then have parsed: "json_loads (json_text (servers_json recs)) =
        Some (JObject [(''servers'', JObject (map (\<lambda>(sid, r). (sid, JObject r)) recs))])"
      "normalize_records (map (\<lambda>(sid, r). (sid, JObject r)) recs) [] = Inr recs"
      using read(2) tidy_json(2) [OF tidy] by (simp_all add: servers_json_def)
    have over: "over_limit svc fs uid \<longleftrightarrow> length (utf8_bytes (json_text (servers_json recs))) > max_mcp_file_size_bytes svc"
      using here by (simp add: over_limit_def)
    have stat: "path_stat dir_stat fs (?d @ [servers_filename]) = Inr (length (utf8_bytes (json_text (servers_json recs))), t)"
      using k here by (simp add: path_stat_def)
    show ?thesis
      unfolding read_user_servers_def places(1,2) over and_then_value
      using k places(5) stat read(1) parsed
      by (simp add: path_exists_def sum_bind_def servers_limit_def)
  qed
qed

text \<open>Records that may be written: with safe names, and values that JSON keeps.\<close>

definition writable_servers :: "(string, (string, json) dict) dict \<Rightarrow> bool" where
  "writable_servers recs \<longleftrightarrow> distinct (map fst recs) \<and>
     list_all (\<lambda>(sid, r). safe_segment sid \<and> plain_json (JObject r)) recs"

lemma in_order_twice: "in_order (in_order r) = in_order r"
  using sort_keys_twice [of "JObject r"] by (simp only: sort_keys_object json.inject)

lemma plain_in_order: "plain_json (JObject r) \<Longrightarrow> plain_json (JObject (in_order r))"
  using plain_sorted [of "JObject r"] by (simp only: sort_keys_object)

lemma write_stored:
  assumes stored: "servers_stored svc fs uid recs" and writable: "writable_servers servers"
    and written: "write_user_servers svc fs uid servers now = (Inr (), fs')"
  shows "\<exists>recs'. servers_stored svc fs' uid recs' \<and> entries_changed (mcp_servers_root svc @ [uid]) {servers_filename} fs fs' \<and>
    (\<forall>sid. dict_get recs' sid = map_option in_order (dict_get servers sid))"
proof -
  let ?d = "mcp_servers_root svc @ [uid]"
  let ?lower = "sort_key (\<lambda>(sid, r). py_lower sid) servers"
  define recs' where "recs' = sort_key fst (map (\<lambda>(sid, r). (sid, in_order r)) ?lower)"
  have distinct: "distinct (map fst ?lower)"
    using writable by (simp add: writable_servers_def distinct_map)
  have lookup: "dict_get ?lower sid = dict_get servers sid" for sid
  proof -
    have "dict_get ?lower sid = Some r \<longleftrightarrow> dict_get servers sid = Some r" for r
      using dict_items [OF distinct, of sid r] dict_items [of servers sid r] writable by (simp add: writable_servers_def)
    then show ?thesis by (metis option.exhaust)
  qed
  have keys: "map fst (map (\<lambda>(sid, r). (sid, in_order r)) xs) = map fst xs" for xs by (induction xs) auto
  have "tidy_servers recs'"
    unfolding tidy_servers_def
  proof (intro conjI)
    have "distinct (map fst (map (\<lambda>(sid, r). (sid, in_order r)) ?lower))" using distinct keys by metis
    then show "distinct (map fst recs')" by (simp add: recs'_def distinct_map del: map_map)
    show "sorted (map fst recs')" by (simp add: recs'_def)
    show "list_all (\<lambda>(sid, r). safe_segment sid \<and> plain_json (JObject r) \<and> in_order r = r) recs'"
      using writable plain_in_order by (auto simp: recs'_def writable_servers_def list_all_iff in_order_twice simp del: plain_json.simps)
  qed
  moreover have same_text: "json_text (servers_json recs') =
      json_text (JObject [(''servers'', JObject (map (\<lambda>(sid, r). (sid, JObject r)) ?lower))])"
  proof -
    have "map (\<lambda>(sid, r). (sid, JObject r)) recs' =
        sort_key fst (map (\<lambda>(sid, r). (sid, JObject r)) (map (\<lambda>(sid, r). (sid, in_order r)) ?lower))"
      unfolding recs'_def by (rule sort_members_map [symmetric])
    also have "map (\<lambda>(sid, r). (sid, JObject r)) (map (\<lambda>(sid, r). (sid, in_order r)) ?lower) =
        map (\<lambda>(k, v). (k, sort_keys v)) (map (\<lambda>(sid, r). (sid, JObject r)) ?lower)"
      by (auto simp: sort_keys_object simp del: sort_keys.simps)
    finally have "sort_keys (JObject (map (\<lambda>(sid, r). (sid, JObject r)) ?lower)) =
        JObject (map (\<lambda>(sid, r). (sid, JObject r)) recs')"
      by (simp only: sort_keys_object in_order_def)
    then have "servers_json recs' = sort_keys (JObject [(''servers'', JObject (map (\<lambda>(sid, r). (sid, JObject r)) ?lower))])"
      by (simp add: servers_json_def)
    then show ?thesis by (simp only: json_text_sorted)
  qed
  moreover have dir: "plain_dir fs ?d" and entry: "plain_entry fs ?d servers_filename" and safe: "safe_segment uid"
    using stored by (auto simp: servers_stored_def)
  from write_entry [OF dir entry, of "json_text (servers_json recs')" now] obtain fs2 where
    fs2: "write_text fs (?d @ [servers_filename]) (json_text (servers_json recs')) now = (Inr (), fs2)"
      "node_at fs2 (?d @ [servers_filename]) = Some (File_node (utf8_bytes (json_text (servers_json recs'))) now)"
      "entries_changed ?d {servers_filename} fs fs2" "plain_dir fs2 ?d" by blast
  have "fs' = fs2"
    using written stored_places [OF stored] fs2(1) same_text
    by (simp add: write_user_servers_def Let_def json_text_def split: if_splits)
  moreover have "plain_entry fs2 ?d servers_filename" using entry fs2(2) by (auto simp: plain_entry_def)
  moreover have "dict_get recs' sid = map_option in_order (dict_get servers sid)" for sid
  proof -
    have "distinct (map fst (map (\<lambda>(sid, r). (sid, in_order r)) ?lower))" using distinct keys by metis
    then have "dict_get recs' sid = dict_get (map (\<lambda>(sid, r). (sid, in_order r)) ?lower) sid"
      by (simp add: recs'_def map_of_sorted del: map_map)
    also have "\<dots> = map_option in_order (dict_get ?lower sid)" by (simp add: map_of_map)
    also have "dict_get ?lower sid = dict_get servers sid" by (rule lookup)
    finally show ?thesis .
  qed
  ultimately show ?thesis using fs2 safe by (auto simp: servers_stored_def)
qed

section \<open>Operations\<close>

lemma get_stored:
  assumes "servers_stored svc fs uid recs" and "safe_segment sid"
  shows "get_user_server dir_stat svc fs uid sid =
    (if over_limit svc fs uid then Inl servers_limit
     else (case dict_get recs sid of None \<Rightarrow> Inl server_not_found | Some r \<Rightarrow> detail_from_record sid r), fs)"
  using read_stored [OF assms(1)] assms(2)
  by (simp add: get_user_server_def and_then_def split: option.split)

text \<open>What a write of changed records makes of the answers.\<close>

definition answers_after ::
  "(path \<Rightarrow> nat \<times> instant) \<Rightarrow> mcp_servers_service \<Rightarrow> filesys \<Rightarrow> filesys \<Rightarrow> string \<Rightarrow> string \<Rightarrow> file_exn + mcp_server_detail \<Rightarrow> bool" where
  "answers_after dir_stat svc fs fs' uid sid answer \<longleftrightarrow>
     (\<exists>recs'. servers_stored svc fs' uid recs') \<and>
     entries_changed (mcp_servers_root svc @ [uid]) {servers_filename} fs fs' \<and>
     (\<forall>k. safe_segment k \<longrightarrow> get_user_server dir_stat svc fs' uid k =
        (if over_limit svc fs' uid then Inl servers_limit
         else if k = sid then answer else fst (get_user_server dir_stat svc fs uid k), fs'))"

lemma write_then_get:
  assumes stored: "servers_stored svc fs uid recs" and fits: "\<not> over_limit svc fs uid" and safe: "safe_segment sid"
    and writable: "writable_servers servers" and others: "\<And>k. k \<noteq> sid \<Longrightarrow> dict_get servers k = dict_get recs k"
    and written: "write_user_servers svc fs uid servers now = (Inr (), fs')"
  shows "answers_after dir_stat svc fs fs' uid sid
    (case dict_get servers sid of None \<Rightarrow> Inl server_not_found | Some r \<Rightarrow> detail_from_record sid (in_order r))"
proof -
  from write_stored [OF stored writable written] obtain recs' where
    recs': "servers_stored svc fs' uid recs'" "entries_changed (mcp_servers_root svc @ [uid]) {servers_filename} fs fs'"
      "\<And>k. dict_get recs' k = map_option in_order (dict_get servers k)" by blast
  have same: "dict_get recs' k = dict_get recs k" if "k \<noteq> sid" for k
  proof (cases "dict_get recs k")
    case (Some r)
    then have "in_order r = r"
      using stored by (auto simp: servers_stored_def tidy_servers_def list_all_iff dest!: map_of_SomeD)
    with Some recs'(3) others [OF that] show ?thesis by simp
  qed (use recs'(3) others [OF that] in simp)
  have "get_user_server dir_stat svc fs' uid k = (if over_limit svc fs' uid then Inl servers_limit
      else if k = sid then (case dict_get servers sid of None \<Rightarrow> Inl server_not_found | Some r \<Rightarrow> detail_from_record sid (in_order r))
      else fst (get_user_server dir_stat svc fs uid k), fs')" if "safe_segment k" for k
    using get_stored [OF recs'(1) that] get_stored [OF stored that] fits same [of k] recs'(3) [of sid]
    by (cases "k = sid") (simp_all split: option.split)
  with recs'(1,2) show ?thesis by (auto simp: answers_after_def)
qed

lemma detail_cong:
  assumes "dict_get r = dict_get r'"
  shows "detail_from_record sid r = detail_from_record sid r'"
proof -
  have "member r = member r'" using assms by (simp add: fun_eq_iff member_def)
  with assms show ?thesis by (simp only: detail_from_record_def)
qed

lemma writable_tidy: "tidy_servers recs \<Longrightarrow> writable_servers recs"
  by (auto simp: tidy_servers_def writable_servers_def list_all_iff)

lemma writable_set:
  assumes "writable_servers recs" and "safe_segment sid" and "plain_json (JObject r)"
  shows "writable_servers (dict_set sid r recs)"
proof -
  have "set (dict_set sid r recs) \<subseteq> insert (sid, r) (set recs)" by (induction recs) auto
  moreover have "\<forall>x \<in> insert (sid, r) (set recs). case x of (sid, r) \<Rightarrow> safe_segment sid \<and> plain_json (JObject r)"
    using assms by (simp add: writable_servers_def list_all_iff del: plain_json.simps)
  ultimately have "\<forall>x \<in> set (dict_set sid r recs). case x of (sid, r) \<Rightarrow> safe_segment sid \<and> plain_json (JObject r)" by blast
  with assms(1) show ?thesis by (simp add: writable_servers_def list_all_iff distinct_update del: plain_json.simps)
qed

lemma writable_pop:
  assumes "writable_servers recs"
  shows "writable_servers (dict_pop sid recs)"
proof -
  have "set (dict_pop sid recs) \<subseteq> set recs" by (auto simp: AList.delete_eq)
  with assms have "\<forall>x \<in> set (dict_pop sid recs). case x of (sid, r) \<Rightarrow> safe_segment sid \<and> plain_json (JObject r)"
    unfolding writable_servers_def list_all_iff by blast
  with assms show ?thesis by (simp add: writable_servers_def list_all_iff distinct_delete del: plain_json.simps)
qed

text \<open>The answer with the members of its dictionaries in the order of the file.\<close>

definition sorted_detail :: "mcp_server_detail \<Rightarrow> mcp_server_detail" where
  "sorted_detail d =
     d\<lparr>mcp_env := map_option (sort_key fst) (mcp_env d), mcp_headers := map_option (sort_key fst) (mcp_headers d)\<rparr>"

lemma transports_normal: "transport \<in> mcp_transports \<Longrightarrow> py_lower (py_strip transport) = transport"
proof -
  have "py_lower (py_strip ''stdio'') = ''stdio''" "py_lower (py_strip ''http'') = ''http''" "py_lower (py_strip ''sse'') = ''sse''"
    by code_simp+
  then show "transport \<in> mcp_transports \<Longrightarrow> ?thesis" by (auto simp: mcp_transports_def)
qed

text \<open>The record of an upsert.\<close>

definition upsert_record :: "bool \<Rightarrow> string \<Rightarrow> string option \<Rightarrow> instant \<Rightarrow> instant \<Rightarrow> (string, json) dict \<Rightarrow> (string, json) dict" where
  "upsert_record enabled transport description created now settled =
     [(''enabled'', JBool enabled), (''transport'', JString transport),
      (''description'', (case description of None \<Rightarrow> JNull | Some d \<Rightarrow> JString d)),
      (''created_at'', JString (mcp_iso_datetime created)), (''updated_at'', JString (mcp_iso_datetime now))] @ settled"

text \<open>
  What a detail says of the request that made it: texts trimmed, blank texts as missing ones, no arguments and no
  members for what is missing, the keys of the dictionaries trimmed (of two members that have the same key then,
  the later counts), and nothing of the other kind of transport.
\<close>

definition trimmed_keys :: "(string, string) dict option \<Rightarrow> (string, string) dict" where
  "trimmed_keys kvs = dict_of (map (\<lambda>(k, s). (py_strip k, s)) (case kvs of None \<Rightarrow> [] | Some d \<Rightarrow> d))"

definition detail_of_request :: "mcp_server_detail \<Rightarrow> mcp_request \<Rightarrow> bool" where
  "detail_of_request d q \<longleftrightarrow>
     mcp_transport d = py_lower (py_strip (request_transport q)) \<and>
     mcp_description d = (case request_description q of None \<Rightarrow> None | Some s \<Rightarrow> if py_strip s = [] then None else Some (py_strip s)) \<and>
     (if py_lower (py_strip (request_transport q)) = ''stdio''
      then mcp_command d = map_option py_strip (request_command q) \<and>
           mcp_args d = Some (case request_args q of None \<Rightarrow> [] | Some xs \<Rightarrow> map py_strip xs) \<and>
           mcp_env d = Some (trimmed_keys (request_env q)) \<and> mcp_url d = None \<and> mcp_headers d = None
      else mcp_url d = map_option py_strip (request_url q) \<and>
           mcp_headers d = Some (trimmed_keys (request_headers q)) \<and>
           mcp_command d = None \<and> mcp_args d = None \<and> mcp_env d = None)"

lemma strip_items_map: "strip_items label (map JString xs) = Inr ys \<Longrightarrow> ys = map py_strip xs"
  by (induction xs arbitrary: ys) (auto simp: sum_bind_def split: if_splits sum.splits)

lemma strip_members_fold:
  "strip_members label (map (\<lambda>(k, s). (k, JString s)) kvs) acc = Inr d \<Longrightarrow>
    d = fold (\<lambda>(k, s) d. dict_set k s d) (map (\<lambda>(k, s). (py_strip k, s)) kvs) acc"
  by (induction kvs arbitrary: acc) (auto split: if_splits)

lemma normalize_dict_trimmed: "normalize_string_dict (json_dict v) label = Inr d \<Longrightarrow> d = trimmed_keys v"
  by (cases v) (auto simp: json_dict_def trimmed_keys_def dict_of_def dest: strip_members_fold)

lemma normalize_list_trimmed:
  "normalize_string_list (json_strings v) label = Inr xs \<Longrightarrow> xs = (case v of None \<Rightarrow> [] | Some ys \<Rightarrow> map py_strip ys)"
  by (cases v) (auto simp: json_strings_def dest: strip_items_map)

lemma optional_trimmed: "normalize_optional_string v = Some s \<Longrightarrow> map_option py_strip v = Some s"
  by (auto simp: normalize_optional_string_def split: option.splits if_splits)

lemma payload_cases:
  assumes "normalize_transport_payload q = Inr (transport, settled)"
  obtains (stdio) command args env where "transport = ''stdio''" "py_strip command = command" "command \<noteq> []" "normal_dict env"
      "strip_items ''args'' (map JString args) = Inr args"
      "settled = [(''command'', JString command), (''args'', JArray (map JString args)), (''env'', json_dict (Some env))]"
      "py_lower (py_strip (request_transport q)) = ''stdio''" "map_option py_strip (request_command q) = Some command"
      "args = (case request_args q of None \<Rightarrow> [] | Some xs \<Rightarrow> map py_strip xs)" "env = trimmed_keys (request_env q)"
    | (url) url headers where "transport \<in> mcp_transports" "transport \<noteq> ''stdio''" "py_strip url = url" "url \<noteq> []" "normal_dict headers"
      "settled = [(''url'', JString url), (''headers'', json_dict (Some headers))]"
      "transport = py_lower (py_strip (request_transport q))" "map_option py_strip (request_url q) = Some url"
      "headers = trimmed_keys (request_headers q)"
proof (cases "py_lower (py_strip (request_transport q)) = ''stdio''")
  case True
  with assms obtain command args env where *: "normalize_optional_string (request_command q) = Some command"
    "normalize_string_list (json_strings (request_args q)) ''args'' = Inr args"
    "normalize_string_dict (json_dict (request_env q)) ''env'' = Inr env"
    "transport = ''stdio''" "settled = [(''command'', JString command), (''args'', json_strings (Some args)), (''env'', json_dict (Some env))]"
    by (auto simp: normalize_transport_payload_def Let_def sum_bind_def mcp_transports_def split: if_splits option.splits sum.splits)
  have "py_strip command = command" "command \<noteq> []"
    using *(1) by (auto simp: normalize_optional_string_def strip_strip split: option.splits if_splits)
  moreover have "strip_items ''args'' (map JString args) = Inr args"
    using *(2) strip_items_normal by (auto simp: json_strings_def split: option.splits)
  ultimately show thesis
    using stdio [OF *(4) _ _ normalize_string_dict_normal [OF *(3)] _ _ True optional_trimmed [OF *(1)]
      normalize_list_trimmed [OF *(2)] normalize_dict_trimmed [OF *(3)]] *(5) by (simp add: json_strings_def)
next
  case False
  with assms obtain url headers where *: "normalize_optional_string (request_url q) = Some url"
    "normalize_string_dict (json_dict (request_headers q)) ''headers'' = Inr headers"
    "transport = py_lower (py_strip (request_transport q))" "transport \<in> mcp_transports"
    "settled = [(''url'', JString url), (''headers'', json_dict (Some headers))]"
    by (auto simp: normalize_transport_payload_def Let_def sum_bind_def split: if_splits option.splits sum.splits)
  have "py_strip url = url" "url \<noteq> []"
    using *(1) by (auto simp: normalize_optional_string_def strip_strip split: option.splits if_splits)
  with url [OF *(4) _ _ _ normalize_string_dict_normal [OF *(2)] _ *(3) optional_trimmed [OF *(1)]
      normalize_dict_trimmed [OF *(2)]] False *(3,5) show thesis by simp
qed

lemma upsert_record_kept:
  assumes "normalize_transport_payload q = Inr (transport, settled)"
    and r_def: "r = upsert_record enabled transport description created now settled"
  shows "plain_json (JObject r)" and "detail_from_record sid (in_order r) = map_sum id sorted_detail (detail_from_record sid r)"
proof -
  have distinct: "distinct (map fst r)" and plain: "plain_json (JObject r)"
    using assms(1)
    by (cases rule: payload_cases; auto simp: r_def upsert_record_def plain_json_dict list_all_iff split: option.split)+
  then show "plain_json (JObject r)" by blast
  have get: "dict_get (in_order r) k = map_option sort_keys (dict_get r k)" for k
    using dict_get_in_order [OF distinct] by blast
  then have sorted: "member (in_order r) k = sort_keys (member r k)" for k
    by (simp add: member_def split: option.split)
  let ?description = "case description of None \<Rightarrow> JNull | Some d \<Rightarrow> JString d"
  have common: "dict_get r ''enabled'' = Some (JBool enabled)" "dict_get (in_order r) ''enabled'' = Some (JBool enabled)"
    "member r ''transport'' = JString transport" "member r ''description'' = ?description"
    "member r ''created_at'' = JString (mcp_iso_datetime created)" "member r ''updated_at'' = JString (mcp_iso_datetime now)"
    using get [of "''enabled''"] by (simp_all add: r_def upsert_record_def member_def)
  from assms(1) show "detail_from_record sid (in_order r) = map_sum id sorted_detail (detail_from_record sid r)"
  proof (cases rule: payload_cases)
    case (stdio command args env)
    have own: "member r ''command'' = JString command" "member r ''args'' = JArray (map JString args)"
      "member r ''env'' = json_dict (Some env)"
      by (simp_all add: r_def upsert_record_def member_def stdio(6))
    note dicts = normalize_json_dict [OF stdio(4)] normalize_json_dict [OF normal_dict_sorted [OF stdio(4)]]
    show ?thesis
      using stdio(1-3,5) transports_normal [of transport]
      by (cases "description"; cases "mcp_datetime (JString (mcp_iso_datetime created))";
          cases "mcp_datetime (JString (mcp_iso_datetime now))")
        (simp_all add: detail_from_record_def sorted common own sum_bind_def sort_json_dict dicts comp_def
          mcp_transports_def sorted_detail_def del: mcp_datetime.simps)
  next
    case (url u headers)
    have own: "member r ''url'' = JString u" "member r ''headers'' = json_dict (Some headers)"
      by (simp_all add: r_def upsert_record_def member_def url(6))
    note dicts = normalize_json_dict [OF url(5)] normalize_json_dict [OF normal_dict_sorted [OF url(5)]]
    show ?thesis
      using url(1-4) transports_normal [of transport]
      by (cases "description"; cases "mcp_datetime (JString (mcp_iso_datetime created))";
          cases "mcp_datetime (JString (mcp_iso_datetime now))")
        (simp_all add: detail_from_record_def sorted common own sum_bind_def sort_json_dict dicts
          sorted_detail_def del: mcp_datetime.simps)
  qed
qed

lemma upsert_record_fields:
  assumes "normalize_transport_payload q = Inr (transport, settled)"
    and "detail_from_record sid (upsert_record enabled transport (normalize_optional_string (request_description q))
      created now settled) = Inr d"
  shows "server_id d = sid \<and> mcp_enabled d = enabled \<and> detail_of_request d q \<and>
    mcp_datetime (JString (mcp_iso_datetime created)) = Inr (mcp_created_at d) \<and>
    mcp_datetime (JString (mcp_iso_datetime now)) = Inr (mcp_updated_at d)"
  using assms(1)
proof (cases rule: payload_cases)
  case (stdio command args env)
  note dict = normalize_json_dict [OF stdio(4), of "''env''"]
  from assms(2) stdio(1-3,5) dict transports_normal [of transport] obtain c n where
    "mcp_datetime (JString (mcp_iso_datetime created)) = Inr c" "mcp_datetime (JString (mcp_iso_datetime now)) = Inr n"
    "d = \<lparr>server_id = sid, mcp_transport = ''stdio'', mcp_enabled = enabled,
       mcp_description = normalize_optional_string (request_description q), mcp_created_at = c, mcp_updated_at = n,
       mcp_command = Some command, mcp_args = Some args, mcp_env = Some env, mcp_url = None, mcp_headers = None\<rparr>"
    by (auto simp: detail_from_record_def member_def upsert_record_def sum_bind_def mcp_transports_def stdio(6)
        simp del: mcp_datetime.simps split: option.splits sum.splits)
  with stdio(7-10) show ?thesis
    by (auto simp: detail_of_request_def normalize_optional_string_def simp del: mcp_datetime.simps)
next
  case (url u headers)
  note dict = normalize_json_dict [OF url(5), of "''headers''"]
  from assms(2) url(1-4) dict transports_normal [of transport] obtain c n where
    "mcp_datetime (JString (mcp_iso_datetime created)) = Inr c" "mcp_datetime (JString (mcp_iso_datetime now)) = Inr n"
    "d = \<lparr>server_id = sid, mcp_transport = transport, mcp_enabled = enabled,
       mcp_description = normalize_optional_string (request_description q), mcp_created_at = c, mcp_updated_at = n,
       mcp_command = None, mcp_args = None, mcp_env = None, mcp_url = Some u, mcp_headers = Some headers\<rparr>"
    by (auto simp: detail_from_record_def member_def upsert_record_def sum_bind_def url(6)
        simp del: mcp_datetime.simps split: option.splits sum.splits)
  with url(2,7-9) show ?thesis
    by (auto simp: detail_of_request_def normalize_optional_string_def simp del: mcp_datetime.simps)
qed

text \<open>A change of the flag.\<close>

lemma toggled_record:
  assumes "plain_json (JObject r)" and "in_order r = r"
  shows "plain_json (JObject (dict_set ''updated_at'' (JString s) (dict_set ''enabled'' (JBool flag) r)))"
    and "detail_from_record sid (in_order (dict_set ''updated_at'' (JString s) (dict_set ''enabled'' (JBool flag) r))) =
      detail_from_record sid (dict_set ''updated_at'' (JString s) (dict_set ''enabled'' (JBool flag) r))"
proof -
  let ?r = "dict_set ''updated_at'' (JString s) (dict_set ''enabled'' (JBool flag) r)"
  have "set ?r \<subseteq> {(''updated_at'', JString s), (''enabled'', JBool flag)} \<union> set r"
  proof -
    have sub: "set (dict_set k v d) \<subseteq> insert (k, v) (set d)" for k and v :: json and d by (induction d) auto
    show ?thesis using sub [of "''updated_at''" "JString s"] sub [of "''enabled''" "JBool flag" r] by blast
  qed
  moreover have distinct: "distinct (map fst ?r)" using assms(1) by (simp add: distinct_update)
  ultimately show "plain_json (JObject ?r)" using assms(1) by (auto simp: list_all_iff)
  have "dict_get r k = map_option sort_keys (dict_get r k)" for k
    using dict_get_in_order [of r k] assms by simp
  then have fixed: "sort_keys v = v" if "dict_get r k = Some v" for k v using that by (metis option.inject option.simps(9))
  have "dict_get (in_order ?r) = dict_get ?r"
  proof
    fix k
    show "dict_get (in_order ?r) k = dict_get ?r k"
      using dict_get_in_order [OF distinct, of k] fixed [of k] by (cases "dict_get r k") auto
  qed
  then show "detail_from_record sid (in_order ?r) = detail_from_record sid ?r" by (rule detail_cong)
qed

lemma sum_bind_Inr: "sum_bind r f = Inr y \<longleftrightarrow> (\<exists>x. r = Inr x \<and> f x = Inr y)"
  by (simp add: sum_bind_def split: sum.split)

lemma toggled_detail:
  assumes "detail_from_record sid r = Inr before" and "mcp_datetime (JString s) = Inr t"
  shows "detail_from_record sid (dict_set ''updated_at'' (JString s) (dict_set ''enabled'' (JBool flag) r)) =
    Inr (before\<lparr>mcp_enabled := flag, mcp_updated_at := t\<rparr>)" (is "detail_from_record sid ?r = _")
proof -
  have m: "member ?r k = (if k = ''updated_at'' then JString s else if k = ''enabled'' then JBool flag else member r k)" for k
    by (simp add: member_def)
  have e: "dict_get ?r ''enabled'' = Some (JBool flag)" by simp
  obtain was where was: "(case dict_get r ''enabled'' of None \<Rightarrow> JBool True | Some v \<Rightarrow> v) = JBool was"
    using assms(1) by (cases "case dict_get r ''enabled'' of None \<Rightarrow> JBool True | Some v \<Rightarrow> v") (simp_all add: detail_from_record_def)
  obtain raw where raw: "member r ''transport'' = JString raw"
    using assms(1) was by (cases "member r ''transport''") (simp_all add: detail_from_record_def)
  show ?thesis
  proof (cases "py_lower (py_strip raw) = ''stdio''")
    case True
    with assms was raw show ?thesis
      by (simp add: detail_from_record_def m e sum_bind_Inr Let_def del: mcp_datetime.simps dict_get_set split: if_splits)
        (elim exE conjE; hypsubst?; simp add: sum_bind_def del: mcp_datetime.simps; erule subst; simp)
  next
    case False
    with assms was raw show ?thesis
      by (simp add: detail_from_record_def m e sum_bind_Inr Let_def del: mcp_datetime.simps dict_get_set split: if_splits)
        (elim exE conjE; hypsubst?; simp add: sum_bind_def del: mcp_datetime.simps; erule subst; simp)
  qed
qed

lemma iso_seconds_read:
  assumes "in_calendar t"
  shows "mcp_datetime (JString (mcp_iso_datetime t)) = Inr (whole_seconds t)"
proof -
  let ?s = "whole_seconds t"
  have cal: "in_calendar ?s"
  proof -
    have "(t - t mod 1000000) div 86400000000 = t div 86400000000"
    proof -
      have "t - t mod 1000000 = t div 1000000 * 1000000" by (simp add: minus_mod_eq_div_mult)
      then have "(t - t mod 1000000) div (1000000 * 86400) = t div (1000000 * 86400)"
        by (simp add: zdiv_zmult2_eq)
      then show ?thesis by simp
    qed
    with assms show ?thesis by (simp add: in_calendar_def day_of_def whole_seconds_def)
  qed
  have ends: "last (mcp_iso_datetime t) = CHR ''0''" "mcp_iso_datetime t \<noteq> []"
    by (simp_all add: mcp_iso_datetime_def iso_datetime_def)
  have "\<not> py_isspace_char (hd (mcp_iso_datetime t))"
  proof -
    obtain y m d where date: "date_of_day (day_of ?s) = (y, m, d)" by (metis prod_cases3)
    have "digits 4 y \<noteq> []" by (simp add: eval_nat_numeral)
    then have "hd (mcp_iso_datetime t) \<in> set (digits 4 y)"
      by (simp add: mcp_iso_datetime_def iso_datetime_def iso_date_def iso_day_def date)
    then have "digit_value (hd (mcp_iso_datetime t)) \<noteq> None" by (rule digits_are_digits)
    then show ?thesis by (auto simp: digit_value_def py_isspace_char_def Let_def)
  qed
  with ends have "py_lstrip (mcp_iso_datetime t) = mcp_iso_datetime t"
    by (cases "mcp_iso_datetime t") (simp_all add: py_lstrip_def)
  moreover have "py_rstrip (mcp_iso_datetime t) = mcp_iso_datetime t"
    using ends by (cases "mcp_iso_datetime t" rule: rev_cases) (simp_all add: py_rstrip_def py_isspace_char_def)
  ultimately have "py_strip (mcp_iso_datetime t) = mcp_iso_datetime t" by (simp add: py_strip_def)
  with ends fromisoformat_iso [OF cal] show ?thesis by (simp add: Let_def mcp_iso_datetime_def)
qed

text \<open>C36: The file of a user behaves as a map from names to servers. An upsert that succeeds stores what the
request says (texts and keys of the dictionaries trimmed, nothing of the other kind of transport): this is what reads
of the server give from then on, with the members of its dictionaries sorted. A new server is enabled and has the time
of the upsert as the time of its creation; a server that was there keeps the flag and, if the calendar
has it, the time of its creation; times are in whole seconds. An update of the flag changes the flag and the time
only; a deleted server is not found; and the other servers answer as before. The one exception is a file that has
become too long: then every read of every server fails.\<close>

theorem mcp_servers_kept:
  assumes "servers_stored svc fs uid recs" and "\<not> over_limit svc fs uid" and "safe_segment sid" and "in_calendar now"
  shows "(\<forall>q d fs'. upsert_user_server dir_stat svc fs uid sid q now = (Inr d, fs') \<longrightarrow>
      server_id d = sid \<and> detail_of_request d q \<and> mcp_updated_at d = whole_seconds now \<and>
      (case fst (get_user_server dir_stat svc fs uid sid) of
         Inl _ \<Rightarrow> mcp_enabled d \<and> mcp_created_at d = whole_seconds now
       | Inr before \<Rightarrow> mcp_enabled d = mcp_enabled before \<and>
           (in_calendar (mcp_created_at before) \<longrightarrow> mcp_created_at d = whole_seconds (mcp_created_at before))) \<and>
      answers_after dir_stat svc fs fs' uid sid (Inr (sorted_detail d))) \<and>
    (\<forall>flag d fs'. set_user_server_enabled dir_stat svc fs uid sid flag now = (Inr d, fs') \<longrightarrow>
      (\<exists>before. fst (get_user_server dir_stat svc fs uid sid) = Inr before \<and>
         d = (if mcp_enabled before = flag then before
              else before\<lparr>mcp_enabled := flag, mcp_updated_at := whole_seconds now\<rparr>) \<and>
         (mcp_enabled before = flag \<and> fs' = fs \<or> answers_after dir_stat svc fs fs' uid sid (Inr d)))) \<and>
    (\<forall>fs'. delete_user_server dir_stat svc fs uid sid now = (Inr (), fs') \<longrightarrow>
      answers_after dir_stat svc fs fs' uid sid (Inl server_not_found))"
proof (intro conjI allI impI)
  have tidy: "tidy_servers recs" using assms(1) by (simp add: servers_stored_def)
  note read = read_stored [OF assms(1), of dir_stat] and get = get_stored [OF assms(1,3), of dir_stat]
  note writable = writable_tidy [OF tidy]
  {
    fix q d fs'
    assume up: "upsert_user_server dir_stat svc fs uid sid q now = (Inr d, fs')"
    then obtain transport settled where payload: "normalize_transport_payload q = Inr (transport, settled)"
      using assms(3) by (auto simp: upsert_user_server_def split: sum.splits)
    define was where "was = (case dict_get recs sid of None \<Rightarrow> Inr (True, now)
      | Some r \<Rightarrow> sum_bind (detail_from_record sid r) (\<lambda>d. Inr (mcp_enabled d, mcp_created_at d)))"
    let ?made = "\<lambda>enabled created. upsert_record enabled transport
      (normalize_optional_string (request_description q)) created now settled"
    from up payload assms(2,3) read obtain enabled created where before: "was = Inr (enabled, created)"
      by (auto simp: upsert_user_server_def and_then_def was_def split: sum.splits prod.splits)
    let ?r = "?made enabled created"
    from up payload assms(2,3) read before obtain fs2 where
      written: "write_user_servers svc fs uid (dict_set sid ?r recs) now = (Inr (), fs')" "detail_from_record sid ?r = Inr d"
      by (auto simp: upsert_user_server_def and_then_def was_def [symmetric] upsert_record_def Let_def
          split: sum.splits prod.splits)
    from upsert_record_fields [OF payload written(2)] iso_seconds_read [OF assms(4)]
    have fields: "server_id d = sid" "mcp_enabled d = enabled" "detail_of_request d q" "mcp_updated_at d = whole_seconds now"
      "mcp_datetime (JString (mcp_iso_datetime created)) = Inr (mcp_created_at d)" by auto
    from fields show "server_id d = sid" "detail_of_request d q" "mcp_updated_at d = whole_seconds now" by blast+
    from fields(5) iso_seconds_read [of created] have "in_calendar created \<Longrightarrow> mcp_created_at d = whole_seconds created" by simp
    with before fields(2) get assms(2,4) show "case fst (get_user_server dir_stat svc fs uid sid) of
         Inl _ \<Rightarrow> mcp_enabled d \<and> mcp_created_at d = whole_seconds now
       | Inr before \<Rightarrow> mcp_enabled d = mcp_enabled before \<and>
           (in_calendar (mcp_created_at before) \<longrightarrow> mcp_created_at d = whole_seconds (mcp_created_at before))"
      by (auto simp: was_def sum_bind_def split: option.splits sum.splits)
    have "writable_servers (dict_set sid ?r recs)"
      by (rule writable_set [OF writable assms(3) upsert_record_kept(1) [OF payload refl]])
    from write_then_get [OF assms(1-3) this _ written(1), of dir_stat] show "answers_after dir_stat svc fs fs' uid sid (Inr (sorted_detail d))"
      using upsert_record_kept(2) [OF payload refl, of sid enabled _ created now] written(2) by simp
  next
    fix flag d fs'
    assume up: "set_user_server_enabled dir_stat svc fs uid sid flag now = (Inr d, fs')"
    with assms(2,3) read obtain r before where r: "dict_get recs sid = Some r" "detail_from_record sid r = Inr before"
      by (auto simp: set_user_server_enabled_def and_then_def split: option.splits sum.splits prod.splits)
    with get assms(2) have before: "fst (get_user_server dir_stat svc fs uid sid) = Inr before" by simp
    show "\<exists>before. fst (get_user_server dir_stat svc fs uid sid) = Inr before \<and>
         d = (if mcp_enabled before = flag then before
              else before\<lparr>mcp_enabled := flag, mcp_updated_at := whole_seconds now\<rparr>) \<and>
         (mcp_enabled before = flag \<and> fs' = fs \<or> answers_after dir_stat svc fs fs' uid sid (Inr d))"
    proof (cases "mcp_enabled before = flag")
      case True
      with up r assms(2,3) read before show ?thesis by (auto simp: set_user_server_enabled_def and_then_def)
    next
      case False
      let ?r = "dict_set ''updated_at'' (JString (mcp_iso_datetime now)) (dict_set ''enabled'' (JBool flag) r)"
      from up r assms(2,3) read False have
        written: "write_user_servers svc fs uid (dict_set sid ?r recs) now = (Inr (), fs')" "detail_from_record sid ?r = Inr d"
        by (auto simp: set_user_server_enabled_def and_then_def Let_def split: sum.splits prod.splits)
      have tidy_r: "plain_json (JObject r)" "in_order r = r"
        using tidy r(1) by (auto simp: tidy_servers_def list_all_iff dest!: map_of_SomeD)
      have "detail_from_record sid ?r = Inr (before\<lparr>mcp_enabled := flag, mcp_updated_at := whole_seconds now\<rparr>)"
        by (rule toggled_detail [OF r(2) iso_seconds_read [OF assms(4)]])
      with written(2) have d: "d = before\<lparr>mcp_enabled := flag, mcp_updated_at := whole_seconds now\<rparr>" by simp
      have kept: "plain_json (JObject ?r)" "detail_from_record sid (in_order ?r) = detail_from_record sid ?r"
        using toggled_record [OF tidy_r] by blast+
      from write_then_get [OF assms(1-3) writable_set [OF writable assms(3) kept(1)] _ written(1), of dir_stat]
      have "answers_after dir_stat svc fs fs' uid sid (Inr d)" using kept(2) written(2) by simp
      with before d False show ?thesis by auto
    qed
  next
    fix fs'
    assume up: "delete_user_server dir_stat svc fs uid sid now = (Inr (), fs')"
    with assms(2,3) read have written: "write_user_servers svc fs uid (dict_pop sid recs) now = (Inr (), fs')"
      by (auto simp: delete_user_server_def and_then_def split: if_splits)
    from write_then_get [OF assms(1-3) writable_pop [OF writable] _ written, of dir_stat]
    show "answers_after dir_stat svc fs fs' uid sid (Inl server_not_found)" by simp
  }
qed

section \<open>Examples\<close>

definition example_mcp_record :: "(string, json) dict" where
  "example_mcp_record =
     upsert_record True ''stdio'' None 0 0 [(''command'', JString ''uvx''), (''args'', JArray []), (''env'', JObject [])]"

definition example_mcp :: mcp_servers_service where
  "example_mcp = \<lparr>mcp_servers_root = [''m''], max_mcp_file_size_bytes =
     Suc (length (utf8_bytes (json_dumps (JObject [(''servers'', JObject [(''k'', JObject example_mcp_record)])]))))\<rparr>"

abbreviation mcp_fs :: filesys where
  "mcp_fs \<equiv> [([''m''], Dir_node), ([''m'', ''ann''], Dir_node)]"

definition example_mcp_request :: mcp_request where
  "example_mcp_request = \<lparr>request_transport = ''stdio'', request_command = Some ''uvx'', request_args = None, request_env = None,
     request_url = None, request_headers = None, request_description = None\<rparr>"

lemma example_mcp_stored: "servers_stored example_mcp mcp_fs ''ann'' []" "\<not> over_limit example_mcp mcp_fs ''ann''"
proof -
  have "plain_dir mcp_fs [''m'', ''ann'']"
    unfolding plain_dir_def
    by (intro conjI tree_check; simp add: clean_short no_link_def node_at_def has_null_def)
  moreover have "safe_segment ''ann''" by code_simp
  ultimately show "servers_stored example_mcp mcp_fs ''ann'' []"
    by (simp add: servers_stored_def example_mcp_def plain_entry_def node_at_def servers_filename_def tidy_servers_def)
  show "\<not> over_limit example_mcp mcp_fs ''ann''"
    by (simp add: over_limit_def example_mcp_def node_at_def servers_filename_def)
qed

lemma example_mcp_upsert:
  "\<exists>d fs'. upsert_user_server (\<lambda>_. (0, 0)) example_mcp mcp_fs ''ann'' ''k'' example_mcp_request 0 = (Inr d, fs') \<and>
     \<not> over_limit example_mcp fs' ''ann''"
proof -
  let ?d = "mcp_servers_root example_mcp @ [''ann'']"
  let ?text = "json_text (JObject [(''servers'', JObject [(''k'', JObject example_mcp_record)])])"
  note stored = example_mcp_stored(1) and places = stored_places [OF example_mcp_stored(1)]
  from stored have dir: "plain_dir mcp_fs ?d" "plain_entry mcp_fs ?d servers_filename" by (simp_all add: servers_stored_def)
  from write_entry [OF dir, of ?text 0] obtain fs' where
    fs': "write_text mcp_fs (?d @ [servers_filename]) ?text 0 = (Inr (), fs')"
      "node_at fs' (?d @ [servers_filename]) = Some (File_node (utf8_bytes ?text) 0)" by blast
  have written: "write_user_servers example_mcp mcp_fs ''ann'' [(''k'', example_mcp_record)] 0 = (Inr (), fs')"
    using places fs'(1) by (simp add: write_user_servers_def json_text_def Let_def example_mcp_def)
  have safe: "safe_segment ''k''" by code_simp
  have payload: "normalize_transport_payload example_mcp_request =
      Inr (''stdio'', [(''command'', JString ''uvx''), (''args'', JArray []), (''env'', JObject [])])" by code_simp
  have "detail_from_record ''k'' example_mcp_record = Inr \<lparr>server_id = ''k'', mcp_transport = ''stdio'', mcp_enabled = True,
      mcp_description = None, mcp_created_at = 0, mcp_updated_at = 0, mcp_command = Some ''uvx'', mcp_args = Some [],
      mcp_env = Some [], mcp_url = None, mcp_headers = None\<rparr>" (is "_ = Inr ?detail")
    by code_simp
  then have "upsert_user_server (\<lambda>_. (0, 0)) example_mcp mcp_fs ''ann'' ''k'' example_mcp_request 0 = (Inr ?detail, fs')"
    using safe payload read_stored [OF stored] example_mcp_stored(2) written
    by (simp add: upsert_user_server_def example_mcp_record_def upsert_record_def normalize_optional_string_def
        example_mcp_request_def)
  moreover have "\<not> over_limit example_mcp fs' ''ann''"
    using fs'(2) json_text_size [of "JObject [(''servers'', JObject [(''k'', JObject example_mcp_record)])]"]
    by (simp add: over_limit_def example_mcp_def)
  ultimately show ?thesis by blast
qed

theorem mcp_servers_kept_witness:
  "\<exists>d fs'. upsert_user_server (\<lambda>_. (0, 0)) example_mcp mcp_fs ''ann'' ''k'' example_mcp_request 0 = (Inr d, fs') \<and>
     get_user_server (\<lambda>_. (0, 0)) example_mcp fs' ''ann'' ''k'' = (Inr (sorted_detail d), fs') \<and> mcp_enabled d \<and>
     detail_of_request d example_mcp_request"
proof -
  from example_mcp_upsert obtain d fs' where up:
    "upsert_user_server (\<lambda>_. (0, 0)) example_mcp mcp_fs ''ann'' ''k'' example_mcp_request 0 = (Inr d, fs')"
    "\<not> over_limit example_mcp fs' ''ann''" by blast
  have safe: "safe_segment ''k''" by code_simp
  have new: "fst (get_user_server (\<lambda>_. (0, 0)) example_mcp mcp_fs ''ann'' ''k'') = Inl server_not_found"
    using get_stored [OF example_mcp_stored(1) safe] example_mcp_stored(2) by simp
  from mcp_servers_kept [OF example_mcp_stored safe example_now, of "\<lambda>_. (0, 0)", THEN conjunct1, THEN spec, THEN spec, THEN spec,
      THEN mp, OF up(1)] new up safe show ?thesis by (auto simp: answers_after_def)
qed

end
