(* ===== verification/JsonAscii.thy ===== *)
theory JsonAscii
  imports MessageDispatch JsonLine
begin

text \<open>
  \<open>json.dumps\<close> with its defaults, \<open>ensure_ascii=True\<close>: what it escapes (\<open>json_char\<close>) is read back.
\<close>

definition dumps_ascii :: "json \<Rightarrow> string" where
  "dumps_ascii v = line_value json_char v"

lemma parse_json_char: "parse_string (json_char c @ r) = put_char c (parse_string r)"
proof (cases "(of_char c :: nat) \<le> 126")
  case True
  then have "json_char c = dump_char c" by (simp add: json_char_def dump_char_def hex_digit_def json_hex_def Let_def)
  then show ?thesis by (simp add: parse_dump_char)
next
  case False
  let ?n = "of_char c :: nat"
  have "?n < 256" by (rule nat_of_char_less_256)
  then have small: "?n div 16 < 16" "?n mod 16 < 16" by linarith+
  have "json_char c = [CHR 0x5C, CHR ''u'', CHR ''0'', CHR ''0'', json_hex (?n div 16), json_hex (?n mod 16)]"
    using False by (simp add: json_char_def hex_digit_def json_hex_def Let_def)
  moreover have "hex_value (CHR ''0'') = Some 0" by (simp add: hex_value_def)
  ultimately show ?thesis using \<open>?n < 256\<close> by (simp add: hex_value_hex small)
qed

interpretation ascii: char_escape json_char
  by unfold_locales (rule parse_json_char)

lemma dumps_ascii_read: "wire_json v \<Longrightarrow> json_loads (dumps_ascii v) = Some v"
  by (simp add: dumps_ascii_def ascii.line_read)

end
