(* ===== verification/UsageAudit.thy ===== *)
theory UsageAudit
  imports JsonAscii IsoTime
begin

text \<open>
  The operators' views of the stored messages: counts per day and channel, and the list of the latest messages
  (\<open>services/usage_audit.py\<close>), with their handlers (\<open>app/routes/usage.py\<close>, \<open>app/routes/audit.py\<close>). Each request reads
  the table of messages once.
\<close>

section \<open>The metadata of a message\<close>

definition normalize_days :: "int \<Rightarrow> int" where
  "normalize_days days = max 1 (min 365 days)"

definition normalize_limit :: "int \<Rightarrow> int" where
  "normalize_limit limit = max 1 (min 200 limit)"

definition parse_attachments :: "string option \<Rightarrow> (string, json) dict" where
  "parse_attachments value =
     (if value = None \<or> value = Some [] then []
      else (case json_loads (the value) of Some (JObject kvs) \<Rightarrow> kvs | _ \<Rightarrow> []))"

definition as_non_empty_string :: "json option \<Rightarrow> string option" where
  "as_non_empty_string v =
     (case v of Some (JString s) \<Rightarrow> if py_strip s = [] then None else Some (py_strip s) | _ \<Rightarrow> None)"

definition infer_channel :: "string \<Rightarrow> (string, json) dict \<Rightarrow> string" where
  "infer_channel chat attached =
     (let channel = as_non_empty_string (dict_get attached ''channel'') in
      if channel \<in> {Some ''web'', Some ''feishu'', Some ''telegram''} then the channel
      else if py_startswith chat ''feishu:'' then ''feishu''
      else if py_startswith chat ''telegram:'' then ''telegram''
      else ''web'')"

definition infer_group_id :: "string \<Rightarrow> (string, json) dict \<Rightarrow> string" where
  "infer_group_id chat attached =
     (case as_non_empty_string (dict_get attached ''group_folder'') of
        Some g \<Rightarrow> g
      | None \<Rightarrow>
          if py_startswith chat ''web:'' then (if drop 4 chat = [] then chat else drop 4 chat) else chat)"

record message_metadata =
  meta_channel :: string
  meta_group_id :: string
  meta_run_id :: "string option"
  meta_external_id :: "string option"

definition extract_metadata :: "stored_message \<Rightarrow> message_metadata" where
  "extract_metadata message =
     (let attached = parse_attachments (attachments message) in
      \<lparr>meta_channel = infer_channel (message_chat_jid message) attached,
       meta_group_id = infer_group_id (message_chat_jid message) attached,
       meta_run_id = as_non_empty_string (dict_get attached ''run_id''),
       meta_external_id = as_non_empty_string (dict_get attached ''external_message_id'')\<rparr>)"

section \<open>Usage\<close>

record usage_daily =
  daily_date :: string
  daily_message_count :: int
  daily_run_count :: int
  daily_user_count :: int
  daily_assistant_count :: int

record usage_channel =
  channel_name :: string
  channel_message_count :: int
  channel_run_count :: int

record usage_stats =
  stats_days :: int
  total_messages :: int
  total_runs :: int
  total_user_messages :: int
  total_assistant_messages :: int
  total_active_days :: int
  stats_daily :: "usage_daily list"
  stats_channels :: "usage_channel list"

text \<open>The counters of the loop; a \<open>defaultdict\<close> is a dictionary that is read with a default.\<close>

record usage_counters =
  user_messages :: int
  assistant_messages :: int
  run_ids :: "string set"
  daily_messages :: "(string, int) dict"
  daily_users :: "(string, int) dict"
  daily_assistants :: "(string, int) dict"
  daily_runs :: "(string, string set) dict"
  channel_messages :: "(string, int) dict"
  channel_runs :: "(string, string set) dict"

definition counted :: "(string, int) dict \<Rightarrow> string \<Rightarrow> int" where
  "counted d k = (case dict_get d k of None \<Rightarrow> 0 | Some n \<Rightarrow> n)"

definition collected :: "(string, string set) dict \<Rightarrow> string \<Rightarrow> string set" where
  "collected d k = (case dict_get d k of None \<Rightarrow> {} | Some s \<Rightarrow> s)"

definition bump :: "string \<Rightarrow> (string, int) dict \<Rightarrow> (string, int) dict" where
  "bump k d = dict_set k (counted d k + 1) d"

definition collect :: "string \<Rightarrow> string \<Rightarrow> (string, string set) dict \<Rightarrow> (string, string set) dict" where
  "collect k x d = dict_set k (insert x (collected d k)) d"

definition count_message :: "stored_message \<Rightarrow> usage_counters \<Rightarrow> usage_counters" where
  "count_message message c =
     (let date = iso_date (message_timestamp message);
          meta = extract_metadata message;
          c1 = c\<lparr>daily_messages := bump date (daily_messages c),
                 channel_messages := bump (meta_channel meta) (channel_messages c)\<rparr>;
          c2 = (if is_from_me message
                then c1\<lparr>assistant_messages := assistant_messages c1 + 1, daily_assistants := bump date (daily_assistants c1)\<rparr>
                else c1\<lparr>user_messages := user_messages c1 + 1, daily_users := bump date (daily_users c1)\<rparr>)
      in (case meta_run_id meta of
            None \<Rightarrow> c2
          | Some run \<Rightarrow>
              c2\<lparr>run_ids := insert run (run_ids c2), daily_runs := collect date run (daily_runs c2),
                 channel_runs := collect (meta_channel meta) run (channel_runs c2)\<rparr>))"

definition no_usage :: usage_counters where
  "no_usage = \<lparr>user_messages = 0, assistant_messages = 0, run_ids = {}, daily_messages = [], daily_users = [],
     daily_assistants = [], daily_runs = [], channel_messages = [], channel_runs = []\<rparr>"

text \<open>The messages of the last days up to now, from the start of the first day.\<close>

definition usage_window :: "stored_message list \<Rightarrow> int \<Rightarrow> instant \<Rightarrow> stored_message list" where
  "usage_window msgs days now =
     (let first_day = day_of (now - (days - 1) * 86400000000);
          window_start = (first_day - 719162) * 86400000000
      in sort_key (\<lambda>m. (message_timestamp m, message_id m)) (filter (\<lambda>m. message_timestamp m \<ge> window_start) msgs))"

definition usage_report :: "int \<Rightarrow> stored_message list \<Rightarrow> usage_counters \<Rightarrow> usage_stats" where
  "usage_report days msgs c =
     \<lparr>stats_days = days, total_messages = int (length msgs), total_runs = int (card (run_ids c)),
      total_user_messages = user_messages c, total_assistant_messages = assistant_messages c,
      total_active_days = int (length (daily_messages c)),
      stats_daily = map (\<lambda>date. \<lparr>daily_date = date, daily_message_count = counted (daily_messages c) date,
          daily_run_count = int (card (collected (daily_runs c) date)), daily_user_count = counted (daily_users c) date,
          daily_assistant_count = counted (daily_assistants c) date\<rparr>) (sort (map fst (daily_messages c))),
      stats_channels = map (\<lambda>ch. \<lparr>channel_name = ch, channel_message_count = counted (channel_messages c) ch,
          channel_run_count = int (card (collected (channel_runs c) ch))\<rparr>)
          (sort_key (\<lambda>ch. (- counted (channel_messages c) ch, ch)) (map fst (channel_messages c)))\<rparr>"

definition get_usage_stats :: "stored_message list \<Rightarrow> int \<Rightarrow> instant \<Rightarrow> usage_stats" where
  "get_usage_stats table days now =
     (let normalized = normalize_days days; msgs = usage_window table normalized now in
      usage_report normalized msgs (fold count_message msgs no_usage))"

section \<open>Audit\<close>

record audit_message =
  audit_message_id :: string
  audit_chat_jid :: string
  audit_group_id :: string
  audit_channel :: string
  audit_run_id :: "string option"
  audit_external_id :: "string option"
  audit_sender :: string
  audit_from_me :: bool
  audit_slot_id :: string
  audit_content :: string
  audit_timestamp :: instant

record audit_list =
  audit_items :: "audit_message list"
  audit_limit :: int
  audit_group :: "string option"
  audit_has_more :: bool

definition to_audit_message :: "stored_message \<Rightarrow> audit_message" where
  "to_audit_message m =
     (let meta = extract_metadata m in
      \<lparr>audit_message_id = message_id m, audit_chat_jid = message_chat_jid m, audit_group_id = meta_group_id meta,
       audit_channel = meta_channel meta, audit_run_id = meta_run_id meta, audit_external_id = meta_external_id meta,
       audit_sender = message_sender m, audit_from_me = is_from_me m, audit_slot_id = message_slot_id m,
       audit_content = message_content m, audit_timestamp = message_timestamp m\<rparr>)"

text \<open>The loop over the candidates stops when one more than the limit was found.\<close>

fun audit_loop :: "string option \<Rightarrow> nat \<Rightarrow> stored_message list \<Rightarrow> audit_message list \<Rightarrow> audit_message list" where
  "audit_loop g limit [] items = items"
| "audit_loop g limit (m # ms) items =
     (if g \<noteq> None \<and> meta_group_id (extract_metadata m) \<noteq> the g then audit_loop g limit ms items
      else
        let items1 = items @ [to_audit_message m] in
        if length items1 \<ge> limit + 1 then items1 else audit_loop g limit ms items1)"

definition newest_messages :: "stored_message list \<Rightarrow> stored_message list" where
  "newest_messages msgs = rev (sort_key (\<lambda>m. (message_timestamp m, message_id m)) msgs)"

definition list_audit_messages :: "stored_message list \<Rightarrow> int \<Rightarrow> string option \<Rightarrow> audit_list" where
  "list_audit_messages table limit group_id =
     (let n = nat (normalize_limit limit);
          g = (case group_id of None \<Rightarrow> None | Some s \<Rightarrow> if py_strip s = [] then None else Some (py_strip s));
          candidates = (if g = None then take (n + 1) (newest_messages table) else newest_messages table);
          items = audit_loop g n candidates []
      in \<lparr>audit_items = take n items, audit_limit = normalize_limit limit, audit_group = g, audit_has_more = length items > n\<rparr>)"

section \<open>The handlers\<close>

definition operators_only :: "http_error + auth_user \<Rightarrow> 'a \<Rightarrow> http_error + 'a" where
  "operators_only current answer =
     (case current of
        Inl e \<Rightarrow> Inl e
      | Inr u \<Rightarrow>
          if user_role u \<notin> {Some ''owner'', Some ''admin''} then Inl (Http_error 403 ''permission denied'') else Inr answer)"

definition usage_stats_route :: "stored_message list \<Rightarrow> http_error + auth_user \<Rightarrow> int \<Rightarrow> instant \<Rightarrow> http_error + usage_stats" where
  "usage_stats_route table current days now = operators_only current (get_usage_stats table days now)"

definition audit_messages_route ::
  "stored_message list \<Rightarrow> http_error + auth_user \<Rightarrow> int \<Rightarrow> string option \<Rightarrow> http_error + audit_list" where
  "audit_messages_route table current limit group_id = operators_only current (list_audit_messages table limit group_id)"

section \<open>The counters are counts\<close>

text \<open>The reference: counts over the messages of the window.\<close>

definition date_of :: "stored_message \<Rightarrow> string" where
  "date_of m = iso_date (message_timestamp m)"

definition channel_of :: "stored_message \<Rightarrow> string" where
  "channel_of m = meta_channel (extract_metadata m)"

definition runs_of :: "stored_message list \<Rightarrow> string set" where
  "runs_of ms = {run. \<exists>m \<in> set ms. meta_run_id (extract_metadata m) = Some run}"

definition how_many :: "(stored_message \<Rightarrow> bool) \<Rightarrow> stored_message list \<Rightarrow> int" where
  "how_many p ms = int (length (filter p ms))"

lemma counted_bump [simp]: "counted (bump k d) k' = (if k' = k then counted d k + 1 else counted d k')"
  by (simp add: counted_def bump_def)

lemma collected_collect [simp]: "collected (collect k x d) k' = (if k' = k then insert x (collected d k) else collected d k')"
  by (simp add: collected_def collect_def)

lemma keys_bump [simp]: "dict_ok d \<Longrightarrow> dict_ok (bump k d)" "fst ` set (bump k d) = insert k (fst ` set d)"
  by (simp_all add: bump_def dom_update)

lemma counters_of:
  fixes ms :: "stored_message list"
  defines "c \<equiv> fold count_message ms no_usage"
  shows "user_messages c = how_many (\<lambda>m. \<not> is_from_me m) ms" and "assistant_messages c = how_many is_from_me ms"
    and "run_ids c = runs_of ms"
    and "counted (daily_messages c) d = how_many (\<lambda>m. date_of m = d) ms"
    and "counted (daily_users c) d = how_many (\<lambda>m. date_of m = d \<and> \<not> is_from_me m) ms"
    and "counted (daily_assistants c) d = how_many (\<lambda>m. date_of m = d \<and> is_from_me m) ms"
    and "collected (daily_runs c) d = runs_of (filter (\<lambda>m. date_of m = d) ms)"
    and "counted (channel_messages c) ch = how_many (\<lambda>m. channel_of m = ch) ms"
    and "collected (channel_runs c) ch = runs_of (filter (\<lambda>m. channel_of m = ch) ms)"
    and "dict_ok (daily_messages c) \<and> fst ` set (daily_messages c) = date_of ` set ms"
    and "dict_ok (channel_messages c) \<and> fst ` set (channel_messages c) = channel_of ` set ms"
  unfolding c_def
  by (induction ms rule: rev_induct)
    (auto simp: no_usage_def how_many_def runs_of_def counted_def [of "[]"] collected_def [of "[]"] count_message_def
      date_of_def channel_of_def Let_def split: option.splits)

text \<open>C37: The usage statistics are the counts of the stored messages: of those in the window, which starts at
midnight of the first of the last 1 to 365 days, in all, from users, from the assistant, and for every date and
channel that occurs; each list has every date or channel once, dates in order and channels by falling counts;
runs are counted once for every report, date and channel.\<close>

theorem usage_counts_messages:
  assumes "report = get_usage_stats table days now"
  defines "ms \<equiv> usage_window table (normalize_days days) now"
  shows "1 \<le> stats_days report \<and> stats_days report \<le> 365 \<and>
    set ms = {m \<in> set table. (day_of (now - (stats_days report - 1) * 86400000000) - 719162) * 86400000000 \<le> message_timestamp m} \<and>
    total_messages report = int (length ms) \<and> total_user_messages report = how_many (\<lambda>m. \<not> is_from_me m) ms \<and>
    total_assistant_messages report = how_many is_from_me ms \<and>
    total_messages report = total_user_messages report + total_assistant_messages report \<and>
    total_runs report = int (card (runs_of ms)) \<and> total_active_days report = int (card (date_of ` set ms)) \<and>
    sorted (map daily_date (stats_daily report)) \<and> distinct (map daily_date (stats_daily report)) \<and>
    set (stats_daily report) = (\<lambda>d. \<lparr>daily_date = d, daily_message_count = how_many (\<lambda>m. date_of m = d) ms,
        daily_run_count = int (card (runs_of (filter (\<lambda>m. date_of m = d) ms))),
        daily_user_count = how_many (\<lambda>m. date_of m = d \<and> \<not> is_from_me m) ms,
        daily_assistant_count = how_many (\<lambda>m. date_of m = d \<and> is_from_me m) ms\<rparr>) ` date_of ` set ms \<and>
    sorted (map (\<lambda>c. - channel_message_count c) (stats_channels report)) \<and> distinct (map channel_name (stats_channels report)) \<and>
    set (stats_channels report) = (\<lambda>ch. \<lparr>channel_name = ch, channel_message_count = how_many (\<lambda>m. channel_of m = ch) ms,
        channel_run_count = int (card (runs_of (filter (\<lambda>m. channel_of m = ch) ms)))\<rparr>) ` channel_of ` set ms"
proof -
  define c where "c = fold count_message ms no_usage"
  note counts = counters_of [of ms, folded c_def]
  have report: "report = usage_report (normalize_days days) ms c"
    by (simp add: assms(1) get_usage_stats_def ms_def c_def Let_def)
  have days: "stats_days report = normalize_days days" "1 \<le> normalize_days days" "normalize_days days \<le> 365"
    by (simp_all add: report usage_report_def normalize_days_def)
  have "set ms = {m \<in> set table. (day_of (now - (stats_days report - 1) * 86400000000) - 719162) * 86400000000 \<le> message_timestamp m}"
    by (auto simp: ms_def usage_window_def Let_def days(1))
  moreover have "how_many (\<lambda>m. \<not> is_from_me m) ms + how_many is_from_me ms = int (length ms)"
    using sum_length_filter_compl [of is_from_me ms] by (simp add: how_many_def)
  moreover have "int (length (daily_messages c)) = int (card (date_of ` set ms))"
    using counts(10) distinct_card [of "map fst (daily_messages c)"] by simp
  moreover have "sorted (map daily_date (stats_daily report))" "distinct (map daily_date (stats_daily report))"
    using counts(10) by (simp_all add: report usage_report_def comp_def)
  moreover have "distinct (map channel_name (stats_channels report))"
    using counts(11) by (simp add: report usage_report_def comp_def)
  moreover have "sorted (map (\<lambda>c. - channel_message_count c) (stats_channels report))"
  proof -
    let ?key = "\<lambda>ch. (- counted (channel_messages c) ch, ch)"
    have "sorted (map ?key (sort_key ?key (map fst (channel_messages c))))" by simp
    then have "sorted (map fst (map ?key (sort_key ?key (map fst (channel_messages c)))))"
      unfolding sorted_wrt_map by (rule sorted_wrt_mono_rel [rotated]) (auto simp: less_eq_prod_def)
    then show ?thesis by (simp add: report usage_report_def comp_def)
  qed
  moreover have "set (stats_daily report) = (\<lambda>d. \<lparr>daily_date = d, daily_message_count = how_many (\<lambda>m. date_of m = d) ms,
        daily_run_count = int (card (runs_of (filter (\<lambda>m. date_of m = d) ms))),
        daily_user_count = how_many (\<lambda>m. date_of m = d \<and> \<not> is_from_me m) ms,
        daily_assistant_count = how_many (\<lambda>m. date_of m = d \<and> is_from_me m) ms\<rparr>) ` date_of ` set ms"
    using counts(4-7,10) by (simp add: report usage_report_def image_image)
  moreover have "set (stats_channels report) = (\<lambda>ch. \<lparr>channel_name = ch, channel_message_count = how_many (\<lambda>m. channel_of m = ch) ms,
        channel_run_count = int (card (runs_of (filter (\<lambda>m. channel_of m = ch) ms)))\<rparr>) ` channel_of ` set ms"
    using counts(8,9,11) by (simp add: report usage_report_def image_image)
  ultimately show ?thesis
    using counts(1-3) days by (simp add: report usage_report_def)
qed

section \<open>The audit list is a page of the messages\<close>

lemma audit_loop_takes:
  assumes "length items \<le> n"
  shows "audit_loop g n ms items =
    take (n + 1) (items @ map to_audit_message (filter (\<lambda>m. g = None \<or> meta_group_id (extract_metadata m) = the g) ms))"
  using assms
  by (induction g n ms items rule: audit_loop.induct) (auto simp: Let_def)

text \<open>The audit list is the first page of the stored messages, newest first, of the group that was asked for or of
all: at most 1 to 200 of them, and \<open>has_more\<close> tells whether there are others; the loop that stops early and the query
that is limited change nothing.\<close>

theorem audit_lists_newest:
  assumes "answer = list_audit_messages table limit group_id"
  defines "chosen \<equiv> filter (\<lambda>m. audit_group answer = None \<or> meta_group_id (extract_metadata m) = the (audit_group answer))
    (newest_messages table)"
  shows "1 \<le> audit_limit answer \<and> audit_limit answer \<le> 200 \<and>
    audit_items answer = map to_audit_message (take (nat (audit_limit answer)) chosen) \<and>
    (audit_has_more answer \<longleftrightarrow> int (length chosen) > audit_limit answer) \<and>
    mset (newest_messages table) = mset table \<and>
    sorted (rev (map (\<lambda>m. (message_timestamp m, message_id m)) (newest_messages table)))"
proof -
  let ?n = "nat (normalize_limit limit)"
  have limit: "audit_limit answer = normalize_limit limit" "1 \<le> normalize_limit limit" "normalize_limit limit \<le> 200"
    by (simp_all add: assms(1) list_audit_messages_def normalize_limit_def Let_def)
  have loop: "audit_loop (audit_group answer) ?n
      (if audit_group answer = None then take (?n + 1) (newest_messages table) else newest_messages table) [] =
      take (?n + 1) (map to_audit_message chosen)"
    by (simp add: audit_loop_takes chosen_def take_map)
  have "audit_items answer = take ?n (take (?n + 1) (map to_audit_message chosen))"
    "audit_has_more answer \<longleftrightarrow> length (take (?n + 1) (map to_audit_message chosen)) > ?n"
    unfolding loop [symmetric] by (simp_all add: assms(1) list_audit_messages_def Let_def)
  with limit have "audit_items answer = map to_audit_message (take (nat (audit_limit answer)) chosen)"
    "audit_has_more answer \<longleftrightarrow> int (length chosen) > audit_limit answer"
    by (auto simp: take_map min_def)
  with limit show ?thesis by (simp add: newest_messages_def rev_map)
qed

section \<open>What a stored message says of itself\<close>

lemma parse_json_string: "parse_string (concat (map json_char s) @ CHR 0x22 # r) = Some (s, r)"
  by (induction s) (simp_all add: parse_json_char put_char_def)

lemma parse_json_members:
  "kvs \<noteq> [] \<Longrightarrow> parse_members (json_members kvs @ CHR ''}'' # r) = Some (map (\<lambda>(k, v). (k, JString v)) kvs, r)"
proof (induction kvs rule: json_members.induct)
  case (2 k v)
  show ?case
    by (subst parse_members.simps) (simp add: json_string_def parse_json_string json_space_def parse_value.simps)
next
  case (3 k v kv rest)
  obtain k' v' where kv: "kv = (k', v')" by (cases kv)
  have "skip_spaces (json_members (kv # rest) @ CHR ''}'' # r) = json_members (kv # rest) @ CHR ''}'' # r"
    by (cases rest) (simp_all add: kv json_string_def json_space_def)
  with 3 show ?case
    by (subst parse_members.simps) (simp add: json_string_def parse_json_string json_space_def parse_value.simps)
qed simp

lemma json_loads_members:
  assumes "kvs \<noteq> []" and "distinct (map fst kvs)"
  shows "json_loads (''{'' @ json_members kvs @ ''}'') = Some (JObject (map (\<lambda>(k, v). (k, JString v)) kvs))"
proof -
  have "\<exists>cs. json_members kvs @ ''}'' = CHR 0x22 # cs"
    using assms(1) by (cases kvs rule: json_members.cases) (simp_all add: json_string_def)
  then obtain cs where cs: "json_members kvs @ ''}'' = CHR 0x22 # cs" by blast
  moreover have "map fst (map (\<lambda>(k, v). (k, JString v)) kvs) = map fst kvs" by (induction kvs) auto
  then have "dict_of (map (\<lambda>(k, v). (k, JString v)) kvs) = map (\<lambda>(k, v). (k, JString v)) kvs"
    using assms(2) by (simp only: dict_of_distinct)
  ultimately show ?thesis
    using parse_json_members [OF assms(1), of "[]"]
    by (simp add: json_loads_def parse_value.simps [of "CHR ''{'' # _"] json_space_def)
qed

text \<open>A value that is given and not blank.\<close>

definition given :: "string option \<Rightarrow> string option" where
  "given v = as_non_empty_string (map_option JString v)"

lemma attachments_read:
  "dict_get (parse_attachments (build_attachments_payload channel ws run external)) k =
     (if k = ''channel'' then map_option JString channel
      else if k = ''external_message_id'' then map_option JString external
      else if k = ''group_folder'' then map_option JString ws
      else if k = ''run_id'' then map_option JString run else None)"
proof (cases "attachment_items channel ws run external = []")
  case True
  then show ?thesis
    by (cases channel; cases ws; cases run; cases external)
      (simp_all add: build_attachments_payload_def attachment_items_def parse_attachments_def List.map_filter_simps)
next
  case False
  have distinct: "distinct (map fst (attachment_items channel ws run external))"
    by (cases channel; cases ws; cases run; cases external) (simp_all add: attachment_items_def List.map_filter_simps)
  have "parse_attachments (build_attachments_payload channel ws run external) =
      map (\<lambda>(k, v). (k, JString v)) (attachment_items channel ws run external)"
    using json_loads_members [OF False distinct] False
    by (simp add: parse_attachments_def build_attachments_payload_def Let_def)
  then show ?thesis
    by (cases channel; cases ws; cases run; cases external) (simp_all add: attachment_items_def List.map_filter_simps)
qed

text \<open>What the dispatch stores with a message is what the audit shows of it: the run, the external id and the
workspace, when they are not blank, and the channel when it is one of the three; otherwise workspace and channel
are inferred from the chat.\<close>

theorem stored_metadata_read:
  "extract_metadata (new_message uuid chat sender content from_me slot channel ws run external now) =
     \<lparr>meta_channel = (if given channel \<in> {Some ''web'', Some ''feishu'', Some ''telegram''} then the (given channel)
        else infer_channel chat []),
      meta_group_id = (case given ws of Some g \<Rightarrow> g | None \<Rightarrow> infer_group_id chat []),
      meta_run_id = given run, meta_external_id = given external\<rparr>"
  by (simp add: extract_metadata_def new_message_def Let_def given_def attachments_read infer_channel_def infer_group_id_def
      as_non_empty_string_def [of None] split: option.split)

section \<open>Examples\<close>

definition example_messages :: "stored_message list" where
  "example_messages =
     [new_message ''m1'' ''web:team'' ''id1'' ''hi'' False ''main'' (Some ''web'') (Some ''team'') (Some ''r1'') None 1000000,
      new_message ''m2'' ''web:team'' ''bot'' ''yes'' True ''main'' (Some ''web'') (Some ''team'') (Some ''r1'') None 2000000]"

theorem usage_counts_messages_witness:
  "total_messages (get_usage_stats example_messages 0 3000000) =
     total_user_messages (get_usage_stats example_messages 0 3000000) +
     total_assistant_messages (get_usage_stats example_messages 0 3000000)"
  using usage_counts_messages [OF refl, of example_messages 0 3000000] by blast

theorem audit_lists_newest_witness:
  "audit_items (list_audit_messages example_messages 1 None) = map to_audit_message (take 1 (newest_messages example_messages)) \<and>
   audit_has_more (list_audit_messages example_messages 1 None)"
proof -
  have g: "audit_group (list_audit_messages example_messages 1 None) = None"
    "audit_limit (list_audit_messages example_messages 1 None) = 1"
    by (simp_all add: list_audit_messages_def normalize_limit_def Let_def)
  have "length (newest_messages example_messages) = 2" by (simp add: newest_messages_def example_messages_def)
  with audit_lists_newest [OF refl, of example_messages 1 None] g show ?thesis by simp
qed

end
