(* ===== verification/RunnerProtocol.thy ===== *)
theory RunnerProtocol
  imports JsonLine
begin

text \<open>
  The two ends of the pipe between the service and an agent's process: what the runner writes
  (\<open>container/agent-runner/src/runner.py\<close>, \<open>types.py\<close>) and how a backend reads it (\<open>services/execution_backends.py\<close>). The
  process itself, and the text that other code writes to the same stream, are arguments.
\<close>

section \<open>The runner\<close>

datatype output_status = Success_output | Error_output | Timeout_output

record container_output =
  output_status :: output_status
  output_result :: "string option"
  output_error :: "string option"

record container_input =
  input_prompt :: string
  input_group :: string
  input_session :: "string option"
  input_agent :: string
  input_instructions :: string

definition output_start_marker :: string where
  "output_start_marker = ''---PORTEX_OUTPUT_START---''"

definition output_end_marker :: string where
  "output_end_marker = ''---PORTEX_OUTPUT_END---''"

text \<open>What the agent ended with: nothing, a text, a model or a plain value, and what has no JSON form.\<close>

datatype final_output = No_output | Text_output string | Model_output json | Value_output json | Other_output string

fun stringify_final_output :: "final_output \<Rightarrow> string" where
  "stringify_final_output No_output = []"
| "stringify_final_output (Text_output s) = s"
| "stringify_final_output (Model_output v) = dumps_unicode v"
| "stringify_final_output (Value_output v) = dumps_unicode v"
| "stringify_final_output (Other_output s) = s"

text \<open>\<open>run_sync\<close> stands for the agents SDK: the agent that is built for an input, and its run.\<close>

definition run_agent :: "(container_input \<Rightarrow> string + final_output) \<Rightarrow> container_input \<Rightarrow> container_output" where
  "run_agent run_sync payload =
     (case run_sync payload of
        Inl err \<Rightarrow> \<lparr>output_status = Error_output, output_result = None, output_error = Some err\<rparr>
      | Inr out \<Rightarrow>
          \<lparr>output_status = Success_output, output_result = Some (stringify_final_output out), output_error = None\<rparr>)"

definition write_output :: "(container_output \<Rightarrow> string) \<Rightarrow> container_output \<Rightarrow> bool \<Rightarrow> string" where
  "write_output serialize payload framed =
     (if framed then output_start_marker @ [newline] else []) @ serialize payload @ [newline] @
     (if framed then output_end_marker @ [newline] else [])"

text \<open>
  \<open>main\<close>: \<open>parse_input\<close> and \<open>serialize\<close> are pydantic's \<open>model_validate_json\<close> and \<open>model_dump_json\<close>. The text that is written
  and the exit code.
\<close>

definition runner_main ::
  "(string \<Rightarrow> string + container_input) \<Rightarrow> (container_output \<Rightarrow> string) \<Rightarrow> (container_input \<Rightarrow> string + final_output) \<Rightarrow>
   bool \<Rightarrow> string \<Rightarrow> string \<times> int" where
  "runner_main parse_input serialize run_sync framed stdin =
     (let response = (case parse_input stdin of
            Inl err \<Rightarrow> \<lparr>output_status = Error_output, output_result = None, output_error = Some err\<rparr>
          | Inr request \<Rightarrow> run_agent run_sync request)
      in (write_output serialize response framed, if output_status response = Success_output then 0 else 1))"

definition cli ::
  "(string \<Rightarrow> string + container_input) \<Rightarrow> (container_output \<Rightarrow> string) \<Rightarrow> (container_input \<Rightarrow> string + final_output) \<Rightarrow>
   string \<Rightarrow> string \<times> int" where
  "cli parse_input serialize run_sync stdin = runner_main parse_input serialize run_sync True stdin"

section \<open>The backend\<close>

definition str_contains :: "string \<Rightarrow> string \<Rightarrow> bool" where
  "str_contains s sub \<longleftrightarrow> py_find s sub 0 \<noteq> None"

text \<open>\<open>s.rfind(sub)\<close>: the greatest index of an occurrence.\<close>

definition py_rfind :: "string \<Rightarrow> string \<Rightarrow> nat option" where
  "py_rfind s sub =
     find (\<lambda>i. i + length sub \<le> length s \<and> py_startswith (drop i s) sub) (rev [0 ..< Suc (length s)])"

definition extract_runner_output :: "string \<Rightarrow> string option" where
  "extract_runner_output stdout =
     (if str_contains stdout output_start_marker \<and> str_contains stdout output_end_marker
      then
        let start = the (py_rfind stdout output_start_marker) in
        (case py_find stdout output_end_marker start of
           None \<Rightarrow> None
         | Some stop \<Rightarrow> Some (py_strip (py_slice stdout (start + length output_start_marker) stop)))
      else if py_strip stdout = [] then None else Some (py_strip stdout))"

text \<open>The dictionary that is returned, by its status.\<close>

datatype runner_answer =
    Completed_answer json int
  | Timeout_answer json int
  | Failed_answer string int

text \<open>Truth of a value of JSON; a number is false when its value is zero.\<close>

definition zero_number :: "string \<Rightarrow> bool" where
  "zero_number t \<longleftrightarrow> list_all (\<lambda>c. is_digit c \<longrightarrow> c = CHR ''0'') (takeWhile (\<lambda>c. c \<noteq> CHR ''e'' \<and> c \<noteq> CHR ''E'') t) \<and>
     t \<notin> {''NaN'', ''Infinity'', ''-Infinity''}"

fun truthy :: "json \<Rightarrow> bool" where
  "truthy JNull = False"
| "truthy (JBool b) = b"
| "truthy (JNumber t) = (\<not> zero_number t)"
| "truthy (JString s) = (s \<noteq> [])"
| "truthy (JArray xs) = (xs \<noteq> [])"
| "truthy (JObject kvs) = (kvs \<noteq> [])"

text \<open>\<open>payload.get(key)\<close>, and \<open>a or b\<close>.\<close>

definition json_get :: "(string, json) dict \<Rightarrow> string \<Rightarrow> json" where
  "json_get d k = (case dict_get d k of None \<Rightarrow> JNull | Some v \<Rightarrow> v)"

definition json_or :: "json \<Rightarrow> json \<Rightarrow> json" where
  "json_or a b = (if truthy a then a else b)"

definition runner_failure :: "(string, json) dict \<Rightarrow> string \<Rightarrow> string \<Rightarrow> string" where
  "runner_failure payload stderr source =
     (case json_or (json_or (json_get payload ''error'') (json_get payload ''result'')) (JString (py_strip stderr)) of
        JString (c # cs) \<Rightarrow> c # cs
      | _ \<Rightarrow> source @ '' runner failed'')"

definition parse_runner_output :: "string \<Rightarrow> string \<Rightarrow> int \<Rightarrow> string \<Rightarrow> runner_answer" where
  "parse_runner_output stdout stderr returncode source =
     (case extract_runner_output stdout of
        None \<Rightarrow>
          Failed_answer (if py_strip stderr = [] then source @ '' runner did not produce parseable output'' else py_strip stderr)
            returncode
      | Some raw \<Rightarrow>
          (case json_loads raw of
             None \<Rightarrow> Failed_answer (source @ '' runner produced invalid JSON output'') returncode
           | Some (JObject payload) \<Rightarrow>
               if json_get payload ''status'' = JString ''success''
               then Completed_answer (json_get payload ''result'') returncode
               else if json_get payload ''status'' = JString ''timeout''
               then Timeout_answer (json_get payload ''error'') returncode
               else Failed_answer (runner_failure payload stderr source) returncode
           | Some v \<Rightarrow> Failed_answer (source @ '' runner returned non-object output'') returncode))"

section \<open>What is written is read\<close>

lemma startswith_drop: "i \<le> length s \<Longrightarrow> py_startswith (drop i s) sub \<longleftrightarrow> (\<exists>u r. s = u @ sub @ r \<and> length u = i)"
  unfolding py_startswith_iff
  by (metis append_take_drop_id length_take min.absorb2 append_eq_conv_conj)

lemma not_contained: "\<not> str_contains s sub \<Longrightarrow> s \<noteq> u @ sub @ r"
proof
  assume none: "\<not> str_contains s sub" and s: "s = u @ sub @ r"
  have "\<not> py_startswith (drop (length u) s) sub"
    by (rule py_find_NoneD [of s sub 0]) (use none in \<open>simp_all add: str_contains_def s\<close>)
  then show False by (simp add: s py_startswith_def)
qed

lemma contained: "str_contains (u @ sub @ r) sub"
  using not_contained [of "u @ sub @ r" sub u r] by blast

text \<open>What is on one line occurs within the lines.\<close>

lemma occurs_in_line:
  assumes "a @ c # b = u @ sub @ r" and "c \<notin> set sub"
  shows "(\<exists>r'. a = u @ sub @ r') \<or> (\<exists>u'. u = a @ c # u' \<and> b = u' @ sub @ r)"
proof -
  consider us where "u = a @ us" "c # b = us @ sub @ r" | us where "a = u @ us" "us @ c # b = sub @ r"
    using assms(1) by (auto simp: append_eq_append_conv2)
  then show ?thesis
  proof cases
    case 1
    with assms(2) show ?thesis by (cases us) (auto simp: Cons_eq_append_conv)
  next
    case 2
    with assms(2) show ?thesis by (auto simp: append_eq_append_conv2 Cons_eq_append_conv)
  qed
qed

lemma py_rfind_eq:
  assumes "s = u @ sub @ r" and "\<And>v t. s = v @ sub @ t \<Longrightarrow> length v \<le> length u"
  shows "py_rfind s sub = Some (length u)"
proof -
  let ?P = "\<lambda>i. i + length sub \<le> length s \<and> py_startswith (drop i s) sub"
  have at: "?P i \<longleftrightarrow> (\<exists>v t. s = v @ sub @ t \<and> length v = i)" for i
    using startswith_drop [of i s sub] by (auto simp: py_startswith_def)
  let ?is = "rev [0 ..< Suc (length s)]"
  have k: "length s - length u < length ?is" "?is ! (length s - length u) = length u"
    using assms(1) by (simp_all add: rev_nth del: upt_Suc)
  have "?P (length u)" using at assms(1) by blast
  moreover have "\<not> ?P (?is ! j)" if "j < length s - length u" for j
  proof -
    have "?is ! j > length u" using that by (simp add: rev_nth del: upt_Suc)
    with at assms(2) show ?thesis by (metis linorder_not_le)
  qed
  ultimately show ?thesis
    unfolding py_rfind_def find_Some_iff using k by (intro exI [of _ "length s - length u"]) auto
qed

lemma py_find_eq:
  assumes "s = u @ sub @ r" and "start \<le> length u" and "\<And>v t. s = v @ sub @ t \<Longrightarrow> start \<le> length v \<Longrightarrow> length u \<le> length v"
  shows "py_find s sub start = Some (length u)"
proof (cases "py_find s sub start")
  case None
  from py_find_NoneD [OF None assms(2)] have "\<not> py_startswith (drop (length u) s) sub" by (simp add: assms(1))
  then show ?thesis by (simp add: assms(1) py_startswith_def)
next
  case (Some i)
  note i = py_find_SomeD [OF Some]
  then obtain v t where v: "s = v @ sub @ t" "length v = i"
    using startswith_drop [of i s sub] by auto
  have "py_startswith (drop (length u) s) sub" by (simp add: assms(1) py_startswith_def)
  with i assms(2) have "i \<le> length u" by (meson linorder_not_le)
  with assms(3) [OF v(1)] v(2) i Some show ?thesis by simp
qed

lemma markers_apart:
  "newline \<notin> set output_start_marker" "newline \<notin> set output_end_marker"
  "output_end_marker \<noteq> u @ output_start_marker @ r" "output_start_marker \<noteq> u @ output_end_marker @ r"
proof -
  show "newline \<notin> set output_start_marker" "newline \<notin> set output_end_marker"
    by (simp_all add: output_start_marker_def output_end_marker_def)
  show "output_end_marker \<noteq> u @ output_start_marker @ r"
    by (rule not_contained) (simp add: output_start_marker_def output_end_marker_def str_contains_def, code_simp)
  show "output_start_marker \<noteq> u @ output_end_marker @ r"
    by (rule not_contained) (simp add: output_start_marker_def output_end_marker_def str_contains_def, code_simp)
qed

lemma frame_found:
  fixes before d rest :: string
  defines "framed \<equiv> d @ output_end_marker @ rest"
  assumes "\<And>v t. framed \<noteq> v @ output_start_marker @ t"
    and "\<And>v t. framed = v @ output_end_marker @ t \<Longrightarrow> length d \<le> length v"
  shows "extract_runner_output (before @ output_start_marker @ newline # framed) = Some (py_strip (newline # d))"
proof -
  let ?stdout = "before @ output_start_marker @ newline # framed"
  let ?start = "length before" and ?stop = "length (before @ output_start_marker @ newline # d)"
  have first: "py_rfind ?stdout output_start_marker = Some ?start"
  proof (rule py_rfind_eq [OF refl])
    fix v t assume "?stdout = v @ output_start_marker @ t"
    then have "(before @ output_start_marker) @ newline # framed = v @ output_start_marker @ t" by simp
    from occurs_in_line [OF this markers_apart(1)] assms(2)
    obtain r where "before @ output_start_marker = v @ output_start_marker @ r" by blast
    then have "length (before @ output_start_marker) = length (v @ output_start_marker @ r)" by simp
    then show "length v \<le> length before" by simp
  qed
  have last: "py_find ?stdout output_end_marker ?start = Some ?stop"
  proof (rule py_find_eq)
    show "?stdout = (before @ output_start_marker @ newline # d) @ output_end_marker @ rest" by (simp add: framed_def)
    show "?start \<le> ?stop" by simp
    fix v t assume "?stdout = v @ output_end_marker @ t" and later: "?start \<le> length v"
    then have "(before @ output_start_marker) @ newline # framed = v @ output_end_marker @ t" by simp
    from occurs_in_line [OF this markers_apart(2)]
    consider r where "before @ output_start_marker = v @ output_end_marker @ r"
      | v' where "v = (before @ output_start_marker) @ newline # v'" "framed = v' @ output_end_marker @ t" by blast
    then show "?stop \<le> length v"
    proof cases
      case 1
      with later obtain v' where "output_start_marker = v' @ output_end_marker @ r"
        by (auto simp: append_eq_append_conv2)
      with markers_apart(4) show ?thesis by blast
    next
      case 2
      with assms(3) [OF 2(2)] show ?thesis by simp
    qed
  qed
  have "str_contains ?stdout output_start_marker" using contained by simp
  moreover have "str_contains ?stdout output_end_marker"
    using contained [of "before @ output_start_marker @ newline # d" output_end_marker] by (simp add: framed_def)
  moreover have "py_slice ?stdout (?start + length output_start_marker) ?stop = newline # d"
    by (simp add: py_slice_def framed_def)
  ultimately show ?thesis using first last by (simp add: extract_runner_output_def Let_def)
qed

text \<open>What the runner wrote, up to the first end marker.\<close>

lemma runner_frame:
  fixes before d after :: string
  assumes "\<not> str_contains d output_start_marker" and "\<not> str_contains after output_start_marker"
  defines "stdout \<equiv> before @ output_start_marker @ newline # d @ newline # output_end_marker @ newline # after"
  shows "\<not> str_contains d output_end_marker \<Longrightarrow> extract_runner_output stdout = Some (py_strip (newline # d @ [newline]))"
    and "py_find d output_end_marker 0 = Some n \<Longrightarrow> extract_runner_output stdout = Some (py_strip (newline # take n d))"
proof -
  let ?framed = "d @ newline # output_end_marker @ newline # after"
  have start: "?framed \<noteq> v @ output_start_marker @ t" for v t
  proof
    assume "?framed = v @ output_start_marker @ t"
    from occurs_in_line [OF this markers_apart(1)] not_contained [OF assms(1)]
    obtain w where "output_end_marker @ newline # after = w @ output_start_marker @ t" by blast
    from occurs_in_line [OF this markers_apart(1)] not_contained [OF assms(2)] markers_apart(3) show False by blast
  qed
  show "extract_runner_output stdout = Some (py_strip (newline # d @ [newline]))" if "\<not> str_contains d output_end_marker"
  proof -
    have "length (d @ [newline]) \<le> length v" if "?framed = v @ output_end_marker @ t" for v t
      using occurs_in_line [OF that markers_apart(2)] not_contained [OF \<open>\<not> str_contains d output_end_marker\<close>] by auto
    then show ?thesis using frame_found [of "d @ [newline]" "newline # after" before] start by (simp add: stdout_def)
  qed
  show "extract_runner_output stdout = Some (py_strip (newline # take n d))" if n: "py_find d output_end_marker 0 = Some n"
  proof -
    note found = py_find_SomeD [OF n]
    then obtain w where d: "d = take n d @ output_end_marker @ w"
      by (metis append_take_drop_id py_startswith_iff)
    have len: "length (take n d) = n" using found by simp
    have "length (take n d) \<le> length v" if "?framed = v @ output_end_marker @ t" for v t
    proof (rule ccontr)
      assume "\<not> ?thesis"
      then have v: "length v < n" using len by simp
      from occurs_in_line [OF that markers_apart(2)] v found obtain r where "d = v @ output_end_marker @ r" by auto
      then have "py_startswith (drop (length v) d) output_end_marker" by (simp add: py_startswith_def)
      with found v show False by blast
    qed
    moreover have same: "?framed = take n d @ output_end_marker @ w @ newline # output_end_marker @ newline # after"
      by (subst d) simp
    ultimately show ?thesis
      using start unfolding stdout_def same by (intro frame_found) blast+
  qed
qed

text \<open>
  What pydantic promises of \<open>model_dump_json\<close>: the text of an object with the three fields, and nothing around it.
\<close>

fun status_text :: "output_status \<Rightarrow> string" where
  "status_text Success_output = ''success''"
| "status_text Error_output = ''error''"
| "status_text Timeout_output = ''timeout''"

definition optional_json :: "string option \<Rightarrow> json" where
  "optional_json v = (case v of None \<Rightarrow> JNull | Some s \<Rightarrow> JString s)"

definition model_json :: "container_output \<Rightarrow> json" where
  "model_json p = JObject [(''status'', JString (status_text (output_status p))), (''result'', optional_json (output_result p)),
     (''error'', optional_json (output_error p))]"

definition model_dumped :: "(container_output \<Rightarrow> string) \<Rightarrow> container_output \<Rightarrow> bool" where
  "model_dumped serialize p \<longleftrightarrow>
     json_loads (serialize p) = Some (model_json p) \<and> (\<exists>fields. serialize p = CHR ''{'' # fields @ ''}'')"

lemma strip_braces: "py_strip (newline # (CHR ''{'' # t @ ''}'') @ [newline]) = CHR ''{'' # t @ ''}''"
  by (simp add: py_strip_def py_lstrip_def py_rstrip_def py_isspace_char_def)

lemma strip_cut:
  "\<exists>t. py_strip (newline # CHR ''{'' # s) = CHR ''{'' # t \<and> (\<exists>s'. s = t @ s')"
proof -
  have "py_strip (newline # CHR ''{'' # s) = py_rstrip (CHR ''{'' # s)"
    by (simp add: py_strip_def py_lstrip_def py_isspace_char_def)
  moreover have "py_rstrip (CHR ''{'' # s) = CHR ''{'' # py_rstrip s"
    by (auto simp: py_rstrip_def py_isspace_char_def dropWhile_append dropWhile_eq_Nil_conv)
  moreover have "s = py_rstrip s @ rev (takeWhile py_isspace_char (rev s))"
    unfolding py_rstrip_def by (metis rev_append rev_rev_ident takeWhile_dropWhile_id)
  ultimately show ?thesis by (intro exI [of _ "py_rstrip s"]) (simp, blast)
qed

text \<open>C38: The answer of an agent crosses the process boundary: whatever else is written to the stream before the runner's
frame, and whatever without a start marker after it, the backend reads the text the agent ended with; an exception of
the agent is read as a failure with its text. The markers must not occur in the text that is framed.\<close>

theorem runner_answer_read:
  assumes "parse_input stdin = Inr request" and "cli parse_input serialize run_sync stdin = (text, code)"
    and "model_dumped serialize (run_agent run_sync request)"
    and "\<not> str_contains (serialize (run_agent run_sync request)) output_start_marker"
    and "\<not> str_contains (serialize (run_agent run_sync request)) output_end_marker"
    and "\<not> str_contains after output_start_marker"
  shows "parse_runner_output (before @ text @ after) stderr code source =
    (case run_sync request of
       Inr out \<Rightarrow> Completed_answer (JString (stringify_final_output out)) 0
     | Inl err \<Rightarrow>
         Failed_answer (if err \<noteq> [] then err else if py_strip stderr \<noteq> [] then py_strip stderr else source @ '' runner failed'') 1)"
proof -
  let ?p = "run_agent run_sync request"
  from assms(3) obtain fields where fields: "serialize ?p = CHR ''{'' # fields @ ''}''" by (auto simp: model_dumped_def)
  have "before @ text @ after =
      before @ output_start_marker @ newline # serialize ?p @ newline # output_end_marker @ newline # after"
    using assms(1,2) by (auto simp: cli_def runner_main_def write_output_def Let_def)
  then have "extract_runner_output (before @ text @ after) = Some (serialize ?p)"
    using runner_frame(1) [OF assms(4,6,5), of before] strip_braces [of fields] fields by simp
  moreover have "json_loads (serialize ?p) = Some (model_json ?p)" using assms(3) by (simp add: model_dumped_def)
  moreover have "code = (if output_status ?p = Success_output then 0 else 1)"
    using assms(1,2) by (auto simp: cli_def runner_main_def Let_def)
  ultimately show ?thesis
    by (cases "run_sync request")
      (auto simp: parse_runner_output_def model_json_def run_agent_def optional_json_def json_get_def runner_failure_def
        json_or_def split: list.split)
qed

text \<open>C39: An answer that mentions the end marker is lost: although the agent ended well and the runner exits with its
code, the backend stops at the mention, takes the part before it for the object, and reports invalid output.\<close>

theorem marked_answer_lost:
  assumes "parse_input stdin = Inr request" and "cli parse_input serialize run_sync stdin = (text, code)"
    and "model_dumped serialize (run_agent run_sync request)"
    and "\<not> str_contains (serialize (run_agent run_sync request)) output_start_marker"
    and "str_contains (serialize (run_agent run_sync request)) output_end_marker"
    and "\<not> str_contains after output_start_marker"
  shows "parse_runner_output (before @ text @ after) stderr code source =
    Failed_answer (source @ '' runner produced invalid JSON output'') code"
proof -
  let ?d = "serialize (run_agent run_sync request)"
  from assms(5) obtain n where n: "py_find ?d output_end_marker 0 = Some n" by (auto simp: str_contains_def)
  from assms(3) obtain fields where fields: "?d = CHR ''{'' # fields @ ''}''" by (auto simp: model_dumped_def)
  from py_find_SomeD [OF n] obtain w where d: "?d = take n ?d @ output_end_marker @ w"
    by (metis append_take_drop_id py_startswith_iff)
  then obtain s where s: "take n ?d = CHR ''{'' # s"
    using fields by (cases n) (auto simp: output_end_marker_def)
  obtain t s' where t: "py_strip (newline # CHR ''{'' # s) = CHR ''{'' # t" "s = t @ s'" using strip_cut by blast
  with d s have d': "?d = CHR ''{'' # t @ (s' @ output_end_marker @ w)" by simp
  have "json_loads (CHR ''{'' # t) = None"
  proof (rule cut_object)
    show "json_loads (CHR ''{'' # t @ (s' @ output_end_marker @ w)) = Some (model_json (run_agent run_sync request))"
      using assms(3) d' by (simp add: model_dumped_def)
    show "s' @ output_end_marker @ w \<noteq> []" by (simp add: output_end_marker_def)
    have "last ?d = CHR ''}''" by (simp add: fields)
    then show "\<not> json_space (last (s' @ output_end_marker @ w))"
      by (subst (asm) d') (simp add: output_end_marker_def json_space_def split: if_splits)
  qed
  moreover have "before @ text @ after =
      before @ output_start_marker @ newline # ?d @ newline # output_end_marker @ newline # after"
    using assms(1,2) by (auto simp: cli_def runner_main_def write_output_def Let_def)
  then have "extract_runner_output (before @ text @ after) = Some (CHR ''{'' # t)"
    using runner_frame(2) [OF assms(4,6) n, of before] s t(1) by simp
  ultimately show ?thesis by (simp add: parse_runner_output_def)
qed

section \<open>Examples\<close>

definition example_request :: container_input where
  "example_request = \<lparr>input_prompt = ''hi'', input_group = ''w'', input_session = None, input_agent = ''a'', input_instructions = []\<rparr>"

definition example_serialize :: "container_output \<Rightarrow> string" where
  "example_serialize p = dumps_unicode (model_json p)"

lemma example_dumped: "model_dumped example_serialize p"
  unfolding model_dumped_def example_serialize_def
proof
  have "wire_json (model_json p)" by (auto simp: model_json_def optional_json_def split: option.split)
  then show "json_loads (dumps_unicode (model_json p)) = Some (model_json p)" by (rule dumps_read)
  show "\<exists>fields. dumps_unicode (model_json p) = CHR ''{'' # fields @ ''}''"
    by (simp add: dumps_unicode_def model_json_def)
qed

theorem runner_answer_read_witness:
  "parse_runner_output (''warming up'' @ fst (cli (\<lambda>_. Inr example_request) example_serialize (\<lambda>_. Inr (Text_output ''done'')) []) @ []) []
     0 ''host'' = Completed_answer (JString ''done'') 0"
proof -
  let ?p = "run_agent (\<lambda>_. Inr (Text_output ''done'')) example_request"
  have "\<not> str_contains (example_serialize ?p) output_start_marker" "\<not> str_contains (example_serialize ?p) output_end_marker"
    "\<not> str_contains [] output_start_marker"
    by code_simp+
  moreover have run: "cli (\<lambda>_. Inr example_request) example_serialize (\<lambda>_. Inr (Text_output ''done'')) [] = (write_output example_serialize ?p True, 0)"
    by (simp add: cli_def runner_main_def run_agent_def)
  ultimately show ?thesis unfolding run fst_conv by (subst runner_answer_read [OF refl run example_dumped]) (simp_all)
qed

theorem marked_answer_lost_witness:
  "parse_runner_output ([] @ fst (cli (\<lambda>_. Inr example_request) example_serialize (\<lambda>_. Inr (Text_output (''see '' @ output_end_marker))) []) @ [])
     [] 0 ''container'' = Failed_answer ''container runner produced invalid JSON output'' 0"
proof -
  let ?p = "run_agent (\<lambda>_. Inr (Text_output (''see '' @ output_end_marker))) example_request"
  have "\<not> str_contains (example_serialize ?p) output_start_marker" "str_contains (example_serialize ?p) output_end_marker"
    "\<not> str_contains [] output_start_marker"
    by code_simp+
  moreover have run: "cli (\<lambda>_. Inr example_request) example_serialize (\<lambda>_. Inr (Text_output (''see '' @ output_end_marker))) [] = (write_output example_serialize ?p True, 0)"
    by (simp add: cli_def runner_main_def run_agent_def)
  ultimately show ?thesis unfolding run fst_conv by (subst marked_answer_lost [OF refl run example_dumped]) (simp_all)
qed

end
