(* ===== verification/ContainerSetup.thy ===== *)
theory ContainerSetup
  imports UserDirs RunnerProtocol
begin

text \<open>
  What an agent's process is started with: the directories that a container mounts (\<open>infra/exec/docker.py\<close>), its
  name, environment and command (\<open>infra/exec/container_manager.py\<close>, \<open>services/execution_backends.py\<close>), and the
  restrictions of a process on the host (\<open>infra/exec/process.py\<close>). The docker daemon is an argument.
\<close>

section \<open>Volumes\<close>

datatype docker_error = Docker_execution_error string | Docker_value_error string | File_error file_exn

type_synonym 'a docker_result = "(docker_error + 'a) \<times> filesys"

definition sessions_container_path :: string where "sessions_container_path = ''/home/portex/.claude''"
definition memory_container_path :: string where "memory_container_path = ''/workspace/memory''"
definition ipc_container_path :: string where "ipc_container_path = ''/workspace/ipc''"
definition group_container_path :: string where "group_container_path = ''/workspace/group''"
definition skills_container_path :: string where "skills_container_path = ''/workspace/skills''"

definition path_text :: "path \<Rightarrow> string" where
  "path_text p = CHR ''/'' # join_names p"

definition validate_path_segment :: "string \<Rightarrow> string \<Rightarrow> docker_error + string" where
  "validate_path_segment value label =
     (if \<not> safe_segment value
      then Inl (Docker_execution_error (''Invalid '' @ label @ '' '' @ [CHR 0x27] @ value @ [CHR 0x27] @ '': resolved path is outside allowed roots''))
      else Inr value)"

text \<open>The host path with its place in the container and its mode.\<close>

type_synonym volumes = "(path, string \<times> string) dict"

definition build_volume :: "path \<Rightarrow> string \<Rightarrow> bool \<Rightarrow> volumes" where
  "build_volume host container_path read_only = [(host, container_path, if read_only then ''ro'' else ''rw'')]"

definition build_readonly_volume :: "path \<Rightarrow> string \<Rightarrow> volumes" where
  "build_readonly_volume host container_path = build_volume host container_path True"

definition from_files :: "'a fs_result \<Rightarrow> ('a \<Rightarrow> filesys \<Rightarrow> 'b docker_result) \<Rightarrow> 'b docker_result" where
  "from_files r k = (case r of (Inl e, fs) \<Rightarrow> (Inl (File_error e), fs) | (Inr x, fs) \<Rightarrow> k x fs)"

definition docker_then :: "'a docker_result \<Rightarrow> ('a \<Rightarrow> filesys \<Rightarrow> 'b docker_result) \<Rightarrow> 'b docker_result" where
  "docker_then r k = (case r of (Inl e, fs) \<Rightarrow> (Inl e, fs) | (Inr x, fs) \<Rightarrow> k x fs)"

definition scoped_directory :: "filesys \<Rightarrow> path \<Rightarrow> string list \<Rightarrow> string \<Rightarrow> path docker_result" where
  "scoped_directory fs dir parts label =
     from_files (path_resolve fs dir, fs) (\<lambda>base_root fs.
     from_files (mkdir_parents fs base_root) (\<lambda>_ fs.
     from_files (path_resolve fs (fold (\<lambda>s p. path_join p s) parts base_root), fs) (\<lambda>candidate fs.
     from_files (validate_path fs candidate [base_root], fs) (\<lambda>valid fs.
       if \<not> valid
       then (Inl (Docker_execution_error (''Invalid '' @ label @ '' '' @ [CHR 0x27] @ hd parts @ [CHR 0x27] @ '': resolved path '' @
               [CHR 0x27] @ path_text candidate @ [CHR 0x27] @ '' is outside allowed roots'')), fs)
       else from_files (mkdir_parents fs candidate) (\<lambda>_ fs. (Inr candidate, fs))))))"

definition dict_merge :: "('k, 'v) dict \<Rightarrow> ('k, 'v) dict \<Rightarrow> ('k, 'v) dict" where
  "dict_merge new old = fold (\<lambda>(k, v) d. dict_set k v d) new old"

text \<open>\<open>data_root\<close> is the absolute path that is meant, after \<open>expanduser\<close>.\<close>

definition build_volumes :: "filesys \<Rightarrow> path \<Rightarrow> string \<Rightarrow> string \<Rightarrow> string set \<Rightarrow> volumes docker_result" where
  "build_volumes fs data_root group_folder uid readonly_names =
     from_files (path_resolve fs data_root, fs) (\<lambda>base fs.
     docker_then (validate_path_segment group_folder ''group_folder'', fs) (\<lambda>g fs.
     docker_then (validate_path_segment uid ''user_id'', fs) (\<lambda>u fs.
     docker_then (scoped_directory fs (base @ [''sessions'']) [g, ''.claude''] ''group_folder'') (\<lambda>sessions_dir fs.
     docker_then (scoped_directory fs (base @ [''memory'']) [g] ''group_folder'') (\<lambda>memory_dir fs.
     docker_then (scoped_directory fs (base @ [''ipc'']) [g] ''group_folder'') (\<lambda>ipc_dir fs.
     docker_then (scoped_directory fs (base @ [''groups'']) [g] ''group_folder'') (\<lambda>group_dir fs.
     docker_then (scoped_directory fs (base @ [''skills'']) [u] ''user_id'') (\<lambda>skills_dir fs.
       (Inr
         (dict_merge (if ''skills'' \<notin> readonly_names then build_readonly_volume skills_dir skills_container_path
                      else build_volume skills_dir skills_container_path True)
         (dict_merge (build_volume group_dir group_container_path (''group'' \<in> readonly_names))
         (dict_merge (build_volume ipc_dir ipc_container_path (''ipc'' \<in> readonly_names))
         (dict_merge (build_volume memory_dir memory_container_path (''memory'' \<in> readonly_names))
         (dict_merge (build_volume sessions_dir sessions_container_path (''sessions'' \<in> readonly_names)) []))))), fs)))))))))"

section \<open>Names, environment, command\<close>

definition container_command :: "string list" where
  "container_command = [''python'', ''-m'', ''src.runner'']"

text \<open>\<open>_CONTAINER_NAME_SEGMENT.sub("-", value)\<close>: a hyphen for every longest run of other characters.\<close>

definition name_char :: "char \<Rightarrow> bool" where
  "name_char c \<longleftrightarrow> ascii_alnum c \<or> c \<in> {CHR ''_'', CHR ''.'', CHR ''-''}"

function sub_runs :: "string \<Rightarrow> string" where
  "sub_runs s =
     (case s of
        [] \<Rightarrow> []
      | c # cs \<Rightarrow> if name_char c then c # sub_runs cs else CHR ''-'' # sub_runs (dropWhile (\<lambda>d. \<not> name_char d) cs))"
  by pat_completeness auto
termination
  by (relation "measure length") (auto simp: le_imp_less_Suc length_dropWhile_le)

definition sanitize_container_name_segment :: "string \<Rightarrow> string \<Rightarrow> string" where
  "sanitize_container_name_segment value fallback =
     (let edge = (\<lambda>c. c = CHR ''-'' \<or> c = CHR ''.'');
          sanitized = rev (dropWhile edge (rev (dropWhile edge (sub_runs value))))
      in if sanitized = [] then fallback else sanitized)"

definition or_empty :: "string option \<Rightarrow> string" where
  "or_empty v = (case v of None \<Rightarrow> [] | Some s \<Rightarrow> s)"

definition build_container_name :: "string \<Rightarrow> container_input \<Rightarrow> string" where
  "build_container_name group_folder payload =
     (let safe_group = sanitize_container_name_segment group_folder ''group'';
          safe_session = sanitize_container_name_segment (or_empty (input_session payload)) []
      in if safe_session \<noteq> [] then ''portex-agent-'' @ safe_group @ ''-'' @ safe_session else ''portex-agent-'' @ safe_group)"

definition build_environment :: "string \<Rightarrow> container_input \<Rightarrow> (string, string) dict" where
  "build_environment group_folder payload =
     [(''PORTEX_RUN_MODE'', ''container''), (''PORTEX_GROUP_FOLDER'', group_folder),
      (''PORTEX_SESSION_ID'', or_empty (input_session payload)), (''PORTEX_AGENT_NAME'', input_agent payload),
      (''PORTEX_GROUP_DIR'', group_container_path), (''PORTEX_IPC_DIR'', ipc_container_path),
      (''PORTEX_MEMORY_DIR'', memory_container_path), (''PORTEX_SKILLS_DIR'', skills_container_path),
      (''PORTEX_SESSIONS_DIR'', sessions_container_path)]"

record container_manager =
  container_image :: string
  container_data_root :: path
  readonly_mounts :: "string set"

definition build_runner_volumes :: "container_manager \<Rightarrow> filesys \<Rightarrow> string \<Rightarrow> string \<Rightarrow> volumes docker_result" where
  "build_runner_volumes m fs group_folder uid =
     build_volumes fs (container_data_root m) group_folder uid (readonly_mounts m)"

definition volume_args :: "volumes \<Rightarrow> string list" where
  "volume_args mounts =
     concat (map (\<lambda>(host, bind, mode). [''-v'', path_text host @ '':'' @ bind @ (if mode = ''ro'' then '':ro'' else [])]) mounts)"

definition build_command ::
  "string \<Rightarrow> container_manager \<Rightarrow> filesys \<Rightarrow> string \<Rightarrow> string \<Rightarrow> container_input \<Rightarrow> string \<Rightarrow> string list docker_result" where
  "build_command docker m fs group_folder uid payload container_name =
     docker_then (build_runner_volumes m fs group_folder uid) (\<lambda>mounts fs.
       (Inr ([docker, ''run'', ''-i'', ''--rm'', ''--name'', container_name] @ volume_args mounts @
          concat (map (\<lambda>(key, value). [''-e'', key @ ''='' @ value]) (build_environment group_folder payload)) @
          [''-w'', group_container_path, container_image m] @ container_command), fs))"

text \<open>
  Calls of the docker client: \<open>fails\<close> tells, after the calls so far, which next call raises
  \<open>DockerExecutionError\<close>.
\<close>

datatype docker_call =
    Run_container string "string list" volumes "(string, string) dict" string
  | Stop_container string int
  | Wait_container string
  | Remove_container string bool

definition docker_calls :: "(docker_call list \<Rightarrow> docker_call \<Rightarrow> bool) \<Rightarrow> docker_call list \<Rightarrow> bool \<times> docker_call list" where
  "docker_calls fails calls = fold (\<lambda>c (failed, made). if failed then (failed, made) else (fails made c, made @ [c])) calls (False, [])"

definition start_agent_container :: "container_manager \<Rightarrow> filesys \<Rightarrow> string \<Rightarrow> string \<Rightarrow> container_input \<Rightarrow> docker_call docker_result" where
  "start_agent_container m fs group_folder uid payload =
     (if input_group payload \<noteq> group_folder
      then (Inl (Docker_value_error ''Container payload group_folder does not match the requested group_folder''), fs)
      else docker_then (build_runner_volumes m fs group_folder uid) (\<lambda>mounts fs.
        (Inr (Run_container (container_image m) container_command mounts (build_environment group_folder payload)
           (build_container_name group_folder payload)), fs)))"

definition stop_container :: "(docker_call list \<Rightarrow> docker_call \<Rightarrow> bool) \<Rightarrow> string \<Rightarrow> int \<Rightarrow> bool \<times> docker_call list" where
  "stop_container fails cid timeout = docker_calls fails [Stop_container cid timeout, Remove_container cid False]"

definition graceful_shutdown :: "(docker_call list \<Rightarrow> docker_call \<Rightarrow> bool) \<Rightarrow> string \<Rightarrow> int \<Rightarrow> bool \<times> docker_call list" where
  "graceful_shutdown fails cid timeout =
     (let (failed, made) = docker_calls fails [Stop_container cid timeout, Wait_container cid, Remove_container cid False];
          forced = Remove_container cid True
      in if failed then (fails made forced, made @ [forced]) else (False, made))"

section \<open>Processes on the host\<close>

datatype forbidden_rule = Text_rule string | Prefix_rule "string list"

text \<open>\<open>" ".join(command)\<close>.\<close>

definition join_words :: "string list \<Rightarrow> string" where
  "join_words ws = concat (case ws of [] \<Rightarrow> [] | w # rest \<Rightarrow> w # map (\<lambda>v. CHR '' '' # v) rest)"

fun rule_matches :: "string list \<Rightarrow> forbidden_rule \<Rightarrow> bool" where
  "rule_matches command (Text_rule text) = str_contains (join_words command) text"
| "rule_matches command (Prefix_rule words) =
     (if words = [] \<or> length command < length words then False
      else if last words \<noteq> [] \<and> last (last words) = CHR ''=''
      then take (length words - 1) command = butlast words \<and> py_startswith (command ! (length words - 1)) (last words)
      else take (length words) command = words)"

fun is_command_forbidden :: "string list \<Rightarrow> forbidden_rule list \<Rightarrow> bool" where
  "is_command_forbidden command [] = False"
| "is_command_forbidden command (rule # rules) = (rule_matches command rule \<or> is_command_forbidden command rules)"

record process_executor =
  executor_data_root :: path
  runner_root :: path
  python_executable :: string
  allowed_directories :: "path list"
  forbidden_commands :: "forbidden_rule list"
  max_execution_time :: int

text \<open>The executor with the default restrictions, on resolved roots.\<close>

definition process_executor_init :: "filesys \<Rightarrow> path \<Rightarrow> path \<Rightarrow> string \<Rightarrow> file_exn + process_executor" where
  "process_executor_init fs data runner python =
     (case path_resolve fs data of
        Inl e \<Rightarrow> Inl e
      | Inr data_root \<Rightarrow>
          (case path_resolve fs runner of
             Inl e \<Rightarrow> Inl e
           | Inr runner \<Rightarrow>
               (case path_resolve fs (data_root @ [''groups'']) of
                  Inl e \<Rightarrow> Inl e
                | Inr groups_dir \<Rightarrow>
                    (case path_resolve fs runner of
                       Inl e \<Rightarrow> Inl e
                     | Inr runner' \<Rightarrow>
                         Inr \<lparr>executor_data_root = data_root, runner_root = runner, python_executable = python,
                           allowed_directories = [groups_dir, runner'],
                           forbidden_commands = [Text_rule ''rm -rf /'', Text_rule ''dd if=''], max_execution_time = 3600\<rparr>))))"

definition build_host_command :: "process_executor \<Rightarrow> string list" where
  "build_host_command x = [python_executable x, ''-m'', ''src.runner'']"

datatype process_error = Process_execution_error string | Process_file_error file_exn

definition resolve_group_dir :: "process_executor \<Rightarrow> filesys \<Rightarrow> string \<Rightarrow> (process_error + path) \<times> filesys" where
  "resolve_group_dir x fs group_folder =
     (case path_resolve fs (path_join (executor_data_root x @ [''groups'']) group_folder) of
        Inl e \<Rightarrow> (Inl (Process_file_error e), fs)
      | Inr group_dir \<Rightarrow>
          (case validate_path fs group_dir (allowed_directories x) of
             Inl e \<Rightarrow> (Inl (Process_file_error e), fs)
           | Inr valid \<Rightarrow>
               if \<not> valid
               then (Inl (Process_execution_error (''Group directory '' @ [CHR 0x27] @ path_text group_dir @ [CHR 0x27] @
                       '' is outside allowed host directories'')), fs)
               else (case mkdir_parents fs group_dir of
                       (Inl e, fs1) \<Rightarrow> (Inl (Process_file_error e), fs1)
                     | (Inr _, fs1) \<Rightarrow> (Inr group_dir, fs1))))"

definition validate_runner_root :: "process_executor \<Rightarrow> filesys \<Rightarrow> process_error + path" where
  "validate_runner_root x fs =
     (case validate_path fs (runner_root x) (allowed_directories x) of
        Inl e \<Rightarrow> Inl (Process_file_error e)
      | Inr valid \<Rightarrow>
          if \<not> valid
          then Inl (Process_execution_error (''Runner root '' @ [CHR 0x27] @ path_text (runner_root x) @ [CHR 0x27] @
                 '' is outside allowed host directories''))
          else Inr (runner_root x))"

definition resolve_timeout :: "process_executor \<Rightarrow> int option \<Rightarrow> int" where
  "resolve_timeout x timeout = (case timeout of None \<Rightarrow> max_execution_time x | Some t \<Rightarrow> min t (max_execution_time x))"

text \<open>\<open>env.update\<close> over the environment of the service.\<close>

definition build_host_env :: "(string, string) dict \<Rightarrow> string \<Rightarrow> path \<Rightarrow> (string, string) dict" where
  "build_host_env environ group_folder group_dir =
     dict_merge [(''PORTEX_RUN_MODE'', ''host''), (''PORTEX_GROUP_FOLDER'', group_folder), (''PORTEX_GROUP_DIR'', path_text group_dir)]
       environ"

text \<open>What \<open>run_agent\<close> asks the operating system for: command, working directory, environment and time limit.\<close>

record process_start =
  start_command :: "string list"
  start_directory :: path
  start_environment :: "(string, string) dict"
  start_timeout :: int

definition host_process_start ::
  "process_executor \<Rightarrow> filesys \<Rightarrow> (string, string) dict \<Rightarrow> string \<Rightarrow> int option \<Rightarrow> (process_error + process_start) \<times> filesys" where
  "host_process_start x fs environ group_folder timeout =
     (case resolve_group_dir x fs group_folder of
        (Inl e, fs) \<Rightarrow> (Inl e, fs)
      | (Inr group_dir, fs) \<Rightarrow>
          (case validate_runner_root x fs of
             Inl e \<Rightarrow> (Inl e, fs)
           | Inr runner \<Rightarrow>
               if is_command_forbidden (build_host_command x) (forbidden_commands x)
               then (Inl (Process_execution_error ''Refusing to run forbidden host-mode command''), fs)
               else (Inr \<lparr>start_command = build_host_command x, start_directory = runner,
                       start_environment = build_host_env environ group_folder group_dir,
                       start_timeout = resolve_timeout x timeout\<rparr>, fs)))"

section \<open>Directories that were made\<close>

lemma walk_made:
  "walk fs False cur todo n = Absent q \<Longrightarrow> walk (dict_set q Dir_node fs) True cur todo n = Found q"
proof (induction fs False cur todo n rule: walk.induct)
  case (2 fs cur s todo n)
  from walk_Absent [OF "2.prems"] have q: "node_at fs q = None" "q \<noteq> []" by simp_all
  show ?case
  proof (cases "s = ''..''")
    case True
    with 2 show ?thesis by simp
  next
    case False
    show ?thesis
    proof (cases "node_at fs (cur @ [s])")
      case None
      with False 2 q show ?thesis by (auto split: if_splits)
    next
      case (Some v)
      with q have "cur @ [s] \<noteq> q" by auto
      with Some False q 2 show ?thesis by (cases v) (auto split: if_splits)
    qed
  qed
qed simp

lemma os_mkdir_is_dir:
  assumes "os_mkdir fs p = Inr fs'"
  shows "path_is_dir fs' p"
proof -
  from assms obtain q where q: "kernel fs False p = Absent q" "fs' = dict_set q Dir_node fs"
    by (auto simp: os_mkdir_def split: walk_result.splits)
  with kernel_Absent [OF q(1)] show ?thesis by (simp add: path_is_dir_def kernel_def walk_made)
qed

lemma mkdir_exist_ok_is_dir: "mkdir_exist_ok fs p = (Inr u, fs') \<Longrightarrow> path_is_dir fs' p"
  by (auto simp: mkdir_exist_ok_def os_mkdir_is_dir split: sum.splits if_splits)

lemma mkdir_parents_is_dir: "mkdir_parents fs p = (Inr u, fs') \<Longrightarrow> path_is_dir fs' p"
  by (subst (asm) mkdir_parents.simps)
    (auto simp: os_mkdir_is_dir dest!: and_then_Inr mkdir_exist_ok_is_dir split: sum.splits if_splits)

text \<open>A path that leads to a directory below a place.\<close>

definition leads_below :: "filesys \<Rightarrow> path \<Rightarrow> path \<Rightarrow> bool" where
  "leads_below fs p d \<longleftrightarrow> (\<exists>r. kernel fs True p = Found r \<and> node_at fs r = Some Dir_node \<and> prefix d r)"

lemma leads_below_later:
  assumes "leads_below fs p d" and "dirs_added fs fs'"
  shows "leads_below fs' p d"
proof -
  from assms(1) obtain r where r: "kernel fs True p = Found r" "node_at fs r = Some Dir_node" "prefix d r"
    by (auto simp: leads_below_def)
  have keep: "node_at fs q = Some v \<Longrightarrow> node_at fs' q = Some v" for q v
    using assms(2) unfolding dirs_added_def by (metis option.distinct(1))
  have "kernel fs' True p = Found r"
    unfolding kernel_def by (rule walk_keeps [OF r(1) [unfolded kernel_def]]) (use keep r(2) in auto)
  with r keep show ?thesis by (auto simp: leads_below_def)
qed

lemma checked_leads_below:
  assumes "validate_path fs p ds = Inr True" and "\<forall>d \<in> set ds. clean fs d" and "mkdir_parents fs p = (Inr u, fs')"
  shows "\<exists>d \<in> set ds. leads_below fs' p d"
proof -
  have added: "dirs_added fs fs'" using assms(3) by (rule mkdir_parents_dirs)
  from mkdir_parents_is_dir [OF assms(3)] obtain r where r: "kernel fs' True p = Found r" "node_at fs' r = Some Dir_node"
    by (auto simp: path_is_dir_def split: walk_result.splits)
  from assms(1) obtain c where c: "path_resolve fs p = Inr c" "under_some_root fs c ds = Inr True"
    by (auto simp: validate_path_def split: sum.splits)
  have "r = c" using kernel_follows_earlier_resolve [OF c(1) dirs_added_same_links [OF added]] r(1) by blast
  moreover have "\<exists>d \<in> set ds. prefix d c"
    using c(2) assms(2) by (induction ds) (auto simp: relative_to_def dest: clean_resolve split: sum.splits if_splits)
  ultimately show ?thesis using r by (auto simp: leads_below_def)
qed

lemma from_files_Inr: "from_files r k = (Inr y, fs') \<longleftrightarrow> (\<exists>x fs. r = (Inr x, fs) \<and> k x fs = (Inr y, fs'))"
  by (auto simp: from_files_def split: prod.splits sum.splits)

lemma docker_then_Inr: "docker_then r k = (Inr y, fs') \<longleftrightarrow> (\<exists>x fs. r = (Inr x, fs) \<and> k x fs = (Inr y, fs'))"
  by (auto simp: docker_then_def split: prod.splits sum.splits)

lemma scoped_directory_inside:
  assumes "scoped_directory fs dir parts label = (Inr q, fs')" and "clean fs dir"
  shows "dirs_added fs fs'" and "leads_below fs' q dir"
    and "clean fs (fold (\<lambda>s p. path_join p s) parts dir) \<Longrightarrow> q = fold (\<lambda>s p. path_join p s) parts dir"
    and "kernel fs'' True (fold (\<lambda>s p. path_join p s) parts dir) = Found r \<Longrightarrow> dirs_added fs' fs'' \<Longrightarrow> r = q"
proof -
  from assms obtain fs1 where fs1: "mkdir_parents fs dir = (Inr (), fs1)"
    and q: "path_resolve fs1 (fold (\<lambda>s p. path_join p s) parts dir) = Inr q"
    "validate_path fs1 q [dir] = Inr True" "mkdir_parents fs1 q = (Inr (), fs')"
    by (auto simp: scoped_directory_def from_files_Inr dest!: clean_resolve split: if_splits)
  have added: "dirs_added fs fs1" "dirs_added fs1 fs'" using fs1 q(3) mkdir_parents_dirs by blast+
  then show "dirs_added fs fs'" by (rule dirs_added_trans)
  have "clean fs1 dir" using assms(2) same_links_clean [OF dirs_added_same_links [OF added(1)]] by blast
  then show "leads_below fs' q dir" using checked_leads_below [OF q(2) _ q(3)] by simp
  show "r = q" if "kernel fs'' True (fold (\<lambda>s p. path_join p s) parts dir) = Found r" "dirs_added fs' fs''"
    using kernel_follows_earlier_resolve [OF q(1) dirs_added_same_links [OF dirs_added_trans [OF added(2) that(2)]]] that(1) by blast
  assume "clean fs (fold (\<lambda>s p. path_join p s) parts dir)"
  then have "clean fs1 (fold (\<lambda>s p. path_join p s) parts dir)"
    using same_links_clean [OF dirs_added_same_links [OF added(1)]] by blast
  then show "q = fold (\<lambda>s p. path_join p s) parts dir" using q(1) by (rule clean_resolve)
qed

text \<open>
  The directory for a name below a part of the data directory: it is the path with the name when no part of that
  is a link; with links it is where that path leads, and a directory that is the part or lies below it.
\<close>

definition directory_for :: "filesys \<Rightarrow> filesys \<Rightarrow> path \<Rightarrow> path \<Rightarrow> string list \<Rightarrow> bool" where
  "directory_for fs fs' q dir parts \<longleftrightarrow>
     leads_below fs' q dir \<and> (clean fs (dir @ parts) \<longrightarrow> q = dir @ parts) \<and>
     (\<forall>r. kernel fs' True (dir @ parts) = Found r \<longrightarrow> q = r)"

lemma scoped_directory_later:
  assumes "dirs_added fs0 fs" and "clean fs0 dir" and "scoped_directory fs dir parts label = (Inr q, fs')"
    and "fold (\<lambda>s p. path_join p s) parts dir = dir @ parts"
  shows "dirs_added fs0 fs'" and "dirs_added fs fs'" and "leads_below fs' q dir"
    and "dirs_added fs' fs'' \<Longrightarrow> directory_for fs0 fs'' q dir parts"
proof -
  have same: "clean fs p \<longleftrightarrow> clean fs0 p" for p using assms(1) same_links_clean dirs_added_same_links by blast
  then have "clean fs dir" using assms(2) by blast
  note inside = scoped_directory_inside [OF assms(3) this]
  from inside(1,2) show "dirs_added fs fs'" "leads_below fs' q dir" .
  with assms(1) show "dirs_added fs0 fs'" by (blast intro: dirs_added_trans)
  assume "dirs_added fs' fs''"
  with inside(2-4) assms(4) same show "directory_for fs0 fs'' q dir parts"
    by (auto simp: directory_for_def leads_below_later)
qed

lemma leads_apart: "leads_below fs p (d @ [a]) \<Longrightarrow> leads_below fs p (d @ [b]) \<Longrightarrow> a = b"
  by (auto simp: leads_below_def prefix_def)

section \<open>What an agent can reach\<close>

definition mount_mode :: "string set \<Rightarrow> string \<Rightarrow> string" where
  "mount_mode readonly_names kind = (if kind \<in> readonly_names then ''ro'' else ''rw'')"

lemma merge_distinct:
  assumes "distinct [s, m, i, w, k]"
  shows "dict_merge [(k, a)] (dict_merge [(w, b)] (dict_merge [(i, c)] (dict_merge [(m, d)] (dict_merge [(s, e)] [])))) =
    [(s, e), (m, d), (i, c), (w, b), (k, a)]"
  using assms by (simp add: dict_merge_def)

lemma path_join_claude: "path_join p ''.claude'' = p @ [''.claude'']"
  by (simp add: path_join_def path_absolute_def) code_simp

text \<open>C40: A container gets five directories and nothing else: the sessions, memory, messages and files of its workspace
and, never to be written, the skills of the user. The names of workspace and user are plain, and each directory is the
one with that name below its part of the data directory; where links are on that path it is where the path leads, which
is a directory of the same part (the part itself, when a link says so). Each of them exists, and only directories were
added on the way. The parts themselves are assumed to be no links.\<close>

theorem mounts_confined:
  assumes "build_volumes fs data g u ro = (Inr mounts, fs')" and "clean fs data"
    and "\<forall>kind \<in> {''sessions'', ''memory'', ''ipc'', ''groups'', ''skills''}. no_link fs (data @ [kind])"
  shows "safe_segment g \<and> safe_segment u \<and> dirs_added fs fs' \<and>
    (\<exists>s m i w k. mounts =
        [(s, sessions_container_path, mount_mode ro ''sessions''), (m, memory_container_path, mount_mode ro ''memory''),
         (i, ipc_container_path, mount_mode ro ''ipc''), (w, group_container_path, mount_mode ro ''group''),
         (k, skills_container_path, ''ro'')] \<and>
      directory_for fs fs' s (data @ [''sessions'']) [g, ''.claude''] \<and> directory_for fs fs' m (data @ [''memory'']) [g] \<and>
      directory_for fs fs' i (data @ [''ipc'']) [g] \<and> directory_for fs fs' w (data @ [''groups'']) [g] \<and>
      directory_for fs fs' k (data @ [''skills'']) [u])"
proof -
  from assms(1) clean_resolve [OF assms(2)] obtain s m i w k fs1 fs2 fs3 fs4 where safe: "safe_segment g" "safe_segment u"
    and dirs: "scoped_directory fs (data @ [''sessions'']) [g, ''.claude''] ''group_folder'' = (Inr s, fs1)"
      "scoped_directory fs1 (data @ [''memory'']) [g] ''group_folder'' = (Inr m, fs2)"
      "scoped_directory fs2 (data @ [''ipc'']) [g] ''group_folder'' = (Inr i, fs3)"
      "scoped_directory fs3 (data @ [''groups'']) [g] ''group_folder'' = (Inr w, fs4)"
      "scoped_directory fs4 (data @ [''skills'']) [u] ''user_id'' = (Inr k, fs')"
    and mounts: "mounts = dict_merge [(k, skills_container_path, ''ro'')] (dict_merge [(w, group_container_path, mount_mode ro ''group'')]
      (dict_merge [(i, ipc_container_path, mount_mode ro ''ipc'')] (dict_merge [(m, memory_container_path, mount_mode ro ''memory'')]
      (dict_merge [(s, sessions_container_path, mount_mode ro ''sessions'')] []))))"
    by (auto simp: build_volumes_def from_files_Inr docker_then_Inr validate_path_segment_def build_volume_def
        build_readonly_volume_def mount_mode_def split: if_splits)
  have clean: "clean fs (data @ [''sessions''])" "clean fs (data @ [''memory''])" "clean fs (data @ [''ipc''])"
    "clean fs (data @ [''groups''])" "clean fs (data @ [''skills''])"
    using assms(2,3) by simp_all
  have joined: "fold (\<lambda>s p. path_join p s) [g, ''.claude''] dir = dir @ [g, ''.claude'']"
    "fold (\<lambda>s p. path_join p s) [g] dir = dir @ [g]" "fold (\<lambda>s p. path_join p s) [u] dir = dir @ [u]" for dir
    using safe by (simp_all add: path_join_claude)
  note s = scoped_directory_later [OF dirs_added_refl clean(1) dirs(1) joined(1)]
  note m = scoped_directory_later [OF s(1) clean(2) dirs(2) joined(2)]
  note i = scoped_directory_later [OF m(1) clean(3) dirs(3) joined(2)]
  note w = scoped_directory_later [OF i(1) clean(4) dirs(4) joined(2)]
  note k = scoped_directory_later [OF w(1) clean(5) dirs(5) joined(3)]
  have rest: "dirs_added fs4 fs'" "dirs_added fs3 fs'" "dirs_added fs2 fs'" "dirs_added fs1 fs'"
    using m(2) i(2) w(2) k(2) by (blast intro: dirs_added_trans)+
  have own: "directory_for fs fs' s (data @ [''sessions'']) [g, ''.claude'']" "directory_for fs fs' m (data @ [''memory'']) [g]"
    "directory_for fs fs' i (data @ [''ipc'']) [g]" "directory_for fs fs' w (data @ [''groups'']) [g]"
    "directory_for fs fs' k (data @ [''skills'']) [u]"
    using s(4) [OF rest(4)] m(4) [OF rest(3)] i(4) [OF rest(2)] w(4) [OF rest(1)] k(4) [OF dirs_added_refl] by blast+
  then have below: "leads_below fs' s (data @ [''sessions''])" "leads_below fs' m (data @ [''memory''])" "leads_below fs' i (data @ [''ipc''])"
    "leads_below fs' w (data @ [''groups''])" "leads_below fs' k (data @ [''skills''])" by (simp_all add: directory_for_def)
  then have "distinct [s, m, i, w, k]" by (auto dest: leads_apart)
  with mounts have mounts': "mounts = [(s, sessions_container_path, mount_mode ro ''sessions''), (m, memory_container_path, mount_mode ro ''memory''),
      (i, ipc_container_path, mount_mode ro ''ipc''), (w, group_container_path, mount_mode ro ''group''), (k, skills_container_path, ''ro'')]"
    by (simp add: merge_distinct)
  from safe k(1) mounts' own show ?thesis by blast
qed

text \<open>A process on the host is started with the fixed command in the runner's directory, for at most an hour; the
directory it is told to work in exists, and leads below the directory of the workspaces or, since that is allowed too,
below the runner's own. Whatever the answer, only directories were added.\<close>

theorem host_process_confined:
  assumes "process_executor_init fs data runner python = Inr x" and "same_links fs fs1"
    and "clean fs (executor_data_root x @ [''groups''])" and "clean fs (runner_root x)"
    and "host_process_start x fs1 environ g timeout = (r, fs2)"
  shows "dirs_added fs1 fs2 \<and>
    (case r of
       Inl e \<Rightarrow> True
     | Inr st \<Rightarrow>
         start_command st = [python, ''-m'', ''src.runner''] \<and> start_directory st = runner_root x \<and> start_timeout st \<le> 3600 \<and>
         (\<exists>gd. dict_get (start_environment st) ''PORTEX_GROUP_DIR'' = Some (path_text gd) \<and>
            (leads_below fs2 gd (executor_data_root x @ [''groups'']) \<or> leads_below fs2 gd (runner_root x))))"
proof -
  have x: "allowed_directories x = [executor_data_root x @ [''groups''], runner_root x]" "python_executable x = python"
    "max_execution_time x = 3600"
    using assms(1,3,4) clean_resolve by (auto simp: process_executor_init_def simp del: clean_snoc split: sum.splits)
  have clean: "\<forall>d \<in> set (allowed_directories x). clean fs1 d"
    using assms(2-4) same_links_clean by (auto simp: x)
  obtain gr fs' where gr: "resolve_group_dir x fs1 g = (gr, fs')" by fastforce
  have made: "dirs_added fs1 fs' \<and> (\<forall>gd. gr = Inr gd \<longrightarrow> (\<exists>d \<in> set (allowed_directories x). leads_below fs' gd d))"
    using gr checked_leads_below [OF _ clean] mkdir_parents_dirs
    by (auto simp: resolve_group_dir_def split: sum.splits if_splits prod.splits)
  have fs2: "fs2 = fs'"
    using assms(5) gr by (auto simp: host_process_start_def split: sum.splits if_splits)
  show ?thesis
  proof (cases r)
    case (Inr st)
    then obtain gd where gd: "gr = Inr gd" and st: "start_command st = build_host_command x" "start_directory st = runner_root x"
      "start_environment st = build_host_env environ g gd" "start_timeout st = resolve_timeout x timeout"
      using assms(5) gr by (auto simp: host_process_start_def validate_runner_root_def split: sum.splits if_splits)
    have "dict_get (start_environment st) ''PORTEX_GROUP_DIR'' = Some (path_text gd)"
      by (simp add: st build_host_env_def dict_merge_def)
    with made gd fs2 Inr st x show ?thesis
      by (auto simp: build_host_command_def resolve_timeout_def split: option.split)
  qed (use made fs2 in simp)
qed

section \<open>Examples\<close>

definition example_data :: filesys where
  "example_data = [([''data''], Dir_node), ([''data'', ''groups''], Dir_node), ([''runner''], Dir_node)]"

lemma example_clean: "clean example_data [''data'']" "clean example_data [''data'', ''groups'']" "clean example_data [''runner'']"
  by (simp_all add: clean_short no_link_def node_at_def example_data_def)

theorem mounts_confined_witness:
  "\<exists>mounts fs'. build_volumes example_data [''data''] ''w'' ''u1'' {} = (Inr mounts, fs') \<and>
     dict_get mounts [''data'', ''groups'', ''w''] = Some (group_container_path, ''rw'') \<and>
     dict_get mounts [''data'', ''skills'', ''u1''] = Some (skills_container_path, ''ro'')"
proof -
  have "\<not> isl (fst (build_volumes example_data [''data''] ''w'' ''u1'' {}))" by code_simp
  then obtain mounts fs' where run: "build_volumes example_data [''data''] ''w'' ''u1'' {} = (Inr mounts, fs')"
    by (cases "build_volumes example_data [''data''] ''w'' ''u1'' {}"; cases "fst (build_volumes example_data [''data''] ''w'' ''u1'' {})") auto
  have "\<forall>kind \<in> {''sessions'', ''memory'', ''ipc'', ''groups'', ''skills''}. no_link example_data ([''data''] @ [kind])"
    by (simp add: no_link_def node_at_def example_data_def)
  from mounts_confined [OF run example_clean(1) this] obtain s m i w k where
    mounts: "mounts = [(s, sessions_container_path, mount_mode {} ''sessions''), (m, memory_container_path, mount_mode {} ''memory''),
         (i, ipc_container_path, mount_mode {} ''ipc''), (w, group_container_path, mount_mode {} ''group''),
         (k, skills_container_path, ''ro'')]"
    and own: "directory_for example_data fs' s ([''data''] @ [''sessions'']) [''w'', ''.claude'']"
      "directory_for example_data fs' m ([''data''] @ [''memory'']) [''w'']"
      "directory_for example_data fs' i ([''data''] @ [''ipc'']) [''w'']"
      "directory_for example_data fs' w ([''data''] @ [''groups'']) [''w'']"
      "directory_for example_data fs' k ([''data''] @ [''skills'']) [''u1'']"
    by blast
  have clean: "clean example_data (''data'' # parts)" if "length parts \<ge> 2" "''..'' \<notin> set parts" for parts
    using that by (auto simp: clean_def no_link_def node_at_def example_data_def)
  have "clean example_data [''data'', ''memory'', ''w'']" "clean example_data [''data'', ''ipc'', ''w'']"
    "clean example_data [''data'', ''groups'', ''w'']" "clean example_data [''data'', ''skills'', ''u1'']"
    "clean example_data [''data'', ''sessions'', ''w'', ''.claude'']" by (rule clean; simp)+
  with own
  have "s = [''data'', ''sessions'', ''w'', ''.claude'']" "m = [''data'', ''memory'', ''w'']" "i = [''data'', ''ipc'', ''w'']"
    "w = [''data'', ''groups'', ''w'']" "k = [''data'', ''skills'', ''u1'']" by (simp_all add: directory_for_def)
  with mounts have "dict_get mounts [''data'', ''groups'', ''w''] = Some (group_container_path, ''rw'')"
    "dict_get mounts [''data'', ''skills'', ''u1''] = Some (skills_container_path, ''ro'')" by (simp_all add: mount_mode_def)
  with run show ?thesis by blast
qed

theorem host_process_confined_witness:
  "\<exists>x st fs'. process_executor_init example_data [''data''] [''runner''] ''python'' = Inr x \<and>
     host_process_start x example_data [] ''w'' None = (Inr st, fs') \<and> start_directory st = runner_root x \<and> start_timeout st \<le> 3600"
proof -
  define x where "x = projr (process_executor_init example_data [''data''] [''runner''] ''python'')"
  have "process_executor_init example_data [''data''] [''runner''] ''python'' =
      Inr \<lparr>executor_data_root = [''data''], runner_root = [''runner''], python_executable = ''python'',
        allowed_directories = [[''data'', ''groups''], [''runner'']],
        forbidden_commands = [Text_rule ''rm -rf /'', Text_rule ''dd if=''], max_execution_time = 3600\<rparr>"
    by code_simp
  then have x: "process_executor_init example_data [''data''] [''runner''] ''python'' = Inr x"
    "executor_data_root x = [''data'']" "runner_root x = [''runner'']"
    by (simp_all add: x_def)
  have "\<not> isl (fst (host_process_start x example_data [] ''w'' None))"
    unfolding x_def by code_simp
  then obtain st fs' where run: "host_process_start x example_data [] ''w'' None = (Inr st, fs')"
    by (cases "host_process_start x example_data [] ''w'' None"; cases "fst (host_process_start x example_data [] ''w'' None)") auto
  have clean: "clean example_data (executor_data_root x @ [''groups''])" "clean example_data (runner_root x)"
    using example_clean by (simp_all add: x)
  have "same_links example_data example_data" by simp
  from host_process_confined [OF x(1) this clean run] run x(1) show ?thesis by auto
qed

end
