(* ===== verification/Spec2Isabelle.thy ===== *)
theory Spec2Isabelle
  imports TerminalPortal CoordinatorProtocol WorkspaceInvariant TaskRoutes MemoryProtocol SkillProtocol AccountRoutes ExecutionRoutes McpProtocol UsageAudit ContainerSetup
begin

text \<open>
  Portex: a service through which several users work with AI agents in shared workspaces. This
  development models its core in Python and proves what its parts promise to each other and to their
  users. Paths below are relative to the source tree.

  \<^bold>\<open>The program.\<close> Users register with an invite code or without, log in and hold bearer tokens
  (\<open>services/auth.py\<close>, \<open>app/middleware/auth.py\<close>). A workspace is a row of the table of groups; it has
  members, conversation slots and bindings of chat endpoints (\<open>services/group_registry.py\<close>,
  \<open>services/group_member_service.py\<close>, \<open>services/conversation_slot_service.py\<close>, \<open>app/routes/groups.py\<close>).
  A message is stored, its workspace is found, and it becomes a run of an execution backend; the answer
  goes back over the channel (\<open>services/message_dispatch.py\<close>, \<open>app/routes/messages.py\<close>,
  \<open>app/routes/im.py\<close>). The coordinator runs one execution per group at a time and continues the
  workspace's session (\<open>services/execution_coordinator.py\<close>, \<open>services/workspace_lifecycle.py\<close>). Tasks
  submit runs on a schedule (\<open>services/scheduler.py\<close>, \<open>services/task_service.py\<close>). A workspace has a
  terminal whose output history is kept and searched (\<open>services/terminal_sessions.py\<close>,
  \<open>app/routes/terminals.py\<close>). Files of workspaces, memories and skills lie in directories of the host
  (\<open>infra/exec/security.py\<close> and its clients).

  \<^bold>\<open>The theories.\<close> Each theory imports those it rests on; a theory called \<open>...Protocol\<close>, \<open>...Invariant\<close> or
  \<open>...Access\<close> holds the lemmas and properties of the definitions in the theories it is listed with.
  \<^item> \<open>Prelude\<close>: Python's strings, dictionaries, pages and instants. \<open>Tables\<close>: rows under a key, with
    the locale \<open>keyed_rows\<close> that every table interprets.
  \<^item> Formats. \<open>Json\<close>: \<open>json.loads\<close>, and \<open>json.dumps\<close> with indentation and sorted keys, with their round trip;
    \<open>JsonLine\<close>, \<open>JsonAscii\<close>: \<open>dumps\<close> on one line, without and with \<open>ensure_ascii\<close>; \<open>JsonFiles\<close>: such texts in
    files; \<open>IsoTime\<close>: the calendar, \<open>isoformat\<close> and \<open>fromisoformat\<close>.
  \<^item> Files. \<open>Paths\<close>, \<open>FileSystem\<close>: paths, directories, files and symbolic links, the calls of the services, and the
    two resolutions of a path, the library's and the kernel's (which follows at most 40 links, the limit of Linux).
    \<open>PathSafety\<close>: that they agree, and what a checked path can reach. \<open>UserDirs\<close>: the directories per user.
  \<^item> \<open>TerminalTypes\<close>, \<open>TerminalMatch\<close>, \<open>TerminalRank\<close>: the values and the ranking of the history search.
    \<open>SnapshotCodec\<close>: the JSON payload of a stored history and its validation. \<open>TerminalSessions\<close>: the session
    objects, queues, reconnect tasks and history files, one definition per stretch between two awaits.
    \<open>TerminalInvariant\<close>, \<open>TerminalProtocol\<close>: the invariant over all interleavings and the protocol: one session
    per workspace, ownership, expiry, restart. \<open>TerminalHistory\<close>: the listings and searches.
  \<^item> \<open>TerminalRoutes\<close>, \<open>TerminalSocket\<close>, \<open>TerminalPortal\<close>: the HTTP handlers, the websocket, and what
    they guarantee.
  \<^item> \<open>WorkspaceSessions\<close>, \<open>ExecutionCoordinator\<close>, \<open>CoordinatorInvariant\<close>, \<open>CoordinatorProtocol\<close>: the
    sessions and the coordinator as a step relation with its invariant: one execution per group, a queued run has a
    worker (for ids that are not submitted twice and backends that do not cancel on their own), first in first out
    per group, terminal results are final, the memory is bounded.
  \<^item> \<open>Permissions\<close>, \<open>Accounts\<close>, \<open>AccountProtocol\<close>, \<open>AccountRoutes\<close>: role templates, password hashes, invites,
    tokens, the requests' authentication, and the handlers of registration, login, users and invites.
  \<^item> \<open>WorkspaceRegistry\<close>, \<open>WorkspaceRoutes\<close>, \<open>WorkspaceAccess\<close>, \<open>MessageDispatch\<close>, \<open>WorkspaceInvariant\<close>:
    the three tables, the handlers, the access policy as a specification that the code refines, messages,
    and the well-formedness of the tables in every reachable state.
  \<^item> \<open>TaskScheduler\<close>, \<open>TaskProtocol\<close>, \<open>TaskRoutes\<close>: schedules, overlapping polls, run logs and handlers.
  \<^item> \<open>WorkspaceFiles\<close>, \<open>FileProtocol\<close>: the files of a workspace: uploads, downloads, texts, deletion, and that they
    stay inside. \<open>MemoryFiles\<close>, \<open>MemoryProtocol\<close>: the memories, with the cache.
  \<^item> \<open>Skills\<close>, \<open>SkillProtocol\<close>: the skills of a user, as a refinement of a map of texts. \<open>Settings\<close>,
    \<open>SettingsProtocol\<close>: the settings of users and system, through the locale \<open>settings_cell\<close>. \<open>McpServers\<close>,
    \<open>McpProtocol\<close>: the MCP servers of a user as a map.
  \<^item> \<open>ExecutionRoutes\<close>: the status of a run and the monitor. \<open>UsageAudit\<close>: counts and lists of messages for operators.
  \<^item> \<open>RunnerProtocol\<close>: the agent's process and the frame of its answer (\<open>container/agent-runner/src/runner.py\<close>,
    \<open>services/execution_backends.py\<close>). \<open>ContainerSetup\<close>: the mounts, environment and command of a container or a
    process on the host (\<open>infra/exec\<close>).

  \<^bold>\<open>Conventions.\<close> A dataclass or row is a record, an enumeration a datatype, a dictionary an association
  list in insertion order, a table the list of its rows. Objects that several dictionaries share live in an
  explicit heap. A coroutine is split at its awaits; each stretch is one definition from state to state, and
  the step relations let the stretches of all tasks interleave. Errors are values of sum types. Strings are
  lists of characters below 256; an instant is the number of microseconds since the epoch, without bounds
  except where the code adds to it or prints it. Random values (\<open>uuid4\<close>, salts) and readings of the clock are
  arguments of the operations.

  \<^bold>\<open>Parameters.\<close> \<open>scrypt\<close>, \<open>sha1\<close>, the JWT library, \<open>croniter\<close>, pydantic's serializer, the agents SDK, execution
  backends, terminal bridges, channel handlers and the docker client are arguments; so are the table of
  \<open>mimetypes\<close> (\<open>guess_type\<close>), what \<open>stat\<close> reports of a directory (\<open>dir_stat\<close>), \<open>str\<close> of a JSON value that is no
  text (\<open>strs\<close>) and the emoji that no character below 256 can show (\<open>robot\<close>). What a property needs of one is a
  hypothesis of that property, and its witness supplies a concrete function. No definition needs fuel: loops are
  recursions with a measure, except the search for the next run of an interval task, which is a partial function
  that is proved to return.

  \<^bold>\<open>Limits.\<close> Each operation on files runs as one step: another process that changes links between the check of a
  path and its use is not modelled, nor is the later opening of a download by the framework (the properties say what
  a reader finds while the links are the same). A reset of the tasks leaves the polls that are suspended then to the
  old scheduler and does not follow them. Histories are kept below a root without links whose file names are those
  that the service makes. Characters above 255, the depth of recursion and the size of numbers in JSON texts of
  strangers, and the overflow of \<open>datetime\<close> outside of the tasks are left out.

  \<^bold>\<open>Not modelled.\<close> The life of subprocesses, containers and pseudo terminals after their start
  (\<open>services/execution_backends.py\<close>, \<open>infra/exec\<close>, \<open>services/terminal_bridge.py\<close>): system calls of other processes.
  The HTTP clients of the chat platforms (\<open>infra/im\<close>), the runtime of the agents SDK (\<open>infra/runtime\<close>,
  \<open>services/agent_trigger.py\<close>) and its tools (\<open>container/agent-runner/src/tools\<close>): calls into third-party packages.
  The broadcast of run events (\<open>app/websocket.py\<close>, \<open>app/routes/websocket.py\<close>). The wiring of FastAPI and SQLAlchemy
  (\<open>app/main.py\<close>, \<open>app/openapi.py\<close>, \<open>infra/db\<close>), the Pydantic response classes of \<open>domain/schemas.py\<close>, which
  copy fields, and the operator's scripts.
\<close>

end
